(* ===== verification/Prelude.thy ===== *)
theory Prelude
  imports Main "HOL-Library.Word"
begin

text \<open>
  Shared ground of the development: the machine types of the 32-bit Android target
  (\<open>int\<close> and pointers are 32 bits wide, little endian), the C operations on them that the
  components use, the few functions of the C library that the code calls, and the lemmas
  and the locale that the component theories share.
\<close>

unbundle bit_operations_syntax

section \<open>Machine types\<close>

type_synonym byte = "8 word"
type_synonym u32 = "32 word"
type_synonym GLenum = "32 word"
type_synonym GLuint = "32 word"
type_synonym size_t = "32 word"
type_synonym addr = "32 word"
type_synonym memory = "addr \<Rightarrow> byte"

text \<open>
  A C \<open>int\<close> (\<open>GLint\<close>, \<open>GLsizei\<close>, \<open>GLintptr\<close>) is an Isabelle \<open>int\<close>. Where an operation of
  the code can leave the 32-bit range the wrap-around is written out with \<open>i32\<close>.
\<close>

type_synonym GLint = int
type_synonym GLsizei = int

text \<open>A \<open>GLfloat\<close> is only moved, never computed with: its 32 bits.\<close>

type_synonym GLfloat = "32 word"

definition i32 :: "int \<Rightarrow> int" where
  "i32 x = (x + 2147483648) mod 4294967296 - 2147483648"

definition int_range :: "int \<Rightarrow> bool" where
  "int_range x \<longleftrightarrow> - 2147483648 \<le> x \<and> x < 2147483648"

text \<open>C division of signed integers truncates towards zero.\<close>

definition c_div :: "int \<Rightarrow> int \<Rightarrow> int" where
  "c_div a b = sgn a * sgn b * (\<bar>a\<bar> div \<bar>b\<bar>)"

text \<open>
  Undefined behaviour of C (a NULL dereference, a read or write outside an object) is the
  value \<open>None\<close> of \<open>'a ub\<close>.
\<close>

type_synonym 'a ub = "'a option"

named_theorems model_simps \<open>unfolding equations of the straight-line definitions\<close>

lemma i32_id [simp]: "int_range x \<Longrightarrow> i32 x = x"
  by (simp add: i32_def int_range_def)

lemma i32_range [simp]: "int_range (i32 x)"
  by (simp add: i32_def int_range_def)

lemma int_rangeI [intro]: "- 2147483648 \<le> x \<Longrightarrow> x < 2147483648 \<Longrightarrow> int_range x"
  by (simp add: int_range_def)

lemma c_div_nonneg: "0 \<le> a \<Longrightarrow> 0 < b \<Longrightarrow> c_div a b = a div b"
  by (cases "a = 0") (simp_all add: c_div_def)

lemma c_div_exact: "0 < b \<Longrightarrow> 0 \<le> a \<Longrightarrow> c_div (a * b) b = a"
  by (simp add: c_div_nonneg)

text \<open>Unsigned arithmetic that does not wrap.\<close>

lemma unat_of_nat32: "n < 4294967296 \<Longrightarrow> unat (word_of_nat n :: 32 word) = n"
  by (simp add: unat_of_nat take_bit_nat_eq_self)

lemma unat_mult32:
  assumes "n * unat (v :: 32 word) < 4294967296"
  shows "unat (word_of_nat n * v) = n * unat v"
proof -
  have "word_of_nat n * v = word_of_nat (n * unat v)" by simp
  then show ?thesis using assms by (simp only: unat_of_nat32)
qed

lemma unat_add32:
  assumes "unat a + unat b < 4294967296"
  shows "unat (a + b :: 32 word) = unat a + unat b"
proof -
  have "a + b = word_of_nat (unat a + unat b)" by simp
  then show ?thesis using assms by (simp only: unat_of_nat32)
qed

lemma unat_less32: "unat (a :: 32 word) < 4294967296"
proof -
  have "(unat a :: nat) < 2 ^ LENGTH(32)" by (rule unsigned_less)
  then show ?thesis by simp
qed

text \<open>Reading a word as a C \<open>int\<close>.\<close>

lemma sint_small32:
  assumes "w < 0x80000000"
  shows "sint (w :: 32 word) = uint w"
proof -
  have "0 \<le> uint w" and "uint w < 2147483648" using assms by (simp_all add: word_less_def)
  then have "- (2 ^ 31) \<le> uint w" and "uint w < 2 ^ 31" by (simp_all add: order_trans [OF _ \<open>0 \<le> uint w\<close>])
  then show ?thesis by (simp add: sint_uint signed_take_bit_int_eq_self_iff)
qed

lemma sint_range32: "int_range (sint (w :: 32 word))"
  using sint_greater_eq [of w] sint_less [of w] by (simp add: int_range_def)

lemma uint_word_of_int32: "0 \<le> x \<Longrightarrow> x < 4294967296 \<Longrightarrow> uint (word_of_int x :: 32 word) = x"
  by (simp add: uint_word_of_int_eq take_bit_int_eq_self)

lemma sint_word_of_int32: "int_range x \<Longrightarrow> sint (word_of_int x :: 32 word) = x"
  by (simp add: sint_sbintrunc' signed_take_bit_int_eq_self_iff int_range_def)

section \<open>Memory\<close>

text \<open>\<open>n\<close> bytes of client memory from address \<open>p\<close> on, addresses wrapping at 32 bits.\<close>

definition read_mem :: "memory \<Rightarrow> addr \<Rightarrow> nat \<Rightarrow> byte list" where
  "read_mem m p n = map (\<lambda>k. m (p + word_of_nat k)) [0..<n]"

lemma length_read_mem [simp]: "length (read_mem m p n) = n"
  by (simp add: read_mem_def)

lemma nth_read_mem [simp]: "k < n \<Longrightarrow> read_mem m p n ! k = m (p + word_of_nat k)"
  by (simp add: read_mem_def)

lemma read_mem_0 [simp]: "read_mem m p 0 = []"
  by (simp add: read_mem_def)

lemma read_mem_append:
  "read_mem m p (a + b) = read_mem m p a @ read_mem m (p + word_of_nat a) b"
proof (rule nth_equalityI)
  fix k
  assume "k < length (read_mem m p (a + b))"
  then have k: "k < a + b" by simp
  show "read_mem m p (a + b) ! k
        = (read_mem m p a @ read_mem m (p + word_of_nat a) b) ! k"
  proof (cases "k < a")
    case True
    then show ?thesis by (simp add: nth_append)
  next
    case False
    then obtain j where "k = a + j" by (metis le_add_diff_inverse not_less)
    with k show ?thesis by (simp add: nth_append add.assoc)
  qed
qed simp

text \<open>\<open>memcpy\<close> of \<open>src\<close> into the object \<open>dst\<close> at offset \<open>off\<close>; outside of it, undefined.\<close>

definition blit :: "'a list \<Rightarrow> nat \<Rightarrow> 'a list \<Rightarrow> 'a list ub" where
  "blit dst off src =
     (if off + length src \<le> length dst
      then Some (take off dst @ src @ drop (off + length src) dst) else None)"

lemma blit_Some_iff:
  "blit dst off src = Some d \<longleftrightarrow>
     off + length src \<le> length dst \<and> d = take off dst @ src @ drop (off + length src) dst"
  by (auto simp: blit_def)

lemma length_blit: "blit dst off src = Some d \<Longrightarrow> length d = length dst"
  by (auto simp: blit_def split: if_splits)

lemma nth_blit_in:
  "blit dst off src = Some d \<Longrightarrow> off \<le> k \<Longrightarrow> k < off + length src \<Longrightarrow> d ! k = src ! (k - off)"
  by (auto simp: blit_Some_iff nth_append)

lemma nth_blit_out:
  "blit dst off src = Some d \<Longrightarrow> k < off \<or> off + length src \<le> k \<Longrightarrow> k < length dst
   \<Longrightarrow> d ! k = dst ! k"
  by (auto simp: blit_Some_iff nth_append min_def)

section \<open>The C library's binary search\<close>

text \<open>
  \<open>bsearch\<close> halves the range that starts at \<open>lo\<close> and holds \<open>n\<close> elements; \<open>cmp x\<close> is the
  comparison of the key with the element \<open>x\<close>.
\<close>

fun bsearch :: "('a \<Rightarrow> int) \<Rightarrow> 'a list \<Rightarrow> nat \<Rightarrow> nat \<Rightarrow> nat option" where
  "bsearch cmp xs lo n =
     (if n = 0 then None
      else let m = lo + n div 2; c = cmp (xs ! m) in
        if c = 0 then Some m
        else if 0 < c then bsearch cmp xs (Suc m) (n - n div 2 - 1)
        else bsearch cmp xs lo (n div 2))"

declare bsearch.simps [simp del]

text \<open>
  On an array ordered by the comparison (elements before \<open>k\<close> compare above the key's
  place, elements after it below) the search finds an element exactly when there is one.
\<close>

lemma bsearch_Some:
  assumes "bsearch cmp xs lo n = Some m"
  shows "lo \<le> m \<and> m < lo + n \<and> cmp (xs ! m) = 0"
  using assms
proof (induction cmp xs lo n rule: bsearch.induct)
  case (1 cmp xs lo n)
  define h where "h = lo + n div 2"
  have n: "0 < n"
    using "1.prems" by (cases "n = 0") (auto simp: bsearch.simps [of cmp xs lo 0])
  then have n2: "n div 2 < n" by simp
  consider "cmp (xs ! h) = 0" | "0 < cmp (xs ! h)" | "cmp (xs ! h) < 0" by linarith
  then show ?case
  proof cases
    case 1
    with "1.prems" n show ?thesis
      by (auto simp: bsearch.simps [of cmp xs lo n] h_def Let_def)
  next
    case 2
    with "1.prems" n have r: "bsearch cmp xs (Suc h) (n - n div 2 - 1) = Some m"
      by (simp add: bsearch.simps [of cmp xs lo n] h_def Let_def)
    have "Suc h \<le> m \<and> m < Suc h + (n - n div 2 - 1) \<and> cmp (xs ! m) = 0"
      using "1.IH"(1) [of h "cmp (xs ! h)"] n 2 r unfolding h_def by fastforce
    then show ?thesis using n n2 unfolding h_def by linarith
  next
    case 3
    with "1.prems" n have r: "bsearch cmp xs lo (n div 2) = Some m"
      by (simp add: bsearch.simps [of cmp xs lo n] h_def Let_def)
    have "lo \<le> m \<and> m < lo + n div 2 \<and> cmp (xs ! m) = 0"
      using "1.IH"(2) [of h "cmp (xs ! h)"] n 3 r unfolding h_def by fastforce
    then show ?thesis using n2 by linarith
  qed
qed

lemma bsearch_complete:
  assumes "lo \<le> k" and "k < lo + n" and "cmp (xs ! k) = 0"
    and "\<And>i. lo \<le> i \<Longrightarrow> i < k \<Longrightarrow> 0 < cmp (xs ! i)"
    and "\<And>i. k < i \<Longrightarrow> i < lo + n \<Longrightarrow> cmp (xs ! i) < 0"
  shows "bsearch cmp xs lo n = Some k"
  using assms
proof (induction cmp xs lo n rule: bsearch.induct)
  case (1 cmp xs lo n)
  define h where "h = lo + n div 2"
  have n: "n \<noteq> 0" using "1.prems"(1,2) by linarith
  consider "k = h" | "h < k" | "k < h" by linarith
  then show ?case
  proof cases
    case 1
    with "1.prems"(3) n show ?thesis
      by (simp add: bsearch.simps [of cmp xs lo n] h_def Let_def)
  next
    case 2
    then have pos: "0 < cmp (xs ! h)" using "1.prems"(4) by (simp add: h_def)
    then have nz: "cmp (xs ! h) \<noteq> 0" by simp
    have "bsearch cmp xs (Suc h) (n - n div 2 - 1) = Some k"
    proof (rule "1.IH"(1) [OF n h_def refl nz pos])
      show "Suc h \<le> k" and "k < Suc h + (n - n div 2 - 1)"
        using 2 "1.prems"(2) by (auto simp: h_def)
    qed (use "1.prems" in \<open>auto simp: h_def\<close>)
    with pos n show ?thesis
      by (simp add: bsearch.simps [of cmp xs lo n] h_def Let_def)
  next
    case 3
    then have neg: "cmp (xs ! h) < 0" using "1.prems"(5) n by (simp add: h_def)
    then have nz: "cmp (xs ! h) \<noteq> 0" and np: "\<not> 0 < cmp (xs ! h)" by simp_all
    have "bsearch cmp xs lo (n div 2) = Some k"
    proof (rule "1.IH"(2) [OF n h_def refl nz np])
      show "k < lo + n div 2" using 3 by (simp add: h_def)
    qed (use "1.prems" in auto)
    with neg n show ?thesis
      by (simp add: bsearch.simps [of cmp xs lo n] h_def Let_def)
  qed
qed

section \<open>Systems of steps\<close>

text \<open>
  The contract every stateful component meets: its operations, collected in a step
  function, keep its invariant as long as their arguments are admissible. What follows for
  whole runs is proved once.
\<close>

locale step_system =
  fixes step :: "'s \<Rightarrow> 'e \<Rightarrow> 's"
    and inv :: "'s \<Rightarrow> bool"
    and ok :: "'e \<Rightarrow> bool"
  assumes step_inv: "inv s \<Longrightarrow> ok e \<Longrightarrow> inv (step s e)"
begin

lemma run_inv: "inv s \<Longrightarrow> list_all ok es \<Longrightarrow> inv (foldl step s es)"
  by (induction es arbitrary: s) (auto intro: step_inv)

lemma run_prefix_inv: "inv s \<Longrightarrow> list_all ok es \<Longrightarrow> inv (foldl step s (take n es))"
  by (rule run_inv) (auto simp: list_all_iff dest: in_set_takeD)

end

section \<open>Little-endian words\<close>

definition le32 :: "u32 \<Rightarrow> byte list" where
  "le32 w = [ucast w, ucast (drop_bit 8 w), ucast (drop_bit 16 w), ucast (drop_bit 24 w)]"

definition rd32 :: "byte list \<Rightarrow> u32" where
  "rd32 bs = ucast (bs ! 0) OR push_bit 8 (ucast (bs ! 1))
     OR push_bit 16 (ucast (bs ! 2)) OR push_bit 24 (ucast (bs ! 3))"

lemma length_le32 [simp]: "length (le32 w) = 4"
  by (simp add: le32_def)

lemma rd32_le32: "rd32 (le32 w @ bs) = w"
proof (rule bit_word_eqI)
  fix n
  assume n: "n < LENGTH(32)"
  consider "n < 8" | "8 \<le> n" "n < 16" | "16 \<le> n" "n < 24" | "24 \<le> n" by linarith
  then show "bit (rd32 (le32 w @ bs)) n = bit w n"
    using n by cases (auto simp: rd32_def le32_def bit_simps)
qed

section \<open>Text\<close>

text \<open>\<open>%d\<close> of a number.\<close>

fun nat_digits :: "nat \<Rightarrow> string" where
  "nat_digits n = (if n < 10 then [char_of (48 + n)] else nat_digits (n div 10) @ [char_of (48 + n mod 10)])"

definition print_int :: "int \<Rightarrow> string" where
  "print_int i = (if i < 0 then CHR ''-'' # nat_digits (nat (- i)) else nat_digits (nat i))"

declare nat_digits.simps [simp del]

end
