(* ===== verification/GL_Enums.thy ===== *)
theory GL_Enums
  imports Prelude
begin

text \<open>
  The enumerants of OpenGL ES 1.1, 2.0 and their extensions that the code names. The headers
  that define them (\<open>GLES/gl.h\<close>, \<open>GLES2/gl2.h\<close> and their extension headers) belong to the
  Android platform, outside this repository: the values are the ones of the Khronos registry,
  and many of them also stand in \<open>vbox86/virtualbox/include/VBox/HostServices/glext.h\<close>.
\<close>

abbreviation (input) GL_ACTIVE_ATTRIBUTES :: "32 word" where "GL_ACTIVE_ATTRIBUTES \<equiv> 0x8b89"
abbreviation (input) GL_ACTIVE_TEXTURE :: "32 word" where "GL_ACTIVE_TEXTURE \<equiv> 0x84e0"
abbreviation (input) GL_ACTIVE_UNIFORMS :: "32 word" where "GL_ACTIVE_UNIFORMS \<equiv> 0x8b86"
abbreviation (input) GL_ACTIVE_UNIFORM_MAX_LENGTH :: "32 word" where "GL_ACTIVE_UNIFORM_MAX_LENGTH \<equiv> 0x8b87"
abbreviation (input) GL_ALIASED_LINE_WIDTH_RANGE :: "32 word" where "GL_ALIASED_LINE_WIDTH_RANGE \<equiv> 0x846e"
abbreviation (input) GL_ALIASED_POINT_SIZE_RANGE :: "32 word" where "GL_ALIASED_POINT_SIZE_RANGE \<equiv> 0x846d"
abbreviation (input) GL_ALPHA :: "32 word" where "GL_ALPHA \<equiv> 0x1906"
abbreviation (input) GL_ALPHA_BITS :: "32 word" where "GL_ALPHA_BITS \<equiv> 0xd55"
abbreviation (input) GL_ALPHA_SCALE :: "32 word" where "GL_ALPHA_SCALE \<equiv> 0xd1c"
abbreviation (input) GL_ALPHA_TEST :: "32 word" where "GL_ALPHA_TEST \<equiv> 0xbc0"
abbreviation (input) GL_ALPHA_TEST_FUNC :: "32 word" where "GL_ALPHA_TEST_FUNC \<equiv> 0xbc1"
abbreviation (input) GL_ALPHA_TEST_REF :: "32 word" where "GL_ALPHA_TEST_REF \<equiv> 0xbc2"
abbreviation (input) GL_AMBIENT :: "32 word" where "GL_AMBIENT \<equiv> 0x1200"
abbreviation (input) GL_AMBIENT_AND_DIFFUSE :: "32 word" where "GL_AMBIENT_AND_DIFFUSE \<equiv> 0x1602"
abbreviation (input) GL_ARRAY_BUFFER :: "32 word" where "GL_ARRAY_BUFFER \<equiv> 0x8892"
abbreviation (input) GL_ARRAY_BUFFER_BINDING :: "32 word" where "GL_ARRAY_BUFFER_BINDING \<equiv> 0x8894"
abbreviation (input) GL_ATTACHED_SHADERS :: "32 word" where "GL_ATTACHED_SHADERS \<equiv> 0x8b85"
abbreviation (input) GL_BGRA_EXT :: "32 word" where "GL_BGRA_EXT \<equiv> 0x80e1"
abbreviation (input) GL_BLEND :: "32 word" where "GL_BLEND \<equiv> 0xbe2"
abbreviation (input) GL_BLEND_COLOR :: "32 word" where "GL_BLEND_COLOR \<equiv> 0x8005"
abbreviation (input) GL_BLEND_DST :: "32 word" where "GL_BLEND_DST \<equiv> 0xbe0"
abbreviation (input) GL_BLEND_DST_ALPHA_OES :: "32 word" where "GL_BLEND_DST_ALPHA_OES \<equiv> 0x80ca"
abbreviation (input) GL_BLEND_DST_RGB_OES :: "32 word" where "GL_BLEND_DST_RGB_OES \<equiv> 0x80c8"
abbreviation (input) GL_BLEND_EQUATION_ALPHA_OES :: "32 word" where "GL_BLEND_EQUATION_ALPHA_OES \<equiv> 0x883d"
abbreviation (input) GL_BLEND_EQUATION_RGB_OES :: "32 word" where "GL_BLEND_EQUATION_RGB_OES \<equiv> 0x8009"
abbreviation (input) GL_BLEND_SRC :: "32 word" where "GL_BLEND_SRC \<equiv> 0xbe1"
abbreviation (input) GL_BLEND_SRC_ALPHA_OES :: "32 word" where "GL_BLEND_SRC_ALPHA_OES \<equiv> 0x80cb"
abbreviation (input) GL_BLEND_SRC_RGB_OES :: "32 word" where "GL_BLEND_SRC_RGB_OES \<equiv> 0x80c9"
abbreviation (input) GL_BLUE_BITS :: "32 word" where "GL_BLUE_BITS \<equiv> 0xd54"
abbreviation (input) GL_BOOL :: "32 word" where "GL_BOOL \<equiv> 0x8b56"
abbreviation (input) GL_BOOL_VEC2 :: "32 word" where "GL_BOOL_VEC2 \<equiv> 0x8b57"
abbreviation (input) GL_BOOL_VEC3 :: "32 word" where "GL_BOOL_VEC3 \<equiv> 0x8b58"
abbreviation (input) GL_BOOL_VEC4 :: "32 word" where "GL_BOOL_VEC4 \<equiv> 0x8b59"
abbreviation (input) GL_BYTE :: "32 word" where "GL_BYTE \<equiv> 0x1400"
abbreviation (input) GL_CLAMP_TO_EDGE :: "32 word" where "GL_CLAMP_TO_EDGE \<equiv> 0x812f"
abbreviation (input) GL_CLIENT_ACTIVE_TEXTURE :: "32 word" where "GL_CLIENT_ACTIVE_TEXTURE \<equiv> 0x84e1"
abbreviation (input) GL_CLIP_PLANE0 :: "32 word" where "GL_CLIP_PLANE0 \<equiv> 0x3000"
abbreviation (input) GL_CLIP_PLANE1 :: "32 word" where "GL_CLIP_PLANE1 \<equiv> 0x3001"
abbreviation (input) GL_CLIP_PLANE2 :: "32 word" where "GL_CLIP_PLANE2 \<equiv> 0x3002"
abbreviation (input) GL_CLIP_PLANE3 :: "32 word" where "GL_CLIP_PLANE3 \<equiv> 0x3003"
abbreviation (input) GL_CLIP_PLANE4 :: "32 word" where "GL_CLIP_PLANE4 \<equiv> 0x3004"
abbreviation (input) GL_CLIP_PLANE5 :: "32 word" where "GL_CLIP_PLANE5 \<equiv> 0x3005"
abbreviation (input) GL_COLOR_ARRAY :: "32 word" where "GL_COLOR_ARRAY \<equiv> 0x8076"
abbreviation (input) GL_COLOR_ARRAY_BUFFER_BINDING :: "32 word" where "GL_COLOR_ARRAY_BUFFER_BINDING \<equiv> 0x8898"
abbreviation (input) GL_COLOR_ARRAY_POINTER :: "32 word" where "GL_COLOR_ARRAY_POINTER \<equiv> 0x8090"
abbreviation (input) GL_COLOR_ARRAY_SIZE :: "32 word" where "GL_COLOR_ARRAY_SIZE \<equiv> 0x8081"
abbreviation (input) GL_COLOR_ARRAY_STRIDE :: "32 word" where "GL_COLOR_ARRAY_STRIDE \<equiv> 0x8083"
abbreviation (input) GL_COLOR_ARRAY_TYPE :: "32 word" where "GL_COLOR_ARRAY_TYPE \<equiv> 0x8082"
abbreviation (input) GL_COLOR_CLEAR_VALUE :: "32 word" where "GL_COLOR_CLEAR_VALUE \<equiv> 0xc22"
abbreviation (input) GL_COLOR_LOGIC_OP :: "32 word" where "GL_COLOR_LOGIC_OP \<equiv> 0xbf2"
abbreviation (input) GL_COLOR_MATERIAL :: "32 word" where "GL_COLOR_MATERIAL \<equiv> 0xb57"
abbreviation (input) GL_COLOR_WRITEMASK :: "32 word" where "GL_COLOR_WRITEMASK \<equiv> 0xc23"
abbreviation (input) GL_COMBINE_ALPHA :: "32 word" where "GL_COMBINE_ALPHA \<equiv> 0x8572"
abbreviation (input) GL_COMBINE_RGB :: "32 word" where "GL_COMBINE_RGB \<equiv> 0x8571"
abbreviation (input) GL_COMPILE_STATUS :: "32 word" where "GL_COMPILE_STATUS \<equiv> 0x8b81"
abbreviation (input) GL_COMPRESSED_TEXTURE_FORMATS :: "32 word" where "GL_COMPRESSED_TEXTURE_FORMATS \<equiv> 0x86a3"
abbreviation (input) GL_CONSTANT_ATTENUATION :: "32 word" where "GL_CONSTANT_ATTENUATION \<equiv> 0x1207"
abbreviation (input) GL_COORD_REPLACE_OES :: "32 word" where "GL_COORD_REPLACE_OES \<equiv> 0x8862"
abbreviation (input) GL_CULL_FACE :: "32 word" where "GL_CULL_FACE \<equiv> 0xb44"
abbreviation (input) GL_CULL_FACE_MODE :: "32 word" where "GL_CULL_FACE_MODE \<equiv> 0xb45"
abbreviation (input) GL_CURRENT_COLOR :: "32 word" where "GL_CURRENT_COLOR \<equiv> 0xb00"
abbreviation (input) GL_CURRENT_NORMAL :: "32 word" where "GL_CURRENT_NORMAL \<equiv> 0xb02"
abbreviation (input) GL_CURRENT_PROGRAM :: "32 word" where "GL_CURRENT_PROGRAM \<equiv> 0x8b8d"
abbreviation (input) GL_CURRENT_TEXTURE_COORDS :: "32 word" where "GL_CURRENT_TEXTURE_COORDS \<equiv> 0xb03"
abbreviation (input) GL_CURRENT_VERTEX_ATTRIB :: "32 word" where "GL_CURRENT_VERTEX_ATTRIB \<equiv> 0x8626"
abbreviation (input) GL_DELETE_STATUS :: "32 word" where "GL_DELETE_STATUS \<equiv> 0x8b80"
abbreviation (input) GL_DEPTH_BITS :: "32 word" where "GL_DEPTH_BITS \<equiv> 0xd56"
abbreviation (input) GL_DEPTH_CLEAR_VALUE :: "32 word" where "GL_DEPTH_CLEAR_VALUE \<equiv> 0xb73"
abbreviation (input) GL_DEPTH_COMPONENT :: "32 word" where "GL_DEPTH_COMPONENT \<equiv> 0x1902"
abbreviation (input) GL_DEPTH_FUNC :: "32 word" where "GL_DEPTH_FUNC \<equiv> 0xb74"
abbreviation (input) GL_DEPTH_RANGE :: "32 word" where "GL_DEPTH_RANGE \<equiv> 0xb70"
abbreviation (input) GL_DEPTH_STENCIL_OES :: "32 word" where "GL_DEPTH_STENCIL_OES \<equiv> 0x84f9"
abbreviation (input) GL_DEPTH_TEST :: "32 word" where "GL_DEPTH_TEST \<equiv> 0xb71"
abbreviation (input) GL_DEPTH_WRITEMASK :: "32 word" where "GL_DEPTH_WRITEMASK \<equiv> 0xb72"
abbreviation (input) GL_DIFFUSE :: "32 word" where "GL_DIFFUSE \<equiv> 0x1201"
abbreviation (input) GL_DITHER :: "32 word" where "GL_DITHER \<equiv> 0xbd0"
abbreviation (input) GL_ELEMENT_ARRAY_BUFFER :: "32 word" where "GL_ELEMENT_ARRAY_BUFFER \<equiv> 0x8893"
abbreviation (input) GL_ELEMENT_ARRAY_BUFFER_BINDING :: "32 word" where "GL_ELEMENT_ARRAY_BUFFER_BINDING \<equiv> 0x8895"
abbreviation (input) GL_EMISSION :: "32 word" where "GL_EMISSION \<equiv> 0x1600"
abbreviation (input) GL_EXTENSIONS :: "32 word" where "GL_EXTENSIONS \<equiv> 0x1f03"
abbreviation (input) GL_FENCE_CONDITION_NV :: "32 word" where "GL_FENCE_CONDITION_NV \<equiv> 0x84f4"
abbreviation (input) GL_FENCE_STATUS_NV :: "32 word" where "GL_FENCE_STATUS_NV \<equiv> 0x84f3"
abbreviation (input) GL_FIXED :: "32 word" where "GL_FIXED \<equiv> 0x140c"
abbreviation (input) GL_FLOAT :: "32 word" where "GL_FLOAT \<equiv> 0x1406"
abbreviation (input) GL_FLOAT_MAT2 :: "32 word" where "GL_FLOAT_MAT2 \<equiv> 0x8b5a"
abbreviation (input) GL_FLOAT_MAT3 :: "32 word" where "GL_FLOAT_MAT3 \<equiv> 0x8b5b"
abbreviation (input) GL_FLOAT_MAT4 :: "32 word" where "GL_FLOAT_MAT4 \<equiv> 0x8b5c"
abbreviation (input) GL_FLOAT_VEC2 :: "32 word" where "GL_FLOAT_VEC2 \<equiv> 0x8b50"
abbreviation (input) GL_FLOAT_VEC3 :: "32 word" where "GL_FLOAT_VEC3 \<equiv> 0x8b51"
abbreviation (input) GL_FLOAT_VEC4 :: "32 word" where "GL_FLOAT_VEC4 \<equiv> 0x8b52"
abbreviation (input) GL_FOG_COLOR :: "32 word" where "GL_FOG_COLOR \<equiv> 0xb66"
abbreviation (input) GL_FOG_DENSITY :: "32 word" where "GL_FOG_DENSITY \<equiv> 0xb62"
abbreviation (input) GL_FOG_END :: "32 word" where "GL_FOG_END \<equiv> 0xb64"
abbreviation (input) GL_FOG_MODE :: "32 word" where "GL_FOG_MODE \<equiv> 0xb65"
abbreviation (input) GL_FOG_START :: "32 word" where "GL_FOG_START \<equiv> 0xb63"
abbreviation (input) GL_FRAGMENT_SHADER_DERIVATIVE_HINT_OES :: "32 word" where "GL_FRAGMENT_SHADER_DERIVATIVE_HINT_OES \<equiv> 0x8b8b"
abbreviation (input) GL_FRAMEBUFFER_ATTACHMENT_OBJECT_NAME_OES :: "32 word" where "GL_FRAMEBUFFER_ATTACHMENT_OBJECT_NAME_OES \<equiv> 0x8cd1"
abbreviation (input) GL_FRAMEBUFFER_ATTACHMENT_OBJECT_TYPE_OES :: "32 word" where "GL_FRAMEBUFFER_ATTACHMENT_OBJECT_TYPE_OES \<equiv> 0x8cd0"
abbreviation (input) GL_FRAMEBUFFER_ATTACHMENT_TEXTURE_CUBE_MAP_FACE_OES :: "32 word" where "GL_FRAMEBUFFER_ATTACHMENT_TEXTURE_CUBE_MAP_FACE_OES \<equiv> 0x8cd3"
abbreviation (input) GL_FRAMEBUFFER_ATTACHMENT_TEXTURE_LEVEL_OES :: "32 word" where "GL_FRAMEBUFFER_ATTACHMENT_TEXTURE_LEVEL_OES \<equiv> 0x8cd2"
abbreviation (input) GL_FRAMEBUFFER_BINDING :: "32 word" where "GL_FRAMEBUFFER_BINDING \<equiv> 0x8ca6"
abbreviation (input) GL_FRONT_FACE :: "32 word" where "GL_FRONT_FACE \<equiv> 0xb46"
abbreviation (input) GL_GENERATE_MIPMAP :: "32 word" where "GL_GENERATE_MIPMAP \<equiv> 0x8191"
abbreviation (input) GL_GENERATE_MIPMAP_HINT :: "32 word" where "GL_GENERATE_MIPMAP_HINT \<equiv> 0x8192"
abbreviation (input) GL_GREEN_BITS :: "32 word" where "GL_GREEN_BITS \<equiv> 0xd53"
abbreviation (input) GL_HALF_FLOAT_OES :: "32 word" where "GL_HALF_FLOAT_OES \<equiv> 0x8d61"
abbreviation (input) GL_IMPLEMENTATION_COLOR_READ_FORMAT_OES :: "32 word" where "GL_IMPLEMENTATION_COLOR_READ_FORMAT_OES \<equiv> 0x8b9b"
abbreviation (input) GL_IMPLEMENTATION_COLOR_READ_TYPE_OES :: "32 word" where "GL_IMPLEMENTATION_COLOR_READ_TYPE_OES \<equiv> 0x8b9a"
abbreviation (input) GL_INFO_LOG_LENGTH :: "32 word" where "GL_INFO_LOG_LENGTH \<equiv> 0x8b84"
abbreviation (input) GL_INT :: "32 word" where "GL_INT \<equiv> 0x1404"
abbreviation (input) GL_INT_VEC2 :: "32 word" where "GL_INT_VEC2 \<equiv> 0x8b53"
abbreviation (input) GL_INT_VEC3 :: "32 word" where "GL_INT_VEC3 \<equiv> 0x8b54"
abbreviation (input) GL_INT_VEC4 :: "32 word" where "GL_INT_VEC4 \<equiv> 0x8b55"
abbreviation (input) GL_INVALID_ENUM :: "32 word" where "GL_INVALID_ENUM \<equiv> 0x500"
abbreviation (input) GL_INVALID_OPERATION :: "32 word" where "GL_INVALID_OPERATION \<equiv> 0x502"
abbreviation (input) GL_INVALID_VALUE :: "32 word" where "GL_INVALID_VALUE \<equiv> 0x501"
abbreviation (input) GL_LIGHT_MODEL_AMBIENT :: "32 word" where "GL_LIGHT_MODEL_AMBIENT \<equiv> 0xb53"
abbreviation (input) GL_LIGHT_MODEL_TWO_SIDE :: "32 word" where "GL_LIGHT_MODEL_TWO_SIDE \<equiv> 0xb52"
abbreviation (input) GL_LINEAR :: "32 word" where "GL_LINEAR \<equiv> 0x2601"
abbreviation (input) GL_LINEAR_ATTENUATION :: "32 word" where "GL_LINEAR_ATTENUATION \<equiv> 0x1208"
abbreviation (input) GL_LINE_WIDTH :: "32 word" where "GL_LINE_WIDTH \<equiv> 0xb21"
abbreviation (input) GL_LINK_STATUS :: "32 word" where "GL_LINK_STATUS \<equiv> 0x8b82"
abbreviation (input) GL_LOGIC_OP_MODE :: "32 word" where "GL_LOGIC_OP_MODE \<equiv> 0xbf0"
abbreviation (input) GL_LUMINANCE :: "32 word" where "GL_LUMINANCE \<equiv> 0x1909"
abbreviation (input) GL_LUMINANCE_ALPHA :: "32 word" where "GL_LUMINANCE_ALPHA \<equiv> 0x190a"
abbreviation (input) GL_MATRIX_INDEX_ARRAY_BUFFER_BINDING_OES :: "32 word" where "GL_MATRIX_INDEX_ARRAY_BUFFER_BINDING_OES \<equiv> 0x8b9e"
abbreviation (input) GL_MATRIX_INDEX_ARRAY_OES :: "32 word" where "GL_MATRIX_INDEX_ARRAY_OES \<equiv> 0x8844"
abbreviation (input) GL_MATRIX_INDEX_ARRAY_POINTER_OES :: "32 word" where "GL_MATRIX_INDEX_ARRAY_POINTER_OES \<equiv> 0x8849"
abbreviation (input) GL_MATRIX_INDEX_ARRAY_SIZE_OES :: "32 word" where "GL_MATRIX_INDEX_ARRAY_SIZE_OES \<equiv> 0x8846"
abbreviation (input) GL_MATRIX_INDEX_ARRAY_STRIDE_OES :: "32 word" where "GL_MATRIX_INDEX_ARRAY_STRIDE_OES \<equiv> 0x8848"
abbreviation (input) GL_MATRIX_INDEX_ARRAY_TYPE_OES :: "32 word" where "GL_MATRIX_INDEX_ARRAY_TYPE_OES \<equiv> 0x8847"
abbreviation (input) GL_MATRIX_MODE :: "32 word" where "GL_MATRIX_MODE \<equiv> 0xba0"
abbreviation (input) GL_MAX_CLIP_PLANES :: "32 word" where "GL_MAX_CLIP_PLANES \<equiv> 0xd32"
abbreviation (input) GL_MAX_COMBINED_TEXTURE_IMAGE_UNITS :: "32 word" where "GL_MAX_COMBINED_TEXTURE_IMAGE_UNITS \<equiv> 0x8b4d"
abbreviation (input) GL_MAX_CUBE_MAP_TEXTURE_SIZE :: "32 word" where "GL_MAX_CUBE_MAP_TEXTURE_SIZE \<equiv> 0x851c"
abbreviation (input) GL_MAX_FRAGMENT_UNIFORM_VECTORS :: "32 word" where "GL_MAX_FRAGMENT_UNIFORM_VECTORS \<equiv> 0x8dfd"
abbreviation (input) GL_MAX_LIGHTS :: "32 word" where "GL_MAX_LIGHTS \<equiv> 0xd31"
abbreviation (input) GL_MAX_MODELVIEW_STACK_DEPTH :: "32 word" where "GL_MAX_MODELVIEW_STACK_DEPTH \<equiv> 0xd36"
abbreviation (input) GL_MAX_PROJECTION_STACK_DEPTH :: "32 word" where "GL_MAX_PROJECTION_STACK_DEPTH \<equiv> 0xd38"
abbreviation (input) GL_MAX_RENDERBUFFER_SIZE :: "32 word" where "GL_MAX_RENDERBUFFER_SIZE \<equiv> 0x84e8"
abbreviation (input) GL_MAX_TEXTURE_IMAGE_UNITS :: "32 word" where "GL_MAX_TEXTURE_IMAGE_UNITS \<equiv> 0x8872"
abbreviation (input) GL_MAX_TEXTURE_SIZE :: "32 word" where "GL_MAX_TEXTURE_SIZE \<equiv> 0xd33"
abbreviation (input) GL_MAX_TEXTURE_STACK_DEPTH :: "32 word" where "GL_MAX_TEXTURE_STACK_DEPTH \<equiv> 0xd39"
abbreviation (input) GL_MAX_TEXTURE_UNITS :: "32 word" where "GL_MAX_TEXTURE_UNITS \<equiv> 0x84e2"
abbreviation (input) GL_MAX_VARYING_VECTORS :: "32 word" where "GL_MAX_VARYING_VECTORS \<equiv> 0x8dfc"
abbreviation (input) GL_MAX_VERTEX_ATTRIBS :: "32 word" where "GL_MAX_VERTEX_ATTRIBS \<equiv> 0x8869"
abbreviation (input) GL_MAX_VERTEX_TEXTURE_IMAGE_UNITS :: "32 word" where "GL_MAX_VERTEX_TEXTURE_IMAGE_UNITS \<equiv> 0x8b4c"
abbreviation (input) GL_MAX_VERTEX_UNIFORM_VECTORS :: "32 word" where "GL_MAX_VERTEX_UNIFORM_VECTORS \<equiv> 0x8dfb"
abbreviation (input) GL_MAX_VIEWPORT_DIMS :: "32 word" where "GL_MAX_VIEWPORT_DIMS \<equiv> 0xd3a"
abbreviation (input) GL_MODELVIEW_MATRIX :: "32 word" where "GL_MODELVIEW_MATRIX \<equiv> 0xba6"
abbreviation (input) GL_MODELVIEW_STACK_DEPTH :: "32 word" where "GL_MODELVIEW_STACK_DEPTH \<equiv> 0xba3"
abbreviation (input) GL_NEAREST :: "32 word" where "GL_NEAREST \<equiv> 0x2600"
abbreviation (input) GL_NORMAL_ARRAY :: "32 word" where "GL_NORMAL_ARRAY \<equiv> 0x8075"
abbreviation (input) GL_NORMAL_ARRAY_BUFFER_BINDING :: "32 word" where "GL_NORMAL_ARRAY_BUFFER_BINDING \<equiv> 0x8897"
abbreviation (input) GL_NORMAL_ARRAY_POINTER :: "32 word" where "GL_NORMAL_ARRAY_POINTER \<equiv> 0x808f"
abbreviation (input) GL_NORMAL_ARRAY_STRIDE :: "32 word" where "GL_NORMAL_ARRAY_STRIDE \<equiv> 0x807f"
abbreviation (input) GL_NORMAL_ARRAY_TYPE :: "32 word" where "GL_NORMAL_ARRAY_TYPE \<equiv> 0x807e"
abbreviation (input) GL_NO_ERROR :: "32 word" where "GL_NO_ERROR \<equiv> 0x0"
abbreviation (input) GL_NUM_COMPRESSED_TEXTURE_FORMATS :: "32 word" where "GL_NUM_COMPRESSED_TEXTURE_FORMATS \<equiv> 0x86a2"
abbreviation (input) GL_NUM_SHADER_BINARY_FORMATS :: "32 word" where "GL_NUM_SHADER_BINARY_FORMATS \<equiv> 0x8df9"
abbreviation (input) GL_OPERAND0_ALPHA :: "32 word" where "GL_OPERAND0_ALPHA \<equiv> 0x8598"
abbreviation (input) GL_OPERAND0_RGB :: "32 word" where "GL_OPERAND0_RGB \<equiv> 0x8590"
abbreviation (input) GL_OPERAND1_ALPHA :: "32 word" where "GL_OPERAND1_ALPHA \<equiv> 0x8599"
abbreviation (input) GL_OPERAND1_RGB :: "32 word" where "GL_OPERAND1_RGB \<equiv> 0x8591"
abbreviation (input) GL_OPERAND2_ALPHA :: "32 word" where "GL_OPERAND2_ALPHA \<equiv> 0x859a"
abbreviation (input) GL_OPERAND2_RGB :: "32 word" where "GL_OPERAND2_RGB \<equiv> 0x8592"
abbreviation (input) GL_OUT_OF_MEMORY :: "32 word" where "GL_OUT_OF_MEMORY \<equiv> 0x505"
abbreviation (input) GL_PACK_ALIGNMENT :: "32 word" where "GL_PACK_ALIGNMENT \<equiv> 0xd05"
abbreviation (input) GL_PERSPECTIVE_CORRECTION_HINT :: "32 word" where "GL_PERSPECTIVE_CORRECTION_HINT \<equiv> 0xc50"
abbreviation (input) GL_POINT_DISTANCE_ATTENUATION :: "32 word" where "GL_POINT_DISTANCE_ATTENUATION \<equiv> 0x8129"
abbreviation (input) GL_POINT_FADE_THRESHOLD_SIZE :: "32 word" where "GL_POINT_FADE_THRESHOLD_SIZE \<equiv> 0x8128"
abbreviation (input) GL_POINT_SIZE :: "32 word" where "GL_POINT_SIZE \<equiv> 0xb11"
abbreviation (input) GL_POINT_SIZE_ARRAY_BUFFER_BINDING_OES :: "32 word" where "GL_POINT_SIZE_ARRAY_BUFFER_BINDING_OES \<equiv> 0x8b9f"
abbreviation (input) GL_POINT_SIZE_ARRAY_OES :: "32 word" where "GL_POINT_SIZE_ARRAY_OES \<equiv> 0x8b9c"
abbreviation (input) GL_POINT_SIZE_ARRAY_POINTER_OES :: "32 word" where "GL_POINT_SIZE_ARRAY_POINTER_OES \<equiv> 0x898c"
abbreviation (input) GL_POINT_SIZE_ARRAY_STRIDE_OES :: "32 word" where "GL_POINT_SIZE_ARRAY_STRIDE_OES \<equiv> 0x898b"
abbreviation (input) GL_POINT_SIZE_ARRAY_TYPE_OES :: "32 word" where "GL_POINT_SIZE_ARRAY_TYPE_OES \<equiv> 0x898a"
abbreviation (input) GL_POINT_SIZE_MAX :: "32 word" where "GL_POINT_SIZE_MAX \<equiv> 0x8127"
abbreviation (input) GL_POINT_SIZE_MIN :: "32 word" where "GL_POINT_SIZE_MIN \<equiv> 0x8126"
abbreviation (input) GL_POINT_SMOOTH :: "32 word" where "GL_POINT_SMOOTH \<equiv> 0xb10"
abbreviation (input) GL_POINT_SMOOTH_HINT :: "32 word" where "GL_POINT_SMOOTH_HINT \<equiv> 0xc51"
abbreviation (input) GL_POINT_SPRITE_OES :: "32 word" where "GL_POINT_SPRITE_OES \<equiv> 0x8861"
abbreviation (input) GL_POLYGON_OFFSET_FACTOR :: "32 word" where "GL_POLYGON_OFFSET_FACTOR \<equiv> 0x8038"
abbreviation (input) GL_POLYGON_OFFSET_FILL :: "32 word" where "GL_POLYGON_OFFSET_FILL \<equiv> 0x8037"
abbreviation (input) GL_POLYGON_OFFSET_UNITS :: "32 word" where "GL_POLYGON_OFFSET_UNITS \<equiv> 0x2a00"
abbreviation (input) GL_POSITION :: "32 word" where "GL_POSITION \<equiv> 0x1203"
abbreviation (input) GL_PROJECTION_MATRIX :: "32 word" where "GL_PROJECTION_MATRIX \<equiv> 0xba7"
abbreviation (input) GL_PROJECTION_STACK_DEPTH :: "32 word" where "GL_PROJECTION_STACK_DEPTH \<equiv> 0xba4"
abbreviation (input) GL_QUADRATIC_ATTENUATION :: "32 word" where "GL_QUADRATIC_ATTENUATION \<equiv> 0x1209"
abbreviation (input) GL_RED_BITS :: "32 word" where "GL_RED_BITS \<equiv> 0xd52"
abbreviation (input) GL_RENDERBUFFER_ALPHA_SIZE_OES :: "32 word" where "GL_RENDERBUFFER_ALPHA_SIZE_OES \<equiv> 0x8d53"
abbreviation (input) GL_RENDERBUFFER_BINDING :: "32 word" where "GL_RENDERBUFFER_BINDING \<equiv> 0x8ca7"
abbreviation (input) GL_RENDERBUFFER_BLUE_SIZE_OES :: "32 word" where "GL_RENDERBUFFER_BLUE_SIZE_OES \<equiv> 0x8d52"
abbreviation (input) GL_RENDERBUFFER_DEPTH_SIZE_OES :: "32 word" where "GL_RENDERBUFFER_DEPTH_SIZE_OES \<equiv> 0x8d54"
abbreviation (input) GL_RENDERBUFFER_GREEN_SIZE_OES :: "32 word" where "GL_RENDERBUFFER_GREEN_SIZE_OES \<equiv> 0x8d51"
abbreviation (input) GL_RENDERBUFFER_HEIGHT_OES :: "32 word" where "GL_RENDERBUFFER_HEIGHT_OES \<equiv> 0x8d43"
abbreviation (input) GL_RENDERBUFFER_INTERNAL_FORMAT_OES :: "32 word" where "GL_RENDERBUFFER_INTERNAL_FORMAT_OES \<equiv> 0x8d44"
abbreviation (input) GL_RENDERBUFFER_RED_SIZE_OES :: "32 word" where "GL_RENDERBUFFER_RED_SIZE_OES \<equiv> 0x8d50"
abbreviation (input) GL_RENDERBUFFER_STENCIL_SIZE_OES :: "32 word" where "GL_RENDERBUFFER_STENCIL_SIZE_OES \<equiv> 0x8d55"
abbreviation (input) GL_RENDERBUFFER_WIDTH_OES :: "32 word" where "GL_RENDERBUFFER_WIDTH_OES \<equiv> 0x8d42"
abbreviation (input) GL_RENDERER :: "32 word" where "GL_RENDERER \<equiv> 0x1f01"
abbreviation (input) GL_REQUIRED_TEXTURE_IMAGE_UNITS_OES :: "32 word" where "GL_REQUIRED_TEXTURE_IMAGE_UNITS_OES \<equiv> 0x8d68"
abbreviation (input) GL_RESCALE_NORMAL :: "32 word" where "GL_RESCALE_NORMAL \<equiv> 0x803a"
abbreviation (input) GL_RGB :: "32 word" where "GL_RGB \<equiv> 0x1907"
abbreviation (input) GL_RGB565_OES :: "32 word" where "GL_RGB565_OES \<equiv> 0x8d62"
abbreviation (input) GL_RGB5_A1_OES :: "32 word" where "GL_RGB5_A1_OES \<equiv> 0x8057"
abbreviation (input) GL_RGBA :: "32 word" where "GL_RGBA \<equiv> 0x1908"
abbreviation (input) GL_RGBA4_OES :: "32 word" where "GL_RGBA4_OES \<equiv> 0x8056"
abbreviation (input) GL_RGB_SCALE :: "32 word" where "GL_RGB_SCALE \<equiv> 0x8573"
abbreviation (input) GL_SAMPLER_2D :: "32 word" where "GL_SAMPLER_2D \<equiv> 0x8b5e"
abbreviation (input) GL_SAMPLER_CUBE :: "32 word" where "GL_SAMPLER_CUBE \<equiv> 0x8b60"
abbreviation (input) GL_SAMPLES :: "32 word" where "GL_SAMPLES \<equiv> 0x80a9"
abbreviation (input) GL_SAMPLE_ALPHA_TO_COVERAGE :: "32 word" where "GL_SAMPLE_ALPHA_TO_COVERAGE \<equiv> 0x809e"
abbreviation (input) GL_SAMPLE_ALPHA_TO_ONE :: "32 word" where "GL_SAMPLE_ALPHA_TO_ONE \<equiv> 0x809f"
abbreviation (input) GL_SAMPLE_BUFFERS :: "32 word" where "GL_SAMPLE_BUFFERS \<equiv> 0x80a8"
abbreviation (input) GL_SAMPLE_COVERAGE :: "32 word" where "GL_SAMPLE_COVERAGE \<equiv> 0x80a0"
abbreviation (input) GL_SAMPLE_COVERAGE_INVERT :: "32 word" where "GL_SAMPLE_COVERAGE_INVERT \<equiv> 0x80ab"
abbreviation (input) GL_SAMPLE_COVERAGE_VALUE :: "32 word" where "GL_SAMPLE_COVERAGE_VALUE \<equiv> 0x80aa"
abbreviation (input) GL_SCISSOR_BOX :: "32 word" where "GL_SCISSOR_BOX \<equiv> 0xc10"
abbreviation (input) GL_SCISSOR_TEST :: "32 word" where "GL_SCISSOR_TEST \<equiv> 0xc11"
abbreviation (input) GL_SHADER_BINARY_FORMATS :: "32 word" where "GL_SHADER_BINARY_FORMATS \<equiv> 0x8df8"
abbreviation (input) GL_SHADER_COMPILER :: "32 word" where "GL_SHADER_COMPILER \<equiv> 0x8dfa"
abbreviation (input) GL_SHADER_SOURCE_LENGTH :: "32 word" where "GL_SHADER_SOURCE_LENGTH \<equiv> 0x8b88"
abbreviation (input) GL_SHADER_TYPE :: "32 word" where "GL_SHADER_TYPE \<equiv> 0x8b4f"
abbreviation (input) GL_SHADE_MODEL :: "32 word" where "GL_SHADE_MODEL \<equiv> 0xb54"
abbreviation (input) GL_SHININESS :: "32 word" where "GL_SHININESS \<equiv> 0x1601"
abbreviation (input) GL_SHORT :: "32 word" where "GL_SHORT \<equiv> 0x1402"
abbreviation (input) GL_SMOOTH_LINE_WIDTH_RANGE :: "32 word" where "GL_SMOOTH_LINE_WIDTH_RANGE \<equiv> 0xb22"
abbreviation (input) GL_SMOOTH_POINT_SIZE_RANGE :: "32 word" where "GL_SMOOTH_POINT_SIZE_RANGE \<equiv> 0xb12"
abbreviation (input) GL_SPECULAR :: "32 word" where "GL_SPECULAR \<equiv> 0x1202"
abbreviation (input) GL_SPOT_CUTOFF :: "32 word" where "GL_SPOT_CUTOFF \<equiv> 0x1206"
abbreviation (input) GL_SPOT_DIRECTION :: "32 word" where "GL_SPOT_DIRECTION \<equiv> 0x1204"
abbreviation (input) GL_SPOT_EXPONENT :: "32 word" where "GL_SPOT_EXPONENT \<equiv> 0x1205"
abbreviation (input) GL_SRC0_ALPHA :: "32 word" where "GL_SRC0_ALPHA \<equiv> 0x8588"
abbreviation (input) GL_SRC0_RGB :: "32 word" where "GL_SRC0_RGB \<equiv> 0x8580"
abbreviation (input) GL_SRC1_ALPHA :: "32 word" where "GL_SRC1_ALPHA \<equiv> 0x8589"
abbreviation (input) GL_SRC1_RGB :: "32 word" where "GL_SRC1_RGB \<equiv> 0x8581"
abbreviation (input) GL_SRC2_ALPHA :: "32 word" where "GL_SRC2_ALPHA \<equiv> 0x858a"
abbreviation (input) GL_SRC2_RGB :: "32 word" where "GL_SRC2_RGB \<equiv> 0x8582"
abbreviation (input) GL_STENCIL_BACK_FAIL :: "32 word" where "GL_STENCIL_BACK_FAIL \<equiv> 0x8801"
abbreviation (input) GL_STENCIL_BACK_FUNC :: "32 word" where "GL_STENCIL_BACK_FUNC \<equiv> 0x8800"
abbreviation (input) GL_STENCIL_BACK_PASS_DEPTH_FAIL :: "32 word" where "GL_STENCIL_BACK_PASS_DEPTH_FAIL \<equiv> 0x8802"
abbreviation (input) GL_STENCIL_BACK_PASS_DEPTH_PASS :: "32 word" where "GL_STENCIL_BACK_PASS_DEPTH_PASS \<equiv> 0x8803"
abbreviation (input) GL_STENCIL_BACK_REF :: "32 word" where "GL_STENCIL_BACK_REF \<equiv> 0x8ca3"
abbreviation (input) GL_STENCIL_BACK_VALUE_MASK :: "32 word" where "GL_STENCIL_BACK_VALUE_MASK \<equiv> 0x8ca4"
abbreviation (input) GL_STENCIL_BACK_WRITEMASK :: "32 word" where "GL_STENCIL_BACK_WRITEMASK \<equiv> 0x8ca5"
abbreviation (input) GL_STENCIL_BITS :: "32 word" where "GL_STENCIL_BITS \<equiv> 0xd57"
abbreviation (input) GL_STENCIL_CLEAR_VALUE :: "32 word" where "GL_STENCIL_CLEAR_VALUE \<equiv> 0xb91"
abbreviation (input) GL_STENCIL_FAIL :: "32 word" where "GL_STENCIL_FAIL \<equiv> 0xb94"
abbreviation (input) GL_STENCIL_FUNC :: "32 word" where "GL_STENCIL_FUNC \<equiv> 0xb92"
abbreviation (input) GL_STENCIL_PASS_DEPTH_FAIL :: "32 word" where "GL_STENCIL_PASS_DEPTH_FAIL \<equiv> 0xb95"
abbreviation (input) GL_STENCIL_PASS_DEPTH_PASS :: "32 word" where "GL_STENCIL_PASS_DEPTH_PASS \<equiv> 0xb96"
abbreviation (input) GL_STENCIL_REF :: "32 word" where "GL_STENCIL_REF \<equiv> 0xb97"
abbreviation (input) GL_STENCIL_TEST :: "32 word" where "GL_STENCIL_TEST \<equiv> 0xb90"
abbreviation (input) GL_STENCIL_VALUE_MASK :: "32 word" where "GL_STENCIL_VALUE_MASK \<equiv> 0xb93"
abbreviation (input) GL_STENCIL_WRITEMASK :: "32 word" where "GL_STENCIL_WRITEMASK \<equiv> 0xb98"
abbreviation (input) GL_SUBPIXEL_BITS :: "32 word" where "GL_SUBPIXEL_BITS \<equiv> 0xd50"
abbreviation (input) GL_TEXTURE0 :: "32 word" where "GL_TEXTURE0 \<equiv> 0x84c0"
abbreviation (input) GL_TEXTURE_2D :: "32 word" where "GL_TEXTURE_2D \<equiv> 0xde1"
abbreviation (input) GL_TEXTURE_BINDING_2D :: "32 word" where "GL_TEXTURE_BINDING_2D \<equiv> 0x8069"
abbreviation (input) GL_TEXTURE_BINDING_CUBE_MAP :: "32 word" where "GL_TEXTURE_BINDING_CUBE_MAP \<equiv> 0x8514"
abbreviation (input) GL_TEXTURE_BINDING_EXTERNAL_OES :: "32 word" where "GL_TEXTURE_BINDING_EXTERNAL_OES \<equiv> 0x8d67"
abbreviation (input) GL_TEXTURE_COORD_ARRAY :: "32 word" where "GL_TEXTURE_COORD_ARRAY \<equiv> 0x8078"
abbreviation (input) GL_TEXTURE_COORD_ARRAY_BUFFER_BINDING :: "32 word" where "GL_TEXTURE_COORD_ARRAY_BUFFER_BINDING \<equiv> 0x889a"
abbreviation (input) GL_TEXTURE_COORD_ARRAY_POINTER :: "32 word" where "GL_TEXTURE_COORD_ARRAY_POINTER \<equiv> 0x8092"
abbreviation (input) GL_TEXTURE_COORD_ARRAY_SIZE :: "32 word" where "GL_TEXTURE_COORD_ARRAY_SIZE \<equiv> 0x8088"
abbreviation (input) GL_TEXTURE_COORD_ARRAY_STRIDE :: "32 word" where "GL_TEXTURE_COORD_ARRAY_STRIDE \<equiv> 0x808a"
abbreviation (input) GL_TEXTURE_COORD_ARRAY_TYPE :: "32 word" where "GL_TEXTURE_COORD_ARRAY_TYPE \<equiv> 0x8089"
abbreviation (input) GL_TEXTURE_CROP_RECT_OES :: "32 word" where "GL_TEXTURE_CROP_RECT_OES \<equiv> 0x8b9d"
abbreviation (input) GL_TEXTURE_DEPTH_QCOM :: "32 word" where "GL_TEXTURE_DEPTH_QCOM \<equiv> 0x8bd4"
abbreviation (input) GL_TEXTURE_ENV_COLOR :: "32 word" where "GL_TEXTURE_ENV_COLOR \<equiv> 0x2201"
abbreviation (input) GL_TEXTURE_ENV_MODE :: "32 word" where "GL_TEXTURE_ENV_MODE \<equiv> 0x2200"
abbreviation (input) GL_TEXTURE_EXTERNAL_OES :: "32 word" where "GL_TEXTURE_EXTERNAL_OES \<equiv> 0x8d65"
abbreviation (input) GL_TEXTURE_FORMAT_QCOM :: "32 word" where "GL_TEXTURE_FORMAT_QCOM \<equiv> 0x8bd6"
abbreviation (input) GL_TEXTURE_GEN_MODE_OES :: "32 word" where "GL_TEXTURE_GEN_MODE_OES \<equiv> 0x2500"
abbreviation (input) GL_TEXTURE_HEIGHT_QCOM :: "32 word" where "GL_TEXTURE_HEIGHT_QCOM \<equiv> 0x8bd3"
abbreviation (input) GL_TEXTURE_IMAGE_VALID_QCOM :: "32 word" where "GL_TEXTURE_IMAGE_VALID_QCOM \<equiv> 0x8bd8"
abbreviation (input) GL_TEXTURE_INTERNAL_FORMAT_QCOM :: "32 word" where "GL_TEXTURE_INTERNAL_FORMAT_QCOM \<equiv> 0x8bd5"
abbreviation (input) GL_TEXTURE_MAG_FILTER :: "32 word" where "GL_TEXTURE_MAG_FILTER \<equiv> 0x2800"
abbreviation (input) GL_TEXTURE_MATRIX :: "32 word" where "GL_TEXTURE_MATRIX \<equiv> 0xba8"
abbreviation (input) GL_TEXTURE_MIN_FILTER :: "32 word" where "GL_TEXTURE_MIN_FILTER \<equiv> 0x2801"
abbreviation (input) GL_TEXTURE_NUM_LEVELS_QCOM :: "32 word" where "GL_TEXTURE_NUM_LEVELS_QCOM \<equiv> 0x8bd9"
abbreviation (input) GL_TEXTURE_OBJECT_VALID_QCOM :: "32 word" where "GL_TEXTURE_OBJECT_VALID_QCOM \<equiv> 0x8bdb"
abbreviation (input) GL_TEXTURE_STACK_DEPTH :: "32 word" where "GL_TEXTURE_STACK_DEPTH \<equiv> 0xba5"
abbreviation (input) GL_TEXTURE_TARGET_QCOM :: "32 word" where "GL_TEXTURE_TARGET_QCOM \<equiv> 0x8bda"
abbreviation (input) GL_TEXTURE_TYPE_QCOM :: "32 word" where "GL_TEXTURE_TYPE_QCOM \<equiv> 0x8bd7"
abbreviation (input) GL_TEXTURE_WIDTH_QCOM :: "32 word" where "GL_TEXTURE_WIDTH_QCOM \<equiv> 0x8bd2"
abbreviation (input) GL_TEXTURE_WRAP_S :: "32 word" where "GL_TEXTURE_WRAP_S \<equiv> 0x2802"
abbreviation (input) GL_TEXTURE_WRAP_T :: "32 word" where "GL_TEXTURE_WRAP_T \<equiv> 0x2803"
abbreviation (input) GL_UNPACK_ALIGNMENT :: "32 word" where "GL_UNPACK_ALIGNMENT \<equiv> 0xcf5"
abbreviation (input) GL_UNSIGNED_BYTE :: "32 word" where "GL_UNSIGNED_BYTE \<equiv> 0x1401"
abbreviation (input) GL_UNSIGNED_INT :: "32 word" where "GL_UNSIGNED_INT \<equiv> 0x1405"
abbreviation (input) GL_UNSIGNED_INT_24_8_OES :: "32 word" where "GL_UNSIGNED_INT_24_8_OES \<equiv> 0x84fa"
abbreviation (input) GL_UNSIGNED_SHORT :: "32 word" where "GL_UNSIGNED_SHORT \<equiv> 0x1403"
abbreviation (input) GL_UNSIGNED_SHORT_4_4_4_4 :: "32 word" where "GL_UNSIGNED_SHORT_4_4_4_4 \<equiv> 0x8033"
abbreviation (input) GL_UNSIGNED_SHORT_5_5_5_1 :: "32 word" where "GL_UNSIGNED_SHORT_5_5_5_1 \<equiv> 0x8034"
abbreviation (input) GL_UNSIGNED_SHORT_5_6_5 :: "32 word" where "GL_UNSIGNED_SHORT_5_6_5 \<equiv> 0x8363"
abbreviation (input) GL_VALIDATE_STATUS :: "32 word" where "GL_VALIDATE_STATUS \<equiv> 0x8b83"
abbreviation (input) GL_VENDOR :: "32 word" where "GL_VENDOR \<equiv> 0x1f00"
abbreviation (input) GL_VERSION :: "32 word" where "GL_VERSION \<equiv> 0x1f02"
abbreviation (input) GL_VERTEX_ARRAY :: "32 word" where "GL_VERTEX_ARRAY \<equiv> 0x8074"
abbreviation (input) GL_VERTEX_ARRAY_BUFFER_BINDING :: "32 word" where "GL_VERTEX_ARRAY_BUFFER_BINDING \<equiv> 0x8896"
abbreviation (input) GL_VERTEX_ARRAY_POINTER :: "32 word" where "GL_VERTEX_ARRAY_POINTER \<equiv> 0x808e"
abbreviation (input) GL_VERTEX_ARRAY_SIZE :: "32 word" where "GL_VERTEX_ARRAY_SIZE \<equiv> 0x807a"
abbreviation (input) GL_VERTEX_ARRAY_STRIDE :: "32 word" where "GL_VERTEX_ARRAY_STRIDE \<equiv> 0x807c"
abbreviation (input) GL_VERTEX_ARRAY_TYPE :: "32 word" where "GL_VERTEX_ARRAY_TYPE \<equiv> 0x807b"
abbreviation (input) GL_VERTEX_ATTRIB_ARRAY_BUFFER_BINDING :: "32 word" where "GL_VERTEX_ATTRIB_ARRAY_BUFFER_BINDING \<equiv> 0x889f"
abbreviation (input) GL_VERTEX_ATTRIB_ARRAY_ENABLED :: "32 word" where "GL_VERTEX_ATTRIB_ARRAY_ENABLED \<equiv> 0x8622"
abbreviation (input) GL_VERTEX_ATTRIB_ARRAY_NORMALIZED :: "32 word" where "GL_VERTEX_ATTRIB_ARRAY_NORMALIZED \<equiv> 0x886a"
abbreviation (input) GL_VERTEX_ATTRIB_ARRAY_SIZE :: "32 word" where "GL_VERTEX_ATTRIB_ARRAY_SIZE \<equiv> 0x8623"
abbreviation (input) GL_VERTEX_ATTRIB_ARRAY_STRIDE :: "32 word" where "GL_VERTEX_ATTRIB_ARRAY_STRIDE \<equiv> 0x8624"
abbreviation (input) GL_VERTEX_ATTRIB_ARRAY_TYPE :: "32 word" where "GL_VERTEX_ATTRIB_ARRAY_TYPE \<equiv> 0x8625"
abbreviation (input) GL_VIEWPORT :: "32 word" where "GL_VIEWPORT \<equiv> 0xba2"
abbreviation (input) GL_WEIGHT_ARRAY_BUFFER_BINDING_OES :: "32 word" where "GL_WEIGHT_ARRAY_BUFFER_BINDING_OES \<equiv> 0x889e"
abbreviation (input) GL_WEIGHT_ARRAY_OES :: "32 word" where "GL_WEIGHT_ARRAY_OES \<equiv> 0x86ad"
abbreviation (input) GL_WEIGHT_ARRAY_POINTER_OES :: "32 word" where "GL_WEIGHT_ARRAY_POINTER_OES \<equiv> 0x86ac"
abbreviation (input) GL_WEIGHT_ARRAY_SIZE_OES :: "32 word" where "GL_WEIGHT_ARRAY_SIZE_OES \<equiv> 0x86ab"
abbreviation (input) GL_WEIGHT_ARRAY_STRIDE_OES :: "32 word" where "GL_WEIGHT_ARRAY_STRIDE_OES \<equiv> 0x86aa"
abbreviation (input) GL_WEIGHT_ARRAY_TYPE_OES :: "32 word" where "GL_WEIGHT_ARRAY_TYPE_OES \<equiv> 0x86a9"

abbreviation (input) GL_FALSE :: "8 word" where "GL_FALSE \<equiv> 0"
abbreviation (input) GL_TRUE :: "8 word" where "GL_TRUE \<equiv> 1"

end
