(* ===== verification/GLUtils.thy ===== *)
theory GLUtils
  imports GL_Enums
begin

text \<open>
  \<open>common/opengl/shared/OpenglCodecCommon/glUtils.cpp\<close> and \<open>glUtils.h\<close>: sizes of GL types,
  parameters and pixels, packing of vertex arrays and of shader sources, and the index
  helpers of the draw calls. The lemmas show that packing a strided array gives the
  array's elements in order whichever branch runs, that it ends, that the shader source
  buffer is exactly large enough, and what \<open>minmax\<close> and \<open>shiftIndices\<close> compute.
\<close>

section \<open>Sizes\<close>

text \<open>The case for \<open>GL_DOUBLE\<close> is compiled only where the macro exists; GLES has no such type.\<close>

definition glSizeof :: "GLenum \<Rightarrow> size_t" where
  "glSizeof type =
     (if type \<in> {GL_BYTE, GL_UNSIGNED_BYTE} then 1
      else if type \<in> {GL_SHORT, GL_UNSIGNED_SHORT, GL_HALF_FLOAT_OES} then 2
      else if type \<in> {GL_INT, GL_FLOAT, GL_FIXED, GL_BOOL} then 4
      else if type \<in> {GL_FLOAT_VEC2, GL_INT_VEC2, GL_BOOL_VEC2} then 8
      else if type \<in> {GL_INT_VEC3, GL_BOOL_VEC3, GL_FLOAT_VEC3} then 12
      else if type \<in> {GL_FLOAT_VEC4, GL_BOOL_VEC4, GL_INT_VEC4, GL_FLOAT_MAT2} then 16
      else if type = GL_FLOAT_MAT3 then 36
      else if type = GL_FLOAT_MAT4 then 64
      else if type \<in> {GL_SAMPLER_2D, GL_SAMPLER_CUBE} then 4
      else 0)"

lemma glSizeof_le: "unat (glSizeof type) \<le> 64"
  by (simp add: glSizeof_def)

text \<open>The case labels of \<open>glUtilsParamSize\<close>, grouped by the size they return.\<close>

definition param_size_1 :: "GLenum list" where
  "param_size_1 = [
    GL_DEPTH_TEST, GL_DEPTH_FUNC, GL_DEPTH_BITS, GL_MAX_CLIP_PLANES, GL_GREEN_BITS,
    GL_MAX_MODELVIEW_STACK_DEPTH, GL_MAX_PROJECTION_STACK_DEPTH, GL_MAX_TEXTURE_STACK_DEPTH,
    GL_IMPLEMENTATION_COLOR_READ_FORMAT_OES, GL_IMPLEMENTATION_COLOR_READ_TYPE_OES,
    GL_NUM_COMPRESSED_TEXTURE_FORMATS, GL_MAX_TEXTURE_SIZE, GL_TEXTURE_GEN_MODE_OES,
    GL_TEXTURE_ENV_MODE, GL_FOG_MODE, GL_FOG_DENSITY, GL_FOG_START, GL_FOG_END,
    GL_SPOT_EXPONENT, GL_CONSTANT_ATTENUATION, GL_LINEAR_ATTENUATION, GL_QUADRATIC_ATTENUATION,
    GL_SHININESS, GL_LIGHT_MODEL_TWO_SIDE, GL_POINT_SIZE, GL_POINT_SIZE_MIN, GL_POINT_SIZE_MAX,
    GL_POINT_FADE_THRESHOLD_SIZE, GL_CULL_FACE, GL_CULL_FACE_MODE, GL_FRONT_FACE,
    GL_SHADE_MODEL, GL_DEPTH_WRITEMASK, GL_DEPTH_CLEAR_VALUE, GL_STENCIL_FAIL,
    GL_STENCIL_PASS_DEPTH_FAIL, GL_STENCIL_PASS_DEPTH_PASS, GL_STENCIL_REF,
    GL_STENCIL_WRITEMASK, GL_MATRIX_MODE, GL_MODELVIEW_STACK_DEPTH, GL_PROJECTION_STACK_DEPTH,
    GL_TEXTURE_STACK_DEPTH, GL_ALPHA_TEST_FUNC, GL_ALPHA_TEST_REF, GL_ALPHA_TEST, GL_BLEND_DST,
    GL_BLEND_SRC, GL_BLEND, GL_DITHER, GL_LOGIC_OP_MODE, GL_SCISSOR_TEST, GL_MAX_TEXTURE_UNITS,
    GL_ACTIVE_TEXTURE, GL_ALPHA_BITS, GL_ARRAY_BUFFER_BINDING, GL_BLUE_BITS,
    GL_CLIENT_ACTIVE_TEXTURE, GL_CLIP_PLANE0, GL_CLIP_PLANE1, GL_CLIP_PLANE2, GL_CLIP_PLANE3,
    GL_CLIP_PLANE4, GL_CLIP_PLANE5, GL_COLOR_ARRAY, GL_COLOR_ARRAY_BUFFER_BINDING,
    GL_COLOR_ARRAY_SIZE, GL_COLOR_ARRAY_STRIDE, GL_COLOR_ARRAY_TYPE, GL_COLOR_LOGIC_OP,
    GL_COLOR_MATERIAL, GL_PACK_ALIGNMENT, GL_PERSPECTIVE_CORRECTION_HINT,
    GL_POINT_SIZE_ARRAY_BUFFER_BINDING_OES, GL_POINT_SIZE_ARRAY_STRIDE_OES,
    GL_POINT_SIZE_ARRAY_TYPE_OES, GL_POINT_SMOOTH, GL_POINT_SMOOTH_HINT, GL_POINT_SPRITE_OES,
    GL_COORD_REPLACE_OES, GL_COMBINE_ALPHA, GL_SRC0_RGB, GL_SRC1_RGB, GL_SRC2_RGB,
    GL_OPERAND0_RGB, GL_OPERAND1_RGB, GL_OPERAND2_RGB, GL_SRC0_ALPHA, GL_SRC1_ALPHA,
    GL_SRC2_ALPHA, GL_OPERAND0_ALPHA, GL_OPERAND1_ALPHA, GL_OPERAND2_ALPHA, GL_RGB_SCALE,
    GL_ALPHA_SCALE, GL_COMBINE_RGB, GL_POLYGON_OFFSET_FACTOR, GL_POLYGON_OFFSET_FILL,
    GL_POLYGON_OFFSET_UNITS, GL_RED_BITS, GL_RESCALE_NORMAL, GL_SAMPLE_ALPHA_TO_COVERAGE,
    GL_SAMPLE_ALPHA_TO_ONE, GL_SAMPLE_BUFFERS, GL_SAMPLE_COVERAGE, GL_SAMPLE_COVERAGE_INVERT,
    GL_SAMPLE_COVERAGE_VALUE, GL_SAMPLES, GL_STENCIL_BITS, GL_STENCIL_CLEAR_VALUE,
    GL_STENCIL_FUNC, GL_STENCIL_TEST, GL_STENCIL_VALUE_MASK, GL_STENCIL_BACK_FUNC,
    GL_STENCIL_BACK_VALUE_MASK, GL_STENCIL_BACK_REF, GL_STENCIL_BACK_FAIL,
    GL_STENCIL_BACK_PASS_DEPTH_FAIL, GL_STENCIL_BACK_PASS_DEPTH_PASS, GL_STENCIL_BACK_WRITEMASK,
    GL_TEXTURE_2D, GL_TEXTURE_BINDING_2D, GL_TEXTURE_BINDING_CUBE_MAP,
    GL_TEXTURE_BINDING_EXTERNAL_OES, GL_TEXTURE_COORD_ARRAY,
    GL_TEXTURE_COORD_ARRAY_BUFFER_BINDING, GL_TEXTURE_COORD_ARRAY_SIZE,
    GL_TEXTURE_COORD_ARRAY_STRIDE, GL_TEXTURE_COORD_ARRAY_TYPE, GL_UNPACK_ALIGNMENT,
    GL_VERTEX_ARRAY, GL_VERTEX_ARRAY_BUFFER_BINDING, GL_VERTEX_ARRAY_SIZE,
    GL_VERTEX_ARRAY_STRIDE, GL_VERTEX_ARRAY_TYPE, GL_SPOT_CUTOFF, GL_TEXTURE_MIN_FILTER,
    GL_TEXTURE_MAG_FILTER, GL_TEXTURE_WRAP_S, GL_TEXTURE_WRAP_T, GL_GENERATE_MIPMAP,
    GL_GENERATE_MIPMAP_HINT, GL_RENDERBUFFER_WIDTH_OES, GL_RENDERBUFFER_HEIGHT_OES,
    GL_RENDERBUFFER_INTERNAL_FORMAT_OES, GL_RENDERBUFFER_RED_SIZE_OES,
    GL_RENDERBUFFER_GREEN_SIZE_OES, GL_RENDERBUFFER_BLUE_SIZE_OES,
    GL_RENDERBUFFER_ALPHA_SIZE_OES, GL_RENDERBUFFER_DEPTH_SIZE_OES,
    GL_RENDERBUFFER_STENCIL_SIZE_OES, GL_RENDERBUFFER_BINDING, GL_FRAMEBUFFER_BINDING,
    GL_FRAMEBUFFER_ATTACHMENT_OBJECT_TYPE_OES, GL_FRAMEBUFFER_ATTACHMENT_OBJECT_NAME_OES,
    GL_FRAMEBUFFER_ATTACHMENT_TEXTURE_LEVEL_OES,
    GL_FRAMEBUFFER_ATTACHMENT_TEXTURE_CUBE_MAP_FACE_OES, GL_FENCE_STATUS_NV,
    GL_FENCE_CONDITION_NV, GL_TEXTURE_WIDTH_QCOM, GL_TEXTURE_HEIGHT_QCOM, GL_TEXTURE_DEPTH_QCOM,
    GL_TEXTURE_INTERNAL_FORMAT_QCOM, GL_TEXTURE_FORMAT_QCOM, GL_TEXTURE_TYPE_QCOM,
    GL_TEXTURE_IMAGE_VALID_QCOM, GL_TEXTURE_NUM_LEVELS_QCOM, GL_TEXTURE_TARGET_QCOM,
    GL_TEXTURE_OBJECT_VALID_QCOM, GL_BLEND_EQUATION_RGB_OES, GL_BLEND_EQUATION_ALPHA_OES,
    GL_BLEND_DST_RGB_OES, GL_BLEND_SRC_RGB_OES, GL_BLEND_DST_ALPHA_OES, GL_BLEND_SRC_ALPHA_OES,
    GL_MAX_LIGHTS, GL_SHADER_TYPE, GL_DELETE_STATUS, GL_COMPILE_STATUS, GL_INFO_LOG_LENGTH,
    GL_SHADER_SOURCE_LENGTH, GL_CURRENT_PROGRAM, GL_LINK_STATUS, GL_VALIDATE_STATUS,
    GL_ATTACHED_SHADERS, GL_ACTIVE_UNIFORMS, GL_ACTIVE_ATTRIBUTES, GL_SUBPIXEL_BITS,
    GL_MAX_CUBE_MAP_TEXTURE_SIZE, GL_NUM_SHADER_BINARY_FORMATS, GL_SHADER_COMPILER,
    GL_MAX_VERTEX_ATTRIBS, GL_MAX_VERTEX_UNIFORM_VECTORS, GL_MAX_VARYING_VECTORS,
    GL_MAX_COMBINED_TEXTURE_IMAGE_UNITS, GL_MAX_VERTEX_TEXTURE_IMAGE_UNITS,
    GL_MAX_FRAGMENT_UNIFORM_VECTORS, GL_MAX_RENDERBUFFER_SIZE, GL_MAX_TEXTURE_IMAGE_UNITS,
    GL_REQUIRED_TEXTURE_IMAGE_UNITS_OES, GL_FRAGMENT_SHADER_DERIVATIVE_HINT_OES, GL_LINE_WIDTH]"

definition param_size_2 :: "GLenum list" where
  "param_size_2 = [
    GL_ALIASED_LINE_WIDTH_RANGE, GL_ALIASED_POINT_SIZE_RANGE, GL_DEPTH_RANGE,
    GL_MAX_VIEWPORT_DIMS, GL_SMOOTH_POINT_SIZE_RANGE, GL_SMOOTH_LINE_WIDTH_RANGE]"

definition param_size_3 :: "GLenum list" where
  "param_size_3 = [
    GL_SPOT_DIRECTION, GL_POINT_DISTANCE_ATTENUATION, GL_CURRENT_NORMAL]"

definition param_size_4 :: "GLenum list" where
  "param_size_4 = [
    GL_CURRENT_VERTEX_ATTRIB, GL_CURRENT_TEXTURE_COORDS, GL_CURRENT_COLOR, GL_FOG_COLOR,
    GL_AMBIENT, GL_DIFFUSE, GL_SPECULAR, GL_EMISSION, GL_POSITION, GL_LIGHT_MODEL_AMBIENT,
    GL_TEXTURE_ENV_COLOR, GL_SCISSOR_BOX, GL_VIEWPORT, GL_TEXTURE_CROP_RECT_OES,
    GL_COLOR_CLEAR_VALUE, GL_COLOR_WRITEMASK, GL_AMBIENT_AND_DIFFUSE, GL_BLEND_COLOR]"

definition param_size_16 :: "GLenum list" where
  "param_size_16 = [
    GL_MODELVIEW_MATRIX, GL_PROJECTION_MATRIX, GL_TEXTURE_MATRIX]"

definition glUtilsParamSize :: "GLenum \<Rightarrow> size_t" where
  "glUtilsParamSize param =
     (if param \<in> set param_size_1 then 1
      else if param \<in> set param_size_2 then 2
      else if param \<in> set param_size_3 then 3
      else if param \<in> set param_size_4 then 4
      else if param \<in> set param_size_16 then 16
      else 1)"

lemma glUtilsParamSize_bounds:
  "0 < glUtilsParamSize param" "unat (glUtilsParamSize param) \<le> 16"
  by (simp_all add: glUtilsParamSize_def)

text \<open>
  \<open>switch (type)\<close> of \<open>glUtilsPixelBitSize\<close>: the component size, and the pixel size for packed
  types (0 where the components decide).
\<close>

definition glUtilsPixelBitSize :: "GLenum \<Rightarrow> GLenum \<Rightarrow> int" where
  "glUtilsPixelBitSize format type =
     (let componentsize = (if type \<in> {GL_BYTE, GL_UNSIGNED_BYTE} then 8 else 0);
          pixelsize =
            (if type \<in> {GL_SHORT, GL_UNSIGNED_SHORT, GL_UNSIGNED_SHORT_5_6_5,
                 GL_UNSIGNED_SHORT_4_4_4_4, GL_UNSIGNED_SHORT_5_5_5_1,
                 GL_RGB565_OES, GL_RGB5_A1_OES, GL_RGBA4_OES} then 16
             else if type \<in> {GL_INT, GL_UNSIGNED_INT, GL_FLOAT, GL_FIXED,
                 GL_UNSIGNED_INT_24_8_OES} then 32
             else 0)
      in if pixelsize = 0
         then (let components =
                 (if format \<in> {GL_ALPHA, GL_LUMINANCE, GL_DEPTH_COMPONENT,
                      GL_DEPTH_STENCIL_OES} then 1
                  else if format = GL_LUMINANCE_ALPHA then 2
                  else if format = GL_RGB then 3
                  else if format \<in> {GL_RGBA, GL_BGRA_EXT} then 4
                  else 0)
               in components * componentsize)
         else pixelsize)"

lemma glUtilsPixelBitSize_bounds:
  "0 \<le> glUtilsPixelBitSize format type" "glUtilsPixelBitSize format type \<le> 32"
  by (simp_all add: glUtilsPixelBitSize_def Let_def)

lemma glUtilsPixelBitSize_whole_bytes: "8 dvd glUtilsPixelBitSize format type"
  by (simp add: glUtilsPixelBitSize_def Let_def)

section \<open>Packing vertex arrays\<close>

text \<open>
  The copying loop, as the list of the blocks it copies; \<open>i += vsize\<close> wraps, and with
  \<open>vsize = 0\<close> the loop does not end (\<open>None\<close>).
\<close>

partial_function (option) pack_loop ::
  "memory \<Rightarrow> addr \<Rightarrow> u32 \<Rightarrow> u32 \<Rightarrow> u32 \<Rightarrow> u32 \<Rightarrow> byte list list option" where
  "pack_loop m src stride vsize datalen i =
     (if i < datalen
      then Option.bind (pack_loop m (src + stride) stride vsize datalen (i + vsize))
             (\<lambda>rest. Some (read_mem m src (unat vsize) # rest))
      else Some [])"

text \<open>The bytes written at \<open>dst\<close>.\<close>

definition glUtilsPackPointerData ::
  "memory \<Rightarrow> addr \<Rightarrow> GLint \<Rightarrow> GLenum \<Rightarrow> u32 \<Rightarrow> u32 \<Rightarrow> byte list option" where
  "glUtilsPackPointerData m src sz type stride datalen =
     (let vsize = word_of_int sz * glSizeof type;
          stride = (if stride = 0 then vsize else stride)
      in if stride = vsize then Some (read_mem m src (unat datalen))
         else map_option concat (pack_loop m src stride vsize datalen 0))"

text \<open>The same loop, every block handed to \<open>writeFully\<close>: the list of the writes.\<close>

definition glUtilsWritePackPointerData ::
  "memory \<Rightarrow> addr \<Rightarrow> GLint \<Rightarrow> GLenum \<Rightarrow> u32 \<Rightarrow> u32 \<Rightarrow> byte list list option" where
  "glUtilsWritePackPointerData m src sz type stride datalen =
     (let vsize = word_of_int sz * glSizeof type;
          stride = (if stride = 0 then vsize else stride)
      in if stride = vsize then Some [read_mem m src (unat datalen)]
         else pack_loop m src stride vsize datalen 0)"

text \<open>What a vertex array holds: \<open>n\<close> elements of \<open>vsize\<close> bytes, \<open>stride\<close> bytes apart.\<close>

definition array_elements :: "memory \<Rightarrow> addr \<Rightarrow> u32 \<Rightarrow> nat \<Rightarrow> nat \<Rightarrow> byte list list" where
  "array_elements m src stride vsize n =
     map (\<lambda>k. read_mem m (src + word_of_nat k * stride) vsize) [0..<n]"

lemma pack_loop_chunks:
  assumes "k \<le> n" and "n * unat vsize < 4294967296" and "vsize \<noteq> 0"
  shows "pack_loop m (src + word_of_nat k * stride) stride vsize (word_of_nat n * vsize)
           (word_of_nat k * vsize)
         = Some (map (\<lambda>j. read_mem m (src + word_of_nat j * stride) (unat vsize)) [k..<n])"
  using assms(1)
proof (induction k rule: inc_induct)
  case base
  show ?case by (simp add: pack_loop.simps)
next
  case (step k)
  have small: "unat (word_of_nat j * vsize) = j * unat vsize" if "j \<le> n" for j
    using that assms(2) by (intro unat_mult32) (metis le_less_trans mult_le_mono1)
  have "0 < unat vsize" using assms(3) by (simp add: unat_gt_0)
  then have less: "word_of_nat k * vsize < word_of_nat n * vsize"
    using step(2) by (simp add: word_less_nat_alt small)
  have i: "word_of_nat k * vsize + vsize = word_of_nat (Suc k) * vsize"
    and p: "src + word_of_nat k * stride + stride = src + word_of_nat (Suc k) * stride"
    by (simp_all add: algebra_simps)
  have u: "[k..<n] = k # [Suc k..<n]" using step(2) by (simp add: upt_rec)
  show ?case
    by (subst pack_loop.simps) (simp only: less i p u step(3) if_True bind.simps list.map)
qed

lemma concat_Nils [simp]: "concat (map (\<lambda>_. []) xs) = []"
  by (induction xs) simp_all

lemma concat_contiguous:
  "concat (map (\<lambda>j. read_mem m (src + word_of_nat j * vsize) (unat vsize)) [0..<n])
   = read_mem m src (n * unat vsize)"
proof (induction n)
  case (Suc n)
  have "word_of_nat (n * unat vsize) = (word_of_nat n * vsize :: 32 word)" by simp
  with Suc show ?case
    by (simp add: read_mem_append [of m src "n * unat vsize" "unat vsize"]
        add.commute [of "unat vsize"])
qed simp

text \<open>Both branches hand over the elements of the array, in order.\<close>

lemma pack_chunks_elements:
  assumes "vsize = word_of_int sz * glSizeof type" and "n * unat vsize < 4294967296"
  shows "glUtilsPackPointerData m src sz type stride (word_of_nat n * vsize)
         = Some (concat (array_elements m src (if stride = 0 then vsize else stride)
                          (unat vsize) n))"
proof -
  define st where "st = (if stride = 0 then vsize else stride)"
  have u: "unat (word_of_nat n * vsize) = n * unat vsize"
    using assms(2) by (rule unat_mult32)
  consider "st = vsize" | "st \<noteq> vsize" "vsize = 0" | "st \<noteq> vsize" "vsize \<noteq> 0" by blast
  then have "glUtilsPackPointerData m src sz type stride (word_of_nat n * vsize)
             = Some (concat (array_elements m src st (unat vsize) n))"
  proof cases
    case 1
    then show ?thesis
      by (simp add: glUtilsPackPointerData_def array_elements_def concat_contiguous u
            st_def [symmetric] assms(1) [symmetric])
  next
    case 2
    then show ?thesis
      by (simp add: glUtilsPackPointerData_def array_elements_def st_def [symmetric]
            assms(1) [symmetric] pack_loop.simps [of m src _ 0 0 0])
  next
    case 3
    with pack_loop_chunks [of 0 n vsize m src st] assms(2) show ?thesis
      by (simp add: glUtilsPackPointerData_def array_elements_def st_def [symmetric]
            assms(1) [symmetric])
  qed
  then show ?thesis by (simp add: st_def)
qed

lemma length_concat_elements [simp]:
  "length (concat (array_elements m src stride v n)) = n * v"
  by (induction n) (simp_all add: array_elements_def)

lemma write_pack_same:
  "map_option concat (glUtilsWritePackPointerData m src sz type stride datalen)
   = glUtilsPackPointerData m src sz type stride datalen"
  by (simp add: glUtilsPackPointerData_def glUtilsWritePackPointerData_def Let_def)

text \<open>The loop ends exactly when it advances.\<close>

lemma pack_loop_progress:
  assumes "pack_loop m src stride vsize datalen i = Some r"
  shows "\<not> (vsize = 0 \<and> i < datalen)"
proof (rule pack_loop.raw_induct
    [where P = "\<lambda>m src stride vsize datalen i r. \<not> (vsize = 0 \<and> i < datalen)", OF _ assms])
  fix pl :: "memory \<Rightarrow> addr \<Rightarrow> u32 \<Rightarrow> u32 \<Rightarrow> u32 \<Rightarrow> u32 \<Rightarrow> byte list list option"
    and m src stride vsize datalen i r
  assume IH: "\<And>m src stride vsize datalen i r. pl m src stride vsize datalen i = Some r
      \<Longrightarrow> \<not> (vsize = 0 \<and> i < datalen)"
    and eq: "(if i < datalen
      then Option.bind (pl m (src + stride) stride vsize datalen (i + vsize))
             (\<lambda>rest. Some (read_mem m src (unat vsize) # rest))
      else Some []) = Some r"
  show "\<not> (vsize = 0 \<and> i < datalen)"
  proof
    assume h: "vsize = 0 \<and> i < datalen"
    with eq obtain r' where "pl m (src + stride) stride vsize datalen i = Some r'"
      by (auto split: Option.bind_splits)
    from IH [OF this] h show False by simp
  qed
qed

lemma pack_loop_total:
  assumes "vsize \<noteq> 0" and "unat datalen + unat vsize \<le> 4294967296"
  shows "\<exists>r. pack_loop m src stride vsize datalen i = Some r"
proof (induction "unat datalen - unat i" arbitrary: src i rule: less_induct)
  case less
  show ?case
  proof (cases "i < datalen")
    case False
    then show ?thesis by (simp add: pack_loop.simps)
  next
    case True
    then have i: "unat i < unat datalen" by (simp add: word_less_nat_alt)
    then have "unat i + unat vsize < 4294967296" using assms(2) by linarith
    then have u: "unat (i + vsize) = unat i + unat vsize"
      by (rule unat_add32)
    have "0 < unat vsize" using assms(1) by (simp add: unat_gt_0)
    then have "unat datalen - unat (i + vsize) < unat datalen - unat i"
      using i u by linarith
    from less [OF this] obtain r
      where "pack_loop m (src + stride) stride vsize datalen (i + vsize) = Some r" by blast
    then show ?thesis by (subst pack_loop.simps) simp
  qed
qed

section \<open>Indices of a draw call\<close>

text \<open>
  \<open>minmax\<close> over an array of unsigned indices; both results start at \<open>-1\<close>, which also
  stands for "none seen yet".
\<close>

fun minmax_loop :: "'a::len word list \<Rightarrow> int \<Rightarrow> int \<Rightarrow> int \<times> int" where
  "minmax_loop [] mn mx = (mn, mx)"
| "minmax_loop (x # xs) mn mx =
     minmax_loop xs (if mn = - 1 \<or> uint x < mn then uint x else mn)
                    (if mx = - 1 \<or> mx < uint x then uint x else mx)"

definition minmax :: "'a::len word list \<Rightarrow> int \<times> int" where
  "minmax indices = minmax_loop indices (- 1) (- 1)"

text \<open>\<open>*dst = *src + offset\<close>, truncated to the index type.\<close>

definition shiftIndices :: "'a::len word list \<Rightarrow> int \<Rightarrow> 'a word list" where
  "shiftIndices src offset = map (\<lambda>x. x + word_of_int offset) src"

lemma minmax_loop_seen:
  "0 \<le> mn \<Longrightarrow> 0 \<le> mx \<Longrightarrow>
   minmax_loop xs mn mx = (Min (insert mn (uint ` set xs)), Max (insert mx (uint ` set xs)))"
proof (induction xs arbitrary: mn mx)
  case (Cons x xs)
  have "(if mn = - 1 \<or> uint x < mn then uint x else mn) = min mn (uint x)"
    and "(if mx = - 1 \<or> mx < uint x then uint x else mx) = max mx (uint x)"
    using Cons.prems by (auto simp: min_def max_def)
  moreover have "0 \<le> min mn (uint x)" and "0 \<le> max mx (uint x)"
    using Cons.prems by simp_all
  ultimately have
    "minmax_loop (x # xs) mn mx =
       (Min (insert (min mn (uint x)) (uint ` set xs)),
        Max (insert (max mx (uint x)) (uint ` set xs)))"
    using Cons.IH by simp
  then show ?case
    by (cases xs) (simp_all add: min.left_commute max.left_commute min.assoc max.assoc)
qed simp

lemma minmax_empty [simp]: "minmax [] = (- 1, - 1)"
  by (simp add: minmax_def)

lemma minmax_eq:
  "xs \<noteq> [] \<Longrightarrow> minmax xs = (Min (uint ` set xs), Max (uint ` set xs))"
  by (cases xs) (simp_all add: minmax_def minmax_loop_seen)

lemma minmax_bounds:
  assumes "minmax xs = (mn, mx)" and "x \<in> set xs"
  shows "0 \<le> mn \<and> mn \<le> uint x \<and> uint x \<le> mx"
proof -
  have ne: "xs \<noteq> []" using assms(2) by auto
  then have "mn = Min (uint ` set xs)" and "mx = Max (uint ` set xs)"
    using assms(1) by (simp_all add: minmax_eq)
  then show ?thesis using assms(2) ne by auto
qed

lemma length_shiftIndices [simp]: "length (shiftIndices xs d) = length xs"
  by (simp add: shiftIndices_def)

text \<open>After the shift by \<open>-min\<close> every index counts from the smallest one.\<close>

lemma uint_shift_down:
  fixes x :: "'a::len word"
  assumes "0 \<le> mn" and "mn \<le> uint x"
  shows "uint (x + word_of_int (- mn)) = uint x - mn"
proof -
  have "x + word_of_int (- mn) = word_of_int (uint x - mn)" by simp
  moreover have "uint x < 2 ^ LENGTH('a)" by (rule unsigned_less)
  then have "0 \<le> uint x - mn" and "uint x - mn < 2 ^ LENGTH('a)"
    using assms by linarith+
  ultimately show ?thesis
    by (metis uint_word_of_int_eq take_bit_int_eq_self)
qed

lemma shiftIndices_minmax:
  assumes "minmax xs = (mn, mx)" and "k < length xs"
  shows "uint (shiftIndices xs (- mn) ! k) = uint (xs ! k) - mn"
  using assms(2) minmax_bounds [OF assms(1), of "xs ! k"]
    uint_shift_down [of mn "xs ! k"]
  by (simp add: shiftIndices_def)

section \<open>Shader sources\<close>

text \<open>
  A buffer is a list of characters, \<open>None\<close> where it is not initialised. The strings are C
  strings without their terminator, \<open>None\<close> a NULL pointer; \<open>length\<close> is NULL or an array
  parallel to them. \<open>strcat\<close> looks for the terminator from \<open>p\<close> on: an uninitialised
  character or the end of the buffer on the way is undefined behaviour.
\<close>

abbreviation NUL :: char where "NUL \<equiv> CHR 0x00"

fun find_nul :: "char option list \<Rightarrow> nat \<Rightarrow> nat option" where
  "find_nul [] k = None"
| "find_nul (None # _) k = None"
| "find_nul (Some c # cs) k = (if c = NUL then Some k else find_nul cs (Suc k))"

definition strcat :: "char option list \<Rightarrow> nat \<Rightarrow> string \<Rightarrow> char option list ub" where
  "strcat buf p s =
     (case find_nul (drop p buf) p of None \<Rightarrow> None
      | Some e \<Rightarrow> blit buf e (map Some (s @ [NUL])))"

text \<open>\<open>length[i]\<close> where the code uses it: \<open>length\<close> is not NULL and the entry not negative.\<close>

definition given_length :: "int list option \<Rightarrow> nat \<Rightarrow> int option" where
  "given_length lens i =
     (case lens of None \<Rightarrow> None
      | Some ls \<Rightarrow> if ls ! i < 0 then None else Some (ls ! i))"

fun pack_strings ::
  "char option list \<Rightarrow> nat \<Rightarrow> nat \<Rightarrow> string option list \<Rightarrow> int list option \<Rightarrow> char option list ub"
where
  "pack_strings buf p i [] lens = Some buf"
| "pack_strings buf p i (None # ss) lens = pack_strings buf p (Suc i) ss lens"
| "pack_strings buf p i (Some s # ss) lens =
     (case given_length lens i of
        None \<Rightarrow> Option.bind (strcat buf p s)
                  (\<lambda>b. pack_strings b (p + length s) (Suc i) ss lens)
      | Some l \<Rightarrow> Option.bind (strcat buf p (take (nat l) s))
                  (\<lambda>b. pack_strings b (p + nat l) (Suc i) ss lens))"

definition glUtilsPackStrings ::
  "char option list \<Rightarrow> string option list \<Rightarrow> int list option \<Rightarrow> char option list ub" where
  "glUtilsPackStrings ptr strings lens =
     Option.bind (blit ptr 0 [Some NUL]) (\<lambda>b. pack_strings b 0 0 strings lens)"

definition string_len :: "string option \<Rightarrow> int list option \<Rightarrow> nat \<Rightarrow> int" where
  "string_len s lens i =
     (case given_length lens i of
        None \<Rightarrow> (case s of None \<Rightarrow> 0 | Some t \<Rightarrow> int (length t))
      | Some l \<Rightarrow> l)"

fun source_len :: "int \<Rightarrow> nat \<Rightarrow> string option list \<Rightarrow> int list option \<Rightarrow> int" where
  "source_len len i [] lens = len"
| "source_len len i (s # ss) lens =
     source_len (i32 (len + string_len s lens i)) (Suc i) ss lens"

definition glUtilsCalcShaderSourceLen :: "string option list \<Rightarrow> int list option \<Rightarrow> int" where
  "glUtilsCalcShaderSourceLen strings lens = source_len 0 0 strings lens"

text \<open>What the packed source is meant to be, and when the lengths are honest.\<close>

fun source_text :: "nat \<Rightarrow> string option list \<Rightarrow> int list option \<Rightarrow> string" where
  "source_text i [] lens = []"
| "source_text i (s # ss) lens =
     (case s of None \<Rightarrow> []
      | Some t \<Rightarrow> (case given_length lens i of None \<Rightarrow> t | Some l \<Rightarrow> take (nat l) t))
     @ source_text (Suc i) ss lens"

fun honest_lengths :: "nat \<Rightarrow> string option list \<Rightarrow> int list option \<Rightarrow> bool" where
  "honest_lengths i [] lens = True"
| "honest_lengths i (s # ss) lens =
     ((case (s, given_length lens i) of (Some t, Some l) \<Rightarrow> l \<le> int (length t) | _ \<Rightarrow> True)
      \<and> honest_lengths (Suc i) ss lens)"

fun total_len :: "nat \<Rightarrow> string option list \<Rightarrow> int list option \<Rightarrow> int" where
  "total_len i [] lens = 0"
| "total_len i (s # ss) lens = string_len s lens i + total_len (Suc i) ss lens"

lemma given_length_nonneg: "given_length lens i = Some l \<Longrightarrow> 0 \<le> l"
  by (auto simp: given_length_def split: option.splits if_splits)

lemma string_len_nonneg: "0 \<le> string_len s lens i"
  by (auto simp: string_len_def dest: given_length_nonneg split: option.splits)

lemma total_len_nonneg: "0 \<le> total_len i ss lens"
  by (induction ss arbitrary: i) (auto simp: string_len_nonneg add_nonneg_nonneg)

lemma source_len_total:
  "0 \<le> len \<Longrightarrow> len + total_len i ss lens < 2147483648 \<Longrightarrow>
   source_len len i ss lens = len + total_len i ss lens"
proof (induction ss arbitrary: len i)
  case (Cons s ss)
  have n: "0 \<le> string_len s lens i" "0 \<le> total_len (Suc i) ss lens"
    by (rule string_len_nonneg, rule total_len_nonneg)
  then have "int_range (len + string_len s lens i)"
    using Cons.prems by (auto simp: int_range_def)
  with Cons n show ?case by simp
qed simp

lemma source_text_le:
  "honest_lengths i ss lens \<Longrightarrow> int (length (source_text i ss lens)) \<le> total_len i ss lens"
proof (induction ss arbitrary: i)
  case (Cons s ss)
  have "int (length (case s of None \<Rightarrow> []
      | Some t \<Rightarrow> (case given_length lens i of None \<Rightarrow> t | Some l \<Rightarrow> take (nat l) t)))
    \<le> string_len s lens i"
    using Cons.prems
    by (auto simp: string_len_def dest: given_length_nonneg split: option.splits)
  with Cons show ?case by fastforce
qed simp

lemma strcat_end:
  assumes "length s \<le> r"
  shows "strcat (map Some (pre @ [NUL]) @ replicate r None) (length pre) s
         = Some (map Some ((pre @ s) @ [NUL]) @ replicate (r - length s) None)"
  using assms by (simp add: strcat_def blit_def)

text \<open>
  With honest lengths the buffer of \<open>source_len + 1\<close> characters is filled with the
  sources, one after the other, and one terminator.
\<close>

lemma pack_strings_text:
  assumes "honest_lengths i ss lens" and "length (source_text i ss lens) \<le> r"
  shows "pack_strings (map Some (pre @ [NUL]) @ replicate r None) (length pre) i ss lens
         = Some (map Some ((pre @ source_text i ss lens) @ [NUL])
                 @ replicate (r - length (source_text i ss lens)) None)"
  using assms
proof (induction ss arbitrary: i pre r)
  case (Cons s ss)
  define t where "t = (case s of None \<Rightarrow> []
      | Some t \<Rightarrow> (case given_length lens i of None \<Rightarrow> t | Some l \<Rightarrow> take (nat l) t))"
  have r: "length t \<le> r" "length (source_text (Suc i) ss lens) \<le> r - length t"
    using Cons.prems(2) by (simp_all add: t_def [symmetric])
  have IH: "pack_strings (map Some ((pre @ t) @ [NUL]) @ replicate (r - length t) None)
              (length (pre @ t)) (Suc i) ss lens
            = Some (map Some ((pre @ source_text i (s # ss) lens) @ [NUL])
                    @ replicate (r - length (source_text i (s # ss) lens)) None)"
    using Cons.IH [of "Suc i" "r - length t" "pre @ t"] Cons.prems(1) r(2)
    by (simp add: t_def [symmetric] diff_diff_add)
  show ?case
  proof (cases s)
    case None
    with IH show ?thesis by (simp add: t_def)
  next
    case (Some u)
    have cat: "strcat (map Some (pre @ [NUL]) @ replicate r None) (length pre) t
        = Some (map Some ((pre @ t) @ [NUL]) @ replicate (r - length t) None)"
      using r(1) by (rule strcat_end)
    show ?thesis
    proof (cases "given_length lens i")
      case None
      with Some have "t = u" by (simp add: t_def)
      with Some None cat IH show ?thesis by simp
    next
      case (Some l)
      then have "t = take (nat l) u" and "nat l \<le> length u"
        using \<open>s = Some u\<close> Cons.prems(1) by (simp_all add: t_def nat_le_iff)
      then have "length t = nat l" by simp
      with Some \<open>s = Some u\<close> cat IH \<open>t = take (nat l) u\<close> show ?thesis by simp
    qed
  qed
qed simp

section \<open>Properties\<close>

text \<open>
  C25. Both packing routines hand over exactly the \<open>n\<close> elements of the vertex array, in order
  and without the gaps between them, whether the array is contiguous (one copy) or strided
  (the loop), for every total size that fits the 32-bit length; and they return.
\<close>

theorem pack_pointer_elements:
  fixes sz :: int and type :: GLenum
  defines "vsize \<equiv> word_of_int sz * glSizeof type"
  assumes "n * unat vsize < 4294967296"
  shows "glUtilsPackPointerData m src sz type stride (word_of_nat n * vsize)
           = Some (concat (array_elements m src (if stride = 0 then vsize else stride)
                            (unat vsize) n))
         \<and> map_option concat
             (glUtilsWritePackPointerData m src sz type stride (word_of_nat n * vsize))
           = glUtilsPackPointerData m src sz type stride (word_of_nat n * vsize)"
  using pack_chunks_elements [OF meta_eq_to_obj_eq [OF vsize_def] assms(2)] write_pack_same
  by blast

theorem pack_pointer_elements_witness:
  "glUtilsPackPointerData (\<lambda>a. ucast a) 100 3 GL_FLOAT 16 24
   = Some (map word_of_nat ([100..<112] @ [116..<128]))"
proof -
  have v: "glSizeof GL_FLOAT = 4" by (simp add: glSizeof_def)
  have "glUtilsPackPointerData (\<lambda>a. ucast a) 100 3 GL_FLOAT 16 (word_of_nat 2 * 12)
        = Some (concat (array_elements (\<lambda>a. ucast a) 100 16 12 2))"
    using pack_pointer_elements [of 2 3 GL_FLOAT "\<lambda>a. ucast a" 100 16] by (simp add: v)
  then show ?thesis
    by (simp add: array_elements_def read_mem_def upt_rec)
qed

text \<open>
  C26. The copying loop returns exactly when it makes progress or has nothing to copy: with
  an element size other than 0 (and room for the counter below 2^32) it ends, with element
  size 0 and a non-empty length it never does.
\<close>

theorem pack_loop_termination:
  assumes "unat datalen + unat vsize \<le> 4294967296"
  shows "(\<exists>r. pack_loop m src stride vsize datalen 0 = Some r) \<longleftrightarrow> vsize \<noteq> 0 \<or> datalen = 0"
proof
  assume "\<exists>r. pack_loop m src stride vsize datalen 0 = Some r"
  then show "vsize \<noteq> 0 \<or> datalen = 0" using pack_loop_progress by (force simp: word_gt_0)
next
  assume "vsize \<noteq> 0 \<or> datalen = 0"
  then show "\<exists>r. pack_loop m src stride vsize datalen 0 = Some r"
    using pack_loop_total [OF _ assms] by (cases "datalen = 0") (auto simp: pack_loop.simps)
qed

theorem pack_loop_termination_witness:
  "(\<exists>r. pack_loop (\<lambda>_. 0) 0 8 4 16 0 = Some r) \<and> pack_loop (\<lambda>_. 0) 0 8 0 16 0 = None"
  using pack_loop_termination [of 16 4 "\<lambda>_. 0" 0 8]
    pack_loop_termination [of 16 0 "\<lambda>_. 0" 0 8] by simp

text \<open>
  C27. The buffer of \<open>glUtilsCalcShaderSourceLen + 1\<close> characters that \<open>glShaderSource\<close>
  allocates is large enough, and the packed source is the concatenation of the strings (cut
  at their given lengths) with one terminator, for lengths that do not exceed their strings
  and a total below 2^31.
\<close>

theorem shader_source_fits:
  assumes "honest_lengths 0 ss lens" and "total_len 0 ss lens < 2147483648"
  shows "glUtilsPackStrings (replicate (nat (glUtilsCalcShaderSourceLen ss lens) + 1) None) ss lens
         = Some (map Some (source_text 0 ss lens @ [NUL])
                 @ replicate (nat (glUtilsCalcShaderSourceLen ss lens)
                              - length (source_text 0 ss lens)) None)"
proof -
  define n where "n = nat (glUtilsCalcShaderSourceLen ss lens)"
  have "glUtilsCalcShaderSourceLen ss lens = total_len 0 ss lens"
    using source_len_total [of 0 0 ss lens] assms(2) by (simp add: glUtilsCalcShaderSourceLen_def)
  then have "length (source_text 0 ss lens) \<le> n"
    using source_text_le [OF assms(1)] by (simp add: n_def)
  from pack_strings_text [OF assms(1) this, of "[]"]
  have "glUtilsPackStrings (replicate (n + 1) None) ss lens
        = Some (map Some (source_text 0 ss lens @ [NUL])
                @ replicate (n - length (source_text 0 ss lens)) None)"
    by (simp add: glUtilsPackStrings_def blit_def)
  then show ?thesis by (simp add: n_def)
qed

theorem shader_source_fits_witness:
  "glUtilsPackStrings (replicate 6 None) [Some ''void'', None, Some ''xyz''] (Some [4, -1, 1])
   = Some (map Some (''voidx'' @ [NUL]))"
proof -
  have "glUtilsCalcShaderSourceLen [Some ''void'', None, Some ''xyz''] (Some [4, -1, 1]) = 5"
    by (simp add: glUtilsCalcShaderSourceLen_def string_len_def given_length_def i32_def)
  then show ?thesis
    using shader_source_fits [of "[Some ''void'', None, Some ''xyz'']" "Some [4, -1, 1]"]
    by (simp add: given_length_def string_len_def)
qed

text \<open>
  A length larger than its string breaks it: \<open>glUtilsPackStrings\<close> moves on by the given
  length, past the terminator it wrote, and the next \<open>strcat\<close> reads uninitialised memory.
\<close>

theorem pack_strings_overlong_length:
  "glUtilsPackStrings (replicate (nat (glUtilsCalcShaderSourceLen [Some ''a'', Some ''b'']
      (Some [2, 1])) + 1) None) [Some ''a'', Some ''b''] (Some [2, 1]) = None"
  by (simp add: glUtilsCalcShaderSourceLen_def string_len_def given_length_def i32_def
      glUtilsPackStrings_def strcat_def blit_def numeral_eq_Suc)

text \<open>
  The index window of a draw call: after \<open>shiftIndices\<close> by \<open>-min\<close> the \<open>k\<close>-th index is
  the \<open>k\<close>-th original one counted from \<open>min\<close>, without wrapping, so it addresses one of the
  \<open>max - min + 1\<close> elements that are sent.
\<close>

theorem draw_index_window:
  assumes "minmax xs = (mn, mx)" and "k < length xs"
  shows "uint (shiftIndices xs (- mn) ! k) = uint (xs ! k) - mn
         \<and> uint (shiftIndices xs (- mn) ! k) < mx - mn + 1"
  using shiftIndices_minmax [OF assms] minmax_bounds [OF assms(1), of "xs ! k"] assms(2)
  by simp

theorem draw_index_window_witness:
  "uint (shiftIndices [7, 5, 9 :: 16 word] (- 5) ! 2) = 4
   \<and> uint (shiftIndices [7, 5, 9 :: 16 word] (- 5) ! 2) < 9 - 5 + 1"
proof -
  have m: "minmax [7, 5, 9 :: 16 word] = (5, 9)" by (simp add: minmax_def)
  show ?thesis using draw_index_window [OF m, of 2] by simp
qed

end
