(* ===== verification/GLClientState.thy ===== *)
theory GLClientState
  imports GLUtils
begin

text \<open>
  \<open>common/opengl/shared/OpenglCodecCommon/GLClientState.cpp\<close> and \<open>.h\<close>: the copy of the GL
  state that the guest keeps. Vertex attribute slots, buffer bindings, pixel store, texture
  units and the sorted table of the textures seen so far. The lemmas show the invariant of
  the state and that every operation keeps it, that the table is a map from texture names
  to targets as long as the names stay below 2^31, and what the operations return.
\<close>

section \<open>Data\<close>

record vertex_attrib =
  va_enabled :: int
  va_size :: int
  va_type :: GLenum
  va_stride :: int
  va_data :: addr
  va_bufferObject :: GLuint
  va_glConst :: GLenum
  va_elementSize :: u32
  va_enableDirty :: bool
  va_normalized :: bool

text \<open>\<open>texture[TEXTURE_TARGET_COUNT]\<close> has the two entries \<open>TEXTURE_2D\<close> and \<open>TEXTURE_EXTERNAL\<close>.\<close>

record texture_unit =
  tu_enables :: u32
  tu_2d :: GLuint
  tu_external :: GLuint

record texture_rec =
  tr_id :: GLuint
  tr_target :: GLenum

text \<open>
  \<open>cs_states\<close> is the array \<open>m_states\<close> of \<open>m_nLocations\<close> slots, \<open>cs_textures\<close> the first
  \<open>numTextures\<close> entries of the texture array, \<open>cs_activeUnit\<close> the index of the unit that
  \<open>m_tex.activeUnit\<close> points at.
\<close>

record client_state =
  cs_unpack_alignment :: int
  cs_pack_alignment :: int
  cs_states :: "vertex_attrib list"
  cs_nLocations :: int
  cs_currentArrayVbo :: GLuint
  cs_currentIndexVbo :: GLuint
  cs_activeTexture :: int
  cs_currentProgram :: int
  cs_units :: "texture_unit list"
  cs_activeUnit :: nat
  cs_textures :: "texture_rec list"
  cs_allocTextures :: GLuint

abbreviation (input) VERTEX_LOCATION :: int where "VERTEX_LOCATION \<equiv> 0"
abbreviation (input) NORMAL_LOCATION :: int where "NORMAL_LOCATION \<equiv> 1"
abbreviation (input) COLOR_LOCATION :: int where "COLOR_LOCATION \<equiv> 2"
abbreviation (input) POINTSIZE_LOCATION :: int where "POINTSIZE_LOCATION \<equiv> 3"
abbreviation (input) TEXCOORD0_LOCATION :: int where "TEXCOORD0_LOCATION \<equiv> 4"
abbreviation (input) MATRIXINDEX_LOCATION :: int where "MATRIXINDEX_LOCATION \<equiv> 12"
abbreviation (input) WEIGHT_LOCATION :: int where "WEIGHT_LOCATION \<equiv> 13"
abbreviation (input) LAST_LOCATION :: int where "LAST_LOCATION \<equiv> 14"
abbreviation (input) MAX_TEXTURE_UNITS :: nat where "MAX_TEXTURE_UNITS \<equiv> 32"
abbreviation (input) CODEC_MAX_VERTEX_ATTRIBUTES :: int where "CODEC_MAX_VERTEX_ATTRIBUTES \<equiv> 64"

text \<open>\<open>TEXTURE_2D = 0\<close> and \<open>TEXTURE_EXTERNAL = 1\<close> as bits of \<open>enables\<close>.\<close>

abbreviation (input) BIT_2D :: u32 where "BIT_2D \<equiv> 1"
abbreviation (input) BIT_EXTERNAL :: u32 where "BIT_EXTERNAL \<equiv> 2"

lemma texture_rec_eta [simp]: "\<lparr>tr_id = tr_id r, tr_target = tr_target r\<rparr> = r"
  by simp

section \<open>Construction\<close>

text \<open>
  The GL constants of the fixed-function slots; the eight texture coordinate slots share one.
\<close>

definition location_consts :: "GLenum list" where
  "location_consts =
     [GL_VERTEX_ARRAY, GL_NORMAL_ARRAY, GL_COLOR_ARRAY, GL_POINT_SIZE_ARRAY_OES]
     @ replicate 8 GL_TEXTURE_COORD_ARRAY
     @ [GL_MATRIX_INDEX_ARRAY_OES, GL_WEIGHT_ARRAY_OES]"

text \<open>\<open>new VertexAttribState[n]\<close> leaves the slots uninitialised: \<open>junk\<close> is what they hold.\<close>

definition GLClientState_new :: "(nat \<Rightarrow> vertex_attrib) \<Rightarrow> int \<Rightarrow> client_state" where
  "GLClientState_new junk nLocations =
     (let n = (if nLocations < LAST_LOCATION then LAST_LOCATION else nLocations);
          slot = (\<lambda>i. let v = (junk i)\<lparr>va_enabled := 0, va_enableDirty := False\<rparr> in
                   if i < length location_consts
                   then v\<lparr>va_glConst := location_consts ! i\<rparr> else v)
      in \<lparr>cs_unpack_alignment = 4, cs_pack_alignment = 4,
          cs_states = map slot [0..<nat n], cs_nLocations = n,
          cs_currentArrayVbo = 0, cs_currentIndexVbo = 0,
          cs_activeTexture = 0, cs_currentProgram = 0,
          cs_units = replicate MAX_TEXTURE_UNITS \<lparr>tu_enables = 0, tu_2d = 0, tu_external = 0\<rparr>,
          cs_activeUnit = 0, cs_textures = [], cs_allocTextures = 0\<rparr>)"

section \<open>Vertex attributes\<close>

definition validLocation :: "client_state \<Rightarrow> int \<Rightarrow> bool" where
  "validLocation s location \<longleftrightarrow> 0 \<le> location \<and> location < cs_nLocations s"

definition upd_location :: "client_state \<Rightarrow> int \<Rightarrow> (vertex_attrib \<Rightarrow> vertex_attrib) \<Rightarrow> client_state" where
  "upd_location s location f =
     s\<lparr>cs_states := (cs_states s)[nat location := f (cs_states s ! nat location)]\<rparr>"

definition enable :: "client_state \<Rightarrow> int \<Rightarrow> int \<Rightarrow> client_state" where
  "enable s location state =
     (if \<not> validLocation s location then s
      else upd_location s location (\<lambda>v.
        v\<lparr>va_enableDirty := va_enableDirty v \<or> state \<noteq> va_enabled v, va_enabled := state\<rparr>))"

definition setState ::
  "client_state \<Rightarrow> int \<Rightarrow> int \<Rightarrow> GLenum \<Rightarrow> 8 word \<Rightarrow> int \<Rightarrow> addr \<Rightarrow> client_state" where
  "setState s location sz type normalized stride data =
     (if \<not> validLocation s location then s
      else upd_location s location (\<lambda>v.
        v\<lparr>va_size := sz, va_type := type, va_stride := stride, va_data := data,
          va_bufferObject := cs_currentArrayVbo s,
          va_elementSize := glSizeof type * word_of_int sz,
          va_normalized := (normalized \<noteq> 0)\<rparr>))"

definition setBufferObject :: "client_state \<Rightarrow> int \<Rightarrow> GLuint \<Rightarrow> client_state" where
  "setBufferObject s location bufid =
     (if \<not> validLocation s location then s
      else upd_location s location (\<lambda>v. v\<lparr>va_bufferObject := bufid\<rparr>))"

text \<open>\<open>None\<close> is the NULL the code returns.\<close>

definition getState :: "client_state \<Rightarrow> int \<Rightarrow> vertex_attrib option" where
  "getState s location =
     (if \<not> validLocation s location then None else Some (cs_states s ! nat location))"

text \<open>The slot (its flag cleared) and the flag it had.\<close>

definition getStateAndEnableDirty ::
  "client_state \<Rightarrow> int \<Rightarrow> client_state \<times> (vertex_attrib \<times> bool) option" where
  "getStateAndEnableDirty s location =
     (if \<not> validLocation s location then (s, None)
      else let enableChanged = va_enableDirty (cs_states s ! nat location);
               s' = upd_location s location (\<lambda>v. v\<lparr>va_enableDirty := False\<rparr>)
           in (s', Some (cs_states s' ! nat location, enableChanged)))"

definition getLocation :: "client_state \<Rightarrow> GLenum \<Rightarrow> int" where
  "getLocation s loc =
     (if loc = GL_VERTEX_ARRAY then VERTEX_LOCATION
      else if loc = GL_NORMAL_ARRAY then NORMAL_LOCATION
      else if loc = GL_COLOR_ARRAY then COLOR_LOCATION
      else if loc = GL_POINT_SIZE_ARRAY_OES then POINTSIZE_LOCATION
      else if loc = GL_TEXTURE_COORD_ARRAY then i32 (TEXCOORD0_LOCATION + cs_activeTexture s)
      else if loc = GL_MATRIX_INDEX_ARRAY_OES then MATRIXINDEX_LOCATION
      else if loc = GL_WEIGHT_ARRAY_OES then WEIGHT_LOCATION
      else sint loc)"

text \<open>The address stored in \<open>*params\<close>, \<open>None\<close> when nothing is stored.\<close>

definition getClientStatePointer :: "client_state \<Rightarrow> GLenum \<Rightarrow> addr option" where
  "getClientStatePointer s pname =
     map_option va_data
      (if pname = GL_VERTEX_ARRAY_POINTER then getState s VERTEX_LOCATION
       else if pname = GL_NORMAL_ARRAY_POINTER then getState s NORMAL_LOCATION
       else if pname = GL_COLOR_ARRAY_POINTER then getState s COLOR_LOCATION
       else if pname = GL_TEXTURE_COORD_ARRAY_POINTER
         then getState s (i32 (cs_activeTexture s + TEXCOORD0_LOCATION))
       else if pname = GL_POINT_SIZE_ARRAY_POINTER_OES then getState s POINTSIZE_LOCATION
       else if pname = GL_MATRIX_INDEX_ARRAY_POINTER_OES then getState s MATRIXINDEX_LOCATION
       else if pname = GL_WEIGHT_ARRAY_POINTER_OES then getState s WEIGHT_LOCATION
       else None)"

definition setActiveTexture :: "client_state \<Rightarrow> int \<Rightarrow> client_state" where
  "setActiveTexture s texUnit = s\<lparr>cs_activeTexture := texUnit\<rparr>"

definition bindBuffer :: "client_state \<Rightarrow> GLenum \<Rightarrow> GLuint \<Rightarrow> client_state \<times> int" where
  "bindBuffer s target bufid =
     (if target = GL_ARRAY_BUFFER then (s\<lparr>cs_currentArrayVbo := bufid\<rparr>, 0)
      else if target = GL_ELEMENT_ARRAY_BUFFER then (s\<lparr>cs_currentIndexVbo := bufid\<rparr>, 0)
      else (s, - 1))"

definition getBuffer :: "client_state \<Rightarrow> GLenum \<Rightarrow> int" where
  "getBuffer s target =
     (if target = GL_ARRAY_BUFFER then sint (cs_currentArrayVbo s)
      else if target = GL_ELEMENT_ARRAY_BUFFER then sint (cs_currentIndexVbo s)
      else - 1)"

definition setCurrentProgram :: "client_state \<Rightarrow> int \<Rightarrow> client_state" where
  "setCurrentProgram s program = s\<lparr>cs_currentProgram := program\<rparr>"

text \<open>
  Whether the query was handled, and the value stored in \<open>*ptr\<close> before its conversion to the
  caller's type, \<open>None\<close> when nothing is stored.
\<close>

definition getVertexAttribParameter :: "client_state \<Rightarrow> GLuint \<Rightarrow> GLenum \<Rightarrow> bool \<times> int option" where
  "getVertexAttribParameter s index param =
     (case getState s (sint index) of
        None \<Rightarrow> (True, None)
      | Some v \<Rightarrow>
          if param = GL_VERTEX_ATTRIB_ARRAY_BUFFER_BINDING then (True, Some (uint (va_bufferObject v)))
          else if param = GL_VERTEX_ATTRIB_ARRAY_ENABLED then (True, Some (va_enabled v))
          else if param = GL_VERTEX_ATTRIB_ARRAY_SIZE then (True, Some (va_size v))
          else if param = GL_VERTEX_ATTRIB_ARRAY_STRIDE then (True, Some (va_stride v))
          else if param = GL_VERTEX_ATTRIB_ARRAY_TYPE then (True, Some (uint (va_type v)))
          else if param = GL_VERTEX_ATTRIB_ARRAY_NORMALIZED
            then (True, Some (if va_normalized v then 1 else 0))
          else (False, None))"

text \<open>
  \<open>getClientStateParameter\<close>: the slot whose field a parameter asks for. The code dereferences
  the slot without a check, so an absent slot is undefined behaviour.
\<close>

definition param_slot :: "client_state \<Rightarrow> GLenum \<Rightarrow> (int \<times> (vertex_attrib \<Rightarrow> int)) option" where
  "param_slot s param =
     (let texcoord = i32 (cs_activeTexture s + TEXCOORD0_LOCATION);
          ty = (\<lambda>v. uint (va_type v)); buf = (\<lambda>v. uint (va_bufferObject v))
      in if param = GL_VERTEX_ARRAY_SIZE then Some (VERTEX_LOCATION, va_size)
      else if param = GL_VERTEX_ARRAY_TYPE then Some (VERTEX_LOCATION, ty)
      else if param = GL_VERTEX_ARRAY_STRIDE then Some (VERTEX_LOCATION, va_stride)
      else if param = GL_COLOR_ARRAY_SIZE then Some (COLOR_LOCATION, va_size)
      else if param = GL_COLOR_ARRAY_TYPE then Some (COLOR_LOCATION, ty)
      else if param = GL_COLOR_ARRAY_STRIDE then Some (COLOR_LOCATION, va_stride)
      else if param = GL_NORMAL_ARRAY_TYPE then Some (NORMAL_LOCATION, ty)
      else if param = GL_NORMAL_ARRAY_STRIDE then Some (NORMAL_LOCATION, va_stride)
      else if param = GL_TEXTURE_COORD_ARRAY_SIZE then Some (texcoord, va_size)
      else if param = GL_TEXTURE_COORD_ARRAY_TYPE then Some (texcoord, ty)
      else if param = GL_TEXTURE_COORD_ARRAY_STRIDE then Some (texcoord, va_stride)
      else if param = GL_POINT_SIZE_ARRAY_TYPE_OES then Some (POINTSIZE_LOCATION, ty)
      else if param = GL_POINT_SIZE_ARRAY_STRIDE_OES then Some (POINTSIZE_LOCATION, va_stride)
      else if param = GL_MATRIX_INDEX_ARRAY_SIZE_OES then Some (MATRIXINDEX_LOCATION, va_size)
      else if param = GL_MATRIX_INDEX_ARRAY_TYPE_OES then Some (MATRIXINDEX_LOCATION, ty)
      else if param = GL_MATRIX_INDEX_ARRAY_STRIDE_OES then Some (MATRIXINDEX_LOCATION, va_stride)
      else if param = GL_WEIGHT_ARRAY_SIZE_OES then Some (WEIGHT_LOCATION, va_size)
      else if param = GL_WEIGHT_ARRAY_TYPE_OES then Some (WEIGHT_LOCATION, ty)
      else if param = GL_WEIGHT_ARRAY_STRIDE_OES then Some (WEIGHT_LOCATION, va_stride)
      else if param = GL_VERTEX_ARRAY_BUFFER_BINDING then Some (VERTEX_LOCATION, buf)
      else if param = GL_NORMAL_ARRAY_BUFFER_BINDING then Some (NORMAL_LOCATION, buf)
      else if param = GL_COLOR_ARRAY_BUFFER_BINDING then Some (COLOR_LOCATION, buf)
      else if param = GL_TEXTURE_COORD_ARRAY_BUFFER_BINDING then Some (texcoord, buf)
      else if param = GL_POINT_SIZE_ARRAY_BUFFER_BINDING_OES then Some (POINTSIZE_LOCATION, buf)
      else if param = GL_MATRIX_INDEX_ARRAY_BUFFER_BINDING_OES then Some (MATRIXINDEX_LOCATION, buf)
      else if param = GL_WEIGHT_ARRAY_BUFFER_BINDING_OES then Some (WEIGHT_LOCATION, buf)
      else None)"

definition getClientStateParameter :: "client_state \<Rightarrow> GLenum \<Rightarrow> (bool \<times> int option) ub" where
  "getClientStateParameter s param =
     (if param = GL_CLIENT_ACTIVE_TEXTURE
        then Some (True, Some (i32 (cs_activeTexture s + uint GL_TEXTURE0)))
      else if param = GL_ARRAY_BUFFER_BINDING
        then Some (True, Some (getBuffer s GL_ARRAY_BUFFER))
      else if param = GL_ELEMENT_ARRAY_BUFFER_BINDING
        then Some (True, Some (getBuffer s GL_ELEMENT_ARRAY_BUFFER))
      else case param_slot s param of
             None \<Rightarrow> Some (False, None)
           | Some (location, field) \<Rightarrow>
               (case getState s location of None \<Rightarrow> None
                | Some v \<Rightarrow> Some (True, Some (field v))))"

section \<open>Pixels\<close>

definition setPixelStore :: "client_state \<Rightarrow> GLenum \<Rightarrow> int \<Rightarrow> client_state \<times> GLenum" where
  "setPixelStore s param value =
     (if param = GL_UNPACK_ALIGNMENT then
        (if value = 1 \<or> value = 2 \<or> value = 4 \<or> value = 8
         then (s\<lparr>cs_unpack_alignment := value\<rparr>, 0) else (s, GL_INVALID_VALUE))
      else if param = GL_PACK_ALIGNMENT then
        (if value = 1 \<or> value = 2 \<or> value = 4 \<or> value = 8
         then (s\<lparr>cs_pack_alignment := value\<rparr>, 0) else (s, GL_INVALID_VALUE))
      else (s, GL_INVALID_ENUM))"

text \<open>The sizes are 32-bit \<open>size_t\<close>: products and sums wrap.\<close>

definition pixelDataSize :: "client_state \<Rightarrow> int \<Rightarrow> int \<Rightarrow> GLenum \<Rightarrow> GLenum \<Rightarrow> bool \<Rightarrow> size_t" where
  "pixelDataSize s width height format type pack =
     (let pixelsize = glUtilsPixelBitSize format type div 8;
          alignment = (if pack then cs_pack_alignment s else cs_unpack_alignment s);
          linesize = (word_of_int (i32 (pixelsize * width)) :: size_t);
          aligned = word_of_int (i32 (sint (linesize div word_of_int alignment) * alignment));
          aligned = (if aligned < linesize then aligned + word_of_int alignment else aligned)
      in aligned * word_of_int height)"

section \<open>Texture units\<close>

definition active_unit :: "client_state \<Rightarrow> texture_unit" where
  "active_unit s = cs_units s ! cs_activeUnit s"

definition upd_unit :: "client_state \<Rightarrow> (texture_unit \<Rightarrow> texture_unit) \<Rightarrow> client_state" where
  "upd_unit s f = s\<lparr>cs_units := (cs_units s)[cs_activeUnit s := f (active_unit s)]\<rparr>"

definition setActiveTextureUnit :: "client_state \<Rightarrow> GLenum \<Rightarrow> client_state \<times> GLenum" where
  "setActiveTextureUnit s texture =
     (let unit = texture - GL_TEXTURE0 in
      if of_nat MAX_TEXTURE_UNITS \<le> unit then (s, GL_INVALID_OPERATION)
      else (s\<lparr>cs_activeUnit := unat unit\<rparr>, GL_NO_ERROR))"

definition getActiveTextureUnit :: "client_state \<Rightarrow> GLenum" where
  "getActiveTextureUnit s = GL_TEXTURE0 + of_nat (cs_activeUnit s)"

definition enableTextureTarget :: "client_state \<Rightarrow> GLenum \<Rightarrow> client_state" where
  "enableTextureTarget s target =
     (if target = GL_TEXTURE_2D
        then upd_unit s (\<lambda>u. u\<lparr>tu_enables := tu_enables u OR BIT_2D\<rparr>)
      else if target = GL_TEXTURE_EXTERNAL_OES
        then upd_unit s (\<lambda>u. u\<lparr>tu_enables := tu_enables u OR BIT_EXTERNAL\<rparr>)
      else s)"

definition disableTextureTarget :: "client_state \<Rightarrow> GLenum \<Rightarrow> client_state" where
  "disableTextureTarget s target =
     (if target = GL_TEXTURE_2D
        then upd_unit s (\<lambda>u. u\<lparr>tu_enables := tu_enables u AND NOT BIT_2D\<rparr>)
      else if target = GL_TEXTURE_EXTERNAL_OES
        then upd_unit s (\<lambda>u. u\<lparr>tu_enables := tu_enables u AND NOT BIT_EXTERNAL\<rparr>)
      else s)"

definition unit_priority :: "texture_unit \<Rightarrow> GLenum \<Rightarrow> GLenum" where
  "unit_priority u allDisabled =
     (if tu_enables u AND BIT_EXTERNAL \<noteq> 0 then GL_TEXTURE_EXTERNAL_OES
      else if tu_enables u AND BIT_2D \<noteq> 0 then GL_TEXTURE_2D
      else allDisabled)"

definition getPriorityEnabledTarget :: "client_state \<Rightarrow> GLenum \<Rightarrow> GLenum" where
  "getPriorityEnabledTarget s allDisabled = unit_priority (active_unit s) allDisabled"

definition unit_texture :: "texture_unit \<Rightarrow> GLenum \<Rightarrow> GLuint" where
  "unit_texture u target =
     (if target = GL_TEXTURE_2D then tu_2d u
      else if target = GL_TEXTURE_EXTERNAL_OES then tu_external u
      else 0)"

definition getBoundTexture :: "client_state \<Rightarrow> GLenum \<Rightarrow> GLuint" where
  "getBoundTexture s target = unit_texture (active_unit s) target"

section \<open>The texture table\<close>

text \<open>\<open>(GLint)(*id) - (GLint)rec->id\<close>: a signed difference, wrapping.\<close>

definition compareTexId :: "GLuint \<Rightarrow> texture_rec \<Rightarrow> int" where
  "compareTexId tid rec = i32 (sint tid - sint (tr_id rec))"

definition find_texture :: "texture_rec list \<Rightarrow> GLuint \<Rightarrow> nat option" where
  "find_texture textures tid = bsearch (compareTexId tid) textures 0 (length textures)"

text \<open>
  The insertion loop of \<open>addTextureRec\<close> runs from the end of the array and moves every
  record with a larger name one place up: here over the reversed array.
\<close>

fun insert_rev :: "texture_rec \<Rightarrow> texture_rec list \<Rightarrow> texture_rec list" where
  "insert_rev tex [] = [tex]"
| "insert_rev tex (prev # rest) =
     (if tr_id tex < tr_id prev then prev # insert_rev tex rest else tex # prev # rest)"

text \<open>
  \<open>None\<close> is the NULL of a failed allocation; \<open>realloc_ok bytes\<close> tells whether \<open>realloc\<close>
  provides that many bytes.
\<close>

definition addTextureRec ::
  "(size_t \<Rightarrow> bool) \<Rightarrow> client_state \<Rightarrow> GLuint \<Rightarrow> GLenum \<Rightarrow> (client_state \<times> texture_rec) option" where
  "addTextureRec realloc_ok s tid target =
     (let alloc = cs_allocTextures s;
          max_textures = (0xFFFFFFFF :: GLuint);
          tex = \<lparr>tr_id = tid, tr_target = target\<rparr>;
          insert = (\<lambda>s. (s\<lparr>cs_textures := rev (insert_rev tex (rev (cs_textures s)))\<rparr>, tex))
      in if of_nat (length (cs_textures s)) = alloc then
           (let grow = (\<lambda>newAlloc. if realloc_ok (newAlloc * 8)
                  then Some (insert (s\<lparr>cs_allocTextures := newAlloc\<rparr>)) else None)
            in if alloc \<le> max_textures - alloc then grow (if 4 < 2 * alloc then 2 * alloc else 4)
               else if alloc = max_textures then None
               else grow max_textures)
         else Some (insert s))"

definition bindTexture ::
  "(size_t \<Rightarrow> bool) \<Rightarrow> client_state \<Rightarrow> GLenum \<Rightarrow> GLuint \<Rightarrow> client_state \<times> GLenum \<times> bool" where
  "bindTexture realloc_ok s target texture =
     (let found =
        (if texture = 0 then Some (s, None, False)
         else case find_texture (cs_textures s) texture of
                Some k \<Rightarrow> Some (s, Some (cs_textures s ! k), False)
              | None \<Rightarrow> (case addTextureRec realloc_ok s texture target of
                  None \<Rightarrow> None
                | Some (s', rec) \<Rightarrow> Some (s', Some rec, True)))
      in case found of
           None \<Rightarrow> (s, GL_OUT_OF_MEMORY, False)
         | Some (s', rec, first) \<Rightarrow>
             if (case rec of None \<Rightarrow> False | Some r \<Rightarrow> target \<noteq> tr_target r)
             then (s', GL_INVALID_OPERATION, False)
             else ((if target = GL_TEXTURE_2D then upd_unit s' (\<lambda>u. u\<lparr>tu_2d := texture\<rparr>)
                    else if target = GL_TEXTURE_EXTERNAL_OES
                      then upd_unit s' (\<lambda>u. u\<lparr>tu_external := texture\<rparr>)
                    else s'), GL_NO_ERROR, first))"

definition unbind_unit :: "GLuint \<Rightarrow> texture_unit \<Rightarrow> texture_unit" where
  "unbind_unit texture u =
     (if tu_2d u = texture then u\<lparr>tu_2d := 0\<rparr>
      else if tu_external u = texture then u\<lparr>tu_external := 0\<rparr>
      else u)"

definition deleteTexture :: "client_state \<Rightarrow> GLuint \<Rightarrow> client_state" where
  "deleteTexture s texture =
     (case find_texture (cs_textures s) texture of
        None \<Rightarrow> s
      | Some k \<Rightarrow> s\<lparr>cs_textures := take k (cs_textures s) @ drop (Suc k) (cs_textures s),
                   cs_units := map (unbind_unit texture) (cs_units s)\<rparr>)"

definition deleteTextures :: "client_state \<Rightarrow> GLuint list \<Rightarrow> client_state" where
  "deleteTextures s textures = foldl deleteTexture s textures"

section \<open>The table is a map\<close>

text \<open>
  The interface of the table as its clients use it: a lookup, an insertion of a new name
  and a removal, for admissible names.
\<close>

locale texture_table =
  fixes wf :: "'t \<Rightarrow> bool"
    and name_ok :: "GLuint \<Rightarrow> bool"
    and lookup :: "'t \<Rightarrow> GLuint \<Rightarrow> GLenum option"
    and add :: "'t \<Rightarrow> GLuint \<Rightarrow> GLenum \<Rightarrow> 't"
    and del :: "'t \<Rightarrow> GLuint \<Rightarrow> 't"
  assumes wf_add: "wf t \<Longrightarrow> name_ok i \<Longrightarrow> lookup t i = None \<Longrightarrow> wf (add t i g)"
    and wf_del: "wf t \<Longrightarrow> name_ok i \<Longrightarrow> wf (del t i)"
    and lookup_add: "wf t \<Longrightarrow> name_ok i \<Longrightarrow> name_ok j \<Longrightarrow> lookup t i = None \<Longrightarrow>
           lookup (add t i g) j = (if j = i then Some g else lookup t j)"
    and lookup_del: "wf t \<Longrightarrow> name_ok i \<Longrightarrow> name_ok j \<Longrightarrow>
           lookup (del t i) j = (if j = i then None else lookup t j)"
begin

lemma wf_del_all: "wf t \<Longrightarrow> list_all name_ok is \<Longrightarrow> wf (foldl del t is)"
  by (induction "is" arbitrary: t) (auto intro: wf_del)

lemma lookup_del_all:
  "wf t \<Longrightarrow> list_all name_ok is \<Longrightarrow> name_ok j \<Longrightarrow>
   lookup (foldl del t is) j = (if j \<in> set is then None else lookup t j)"
proof (induction "is" arbitrary: t)
  case (Cons i "is")
  then have "wf (del t i)" by (auto intro: wf_del)
  with Cons show ?case by (simp add: lookup_del)
qed simp

lemma add_other_kept:
  "wf t \<Longrightarrow> name_ok i \<Longrightarrow> name_ok j \<Longrightarrow> lookup t i = None \<Longrightarrow> lookup t j = Some h
   \<Longrightarrow> lookup (add t i g) j = Some h"
  by (auto simp: lookup_add)

lemma add_del_same:
  "wf t \<Longrightarrow> name_ok i \<Longrightarrow> name_ok j \<Longrightarrow> lookup t i = None
   \<Longrightarrow> lookup (del (add t i g) i) j = lookup t j"
  by (simp add: lookup_del lookup_add wf_add)

end

text \<open>The code's operations on the array.\<close>

definition table_lookup :: "texture_rec list \<Rightarrow> GLuint \<Rightarrow> GLenum option" where
  "table_lookup ts tid = map_option (\<lambda>k. tr_target (ts ! k)) (find_texture ts tid)"

definition table_add :: "texture_rec list \<Rightarrow> GLuint \<Rightarrow> GLenum \<Rightarrow> texture_rec list" where
  "table_add ts tid target = rev (insert_rev \<lparr>tr_id = tid, tr_target = target\<rparr> (rev ts))"

definition table_del :: "texture_rec list \<Rightarrow> GLuint \<Rightarrow> texture_rec list" where
  "table_del ts tid =
     (case find_texture ts tid of None \<Rightarrow> ts | Some k \<Rightarrow> take k ts @ drop (Suc k) ts)"

definition name_ok :: "GLuint \<Rightarrow> bool" where
  "name_ok tid \<longleftrightarrow> tid < 0x80000000"

definition table_ok :: "texture_rec list \<Rightarrow> bool" where
  "table_ok ts \<longleftrightarrow> sorted_wrt (\<lambda>a b. tr_id a < tr_id b) ts \<and> (\<forall>r\<in>set ts. name_ok (tr_id r))"

lemma table_ok_Nil [simp]: "table_ok []"
  by (simp add: table_ok_def)

lemma compare_name_ok:
  assumes "name_ok tid" and "name_ok (tr_id r)"
  shows "compareTexId tid r = uint tid - uint (tr_id r)"
proof -
  have "0 \<le> uint tid" "0 \<le> uint (tr_id r)" by simp_all
  moreover have "uint tid < 2147483648" "uint (tr_id r) < 2147483648"
    using assms by (simp_all add: name_ok_def word_less_def)
  ultimately have "int_range (uint tid - uint (tr_id r))"
    unfolding int_range_def by linarith
  with assms show ?thesis
    by (simp add: compareTexId_def sint_small32 name_ok_def)
qed

lemma table_ok_nth_less:
  "table_ok ts \<Longrightarrow> i < j \<Longrightarrow> j < length ts \<Longrightarrow> tr_id (ts ! i) < tr_id (ts ! j)"
  by (auto simp: table_ok_def sorted_wrt_iff_nth_less)

lemma table_ok_nth: "table_ok ts \<Longrightarrow> i < length ts \<Longrightarrow> name_ok (tr_id (ts ! i))"
  by (auto simp: table_ok_def)

lemma find_texture_Some:
  assumes "table_ok ts" and "name_ok tid" and "find_texture ts tid = Some k"
  shows "k < length ts \<and> tr_id (ts ! k) = tid"
proof -
  have k: "k < length ts" and "compareTexId tid (ts ! k) = 0"
    using bsearch_Some [OF assms(3) [unfolded find_texture_def]] by simp_all
  then have "uint tid = uint (tr_id (ts ! k))"
    using compare_name_ok [OF assms(2) table_ok_nth [OF assms(1) k]] by linarith
  with k show ?thesis by (simp add: word_uint_eq_iff)
qed

lemma find_texture_at:
  assumes "table_ok ts" and "k < length ts"
  shows "find_texture ts (tr_id (ts ! k)) = Some k"
proof -
  have cmp: "compareTexId (tr_id (ts ! k)) (ts ! i) = uint (tr_id (ts ! k)) - uint (tr_id (ts ! i))"
    if "i < length ts" for i
    using that assms by (intro compare_name_ok table_ok_nth)
  show ?thesis
    unfolding find_texture_def
  proof (rule bsearch_complete)
    show "compareTexId (tr_id (ts ! k)) (ts ! k) = 0" using assms(2) by (simp add: cmp)
    show "0 < compareTexId (tr_id (ts ! k)) (ts ! i)" if "i < k" for i
      using that assms(2) table_ok_nth_less [OF assms(1) that assms(2)]
      by (simp add: cmp word_less_def)
    show "compareTexId (tr_id (ts ! k)) (ts ! i) < 0" if "k < i" "i < 0 + length ts" for i
      using that table_ok_nth_less [OF assms(1) that(1)] by (simp add: cmp word_less_def)
  qed (use assms(2) in simp_all)
qed

lemma find_texture_None_iff:
  assumes "table_ok ts" and "name_ok tid"
  shows "find_texture ts tid = None \<longleftrightarrow> tid \<notin> tr_id ` set ts"
proof
  assume n: "find_texture ts tid = None"
  show "tid \<notin> tr_id ` set ts"
  proof
    assume "tid \<in> tr_id ` set ts"
    then obtain k where "k < length ts" "tr_id (ts ! k) = tid" by (auto simp: in_set_conv_nth)
    with n find_texture_at [OF assms(1)] show False by fastforce
  qed
next
  assume "tid \<notin> tr_id ` set ts"
  then show "find_texture ts tid = None"
    using find_texture_Some [OF assms] by (cases "find_texture ts tid") (force, fastforce)
qed

text \<open>So a lookup returns what the array holds.\<close>

lemma table_lookup_iff:
  assumes "table_ok ts" and "name_ok tid"
  shows "table_lookup ts tid = Some g \<longleftrightarrow> (\<exists>r\<in>set ts. tr_id r = tid \<and> tr_target r = g)"
proof
  assume "table_lookup ts tid = Some g"
  then obtain k where "find_texture ts tid = Some k" "tr_target (ts ! k) = g"
    by (auto simp: table_lookup_def)
  with find_texture_Some [OF assms] show "\<exists>r\<in>set ts. tr_id r = tid \<and> tr_target r = g"
    by fastforce
next
  assume "\<exists>r\<in>set ts. tr_id r = tid \<and> tr_target r = g"
  then obtain k where "k < length ts" "tr_id (ts ! k) = tid" "tr_target (ts ! k) = g"
    by (auto simp: in_set_conv_nth)
  with find_texture_at [OF assms(1)] show "table_lookup ts tid = Some g"
    by (auto simp: table_lookup_def)
qed

lemma table_lookup_None_iff:
  "table_ok ts \<Longrightarrow> name_ok tid \<Longrightarrow> table_lookup ts tid = None \<longleftrightarrow> tid \<notin> tr_id ` set ts"
  by (simp add: table_lookup_def find_texture_None_iff)

lemma table_lookup_eqI:
  assumes "table_ok ts" "table_ok us" "name_ok i" "name_ok j"
    and "\<And>g. (\<exists>r\<in>set ts. tr_id r = i \<and> tr_target r = g) \<longleftrightarrow>
             (\<exists>r\<in>set us. tr_id r = j \<and> tr_target r = g)"
  shows "table_lookup ts i = table_lookup us j"
proof -
  have "table_lookup ts i = Some g \<longleftrightarrow> table_lookup us j = Some g" for g
    using assms by (simp add: table_lookup_iff)
  then show ?thesis by (metis option.exhaust)
qed

text \<open>The insertion loop keeps the order and adds one record.\<close>

lemma set_insert_rev [simp]: "set (insert_rev tex ts) = insert tex (set ts)"
  by (induction tex ts rule: insert_rev.induct) auto

lemma length_insert_rev [simp]: "length (insert_rev tex ts) = Suc (length ts)"
  by (induction tex ts rule: insert_rev.induct) auto

lemma sorted_insert_rev:
  "sorted_wrt (\<lambda>a b. tr_id b < tr_id a) ts \<Longrightarrow> tr_id tex \<notin> tr_id ` set ts \<Longrightarrow>
   sorted_wrt (\<lambda>a b. tr_id b < tr_id a) (insert_rev tex ts)"
  by (induction tex ts rule: insert_rev.induct) (auto simp: not_less order.strict_iff_order
      intro: order.trans)

lemma set_table_add [simp]:
  "set (table_add ts tid g) = insert \<lparr>tr_id = tid, tr_target = g\<rparr> (set ts)"
  by (simp add: table_add_def)

lemma length_table_add [simp]: "length (table_add ts tid g) = Suc (length ts)"
  by (simp add: table_add_def)

lemma table_ok_add:
  assumes "table_ok ts" and "name_ok tid" and "tid \<notin> tr_id ` set ts"
  shows "table_ok (table_add ts tid g)"
  using assms sorted_insert_rev [of "rev ts" "\<lparr>tr_id = tid, tr_target = g\<rparr>"]
  by (simp add: table_ok_def table_add_def sorted_wrt_rev)

text \<open>Removing the found record.\<close>

lemma table_del_cases:
  assumes "table_ok ts" and "name_ok tid"
  obtains (absent) "tid \<notin> tr_id ` set ts" "table_del ts tid = ts"
  | (found) xs r ys where "ts = xs @ r # ys" "tr_id r = tid" "table_del ts tid = xs @ ys"
proof (cases "find_texture ts tid")
  case None
  with find_texture_None_iff [OF assms] absent show ?thesis by (simp add: table_del_def)
next
  case (Some k)
  with find_texture_Some [OF assms] have k: "k < length ts" "tr_id (ts ! k) = tid" by auto
  show ?thesis
  proof (rule found)
    show "ts = take k ts @ ts ! k # drop (Suc k) ts" using k(1) by (rule id_take_nth_drop)
    show "table_del ts tid = take k ts @ drop (Suc k) ts" using Some by (simp add: table_del_def)
  qed (rule k)
qed

lemma table_del_set:
  assumes "table_ok ts" and "name_ok tid"
  shows "set (table_del ts tid) = {r \<in> set ts. tr_id r \<noteq> tid}"
  by (rule table_del_cases [OF assms])
     (use assms(1) in \<open>auto simp: table_ok_def sorted_wrt_append\<close>)

lemma table_ok_del:
  assumes "table_ok ts" and "name_ok tid"
  shows "table_ok (table_del ts tid)"
  by (rule table_del_cases [OF assms])
     (use assms(1) in \<open>auto simp: table_ok_def sorted_wrt_append\<close>)

lemma length_table_del: "length (table_del ts tid) \<le> length ts"
  by (auto simp: table_del_def split: option.splits)

interpretation tex: texture_table table_ok name_ok table_lookup table_add table_del
proof
  fix t i j g
  assume t: "table_ok t" and i: "name_ok i"
  then show wd: "table_ok (table_del t i)" by (rule table_ok_del)
  assume j: "name_ok j"
  show "table_lookup (table_del t i) j = (if j = i then None else table_lookup t j)"
  proof (cases "j = i")
    case True
    then show ?thesis
      using wd i table_del_set [OF t i] by (simp add: table_lookup_None_iff) blast
  next
    case False
    then show ?thesis
      using wd t i j table_del_set [OF t i] by (auto intro!: table_lookup_eqI)
  qed
next
  fix t i g
  assume t: "table_ok t" and i: "name_ok i" and n: "table_lookup t i = None"
  then show "table_ok (table_add t i g)"
    by (auto intro!: table_ok_add simp: table_lookup_None_iff)
next
  fix t i j g
  assume t: "table_ok t" and i: "name_ok i" and j: "name_ok j" and n: "table_lookup t i = None"
  then have fresh: "i \<notin> tr_id ` set t" by (simp add: table_lookup_None_iff)
  with t i have ok: "table_ok (table_add t i g)" by (intro table_ok_add)
  show "table_lookup (table_add t i g) j = (if j = i then Some g else table_lookup t j)"
  proof (cases "j = i")
    case True
    then show ?thesis using ok i by (simp add: table_lookup_iff)
  next
    case False
    then show ?thesis using ok t j by (auto intro!: table_lookup_eqI)
  qed
qed

section \<open>The invariant\<close>

text \<open>
  A unit only has textures bound that the table knows with the target they are bound to.
\<close>

definition unit_ok :: "texture_rec list \<Rightarrow> texture_unit \<Rightarrow> bool" where
  "unit_ok ts u \<longleftrightarrow>
     (tu_2d u \<noteq> 0 \<longrightarrow> \<lparr>tr_id = tu_2d u, tr_target = GL_TEXTURE_2D\<rparr> \<in> set ts) \<and>
     (tu_external u \<noteq> 0 \<longrightarrow>
        \<lparr>tr_id = tu_external u, tr_target = GL_TEXTURE_EXTERNAL_OES\<rparr> \<in> set ts)"

definition alignment_ok :: "int \<Rightarrow> bool" where
  "alignment_ok a \<longleftrightarrow> a = 1 \<or> a = 2 \<or> a = 4 \<or> a = 8"

definition cs_inv :: "client_state \<Rightarrow> bool" where
  "cs_inv s \<longleftrightarrow>
     cs_nLocations s = int (length (cs_states s)) \<and> LAST_LOCATION \<le> cs_nLocations s \<and>
     (\<forall>i < length location_consts. va_glConst (cs_states s ! i) = location_consts ! i) \<and>
     alignment_ok (cs_unpack_alignment s) \<and> alignment_ok (cs_pack_alignment s) \<and>
     length (cs_units s) = MAX_TEXTURE_UNITS \<and> cs_activeUnit s < MAX_TEXTURE_UNITS \<and>
     table_ok (cs_textures s) \<and> length (cs_textures s) \<le> unat (cs_allocTextures s) \<and>
     list_all (unit_ok (cs_textures s)) (cs_units s)"

lemma cs_invD:
  assumes "cs_inv s"
  shows "cs_nLocations s = int (length (cs_states s))"
    and "LAST_LOCATION \<le> cs_nLocations s"
    and "i < length location_consts \<Longrightarrow> va_glConst (cs_states s ! i) = location_consts ! i"
    and "alignment_ok (cs_unpack_alignment s)" and "alignment_ok (cs_pack_alignment s)"
    and "length (cs_units s) = MAX_TEXTURE_UNITS" and "cs_activeUnit s < MAX_TEXTURE_UNITS"
    and "table_ok (cs_textures s)" and "length (cs_textures s) \<le> unat (cs_allocTextures s)"
    and "u \<in> set (cs_units s) \<Longrightarrow> unit_ok (cs_textures s) u"
  using assms by (auto simp: cs_inv_def list_all_iff)

lemma length_location_consts [simp]: "length location_consts = 14"
  by (simp add: location_consts_def)

lemma upd_location_inv:
  assumes "cs_inv s" and "\<And>v. va_glConst (f v) = va_glConst v"
  shows "cs_inv (upd_location s l f)"
proof -
  have "va_glConst ((cs_states s)[nat l := f (cs_states s ! nat l)] ! i) = va_glConst (cs_states s ! i)"
    if "i < length (cs_states s)" for i
    using that assms(2) by (cases "i = nat l") simp_all
  moreover have "14 \<le> length (cs_states s)" using cs_invD(1,2) [OF assms(1)] by simp
  ultimately show ?thesis
    using assms(1) by (simp add: cs_inv_def upd_location_def)
qed

lemma upd_unit_inv:
  assumes "cs_inv s" and "unit_ok (cs_textures s) (f (active_unit s))"
  shows "cs_inv (upd_unit s f)"
  using assms set_update_subset_insert [of "cs_units s" "cs_activeUnit s" "f (active_unit s)"]
  by (auto simp: cs_inv_def upd_unit_def list_all_iff)

lemma active_unit_ok: "cs_inv s \<Longrightarrow> unit_ok (cs_textures s) (active_unit s)"
  by (simp add: active_unit_def cs_invD)

lemma unit_ok_enables [simp]: "unit_ok ts (u\<lparr>tu_enables := e\<rparr>) = unit_ok ts u"
  by (simp add: unit_ok_def)

lemma unit_ok_mono: "unit_ok ts u \<Longrightarrow> set ts \<subseteq> set ts' \<Longrightarrow> unit_ok ts' u"
  by (auto simp: unit_ok_def)

lemma GLClientState_new_inv: "cs_inv (GLClientState_new junk n)"
  by (auto simp: cs_inv_def GLClientState_new_def Let_def alignment_ok_def unit_ok_def
      list_all_iff)

lemma enable_inv: "cs_inv s \<Longrightarrow> cs_inv (enable s l e)"
  by (simp add: enable_def upd_location_inv)

lemma setState_inv: "cs_inv s \<Longrightarrow> cs_inv (setState s l sz ty nm st d)"
  by (simp add: setState_def upd_location_inv)

lemma setBufferObject_inv: "cs_inv s \<Longrightarrow> cs_inv (setBufferObject s l b)"
  by (simp add: setBufferObject_def upd_location_inv)

lemma getStateAndEnableDirty_inv: "cs_inv s \<Longrightarrow> cs_inv (fst (getStateAndEnableDirty s l))"
  by (simp add: getStateAndEnableDirty_def Let_def upd_location_inv)

lemma scalar_updates_inv:
  "cs_inv s \<Longrightarrow> cs_inv (setActiveTexture s t)"
  "cs_inv s \<Longrightarrow> cs_inv (fst (bindBuffer s target b))"
  "cs_inv s \<Longrightarrow> cs_inv (setCurrentProgram s p)"
  "cs_inv s \<Longrightarrow> cs_inv (fst (setPixelStore s param v))"
  by (auto simp: cs_inv_def setActiveTexture_def bindBuffer_def setCurrentProgram_def
      setPixelStore_def alignment_ok_def)

lemma setActiveTextureUnit_inv: "cs_inv s \<Longrightarrow> cs_inv (fst (setActiveTextureUnit s t))"
  by (auto simp: setActiveTextureUnit_def Let_def cs_inv_def word_le_nat_alt not_le)

lemma texture_target_inv:
  "cs_inv s \<Longrightarrow> cs_inv (enableTextureTarget s t)"
  "cs_inv s \<Longrightarrow> cs_inv (disableTextureTarget s t)"
  by (simp_all add: enableTextureTarget_def disableTextureTarget_def upd_unit_inv active_unit_ok)

text \<open>Growing the array makes room for one more record.\<close>

lemma new_alloc_larger:
  fixes alloc :: GLuint
  shows "alloc \<le> 0xFFFFFFFF - alloc \<Longrightarrow> unat alloc < unat (if 4 < 2 * alloc then 2 * alloc else 4)"
    and "alloc \<noteq> 0xFFFFFFFF \<Longrightarrow> unat alloc < unat (0xFFFFFFFF :: GLuint)"
proof -
  have max: "unat (0xFFFFFFFF :: GLuint) = 4294967295" by simp
  have le: "unat alloc \<le> 4294967295" using unat_less32 [of alloc] by simp
  {
    assume "alloc \<le> 0xFFFFFFFF - alloc"
    moreover have "unat (0xFFFFFFFF - alloc) = 4294967295 - unat alloc"
      using le max by (subst unat_sub) (simp_all add: word_le_nat_alt)
    ultimately have "2 * unat alloc < 4294967296" using le by (simp add: word_le_nat_alt)
    then have "unat (2 * alloc) = 2 * unat alloc"
      using unat_mult32 [of 2 alloc] by simp
    then show "unat alloc < unat (if 4 < 2 * alloc then 2 * alloc else 4)"
      by (auto simp: word_less_nat_alt)
  }
  show "alloc \<noteq> 0xFFFFFFFF \<Longrightarrow> unat alloc < unat (0xFFFFFFFF :: GLuint)"
    using le max by (metis le_neq_implies_less word_unat_eq_iff)
qed

lemma addTextureRec_Some:
  assumes "addTextureRec realloc_ok s tid g = Some (s', rec)"
    and "length (cs_textures s) \<le> unat (cs_allocTextures s)"
  shows "rec = \<lparr>tr_id = tid, tr_target = g\<rparr> \<and>
    (\<exists>a. s' = s\<lparr>cs_allocTextures := a, cs_textures := table_add (cs_textures s) tid g\<rparr>
       \<and> Suc (length (cs_textures s)) \<le> unat a)"
proof (cases "of_nat (length (cs_textures s)) = cs_allocTextures s")
  case True
  have "length (cs_textures s) < 4294967296"
    using assms(2) unat_less32 [of "cs_allocTextures s"] by linarith
  with True have "length (cs_textures s) = unat (cs_allocTextures s)"
    by (metis unat_of_nat32)
  with True assms(1) show ?thesis
    using new_alloc_larger [of "cs_allocTextures s"]
    by (auto simp: addTextureRec_def Let_def table_add_def split: if_splits)
next
  case False
  then have "length (cs_textures s) \<noteq> unat (cs_allocTextures s)" by auto
  with assms(2) have "Suc (length (cs_textures s)) \<le> unat (cs_allocTextures s)" by simp
  with False assms(1) show ?thesis
    by (auto simp: addTextureRec_def Let_def table_add_def intro!: exI [of _ "cs_allocTextures s"])
qed

lemma add_record_inv:
  assumes "cs_inv s" and "name_ok tid" and "table_lookup (cs_textures s) tid = None"
    and "Suc (length (cs_textures s)) \<le> unat a"
  shows "cs_inv (s\<lparr>cs_allocTextures := a, cs_textures := table_add (cs_textures s) tid g\<rparr>)"
  using assms tex.wf_add [of "cs_textures s" tid g]
  by (auto simp: cs_inv_def list_all_iff elim!: unit_ok_mono)

text \<open>The table and the error of \<open>bindTexture\<close>, case by case.\<close>

lemma bindTexture_cases:
  assumes "cs_inv s" and "name_ok tid" and "bindTexture realloc_ok s target tid = (s', err, first)"
  obtains
    (zero) "tid = 0" "err = GL_NO_ERROR" "\<not> first" "cs_textures s' = cs_textures s"
      "s' = (if target = GL_TEXTURE_2D then upd_unit s (\<lambda>u. u\<lparr>tu_2d := 0\<rparr>)
             else if target = GL_TEXTURE_EXTERNAL_OES then upd_unit s (\<lambda>u. u\<lparr>tu_external := 0\<rparr>)
             else s)"
  | (known) "tid \<noteq> 0" "table_lookup (cs_textures s) tid = Some target" "err = GL_NO_ERROR"
      "\<not> first" "cs_textures s' = cs_textures s"
      "s' = (if target = GL_TEXTURE_2D then upd_unit s (\<lambda>u. u\<lparr>tu_2d := tid\<rparr>)
             else if target = GL_TEXTURE_EXTERNAL_OES then upd_unit s (\<lambda>u. u\<lparr>tu_external := tid\<rparr>)
             else s)"
  | (other) g where "tid \<noteq> 0" "table_lookup (cs_textures s) tid = Some g" "g \<noteq> target"
      "err = GL_INVALID_OPERATION" "\<not> first" "s' = s"
  | (oom) "tid \<noteq> 0" "table_lookup (cs_textures s) tid = None" "err = GL_OUT_OF_MEMORY"
      "\<not> first" "s' = s"
  | (fresh) a where "tid \<noteq> 0" "table_lookup (cs_textures s) tid = None" "err = GL_NO_ERROR" "first"
      "Suc (length (cs_textures s)) \<le> unat a"
      "s' = (let t = s\<lparr>cs_allocTextures := a,
                       cs_textures := table_add (cs_textures s) tid target\<rparr>
             in if target = GL_TEXTURE_2D then upd_unit t (\<lambda>u. u\<lparr>tu_2d := tid\<rparr>)
             else if target = GL_TEXTURE_EXTERNAL_OES then upd_unit t (\<lambda>u. u\<lparr>tu_external := tid\<rparr>)
             else t)"
proof (cases "tid = 0")
  case True
  with assms(3) show ?thesis
    by (intro zero) (auto simp: bindTexture_def Let_def upd_unit_def split: if_splits)
next
  case nz: False
  show ?thesis
  proof (cases "find_texture (cs_textures s) tid")
    case (Some k)
    then have "table_lookup (cs_textures s) tid = Some (tr_target (cs_textures s ! k))"
      by (simp add: table_lookup_def)
    with nz Some assms(3) show ?thesis
      by (cases "tr_target (cs_textures s ! k) = target")
        ((intro known; auto simp: bindTexture_def Let_def upd_unit_def split: if_splits),
         (intro other [of "tr_target (cs_textures s ! k)"];
            auto simp: bindTexture_def Let_def split: if_splits))
  next
    case None
    then have l: "table_lookup (cs_textures s) tid = None" by (simp add: table_lookup_def)
    show ?thesis
    proof (cases "addTextureRec realloc_ok s tid target")
      case None
      with l nz \<open>find_texture _ _ = None\<close> assms(3) show ?thesis
        by (intro oom) (auto simp: bindTexture_def Let_def)
    next
      case (Some p)
      obtain t rec where p: "p = (t, rec)" by force
      from addTextureRec_Some [OF Some [unfolded p] cs_invD(9) [OF assms(1)]] obtain a
        where "rec = \<lparr>tr_id = tid, tr_target = target\<rparr>"
          "t = s\<lparr>cs_allocTextures := a, cs_textures := table_add (cs_textures s) tid target\<rparr>"
          "Suc (length (cs_textures s)) \<le> unat a" by blast
      with l nz p Some \<open>find_texture _ _ = None\<close> assms(3) show ?thesis
        by (intro fresh [of a]) (auto simp: bindTexture_def Let_def)
    qed
  qed
qed

lemma bind_unit_inv:
  assumes "cs_inv s" and "tid \<noteq> 0 \<Longrightarrow> \<lparr>tr_id = tid, tr_target = target\<rparr> \<in> set (cs_textures s)"
  shows "cs_inv (if target = GL_TEXTURE_2D then upd_unit s (\<lambda>u. u\<lparr>tu_2d := tid\<rparr>)
           else if target = GL_TEXTURE_EXTERNAL_OES then upd_unit s (\<lambda>u. u\<lparr>tu_external := tid\<rparr>)
           else s)"
  using assms active_unit_ok [OF assms(1)] by (auto intro!: upd_unit_inv simp: unit_ok_def)

lemma bindTexture_inv:
  assumes "cs_inv s" and "name_ok tid"
  shows "cs_inv (fst (bindTexture realloc_ok s target tid))"
proof -
  obtain s' err first where b: "bindTexture realloc_ok s target tid = (s', err, first)"
    by (cases "bindTexture realloc_ok s target tid") auto
  note ok = cs_invD(8) [OF assms(1)]
  from assms b have "cs_inv s'"
  proof (cases rule: bindTexture_cases)
    case zero
    then show ?thesis using assms(1) bind_unit_inv [of s 0 target] by simp
  next
    case known
    then have "\<exists>r\<in>set (cs_textures s). tr_id r = tid \<and> tr_target r = target"
      using ok assms(2) by (simp add: table_lookup_iff)
    then have "\<lparr>tr_id = tid, tr_target = target\<rparr> \<in> set (cs_textures s)" by auto
    then show ?thesis using known(6) bind_unit_inv [OF assms(1)] by simp
  next
    case (fresh a)
    then show ?thesis
      using bind_unit_inv [OF add_record_inv [OF assms fresh(2,5)], of tid target target]
      by (simp add: Let_def)
  qed (use assms in simp_all)
  with b show ?thesis by simp
qed

lemma deleteTexture_table: "cs_textures (deleteTexture s tid) = table_del (cs_textures s) tid"
  by (simp add: deleteTexture_def table_del_def split: option.splits)

lemma unbind_unit_ok:
  assumes "table_ok ts" and "name_ok tid" and "tid \<in> tr_id ` set ts" and "unit_ok ts u"
  shows "unit_ok (table_del ts tid) (unbind_unit tid u)"
    and "tid \<noteq> 0 \<Longrightarrow> tu_2d (unbind_unit tid u) \<noteq> tid \<and> tu_external (unbind_unit tid u) \<noteq> tid"
proof -
  have uniq: "r = r'" if "r \<in> set ts" "r' \<in> set ts" "tr_id r = tr_id r'" for r r'
    using that table_ok_nth_less [OF assms(1)]
    by (metis in_set_conv_nth less_irrefl linorder_neqE_nat)
  have one: "\<not> (tu_2d u = tu_external u \<and> tu_2d u \<noteq> 0)"
    using assms(4) uniq [of "\<lparr>tr_id = tu_2d u, tr_target = GL_TEXTURE_2D\<rparr>"
        "\<lparr>tr_id = tu_external u, tr_target = GL_TEXTURE_EXTERNAL_OES\<rparr>"]
    by (auto simp: unit_ok_def)
  show "unit_ok (table_del ts tid) (unbind_unit tid u)"
    using assms one by (auto simp: unit_ok_def unbind_unit_def table_del_set)
  show "tid \<noteq> 0 \<Longrightarrow> tu_2d (unbind_unit tid u) \<noteq> tid \<and> tu_external (unbind_unit tid u) \<noteq> tid"
    using one by (auto simp: unbind_unit_def)
qed

lemma unit_ok_not_bound:
  assumes "unit_ok ts u" and "tid \<notin> tr_id ` set ts" and "tid \<noteq> 0"
  shows "tu_2d u \<noteq> tid \<and> tu_external u \<noteq> tid"
  using assms by (force simp: unit_ok_def image_iff)

lemma deleteTexture_inv:
  assumes "cs_inv s" and "name_ok tid"
  shows "cs_inv (deleteTexture s tid)"
proof (cases "find_texture (cs_textures s) tid")
  case None
  with assms show ?thesis by (simp add: deleteTexture_def)
next
  case (Some k)
  note ok = cs_invD(8) [OF assms(1)]
  have "tid \<in> tr_id ` set (cs_textures s)"
    using Some find_texture_None_iff [OF ok assms(2)] by auto
  then have "list_all (unit_ok (table_del (cs_textures s) tid))
      (map (unbind_unit tid) (cs_units s))"
    using unbind_unit_ok(1) [OF ok assms(2)] cs_invD(10) [OF assms(1)] by (auto simp: list_all_iff)
  moreover have d: "deleteTexture s tid = s\<lparr>cs_textures := table_del (cs_textures s) tid,
      cs_units := map (unbind_unit tid) (cs_units s)\<rparr>"
    using Some by (simp add: deleteTexture_def table_del_def)
  moreover have "length (table_del (cs_textures s) tid) \<le> unat (cs_allocTextures s)"
    using length_table_del [of "cs_textures s" tid] cs_invD(9) [OF assms(1)] by simp
  ultimately show ?thesis
    using assms(1) tex.wf_del [OF ok assms(2)] by (simp add: cs_inv_def)
qed

lemma deleteTextures_table:
  "cs_textures (deleteTextures s is) = foldl table_del (cs_textures s) is"
  by (induction "is" arbitrary: s) (simp_all add: deleteTextures_def deleteTexture_table)

lemma deleteTextures_inv:
  "cs_inv s \<Longrightarrow> list_all name_ok is \<Longrightarrow> cs_inv (deleteTextures s is)"
  by (induction "is" arbitrary: s) (simp_all add: deleteTextures_def deleteTexture_inv)

text \<open>A slot with every field zero, as an uninitialised one in the examples.\<close>

definition blank_attrib :: vertex_attrib where
  "blank_attrib = \<lparr>va_enabled = 0, va_size = 0, va_type = 0, va_stride = 0, va_data = 0,
     va_bufferObject = 0, va_glConst = 0, va_elementSize = 0, va_enableDirty = False,
     va_normalized = False\<rparr>"

text \<open>
  Every operation that changes the state, as one step; \<open>cs_ok\<close> restricts the texture names.
\<close>

datatype cs_op =
    Enable int int
  | SetState int int GLenum "8 word" int addr
  | SetBufferObject int GLuint
  | GetStateAndEnableDirty int
  | SetActiveTexture int
  | BindBuffer GLenum GLuint
  | SetCurrentProgram int
  | SetPixelStore GLenum int
  | SetActiveTextureUnit GLenum
  | EnableTextureTarget GLenum
  | DisableTextureTarget GLenum
  | BindTexture GLenum GLuint
  | DeleteTextures "GLuint list"

fun cs_step :: "(size_t \<Rightarrow> bool) \<Rightarrow> client_state \<Rightarrow> cs_op \<Rightarrow> client_state" where
  "cs_step ra s (Enable l e) = enable s l e"
| "cs_step ra s (SetState l sz ty nm st d) = setState s l sz ty nm st d"
| "cs_step ra s (SetBufferObject l b) = setBufferObject s l b"
| "cs_step ra s (GetStateAndEnableDirty l) = fst (getStateAndEnableDirty s l)"
| "cs_step ra s (SetActiveTexture t) = setActiveTexture s t"
| "cs_step ra s (BindBuffer t b) = fst (bindBuffer s t b)"
| "cs_step ra s (SetCurrentProgram p) = setCurrentProgram s p"
| "cs_step ra s (SetPixelStore p v) = fst (setPixelStore s p v)"
| "cs_step ra s (SetActiveTextureUnit t) = fst (setActiveTextureUnit s t)"
| "cs_step ra s (EnableTextureTarget t) = enableTextureTarget s t"
| "cs_step ra s (DisableTextureTarget t) = disableTextureTarget s t"
| "cs_step ra s (BindTexture t i) = fst (bindTexture ra s t i)"
| "cs_step ra s (DeleteTextures is) = deleteTextures s is"

fun cs_ok :: "cs_op \<Rightarrow> bool" where
  "cs_ok (BindTexture t i) = name_ok i"
| "cs_ok (DeleteTextures is) = list_all name_ok is"
| "cs_ok _ = True"

lemmas cs_op_inv =
  enable_inv setState_inv setBufferObject_inv getStateAndEnableDirty_inv scalar_updates_inv
  setActiveTextureUnit_inv texture_target_inv bindTexture_inv deleteTextures_inv

lemma cs_step_inv: "cs_inv s \<Longrightarrow> cs_ok op \<Longrightarrow> cs_inv (cs_step ra s op)"
  by (cases op) (simp_all add: cs_op_inv)

interpretation client: step_system "cs_step ra" cs_inv cs_ok for ra
  by unfold_locales (rule cs_step_inv)

section \<open>Sizes of pixel rows\<close>

lemma round_up_alignment:
  assumes "0 < (a :: int)"
  shows "(if l div a * a < l then l div a * a + a else l div a * a) = (l + a - 1) div a * a"
proof -
  define r where "r = l mod a"
  have r: "0 \<le> r" "r < a" using assms by (simp_all add: r_def)
  have l: "l = l div a * a + r" by (simp add: r_def)
  have "l + a - 1 = (r + a - 1) + l div a * a" using l by linarith
  then have d: "(l + a - 1) div a = l div a + (r + a - 1) div a"
    using assms by (metis add.commute div_mult_self1 less_irrefl)
  show ?thesis
  proof (cases "r = 0")
    case True
    then have "(r + a - 1) div a = 0" using assms by simp
    with True d l show ?thesis by simp
  next
    case False
    have "(r + a - 1) div a = ((r - 1) + a) div a" by (simp add: algebra_simps)
    also have "\<dots> = (r - 1) div a + 1" using assms div_add_self2 [of a "r - 1"] by simp
    also have "\<dots> = 1" using False r by simp
    finally have "(l + a - 1) div a * a = l div a * a + a"
      unfolding d by (simp only: distrib_right mult_1)
    with False l r show ?thesis by auto
  qed
qed

lemma uint_div32: "uint (a div b :: 32 word) = uint a div uint b"
  by (rule uint_div)

lemma pixelDataSize_eq:
  fixes width height :: int and format type :: GLenum
  defines "l \<equiv> glUtilsPixelBitSize format type div 8 * width"
  assumes a: "a = (if pack then cs_pack_alignment s else cs_unpack_alignment s)"
    and ok: "alignment_ok a" and w: "0 \<le> width" and h: "0 \<le> height"
    and row: "l + a < 2147483648" and all: "(l + a - 1) div a * a * height < 4294967296"
  shows "uint (pixelDataSize s width height format type pack) = (l + a - 1) div a * a * height"
proof -
  have a0: "0 < a" and a8: "a \<le> 8" using ok by (auto simp: alignment_ok_def)
  have l0: "0 \<le> l" using w glUtilsPixelBitSize_bounds(1) [of format type]
    by (simp add: l_def pos_imp_zdiv_nonneg_iff)
  define q where "q = l div a * a"
  have q: "0 \<le> q" using l0 a0 by (simp add: q_def pos_imp_zdiv_nonneg_iff)
  have ql: "q \<le> l" using a0 pos_mod_sign [of a l] minus_mod_eq_div_mult [of l a]
    unfolding q_def by linarith
  define lw where "lw = (word_of_int l :: 32 word)"
  have lw: "uint lw = l" using l0 row a0 by (simp add: lw_def uint_word_of_int32)
  have aw: "uint (word_of_int a :: 32 word) = a" using a0 a8 by (simp add: uint_word_of_int32)
  have "uint (lw div word_of_int a) = l div a" by (simp add: uint_div32 lw aw)
  moreover have "l div a * 1 \<le> l div a * a"
    using l0 a0 by (intro mult_left_mono) (simp_all add: pos_imp_zdiv_nonneg_iff)
  then have "l div a \<le> l" using ql by (simp add: q_def)
  ultimately have "sint (lw div word_of_int a) = l div a"
    using row a0 by (subst sint_small32) (simp_all add: word_less_def)
  then have al: "word_of_int (i32 (sint (lw div word_of_int a) * a)) = (word_of_int q :: 32 word)"
    using q ql row a0 by (simp add: q_def [symmetric] int_range_def)
  have qw: "uint (word_of_int q :: 32 word) = q" using q ql row a0
    by (simp add: uint_word_of_int32)
  define R where "R = (l + a - 1) div a * a"
  have up: "(if q < l then q + a else q) = R"
    unfolding q_def R_def by (rule round_up_alignment [OF a0])
  have r: "(if word_of_int q < lw then word_of_int q + word_of_int a else word_of_int q)
           = (word_of_int R :: 32 word)"
    unfolding up [symmetric] by (simp add: word_less_def qw lw)
  have "i32 l = l" using l0 row a0 by (simp add: int_range_def)
  then have "pixelDataSize s width height format type pack
             = word_of_int R * word_of_int height"
    unfolding pixelDataSize_def Let_def l_def [symmetric] a [symmetric]
    by (simp only: lw_def [symmetric] al r)
  moreover have "0 \<le> R * height"
    using l0 a0 h by (simp add: R_def pos_imp_zdiv_nonneg_iff)
  ultimately show ?thesis
    using all by (simp add: uint_word_of_int32 R_def [symmetric] flip: of_int_mult)
qed

section \<open>Properties\<close>

text \<open>
  C12. Every state that the operations can reach from construction, with texture names below
  2^31, is well formed: slots, units and alignments stay in range, the texture table stays
  strictly ordered, within its allocation, and every texture bound to a unit is known with
  the target it is bound to.
\<close>

theorem client_state_invariant:
  assumes "list_all cs_ok ops"
  shows "cs_inv (foldl (cs_step realloc_ok) (GLClientState_new junk n) ops)"
  using GLClientState_new_inv assms by (rule client.run_inv)

theorem client_state_invariant_witness:
  "cs_inv (foldl (cs_step (\<lambda>_. True)) (GLClientState_new (\<lambda>_. blank_attrib) 64)
     [BindTexture GL_TEXTURE_EXTERNAL_OES 7, SetActiveTextureUnit 0x84C3, BindTexture GL_TEXTURE_2D 3,
      DeleteTextures [7, 9], SetPixelStore GL_PACK_ALIGNMENT 3])"
  by (rule client_state_invariant) (simp add: name_ok_def)

text \<open>
  C18. \<open>bindTexture\<close> implements a map from texture names to targets (names below 2^31): a name
  is bound for good to the target of its first use, binding it to another target is
  \<open>GL_INVALID_OPERATION\<close> and changes nothing, \<open>firstUse\<close> is set exactly for a new name, no
  other name's entry changes, and after success the active unit has the texture bound.
\<close>

theorem bindTexture_is_map:
  assumes "cs_inv s" and "name_ok tid" and "bindTexture realloc_ok s target tid = (s', err, first)"
  shows "(err = GL_INVALID_OPERATION \<longleftrightarrow>
            tid \<noteq> 0 \<and> (\<exists>g. table_lookup (cs_textures s) tid = Some g \<and> g \<noteq> target))
       \<and> (err \<noteq> GL_NO_ERROR \<longrightarrow> s' = s)
       \<and> (err = GL_OUT_OF_MEMORY \<longrightarrow> tid \<noteq> 0 \<and> table_lookup (cs_textures s) tid = None)
       \<and> (err = GL_NO_ERROR \<longrightarrow>
            (first \<longleftrightarrow> tid \<noteq> 0 \<and> table_lookup (cs_textures s) tid = None)
            \<and> (\<forall>j. name_ok j \<longrightarrow> table_lookup (cs_textures s') j =
                 (if j = tid \<and> tid \<noteq> 0 then Some target else table_lookup (cs_textures s) j))
            \<and> (target \<in> {GL_TEXTURE_2D, GL_TEXTURE_EXTERNAL_OES} \<longrightarrow>
                 getBoundTexture s' target = tid))"
  using assms
proof (cases rule: bindTexture_cases)
  case (fresh a)
  have "table_lookup (table_add (cs_textures s) tid target) j =
      (if j = tid then Some target else table_lookup (cs_textures s) j)" if "name_ok j" for j
    using tex.lookup_add [OF cs_invD(8) [OF assms(1)] assms(2) that fresh(2)] .
  with fresh cs_invD(6,7) [OF assms(1)] show ?thesis
    by (auto simp: Let_def upd_unit_def getBoundTexture_def unit_texture_def active_unit_def)
qed (use cs_invD(6,7) [OF assms(1)] in
      \<open>auto simp: upd_unit_def getBoundTexture_def unit_texture_def active_unit_def\<close>)

text \<open>A state for the examples: two textures, one of them external.\<close>

definition example_state :: client_state where
  "example_state = foldl (cs_step (\<lambda>_. True)) (GLClientState_new (\<lambda>_. blank_attrib) 14)
     [BindTexture GL_TEXTURE_EXTERNAL_OES 7, SetActiveTextureUnit 0x84C3, BindTexture GL_TEXTURE_2D 3]"

lemma example_state_inv: "cs_inv example_state"
  unfolding example_state_def
  by (rule client.run_inv [OF GLClientState_new_inv]) (simp add: name_ok_def)

lemma example_textures:
  "cs_textures example_state =
     [\<lparr>tr_id = 3, tr_target = GL_TEXTURE_2D\<rparr>, \<lparr>tr_id = 7, tr_target = GL_TEXTURE_EXTERNAL_OES\<rparr>]"
  by (simp add: example_state_def GLClientState_new_def Let_def bindTexture_def addTextureRec_def
      find_texture_def bsearch.simps compareTexId_def setActiveTextureUnit_def upd_unit_def i32_def)

theorem bindTexture_is_map_witness:
  "fst (snd (bindTexture (\<lambda>_. True) example_state GL_TEXTURE_2D 7)) = GL_INVALID_OPERATION"
proof -
  obtain s' err first
    where b: "bindTexture (\<lambda>_. True) example_state GL_TEXTURE_2D 7 = (s', err, first)"
    by (cases "bindTexture (\<lambda>_. True) example_state GL_TEXTURE_2D 7") auto
  have n: "name_ok 7" by (simp add: name_ok_def)
  have "table_lookup (cs_textures example_state) 7 = Some GL_TEXTURE_EXTERNAL_OES"
    using n cs_invD(8) [OF example_state_inv] by (simp add: table_lookup_iff example_textures)
  then show ?thesis
    using bindTexture_is_map [OF example_state_inv n b] b by simp
qed

text \<open>
  \<open>deleteTextures\<close> removes exactly the named textures from the table and unbinds them from
  all 32 units; other names and other bindings stay.
\<close>

theorem deleteTextures_forgets:
  assumes "cs_inv s" and "list_all name_ok is" and "name_ok j"
  shows "table_lookup (cs_textures (deleteTextures s is)) j =
           (if j \<in> set is then None else table_lookup (cs_textures s) j)
         \<and> (j \<in> set is \<longrightarrow> j \<noteq> 0 \<longrightarrow> (\<forall>u \<in> set (cs_units (deleteTextures s is)).
               tu_2d u \<noteq> j \<and> tu_external u \<noteq> j))"
proof -
  have l: "table_lookup (cs_textures (deleteTextures s is)) j =
           (if j \<in> set is then None else table_lookup (cs_textures s) j)"
    using tex.lookup_del_all [OF cs_invD(8) [OF assms(1)] assms(2,3)]
    by (simp add: deleteTextures_table)
  note inv = deleteTextures_inv [OF assms(1,2)]
  have "tu_2d u \<noteq> j \<and> tu_external u \<noteq> j"
    if "j \<in> set is" "j \<noteq> 0" "u \<in> set (cs_units (deleteTextures s is))" for u
  proof -
    have "j \<notin> tr_id ` set (cs_textures (deleteTextures s is))"
      using l that(1) cs_invD(8) [OF inv] assms(3) by (simp add: table_lookup_None_iff)
    then show ?thesis
      using cs_invD(10) [OF inv that(3)] that(2) by (intro unit_ok_not_bound)
  qed
  with l show ?thesis by blast
qed

theorem deleteTextures_forgets_witness:
  "table_lookup (cs_textures (deleteTextures example_state [7])) 7 = None"
  using deleteTextures_forgets [OF example_state_inv, of "[7]" 7] by (simp add: name_ok_def)

text \<open>
  The bound on the names is needed: the table is kept in unsigned order but searched with
  a signed difference, so a name whose distance from another reaches 2^31 is not found again
  (here name 1 beside 0x80000002), and \<open>bindTexture\<close> enters it a second time, with another
  target.
\<close>

theorem large_texture_names_lost:
  "let s1 = fst (bindTexture (\<lambda>_. True) (GLClientState_new (\<lambda>_. blank_attrib) 14) GL_TEXTURE_2D 1);
       s2 = fst (bindTexture (\<lambda>_. True) s1 GL_TEXTURE_2D 0x80000002);
       s3 = bindTexture (\<lambda>_. True) s2 GL_TEXTURE_EXTERNAL_OES 1
   in fst (snd s3) = GL_NO_ERROR \<and> map tr_id (cs_textures (fst s3)) = [1, 1, 0x80000002]"
  by (simp add: GLClientState_new_def Let_def bindTexture_def addTextureRec_def
      find_texture_def bsearch.simps compareTexId_def upd_unit_def i32_def)

text \<open>
  \<open>pixelDataSize\<close> is the number of bytes of \<open>height\<close> rows of \<open>width\<close> pixels, each row
  rounded up to the pixel store's alignment, for every image whose size fits 32 bits.
\<close>

theorem pixelDataSize_rows:
  assumes "a = (if pack then cs_pack_alignment s else cs_unpack_alignment s)"
    and "alignment_ok a" and "0 \<le> width" and "0 \<le> height"
    and "glUtilsPixelBitSize format type div 8 * width + a < 2147483648"
    and "(glUtilsPixelBitSize format type div 8 * width + a - 1) div a * a * height < 4294967296"
  shows "uint (pixelDataSize s width height format type pack)
         = (glUtilsPixelBitSize format type div 8 * width + a - 1) div a * a * height"
  using assms by (rule pixelDataSize_eq)

theorem pixelDataSize_rows_witness:
  "uint (pixelDataSize (GLClientState_new (\<lambda>_. blank_attrib) 14) 3 5 GL_RGB GL_UNSIGNED_BYTE False) = 60"
  using pixelDataSize_rows [of 4 False "GLClientState_new (\<lambda>_. blank_attrib) 14" 3 5 GL_RGB
      GL_UNSIGNED_BYTE]
  by (simp add: GLClientState_new_def Let_def glUtilsPixelBitSize_def alignment_ok_def)

text \<open>
  \<open>getLocation\<close> maps the name of a fixed-function array to a valid slot that carries this
  name, in every reachable state whose client active texture is one of the eight.
\<close>

theorem getLocation_names_slot:
  assumes "cs_inv s" and "0 \<le> cs_activeTexture s" and "cs_activeTexture s < 8"
    and "loc \<in> set location_consts"
  shows "validLocation s (getLocation s loc)
         \<and> va_glConst (cs_states s ! nat (getLocation s loc)) = loc"
proof -
  have r: "int_range (4 + cs_activeTexture s)" using assms(2,3) by (simp add: int_range_def)
  have n: "14 \<le> cs_nLocations s" using cs_invD(2) [OF assms(1)] .
  have c: "va_glConst (cs_states s ! i) = location_consts ! i" if "i < 14" for i
    using cs_invD(3) [OF assms(1)] that by simp
  have t: "location_consts ! nat (4 + cs_activeTexture s) = GL_TEXTURE_COORD_ARRAY"
    using assms(2,3) by (simp add: location_consts_def nth_append nat_add_distrib)
  show ?thesis
    using assms(4) n r t assms(2,3)
    by (auto simp: location_consts_def getLocation_def validLocation_def c nth_append)
qed

theorem getLocation_names_slot_witness:
  "va_glConst (cs_states example_state ! nat (getLocation example_state GL_WEIGHT_ARRAY_OES))
   = GL_WEIGHT_ARRAY_OES"
proof -
  have "cs_activeTexture example_state = 0"
    by (simp add: example_state_def GLClientState_new_def Let_def bindTexture_def
        addTextureRec_def find_texture_def bsearch.simps compareTexId_def
        setActiveTextureUnit_def upd_unit_def i32_def)
  then show ?thesis
    using getLocation_names_slot [OF example_state_inv, of GL_WEIGHT_ARRAY_OES]
    by (simp add: location_consts_def)
qed

text \<open>
  \<open>getClientStateParameter\<close>, which dereferences the slot it looks up without a check, never
  dereferences NULL in a well-formed state whose client active texture is one of the eight.
\<close>

theorem getClientStateParameter_safe:
  assumes "cs_inv s" and "0 \<le> cs_activeTexture s" and "cs_activeTexture s < 8"
  shows "getClientStateParameter s param \<noteq> None"
proof -
  have r: "i32 (cs_activeTexture s + 4) = cs_activeTexture s + 4"
    using assms(2,3) by (simp add: int_range_def)
  have n: "14 \<le> cs_nLocations s" using cs_invD(2) [OF assms(1)] .
  have "validLocation s l" if "param_slot s param = Some (l, f)" for l f
    using that n assms(2,3)
    by (auto simp: param_slot_def validLocation_def Let_def r split: if_splits)
  then show ?thesis
    by (auto simp: getClientStateParameter_def getState_def split: option.splits)
qed

theorem getClientStateParameter_safe_witness:
  "getClientStateParameter (GLClientState_new (\<lambda>_. blank_attrib) 14) GL_VERTEX_ARRAY_STRIDE \<noteq> None"
  by (rule getClientStateParameter_safe [OF GLClientState_new_inv])
     (simp_all add: GLClientState_new_def Let_def)

end
