(* ===== verification/FixedBuffer.thy ===== *)
theory FixedBuffer
  imports Prelude
begin

text \<open>
  \<open>common/opengl/shared/OpenglCodecCommon/FixedBuffer.h\<close>: a block of memory that grows on
  demand and never shrinks. \<open>fresh n\<close> is what \<open>new unsigned char[n]\<close> returns: \<open>None\<close> for
  NULL, otherwise \<open>n\<close> bytes of unknown content.
\<close>

record fixed_buffer =
  fb_buffer :: "byte list option"
  fb_len :: nat

type_synonym allocator = "nat \<Rightarrow> byte list option"

definition allocator_ok :: "allocator \<Rightarrow> bool" where
  "allocator_ok fresh \<longleftrightarrow> (\<forall>n bs. fresh n = Some bs \<longrightarrow> length bs = n)"

definition fb_alloc :: "allocator \<Rightarrow> fixed_buffer \<Rightarrow> nat \<Rightarrow> fixed_buffer" where
  "fb_alloc fresh b n =
     (if n \<le> fb_len b then b
      else case fresh n of
             None \<Rightarrow> b\<lparr>fb_buffer := None, fb_len := 0\<rparr>
           | Some bs \<Rightarrow> b\<lparr>fb_buffer := Some bs, fb_len := n\<rparr>)"

text \<open>The constructor ignores its argument: it asks for the 0 bytes of \<open>m_bufferLen\<close>.\<close>

definition FixedBuffer_new :: "allocator \<Rightarrow> nat \<Rightarrow> fixed_buffer" where
  "FixedBuffer_new fresh initialSize = fb_alloc fresh \<lparr>fb_buffer = None, fb_len = 0\<rparr> 0"

definition fb_inv :: "fixed_buffer \<Rightarrow> bool" where
  "fb_inv b \<longleftrightarrow> (case fb_buffer b of None \<Rightarrow> fb_len b = 0 | Some bs \<Rightarrow> length bs = fb_len b)"

text \<open>The bytes behind \<open>ptr()\<close>, none behind NULL.\<close>

definition fb_bytes :: "fixed_buffer \<Rightarrow> byte list" where
  "fb_bytes b = (case fb_buffer b of None \<Rightarrow> [] | Some bs \<Rightarrow> bs)"

lemma FixedBuffer_new_eq [simp]: "FixedBuffer_new fresh n = \<lparr>fb_buffer = None, fb_len = 0\<rparr>"
  by (simp add: FixedBuffer_new_def fb_alloc_def)

lemma fb_inv_new [simp]: "fb_inv \<lparr>fb_buffer = None, fb_len = 0\<rparr>"
  by (simp add: fb_inv_def)

lemma fb_alloc_inv: "allocator_ok fresh \<Longrightarrow> fb_inv b \<Longrightarrow> fb_inv (fb_alloc fresh b n)"
  by (auto simp: fb_alloc_def fb_inv_def allocator_ok_def split: option.splits)

text \<open>A non-NULL result has room for the requested bytes.\<close>

lemma fb_alloc_room:
  assumes "allocator_ok fresh" and "fb_inv b" and "fb_buffer (fb_alloc fresh b n) = Some bs"
  shows "n \<le> length bs"
  using assms by (auto simp: fb_alloc_def fb_inv_def allocator_ok_def split: if_splits option.splits)

lemma fb_alloc_keeps: "n \<le> fb_len b \<Longrightarrow> fb_alloc fresh b n = b"
  by (simp add: fb_alloc_def)

end
