(* ===== verification/GLSharedGroup.thy ===== *)
theory GLSharedGroup
  imports GL_Enums FixedBuffer
begin

text \<open>
  \<open>common/opengl/shared/OpenglCodecCommon/GLSharedGroup.cpp\<close> and \<open>.h\<close>: the objects that GL
  contexts share. Buffer copies, the uniforms of linked programs with the translation of
  their locations between application and host, and reference-counted shader data. The
  keyed vectors of the platform are maps from names to objects; objects are only reached
  through them. Every operation runs under the group's lock, so one step is one operation.
\<close>

section \<open>Buffer copies\<close>

record buffer_data =
  bd_size :: int
  bd_fixed :: fixed_buffer

text \<open>
  \<open>data\<close> is NULL or the \<open>size\<close> bytes at the pointer. Copying to a NULL buffer and a negative
  size (as \<open>size_t\<close> a huge one) are undefined.
\<close>

definition BufferData_new :: "allocator \<Rightarrow> int \<Rightarrow> byte list option \<Rightarrow> buffer_data ub" where
  "BufferData_new fresh sz data =
     (let fb = (if 0 < sz then fb_alloc fresh (FixedBuffer_new fresh 0) (nat sz)
                else FixedBuffer_new fresh 0)
      in case data of
           None \<Rightarrow> Some \<lparr>bd_size = sz, bd_fixed = fb\<rparr>
         | Some d \<Rightarrow>
             if sz < 0 then None
             else if sz = 0 then Some \<lparr>bd_size = sz, bd_fixed = fb\<rparr>
             else case fb_buffer fb of
                    None \<Rightarrow> None
                  | Some bs \<Rightarrow> map_option
                      (\<lambda>bs'. \<lparr>bd_size = sz, bd_fixed = fb\<lparr>fb_buffer := Some bs'\<rparr>\<rparr>) (blit bs 0 d))"

section \<open>Programs\<close>

record index_info =
  ix_base :: int
  ix_size :: int
  ix_type :: GLenum
  ix_appBase :: int
  ix_hostLocsPerElement :: int
  ix_flags :: u32
  ix_samplerValue :: int

record program_data =
  pd_numIndexes :: GLuint
  pd_Indexes :: "index_info list"
  pd_initialized :: bool
  pd_locShiftWAR :: bool
  pd_shaders :: "GLuint list"

abbreviation (input) INDEX_FLAG_SAMPLER_EXTERNAL :: u32 where
  "INDEX_FLAG_SAMPLER_EXTERNAL \<equiv> 1"

definition ProgramData_new :: program_data where
  "ProgramData_new = \<lparr>pd_numIndexes = 0, pd_Indexes = [], pd_initialized = False,
     pd_locShiftWAR = False, pd_shaders = []\<rparr>"

text \<open>\<open>new IndexInfo[n]\<close> is not initialised: \<open>junk\<close> is what it holds.\<close>

definition initProgramData :: "(nat \<Rightarrow> index_info) \<Rightarrow> program_data \<Rightarrow> GLuint \<Rightarrow> program_data" where
  "initProgramData junk p numIndexes =
     p\<lparr>pd_initialized := True, pd_numIndexes := numIndexes,
       pd_Indexes := map junk [0..<unat numIndexes], pd_locShiftWAR := False\<rparr>"

definition setIndexInfo :: "program_data \<Rightarrow> GLuint \<Rightarrow> int \<Rightarrow> int \<Rightarrow> GLenum \<Rightarrow> program_data" where
  "setIndexInfo p index base sz type =
     (if pd_numIndexes p \<le> index then p
      else let i = unat index;
               prev = pd_Indexes p ! (i - 1);
               app = (if 0 < index then i32 (ix_appBase prev + ix_size prev) else 0)
           in p\<lparr>pd_Indexes := (pd_Indexes p)[i :=
                 (pd_Indexes p ! i)\<lparr>ix_base := base, ix_size := sz, ix_type := type,
                    ix_appBase := app, ix_hostLocsPerElement := 1, ix_flags := 0,
                    ix_samplerValue := 0\<rparr>]\<rparr>)"

definition setIndexFlags :: "program_data \<Rightarrow> GLuint \<Rightarrow> u32 \<Rightarrow> program_data" where
  "setIndexFlags p index flags =
     (if pd_numIndexes p \<le> index then p
      else let i = unat index in
        p\<lparr>pd_Indexes := (pd_Indexes p)[i :=
            (pd_Indexes p ! i)\<lparr>ix_flags := ix_flags (pd_Indexes p ! i) OR flags\<rparr>]\<rparr>)"

text \<open>One round of the search: the candidate index and its distance so far.\<close>

definition nearer :: "program_data \<Rightarrow> int \<Rightarrow> nat \<times> int \<Rightarrow> nat \<Rightarrow> nat \<times> int" where
  "nearer p location best i =
     (let dist = i32 (location - ix_base (pd_Indexes p ! i)) in
      if 0 \<le> dist \<and> (snd best < 0 \<or> dist < snd best) then (i, dist) else best)"

definition getIndexForLocation :: "program_data \<Rightarrow> int \<Rightarrow> nat" where
  "getIndexForLocation p location =
     fst (foldl (nearer p location) (unat (pd_numIndexes p), - 1) [0..<unat (pd_numIndexes p)])"

definition getTypeForLocation :: "program_data \<Rightarrow> int \<Rightarrow> GLenum" where
  "getTypeForLocation p location =
     (let index = getIndexForLocation p location in
      if index < unat (pd_numIndexes p) then ix_type (pd_Indexes p ! index) else 0)"

definition setupLocationShiftWAR_program :: "program_data \<Rightarrow> program_data" where
  "setupLocationShiftWAR_program p =
     (if \<exists>i \<in> set [0..<unat (pd_numIndexes p)]. ix_base (pd_Indexes p ! i) AND 0xffff \<noteq> 0
      then p\<lparr>pd_locShiftWAR := False\<rparr>
      else p\<lparr>pd_locShiftWAR := 1 < pd_numIndexes p\<rparr>)"

definition locationWARHostToApp_program ::
  "program_data \<Rightarrow> int \<Rightarrow> int \<Rightarrow> program_data \<times> int" where
  "locationWARHostToApp_program p hostLoc arrIndex =
     (if \<not> pd_locShiftWAR p then (p, hostLoc)
      else let index = getIndexForLocation p hostLoc in
        if index < unat (pd_numIndexes p) then
          (let ix = pd_Indexes p ! index;
               p' = (if 0 < arrIndex
                     then p\<lparr>pd_Indexes := (pd_Indexes p)[index := ix\<lparr>ix_hostLocsPerElement :=
                             c_div (i32 (hostLoc - ix_base ix)) arrIndex\<rparr>]\<rparr>
                     else p)
           in (p', i32 (ix_appBase (pd_Indexes p' ! index) + arrIndex)))
        else (p, - 1))"

text \<open>The first uniform whose application locations include \<open>appLoc\<close>.\<close>

definition app_index :: "program_data \<Rightarrow> int \<Rightarrow> nat option" where
  "app_index p appLoc =
     find (\<lambda>i. let e = i32 (appLoc - ix_appBase (pd_Indexes p ! i)) in
               0 \<le> e \<and> e < ix_size (pd_Indexes p ! i)) [0..<unat (pd_numIndexes p)]"

definition locationWARAppToHost_program :: "program_data \<Rightarrow> int \<Rightarrow> int" where
  "locationWARAppToHost_program p appLoc =
     (if \<not> pd_locShiftWAR p then appLoc
      else case app_index p appLoc of
             None \<Rightarrow> - 1
           | Some i \<Rightarrow> (let ix = pd_Indexes p ! i in
               i32 (ix_base ix + i32 (appLoc - ix_appBase ix) * ix_hostLocsPerElement ix)))"

definition sampler_target :: "index_info \<Rightarrow> GLenum" where
  "sampler_target ix =
     (if ix_flags ix AND INDEX_FLAG_SAMPLER_EXTERNAL \<noteq> 0 then GL_TEXTURE_EXTERNAL_OES
      else GL_TEXTURE_2D)"

text \<open>The next sampler after \<open>index\<close>: its index, value and target; \<open>None\<close> for the code's \<open>-1\<close>.\<close>

definition getNextSamplerUniform_program ::
  "program_data \<Rightarrow> int \<Rightarrow> (int \<times> int \<times> GLenum) option" where
  "getNextSamplerUniform_program p index =
     (if i32 (index + 1) < 0 then None
      else map_option (\<lambda>i. let ix = pd_Indexes p ! i in
               (int i, ix_samplerValue ix, sampler_target ix))
             (find (\<lambda>i. ix_type (pd_Indexes p ! i) = GL_SAMPLER_2D)
                [nat (i32 (index + 1))..<nat (sint (pd_numIndexes p))]))"

text \<open>
  The value is recorded only where the type is \<open>GL_TEXTURE_2D\<close>, as the code has it; the
  target is \<open>None\<close> for the code's \<open>false\<close>.
\<close>

definition setSamplerUniform_program ::
  "program_data \<Rightarrow> int \<Rightarrow> int \<Rightarrow> program_data \<times> GLenum option" where
  "setSamplerUniform_program p appLoc val =
     (case find (\<lambda>i. let e = i32 (appLoc - ix_appBase (pd_Indexes p ! i)) in
               0 \<le> e \<and> e < ix_size (pd_Indexes p ! i)
               \<and> ix_type (pd_Indexes p ! i) = GL_TEXTURE_2D) [0..<unat (pd_numIndexes p)] of
        None \<Rightarrow> (p, None)
      | Some i \<Rightarrow>
          (p\<lparr>pd_Indexes := (pd_Indexes p)[i := (pd_Indexes p ! i)\<lparr>ix_samplerValue := val\<rparr>]\<rparr>,
           Some (sampler_target (pd_Indexes p ! i))))"

definition attachShader_program :: "program_data \<Rightarrow> GLuint \<Rightarrow> program_data \<times> bool" where
  "attachShader_program p shader =
     (if shader \<in> set (pd_shaders p) then (p, False)
      else (p\<lparr>pd_shaders := pd_shaders p @ [shader]\<rparr>, True))"

text \<open>\<open>removeAt\<close> of the first entry that matches.\<close>

definition detachShader_program :: "program_data \<Rightarrow> GLuint \<Rightarrow> program_data \<times> bool" where
  "detachShader_program p shader =
     (if shader \<in> set (pd_shaders p)
      then (p\<lparr>pd_shaders := remove1 shader (pd_shaders p)\<rparr>, True) else (p, False))"

section \<open>The group\<close>

record shader_data =
  sh_samplerExternalNames :: "string list"
  sh_refcount :: int

record shared_group =
  sg_buffers :: "GLuint \<rightharpoonup> buffer_data"
  sg_programs :: "GLuint \<rightharpoonup> program_data"
  sg_shaders :: "GLuint \<rightharpoonup> shader_data"

definition GLSharedGroup_new :: shared_group where
  "GLSharedGroup_new = \<lparr>sg_buffers = Map.empty, sg_programs = Map.empty, sg_shaders = Map.empty\<rparr>"

definition getBufferData :: "shared_group \<Rightarrow> GLuint \<Rightarrow> buffer_data option" where
  "getBufferData g bufferId = sg_buffers g bufferId"

definition addBufferData ::
  "allocator \<Rightarrow> shared_group \<Rightarrow> GLuint \<Rightarrow> int \<Rightarrow> byte list option \<Rightarrow> shared_group ub" where
  "addBufferData fresh g bufferId sz data =
     map_option (\<lambda>b. g\<lparr>sg_buffers := (sg_buffers g)(bufferId \<mapsto> b)\<rparr>) (BufferData_new fresh sz data)"

text \<open>Replacing the value of a known name and adding a new one give the same map.\<close>

definition updateBufferData ::
  "allocator \<Rightarrow> shared_group \<Rightarrow> GLuint \<Rightarrow> int \<Rightarrow> byte list option \<Rightarrow> shared_group ub" where
  "updateBufferData fresh g bufferId sz data =
     map_option (\<lambda>b. g\<lparr>sg_buffers := (sg_buffers g)(bufferId \<mapsto> b)\<rparr>) (BufferData_new fresh sz data)"

text \<open>\<open>offset+size\<close> is a 32-bit sum; the copy outside the buffer is undefined.\<close>

definition subUpdateBufferData ::
  "shared_group \<Rightarrow> GLuint \<Rightarrow> int \<Rightarrow> int \<Rightarrow> byte list \<Rightarrow> (shared_group \<times> GLenum) ub" where
  "subUpdateBufferData g bufferId offset sz data =
     (case sg_buffers g bufferId of
        None \<Rightarrow> Some (g, GL_INVALID_VALUE)
      | Some buf \<Rightarrow>
          if bd_size buf < i32 (offset + sz) \<or> offset < 0 \<or> sz < 0 then Some (g, GL_INVALID_VALUE)
          else map_option (\<lambda>bs.
                 (g\<lparr>sg_buffers := (sg_buffers g)(bufferId \<mapsto>
                      buf\<lparr>bd_fixed := (bd_fixed buf)\<lparr>fb_buffer :=
                        map_option (\<lambda>_. bs) (fb_buffer (bd_fixed buf))\<rparr>\<rparr>)\<rparr>, GL_NO_ERROR))
               (blit (fb_bytes (bd_fixed buf)) (nat offset) data))"

definition deleteBufferData :: "shared_group \<Rightarrow> GLuint \<Rightarrow> shared_group" where
  "deleteBufferData g bufferId = g\<lparr>sg_buffers := (sg_buffers g)(bufferId := None)\<rparr>"

definition upd_program ::
  "shared_group \<Rightarrow> GLuint \<Rightarrow> (program_data \<Rightarrow> program_data) \<Rightarrow> shared_group" where
  "upd_program g program f =
     (case sg_programs g program of None \<Rightarrow> g
      | Some p \<Rightarrow> g\<lparr>sg_programs := (sg_programs g)(program \<mapsto> f p)\<rparr>)"

definition addProgramData :: "shared_group \<Rightarrow> GLuint \<Rightarrow> shared_group" where
  "addProgramData g program =
     g\<lparr>sg_programs := (sg_programs g)(program \<mapsto> ProgramData_new)\<rparr>"

definition initProgramData_group ::
  "(nat \<Rightarrow> index_info) \<Rightarrow> shared_group \<Rightarrow> GLuint \<Rightarrow> GLuint \<Rightarrow> shared_group" where
  "initProgramData_group junk g program numIndexes =
     upd_program g program (\<lambda>p. initProgramData junk p numIndexes)"

definition isProgramInitialized :: "shared_group \<Rightarrow> GLuint \<Rightarrow> bool" where
  "isProgramInitialized g program =
     (case sg_programs g program of None \<Rightarrow> False | Some p \<Rightarrow> pd_initialized p)"

definition deleteProgramData :: "shared_group \<Rightarrow> GLuint \<Rightarrow> shared_group" where
  "deleteProgramData g program = g\<lparr>sg_programs := (sg_programs g)(program := None)\<rparr>"

definition refShaderDataLocked :: "shared_group \<Rightarrow> GLuint \<Rightarrow> shared_group" where
  "refShaderDataLocked g shader =
     (case sg_shaders g shader of None \<Rightarrow> g
      | Some d \<Rightarrow> g\<lparr>sg_shaders := (sg_shaders g)(shader \<mapsto> d\<lparr>sh_refcount := sh_refcount d + 1\<rparr>)\<rparr>)"

definition unrefShaderDataLocked :: "shared_group \<Rightarrow> GLuint \<Rightarrow> shared_group" where
  "unrefShaderDataLocked g shader =
     (case sg_shaders g shader of None \<Rightarrow> g
      | Some d \<Rightarrow>
          if sh_refcount d - 1 = 0 then g\<lparr>sg_shaders := (sg_shaders g)(shader := None)\<rparr>
          else g\<lparr>sg_shaders := (sg_shaders g)(shader \<mapsto> d\<lparr>sh_refcount := sh_refcount d - 1\<rparr>)\<rparr>)"

definition attachShader :: "shared_group \<Rightarrow> GLuint \<Rightarrow> GLuint \<Rightarrow> shared_group" where
  "attachShader g program shader =
     (case sg_programs g program of None \<Rightarrow> g
      | Some p \<Rightarrow>
          if sg_shaders g shader = None then g
          else let (p', added) = attachShader_program p shader;
                   g' = g\<lparr>sg_programs := (sg_programs g)(program \<mapsto> p')\<rparr>
               in if added then refShaderDataLocked g' shader else g')"

definition detachShader :: "shared_group \<Rightarrow> GLuint \<Rightarrow> GLuint \<Rightarrow> shared_group" where
  "detachShader g program shader =
     (case sg_programs g program of None \<Rightarrow> g
      | Some p \<Rightarrow>
          if sg_shaders g shader = None then g
          else let (p', removed) = detachShader_program p shader;
                   g' = g\<lparr>sg_programs := (sg_programs g)(program \<mapsto> p')\<rparr>
               in if removed then unrefShaderDataLocked g' shader else g')"

text \<open>The inner loop over the attached shaders: a sampler declared external in one is flagged.\<close>

definition flag_external ::
  "(GLuint \<rightharpoonup> shader_data) \<Rightarrow> GLuint \<Rightarrow> string \<Rightarrow> program_data \<Rightarrow> GLuint \<Rightarrow> program_data" where
  "flag_external shaders index name p shaderId =
     (case shaders shaderId of None \<Rightarrow> p
      | Some d \<Rightarrow> if name \<in> set (sh_samplerExternalNames d)
                 then setIndexFlags p index INDEX_FLAG_SAMPLER_EXTERNAL else p)"

definition setProgramIndexInfo ::
  "shared_group \<Rightarrow> GLuint \<Rightarrow> GLuint \<Rightarrow> int \<Rightarrow> int \<Rightarrow> GLenum \<Rightarrow> string \<Rightarrow> shared_group" where
  "setProgramIndexInfo g program index base sz type name =
     upd_program g program (\<lambda>p.
       let p' = setIndexInfo p index base sz type in
       if type = GL_SAMPLER_2D
       then foldl (flag_external (sg_shaders g) index name) p' (pd_shaders p') else p')"

definition getProgramUniformType :: "shared_group \<Rightarrow> GLuint \<Rightarrow> int \<Rightarrow> GLenum" where
  "getProgramUniformType g program location =
     (case sg_programs g program of None \<Rightarrow> 0 | Some p \<Rightarrow> getTypeForLocation p location)"

definition isProgram :: "shared_group \<Rightarrow> GLuint \<Rightarrow> bool" where
  "isProgram g program \<longleftrightarrow> sg_programs g program \<noteq> None"

definition setupLocationShiftWAR :: "shared_group \<Rightarrow> GLuint \<Rightarrow> shared_group" where
  "setupLocationShiftWAR g program = upd_program g program setupLocationShiftWAR_program"

definition locationWARHostToApp ::
  "shared_group \<Rightarrow> GLuint \<Rightarrow> int \<Rightarrow> int \<Rightarrow> shared_group \<times> int" where
  "locationWARHostToApp g program hostLoc arrIndex =
     (case sg_programs g program of None \<Rightarrow> (g, hostLoc)
      | Some p \<Rightarrow> (let (p', loc) = locationWARHostToApp_program p hostLoc arrIndex
                 in (g\<lparr>sg_programs := (sg_programs g)(program \<mapsto> p')\<rparr>, loc)))"

definition locationWARAppToHost :: "shared_group \<Rightarrow> GLuint \<Rightarrow> int \<Rightarrow> int" where
  "locationWARAppToHost g program appLoc =
     (case sg_programs g program of None \<Rightarrow> appLoc
      | Some p \<Rightarrow> locationWARAppToHost_program p appLoc)"

definition needUniformLocationWAR :: "shared_group \<Rightarrow> GLuint \<Rightarrow> bool" where
  "needUniformLocationWAR g program =
     (case sg_programs g program of None \<Rightarrow> False | Some p \<Rightarrow> pd_locShiftWAR p)"

definition getNextSamplerUniform ::
  "shared_group \<Rightarrow> GLuint \<Rightarrow> int \<Rightarrow> (int \<times> int \<times> GLenum) option" where
  "getNextSamplerUniform g program index =
     (case sg_programs g program of None \<Rightarrow> None
      | Some p \<Rightarrow> getNextSamplerUniform_program p index)"

definition setSamplerUniform ::
  "shared_group \<Rightarrow> GLuint \<Rightarrow> int \<Rightarrow> int \<Rightarrow> shared_group \<times> GLenum option" where
  "setSamplerUniform g program appLoc val =
     (case sg_programs g program of None \<Rightarrow> (g, None)
      | Some p \<Rightarrow> (let (p', target) = setSamplerUniform_program p appLoc val
                 in (g\<lparr>sg_programs := (sg_programs g)(program \<mapsto> p')\<rparr>, target)))"

text \<open>
  \<open>add_ok\<close>: the vector could store the entry. When it could not, the code deletes the data,
  sets its pointer to NULL and writes \<open>data->refcount\<close> through it: undefined.
\<close>

definition addShaderData :: "bool \<Rightarrow> shared_group \<Rightarrow> GLuint \<Rightarrow> (shared_group \<times> bool) ub" where
  "addShaderData add_ok g shader =
     (if add_ok
      then Some (g\<lparr>sg_shaders := (sg_shaders g)(shader \<mapsto>
             \<lparr>sh_samplerExternalNames = [], sh_refcount = 1\<rparr>)\<rparr>, True)
      else None)"

definition getShaderData :: "shared_group \<Rightarrow> GLuint \<Rightarrow> shader_data option" where
  "getShaderData g shader = sg_shaders g shader"

definition unrefShaderData :: "shared_group \<Rightarrow> GLuint \<Rightarrow> shared_group" where
  "unrefShaderData g shader = unrefShaderDataLocked g shader"


section \<open>Well-formed groups\<close>

definition program_ok :: "program_data \<Rightarrow> bool" where
  "program_ok p \<longleftrightarrow> length (pd_Indexes p) = unat (pd_numIndexes p) \<and> distinct (pd_shaders p)"

definition buffer_ok :: "buffer_data \<Rightarrow> bool" where
  "buffer_ok b \<longleftrightarrow> fb_inv (bd_fixed b)
     \<and> (fb_buffer (bd_fixed b) \<noteq> None \<longrightarrow> bd_size b \<le> int (fb_len (bd_fixed b)))"

definition sg_inv :: "shared_group \<Rightarrow> bool" where
  "sg_inv g \<longleftrightarrow> (\<forall>p \<in> ran (sg_programs g). program_ok p)
     \<and> (\<forall>b \<in> ran (sg_buffers g). buffer_ok b)
     \<and> (\<forall>d \<in> ran (sg_shaders g). 0 < sh_refcount d)"

lemma sg_invI:
  assumes "\<And>n p. sg_programs g n = Some p \<Longrightarrow> program_ok p"
    and "\<And>n b. sg_buffers g n = Some b \<Longrightarrow> buffer_ok b"
    and "\<And>n d. sg_shaders g n = Some d \<Longrightarrow> 0 < sh_refcount d"
  shows "sg_inv g"
  using assms by (auto simp: sg_inv_def ran_def)

lemma sg_invD:
  assumes "sg_inv g"
  shows "sg_programs g n = Some p \<Longrightarrow> program_ok p"
    and "sg_buffers g n = Some b \<Longrightarrow> buffer_ok b"
    and "sg_shaders g n = Some d \<Longrightarrow> 0 < sh_refcount d"
  using assms by (auto simp: sg_inv_def ran_def)

lemma sg_inv_upd:
  assumes "sg_inv g"
  shows "program_ok p \<Longrightarrow> sg_inv (g\<lparr>sg_programs := (sg_programs g)(n \<mapsto> p)\<rparr>)"
    and "sg_inv (g\<lparr>sg_programs := (sg_programs g)(n := None)\<rparr>)"
    and "buffer_ok b \<Longrightarrow> sg_inv (g\<lparr>sg_buffers := (sg_buffers g)(n \<mapsto> b)\<rparr>)"
    and "sg_inv (g\<lparr>sg_buffers := (sg_buffers g)(n := None)\<rparr>)"
    and "0 < sh_refcount d \<Longrightarrow> sg_inv (g\<lparr>sg_shaders := (sg_shaders g)(n \<mapsto> d)\<rparr>)"
    and "sg_inv (g\<lparr>sg_shaders := (sg_shaders g)(n := None)\<rparr>)"
  using sg_invD [OF assms] by (auto intro!: sg_invI split: if_splits)

lemma upd_program_inv:
  "sg_inv g \<Longrightarrow> (\<And>p. program_ok p \<Longrightarrow> program_ok (f p)) \<Longrightarrow> sg_inv (upd_program g n f)"
  by (auto simp: upd_program_def split: option.splits intro: sg_inv_upd sg_invD)

lemma program_ok_new [simp]: "program_ok ProgramData_new"
  by (simp add: program_ok_def ProgramData_new_def)

lemma program_ok_initProgramData [simp]: "program_ok p \<Longrightarrow> program_ok (initProgramData junk p n)"
  by (simp add: program_ok_def initProgramData_def)

lemma program_ok_setIndexInfo [simp]: "program_ok p \<Longrightarrow> program_ok (setIndexInfo p i b sz ty)"
  by (simp add: program_ok_def setIndexInfo_def Let_def)

lemma program_ok_setIndexFlags [simp]: "program_ok p \<Longrightarrow> program_ok (setIndexFlags p i fl)"
  by (simp add: program_ok_def setIndexFlags_def Let_def)

lemma program_ok_flag_external [simp]:
  "program_ok p \<Longrightarrow> program_ok (flag_external shs i nm p sh)"
  by (simp add: flag_external_def split: option.split)

lemma program_ok_flags [simp]:
  "program_ok p \<Longrightarrow> program_ok (foldl (flag_external shs i nm) p ss)"
  by (induction ss arbitrary: p) simp_all

lemma program_ok_setup [simp]: "program_ok p \<Longrightarrow> program_ok (setupLocationShiftWAR_program p)"
  by (simp add: program_ok_def setupLocationShiftWAR_program_def)

lemma program_ok_HostToApp: "program_ok p \<Longrightarrow> program_ok (fst (locationWARHostToApp_program p h k))"
  by (simp add: program_ok_def locationWARHostToApp_program_def Let_def)

lemma program_ok_setSampler: "program_ok p \<Longrightarrow> program_ok (fst (setSamplerUniform_program p l v))"
  by (auto simp: program_ok_def setSamplerUniform_program_def split: option.split)

lemma program_ok_attach: "program_ok p \<Longrightarrow> program_ok (fst (attachShader_program p s))"
  by (auto simp: program_ok_def attachShader_program_def)

lemma program_ok_detach: "program_ok p \<Longrightarrow> program_ok (fst (detachShader_program p s))"
  by (auto simp: program_ok_def detachShader_program_def)

lemmas program_ok_ops = program_ok_HostToApp program_ok_setSampler program_ok_attach program_ok_detach

text \<open>A new copy is well formed; where the code runs into NULL there is none.\<close>

lemma BufferData_new_ok:
  assumes "allocator_ok fresh" and "BufferData_new fresh sz data = Some b"
    and "data \<noteq> None \<Longrightarrow> length (the data) = nat sz"
  shows "buffer_ok b"
proof -
  define fb where "fb = (if 0 < sz then fb_alloc fresh (FixedBuffer_new fresh 0) (nat sz)
                         else FixedBuffer_new fresh 0)"
  have fb: "fb_inv fb"
    using fb_alloc_inv [OF assms(1) fb_inv_new] by (simp add: fb_def del: FixedBuffer_new_eq)
      (simp add: fb_inv_def)
  have room: "sz \<le> int (fb_len fb)" if "fb_buffer fb \<noteq> None"
    using that fb fb_alloc_room [OF assms(1) fb_inv_new, of "nat sz"]
    by (cases "0 < sz") (auto simp: fb_def fb_inv_def split: option.splits)
  show ?thesis
    using assms(2) fb room
    by (auto simp: BufferData_new_def Let_def fb_def [symmetric] buffer_ok_def fb_inv_def
        dest: length_blit split: option.splits if_splits)
qed

lemma addBufferData_inv:
  "allocator_ok fresh \<Longrightarrow> sg_inv g \<Longrightarrow> addBufferData fresh g n sz data = Some g'
   \<Longrightarrow> (data \<noteq> None \<Longrightarrow> length (the data) = nat sz) \<Longrightarrow> sg_inv g'"
  by (auto simp: addBufferData_def intro: sg_inv_upd BufferData_new_ok)

lemma updateBufferData_inv:
  "allocator_ok fresh \<Longrightarrow> sg_inv g \<Longrightarrow> updateBufferData fresh g n sz data = Some g'
   \<Longrightarrow> (data \<noteq> None \<Longrightarrow> length (the data) = nat sz) \<Longrightarrow> sg_inv g'"
  by (auto simp: updateBufferData_def intro: sg_inv_upd BufferData_new_ok)

lemma subUpdateBufferData_inv:
  assumes "sg_inv g" and "subUpdateBufferData g n off sz data = Some (g', e)"
  shows "sg_inv g'"
proof (cases "sg_buffers g n")
  case None
  with assms show ?thesis by (simp add: subUpdateBufferData_def)
next
  case (Some buf)
  with assms(1) have "buffer_ok buf" by (rule sg_invD)
  then show ?thesis
    using assms Some
    by (auto simp: subUpdateBufferData_def buffer_ok_def fb_inv_def fb_bytes_def
        dest: length_blit split: if_splits option.splits intro!: sg_inv_upd(3))
qed

lemma unrefShaderDataLocked_inv: "sg_inv g \<Longrightarrow> sg_inv (unrefShaderDataLocked g s)"
  using sg_invD(3) [of g s]
  by (auto simp: unrefShaderDataLocked_def split: option.splits intro!: sg_inv_upd)

lemma refShaderDataLocked_inv: "sg_inv g \<Longrightarrow> sg_inv (refShaderDataLocked g s)"
  using sg_invD(3) [of g s]
  by (auto simp: refShaderDataLocked_def split: option.splits intro!: sg_inv_upd)

lemma attachShader_inv: "sg_inv g \<Longrightarrow> sg_inv (attachShader g p s)"
  using program_ok_attach sg_invD(1) [of g p]
  by (auto simp: attachShader_def Let_def split: option.splits prod.splits
      intro!: sg_inv_upd refShaderDataLocked_inv) (metis fst_conv)+

lemma detachShader_inv: "sg_inv g \<Longrightarrow> sg_inv (detachShader g p s)"
  using program_ok_detach sg_invD(1) [of g p]
  by (auto simp: detachShader_def Let_def split: option.splits prod.splits
      intro!: sg_inv_upd unrefShaderDataLocked_inv) (metis fst_conv)+


text \<open>Every operation of the group as one step; \<open>sg_ok\<close> says that \<open>data\<close> has \<open>size\<close> bytes.\<close>

datatype sg_op =
    AddBuffer GLuint int "byte list option"
  | UpdateBuffer GLuint int "byte list option"
  | SubUpdateBuffer GLuint int int "byte list"
  | DeleteBuffer GLuint
  | AddProgram GLuint
  | InitProgram GLuint GLuint
  | DeleteProgram GLuint
  | Attach GLuint GLuint
  | Detach GLuint GLuint
  | SetIndexInfo GLuint GLuint int int GLenum string
  | SetupWAR GLuint
  | HostToApp GLuint int int
  | SetSampler GLuint int int
  | AddShader GLuint
  | UnrefShader GLuint
  | SetExternalNames GLuint "string list"

text \<open>\<open>GL2Encoder\<close> edits the list of external sampler names in place.\<close>

definition set_external_names :: "shared_group \<Rightarrow> GLuint \<Rightarrow> string list \<Rightarrow> shared_group" where
  "set_external_names g shader names =
     (case sg_shaders g shader of None \<Rightarrow> g
      | Some d \<Rightarrow> g\<lparr>sg_shaders := (sg_shaders g)(shader \<mapsto> d\<lparr>sh_samplerExternalNames := names\<rparr>)\<rparr>)"

text \<open>One step: the group after it, \<open>None\<close> once the behaviour is undefined.\<close>

fun sg_step ::
  "allocator \<Rightarrow> (nat \<Rightarrow> index_info) \<Rightarrow> (shared_group ub) \<Rightarrow> sg_op \<Rightarrow> shared_group ub" where
  "sg_step fresh junk None op = None"
| "sg_step fresh junk (Some g) (AddBuffer n sz d) = addBufferData fresh g n sz d"
| "sg_step fresh junk (Some g) (UpdateBuffer n sz d) = updateBufferData fresh g n sz d"
| "sg_step fresh junk (Some g) (SubUpdateBuffer n off sz d) =
     map_option fst (subUpdateBufferData g n off sz d)"
| "sg_step fresh junk (Some g) (DeleteBuffer n) = Some (deleteBufferData g n)"
| "sg_step fresh junk (Some g) (AddProgram n) = Some (addProgramData g n)"
| "sg_step fresh junk (Some g) (InitProgram n k) = Some (initProgramData_group junk g n k)"
| "sg_step fresh junk (Some g) (DeleteProgram n) = Some (deleteProgramData g n)"
| "sg_step fresh junk (Some g) (Attach p sh) = Some (attachShader g p sh)"
| "sg_step fresh junk (Some g) (Detach p sh) = Some (detachShader g p sh)"
| "sg_step fresh junk (Some g) (SetIndexInfo p i b sz ty nm) =
     Some (setProgramIndexInfo g p i b sz ty nm)"
| "sg_step fresh junk (Some g) (SetupWAR p) = Some (setupLocationShiftWAR g p)"
| "sg_step fresh junk (Some g) (HostToApp p l k) = Some (fst (locationWARHostToApp g p l k))"
| "sg_step fresh junk (Some g) (SetSampler p l v) = Some (fst (setSamplerUniform g p l v))"
| "sg_step fresh junk (Some g) (AddShader sh) = map_option fst (addShaderData True g sh)"
| "sg_step fresh junk (Some g) (UnrefShader sh) = Some (unrefShaderData g sh)"
| "sg_step fresh junk (Some g) (SetExternalNames sh nms) = Some (set_external_names g sh nms)"

fun sg_ok :: "sg_op \<Rightarrow> bool" where
  "sg_ok (AddBuffer n sz d) \<longleftrightarrow> (case d of None \<Rightarrow> True | Some bs \<Rightarrow> length bs = nat sz)"
| "sg_ok (UpdateBuffer n sz d) \<longleftrightarrow> (case d of None \<Rightarrow> True | Some bs \<Rightarrow> length bs = nat sz)"
| "sg_ok _ \<longleftrightarrow> True"

definition sg_inv_ub :: "allocator \<Rightarrow> shared_group ub \<Rightarrow> bool" where
  "sg_inv_ub fresh s \<longleftrightarrow> allocator_ok fresh \<and> (case s of None \<Rightarrow> True | Some g \<Rightarrow> sg_inv g)"

lemma setProgramIndexInfo_inv: "sg_inv g \<Longrightarrow> sg_inv (setProgramIndexInfo g p i b sz ty nm)"
  unfolding setProgramIndexInfo_def by (rule upd_program_inv) (simp_all add: Let_def)

lemma locationWARHostToApp_inv: "sg_inv g \<Longrightarrow> sg_inv (fst (locationWARHostToApp g p l k))"
  using program_ok_HostToApp sg_invD(1) [of g p]
  by (auto simp: locationWARHostToApp_def split: option.splits prod.splits intro!: sg_inv_upd)
    (metis fst_conv)

lemma setSamplerUniform_inv: "sg_inv g \<Longrightarrow> sg_inv (fst (setSamplerUniform g p l v))"
  using program_ok_setSampler sg_invD(1) [of g p]
  by (auto simp: setSamplerUniform_def split: option.splits prod.splits intro!: sg_inv_upd)
    (metis fst_conv)

lemma set_external_names_inv: "sg_inv g \<Longrightarrow> sg_inv (set_external_names g sh nms)"
  using sg_invD(3) [of g sh]
  by (auto simp: set_external_names_def split: option.splits intro!: sg_inv_upd)

lemma sg_step_inv: "sg_inv_ub fresh s \<Longrightarrow> sg_ok op \<Longrightarrow> sg_inv_ub fresh (sg_step fresh junk s op)"
proof (cases s)
  case (Some g)
  assume "sg_inv_ub fresh s" and "sg_ok op"
  then have a: "allocator_ok fresh" and g: "sg_inv g" and "sg_ok op"
    using Some by (simp_all add: sg_inv_ub_def)
  then show ?thesis unfolding Some
  proof (cases op)
    case (SubUpdateBuffer n off sz d)
    then show "sg_inv_ub fresh (sg_step fresh junk (Some g) op)"
      using a subUpdateBufferData_inv [OF g]
      by (auto simp: sg_inv_ub_def split: option.split)
  qed (auto simp: sg_inv_ub_def deleteBufferData_def addProgramData_def
      initProgramData_group_def deleteProgramData_def setupLocationShiftWAR_def addShaderData_def
      unrefShaderData_def
      intro!: sg_inv_upd upd_program_inv attachShader_inv detachShader_inv setProgramIndexInfo_inv
        locationWARHostToApp_inv setSamplerUniform_inv unrefShaderDataLocked_inv
        set_external_names_inv
      intro: addBufferData_inv updateBufferData_inv split: option.splits)
qed (simp add: sg_inv_ub_def)

interpretation group: step_system "sg_step fresh junk" "sg_inv_ub fresh" sg_ok for fresh junk
  by unfold_locales (rule sg_step_inv)

section \<open>Buffer updates\<close>

lemma subUpdate_in_bounds:
  assumes "buffer_ok b" and "sg_buffers g n = Some b" and "fb_buffer (bd_fixed b) = Some bs"
    and "0 \<le> off" and "length data = nat sz" and "0 \<le> sz" and "off + sz \<le> bd_size b"
    and "off + sz < 2147483648"
  shows "subUpdateBufferData g n off sz data =
     Some (g\<lparr>sg_buffers := (sg_buffers g)(n \<mapsto> b\<lparr>bd_fixed := (bd_fixed b)\<lparr>fb_buffer :=
        Some (take (nat off) bs @ data @ drop (nat (off + sz)) bs)\<rparr>\<rparr>)\<rparr>, GL_NO_ERROR)"
proof -
  have "i32 (off + sz) = off + sz" using assms by (intro i32_id int_rangeI) auto
  moreover have "nat off + nat sz \<le> length bs" and "nat (off + sz) = nat off + nat sz"
    using assms by (auto simp: buffer_ok_def fb_inv_def nat_add_distrib)
  ultimately show ?thesis
    using assms by (simp add: subUpdateBufferData_def fb_bytes_def blit_def)
qed

section \<open>Looking up a uniform by its location\<close>

text \<open>The search keeps the nearest base at or below the location.\<close>

lemma nearer_foldl:
  assumes "\<And>i. i < n \<Longrightarrow> int_range (loc - ix_base (pd_Indexes p ! i))"
    and "foldl (nearer p loc) (m, - 1) [0..<n] = (j, d)"
  shows "(d = - 1 \<and> j = m \<and> (\<forall>i<n. loc < ix_base (pd_Indexes p ! i)))
    \<or> (0 \<le> d \<and> j < n \<and> d = loc - ix_base (pd_Indexes p ! j)
       \<and> (\<forall>i<n. ix_base (pd_Indexes p ! i) \<le> loc \<longrightarrow>
             ix_base (pd_Indexes p ! i) \<le> ix_base (pd_Indexes p ! j)
             \<and> (ix_base (pd_Indexes p ! i) = ix_base (pd_Indexes p ! j) \<longrightarrow> j \<le> i)))"
  using assms
proof (induction n arbitrary: j d)
  case (Suc n)
  obtain j0 d0 where r: "foldl (nearer p loc) (m, - 1) [0..<n] = (j0, d0)" by fastforce
  have rng: "i32 (loc - ix_base (pd_Indexes p ! n)) = loc - ix_base (pd_Indexes p ! n)"
    by (rule i32_id) (simp add: Suc.prems(1))
  have ih: "(d0 = - 1 \<and> j0 = m \<and> (\<forall>i<n. loc < ix_base (pd_Indexes p ! i)))
    \<or> (0 \<le> d0 \<and> j0 < n \<and> d0 = loc - ix_base (pd_Indexes p ! j0)
       \<and> (\<forall>i<n. ix_base (pd_Indexes p ! i) \<le> loc \<longrightarrow>
             ix_base (pd_Indexes p ! i) \<le> ix_base (pd_Indexes p ! j0)
             \<and> (ix_base (pd_Indexes p ! i) = ix_base (pd_Indexes p ! j0) \<longrightarrow> j0 \<le> i)))"
    by (rule Suc.IH [OF _ r]) (simp add: Suc.prems(1))
  have jd: "(j, d) = (if 0 \<le> loc - ix_base (pd_Indexes p ! n)
                       \<and> (d0 < 0 \<or> loc - ix_base (pd_Indexes p ! n) < d0)
                      then (n, loc - ix_base (pd_Indexes p ! n)) else (j0, d0))"
  proof -
    have "(j, d) = nearer p loc (j0, d0) n" using Suc.prems(2) r by simp
    then show ?thesis by (simp add: nearer_def rng Let_def)
  qed
  show ?case
    using ih jd by (auto simp: less_Suc_eq split: if_splits)
qed simp

lemma getIndexForLocation_eqI:
  assumes "j < unat (pd_numIndexes p)" and "ix_base (pd_Indexes p ! j) \<le> loc"
    and "\<And>i. i < unat (pd_numIndexes p) \<Longrightarrow> int_range (loc - ix_base (pd_Indexes p ! i))"
    and "\<And>i. i < unat (pd_numIndexes p) \<Longrightarrow> i \<noteq> j \<Longrightarrow>
           ix_base (pd_Indexes p ! i) < ix_base (pd_Indexes p ! j)
           \<or> loc < ix_base (pd_Indexes p ! i)"
  shows "getIndexForLocation p loc = j"
proof -
  let ?n = "unat (pd_numIndexes p)"
  obtain k d where r: "foldl (nearer p loc) (?n, - 1) [0..<?n] = (k, d)" by fastforce
  have *: "k < ?n \<and> ix_base (pd_Indexes p ! k) \<le> loc
           \<and> ix_base (pd_Indexes p ! j) \<le> ix_base (pd_Indexes p ! k)"
    using nearer_foldl [OF assms(3) r] assms(1,2) by auto
  then have "k = j" using assms(4) [of k] by force
  then show ?thesis by (simp add: getIndexForLocation_def r)
qed

section \<open>The layout of a linked program\<close>

text \<open>
  \<open>GL2Encoder::s_glLinkProgram\<close> fills the table in index order. \<open>linked junk us\<close> is the
  program after that for uniforms \<open>us\<close>, each with host location, size and type.
\<close>

definition set_uniform :: "program_data \<Rightarrow> nat \<times> int \<times> int \<times> GLenum \<Rightarrow> program_data" where
  "set_uniform p u = (case u of (i, b, sz, ty) \<Rightarrow> setIndexInfo p (word_of_nat i) b sz ty)"

definition linked :: "(nat \<Rightarrow> index_info) \<Rightarrow> (int \<times> int \<times> GLenum) list \<Rightarrow> program_data" where
  "linked junk us = setupLocationShiftWAR_program
     (foldl set_uniform (initProgramData junk ProgramData_new (word_of_nat (length us)))
       (zip [0..<length us] us))"

text \<open>Application locations are numbered one after the other.\<close>

definition app_base :: "(int \<times> int \<times> GLenum) list \<Rightarrow> nat \<Rightarrow> int" where
  "app_base us i = (\<Sum>u\<leftarrow>take i us. fst (snd u))"

definition uniform_info :: "(int \<times> int \<times> GLenum) list \<Rightarrow> nat \<Rightarrow> index_info" where
  "uniform_info us i = \<lparr>ix_base = fst (us ! i), ix_size = fst (snd (us ! i)),
     ix_type = snd (snd (us ! i)), ix_appBase = app_base us i, ix_hostLocsPerElement = 1,
     ix_flags = 0, ix_samplerValue = 0\<rparr>"

text \<open>What the host reports: non-empty uniforms, few enough to be counted by an \<open>int\<close>.\<close>

definition uniforms_ok :: "(int \<times> int \<times> GLenum) list \<Rightarrow> bool" where
  "uniforms_ok us \<longleftrightarrow> (\<forall>u \<in> set us. 0 < fst (snd u) \<and> int_range (fst u))
     \<and> app_base us (length us) < 2147483648 \<and> length us < 4294967296"

lemma app_base_Suc: "i < length us \<Longrightarrow> app_base us (Suc i) = app_base us i + fst (snd (us ! i))"
  by (simp add: app_base_def take_Suc_conv_app_nth)

lemma app_base_0 [simp]: "app_base us 0 = 0"
  by (simp add: app_base_def)

lemma app_base_mono:
  assumes "uniforms_ok us" and "i \<le> j" and "j \<le> length us"
  shows "app_base us i \<le> app_base us j"
  using assms(2,3)
proof (induction j rule: dec_induct)
  case (step j)
  then have "us ! j \<in> set us" by simp
  then have "0 < fst (snd (us ! j))" using assms(1) by (auto simp: uniforms_ok_def)
  with step show ?case by (simp add: app_base_Suc)
qed simp

lemma app_base_nonneg: "uniforms_ok us \<Longrightarrow> i \<le> length us \<Longrightarrow> 0 \<le> app_base us i"
  using app_base_mono [of us 0 i] by simp

lemma app_base_range: "uniforms_ok us \<Longrightarrow> i \<le> length us \<Longrightarrow> app_base us i < 2147483648"
  using app_base_mono [of us i "length us"] by (auto simp: uniforms_ok_def)

lemma app_base_disjoint:
  assumes "uniforms_ok us" and "i < j" and "j < length us"
  shows "app_base us i + fst (snd (us ! i)) \<le> app_base us j"
  using app_base_mono [of us "Suc i" j] assms app_base_Suc [of i us] by simp

lemma linked_prefix:
  fixes junk :: "nat \<Rightarrow> index_info"
  assumes "uniforms_ok us" and "k \<le> length us"
  defines "p0 \<equiv> initProgramData junk ProgramData_new (word_of_nat (length us))"
  shows "foldl set_uniform p0 (zip [0..<k] us) =
     p0\<lparr>pd_Indexes := map (uniform_info us) [0..<k] @ map junk [k..<length us]\<rparr>"
  using assms(2)
proof (induction k)
  case 0
  have "length us < 4294967296" using assms(1) by (simp add: uniforms_ok_def)
  then show ?case by (simp add: p0_def initProgramData_def unat_of_nat32)
next
  case (Suc k)
  let ?p = "p0\<lparr>pd_Indexes := map (uniform_info us) [0..<k] @ map junk [k..<length us]\<rparr>"
  have n: "length us < 4294967296" using assms(1) by (simp add: uniforms_ok_def)
  have k: "k < length us" using Suc.prems by simp
  have uk: "unat (word_of_nat k :: u32) = k" using n k by (simp add: unat_of_nat32)
  have un: "unat (word_of_nat (length us) :: u32) = length us" using n by (simp add: unat_of_nat32)
  have lt: "\<not> pd_numIndexes ?p \<le> word_of_nat k"
    using uk un k by (simp add: p0_def initProgramData_def word_le_nat_alt)
  have "zip [0..<Suc k] us = zip [0..<k] us @ [(k, us ! k)]"
    using k by (intro nth_equalityI) (auto simp: nth_append less_Suc_eq)
  then have "foldl set_uniform p0 (zip [0..<Suc k] us) = set_uniform ?p (k, us ! k)"
    using Suc by simp
  also have "\<dots> = p0\<lparr>pd_Indexes := map (uniform_info us) [0..<Suc k] @ map junk [Suc k..<length us]\<rparr>"
  proof -
    obtain b sz ty where u: "us ! k = (b, sz, ty)" by (metis prod_cases3)
    have app: "(if 0 < (word_of_nat k :: u32)
                then i32 (ix_appBase (pd_Indexes ?p ! (k - 1)) + ix_size (pd_Indexes ?p ! (k - 1)))
                else 0) = app_base us k"
    proof (cases k)
      case (Suc m)
      then have "app_base us k = app_base us m + fst (snd (us ! m))"
        using k by (simp add: app_base_Suc)
      moreover have "int_range (app_base us k)"
        using app_base_nonneg [OF assms(1), of k] app_base_range [OF assms(1), of k] k
        by (simp add: int_range_def)
      moreover have "0 < (word_of_nat k :: u32)"
        using uk Suc by (metis unat_gt_0 zero_less_Suc word_neq_0_conv)
      ultimately show ?thesis using Suc by (simp add: nth_append uniform_info_def)
    qed simp
    have upd: "(xs @ map junk [k..<length us])[k := x] = xs @ x # map junk [Suc k..<length us]"
      if "length xs = k" for xs and x :: index_info
      using that k by (simp add: list_update_append upt_conv_Cons)
    have full: "r\<lparr>ix_base := b, ix_size := sz, ix_type := ty, ix_appBase := app_base us k,
        ix_hostLocsPerElement := 1, ix_flags := 0, ix_samplerValue := 0\<rparr> = uniform_info us k"
      for r :: index_info by (simp add: uniform_info_def u)
    have "set_uniform ?p (k, us ! k)
          = ?p\<lparr>pd_Indexes := (pd_Indexes ?p)[k := uniform_info us k]\<rparr>"
      unfolding set_uniform_def u prod.case setIndexInfo_def Let_def uk if_not_P [OF lt] app full ..
    also have "(pd_Indexes ?p)[k := uniform_info us k]
               = map (uniform_info us) [0..<Suc k] @ map junk [Suc k..<length us]"
      using upd [of "map (uniform_info us) [0..<k]" "uniform_info us k"] by simp
    finally show ?thesis by simp
  qed
  finally show ?case .
qed


lemma linked_eq:
  assumes "uniforms_ok us"
  shows "pd_Indexes (linked junk us) = map (uniform_info us) [0..<length us]"
    and "unat (pd_numIndexes (linked junk us)) = length us"
    and "pd_locShiftWAR (linked junk us) \<longleftrightarrow>
           1 < length us \<and> (\<forall>u \<in> set us. fst u AND 0xffff = 0)"
proof -
  have n: "unat (word_of_nat (length us) :: u32) = length us"
    using assms by (simp add: uniforms_ok_def unat_of_nat32)
  define q where "q = (initProgramData junk ProgramData_new (word_of_nat (length us)))
    \<lparr>pd_Indexes := map (uniform_info us) [0..<length us]\<rparr>"
  have l: "linked junk us = setupLocationShiftWAR_program q"
    by (simp add: linked_def linked_prefix [OF assms order_refl] q_def)
  have q: "pd_Indexes q = map (uniform_info us) [0..<length us]"
    "unat (pd_numIndexes q) = length us" "1 < pd_numIndexes q \<longleftrightarrow> 1 < length us"
    by (simp_all add: q_def initProgramData_def n word_less_nat_alt)
  show "pd_Indexes (linked junk us) = map (uniform_info us) [0..<length us]"
    and "unat (pd_numIndexes (linked junk us)) = length us"
    by (simp_all add: l setupLocationShiftWAR_program_def q)
  have "(\<exists>i \<in> set [0..<length us]. ix_base (pd_Indexes q ! i) AND 0xffff \<noteq> 0)
        \<longleftrightarrow> (\<exists>u \<in> set us. fst u AND 0xffff \<noteq> 0)"
    (is "?A \<longleftrightarrow> ?B")
  proof
    assume ?A
    then show ?B by (auto simp: q uniform_info_def intro!: bexI [OF _ nth_mem])
  next
    assume ?B
    then obtain i where "i < length us" and "fst (us ! i) AND 0xffff \<noteq> 0"
      by (metis in_set_conv_nth)
    then show ?A by (intro bexI [of _ i]) (simp_all add: q uniform_info_def)
  qed
  then show "pd_locShiftWAR (linked junk us) \<longleftrightarrow>
           1 < length us \<and> (\<forall>u \<in> set us. fst u AND 0xffff = 0)"
    unfolding l setupLocationShiftWAR_program_def q(2)
    by (cases "\<exists>u \<in> set us. fst u AND 0xffff \<noteq> 0") (auto simp: q(3))
qed

text \<open>
  What translation needs of a program: application locations laid out as in a linked program.
  \<open>locationWARHostToApp\<close> only changes \<open>hostLocsPerElement\<close>, so it is kept.
\<close>

definition laid_out :: "(int \<times> int \<times> GLenum) list \<Rightarrow> program_data \<Rightarrow> bool" where
  "laid_out us p \<longleftrightarrow> uniforms_ok us \<and> pd_locShiftWAR p
     \<and> unat (pd_numIndexes p) = length us \<and> length (pd_Indexes p) = length us
     \<and> (\<forall>i<length us. ix_base (pd_Indexes p ! i) = fst (us ! i)
          \<and> ix_size (pd_Indexes p ! i) = fst (snd (us ! i))
          \<and> ix_appBase (pd_Indexes p ! i) = app_base us i)"

lemma laid_outD:
  assumes "laid_out us p"
  shows "uniforms_ok us" and "pd_locShiftWAR p" and "unat (pd_numIndexes p) = length us"
    and "length (pd_Indexes p) = length us"
    and "i < length us \<Longrightarrow> ix_base (pd_Indexes p ! i) = fst (us ! i)"
    and "i < length us \<Longrightarrow> ix_size (pd_Indexes p ! i) = fst (snd (us ! i))"
    and "i < length us \<Longrightarrow> ix_appBase (pd_Indexes p ! i) = app_base us i"
  using assms by (auto simp: laid_out_def)

lemma linked_laid_out:
  "uniforms_ok us \<Longrightarrow> 1 < length us \<Longrightarrow> \<forall>u \<in> set us. fst u AND 0xffff = 0
   \<Longrightarrow> laid_out us (linked junk us)"
  by (simp add: laid_out_def linked_eq uniform_info_def)

lemma app_index_laid_out:
  assumes "laid_out us p" and "i < length us" and "0 \<le> k" and "k < fst (snd (us ! i))"
  shows "app_index p (app_base us i + k) = Some i"
proof -
  note l = laid_outD [OF assms(1)]
  have b: "0 \<le> app_base us j" "app_base us j < 2147483648" if "j < length us" for j
    using app_base_nonneg [OF l(1)] app_base_range [OF l(1)] that by simp_all
  have top: "app_base us i + k < 2147483648"
    using app_base_range [OF l(1), of "Suc i"] app_base_Suc [OF assms(2)] assms by simp
  have w: "i32 (app_base us i + k - ix_appBase (pd_Indexes p ! j)) = app_base us i + k - app_base us j"
    if "j < length us" for j
    using b [OF that] b [OF assms(2)] top assms(3) that l(7) by (intro i32_id [THEN trans]) auto
  have no: "app_base us i + k - app_base us j \<ge> fst (snd (us ! j))" if "j < i" for j
    using app_base_disjoint [OF l(1) that assms(2)] assms(3) by linarith
  show ?thesis
    unfolding app_index_def find_Some_iff
  proof (intro exI [of _ i] conjI allI impI)
    fix j assume "j < i"
    then show "\<not> (let e = i32 (app_base us i + k - ix_appBase (pd_Indexes p ! ([0..<unat (pd_numIndexes p)] ! j)))
                 in 0 \<le> e \<and> e < ix_size (pd_Indexes p ! ([0..<unat (pd_numIndexes p)] ! j)))"
      using no [of j] w [of j] l(3) l(6) [of j] assms(2) by (simp add: Let_def)
  qed (use w [OF assms(2)] l(3) l(6) [OF assms(2)] assms in \<open>simp_all add: Let_def\<close>)
qed

lemma AppToHost_laid_out:
  assumes "laid_out us p" and "i < length us" and "0 \<le> k" and "k < fst (snd (us ! i))"
    and "int_range (fst (us ! i) + k * ix_hostLocsPerElement (pd_Indexes p ! i))"
  shows "locationWARAppToHost_program p (app_base us i + k) =
    fst (us ! i) + k * ix_hostLocsPerElement (pd_Indexes p ! i)"
proof -
  note l = laid_outD [OF assms(1)]
  have "i32 k = k"
    using assms(2-4) app_base_range [OF l(1), of "Suc i"] app_base_nonneg [OF l(1), of i]
      app_base_Suc [OF assms(2)] by (intro i32_id int_rangeI) auto
  then show ?thesis
    using assms(2,5) l(2) l(5-7) [OF assms(2)]
    by (simp add: locationWARAppToHost_program_def app_index_laid_out [OF assms(1-4)] Let_def)
qed

text \<open>A host location inside uniform \<open>i\<close>: no other base lies between the uniform's and it.\<close>

definition own_location :: "(int \<times> int \<times> GLenum) list \<Rightarrow> nat \<Rightarrow> int \<Rightarrow> bool" where
  "own_location us i h \<longleftrightarrow> i < length us \<and> fst (us ! i) \<le> h \<and> h < 2147483648
     \<and> (\<forall>j<length us. 0 \<le> fst (us ! j)
          \<and> (j \<noteq> i \<longrightarrow> fst (us ! j) < fst (us ! i) \<or> h < fst (us ! j)))"

lemma getIndex_own:
  assumes "laid_out us p" and "own_location us i h"
  shows "getIndexForLocation p h = i"
proof (rule getIndexForLocation_eqI)
  note l = laid_outD [OF assms(1)]
  fix j assume "j < unat (pd_numIndexes p)"
  then have j: "j < length us" using l(3) by simp
  have i: "i < length us" using assms(2) by (simp add: own_location_def)
  have "0 \<le> fst (us ! j)" "fst (us ! j) < 2147483648" "0 \<le> h" "h < 2147483648"
    using assms(2) j l(1) i nth_mem [OF j]
    by (auto simp: own_location_def uniforms_ok_def int_range_def)
  then show "int_range (h - ix_base (pd_Indexes p ! j))" using l(5) [OF j] by (auto simp: int_range_def)
  show "ix_base (pd_Indexes p ! j) < ix_base (pd_Indexes p ! i) \<or> h < ix_base (pd_Indexes p ! j)"
    if "j \<noteq> i" using assms(2) j i that l(5) by (auto simp: own_location_def)
qed (use assms laid_outD [OF assms(1)] in \<open>auto simp: own_location_def\<close>)

lemma HostToApp_laid_out:
  assumes "laid_out us p" and "own_location us i h" and "0 \<le> k" and "k < fst (snd (us ! i))"
  shows "snd (locationWARHostToApp_program p h k) = app_base us i + k"
    and "laid_out us (fst (locationWARHostToApp_program p h k))"
    and "ix_hostLocsPerElement (pd_Indexes (fst (locationWARHostToApp_program p h k)) ! j) =
      (if j = i \<and> 0 < k then (h - fst (us ! i)) div k else ix_hostLocsPerElement (pd_Indexes p ! j))"
proof -
  note l = laid_outD [OF assms(1)]
  have i: "i < length us" and h: "fst (us ! i) \<le> h" "h < 2147483648" "0 \<le> fst (us ! i)"
    using assms(2) by (auto simp: own_location_def)
  have d: "c_div (i32 (h - fst (us ! i))) k = (h - fst (us ! i)) div k" if "0 < k"
    using h that by (simp add: c_div_nonneg int_range_def)
  have a: "i32 (app_base us i + k) = app_base us i + k"
    using app_base_range [OF l(1), of "Suc i"] app_base_Suc [OF i] app_base_nonneg [OF l(1), of i] i
      assms(3,4) by (intro i32_id int_rangeI) auto
  show "snd (locationWARHostToApp_program p h k) = app_base us i + k"
    and "laid_out us (fst (locationWARHostToApp_program p h k))"
    and "ix_hostLocsPerElement (pd_Indexes (fst (locationWARHostToApp_program p h k)) ! j) =
      (if j = i \<and> 0 < k then (h - fst (us ! i)) div k else ix_hostLocsPerElement (pd_Indexes p ! j))"
    using l i a d
    by (auto simp: locationWARHostToApp_program_def getIndex_own [OF assms(1,2)] Let_def laid_out_def
        nth_list_update)
qed


section \<open>Shader reference counts\<close>

definition attached_to :: "shared_group \<Rightarrow> GLuint \<Rightarrow> GLuint set" where
  "attached_to g sh = {n. \<exists>p. sg_programs g n = Some p \<and> sh \<in> set (pd_shaders p)}"

text \<open>
  What has happened to the shader names, kept beside the group: the names that have been added,
  and, since a name was added last, how often it was unreferenced by \<open>glDeleteShader\<close> while it had
  data, how many programs went away with the shader still listed, and how many programs listed
  the name already when it was added. \<open>hi_clean\<close> holds as long as no shader has been deleted
  again while its data was there, and no name has been added while a program listed it.
\<close>

record shader_history =
  hi_named :: "GLuint set"
  hi_deleted :: "GLuint \<Rightarrow> nat"
  hi_lost :: "GLuint \<Rightarrow> nat"
  hi_stale :: "GLuint \<Rightarrow> nat"
  hi_clean :: bool

definition no_history :: shader_history where
  "no_history = \<lparr>hi_named = {}, hi_deleted = (\<lambda>_. 0), hi_lost = (\<lambda>_. 0), hi_stale = (\<lambda>_. 0), hi_clean = True\<rparr>"

fun note_op :: "shared_group \<Rightarrow> sg_op \<Rightarrow> shader_history \<Rightarrow> shader_history" where
  "note_op g (AddShader sh) H = H\<lparr>hi_named := insert sh (hi_named H),
     hi_deleted := (hi_deleted H)(sh := 0), hi_lost := (hi_lost H)(sh := 0),
     hi_stale := (hi_stale H)(sh := card (attached_to g sh)),
     hi_clean := hi_clean H \<and> attached_to g sh = {}\<rparr>"
| "note_op g (UnrefShader sh) H =
     (if sg_shaders g sh = None then H
      else H\<lparr>hi_deleted := (hi_deleted H)(sh := Suc (hi_deleted H sh)),
             hi_clean := hi_clean H \<and> hi_deleted H sh = 0\<rparr>)"
| "note_op g (AddProgram n) H = H\<lparr>hi_lost := (\<lambda>sh. hi_lost H sh + (if n \<in> attached_to g sh then 1 else 0))\<rparr>"
| "note_op g (DeleteProgram n) H = H\<lparr>hi_lost := (\<lambda>sh. hi_lost H sh + (if n \<in> attached_to g sh then 1 else 0))\<rparr>"
| "note_op g _ H = H"

text \<open>
  A step is any operation of the group that is defined; nothing is asked of the order in which
  the operations come. GL allows all of them: deleting a program with shaders attached, and
  deleting a shader again.
\<close>

inductive shader_step ::
  "allocator \<Rightarrow> (nat \<Rightarrow> index_info) \<Rightarrow> shared_group \<times> shader_history \<Rightarrow> shared_group \<times> shader_history \<Rightarrow> bool"
  for fresh junk where
  "sg_step fresh junk (Some g) op = Some g' \<Longrightarrow> shader_step fresh junk (g, H) (g', note_op g op H)"

text \<open>The counts depend on the lists of shaders and on the reference counts only.\<close>

definition listing :: "(GLuint \<rightharpoonup> GLuint list) \<Rightarrow> GLuint \<Rightarrow> GLuint set" where
  "listing A sh = {n. \<exists>l. A n = Some l \<and> sh \<in> set l}"

definition lists_of :: "shared_group \<Rightarrow> (GLuint \<rightharpoonup> GLuint list)" where
  "lists_of g n = map_option pd_shaders (sg_programs g n)"

definition counts_of :: "shared_group \<Rightarrow> (GLuint \<rightharpoonup> int)" where
  "counts_of g sh = map_option sh_refcount (sg_shaders g sh)"

lemma attached_to_listing: "attached_to g sh = listing (lists_of g) sh"
  by (auto simp: attached_to_def listing_def lists_of_def)

text \<open>
  The count is the number of attachments, plus one for the name, plus one for each program that
  was lost, minus one for each deletion and for each stale listing.
\<close>

definition counts_ok :: "(GLuint \<rightharpoonup> GLuint list) \<Rightarrow> (GLuint \<rightharpoonup> int) \<Rightarrow> shader_history \<Rightarrow> bool" where
  "counts_ok A C H \<longleftrightarrow> (\<forall>n l. A n = Some l \<longrightarrow> distinct l)
     \<and> (\<forall>sh r. C sh = Some r \<longrightarrow> 0 < r \<and>
          r + int (hi_deleted H sh) + int (hi_stale H sh) = int (card (listing A sh)) + 1 + int (hi_lost H sh))
     \<and> (hi_clean H \<longrightarrow> (\<forall>sh. hi_stale H sh = 0 \<and> hi_deleted H sh \<le> 1)
          \<and> (\<forall>sh. C sh = None \<longrightarrow> listing A sh = {})
          \<and> (\<forall>sh \<in> hi_named H. C sh = None \<longrightarrow> hi_deleted H sh = 1 \<and> hi_lost H sh = 0))"

lemma counts_okI:
  assumes "\<And>n l. A n = Some l \<Longrightarrow> distinct l"
    and "\<And>sh r. C sh = Some r \<Longrightarrow> 0 < r"
    and "\<And>sh r. C sh = Some r \<Longrightarrow> r + int (hi_deleted H sh) + int (hi_stale H sh)
          = int (card (listing A sh)) + 1 + int (hi_lost H sh)"
    and "\<And>sh. hi_clean H \<Longrightarrow> hi_stale H sh = 0"
    and "\<And>sh. hi_clean H \<Longrightarrow> hi_deleted H sh \<le> 1"
    and "\<And>sh. hi_clean H \<Longrightarrow> C sh = None \<Longrightarrow> listing A sh = {}"
    and "\<And>sh. hi_clean H \<Longrightarrow> sh \<in> hi_named H \<Longrightarrow> C sh = None \<Longrightarrow> hi_deleted H sh = 1 \<and> hi_lost H sh = 0"
  shows "counts_ok A C H"
  using assms unfolding counts_ok_def by blast

lemma counts_okD:
  assumes "counts_ok A C H"
  shows "A n = Some l \<Longrightarrow> distinct l"
    and "C sh = Some r \<Longrightarrow> 0 < r"
    and "C sh = Some r \<Longrightarrow> r + int (hi_deleted H sh) + int (hi_stale H sh)
          = int (card (listing A sh)) + 1 + int (hi_lost H sh)"
    and "hi_clean H \<Longrightarrow> hi_stale H sh = 0"
    and "hi_clean H \<Longrightarrow> hi_deleted H sh \<le> 1"
    and "hi_clean H \<Longrightarrow> C sh = None \<Longrightarrow> listing A sh = {}"
    and "hi_clean H \<Longrightarrow> sh \<in> hi_named H \<Longrightarrow> C sh = None \<Longrightarrow> hi_deleted H sh = 1 \<and> hi_lost H sh = 0"
  using assms unfolding counts_ok_def by blast+

lemma finite_listing [simp]: "finite (listing A sh)"
  by (rule finite_subset [OF subset_UNIV]) simp

lemma listing_upd:
  "listing (A(n := L)) sh = (if \<exists>l. L = Some l \<and> sh \<in> set l then insert n (listing A sh) else listing A sh - {n})"
  by (auto simp: listing_def)

lemma card_listing_remove: "int (card (listing A sh - {n})) = int (card (listing A sh)) - (if n \<in> listing A sh then 1 else 0)"
proof (cases "n \<in> listing A sh")
  case True
  then show ?thesis using card_Suc_Diff1 [OF finite_listing True] by simp
qed simp

lemma counts_add:
  assumes "counts_ok A C H"
  shows "counts_ok A (C(sh \<mapsto> 1)) (H\<lparr>hi_named := insert sh (hi_named H),
     hi_deleted := (hi_deleted H)(sh := 0), hi_lost := (hi_lost H)(sh := 0),
     hi_stale := (hi_stale H)(sh := card (listing A sh)),
     hi_clean := hi_clean H \<and> listing A sh = {}\<rparr>)" (is "counts_ok A ?C ?H")
proof (rule counts_okI)
  fix s r assume "?C s = Some r"
  then show "0 < r" and "r + int (hi_deleted ?H s) + int (hi_stale ?H s) = int (card (listing A s)) + 1 + int (hi_lost ?H s)"
    using counts_okD(2,3) [OF assms, of s] by (auto split: if_split_asm)
next
  fix s assume "hi_clean ?H" and "?C s = None"
  then show "listing A s = {}" and "s \<in> hi_named ?H \<Longrightarrow> hi_deleted ?H s = 1 \<and> hi_lost ?H s = 0"
    using counts_okD(6,7) [OF assms, of s] by (auto split: if_split_asm)
qed (use counts_okD(1,4,5) [OF assms] in simp_all)

lemma counts_drop:
  assumes "counts_ok A C H" and "L = None \<or> L = Some []"
  shows "counts_ok (A(n := L)) C (H\<lparr>hi_lost := (\<lambda>sh. hi_lost H sh + (if n \<in> listing A sh then 1 else 0))\<rparr>)"
    (is "counts_ok ?A C ?H")
proof -
  have l: "listing (A(n := L)) sh = listing A sh - {n}" for sh using assms(2) by (auto simp: listing_upd)
  show ?thesis
  proof (rule counts_okI)
    fix s assume "hi_clean ?H" and "C s = None"
    then show "listing ?A s = {}" and "s \<in> hi_named ?H \<Longrightarrow> hi_deleted ?H s = 1 \<and> hi_lost ?H s = 0"
      using counts_okD(6,7) [OF assms(1), of s] by (simp_all add: l)
  next
    fix m k assume "?A m = Some k"
    then show "distinct k" using counts_okD(1) [OF assms(1), of m] assms(2) by (auto split: if_split_asm)
  next
    fix s r assume "C s = Some r"
    from counts_okD(2,3) [OF assms(1) this]
    show "0 < r" and "r + int (hi_deleted ?H s) + int (hi_stale ?H s) = int (card (listing ?A s)) + 1 + int (hi_lost ?H s)"
      by (simp_all add: l card_listing_remove)
  qed (use counts_okD(4,5) [OF assms(1)] in simp_all)
qed

lemma counts_attach:
  assumes i: "counts_ok A C H" and "A n = Some l" and "sh \<notin> set l" and "C sh = Some r"
  shows "counts_ok (A(n \<mapsto> l @ [sh])) (C(sh \<mapsto> r + 1)) H"
proof -
  have n: "n \<notin> listing A sh" using assms(2,3) by (simp add: listing_def)
  have l: "listing (A(n \<mapsto> l @ [sh])) s = (if s = sh then insert n (listing A s) else listing A s)" for s
    using assms(2) by (auto simp: listing_def)
  note rc = counts_okD(2,3) [OF i assms(4)]
  show ?thesis
  proof (rule counts_okI)
    fix s e assume "(C(sh \<mapsto> r + 1)) s = Some e"
    then show "0 < e"
      and "e + int (hi_deleted H s) + int (hi_stale H s) = int (card (listing (A(n \<mapsto> l @ [sh])) s)) + 1 + int (hi_lost H s)"
      using counts_okD(2,3) [OF i, of s] rc n by (auto simp: l split: if_split_asm)
  next
    fix s assume "hi_clean H" and "(C(sh \<mapsto> r + 1)) s = None"
    then show "listing (A(n \<mapsto> l @ [sh])) s = {}"
      and "s \<in> hi_named H \<Longrightarrow> hi_deleted H s = 1 \<and> hi_lost H s = 0"
      using counts_okD(6,7) [OF i, of s] by (auto simp: l split: if_split_asm)
  next
    fix m k assume "(A(n \<mapsto> l @ [sh])) m = Some k"
    then show "distinct k" using counts_okD(1) [OF i, of m] counts_okD(1) [OF i assms(2)] assms(3) by (auto split: if_split_asm)
  qed (use counts_okD(4,5) [OF i] in simp_all)
qed

lemma counts_detach:
  assumes i: "counts_ok A C H" and "A n = Some l" and "sh \<in> set l" and "C sh = Some r"
  shows "counts_ok (A(n \<mapsto> remove1 sh l)) (C(sh := if r = 1 then None else Some (r - 1))) H"
proof -
  have n: "n \<in> listing A sh" using assms(2,3) by (simp add: listing_def)
  have dis: "distinct l" by (rule counts_okD(1) [OF i assms(2)])
  have l: "listing (A(n \<mapsto> remove1 sh l)) s = (if s = sh then listing A s - {n} else listing A s)" for s
    using assms(2) dis by (auto simp: listing_def)
  note rc = counts_okD(2,3) [OF i assms(4)]
  have c: "int (card (listing A sh)) = int (card (listing A sh - {n})) + 1" using n by (subst card_listing_remove) simp
  have free: "hi_deleted H sh = 1 \<and> hi_lost H sh = 0 \<and> listing A sh - {n} = {}" if "hi_clean H" "r = 1"
  proof -
    have "card (listing A sh - {n}) = 0" "hi_deleted H sh = 1" "hi_lost H sh = 0"
      using counts_okD(4,5) [OF i that(1), of sh] rc c that(2) by linarith+
    then show ?thesis by (simp only: card_0_eq finite_Diff finite_listing)
  qed
  show ?thesis
  proof (rule counts_okI)
    fix s e assume "(C(sh := if r = 1 then None else Some (r - 1))) s = Some e"
    then show "0 < e"
      and "e + int (hi_deleted H s) + int (hi_stale H s) = int (card (listing (A(n \<mapsto> remove1 sh l)) s)) + 1 + int (hi_lost H s)"
      using counts_okD(2,3) [OF i, of s] rc c by (auto simp: l split: if_split_asm)
  next
    fix s assume "hi_clean H" and "(C(sh := if r = 1 then None else Some (r - 1))) s = None"
    then show "listing (A(n \<mapsto> remove1 sh l)) s = {}"
      and "s \<in> hi_named H \<Longrightarrow> hi_deleted H s = 1 \<and> hi_lost H s = 0"
      using counts_okD(6,7) [OF i, of s] free by (auto simp: l split: if_split_asm)
  next
    fix m k assume "(A(n \<mapsto> remove1 sh l)) m = Some k"
    then show "distinct k" using counts_okD(1) [OF i, of m] dis by (auto split: if_split_asm)
  qed (use counts_okD(4,5) [OF i] in simp_all)
qed

lemma counts_delete:
  assumes i: "counts_ok A C H" and "C sh = Some r"
  shows "counts_ok A (C(sh := if r = 1 then None else Some (r - 1)))
     (H\<lparr>hi_deleted := (hi_deleted H)(sh := Suc (hi_deleted H sh)), hi_clean := hi_clean H \<and> hi_deleted H sh = 0\<rparr>)"
    (is "counts_ok A ?C ?H")
proof -
  note rc = counts_okD(2,3) [OF i assms(2)]
  have free: "hi_lost H sh = 0 \<and> listing A sh = {}" if "hi_clean H" "hi_deleted H sh = 0" "r = 1"
  proof -
    have "card (listing A sh) = 0" "hi_lost H sh = 0"
      using counts_okD(4) [OF i that(1), of sh] rc that by linarith+
    then show ?thesis by (simp only: card_0_eq finite_listing)
  qed
  show ?thesis
  proof (rule counts_okI)
    fix s e assume "?C s = Some e"
    then show "0 < e"
      and "e + int (hi_deleted ?H s) + int (hi_stale ?H s) = int (card (listing A s)) + 1 + int (hi_lost ?H s)"
      using counts_okD(2,3) [OF i, of s] rc by (auto split: if_split_asm)
  next
    fix s assume "hi_clean ?H" and "?C s = None"
    then show "listing A s = {}" and "s \<in> hi_named ?H \<Longrightarrow> hi_deleted ?H s = 1 \<and> hi_lost ?H s = 0"
      using counts_okD(6,7) [OF i, of s] free by (auto split: if_split_asm)
  qed (use counts_okD(1,4,5) [OF i] in \<open>auto split: if_split_asm\<close>)
qed

text \<open>The operations on the group.\<close>

definition quiet :: "shared_group \<Rightarrow> shared_group \<Rightarrow> bool" where
  "quiet g g' \<longleftrightarrow> lists_of g' = lists_of g \<and> counts_of g' = counts_of g"

lemma quiet_refl [simp]: "quiet g g"
  by (simp add: quiet_def)

lemma quiet_buffers [simp]: "quiet g (g\<lparr>sg_buffers := b\<rparr>)"
  by (simp add: quiet_def lists_of_def counts_of_def fun_eq_iff)

lemma quiet_program:
  "sg_programs g n = Some p \<Longrightarrow> pd_shaders q = pd_shaders p \<Longrightarrow> quiet g (g\<lparr>sg_programs := (sg_programs g)(n \<mapsto> q)\<rparr>)"
  by (simp add: quiet_def lists_of_def counts_of_def fun_eq_iff)

lemma quiet_upd: "(\<And>p. pd_shaders (f p) = pd_shaders p) \<Longrightarrow> quiet g (upd_program g n f)"
  by (simp add: upd_program_def quiet_program split: option.split)

lemma pd_shaders_ops [simp]:
  "pd_shaders (initProgramData junk p k) = pd_shaders p"
  "pd_shaders (setIndexInfo p i b sz ty) = pd_shaders p"
  "pd_shaders (setIndexFlags p i f) = pd_shaders p"
  "pd_shaders (setupLocationShiftWAR_program p) = pd_shaders p"
  "pd_shaders (fst (locationWARHostToApp_program p l j)) = pd_shaders p"
  "pd_shaders (fst (setSamplerUniform_program p l v)) = pd_shaders p"
  "pd_shaders (flag_external S i nm p sh) = pd_shaders p"
  by (simp_all add: initProgramData_def setIndexInfo_def setIndexFlags_def setupLocationShiftWAR_program_def
      locationWARHostToApp_program_def setSamplerUniform_program_def flag_external_def Let_def split: option.split)

lemma pd_shaders_foldl [simp]: "pd_shaders (foldl (flag_external S i nm) p shs) = pd_shaders p"
  by (induction shs arbitrary: p) simp_all

lemma quiet_ops [simp]:
  "quiet g (deleteBufferData g n)" "quiet g (initProgramData_group junk g n k)"
  "quiet g (setProgramIndexInfo g n i b sz ty nm)" "quiet g (setupLocationShiftWAR g n)"
  "quiet g (fst (locationWARHostToApp g n l j))" "quiet g (fst (setSamplerUniform g n l v))"
  "quiet g (set_external_names g sh nms)"
  by (auto simp: deleteBufferData_def initProgramData_group_def setProgramIndexInfo_def setupLocationShiftWAR_def
      locationWARHostToApp_def setSamplerUniform_def Let_def intro!: quiet_upd quiet_program
      split: option.split prod.split dest: arg_cong [of _ _ fst] arg_cong [of _ _ "\<lambda>x. pd_shaders (fst x)"])
    (auto simp: set_external_names_def quiet_def lists_of_def counts_of_def fun_eq_iff split: option.split)

abbreviation "group_counts g H \<equiv> counts_ok (lists_of g) (counts_of g) H"

lemma quiet_counts: "group_counts g H \<Longrightarrow> quiet g g' \<Longrightarrow> group_counts g' H"
  by (simp add: quiet_def)

lemma counts_of_simps [simp]:
  "counts_of g sh = None \<longleftrightarrow> sg_shaders g sh = None"
  "counts_of (g\<lparr>sg_programs := P\<rparr>) = counts_of g"
  "lists_of (g\<lparr>sg_shaders := S\<rparr>) = lists_of g"
  by (simp_all add: counts_of_def lists_of_def fun_eq_iff)

lemma programs_upd [simp]:
  "lists_of (g\<lparr>sg_programs := (sg_programs g)(n := p)\<rparr>) = (lists_of g)(n := map_option pd_shaders p)"
  "counts_of (g\<lparr>sg_shaders := (sg_shaders g)(sh := d)\<rparr>) = (counts_of g)(sh := map_option sh_refcount d)"
  "counts_of (g\<lparr>sg_programs := P, sg_shaders := (sg_shaders g)(sh := d)\<rparr>) = (counts_of g)(sh := map_option sh_refcount d)"
  by (simp_all add: lists_of_def counts_of_def fun_eq_iff)

lemma unref_counts:
  assumes "sg_shaders g sh = Some d"
  shows "lists_of (unrefShaderDataLocked g sh) = lists_of g"
    and "counts_of (unrefShaderDataLocked g sh) = (counts_of g)(sh := if sh_refcount d = 1 then None else Some (sh_refcount d - 1))"
  using assms by (simp_all add: unrefShaderDataLocked_def)

lemma attach_group_counts: "group_counts g H \<Longrightarrow> group_counts (attachShader g n sh) H"
proof (cases "\<exists>p d. sg_programs g n = Some p \<and> sg_shaders g sh = Some d \<and> sh \<notin> set (pd_shaders p)")
  case True
  assume i: "group_counts g H"
  from True obtain p d where p: "sg_programs g n = Some p" "sg_shaders g sh = Some d" "sh \<notin> set (pd_shaders p)" by blast
  have "counts_ok ((lists_of g)(n \<mapsto> pd_shaders p @ [sh])) ((counts_of g)(sh \<mapsto> sh_refcount d + 1)) H"
    by (rule counts_attach [OF i]) (use p in \<open>simp_all add: lists_of_def counts_of_def\<close>)
  then show ?thesis using p by (simp add: attachShader_def attachShader_program_def refShaderDataLocked_def)
next
  case False
  assume "group_counts g H"
  moreover have "quiet g (attachShader g n sh)"
    using False by (auto simp: attachShader_def attachShader_program_def intro: quiet_program split: option.split)
  ultimately show ?thesis by (rule quiet_counts)
qed

lemma detach_group_counts: "group_counts g H \<Longrightarrow> group_counts (detachShader g n sh) H"
proof (cases "\<exists>p d. sg_programs g n = Some p \<and> sg_shaders g sh = Some d \<and> sh \<in> set (pd_shaders p)")
  case True
  assume i: "group_counts g H"
  from True obtain p d where p: "sg_programs g n = Some p" "sg_shaders g sh = Some d" "sh \<in> set (pd_shaders p)" by blast
  have "counts_ok ((lists_of g)(n \<mapsto> remove1 sh (pd_shaders p)))
      ((counts_of g)(sh := if sh_refcount d = 1 then None else Some (sh_refcount d - 1))) H"
    by (rule counts_detach [OF i]) (use p in \<open>simp_all add: lists_of_def counts_of_def\<close>)
  then show ?thesis using p by (simp add: detachShader_def detachShader_program_def unrefShaderDataLocked_def Let_def split: if_split_asm)
next
  case False
  assume "group_counts g H"
  moreover have "quiet g (detachShader g n sh)"
    using False by (auto simp: detachShader_def detachShader_program_def intro: quiet_program split: option.split)
  ultimately show ?thesis by (rule quiet_counts)
qed

lemma shader_step_counts:
  assumes "sg_step fresh junk (Some g) op = Some g'" and i: "group_counts g H"
  shows "group_counts g' (note_op g op H)"
  using assms(1)
proof (cases op)
  case (AddShader sh)
  then show ?thesis using assms counts_add [OF i, of sh] by (auto simp: addShaderData_def attached_to_listing)
next
  case (UnrefShader sh)
  show ?thesis
  proof (cases "sg_shaders g sh")
    case None
    then show ?thesis using assms UnrefShader by (simp add: unrefShaderData_def unrefShaderDataLocked_def)
  next
    case (Some d)
    then have "counts_of g sh = Some (sh_refcount d)" by (simp add: counts_of_def)
    from counts_delete [OF i this] show ?thesis
      using assms UnrefShader Some by (auto simp: unrefShaderData_def unref_counts)
  qed
next
  case (AddProgram n)
  then show ?thesis using assms counts_drop [OF i, of "Some []" n]
    by (auto simp: addProgramData_def attached_to_listing ProgramData_new_def)
next
  case (DeleteProgram n)
  then show ?thesis using assms counts_drop [OF i, of None n] by (auto simp: deleteProgramData_def attached_to_listing)
next
  case (Attach n sh)
  then show ?thesis using assms attach_group_counts by auto
next
  case (Detach n sh)
  then show ?thesis using assms detach_group_counts by auto
qed (use i in \<open>auto intro: quiet_counts simp: addBufferData_def updateBufferData_def subUpdateBufferData_def split: option.split_asm if_split_asm\<close>)

lemma shader_steps_counts:
  "(shader_step fresh junk)\<^sup>*\<^sup>* c c' \<Longrightarrow> group_counts (fst c) (snd c) \<Longrightarrow> group_counts (fst c') (snd c')"
  by (induction rule: rtranclp_induct) (auto simp: shader_step.simps intro: shader_step_counts)

lemma counts_ok_new [simp]: "group_counts GLSharedGroup_new no_history"
  by (simp add: counts_ok_def no_history_def lists_of_def counts_of_def listing_def GLSharedGroup_new_def)


section \<open>Properties of the group\<close>

text \<open>
  C7. Whatever sequence of operations runs on a new group, every program keeps a table of
  exactly \<open>m_numIndexes\<close> uniforms and a duplicate-free list of shaders, every buffer copy is
  backed by as many bytes as its size says, and every shader has a positive count.
\<close>

theorem shared_group_invariant:
  assumes "allocator_ok fresh" and "list_all sg_ok ops"
    and "foldl (sg_step fresh junk) (Some GLSharedGroup_new) ops = Some g"
  shows "sg_inv g"
proof -
  have "sg_inv_ub fresh (Some GLSharedGroup_new)"
    using assms(1) by (simp add: sg_inv_ub_def sg_inv_def GLSharedGroup_new_def)
  from group.run_inv [OF this assms(2), of junk] show ?thesis
    by (simp add: assms(3) sg_inv_ub_def)
qed

definition zero_alloc :: allocator where
  "zero_alloc n = Some (replicate n 0)"

lemma zero_alloc_ok [simp]: "allocator_ok zero_alloc"
  by (simp add: allocator_ok_def zero_alloc_def)

definition blank_index :: index_info where
  "blank_index = \<lparr>ix_base = 0, ix_size = 0, ix_type = 0, ix_appBase = 0,
     ix_hostLocsPerElement = 0, ix_flags = 0, ix_samplerValue = 0\<rparr>"

theorem shared_group_invariant_witness:
  "sg_inv (the (foldl (sg_step zero_alloc (\<lambda>_. blank_index)) (Some GLSharedGroup_new)
     [AddBuffer 1 4 None, AddProgram 7, InitProgram 7 2, SubUpdateBuffer 1 2 1 [5], AddShader 3]))"
  by (rule shared_group_invariant [of zero_alloc "[AddBuffer 1 4 None, AddProgram 7,
        InitProgram 7 2, SubUpdateBuffer 1 2 1 [5], AddShader 3]" "\<lambda>_. blank_index"])
    (simp_all add: addBufferData_def BufferData_new_def fb_alloc_def zero_alloc_def
      addProgramData_def addShaderData_def initProgramData_group_def subUpdateBufferData_def upd_program_def
      GLSharedGroup_new_def fb_bytes_def i32_def blit_def)

text \<open>
  C28. A buffer update with any \<open>int\<close> offset and size, on a buffer whose copy is allocated. Inside
  the buffer it replaces exactly the bytes \<open>offset\<close> to \<open>offset + size - 1\<close> of the copy. With a
  negative offset or size, or beyond the size of the buffer, it is refused with
  \<open>GL_INVALID_VALUE\<close> and changes nothing - unless the sum of offset and size is no \<open>int\<close>: then the
  check is passed and the bytes are written outside the copy, which is undefined.
\<close>

theorem subUpdateBufferData_exact:
  assumes "sg_inv g" and "sg_buffers g n = Some b" and "fb_buffer (bd_fixed b) = Some bs"
    and "0 \<le> bd_size b" and "length bs < 2147483648"
    and "length data = nat sz" and "int_range off" and "int_range sz"
  shows "if 0 \<le> off \<and> 0 \<le> sz \<and> off + sz \<le> bd_size b
    then \<exists>g' b'. subUpdateBufferData g n off sz data = Some (g', GL_NO_ERROR)
      \<and> sg_buffers g' = (sg_buffers g)(n \<mapsto> b') \<and> bd_size b' = bd_size b
      \<and> fb_bytes (bd_fixed b') = take (nat off) bs @ data @ drop (nat (off + sz)) bs
    else if 0 \<le> off \<and> 0 \<le> sz \<and> 2147483648 \<le> off + sz
    then subUpdateBufferData g n off sz data = None
    else subUpdateBufferData g n off sz data = Some (g, GL_INVALID_VALUE)"
proof -
  have ok: "buffer_ok b" using assms(1,2) by (rule sg_invD)
  then have sz: "bd_size b \<le> int (length bs)" using assms(3) by (simp add: buffer_ok_def fb_inv_def)
  consider (inside) "0 \<le> off \<and> 0 \<le> sz \<and> off + sz \<le> bd_size b"
    | (wraps) "0 \<le> off" "0 \<le> sz" "2147483648 \<le> off + sz"
    | (refused) "off < 0 \<or> sz < 0 \<or> bd_size b < off + sz \<and> off + sz < 2147483648" by linarith
  then show ?thesis
  proof cases
    case inside
    then show ?thesis
      using subUpdate_in_bounds [OF ok assms(2,3) _ assms(6), of off] sz assms(5) by (auto simp: fb_bytes_def)
  next
    case wraps
    have "(off + sz + 2147483648) mod 4294967296 = (off + sz - 2147483648 + 4294967296) mod 4294967296"
      by (rule arg_cong [of _ _ "\<lambda>x. x mod 4294967296"]) simp
    also have "\<dots> = off + sz - 2147483648"
      unfolding mod_add_self2 using wraps assms(7,8) by (simp add: int_range_def)
    finally have "i32 (off + sz) < 0" using assms(7,8) by (simp add: i32_def int_range_def)
    then show ?thesis
      using wraps sz assms(2-6) by (auto simp: subUpdateBufferData_def fb_bytes_def blit_def)
  next
    case refused
    then have "i32 (off + sz) = off + sz" if "0 \<le> off" "0 \<le> sz" using that by (intro i32_id int_rangeI) auto
    then show ?thesis using refused assms(2) by (auto simp: subUpdateBufferData_def)
  qed
qed

definition four_bytes :: buffer_data where
  "four_bytes = \<lparr>bd_size = 4, bd_fixed = \<lparr>fb_buffer = Some [0, 0, 0, 0], fb_len = 4\<rparr>\<rparr>"

definition one_buffer :: shared_group where
  "one_buffer = GLSharedGroup_new\<lparr>sg_buffers := [1 \<mapsto> four_bytes]\<rparr>"

lemma one_buffer_simps [simp]:
  "sg_buffers one_buffer = [1 \<mapsto> four_bytes]" "bd_size four_bytes = 4"
  "bd_fixed four_bytes = \<lparr>fb_buffer = Some [0, 0, 0, 0], fb_len = 4\<rparr>"
  by (simp_all add: one_buffer_def four_bytes_def)

lemma one_buffer_inv [simp]: "sg_inv one_buffer"
  by (auto simp: sg_inv_def one_buffer_def GLSharedGroup_new_def buffer_ok_def fb_inv_def)

theorem subUpdateBufferData_exact_witness:
  "(\<exists>g' b'. subUpdateBufferData one_buffer 1 1 2 [7, 8] = Some (g', GL_NO_ERROR)
      \<and> sg_buffers g' = [1 \<mapsto> b'] \<and> fb_bytes (bd_fixed b') = [0, 7, 8, 0])
   \<and> subUpdateBufferData one_buffer 1 3 2 [7, 8] = Some (one_buffer, GL_INVALID_VALUE)
   \<and> subUpdateBufferData one_buffer 1 2147483647 2 [7, 8] = None"
proof -
  have "if 0 \<le> off \<and> 0 \<le> (2::int) \<and> off + 2 \<le> bd_size four_bytes
    then \<exists>g' b'. subUpdateBufferData one_buffer 1 off 2 [7, 8] = Some (g', GL_NO_ERROR)
      \<and> sg_buffers g' = (sg_buffers one_buffer)(1 \<mapsto> b') \<and> bd_size b' = bd_size four_bytes
      \<and> fb_bytes (bd_fixed b') = take (nat off) [0, 0, 0, 0] @ [7, 8] @ drop (nat (off + 2)) [0, 0, 0, 0]
    else if 0 \<le> off \<and> 0 \<le> (2::int) \<and> 2147483648 \<le> off + 2
    then subUpdateBufferData one_buffer 1 off 2 [7, 8] = None
    else subUpdateBufferData one_buffer 1 off 2 [7, 8] = Some (one_buffer, GL_INVALID_VALUE)"
    if "int_range off" for off
    by (rule subUpdateBufferData_exact) (use that in \<open>simp_all add: int_range_def\<close>)
  from this [of 1] this [of 3] this [of 2147483647] show ?thesis by (auto simp: numeral_eq_Suc int_range_def)
qed

text \<open>
  The bounds check of a buffer update adds offset and size as \<open>int\<close>s. On every buffer, the
  update of one byte at offset \<open>2^31 - 1\<close> passes the check and writes outside the copy.
\<close>

theorem subUpdateBufferData_overflow:
  assumes "sg_inv g" and "sg_buffers g n = Some b" and "0 \<le> bd_size b"
    and "fb_len (bd_fixed b) < 2147483647"
  shows "subUpdateBufferData g n 2147483647 1 [x] = None"
proof -
  have "buffer_ok b" using assms(1,2) by (rule sg_invD)
  then show ?thesis
    using assms by (auto simp: subUpdateBufferData_def i32_def blit_def fb_bytes_def buffer_ok_def
        fb_inv_def split: option.splits)
qed

theorem subUpdateBufferData_overflow_witness:
  "subUpdateBufferData one_buffer 1 2147483647 1 [9] = None"
  by (rule subUpdateBufferData_overflow [of one_buffer 1 four_bytes]) simp_all

text \<open>
  \<open>getIndexForLocation\<close> is the uniform with the greatest base at or below the location,
  the first of them, or \<open>m_numIndexes\<close> when there is none.
\<close>

theorem getIndexForLocation_nearest:
  assumes "\<And>i. i < unat (pd_numIndexes p) \<Longrightarrow> int_range (loc - ix_base (pd_Indexes p ! i))"
  shows "(getIndexForLocation p loc = unat (pd_numIndexes p)
            \<and> (\<forall>i<unat (pd_numIndexes p). loc < ix_base (pd_Indexes p ! i)))
    \<or> (getIndexForLocation p loc < unat (pd_numIndexes p)
       \<and> ix_base (pd_Indexes p ! getIndexForLocation p loc) \<le> loc
       \<and> (\<forall>i<unat (pd_numIndexes p). ix_base (pd_Indexes p ! i) \<le> loc \<longrightarrow>
            ix_base (pd_Indexes p ! i) \<le> ix_base (pd_Indexes p ! getIndexForLocation p loc)
            \<and> (ix_base (pd_Indexes p ! i) = ix_base (pd_Indexes p ! getIndexForLocation p loc)
               \<longrightarrow> getIndexForLocation p loc \<le> i)))"
proof -
  let ?n = "unat (pd_numIndexes p)"
  obtain j d where r: "foldl (nearer p loc) (?n, - 1) [0..<?n] = (j, d)" by fastforce
  then have j: "getIndexForLocation p loc = j" by (simp add: getIndexForLocation_def)
  show ?thesis using nearer_foldl [OF assms r] unfolding j by auto
qed

definition two_uniforms :: "(int \<times> int \<times> GLenum) list" where
  "two_uniforms = [(0, 1, GL_SAMPLER_2D), (65536, 3, GL_FLOAT)]"

theorem getIndexForLocation_nearest_witness:
  "getIndexForLocation (linked (\<lambda>_. blank_index) two_uniforms) 65540 < 2"
proof -
  let ?p = "linked (\<lambda>_. blank_index) two_uniforms"
  have u: "uniforms_ok two_uniforms"
    by (simp add: two_uniforms_def uniforms_ok_def app_base_def int_range_def)
  have n: "unat (pd_numIndexes ?p) = 2" by (simp add: linked_eq [OF u]) (simp add: two_uniforms_def)
  have b: "ix_base (pd_Indexes ?p ! 0) = 0" "ix_base (pd_Indexes ?p ! Suc 0) = 65536"
    unfolding linked_eq [OF u] by (simp_all add: two_uniforms_def uniform_info_def)
  have "int_range (65540 - ix_base (pd_Indexes ?p ! i))" if "i < unat (pd_numIndexes ?p)" for i
    using that b n by (auto simp: less_Suc_eq numeral_2_eq_2 int_range_def)
  note c = getIndexForLocation_nearest [of ?p 65540, OF this, unfolded n]
  moreover have "\<not> (\<forall>i<2. 65540 < ix_base (pd_Indexes ?p ! i))" using b by force
  ultimately show ?thesis by blast
qed

lemma round_trip_laid_out:
  assumes "laid_out us q" and "0 \<le> k" and "k < fst (snd (us ! i))" and "0 \<le> w"
    and "own_location us i (fst (us ! i) + fst (snd (us ! i)) * w)"
  shows "case locationWARHostToApp_program q (fst (us ! i) + k * w) k of (p, app) \<Rightarrow>
    app = app_base us i + k
    \<and> locationWARAppToHost_program p app = fst (us ! i) + k * w
    \<and> (0 < k \<longrightarrow> (\<forall>m. 0 \<le> m \<longrightarrow> m < fst (snd (us ! i)) \<longrightarrow>
          locationWARAppToHost_program p (app_base us i + m) = fst (us ! i) + m * w))"
proof -
  let ?b = "fst (us ! i)" and ?n = "fst (snd (us ! i))"
  have i: "i < length us" and b: "0 \<le> ?b" using assms(5) by (auto simp: own_location_def)
  note lo = assms(1)
  have top: "?b + ?n * w < 2147483648" using assms(5) by (simp add: own_location_def)
  have le: "m * w \<le> ?n * w" if "m < ?n" for m
    using that assms(4) by (intro mult_right_mono) auto
  have own: "own_location us i (?b + k * w)"
    using assms(5) le [OF assms(3)] assms(2,4) mult_nonneg_nonneg [OF assms(2,4)]
    by (fastforce simp: own_location_def)
  obtain p app where r: "locationWARHostToApp_program q (?b + k * w) k = (p, app)"
    by fastforce
  note h = HostToApp_laid_out [OF lo own assms(2,3), unfolded r, simplified]
  have app: "app = app_base us i + k" and lp: "laid_out us p" by (rule h(1), rule h(2))
  have str: "ix_hostLocsPerElement (pd_Indexes p ! i) = w" if "0 < k"
    using h(3) [of i] that by simp
  have rng: "int_range (?b + m * w)" if "0 \<le> m" "m < ?n" for m
    using le [OF that(2)] top b mult_nonneg_nonneg [OF that(1) assms(4)] by (auto simp: int_range_def)
  have all: "locationWARAppToHost_program p (app_base us i + m) = ?b + m * w"
    if "0 < k" "0 \<le> m" "m < ?n" for m
    using AppToHost_laid_out [OF lp i that(2,3)] rng [OF that(2,3)] str [OF that(1)] by simp
  have "locationWARAppToHost_program p app = ?b + k * w"
  proof (cases "k = 0")
    case True
    have "int_range ?b" using rng [of 0] assms(2,3) by simp
    then show ?thesis using AppToHost_laid_out [OF lp i, of 0] assms(3) True app by simp
  next
    case False
    then show ?thesis using all [of k] assms(2,3) app by simp
  qed
  then show ?thesis using app all r by simp
qed

text \<open>
  C23. The translation of uniform locations round-trips. In a linked program whose locations
  need the workaround (at least two uniforms, every base a multiple of 65536), the location
  that the host reports for element \<open>k\<close> of uniform \<open>i\<close>, at a stride \<open>w\<close>, is shown to the
  application as the running number of that element, and translates back to itself; after a
  query with \<open>k > 0\<close> every element of the uniform does.
\<close>

theorem location_round_trip:
  assumes "uniforms_ok us" and "1 < length us" and "\<forall>u \<in> set us. fst u AND 0xffff = 0"
    and "0 \<le> k" and "k < fst (snd (us ! i))" and "0 \<le> w"
    and "own_location us i (fst (us ! i) + fst (snd (us ! i)) * w)"
  shows "case locationWARHostToApp_program (linked junk us) (fst (us ! i) + k * w) k of (p, app) \<Rightarrow>
    app = app_base us i + k
    \<and> locationWARAppToHost_program p app = fst (us ! i) + k * w
    \<and> (0 < k \<longrightarrow> (\<forall>m. 0 \<le> m \<longrightarrow> m < fst (snd (us ! i)) \<longrightarrow>
          locationWARAppToHost_program p (app_base us i + m) = fst (us ! i) + m * w))"
  by (rule round_trip_laid_out [OF linked_laid_out [OF assms(1-3)] assms(4-7)])

theorem location_round_trip_witness:
  "case locationWARHostToApp_program (linked (\<lambda>_. blank_index) two_uniforms) 65544 2 of (p, app) \<Rightarrow>
    app = 3 \<and> locationWARAppToHost_program p app = 65544"
proof -
  have "case locationWARHostToApp_program (linked (\<lambda>_. blank_index) two_uniforms)
      (fst (two_uniforms ! 1) + 2 * 4) 2 of (p, app) \<Rightarrow>
    app = app_base two_uniforms 1 + 2
    \<and> locationWARAppToHost_program p app = fst (two_uniforms ! 1) + 2 * 4
    \<and> (0 < (2::int) \<longrightarrow> (\<forall>m. 0 \<le> m \<longrightarrow> m < fst (snd (two_uniforms ! 1)) \<longrightarrow>
          locationWARAppToHost_program p (app_base two_uniforms 1 + m) = fst (two_uniforms ! 1) + m * 4))"
    by (rule location_round_trip)
      (simp_all add: two_uniforms_def uniforms_ok_def app_base_def int_range_def own_location_def
        less_Suc_eq)
  then show ?thesis by (simp add: two_uniforms_def app_base_def split: prod.splits)
qed

text \<open>
  \<open>setSamplerUniform\<close> never records a sampler's unit: it looks for uniforms of type
  \<open>GL_TEXTURE_2D\<close>, which is a texture target and no uniform type. In a linked program without
  such a uniform it changes nothing and answers \<open>false\<close>, for samplers too.
\<close>

theorem setSamplerUniform_ineffective:
  assumes "\<forall>i<unat (pd_numIndexes p). ix_type (pd_Indexes p ! i) \<noteq> GL_TEXTURE_2D"
  shows "setSamplerUniform_program p loc val = (p, None)"
proof -
  have "find (\<lambda>i. let e = i32 (loc - ix_appBase (pd_Indexes p ! i)) in
               0 \<le> e \<and> e < ix_size (pd_Indexes p ! i)
               \<and> ix_type (pd_Indexes p ! i) = GL_TEXTURE_2D) [0..<unat (pd_numIndexes p)] = None"
    using assms by (simp add: find_None_iff Let_def)
  then show ?thesis by (simp add: setSamplerUniform_program_def)
qed

theorem setSamplerUniform_ineffective_witness:
  "setSamplerUniform_program (linked (\<lambda>_. blank_index) two_uniforms) 0 5
   = (linked (\<lambda>_. blank_index) two_uniforms, None)"
  by (rule setSamplerUniform_ineffective)
    (simp add: linked_eq two_uniforms_def uniforms_ok_def app_base_def int_range_def less_Suc_eq
      uniform_info_def)

text \<open>
  C19. The reference counts of shaders, after any sequence of operations of the group - attaching
  and detaching, deleting a program with shaders attached, deleting a shader again, adding a name
  again included. A shader that has data has a positive count: the number of programs it is
  attached to, plus one for its name, plus one for each program that was deleted (or added again)
  with it attached, minus one for each deletion of the name, minus the programs that listed the
  name before it was added. As long as no shader is deleted again while it has data and no name is
  added while a program lists it (\<open>hi_clean\<close>), an attached shader always has data, and the data of
  a shader is freed exactly when its name has been deleted, no program lists it and none was
  deleted with it attached: a program that is deleted with the shader attached keeps the data
  forever.
\<close>

theorem shader_counts_exact:
  assumes "(shader_step fresh junk)\<^sup>*\<^sup>* (GLSharedGroup_new, no_history) (g, H)"
  shows "(\<forall>sh d. sg_shaders g sh = Some d \<longrightarrow> 0 < sh_refcount d \<and> sh_refcount d
       = int (card (attached_to g sh)) + 1 + int (hi_lost H sh) - int (hi_deleted H sh) - int (hi_stale H sh))
    \<and> (hi_clean H \<longrightarrow> (\<forall>n p sh. sg_programs g n = Some p \<longrightarrow> sh \<in> set (pd_shaders p) \<longrightarrow> sg_shaders g sh \<noteq> None)
       \<and> (\<forall>sh \<in> hi_named H. sg_shaders g sh = None \<longleftrightarrow> hi_deleted H sh = 1 \<and> attached_to g sh = {} \<and> hi_lost H sh = 0))"
proof -
  have c: "group_counts g H" using shader_steps_counts [OF assms] by simp
  have live: "0 < sh_refcount d \<and> sh_refcount d
       = int (card (attached_to g sh)) + 1 + int (hi_lost H sh) - int (hi_deleted H sh) - int (hi_stale H sh)"
    if "sg_shaders g sh = Some d" for sh d
    using counts_okD(2,3) [OF c, of sh "sh_refcount d"] that by (simp add: counts_of_def attached_to_listing)
  have at: "attached_to g sh = {}" if "hi_clean H" "sg_shaders g sh = None" for sh
    using counts_okD(6) [OF c that(1), of sh] that(2) by (simp add: counts_of_def attached_to_listing)
  have gone: "hi_deleted H sh = 1 \<and> hi_lost H sh = 0" if "hi_clean H" "sh \<in> hi_named H" "sg_shaders g sh = None" for sh
    using counts_okD(7) [OF c that(1,2)] that(3) by (simp add: counts_of_def)
  have dead: "sg_shaders g sh = None" if "hi_deleted H sh = 1" "attached_to g sh = {}" "hi_lost H sh = 0" for sh
    using live [of sh] that by (cases "sg_shaders g sh") auto
  have "sg_shaders g sh \<noteq> None" if "hi_clean H" "sg_programs g n = Some p" "sh \<in> set (pd_shaders p)" for n p sh
    using at [OF that(1), of sh] that(2,3) by (auto simp: attached_to_def)
  then show ?thesis using live at gone dead by blast
qed

theorem shader_counts_exact_witness:
  "sg_shaders (unrefShaderData (attachShader (addProgramData
      (fst (the (addShaderData True GLSharedGroup_new 3))) 7) 7 3) 3) 3 \<noteq> None"
proof -
  let ?s = "shader_step zero_alloc (\<lambda>_. blank_index)"
  let ?g1 = "fst (the (addShaderData True GLSharedGroup_new 3))"
  let ?g2 = "addProgramData ?g1 7"
  let ?g3 = "attachShader ?g2 7 3"
  let ?g4 = "unrefShaderData ?g3 3"
  let ?H1 = "note_op GLSharedGroup_new (AddShader 3) no_history"
  let ?H2 = "note_op ?g1 (AddProgram 7) ?H1"
  let ?H4 = "note_op ?g3 (UnrefShader 3) ?H2"
  have "?s (GLSharedGroup_new, no_history) (?g1, ?H1)"
    by (rule shader_step.intros) (simp add: addShaderData_def)
  moreover have "?s (?g1, ?H1) (?g2, ?H2)" by (rule shader_step.intros) simp
  moreover have "?s (?g2, ?H2) (?g3, ?H2)"
    using shader_step.intros [of zero_alloc "\<lambda>_. blank_index" ?g2 "Attach 7 3" ?g3 ?H2] by simp
  moreover have "?s (?g3, ?H2) (?g4, ?H4)" by (rule shader_step.intros) simp
  ultimately have run: "?s\<^sup>*\<^sup>* (GLSharedGroup_new, no_history) (?g4, ?H4)"
    by (meson converse_rtranclp_into_rtranclp r_into_rtranclp)
  have "\<exists>p. sg_programs ?g4 7 = Some p \<and> 3 \<in> set (pd_shaders p)"
    by (simp add: GLSharedGroup_new_def addShaderData_def addProgramData_def attachShader_def
        attachShader_program_def unrefShaderData_def unrefShaderDataLocked_def
        refShaderDataLocked_def ProgramData_new_def)
  moreover have "hi_clean ?H4"
    by (simp add: no_history_def attached_to_def GLSharedGroup_new_def)
  ultimately show ?thesis using shader_counts_exact [OF run] by blast
qed

text \<open>
  Two consequences of the code's bookkeeping. A second \<open>glDeleteShader\<close> of an attached
  shader frees its data while the program still lists it, and deleting a program leaves the
  count of its shaders as it was, so that their data is never freed.
\<close>

theorem shader_counts_broken:
  assumes "sg_programs g n = Some p" and "sh \<in> set (pd_shaders p)"
    and "sg_shaders g sh = Some d"
  shows "(sh_refcount d = 2 \<longrightarrow>
      sg_shaders (unrefShaderData (unrefShaderData g sh) sh) sh = None
      \<and> sg_programs (unrefShaderData (unrefShaderData g sh) sh) n = Some p)
    \<and> sg_shaders (deleteProgramData g n) sh = Some d"
  using assms by (simp add: unrefShaderData_def unrefShaderDataLocked_def deleteProgramData_def)

definition attached_once :: shared_group where
  "attached_once = GLSharedGroup_new
     \<lparr>sg_programs := [7 \<mapsto> ProgramData_new\<lparr>pd_shaders := [3]\<rparr>],
      sg_shaders := [3 \<mapsto> \<lparr>sh_samplerExternalNames = [], sh_refcount = 2\<rparr>]\<rparr>"

theorem shader_counts_broken_witness:
  "sg_shaders (unrefShaderData (unrefShaderData attached_once 3) 3) 3 = None"
  using shader_counts_broken [of attached_once 7 "ProgramData_new\<lparr>pd_shaders := [3]\<rparr>" 3
      "\<lparr>sh_samplerExternalNames = [], sh_refcount = 2\<rparr>"]
  by (simp add: attached_once_def)

end
