(* ===== verification/GLHost.thy ===== *)
theory GLHost
  imports GLClientState GLSharedGroup
begin

text \<open>
  What crosses the wire in OpenGL ES 1 and 2: the calls that the encoders make to the host
  renderer (the functions \<open>m_gl..._enc\<close> and the others that \<open>gl_enc.cpp\<close> and \<open>gl2_enc.cpp\<close>
  provide), the answers of the host as a parameter, and the part of the host's GL state that the
  encoders have to keep in step with their own: 2D texture bindings, the enable of the 2D target
  of each unit, enabled arrays and buffer bindings.
\<close>

section \<open>Calls\<close>

text \<open>
  A pointer that the encoder only passes on is an address; data that the call sends and the
  encoder has looked at is a list of bytes.
\<close>

datatype uniform_call =
    U1f int GLfloat | U2f int GLfloat GLfloat | U3f int GLfloat GLfloat GLfloat
  | U4f int GLfloat GLfloat GLfloat GLfloat
  | U1i int int | U2i int int int | U3i int int int int | U4i int int int int int
  | U1fv int int addr | U2fv int int addr | U3fv int int addr | U4fv int int addr
  | U1iv int int addr | U2iv int int addr | U3iv int int addr | U4iv int int addr
  | UMatrix2fv int int bool addr | UMatrix3fv int int bool addr | UMatrix4fv int int bool addr

type_synonym GLfixed = int

datatype texture_call =
    GetTexParameterfv GLenum | GetTexParameteriv GLenum
  | TexParameterf GLenum GLfloat | TexParameterfv GLenum "GLfloat list"
  | TexParameteri GLenum int | TexParameteriv GLenum "int list"
  | TexImage2D int int int int int GLenum GLenum addr
  | TexSubImage2D int int int int int GLenum GLenum addr
  | CompressedTexImage2D int GLenum int int int int addr
  | CompressedTexSubImage2D int int int int int GLenum int addr
  | CopyTexImage2D int GLenum int int int int int
  | CopyTexSubImage2D int int int int int int int
  | GenerateMipmap
  | GetTexParameterxv GLenum | TexParameterx GLenum GLfixed | TexParameterxv GLenum "GLfixed list"

datatype program_call =
    ShaderString GLuint "char option list" int
  | LinkProgram GLuint
  | GetProgramiv GLuint GLenum
  | GetActiveUniform GLuint int int
  | GetUniformLocation GLuint string
  | DeleteProgram GLuint
  | GetUniformiv GLuint int
  | GetUniformfv GLuint int
  | CreateProgram
  | CreateShader GLenum
  | DeleteShader GLuint
  | AttachShader GLuint GLuint
  | DetachShader GLuint GLuint
  | UseProgram GLuint

datatype query_call =
    GetError
  | GetIntegerv GLenum
  | GetFloatv GLenum
  | GetBooleanv GLenum
  | GetCompressedTextureFormats int
  | GetVertexAttribiv GLuint GLenum
  | GetVertexAttribfv GLuint GLenum

text \<open>
  The calls of OpenGL ES 1 alone. An array is told by its kind, with the number of components
  where it has one, and the unit where the call sends it.
\<close>

datatype array_kind =
    Vertex_array int | Normal_array | Color_array int | Point_size_array
  | Texcoord_data nat int | Texcoord_offset int | Weight_array int | Matrix_index_array int

datatype gl1_call =
    Enable GLenum | Disable GLenum | IsEnabled GLenum
  | ClientActiveTexture GLenum
  | EnableClientState GLenum | DisableClientState GLenum
  | PointerData array_kind GLenum int addr u32
  | PointerOffset array_kind GLenum int u32
  | GetFixedv GLenum

text \<open>The texture calls all have a target, which \<open>H_texture\<close> carries.\<close>

datatype host_call =
    H_glFlush
  | H_stream_flush
  | H_glFinishRoundTrip
  | H_glPixelStorei GLenum int
  | H_glBindBuffer GLenum GLuint
  | H_glBufferData GLenum int "byte list option" GLenum
  | H_glBufferSubData GLenum int int "byte list"
  | H_glDeleteBuffers "GLuint list"
  | H_glEnableVertexAttribArray nat
  | H_glDisableVertexAttribArray nat
  | H_glVertexAttribPointerData nat int GLenum bool int addr u32
  | H_glVertexAttribPointerOffset nat int GLenum bool int u32
  | H_glDrawArrays GLenum int int
  | H_glDrawElementsOffset GLenum int GLenum u32
  | H_glDrawElementsData GLenum int GLenum "byte list" u32
  | H_glActiveTexture GLenum
  | H_glBindTexture GLenum GLuint
  | H_glDeleteTextures "GLuint list"
  | H_query query_call
  | H_program program_call
  | H_uniform uniform_call
  | H_texture GLenum texture_call
  | H_gl1 gl1_call

text \<open>
  The answers: each function maps the calls so far, the last one included, to what the host
  returns or stores for the last one.
\<close>

record host =
  h_int :: "host_call list \<Rightarrow> int"
  h_word :: "host_call list \<Rightarrow> u32"
  h_ints :: "host_call list \<Rightarrow> int list"
  h_floats :: "host_call list \<Rightarrow> GLfloat list"
  h_bytes :: "host_call list \<Rightarrow> byte list"
  h_uniform :: "host_call list \<Rightarrow> int \<times> GLenum \<times> string"

text \<open>The floating-point operations of the target machine that the encoder uses.\<close>

record float_ops =
  f_of_int :: "int \<Rightarrow> GLfloat"
  f_less :: "GLfloat \<Rightarrow> GLfloat \<Rightarrow> bool"
  f_to_enum :: "GLfloat \<Rightarrow> GLenum"

section \<open>The host's state\<close>

text \<open>
  \<open>hs_tex2d\<close> are the units with the 2D target enabled, \<open>hs_client_unit\<close> the client's active
  unit. Arrays are numbered: the vertex attributes of OpenGL ES 2, or the fixed-function arrays
  of OpenGL ES 1 in the order that the guest has them; a context has one sort only.
\<close>

record host_state =
  hs_unit :: nat
  hs_2d :: "nat \<Rightarrow> GLuint"
  hs_enabled :: "nat set"
  hs_array :: GLuint
  hs_element :: GLuint
  hs_tex2d :: "nat set"
  hs_client_unit :: nat

definition host_init :: host_state where
  "host_init = \<lparr>hs_unit = 0, hs_2d = (\<lambda>_. 0), hs_enabled = {}, hs_array = 0, hs_element = 0,
     hs_tex2d = {}, hs_client_unit = 0\<rparr>"

definition array_number :: "GLenum \<Rightarrow> nat \<Rightarrow> nat option" where
  "array_number c unit =
     (if c = GL_VERTEX_ARRAY then Some 0
      else if c = GL_NORMAL_ARRAY then Some 1
      else if c = GL_COLOR_ARRAY then Some 2
      else if c = GL_POINT_SIZE_ARRAY_OES then Some 3
      else if c = GL_TEXTURE_COORD_ARRAY then Some (4 + unit)
      else if c = GL_MATRIX_INDEX_ARRAY_OES then Some 12
      else if c = GL_WEIGHT_ARRAY_OES then Some 13
      else None)"

text \<open>
  The effect of a call on that state, as the OpenGL ES specifications have it: an invalid
  texture unit, target or array leaves the state alone, and deleting objects unbinds them. The
  host has the eight units of texture coordinates that the guest has slots for.
\<close>

definition gl1_step :: "host_state \<Rightarrow> gl1_call \<Rightarrow> host_state" where
  "gl1_step h c = (case c of
     Enable cap \<Rightarrow> if cap = GL_TEXTURE_2D then h\<lparr>hs_tex2d := insert (hs_unit h) (hs_tex2d h)\<rparr> else h
   | Disable cap \<Rightarrow> if cap = GL_TEXTURE_2D then h\<lparr>hs_tex2d := hs_tex2d h - {hs_unit h}\<rparr> else h
   | ClientActiveTexture t \<Rightarrow>
       if t - GL_TEXTURE0 < 8 then h\<lparr>hs_client_unit := unat (t - GL_TEXTURE0)\<rparr> else h
   | EnableClientState a \<Rightarrow>
       (case array_number a (hs_client_unit h) of
          None \<Rightarrow> h | Some i \<Rightarrow> h\<lparr>hs_enabled := insert i (hs_enabled h)\<rparr>)
   | DisableClientState a \<Rightarrow>
       (case array_number a (hs_client_unit h) of
          None \<Rightarrow> h | Some i \<Rightarrow> h\<lparr>hs_enabled := hs_enabled h - {i}\<rparr>)
   | _ \<Rightarrow> h)"

definition host_step :: "host_state \<Rightarrow> host_call \<Rightarrow> host_state" where
  "host_step h c = (case c of
     H_glActiveTexture t \<Rightarrow>
       if t - GL_TEXTURE0 < of_nat MAX_TEXTURE_UNITS then h\<lparr>hs_unit := unat (t - GL_TEXTURE0)\<rparr> else h
   | H_glBindTexture target t \<Rightarrow>
       if target = GL_TEXTURE_2D then h\<lparr>hs_2d := (hs_2d h)(hs_unit h := t)\<rparr> else h
   | H_glDeleteTextures ts \<Rightarrow>
       h\<lparr>hs_2d := (\<lambda>u. if hs_2d h u \<in> set ts then 0 else hs_2d h u)\<rparr>
   | H_glEnableVertexAttribArray i \<Rightarrow> h\<lparr>hs_enabled := insert i (hs_enabled h)\<rparr>
   | H_glDisableVertexAttribArray i \<Rightarrow> h\<lparr>hs_enabled := hs_enabled h - {i}\<rparr>
   | H_glBindBuffer target b \<Rightarrow>
       if target = GL_ARRAY_BUFFER then h\<lparr>hs_array := b\<rparr>
       else if target = GL_ELEMENT_ARRAY_BUFFER then h\<lparr>hs_element := b\<rparr> else h
   | H_glDeleteBuffers bs \<Rightarrow>
       h\<lparr>hs_array := (if hs_array h \<in> set bs then 0 else hs_array h),
         hs_element := (if hs_element h \<in> set bs then 0 else hs_element h)\<rparr>
   | H_gl1 g \<Rightarrow> gl1_step h g
   | _ \<Rightarrow> h)"

definition host_run :: "host_call list \<Rightarrow> host_state" where
  "host_run cs = foldl host_step host_init cs"

lemma host_run_Nil [simp]: "host_run [] = host_init"
  by (simp add: host_run_def)

lemma host_run_snoc [simp]: "host_run (cs @ [c]) = host_step (host_run cs) c"
  by (simp add: host_run_def)

lemma host_run_append: "host_run (cs @ ds) = foldl host_step (host_run cs) ds"
  by (simp add: host_run_def)

end
