(* ===== verification/GL2Encoder.thy ===== *)
theory GL2Encoder
  imports GLHost
begin

text \<open>
  \<open>common/opengl/system/GLESv2_enc/GL2Encoder.cpp\<close>: the OpenGL ES 2 entry points of the guest.
  Every function takes the encoder, which holds the client state of the current context, the
  shared objects, the pending error and the calls made to the host so far, and returns it
  changed. \<open>H\<close> gives the host's answers, \<open>F\<close> the floating-point operations.
\<close>

section \<open>The encoder\<close>

record encoder =
  e_state :: client_state
  e_shared :: shared_group
  e_error :: GLenum
  e_formats :: "int list option"
  e_num_formats :: int
  e_fixed :: fixed_buffer
  e_calls :: "host_call list"

definition GL2Encoder_new :: "client_state \<Rightarrow> shared_group \<Rightarrow> encoder" where
  "GL2Encoder_new s g = \<lparr>e_state = s, e_shared = g, e_error = GL_NO_ERROR, e_formats = None,
     e_num_formats = 0, e_fixed = \<lparr>fb_buffer = None, fb_len = 0\<rparr>, e_calls = []\<rparr>"

definition setError :: "encoder \<Rightarrow> GLenum \<Rightarrow> encoder" where
  "setError e err = e\<lparr>e_error := err\<rparr>"

definition emit :: "encoder \<Rightarrow> host_call \<Rightarrow> encoder" where
  "emit e c = e\<lparr>e_calls := e_calls e @ [c]\<rparr>"

section \<open>Errors, state queries and pixel storage\<close>

definition s_glGetError :: "host \<Rightarrow> encoder \<Rightarrow> encoder \<times> GLenum" where
  "s_glGetError H e =
     (let err = e_error e in
      if err \<noteq> GL_NO_ERROR then (setError e GL_NO_ERROR, err)
      else let e1 = emit e (H_query GetError) in (e1, h_word H (e_calls e1)))"

definition s_glFlush :: "encoder \<Rightarrow> encoder" where
  "s_glFlush e = emit (emit e H_glFlush) H_stream_flush"

definition s_glFinish :: "encoder \<Rightarrow> encoder" where
  "s_glFinish e = emit e H_glFinishRoundTrip"

definition s_glGetString :: "GLenum \<Rightarrow> string" where
  "s_glGetString name =
     (if name = GL_VENDOR then ''Android''
      else if name = GL_RENDERER then ''Android HW-GLES 2.0''
      else if name = GL_VERSION then ''OpenGL ES 2.0''
      else [])"

text \<open>The result of \<open>setPixelStore\<close> is dropped.\<close>

definition s_glPixelStorei :: "encoder \<Rightarrow> GLenum \<Rightarrow> int \<Rightarrow> encoder" where
  "s_glPixelStorei e param value =
     (let e1 = emit e (H_glPixelStorei param value)
      in e1\<lparr>e_state := fst (setPixelStore (e_state e1) param value)\<rparr>)"

text \<open>
  The list of compressed formats is fetched once; asking for their number goes through
  \<open>glGetIntegerv\<close> to the host. \<open>new GLint[n]\<close> is filled by the host's answer.
\<close>

definition getCompressedTextureFormats :: "host \<Rightarrow> encoder \<Rightarrow> encoder \<times> int list option" where
  "getCompressedTextureFormats H e =
     (case e_formats e of
        Some fs \<Rightarrow> (e, Some fs)
      | None \<Rightarrow>
          (let e1 = emit e (H_query (GetIntegerv GL_NUM_COMPRESSED_TEXTURE_FORMATS));
               n = h_int H (e_calls e1);
               e2 = e1\<lparr>e_num_formats := n\<rparr>
           in if 0 < n then
                let e3 = emit e2 (H_query (GetCompressedTextureFormats n));
                    fs = take (nat n) (h_ints H (e_calls e3))
                in (e3\<lparr>e_formats := Some fs\<rparr>, Some fs)
              else (e2, None)))"

text \<open>
  The three queries. The result is what is stored at the caller's pointer, nothing being the
  empty list. The default branch asks the client state first; \<open>None\<close> is a NULL dereference there.
\<close>

definition head_map :: "('a \<Rightarrow> 'a) \<Rightarrow> 'a list \<Rightarrow> 'a list" where
  "head_map f xs = (case xs of [] \<Rightarrow> [] | x # r \<Rightarrow> f x # r)"

definition is_max_units :: "GLenum \<Rightarrow> bool" where
  "is_max_units param \<longleftrightarrow> param = GL_MAX_COMBINED_TEXTURE_IMAGE_UNITS
     \<or> param = GL_MAX_VERTEX_TEXTURE_IMAGE_UNITS \<or> param = GL_MAX_TEXTURE_IMAGE_UNITS"

definition s_glGetIntegerv :: "host \<Rightarrow> encoder \<Rightarrow> GLenum \<Rightarrow> (encoder \<times> int list) ub" where
  "s_glGetIntegerv H e param =
     (if param = GL_NUM_SHADER_BINARY_FORMATS then Some (e, [0])
      else if param = GL_SHADER_BINARY_FORMATS then Some (e, [])
      else if param = GL_COMPRESSED_TEXTURE_FORMATS then
        (case getCompressedTextureFormats H e of (e1, fs) \<Rightarrow>
           Some (e1, if 0 < e_num_formats e1 then (case fs of None \<Rightarrow> [] | Some l \<Rightarrow> l) else []))
      else if is_max_units param then
        (let e1 = emit e (H_query (GetIntegerv param))
         in Some (e1, head_map (\<lambda>v. min v (int MAX_TEXTURE_UNITS)) (h_ints H (e_calls e1))))
      else if param = GL_TEXTURE_BINDING_2D then
        Some (e, [sint (getBoundTexture (e_state e) GL_TEXTURE_2D)])
      else if param = GL_TEXTURE_BINDING_EXTERNAL_OES then
        Some (e, [sint (getBoundTexture (e_state e) GL_TEXTURE_EXTERNAL_OES)])
      else (case getClientStateParameter (e_state e) param of
              None \<Rightarrow> None
            | Some (True, v) \<Rightarrow> Some (e, case v of None \<Rightarrow> [] | Some x \<Rightarrow> [i32 x])
            | Some (False, _) \<Rightarrow>
                (let e1 = emit e (H_query (GetIntegerv param)) in Some (e1, h_ints H (e_calls e1)))))"

definition s_glGetFloatv ::
  "float_ops \<Rightarrow> host \<Rightarrow> encoder \<Rightarrow> GLenum \<Rightarrow> (encoder \<times> GLfloat list) ub" where
  "s_glGetFloatv F H e param =
     (if param = GL_NUM_SHADER_BINARY_FORMATS then Some (e, [f_of_int F 0])
      else if param = GL_SHADER_BINARY_FORMATS then Some (e, [])
      else if param = GL_COMPRESSED_TEXTURE_FORMATS then
        (case getCompressedTextureFormats H e of (e1, fs) \<Rightarrow>
           Some (e1, if 0 < e_num_formats e1
                     then (case fs of None \<Rightarrow> [] | Some l \<Rightarrow> map (f_of_int F) l) else []))
      else if is_max_units param then
        (let e1 = emit e (H_query (GetFloatv param)); top = f_of_int F (int MAX_TEXTURE_UNITS)
         in Some (e1, head_map (\<lambda>v. if f_less F v top then v else top) (h_floats H (e_calls e1))))
      else if param = GL_TEXTURE_BINDING_2D then
        Some (e, [f_of_int F (uint (getBoundTexture (e_state e) GL_TEXTURE_2D))])
      else if param = GL_TEXTURE_BINDING_EXTERNAL_OES then
        Some (e, [f_of_int F (uint (getBoundTexture (e_state e) GL_TEXTURE_EXTERNAL_OES))])
      else (case getClientStateParameter (e_state e) param of
              None \<Rightarrow> None
            | Some (True, v) \<Rightarrow> Some (e, case v of None \<Rightarrow> [] | Some x \<Rightarrow> [f_of_int F x])
            | Some (False, _) \<Rightarrow>
                (let e1 = emit e (H_query (GetFloatv param)) in Some (e1, h_floats H (e_calls e1)))))"

definition truth :: "bool \<Rightarrow> byte" where
  "truth b = (if b then 1 else 0)"

definition s_glGetBooleanv :: "host \<Rightarrow> encoder \<Rightarrow> GLenum \<Rightarrow> (encoder \<times> byte list) ub" where
  "s_glGetBooleanv H e param =
     (if param = GL_NUM_SHADER_BINARY_FORMATS then Some (e, [truth False])
      else if param = GL_SHADER_BINARY_FORMATS then Some (e, [])
      else if param = GL_COMPRESSED_TEXTURE_FORMATS then
        (case getCompressedTextureFormats H e of (e1, fs) \<Rightarrow>
           Some (e1, if 0 < e_num_formats e1
                     then (case fs of None \<Rightarrow> [] | Some l \<Rightarrow> map (\<lambda>x. truth (x \<noteq> 0)) l) else []))
      else if param = GL_TEXTURE_BINDING_2D then
        Some (e, [truth (getBoundTexture (e_state e) GL_TEXTURE_2D \<noteq> 0)])
      else if param = GL_TEXTURE_BINDING_EXTERNAL_OES then
        Some (e, [truth (getBoundTexture (e_state e) GL_TEXTURE_EXTERNAL_OES \<noteq> 0)])
      else (case getClientStateParameter (e_state e) param of
              None \<Rightarrow> None
            | Some (True, v) \<Rightarrow> Some (e, case v of None \<Rightarrow> [] | Some x \<Rightarrow> [word_of_int x])
            | Some (False, _) \<Rightarrow>
                (let e1 = emit e (H_query (GetBooleanv param)) in Some (e1, h_bytes H (e_calls e1)))))"

section \<open>Buffers\<close>

definition s_glBindBuffer :: "encoder \<Rightarrow> GLenum \<Rightarrow> GLuint \<Rightarrow> encoder" where
  "s_glBindBuffer e target bid =
     emit (e\<lparr>e_state := fst (bindBuffer (e_state e) target bid)\<rparr>) (H_glBindBuffer target bid)"

text \<open>\<open>getBuffer\<close> returns an \<open>int\<close>, \<open>-1\<close> for a bad target, which is stored in a \<open>GLuint\<close>.\<close>

definition s_glBufferData ::
  "allocator \<Rightarrow> encoder \<Rightarrow> GLenum \<Rightarrow> int \<Rightarrow> byte list option \<Rightarrow> GLenum \<Rightarrow> encoder ub" where
  "s_glBufferData fresh e target sz data usage =
     (let bufferId = word_of_int (getBuffer (e_state e) target) in
      if bufferId = 0 then Some (setError e GL_INVALID_OPERATION)
      else if sz < 0 then Some (setError e GL_INVALID_VALUE)
      else case updateBufferData fresh (e_shared e) bufferId sz data of
             None \<Rightarrow> None
           | Some g \<Rightarrow> Some (emit (e\<lparr>e_shared := g\<rparr>) (H_glBufferData target sz data usage)))"

definition s_glBufferSubData ::
  "encoder \<Rightarrow> GLenum \<Rightarrow> int \<Rightarrow> int \<Rightarrow> byte list \<Rightarrow> encoder ub" where
  "s_glBufferSubData e target offset sz data =
     (let bufferId = word_of_int (getBuffer (e_state e) target) in
      if bufferId = 0 then Some (setError e GL_INVALID_OPERATION)
      else case subUpdateBufferData (e_shared e) bufferId offset sz data of
             None \<Rightarrow> None
           | Some (g, res) \<Rightarrow>
               if res \<noteq> 0 then Some (setError (e\<lparr>e_shared := g\<rparr>) res)
               else Some (emit (e\<lparr>e_shared := g\<rparr>) (H_glBufferSubData target offset sz data)))"

text \<open>\<open>buffers\<close> are the names at the pointer, at least \<open>n\<close> of them.\<close>

definition delete_buffer :: "encoder \<Rightarrow> GLuint \<Rightarrow> encoder" where
  "delete_buffer e b = emit (e\<lparr>e_shared := deleteBufferData (e_shared e) b\<rparr>) (H_glDeleteBuffers [b])"

definition s_glDeleteBuffers :: "encoder \<Rightarrow> int \<Rightarrow> GLuint list \<Rightarrow> encoder" where
  "s_glDeleteBuffers e n buffers =
     (if n < 0 then setError e GL_INVALID_VALUE
      else foldl delete_buffer e (take (nat n) buffers))"

section \<open>Vertex arrays and drawing\<close>

definition s_glVertexAttribPointer ::
  "encoder \<Rightarrow> GLuint \<Rightarrow> int \<Rightarrow> GLenum \<Rightarrow> byte \<Rightarrow> int \<Rightarrow> addr \<Rightarrow> encoder" where
  "s_glVertexAttribPointer e indx sz type normalized stride ptr =
     e\<lparr>e_state := setState (e_state e) (sint indx) sz type normalized stride ptr\<rparr>"

definition s_glEnableVertexAttribArray :: "encoder \<Rightarrow> GLuint \<Rightarrow> encoder" where
  "s_glEnableVertexAttribArray e index = e\<lparr>e_state := enable (e_state e) (sint index) 1\<rparr>"

definition s_glDisableVertexAttribArray :: "encoder \<Rightarrow> GLuint \<Rightarrow> encoder" where
  "s_glDisableVertexAttribArray e index = e\<lparr>e_state := enable (e_state e) (sint index) 0\<rparr>"

definition s_glGetVertexAttribiv ::
  "host \<Rightarrow> encoder \<Rightarrow> GLuint \<Rightarrow> GLenum \<Rightarrow> encoder \<times> int list" where
  "s_glGetVertexAttribiv H e index pname =
     (case getVertexAttribParameter (e_state e) index pname of
        (True, v) \<Rightarrow> (e, case v of None \<Rightarrow> [] | Some x \<Rightarrow> [i32 x])
      | (False, _) \<Rightarrow> (let e1 = emit e (H_query (GetVertexAttribiv index pname))
                     in (e1, h_ints H (e_calls e1))))"

definition s_glGetVertexAttribfv ::
  "float_ops \<Rightarrow> host \<Rightarrow> encoder \<Rightarrow> GLuint \<Rightarrow> GLenum \<Rightarrow> encoder \<times> GLfloat list" where
  "s_glGetVertexAttribfv F H e index pname =
     (case getVertexAttribParameter (e_state e) index pname of
        (True, v) \<Rightarrow> (e, case v of None \<Rightarrow> [] | Some x \<Rightarrow> [f_of_int F x])
      | (False, _) \<Rightarrow> (let e1 = emit e (H_query (GetVertexAttribfv index pname))
                     in (e1, h_floats H (e_calls e1))))"

definition s_glGetVertexAttribPointerv :: "encoder \<Rightarrow> GLuint \<Rightarrow> addr option" where
  "s_glGetVertexAttribPointerv e index = map_option va_data (getState (e_state e) (sint index))"

text \<open>One round of the loop of \<open>sendVertexAttributes\<close>.\<close>

definition send_attribute :: "int \<Rightarrow> int \<Rightarrow> encoder \<Rightarrow> nat \<Rightarrow> encoder" where
  "send_attribute first count e i =
     (case getStateAndEnableDirty (e_state e) (int i) of (s, r) \<Rightarrow>
        let e1 = e\<lparr>e_state := s\<rparr> in
        case r of
          None \<Rightarrow> e1
        | Some (v, dirty) \<Rightarrow>
            if \<not> dirty \<and> va_enabled v = 0 then e1
            else if va_enabled v \<noteq> 0 then
              (let e2 = emit e1 (H_glEnableVertexAttribArray i);
                   datalen = va_elementSize v * word_of_int count;
                   stride = (if va_stride v = 0 then sint (va_elementSize v) else va_stride v);
                   firstIndex = i32 (stride * first)
               in if va_bufferObject v = 0
                  then emit e2 (H_glVertexAttribPointerData i (va_size v) (va_type v)
                         (va_normalized v) (va_stride v) (va_data v + word_of_int firstIndex) datalen)
                  else emit (emit (emit e2 (H_glBindBuffer GL_ARRAY_BUFFER (va_bufferObject v)))
                         (H_glVertexAttribPointerOffset i (va_size v) (va_type v) (va_normalized v)
                            (va_stride v) (va_data v + word_of_int firstIndex)))
                         (H_glBindBuffer GL_ARRAY_BUFFER (cs_currentArrayVbo (e_state e2))))
            else emit e1 (H_glDisableVertexAttribArray i))"

definition sendVertexAttributes :: "encoder \<Rightarrow> int \<Rightarrow> int \<Rightarrow> encoder" where
  "sendVertexAttributes e first count =
     foldl (send_attribute first count) e [0..<nat (cs_nLocations (e_state e))]"

definition s_glDrawArrays :: "encoder \<Rightarrow> GLenum \<Rightarrow> int \<Rightarrow> int \<Rightarrow> encoder" where
  "s_glDrawArrays e mode first count =
     emit (sendVertexAttributes e first count) (H_glDrawArrays mode 0 count)"

text \<open>The arrays that a draw reads from client memory and from buffer objects.\<close>

definition has_immediate_arrays :: "client_state \<Rightarrow> bool" where
  "has_immediate_arrays s \<longleftrightarrow>
     (\<exists>v \<in> set (take (nat (cs_nLocations s)) (cs_states s)). va_enabled v \<noteq> 0 \<and> va_bufferObject v = 0)"

definition has_indirect_arrays :: "client_state \<Rightarrow> bool" where
  "has_indirect_arrays s \<longleftrightarrow>
     (\<exists>v \<in> set (take (nat (cs_nLocations s)) (cs_states s)). va_enabled v \<noteq> 0 \<and> va_bufferObject v \<noteq> 0)"

text \<open>
  Where the indices come from: \<open>n\<close> bytes of client memory, or of the copy of the element
  buffer, where a read behind its end is undefined.
\<close>

definition client_indices :: "memory \<Rightarrow> addr \<Rightarrow> nat \<Rightarrow> byte list ub" where
  "client_indices m p n = Some (read_mem m p n)"

definition buffer_indices :: "buffer_data \<Rightarrow> addr \<Rightarrow> nat \<Rightarrow> byte list ub" where
  "buffer_indices buf offset n =
     (let bs = fb_bytes (bd_fixed buf) in
      if n = 0 then Some []
      else if unat offset + n \<le> length bs then Some (take n (drop (unat offset) bs)) else None)"

fun shorts_of :: "byte list \<Rightarrow> 16 word list" where
  "shorts_of (a # b # bs) = (ucast a OR push_bit 8 (ucast b)) # shorts_of bs"
| "shorts_of _ = []"

fun bytes_of :: "16 word list \<Rightarrow> byte list" where
  "bytes_of [] = []"
| "bytes_of (w # ws) = ucast w # ucast (drop_bit 8 w) # bytes_of ws"

text \<open>
  The indices, shifted down by the smallest one into the encoder's own buffer unless that is
  0 (then the caller's are sent as they are), with the smallest and the largest.
\<close>

definition store_indices ::
  "allocator \<Rightarrow> encoder \<Rightarrow> size_t \<Rightarrow> byte list \<Rightarrow> (encoder \<times> byte list) ub" where
  "store_indices fresh e sz bs =
     (let fb = fb_alloc fresh (e_fixed e) (unat sz) in
      case blit (fb_bytes fb) 0 bs of
        None \<Rightarrow> None
      | Some mem \<Rightarrow> Some (e\<lparr>e_fixed := fb\<lparr>fb_buffer := map_option (\<lambda>_. mem) (fb_buffer fb)\<rparr>\<rparr>, bs))"

definition adjust_indices ::
  "allocator \<Rightarrow> encoder \<Rightarrow> (nat \<Rightarrow> byte list ub) \<Rightarrow> int \<Rightarrow> GLenum \<Rightarrow> (encoder \<times> byte list \<times> int \<times> int) ub"
where
  "adjust_indices fresh e rd count type =
     (let size = glSizeof type * word_of_int count in
      if type = GL_BYTE \<or> type = GL_UNSIGNED_BYTE then
        (case rd (nat count) of None \<Rightarrow> None
         | Some bs \<Rightarrow> (let (mn, mx) = minmax bs in
             if mn = 0 then Some (e, bs, mn, mx)
             else map_option (\<lambda>(e1, b). (e1, b, mn, mx))
                    (store_indices fresh e size (shiftIndices bs (- mn)))))
      else if type = GL_SHORT \<or> type = GL_UNSIGNED_SHORT then
        (case rd (2 * nat count) of None \<Rightarrow> None
         | Some bs \<Rightarrow> (let ws = shorts_of bs; (mn, mx) = minmax ws in
             if mn = 0 then Some (e, bs, mn, mx)
             else map_option (\<lambda>(e1, b). (e1, b, mn, mx))
                    (store_indices fresh e size (bytes_of (shiftIndices ws (- mn))))))
      else map_option (\<lambda>bs. (e, bs, 0, 0)) (rd (unat size)))"

definition s_glDrawElements ::
  "allocator \<Rightarrow> memory \<Rightarrow> encoder \<Rightarrow> GLenum \<Rightarrow> int \<Rightarrow> GLenum \<Rightarrow> addr \<Rightarrow> encoder ub" where
  "s_glDrawElements fresh m e mode count type indices =
     (let s = e_state e; vbo = cs_currentIndexVbo s in
      if count < 0 then Some (setError e GL_INVALID_VALUE)
      else if \<not> has_immediate_arrays s \<and> \<not> has_indirect_arrays s then Some e
      else if vbo \<noteq> 0 \<and> \<not> has_immediate_arrays s then
        (let e1 = sendVertexAttributes e 0 count;
             e2 = emit e1 (H_glBindBuffer GL_ELEMENT_ARRAY_BUFFER (cs_currentIndexVbo (e_state e1)))
         in Some (emit e2 (H_glDrawElementsOffset mode count type indices)))
      else
        (let source =
           (if vbo \<noteq> 0 then
              (case getBufferData (e_shared e) vbo of None \<Rightarrow> None
               | Some buf \<Rightarrow> Some (emit e (H_glBindBuffer GL_ELEMENT_ARRAY_BUFFER 0),
                                 buffer_indices buf indices))
            else Some (e, client_indices m indices))
         in case source of None \<Rightarrow> None
          | Some (e1, rd) \<Rightarrow>
              (case adjust_indices fresh e1 rd count type of None \<Rightarrow> None
               | Some (e2, adjusted, mn, mx) \<Rightarrow>
                   Some (emit (sendVertexAttributes e2 mn (i32 (mx - mn + 1)))
                     (H_glDrawElementsData mode count type adjusted
                        (word_of_int count * glSizeof type))))))"

section \<open>Shader sources\<close>

definition is_space :: "char \<Rightarrow> bool" where
  "is_space c \<longleftrightarrow> c \<in> {CHR '' '', CHR 0x09, CHR 0x0A, CHR 0x0B, CHR 0x0C, CHR 0x0D}"

definition is_alpha :: "char \<Rightarrow> bool" where
  "is_alpha c \<longleftrightarrow> (65 \<le> (of_char c :: nat) \<and> (of_char c :: nat) \<le> 90)
     \<or> (97 \<le> (of_char c :: nat) \<and> (of_char c :: nat) \<le> 122)"

definition is_digit :: "char \<Rightarrow> bool" where
  "is_digit c \<longleftrightarrow> 48 \<le> (of_char c :: nat) \<and> (of_char c :: nat) \<le> 57"

definition is_name :: "char \<Rightarrow> bool" where
  "is_name c \<longleftrightarrow> is_alpha c \<or> is_digit c \<or> c = CHR ''_''"

text \<open>\<open>strstr\<close>: the offset of the first occurrence of \<open>pat\<close>.\<close>

fun strstr :: "string \<Rightarrow> string \<Rightarrow> nat option" where
  "strstr [] pat = (if pat = [] then Some 0 else None)"
| "strstr (c # cs) pat =
     (if take (length pat) (c # cs) = pat then Some 0 else map_option Suc (strstr cs pat))"

abbreviation STR_HASH_EXTENSION :: string where
  "STR_HASH_EXTENSION \<equiv> ''#extension''"

abbreviation STR_GL_OES_EGL_IMAGE_EXTERNAL :: string where
  "STR_GL_OES_EGL_IMAGE_EXTERNAL \<equiv> ''GL_OES_EGL_image_external''"

abbreviation STR_SAMPLER_EXTERNAL_OES :: string where
  "STR_SAMPLER_EXTERNAL_OES \<equiv> ''samplerExternalOES''"

abbreviation STR_SAMPLER2D_SPACE :: string where
  "STR_SAMPLER2D_SPACE \<equiv> ''sampler2D         ''"

lemma strstr_Some:
  "strstr s pat = Some k \<Longrightarrow> k + length pat \<le> length s \<and> take (length pat) (drop k s) = pat"
proof (induction s arbitrary: k)
  case (Cons c cs)
  show ?case
  proof (cases "take (length pat) (c # cs) = pat")
    case True
    then have "length pat \<le> length (c # cs)" by (metis length_take min.cobounded1)
    then show ?thesis using True Cons.prems by simp
  next
    case False
    then obtain j where j: "strstr cs pat = Some j" "k = Suc j" using Cons.prems by auto
    then show ?thesis using Cons.IH [OF j(1)] by simp
  qed
qed (simp split: if_splits)

definition in_line :: "char \<Rightarrow> bool" where
  "in_line c \<longleftrightarrow> c \<noteq> CHR 0x0D \<and> c \<noteq> CHR 0x0A"

lemma dropWhile_in_line:
  assumes "take (length STR_HASH_EXTENSION) t = STR_HASH_EXTENSION"
  shows "length (dropWhile in_line t) < length t"
proof -
  obtain c u where "t = c # u" and "c = CHR ''#''" using assms by (cases t) auto
  then show ?thesis using length_dropWhile_le [of in_line u] by (simp add: in_line_def)
qed

text \<open>
  The first loop: \<open>#extension\<close> lines for external images are overwritten with spaces. The
  string is what the pointer \<open>c\<close> still has before it.
\<close>

function blank_extensions :: "string \<Rightarrow> string" where
  "blank_extensions s =
     (case strstr s STR_HASH_EXTENSION of
        None \<Rightarrow> s
      | Some k \<Rightarrow>
          (let rest = drop (k + length STR_HASH_EXTENSION) s;
               ws = takeWhile is_space rest;
               arg = dropWhile is_space rest
           in if take (length STR_GL_OES_EGL_IMAGE_EXTERNAL) arg = STR_GL_OES_EGL_IMAGE_EXTERNAL
              then take k s @ replicate (length (takeWhile in_line (drop k s))) CHR '' ''
                     @ blank_extensions (dropWhile in_line (drop k s))
              else take k s @ STR_HASH_EXTENSION @ ws @ blank_extensions arg))"
  by pat_completeness auto

termination
proof (relation "measure length", simp)
  fix s k rest ws arg
  assume k: "strstr s STR_HASH_EXTENSION = Some k"
  note p = strstr_Some [OF k]
  show "(dropWhile in_line (drop k s), s) \<in> measure length"
    using dropWhile_in_line [of "drop k s"] p by simp
  assume r: "rest = drop (k + length STR_HASH_EXTENSION) s" and a: "arg = dropWhile is_space rest"
  have "length arg \<le> length rest" unfolding a by (rule length_dropWhile_le)
  moreover have "k < length s" using p by simp
  then have "length rest < length s" using r by simp
  ultimately have "length arg < length s" by (rule le_less_trans)
  then show "(arg, s) \<in> measure length" by simp
qed

declare blank_extensions.simps [simp del]

text \<open>
  The second loop: declarations of external samplers become \<open>sampler2D\<close>. \<open>prev\<close> is the
  character before the pointer, none at the start of the string. The result is the code's
  return value, the string and the names recorded so far.
\<close>

function replace_samplers ::
  "char option \<Rightarrow> string \<Rightarrow> bool \<times> string \<times> string list" where
  "replace_samplers prev s =
     (case strstr s STR_SAMPLER_EXTERNAL_OES of
        None \<Rightarrow> (True, s, [])
      | Some k \<Rightarrow>
          (let before = (if k = 0 then prev else Some (s ! (k - 1)));
               rest = drop (k + length STR_SAMPLER_EXTERNAL_OES) s;
               arg = dropWhile is_space rest;
               name = hd arg # takeWhile is_name (tl arg)
           in if \<not> (case before of None \<Rightarrow> False | Some c \<Rightarrow> is_space c) then
                (case replace_samplers (Some (s ! k)) (drop (Suc k) s) of (ok, t, ns) \<Rightarrow>
                   (ok, take (Suc k) s @ t, ns))
              else if rest \<noteq> [] \<and> \<not> is_space (hd rest) then
                (case replace_samplers (Some (last STR_SAMPLER_EXTERNAL_OES)) rest of (ok, t, ns) \<Rightarrow>
                   (ok, take k s @ STR_SAMPLER_EXTERNAL_OES @ t, ns))
              else if arg = [] \<or> \<not> (is_alpha (hd arg) \<or> hd arg = CHR ''_'') then (False, s, [])
              else (case replace_samplers (Some (last name)) (drop (length name) arg) of (ok, t, ns) \<Rightarrow>
                   (ok, take k s @ STR_SAMPLER2D_SPACE @ takeWhile is_space rest @ name @ t,
                    name # ns))))"
  by pat_completeness auto
termination
proof (relation "measure (\<lambda>(prev, s). length s)", simp)
  fix prev :: "char option" and s k before rest arg name
  assume k: "strstr s STR_SAMPLER_EXTERNAL_OES = Some k"
  note p = strstr_Some [OF k]
  have k': "k < length s" using p by simp
  then show "((Some (s ! k), drop (Suc k) s), prev, s) \<in> measure (\<lambda>(prev, s). length s)" by simp
  assume r: "rest = drop (k + length STR_SAMPLER_EXTERNAL_OES) s" and a: "arg = dropWhile is_space rest"
  have l: "length rest < length s" using r k' by simp
  then show "((Some (last STR_SAMPLER_EXTERNAL_OES), rest), prev, s) \<in> measure (\<lambda>(prev, s). length s)"
    by simp
  have "length arg \<le> length rest" unfolding a by (rule length_dropWhile_le)
  then show "((Some (last name), drop (length name) arg), prev, s) \<in> measure (\<lambda>(prev, s). length s)"
    using l by simp
qed

declare replace_samplers.simps [simp del]

definition replaceSamplerExternalWith2D :: "string \<Rightarrow> bool \<times> string \<times> string list" where
  "replaceSamplerExternalWith2D str = replace_samplers None (blank_extensions str)"

text \<open>
  The names found are appended to the shader's, also when the source is refused. \<open>new char[n]\<close>
  is uninitialised; the text is what precedes the NUL that \<open>glUtilsPackStrings\<close> leaves.
\<close>

definition c_text :: "char option list \<Rightarrow> string ub" where
  "c_text buf = (case find_nul buf 0 of None \<Rightarrow> None | Some k \<Rightarrow> Some (map the (take k buf)))"

definition s_glShaderSource ::
  "encoder \<Rightarrow> GLuint \<Rightarrow> string option list \<Rightarrow> int list option \<Rightarrow> encoder ub" where
  "s_glShaderSource e shader strings lens =
     (case getShaderData (e_shared e) shader of
        None \<Rightarrow> Some (setError e GL_INVALID_VALUE)
      | Some d \<Rightarrow>
          (let len = glUtilsCalcShaderSourceLen strings lens in
           case glUtilsPackStrings (replicate (nat (len + 1)) None) strings lens of
             None \<Rightarrow> None
           | Some buf \<Rightarrow>
               (case c_text buf of
                  None \<Rightarrow> None
                | Some txt \<Rightarrow>
                    (case replaceSamplerExternalWith2D txt of (ok, txt', names) \<Rightarrow>
                       let g = (e_shared e)\<lparr>sg_shaders := (sg_shaders (e_shared e))(shader \<mapsto>
                             d\<lparr>sh_samplerExternalNames := sh_samplerExternalNames d @ names\<rparr>)\<rparr>;
                           e1 = e\<lparr>e_shared := g\<rparr>
                       in if \<not> ok then Some (setError e1 GL_OUT_OF_MEMORY)
                          else Some (emit e1 (H_program (ShaderString shader
                                 (map Some txt' @ drop (length txt') buf) (len + 1))))))))"

section \<open>Programs\<close>

text \<open>
  The loop of \<open>glLinkProgram\<close>: one round asks for uniform \<open>i\<close> and its location and records it.
\<close>

definition link_uniform :: "host \<Rightarrow> GLuint \<Rightarrow> int \<Rightarrow> encoder \<Rightarrow> nat \<Rightarrow> encoder" where
  "link_uniform H program maxLength e i =
     (let e1 = emit e (H_program (GetActiveUniform program (int i) maxLength));
          (size, type, name) = h_uniform H (e_calls e1);
          e2 = emit e1 (H_program (GetUniformLocation program name));
          location = h_int H (e_calls e2)
      in e2\<lparr>e_shared := setProgramIndexInfo (e_shared e2) program (word_of_nat i) location size type name\<rparr>)"

definition s_glLinkProgram :: "(nat \<Rightarrow> index_info) \<Rightarrow> host \<Rightarrow> encoder \<Rightarrow> GLuint \<Rightarrow> encoder" where
  "s_glLinkProgram junk H e program =
     (let e1 = emit e (H_program (LinkProgram program));
          e2 = emit e1 (H_program (GetProgramiv program GL_LINK_STATUS));
          linkStatus = h_int H (e_calls e2)
      in if linkStatus = 0 then e2
         else (let e3 = emit e2 (H_program (GetProgramiv program GL_ACTIVE_UNIFORMS));
                   numUniforms = h_int H (e_calls e3);
                   e4 = e3\<lparr>e_shared := initProgramData_group junk (e_shared e3) program
                             (word_of_int numUniforms)\<rparr>;
                   e5 = emit e4 (H_program (GetProgramiv program GL_ACTIVE_UNIFORM_MAX_LENGTH));
                   maxLength = h_int H (e_calls e5);
                   e6 = foldl (link_uniform H program maxLength) e5 [0..<nat numUniforms]
               in e6\<lparr>e_shared := setupLocationShiftWAR (e_shared e6) program\<rparr>))"

definition s_glDeleteProgram :: "encoder \<Rightarrow> GLuint \<Rightarrow> encoder" where
  "s_glDeleteProgram e program =
     (let e1 = emit e (H_program (DeleteProgram program))
      in e1\<lparr>e_shared := deleteProgramData (e_shared e1) program\<rparr>)"

definition s_glGetUniformiv :: "host \<Rightarrow> encoder \<Rightarrow> GLuint \<Rightarrow> int \<Rightarrow> encoder \<times> int list" where
  "s_glGetUniformiv H e program location =
     (if \<not> isProgram (e_shared e) program then (setError e GL_INVALID_VALUE, [])
      else if \<not> isProgramInitialized (e_shared e) program then (setError e GL_INVALID_OPERATION, [])
      else let hostLoc = locationWARAppToHost (e_shared e) program location in
        if getProgramUniformType (e_shared e) program hostLoc = 0
        then (setError e GL_INVALID_OPERATION, [])
        else let e1 = emit e (H_program (GetUniformiv program hostLoc)) in (e1, h_ints H (e_calls e1)))"

definition s_glGetUniformfv :: "host \<Rightarrow> encoder \<Rightarrow> GLuint \<Rightarrow> int \<Rightarrow> encoder \<times> GLfloat list" where
  "s_glGetUniformfv H e program location =
     (if \<not> isProgram (e_shared e) program then (setError e GL_INVALID_VALUE, [])
      else if \<not> isProgramInitialized (e_shared e) program then (setError e GL_INVALID_OPERATION, [])
      else let hostLoc = locationWARAppToHost (e_shared e) program location in
        if getProgramUniformType (e_shared e) program hostLoc = 0
        then (setError e GL_INVALID_OPERATION, [])
        else let e1 = emit e (H_program (GetUniformfv program hostLoc)) in (e1, h_floats H (e_calls e1)))"

definition s_glCreateProgram :: "host \<Rightarrow> encoder \<Rightarrow> encoder \<times> GLuint" where
  "s_glCreateProgram H e =
     (let e1 = emit e (H_program CreateProgram); program = h_word H (e_calls e1)
      in (if program \<noteq> 0 then e1\<lparr>e_shared := addProgramData (e_shared e1) program\<rparr> else e1, program))"

definition s_glCreateShader :: "bool \<Rightarrow> host \<Rightarrow> encoder \<Rightarrow> GLenum \<Rightarrow> (encoder \<times> GLuint) ub" where
  "s_glCreateShader add_ok H e shaderType =
     (let e1 = emit e (H_program (CreateShader shaderType)); shader = h_word H (e_calls e1)
      in if shader \<noteq> 0 then
           (case addShaderData add_ok (e_shared e1) shader of
              None \<Rightarrow> None
            | Some (g, added) \<Rightarrow>
                let e2 = e1\<lparr>e_shared := g\<rparr> in
                if \<not> added then Some (emit e2 (H_program (DeleteShader shader)), 0)
                else Some (e2, shader))
         else Some (e1, shader))"

definition s_glDeleteShader :: "encoder \<Rightarrow> GLuint \<Rightarrow> encoder" where
  "s_glDeleteShader e shader =
     (let e1 = emit e (H_program (DeleteShader shader))
      in e1\<lparr>e_shared := unrefShaderData (e_shared e1) shader\<rparr>)"

definition s_glAttachShader :: "encoder \<Rightarrow> GLuint \<Rightarrow> GLuint \<Rightarrow> encoder" where
  "s_glAttachShader e program shader =
     (let e1 = emit e (H_program (AttachShader program shader))
      in e1\<lparr>e_shared := attachShader (e_shared e1) program shader\<rparr>)"

definition s_glDetachShader :: "encoder \<Rightarrow> GLuint \<Rightarrow> GLuint \<Rightarrow> encoder" where
  "s_glDetachShader e program shader =
     (let e1 = emit e (H_program (DetachShader program shader))
      in e1\<lparr>e_shared := detachShader (e_shared e1) program shader\<rparr>)"

text \<open>
  \<open>sscanf("%d")\<close>: optional white space, an optional sign and digits; \<open>None\<close> when no number was
  read.
\<close>

definition scan_int :: "string \<Rightarrow> int option" where
  "scan_int str =
     (let t = dropWhile is_space str;
          neg = (t \<noteq> [] \<and> hd t = CHR ''-'');
          u = (if t \<noteq> [] \<and> (hd t = CHR ''-'' \<or> hd t = CHR ''+'') then tl t else t);
          ds = takeWhile is_digit u;
          n = foldl (\<lambda>a c. 10 * a + (int (of_char c) - 48)) 0 ds
      in if ds = [] then None else Some (i32 (if neg then - n else n)))"

text \<open>The text after the last \<open>[\<close> of a name (\<open>strrchr\<close>).\<close>

definition after_bracket :: "string \<Rightarrow> string option" where
  "after_bracket name =
     (if CHR ''['' \<in> set name then Some (rev (takeWhile (\<lambda>c. c \<noteq> CHR ''['') (rev name))) else None)"

text \<open>\<open>name[namelen-1]\<close> of an empty name lies before the string: undefined.\<close>

definition s_glGetUniformLocation ::
  "host \<Rightarrow> encoder \<Rightarrow> GLuint \<Rightarrow> string option \<Rightarrow> (encoder \<times> int) ub" where
  "s_glGetUniformLocation H e program name =
     (case name of
        None \<Rightarrow> Some (e, - 1)
      | Some nm \<Rightarrow>
          (let need = needUniformLocationWAR (e_shared e) program;
               parsed = (if \<not> need then Some (Some 0)
                         else if nm = [] then None
                         else if last nm = CHR '']''
                           then Some (Option.bind (after_bracket nm) scan_int)
                         else Some (Some 0))
           in case parsed of
                None \<Rightarrow> None
              | Some None \<Rightarrow> Some (e, - 1)
              | Some (Some arrIndex) \<Rightarrow>
                  (let e1 = emit e (H_program (GetUniformLocation program nm));
                       hostLoc = h_int H (e_calls e1)
                   in if 0 \<le> hostLoc \<and> need
                      then (case locationWARHostToApp (e_shared e1) program hostLoc arrIndex of
                              (g, loc) \<Rightarrow> Some (e1\<lparr>e_shared := g\<rparr>, loc))
                      else Some (e1, hostLoc))))"


section \<open>Uniforms\<close>

text \<open>The host location of a uniform of the current program.\<close>

definition host_location :: "encoder \<Rightarrow> int \<Rightarrow> int" where
  "host_location e location =
     locationWARAppToHost (e_shared e) (word_of_int (cs_currentProgram (e_state e))) location"

definition s_glUniform1f :: "encoder \<Rightarrow> int \<Rightarrow> GLfloat \<Rightarrow> encoder" where
  "s_glUniform1f e location x = emit e (H_uniform (U1f (host_location e location) x))"

definition s_glUniform1fv :: "encoder \<Rightarrow> int \<Rightarrow> int \<Rightarrow> addr \<Rightarrow> encoder" where
  "s_glUniform1fv e location count v = emit e (H_uniform (U1fv (host_location e location) count v))"

definition s_glUniform1iv :: "encoder \<Rightarrow> int \<Rightarrow> int \<Rightarrow> addr \<Rightarrow> encoder" where
  "s_glUniform1iv e location count v = emit e (H_uniform (U1iv (host_location e location) count v))"

definition s_glUniform2f :: "encoder \<Rightarrow> int \<Rightarrow> GLfloat \<Rightarrow> GLfloat \<Rightarrow> encoder" where
  "s_glUniform2f e location x y =
     emit e (H_uniform (U2f (host_location e location) x y))"

definition s_glUniform2fv :: "encoder \<Rightarrow> int \<Rightarrow> int \<Rightarrow> addr \<Rightarrow> encoder" where
  "s_glUniform2fv e location count v = emit e (H_uniform (U2fv (host_location e location) count v))"

definition s_glUniform2i :: "encoder \<Rightarrow> int \<Rightarrow> int \<Rightarrow> int \<Rightarrow> encoder" where
  "s_glUniform2i e location x y =
     emit e (H_uniform (U2i (host_location e location) x y))"

definition s_glUniform2iv :: "encoder \<Rightarrow> int \<Rightarrow> int \<Rightarrow> addr \<Rightarrow> encoder" where
  "s_glUniform2iv e location count v = emit e (H_uniform (U2iv (host_location e location) count v))"

definition s_glUniform3f :: "encoder \<Rightarrow> int \<Rightarrow> GLfloat \<Rightarrow> GLfloat \<Rightarrow> GLfloat \<Rightarrow> encoder" where
  "s_glUniform3f e location x y z =
     emit e (H_uniform (U3f (host_location e location) x y z))"

definition s_glUniform3fv :: "encoder \<Rightarrow> int \<Rightarrow> int \<Rightarrow> addr \<Rightarrow> encoder" where
  "s_glUniform3fv e location count v = emit e (H_uniform (U3fv (host_location e location) count v))"

definition s_glUniform3i :: "encoder \<Rightarrow> int \<Rightarrow> int \<Rightarrow> int \<Rightarrow> int \<Rightarrow> encoder" where
  "s_glUniform3i e location x y z =
     emit e (H_uniform (U3i (host_location e location) x y z))"

definition s_glUniform3iv :: "encoder \<Rightarrow> int \<Rightarrow> int \<Rightarrow> addr \<Rightarrow> encoder" where
  "s_glUniform3iv e location count v = emit e (H_uniform (U3iv (host_location e location) count v))"

definition s_glUniform4f :: "encoder \<Rightarrow> int \<Rightarrow> GLfloat \<Rightarrow> GLfloat \<Rightarrow> GLfloat \<Rightarrow> GLfloat \<Rightarrow> encoder" where
  "s_glUniform4f e location x y z w =
     emit e (H_uniform (U4f (host_location e location) x y z w))"

definition s_glUniform4fv :: "encoder \<Rightarrow> int \<Rightarrow> int \<Rightarrow> addr \<Rightarrow> encoder" where
  "s_glUniform4fv e location count v = emit e (H_uniform (U4fv (host_location e location) count v))"

definition s_glUniform4i :: "encoder \<Rightarrow> int \<Rightarrow> int \<Rightarrow> int \<Rightarrow> int \<Rightarrow> int \<Rightarrow> encoder" where
  "s_glUniform4i e location x y z w =
     emit e (H_uniform (U4i (host_location e location) x y z w))"

definition s_glUniform4iv :: "encoder \<Rightarrow> int \<Rightarrow> int \<Rightarrow> addr \<Rightarrow> encoder" where
  "s_glUniform4iv e location count v = emit e (H_uniform (U4iv (host_location e location) count v))"

definition s_glUniformMatrix2fv :: "encoder \<Rightarrow> int \<Rightarrow> int \<Rightarrow> bool \<Rightarrow> addr \<Rightarrow> encoder" where
  "s_glUniformMatrix2fv e location count transposed v =
     emit e (H_uniform (UMatrix2fv (host_location e location) count transposed v))"

definition s_glUniformMatrix3fv :: "encoder \<Rightarrow> int \<Rightarrow> int \<Rightarrow> bool \<Rightarrow> addr \<Rightarrow> encoder" where
  "s_glUniformMatrix3fv e location count transposed v =
     emit e (H_uniform (UMatrix3fv (host_location e location) count transposed v))"

definition s_glUniformMatrix4fv :: "encoder \<Rightarrow> int \<Rightarrow> int \<Rightarrow> bool \<Rightarrow> addr \<Rightarrow> encoder" where
  "s_glUniformMatrix4fv e location count transposed v =
     emit e (H_uniform (UMatrix4fv (host_location e location) count transposed v))"

section \<open>Texture units and samplers\<close>

text \<open>
  Makes \<open>newTarget\<close> the target that unit \<open>texUnit\<close> samples from. The result of
  \<open>setActiveTextureUnit\<close> is dropped.
\<close>

definition updateHostTexture2DBinding :: "encoder \<Rightarrow> GLenum \<Rightarrow> GLenum \<Rightarrow> encoder \<times> bool" where
  "updateHostTexture2DBinding e texUnit newTarget =
     (if newTarget \<noteq> GL_TEXTURE_2D \<and> newTarget \<noteq> GL_TEXTURE_EXTERNAL_OES then (e, False)
      else let s1 = fst (setActiveTextureUnit (e_state e) texUnit);
               oldTarget = getPriorityEnabledTarget s1 GL_TEXTURE_2D
        in if newTarget \<noteq> oldTarget then
             (let s2 = (if newTarget = GL_TEXTURE_EXTERNAL_OES
                        then enableTextureTarget (disableTextureTarget s1 GL_TEXTURE_2D)
                               GL_TEXTURE_EXTERNAL_OES
                        else enableTextureTarget (disableTextureTarget s1 GL_TEXTURE_EXTERNAL_OES)
                               GL_TEXTURE_2D);
                  e2 = emit (e\<lparr>e_state := s2\<rparr>) (H_glActiveTexture texUnit)
              in (emit e2 (H_glBindTexture GL_TEXTURE_2D (getBoundTexture s2 newTarget)), True))
           else (e\<lparr>e_state := s1\<rparr>, False))"

lemma find_upt_Some: "find P [a..<b] = Some i \<Longrightarrow> a \<le> i \<and> i < b \<and> P i"
  by (auto simp: find_Some_iff)

lemma getNextSamplerUniform_after:
  fixes idx :: u32
  assumes "getNextSamplerUniform g program (sint idx) = Some (i, r)"
  shows "sint idx < i" and "0 \<le> i" and "i < 2147483648" and "sint (word_of_int i :: u32) = i"
proof -
  have rng: "- 2147483648 \<le> sint idx" "sint idx < 2147483648"
    using sint_range32 [of idx] by (simp_all add: int_range_def)
  obtain p where p: "getNextSamplerUniform_program p (sint idx) = Some (i, r)"
    using assms by (auto simp: getNextSamplerUniform_def split: option.splits)
  then have ge: "0 \<le> i32 (sint idx + 1)"
    by (simp add: getNextSamplerUniform_program_def split: if_splits)
  have "sint idx + 1 < 2147483648"
  proof (rule ccontr)
    assume "\<not> ?thesis"
    with rng have "sint idx + 1 = 2147483648" by simp
    with ge show False by (simp add: i32_def)
  qed
  then have w: "i32 (sint idx + 1) = sint idx + 1" using rng by (intro i32_id int_rangeI) auto
  obtain j where j: "i = int j" "nat (sint idx + 1) \<le> j" "j < nat (sint (pd_numIndexes p))"
    using p w by (auto simp: getNextSamplerUniform_program_def Let_def
        dest!: find_upt_Some split: if_splits)
  show "0 \<le> i" and "i < 2147483648"
    using j sint_range32 [of "pd_numIndexes p"] by (auto simp: int_range_def)
  then show "sint (word_of_int i :: u32) = i" by (intro sint_word_of_int32 int_rangeI) auto
  show "sint idx < i" using j ge w by auto
qed

lemma next_sampler_less:
  fixes idx :: u32
  assumes "getNextSamplerUniform g program (sint idx) = Some (i, r)"
  shows "sint idx < 2147483648 \<and> sint idx < sint (word_of_int i :: u32)"
  using getNextSamplerUniform_after [OF assms] sint_range32 [of idx] by (simp add: int_range_def)

text \<open>
  The loop of \<open>glUseProgram\<close> over the samplers after index \<open>idx\<close>; \<open>hostActive\<close> is the texture
  unit that the host has active.
\<close>

function use_samplers :: "encoder \<Rightarrow> GLuint \<Rightarrow> u32 \<Rightarrow> GLenum \<Rightarrow> encoder \<times> GLenum" where
  "use_samplers e program idx hostActive =
     (case getNextSamplerUniform (e_shared e) program (sint idx) of
        None \<Rightarrow> (e, hostActive)
      | Some (i, val, target) \<Rightarrow>
          if val < 0 \<or> int MAX_TEXTURE_UNITS \<le> val
          then use_samplers e program (word_of_int i) hostActive
          else (case updateHostTexture2DBinding e (GL_TEXTURE0 + word_of_int val) target of
                  (e1, changed) \<Rightarrow>
                    use_samplers e1 program (word_of_int i)
                      (if changed then GL_TEXTURE0 + word_of_int val else hostActive)))"
  by pat_completeness auto

termination
  by (relation "measure (\<lambda>(e, program, idx, h). nat (2147483648 - sint idx))")
    (auto dest!: next_sampler_less)

declare use_samplers.simps [simp del]

definition s_glUseProgram :: "encoder \<Rightarrow> GLuint \<Rightarrow> encoder" where
  "s_glUseProgram e program =
     (let e1 = emit e (H_program (UseProgram program));
          e2 = e1\<lparr>e_state := setCurrentProgram (e_state e1) (sint program)\<rparr>;
          orig = getActiveTextureUnit (e_state e2);
          (e3, hostActive) = use_samplers e2 program (- 1) orig;
          e4 = e3\<lparr>e_state := fst (setActiveTextureUnit (e_state e3) orig)\<rparr>
      in if hostActive \<noteq> orig then emit e4 (H_glActiveTexture orig) else e4)"

definition s_glUniform1i :: "encoder \<Rightarrow> int \<Rightarrow> int \<Rightarrow> encoder" where
  "s_glUniform1i e location x =
     (let e1 = emit e (H_uniform (U1i (host_location e location) x));
          program = word_of_int (cs_currentProgram (e_state e1));
          (g, target) = setSamplerUniform (e_shared e1) program location x;
          e2 = e1\<lparr>e_shared := g\<rparr>
      in case target of
           None \<Rightarrow> e2
         | Some t \<Rightarrow>
             (let orig = getActiveTextureUnit (e_state e2);
                  (e3, changed) = updateHostTexture2DBinding e2 (GL_TEXTURE0 + word_of_int x) t;
                  e4 = (if changed then emit e3 (H_glActiveTexture orig) else e3)
              in e4\<lparr>e_state := fst (setActiveTextureUnit (e_state e4) orig)\<rparr>))"

definition s_glActiveTexture :: "encoder \<Rightarrow> GLenum \<Rightarrow> encoder" where
  "s_glActiveTexture e texture =
     (case setActiveTextureUnit (e_state e) texture of (s, err) \<Rightarrow>
        if err \<noteq> GL_NO_ERROR then setError e err
        else emit (e\<lparr>e_state := s\<rparr>) (H_glActiveTexture texture))"

definition s_glBindTexture :: "(size_t \<Rightarrow> bool) \<Rightarrow> encoder \<Rightarrow> GLenum \<Rightarrow> GLuint \<Rightarrow> encoder" where
  "s_glBindTexture realloc_ok e target texture =
     (case bindTexture realloc_ok (e_state e) target texture of (s, err, firstUse) \<Rightarrow>
        let e1 = e\<lparr>e_state := s\<rparr> in
        if err \<noteq> GL_NO_ERROR then setError e1 err
        else if target \<noteq> GL_TEXTURE_2D \<and> target \<noteq> GL_TEXTURE_EXTERNAL_OES
          then emit e1 (H_glBindTexture target texture)
        else
          (let priorityTarget = getPriorityEnabledTarget s GL_TEXTURE_2D;
               e2 = (if target = GL_TEXTURE_EXTERNAL_OES \<and> firstUse then
                       (let a = emit e1 (H_glBindTexture GL_TEXTURE_2D texture);
                            b = emit a (H_texture GL_TEXTURE_2D
                                  (TexParameteri GL_TEXTURE_MIN_FILTER (uint GL_LINEAR)));
                            c = emit b (H_texture GL_TEXTURE_2D
                                  (TexParameteri GL_TEXTURE_WRAP_S (uint GL_CLAMP_TO_EDGE)));
                            d = emit c (H_texture GL_TEXTURE_2D
                                  (TexParameteri GL_TEXTURE_WRAP_T (uint GL_CLAMP_TO_EDGE)))
                        in if target \<noteq> priorityTarget
                           then emit d (H_glBindTexture GL_TEXTURE_2D
                                  (getBoundTexture s GL_TEXTURE_2D))
                           else d)
                     else e1)
           in if target = priorityTarget then emit e2 (H_glBindTexture GL_TEXTURE_2D texture)
              else e2))"

definition s_glDeleteTextures :: "encoder \<Rightarrow> GLuint list \<Rightarrow> encoder" where
  "s_glDeleteTextures e textures =
     emit (e\<lparr>e_state := deleteTextures (e_state e) textures\<rparr>) (H_glDeleteTextures textures)"

section \<open>Texture parameters and images\<close>

definition override2DTextureTarget :: "encoder \<Rightarrow> GLenum \<Rightarrow> encoder" where
  "override2DTextureTarget e target =
     (if (target = GL_TEXTURE_2D \<or> target = GL_TEXTURE_EXTERNAL_OES)
         \<and> target \<noteq> getPriorityEnabledTarget (e_state e) GL_TEXTURE_2D
      then emit e (H_glBindTexture GL_TEXTURE_2D (getBoundTexture (e_state e) target)) else e)"

definition restore2DTextureTarget :: "encoder \<Rightarrow> encoder" where
  "restore2DTextureTarget e =
     emit e (H_glBindTexture GL_TEXTURE_2D
       (getBoundTexture (e_state e) (getPriorityEnabledTarget (e_state e) GL_TEXTURE_2D)))"

definition s_glGetTexParameterfv ::
  "host \<Rightarrow> encoder \<Rightarrow> GLenum \<Rightarrow> GLenum \<Rightarrow> encoder \<times> GLfloat list" where
  "s_glGetTexParameterfv H e target pname =
     (if target = GL_TEXTURE_2D \<or> target = GL_TEXTURE_EXTERNAL_OES then
        (let e1 = override2DTextureTarget e target;
             e2 = emit e1 (H_texture GL_TEXTURE_2D (GetTexParameterfv pname))
         in (restore2DTextureTarget e2, h_floats H (e_calls e2)))
      else (let e1 = emit e (H_texture target (GetTexParameterfv pname))
            in (e1, h_floats H (e_calls e1))))"

definition s_glGetTexParameteriv ::
  "host \<Rightarrow> encoder \<Rightarrow> GLenum \<Rightarrow> GLenum \<Rightarrow> encoder \<times> int list" where
  "s_glGetTexParameteriv H e target pname =
     (if pname = GL_REQUIRED_TEXTURE_IMAGE_UNITS_OES then (e, [1])
      else if target = GL_TEXTURE_2D \<or> target = GL_TEXTURE_EXTERNAL_OES then
        (let e1 = override2DTextureTarget e target;
             e2 = emit e1 (H_texture GL_TEXTURE_2D (GetTexParameteriv pname))
         in (restore2DTextureTarget e2, h_ints H (e_calls e2)))
      else (let e1 = emit e (H_texture target (GetTexParameteriv pname))
            in (e1, h_ints H (e_calls e1))))"

definition isValidTextureExternalParam :: "GLenum \<Rightarrow> GLenum \<Rightarrow> bool" where
  "isValidTextureExternalParam pname param \<longleftrightarrow>
     (if pname = GL_TEXTURE_MIN_FILTER \<or> pname = GL_TEXTURE_MAG_FILTER
        then param = GL_NEAREST \<or> param = GL_LINEAR
      else if pname = GL_TEXTURE_WRAP_S \<or> pname = GL_TEXTURE_WRAP_T
        then param = GL_CLAMP_TO_EDGE
      else True)"

definition s_glTexParameterf :: "float_ops \<Rightarrow> encoder \<Rightarrow> GLenum \<Rightarrow> GLenum \<Rightarrow> GLfloat \<Rightarrow> encoder" where
  "s_glTexParameterf F e target pname param =
     (if target = GL_TEXTURE_EXTERNAL_OES
         \<and> \<not> isValidTextureExternalParam pname (f_to_enum F param)
      then setError e GL_INVALID_ENUM
      else if target = GL_TEXTURE_2D \<or> target = GL_TEXTURE_EXTERNAL_OES
      then restore2DTextureTarget (emit (override2DTextureTarget e target)
             (H_texture GL_TEXTURE_2D (TexParameterf pname param)))
      else emit e (H_texture target (TexParameterf pname param)))"

definition s_glTexParameterfv :: "float_ops \<Rightarrow> encoder \<Rightarrow> GLenum \<Rightarrow> GLenum \<Rightarrow> GLfloat list \<Rightarrow> encoder" where
  "s_glTexParameterfv F e target pname param =
     (if target = GL_TEXTURE_EXTERNAL_OES
         \<and> \<not> isValidTextureExternalParam pname (f_to_enum F (hd param))
      then setError e GL_INVALID_ENUM
      else if target = GL_TEXTURE_2D \<or> target = GL_TEXTURE_EXTERNAL_OES
      then restore2DTextureTarget (emit (override2DTextureTarget e target)
             (H_texture GL_TEXTURE_2D (TexParameterfv pname param)))
      else emit e (H_texture target (TexParameterfv pname param)))"

definition s_glTexParameteri :: "encoder \<Rightarrow> GLenum \<Rightarrow> GLenum \<Rightarrow> int \<Rightarrow> encoder" where
  "s_glTexParameteri e target pname param =
     (if target = GL_TEXTURE_EXTERNAL_OES
         \<and> \<not> isValidTextureExternalParam pname (word_of_int param)
      then setError e GL_INVALID_ENUM
      else if target = GL_TEXTURE_2D \<or> target = GL_TEXTURE_EXTERNAL_OES
      then restore2DTextureTarget (emit (override2DTextureTarget e target)
             (H_texture GL_TEXTURE_2D (TexParameteri pname param)))
      else emit e (H_texture target (TexParameteri pname param)))"

definition s_glTexParameteriv :: "encoder \<Rightarrow> GLenum \<Rightarrow> GLenum \<Rightarrow> int list \<Rightarrow> encoder" where
  "s_glTexParameteriv e target pname param =
     (if target = GL_TEXTURE_EXTERNAL_OES
         \<and> \<not> isValidTextureExternalParam pname (word_of_int (hd param))
      then setError e GL_INVALID_ENUM
      else if target = GL_TEXTURE_2D \<or> target = GL_TEXTURE_EXTERNAL_OES
      then restore2DTextureTarget (emit (override2DTextureTarget e target)
             (H_texture GL_TEXTURE_2D (TexParameteriv pname param)))
      else emit e (H_texture target (TexParameteriv pname param)))"

text \<open>The image functions refuse external textures and make the 2D one current for the call.\<close>

definition s_glTexImage2D ::
  "encoder \<Rightarrow> GLenum \<Rightarrow> int \<Rightarrow> int \<Rightarrow> int \<Rightarrow> int \<Rightarrow> int \<Rightarrow> GLenum \<Rightarrow> GLenum \<Rightarrow> addr \<Rightarrow> encoder"
where
  "s_glTexImage2D e target level internalFormat width height border format type data =
     (if target = GL_TEXTURE_EXTERNAL_OES then setError e GL_INVALID_ENUM
      else if target = GL_TEXTURE_2D
      then restore2DTextureTarget (emit (override2DTextureTarget e target)
             (H_texture GL_TEXTURE_2D
               (TexImage2D level internalFormat width height border format type data)))
      else emit e (H_texture target
             (TexImage2D level internalFormat width height border format type data)))"

definition s_glTexSubImage2D ::
  "encoder \<Rightarrow> GLenum \<Rightarrow> int \<Rightarrow> int \<Rightarrow> int \<Rightarrow> int \<Rightarrow> int \<Rightarrow> GLenum \<Rightarrow> GLenum \<Rightarrow> addr \<Rightarrow> encoder"
where
  "s_glTexSubImage2D e target level xoffset yoffset width height format type pixels =
     (if target = GL_TEXTURE_EXTERNAL_OES then setError e GL_INVALID_ENUM
      else if target = GL_TEXTURE_2D
      then restore2DTextureTarget (emit (override2DTextureTarget e target)
             (H_texture GL_TEXTURE_2D
               (TexSubImage2D level xoffset yoffset width height format type pixels)))
      else emit e (H_texture target
             (TexSubImage2D level xoffset yoffset width height format type pixels)))"

definition s_glCompressedTexImage2D ::
  "encoder \<Rightarrow> GLenum \<Rightarrow> int \<Rightarrow> GLenum \<Rightarrow> int \<Rightarrow> int \<Rightarrow> int \<Rightarrow> int \<Rightarrow> addr \<Rightarrow> encoder"
where
  "s_glCompressedTexImage2D e target level internalFormat width height border imageSize data =
     (if target = GL_TEXTURE_EXTERNAL_OES then setError e GL_INVALID_ENUM
      else if target = GL_TEXTURE_2D
      then restore2DTextureTarget (emit (override2DTextureTarget e target)
             (H_texture GL_TEXTURE_2D
               (CompressedTexImage2D level internalFormat width height border imageSize data)))
      else emit e (H_texture target
             (CompressedTexImage2D level internalFormat width height border imageSize data)))"

definition s_glCompressedTexSubImage2D ::
  "encoder \<Rightarrow> GLenum \<Rightarrow> int \<Rightarrow> int \<Rightarrow> int \<Rightarrow> int \<Rightarrow> int \<Rightarrow> GLenum \<Rightarrow> int \<Rightarrow> addr \<Rightarrow> encoder"
where
  "s_glCompressedTexSubImage2D e target level xoffset yoffset width height format imageSize data =
     (if target = GL_TEXTURE_EXTERNAL_OES then setError e GL_INVALID_ENUM
      else if target = GL_TEXTURE_2D
      then restore2DTextureTarget (emit (override2DTextureTarget e target)
             (H_texture GL_TEXTURE_2D
               (CompressedTexSubImage2D level xoffset yoffset width height format imageSize data)))
      else emit e (H_texture target
             (CompressedTexSubImage2D level xoffset yoffset width height format imageSize data)))"

definition s_glCopyTexImage2D ::
  "encoder \<Rightarrow> GLenum \<Rightarrow> int \<Rightarrow> GLenum \<Rightarrow> int \<Rightarrow> int \<Rightarrow> int \<Rightarrow> int \<Rightarrow> int \<Rightarrow> encoder"
where
  "s_glCopyTexImage2D e target level internalformat x y width height border =
     (if target = GL_TEXTURE_EXTERNAL_OES then setError e GL_INVALID_ENUM
      else if target = GL_TEXTURE_2D
      then restore2DTextureTarget (emit (override2DTextureTarget e target)
             (H_texture GL_TEXTURE_2D
               (CopyTexImage2D level internalformat x y width height border)))
      else emit e (H_texture target
             (CopyTexImage2D level internalformat x y width height border)))"

definition s_glCopyTexSubImage2D ::
  "encoder \<Rightarrow> GLenum \<Rightarrow> int \<Rightarrow> int \<Rightarrow> int \<Rightarrow> int \<Rightarrow> int \<Rightarrow> int \<Rightarrow> int \<Rightarrow> encoder"
where
  "s_glCopyTexSubImage2D e target level xoffset yoffset x y width height =
     (if target = GL_TEXTURE_EXTERNAL_OES then setError e GL_INVALID_ENUM
      else if target = GL_TEXTURE_2D
      then restore2DTextureTarget (emit (override2DTextureTarget e target)
             (H_texture GL_TEXTURE_2D
               (CopyTexSubImage2D level xoffset yoffset x y width height)))
      else emit e (H_texture target
             (CopyTexSubImage2D level xoffset yoffset x y width height)))"

definition s_glGenerateMipmap ::
  "encoder \<Rightarrow> GLenum \<Rightarrow> encoder"
where
  "s_glGenerateMipmap e target =
     (if target = GL_TEXTURE_EXTERNAL_OES then setError e GL_INVALID_ENUM
      else if target = GL_TEXTURE_2D
      then restore2DTextureTarget (emit (override2DTextureTarget e target)
             (H_texture GL_TEXTURE_2D
               GenerateMipmap))
      else emit e (H_texture target
             GenerateMipmap))"

end
