(* ===== verification/GL2Uniforms.thy ===== *)
theory GL2Uniforms
  imports GL2Encoder
begin

text \<open>
  Uniforms from linking a program to setting a value, across \<open>GL2Encoder\<close> and
  \<open>GLSharedGroup\<close>: \<open>glLinkProgram\<close> lays the uniforms out as the host reports them,
  \<open>glUseProgram\<close> keeps that, \<open>glGetUniformLocation\<close> parses the index of an array element and
  answers a location of the application, and \<open>glUniform\<close> sends the host's.
\<close>

section \<open>Linking\<close>

text \<open>The first \<open>k\<close> entries of a program's table hold the uniforms \<open>us\<close>.\<close>

definition filled :: "(int \<times> int \<times> GLenum) list \<Rightarrow> nat \<Rightarrow> program_data \<Rightarrow> bool" where
  "filled us k p \<longleftrightarrow> unat (pd_numIndexes p) = length us \<and> length (pd_Indexes p) = length us
     \<and> (\<forall>i<k. ix_base (pd_Indexes p ! i) = fst (us ! i)
          \<and> ix_size (pd_Indexes p ! i) = fst (snd (us ! i))
          \<and> ix_appBase (pd_Indexes p ! i) = app_base us i)"

lemma filled_setIndexFlags: "filled us k (setIndexFlags p i f) = filled us k p"
proof -
  have "ix_base (xs[j := (xs ! j)\<lparr>ix_flags := v\<rparr>] ! l) = ix_base (xs ! l)
      \<and> ix_size (xs[j := (xs ! j)\<lparr>ix_flags := v\<rparr>] ! l) = ix_size (xs ! l)
      \<and> ix_appBase (xs[j := (xs ! j)\<lparr>ix_flags := v\<rparr>] ! l) = ix_appBase (xs ! l)"
    for xs :: "index_info list" and j l v
    by (cases "j < length xs") (simp_all add: nth_list_update linorder_not_less list_update_beyond)
  then show ?thesis by (simp add: filled_def setIndexFlags_def Let_def)
qed

lemma filled_flag_external:
  "filled us k (foldl (flag_external shaders i name) p ids) = filled us k p"
  by (induction ids arbitrary: p)
    (simp_all add: flag_external_def filled_setIndexFlags split: option.split)

lemma filled_setIndexInfo:
  assumes "filled us k p" and "k < length us" and "uniforms_ok us" and "us ! k = (b, sz, ty)"
  shows "filled us (Suc k) (setIndexInfo p (word_of_nat k) b sz ty)"
proof -
  have n: "unat (pd_numIndexes p) = length us" "length (pd_Indexes p) = length us"
    using assms(1) by (simp_all add: filled_def)
  have uk: "unat (word_of_nat k :: u32) = k"
    using assms(2,3) by (simp add: uniforms_ok_def unat_of_nat32)
  have lt: "\<not> pd_numIndexes p \<le> word_of_nat k" using uk n(1) assms(2) by (simp add: word_le_nat_alt)
  have app: "(if 0 < (word_of_nat k :: u32)
      then i32 (ix_appBase (pd_Indexes p ! (k - 1)) + ix_size (pd_Indexes p ! (k - 1))) else 0)
    = app_base us k"
  proof (cases k)
    case (Suc m)
    then have "app_base us k = app_base us m + fst (snd (us ! m))"
      using assms(2) by (simp add: app_base_Suc)
    moreover have "int_range (app_base us k)"
      using app_base_nonneg [OF assms(3), of k] app_base_range [OF assms(3), of k] assms(2)
      by (simp add: int_range_def)
    moreover have "0 < (word_of_nat k :: u32)"
      using uk Suc by (metis unat_gt_0 zero_less_Suc word_neq_0_conv)
    ultimately show ?thesis using Suc assms(1) by (simp add: filled_def)
  qed simp
  show ?thesis
    unfolding setIndexInfo_def Let_def uk if_not_P [OF lt] app
    using assms(1,2,4) n by (auto simp: filled_def nth_list_update less_Suc_eq)
qed

lemma filled_initProgramData:
  "uniforms_ok us \<Longrightarrow> filled us 0 (initProgramData junk p (word_of_int (int (length us))))"
  by (simp add: filled_def initProgramData_def uniforms_ok_def unat_of_nat32)

lemma filled_setup:
  assumes "filled us (length us) p" and "uniforms_ok us" and "1 < length us"
    and "\<forall>u \<in> set us. fst u AND 0xffff = 0"
  shows "laid_out us (setupLocationShiftWAR_program p)"
proof -
  have "\<not> (\<exists>i \<in> set [0..<unat (pd_numIndexes p)]. ix_base (pd_Indexes p ! i) AND 0xffff \<noteq> 0)"
    using assms(1,4) by (auto simp: filled_def)
  moreover have "1 < pd_numIndexes p" using assms(1,3) by (simp add: filled_def word_less_nat_alt)
  ultimately show ?thesis
    using assms(1,2) by (simp add: setupLocationShiftWAR_program_def laid_out_def filled_def)
qed

text \<open>
  What a host reports of a program that it has linked: the uniforms \<open>us\<close> with their names, each
  at its location, whenever it is asked.
\<close>

definition reports :: "host \<Rightarrow> GLuint \<Rightarrow> (int \<times> int \<times> GLenum) list \<Rightarrow> (nat \<Rightarrow> string) \<Rightarrow> bool" where
  "reports H program us names \<longleftrightarrow>
     (\<forall>cs. h_int H (cs @ [H_program (GetProgramiv program GL_LINK_STATUS)]) = 1
         \<and> h_int H (cs @ [H_program (GetProgramiv program GL_ACTIVE_UNIFORMS)]) = int (length us)
         \<and> (\<forall>i<length us.
              (\<forall>m. h_uniform H (cs @ [H_program (GetActiveUniform program (int i) m)])
                    = (fst (snd (us ! i)), snd (snd (us ! i)), names i))
            \<and> h_int H (cs @ [H_program (GetUniformLocation program (names i))]) = fst (us ! i)))"

lemma reportsD:
  assumes "reports H program us names"
  shows "h_int H (cs @ [c, H_program (GetProgramiv program GL_LINK_STATUS)]) = 1"
    and "h_int H (cs @ [c, d, H_program (GetProgramiv program GL_ACTIVE_UNIFORMS)]) = int (length us)"
    and "i < length us \<Longrightarrow> h_uniform H (cs @ [H_program (GetActiveUniform program (int i) m)])
      = (fst (snd (us ! i)), snd (snd (us ! i)), names i)"
    and "i < length us \<Longrightarrow> h_int H (cs @ [c, H_program (GetUniformLocation program (names i))])
      = fst (us ! i)"
  using assms unfolding reports_def by (metis append.assoc append_Cons append_Nil)+

lemma link_uniform_filled:
  assumes "reports H program us names" and "uniforms_ok us" and "i < length us"
    and "sg_programs (e_shared e) program = Some p" and "filled us i p"
  shows "\<exists>q. sg_programs (e_shared (link_uniform H program m e i)) program = Some q \<and> filled us (Suc i) q"
proof -
  obtain b sz ty where u: "us ! i = (b, sz, ty)" by (metis prod_cases3)
  show ?thesis
    using assms(2-5) filled_setIndexInfo [OF assms(5,3,2) u] u
    by (auto simp: link_uniform_def emit_def reportsD [OF assms(1)] setProgramIndexInfo_def upd_program_def
        filled_flag_external Let_def)
qed

lemma link_uniforms_filled:
  assumes "reports H program us names" and "uniforms_ok us" and "k \<le> length us"
    and "sg_programs (e_shared e) program = Some p" and "filled us 0 p"
  shows "\<exists>q. sg_programs (e_shared (foldl (link_uniform H program m) e [0..<k])) program = Some q
    \<and> filled us k q"
  using assms(3)
proof (induction k)
  case (Suc k)
  then obtain q where "sg_programs (e_shared (foldl (link_uniform H program m) e [0..<k])) program = Some q"
    and "filled us k q" by auto
  from link_uniform_filled [OF assms(1,2) _ this] Suc.prems show ?case by simp
qed (use assms(4,5) in simp)

lemma link_laid_out:
  assumes "reports H program us names" and "uniforms_ok us" and "1 < length us"
    and "\<forall>u \<in> set us. fst u AND 0xffff = 0"
    and "isProgram (e_shared e) program"
  shows "\<exists>p. sg_programs (e_shared (s_glLinkProgram junk H e program)) program = Some p \<and> laid_out us p"
proof -
  obtain p0 where p0: "sg_programs (e_shared e) program = Some p0"
    using assms(5) by (auto simp: isProgram_def)
  define e3 where "e3 = emit (emit (emit e (H_program (LinkProgram program)))
      (H_program (GetProgramiv program GL_LINK_STATUS))) (H_program (GetProgramiv program GL_ACTIVE_UNIFORMS))"
  define e5 where "e5 = emit (e3\<lparr>e_shared := initProgramData_group junk (e_shared e3) program
      (word_of_int (int (length us)))\<rparr>) (H_program (GetProgramiv program GL_ACTIVE_UNIFORM_MAX_LENGTH))"
  define m where "m = h_int H (e_calls e5)"
  have p5: "sg_programs (e_shared e5) program
      = Some (initProgramData junk p0 (word_of_int (int (length us))))"
    by (simp add: e5_def e3_def emit_def initProgramData_group_def upd_program_def p0)
  obtain q where q: "sg_programs (e_shared (foldl (link_uniform H program m) e5 [0..<length us])) program = Some q"
    and "filled us (length us) q"
    using link_uniforms_filled [OF assms(1,2) order_refl p5 filled_initProgramData [OF assms(2)]] by blast
  moreover have "s_glLinkProgram junk H e program = (let e6 = foldl (link_uniform H program m) e5 [0..<length us]
      in e6\<lparr>e_shared := setupLocationShiftWAR (e_shared e6) program\<rparr>)"
    unfolding s_glLinkProgram_def Let_def e5_def m_def e3_def
    by (simp add: emit_def reportsD [OF assms(1)])
  ultimately show ?thesis
    using filled_setup [OF _ assms(2-4)] by (simp add: setupLocationShiftWAR_def upd_program_def Let_def)
qed

section \<open>Using the program\<close>

lemma updateHostTexture2DBinding_shared [simp]:
  "updateHostTexture2DBinding e u t = (e1, c) \<Longrightarrow> e_shared e1 = e_shared e"
  by (auto simp: updateHostTexture2DBinding_def emit_def Let_def split: if_splits)

lemma currentProgram_kept [simp]:
  "cs_currentProgram (fst (setActiveTextureUnit s u)) = cs_currentProgram s"
  "cs_currentProgram (enableTextureTarget s t) = cs_currentProgram s"
  "cs_currentProgram (disableTextureTarget s t) = cs_currentProgram s"
  by (simp_all add: setActiveTextureUnit_def enableTextureTarget_def disableTextureTarget_def
      upd_unit_def Let_def)

lemma updateHostTexture2DBinding_program [simp]:
  "updateHostTexture2DBinding e u t = (e1, c)
   \<Longrightarrow> cs_currentProgram (e_state e1) = cs_currentProgram (e_state e)"
  by (auto simp: updateHostTexture2DBinding_def emit_def Let_def split: if_splits)

lemma use_samplers_kept:
  "e_shared (fst (use_samplers e program idx a)) = e_shared e
   \<and> cs_currentProgram (e_state (fst (use_samplers e program idx a))) = cs_currentProgram (e_state e)"
proof (induction e program idx a rule: use_samplers.induct)
  case (1 e program idx a)
  then show ?case
    by (subst (1 2) use_samplers.simps)
      (auto split: option.splits prod.splits)
qed

lemma s_glUseProgram_kept:
  "e_shared (s_glUseProgram e program) = e_shared e"
  "cs_currentProgram (e_state (s_glUseProgram e program)) = sint program"
  using use_samplers_kept [of "(emit e (H_program (UseProgram program)))\<lparr>e_state :=
      setCurrentProgram (e_state e) (sint program)\<rparr>" program "- 1" "getActiveTextureUnit
      (setCurrentProgram (e_state e) (sint program))"]
  by (simp_all add: s_glUseProgram_def emit_def setCurrentProgram_def Let_def case_prod_beta)

section \<open>Names of array elements\<close>

text \<open>The value of a string of digits.\<close>

definition digits_value :: "string \<Rightarrow> int" where
  "digits_value ds = foldl (\<lambda>a c. 10 * a + (int (of_char c) - 48)) 0 ds"

lemma after_bracket_element:
  assumes "list_all is_digit ds"
  shows "after_bracket (v @ ''['' @ ds @ '']'') = Some (ds @ '']'')"
proof -
  have "CHR ''['' \<notin> set ds" using assms by (auto simp: list_all_iff is_digit_def)
  then have "takeWhile (\<lambda>c. c \<noteq> CHR ''['') (rev (v @ ''['' @ ds @ '']'')) = CHR '']'' # rev ds"
    by (subst append_assoc [symmetric]) (simp add: takeWhile_append2 takeWhile_tail, metis)
  then show ?thesis by (simp add: after_bracket_def)
qed

lemma scan_int_digits:
  assumes "ds \<noteq> []" and "list_all is_digit ds" and "int_range (digits_value ds)"
  shows "scan_int (ds @ '']'') = Some (digits_value ds)"
proof -
  obtain d ds' where ds: "ds = d # ds'" using assms(1) by (cases ds) auto
  have d: "\<not> is_space d" "d \<noteq> CHR ''-''" "d \<noteq> CHR ''+''"
    using assms(2) by (auto simp: ds is_digit_def is_space_def)
  have "takeWhile is_digit (ds @ '']'') = ds"
    using assms(2) by (simp add: takeWhile_append list_all_iff is_digit_def)
  then show ?thesis
    using d assms(3) by (simp add: scan_int_def ds digits_value_def Let_def)
qed

section \<open>From the name to the host\<close>

lemma location_of_element:
  assumes "sg_programs (e_shared e) program = Some p" and "pd_locShiftWAR p"
    and "ds \<noteq> []" and "list_all is_digit ds" and "int_range (digits_value ds)"
    and "nm = v @ ''['' @ ds @ '']''"
    and "h_int H (e_calls e @ [H_program (GetUniformLocation program nm)]) = h" and "0 \<le> h"
    and "locationWARHostToApp_program p h (digits_value ds) = (q, app)"
  shows "s_glGetUniformLocation H e program (Some nm) =
    Some (e\<lparr>e_calls := e_calls e @ [H_program (GetUniformLocation program nm)],
            e_shared := (e_shared e)\<lparr>sg_programs := (sg_programs (e_shared e))(program \<mapsto> q)\<rparr>\<rparr>, app)"
proof -
  have l: "last nm = CHR '']''" "nm \<noteq> []" by (simp_all add: assms(6))
  have b: "Option.bind (after_bracket nm) scan_int = Some (digits_value ds)"
    using after_bracket_element [OF assms(4), of v] scan_int_digits [OF assms(3-5)]
    by (simp add: assms(6))
  show ?thesis
    using assms(1,2,7-9) l b
    by (simp add: s_glGetUniformLocation_def needUniformLocationWAR_def emit_def
        locationWARHostToApp_def Let_def)
qed

text \<open>
  C3. A value set through an array element's location arrives at the host location of that very
  element. When an application links a program whose uniforms the host reports at locations
  that are multiples of \<open>2^16\<close>, makes it current and asks for the location of \<open>v[k]\<close>, whose
  elements lie \<open>w\<close> apart on the host, it gets the \<open>k\<close>-th location of the uniform's own range, and
  \<open>glUniform\<close> on it sends the host's location of the element; after \<open>k > 0\<close> this holds for every
  element of the array, also those it never asked for.
\<close>

theorem uniform_reaches_host:
  fixes junk :: "nat \<Rightarrow> index_info"
  assumes "isProgram (e_shared e) program" and "reports H program us names"
    and "uniforms_ok us" and "1 < length us" and "\<forall>u \<in> set us. fst u AND 0xffff = 0"
    and "ds \<noteq> []" and "list_all is_digit ds" and "digits_value ds = k"
    and "0 \<le> k" and "k < fst (snd (us ! i))" and "0 \<le> w"
    and "own_location us i (fst (us ! i) + fst (snd (us ! i)) * w)"
    and "nm = v @ ''['' @ ds @ '']''"
    and "\<forall>cs. h_int H (cs @ [H_program (GetUniformLocation program nm)]) = fst (us ! i) + k * w"
    and e1: "e1 = s_glUseProgram (s_glLinkProgram junk H e program) program"
  shows "\<exists>e2. s_glGetUniformLocation H e1 program (Some nm) = Some (e2, app_base us i + k)
    \<and> e_calls (s_glUniform1f e2 (app_base us i + k) x)
        = e_calls e1 @ [H_program (GetUniformLocation program nm), H_uniform (U1f (fst (us ! i) + k * w) x)]
    \<and> (0 < k \<longrightarrow> (\<forall>m. 0 \<le> m \<longrightarrow> m < fst (snd (us ! i)) \<longrightarrow>
          host_location e2 (app_base us i + m) = fst (us ! i) + m * w))"
proof -
  obtain p where p: "sg_programs (e_shared e1) program = Some p" and l: "laid_out us p"
    using link_laid_out [OF assms(2-5,1)] by (auto simp: e1 s_glUseProgram_kept)
  obtain q app where q: "locationWARHostToApp_program p (fst (us ! i) + k * w) k = (q, app)"
    by fastforce
  note rt = round_trip_laid_out [OF l assms(9-12), unfolded q prod.case]
  have i: "i < length us" "0 \<le> fst (us ! i)" using assms(12) by (auto simp: own_location_def)
  have "int_range k"
    using assms(9,10) i app_base_range [OF assms(3), of "Suc i"] app_base_nonneg [OF assms(3), of i]
      app_base_Suc [OF i(1)] by (auto simp: int_range_def)
  then have "s_glGetUniformLocation H e1 program (Some nm) =
    Some (e1\<lparr>e_calls := e_calls e1 @ [H_program (GetUniformLocation program nm)],
        e_shared := (e_shared e1)\<lparr>sg_programs := (sg_programs (e_shared e1))(program \<mapsto> q)\<rparr>\<rparr>, app)"
    using assms(9,11,14) i by (intro location_of_element [where h = "fst (us ! i) + k * w",
          OF p laid_outD(2) [OF l] assms(6,7) _ assms(13)]) (simp_all add: assms(8) q)
  moreover have "(word_of_int (cs_currentProgram (e_state e1)) :: u32) = program"
    by (simp add: e1 s_glUseProgram_kept)
  ultimately show ?thesis
    using rt by (auto simp: s_glUniform1f_def emit_def host_location_def locationWARAppToHost_def)
qed

text \<open>A host with a sampler \<open>s\<close> at 0 and an array \<open>v\<close> of three at 65536, four locations apart.\<close>

definition array_host :: host where
  "array_host = \<lparr>
     h_int = (\<lambda>cs. case last cs of
        H_program (GetProgramiv p n) \<Rightarrow> (if n = GL_LINK_STATUS then 1 else if n = GL_ACTIVE_UNIFORMS then 2 else 16)
      | H_program (GetUniformLocation p n) \<Rightarrow> (if n = ''s'' then 0 else if n = ''v[2]'' then 65544 else 65536)
      | _ \<Rightarrow> 0),
     h_word = (\<lambda>_. 5), h_ints = (\<lambda>_. []), h_floats = (\<lambda>_. []), h_bytes = (\<lambda>_. []),
     h_uniform = (\<lambda>cs. case last cs of
        H_program (GetActiveUniform p i m) \<Rightarrow>
          (if i = 0 then (1, GL_SAMPLER_2D, ''s'') else (3, GL_FLOAT, ''v[0]''))
      | _ \<Rightarrow> (0, 0, []))\<rparr>"

theorem uniform_reaches_host_witness:
  "let e = fst (s_glCreateProgram array_host (GL2Encoder_new (GLClientState_new (\<lambda>_. blank_attrib) 16)
             GLSharedGroup_new));
       e1 = s_glUseProgram (s_glLinkProgram (\<lambda>_. blank_index) array_host e 5) 5
   in \<exists>e2. s_glGetUniformLocation array_host e1 5 (Some ''v[2]'') = Some (e2, 3)
      \<and> e_calls (s_glUniform1f e2 3 0) = e_calls e1 @
          [H_program (GetUniformLocation 5 ''v[2]''), H_uniform (U1f 65544 0)]
      \<and> host_location e2 2 = 65540"
proof -
  let ?e = "fst (s_glCreateProgram array_host (GL2Encoder_new (GLClientState_new (\<lambda>_. blank_attrib) 16)
             GLSharedGroup_new))"
  let ?e1 = "s_glUseProgram (s_glLinkProgram (\<lambda>_. blank_index) array_host ?e 5) 5"
  have "reports array_host 5 two_uniforms (\<lambda>i. if i = 0 then ''s'' else ''v[0]'')"
    by (simp add: reports_def array_host_def two_uniforms_def less_Suc_eq)
  moreover have "isProgram (e_shared ?e) 5"
    by (simp add: s_glCreateProgram_def array_host_def isProgram_def addProgramData_def emit_def Let_def)
  ultimately have "\<exists>e2. s_glGetUniformLocation array_host ?e1 5 (Some ''v[2]'')
        = Some (e2, app_base two_uniforms 1 + 2)
      \<and> e_calls (s_glUniform1f e2 (app_base two_uniforms 1 + 2) 0) = e_calls ?e1 @
          [H_program (GetUniformLocation 5 ''v[2]''), H_uniform (U1f (fst (two_uniforms ! 1) + 2 * 4) 0)]
      \<and> (0 < (2::int) \<longrightarrow> (\<forall>m. 0 \<le> m \<longrightarrow> m < fst (snd (two_uniforms ! 1)) \<longrightarrow>
          host_location e2 (app_base two_uniforms 1 + m) = fst (two_uniforms ! 1) + m * 4))"
    by (intro uniform_reaches_host [where ds = "''2''" and v = "''v''"])
      (simp_all add: two_uniforms_def uniforms_ok_def app_base_def int_range_def own_location_def
        less_Suc_eq digits_value_def is_digit_def array_host_def)
  then obtain e2 where "s_glGetUniformLocation array_host ?e1 5 (Some ''v[2]'') = Some (e2, 3)"
    and "e_calls (s_glUniform1f e2 3 0) = e_calls ?e1 @
          [H_program (GetUniformLocation 5 ''v[2]''), H_uniform (U1f 65544 0)]"
    and "\<forall>m. 0 \<le> m \<longrightarrow> m < 3 \<longrightarrow> host_location e2 (1 + m) = 65536 + m * 4"
    by (auto simp: two_uniforms_def app_base_def)
  moreover from this(3) have "host_location e2 2 = 65540" by (auto dest: spec [of _ 1])
  ultimately show ?thesis by (auto simp: Let_def)
qed

end
