(* ===== verification/GL1Encoder.thy ===== *)
theory GL1Encoder
  imports GL2Encoder
begin

text \<open>
  \<open>common/opengl/system/GLESv1_enc/GLEncoder.cpp\<close>: the OpenGL ES 1 entry points of the guest.
  The encoder object has the fields of the one of OpenGL ES 2 and is modelled by the same
  record. Half of the functions have the text of their namesakes in \<open>GL2Encoder.cpp\<close>; these
  are named after them with the suffix \<open>_1\<close>, and the rest is translated here: fixed-function
  arrays with their enables, the enables of texture targets, fixed-point queries.
\<close>

abbreviation (input) GL_MAX_TEXTURE_UNITS_1 :: GLenum where "GL_MAX_TEXTURE_UNITS_1 \<equiv> 0x84E2"
abbreviation (input) GL_GENERATE_MIPMAP_1 :: GLenum where "GL_GENERATE_MIPMAP_1 \<equiv> 0x8191"

section \<open>Functions shared with OpenGL ES 2\<close>

definition GLEncoder_new :: "client_state \<Rightarrow> shared_group \<Rightarrow> encoder" where
  "GLEncoder_new = GL2Encoder_new"

subsection \<open>Errors, state queries and pixel storage\<close>

definition s_glGetError_1 ::
  "host \<Rightarrow> encoder \<Rightarrow> encoder \<times> GLenum"
where
  "s_glGetError_1 = s_glGetError"

definition s_glFlush_1 :: "encoder \<Rightarrow> encoder" where
  "s_glFlush_1 = s_glFlush"

definition s_glFinish_1 :: "encoder \<Rightarrow> encoder" where
  "s_glFinish_1 = s_glFinish"

definition s_glPixelStorei_1 ::
  "encoder \<Rightarrow> GLenum \<Rightarrow> int \<Rightarrow> encoder"
where
  "s_glPixelStorei_1 = s_glPixelStorei"

definition getCompressedTextureFormats_1 ::
  "host \<Rightarrow> encoder \<Rightarrow> encoder \<times> int list option"
where
  "getCompressedTextureFormats_1 = getCompressedTextureFormats"

subsection \<open>Buffers\<close>

definition s_glBindBuffer_1 ::
  "encoder \<Rightarrow> GLenum \<Rightarrow> GLuint \<Rightarrow> encoder"
where
  "s_glBindBuffer_1 = s_glBindBuffer"

definition s_glBufferData_1 ::
  "allocator \<Rightarrow> encoder \<Rightarrow> GLenum \<Rightarrow> int \<Rightarrow> byte list option \<Rightarrow> GLenum \<Rightarrow> encoder ub"
where
  "s_glBufferData_1 = s_glBufferData"

definition s_glBufferSubData_1 ::
  "encoder \<Rightarrow> GLenum \<Rightarrow> int \<Rightarrow> int \<Rightarrow> byte list \<Rightarrow> encoder ub"
where
  "s_glBufferSubData_1 = s_glBufferSubData"

definition s_glDeleteBuffers_1 ::
  "encoder \<Rightarrow> int \<Rightarrow> GLuint list \<Rightarrow> encoder"
where
  "s_glDeleteBuffers_1 = s_glDeleteBuffers"

subsection \<open>Textures\<close>

definition s_glActiveTexture_1 :: "encoder \<Rightarrow> GLenum \<Rightarrow> encoder" where
  "s_glActiveTexture_1 = s_glActiveTexture"

definition s_glBindTexture_1 ::
  "(size_t \<Rightarrow> bool) \<Rightarrow> encoder \<Rightarrow> GLenum \<Rightarrow> GLuint \<Rightarrow> encoder"
where
  "s_glBindTexture_1 = s_glBindTexture"

definition s_glDeleteTextures_1 :: "encoder \<Rightarrow> GLuint list \<Rightarrow> encoder" where
  "s_glDeleteTextures_1 = s_glDeleteTextures"

definition override2DTextureTarget_1 :: "encoder \<Rightarrow> GLenum \<Rightarrow> encoder" where
  "override2DTextureTarget_1 = override2DTextureTarget"

definition restore2DTextureTarget_1 :: "encoder \<Rightarrow> encoder" where
  "restore2DTextureTarget_1 = restore2DTextureTarget"

definition s_glGetTexParameterfv_1 ::
  "host \<Rightarrow> encoder \<Rightarrow> GLenum \<Rightarrow> GLenum \<Rightarrow> encoder \<times> GLfloat list"
where
  "s_glGetTexParameterfv_1 = s_glGetTexParameterfv"

definition s_glGetTexParameteriv_1 ::
  "host \<Rightarrow> encoder \<Rightarrow> GLenum \<Rightarrow> GLenum \<Rightarrow> encoder \<times> int list"
where
  "s_glGetTexParameteriv_1 = s_glGetTexParameteriv"

definition s_glTexImage2D_1 ::
  "encoder \<Rightarrow> GLenum \<Rightarrow> int \<Rightarrow> int \<Rightarrow> int \<Rightarrow> int \<Rightarrow> int \<Rightarrow> GLenum \<Rightarrow> GLenum \<Rightarrow> addr \<Rightarrow> encoder"
where
  "s_glTexImage2D_1 = s_glTexImage2D"

definition s_glTexSubImage2D_1 ::
  "encoder \<Rightarrow> GLenum \<Rightarrow> int \<Rightarrow> int \<Rightarrow> int \<Rightarrow> int \<Rightarrow> int \<Rightarrow> GLenum \<Rightarrow> GLenum \<Rightarrow> addr \<Rightarrow> encoder"
where
  "s_glTexSubImage2D_1 = s_glTexSubImage2D"

definition s_glCompressedTexImage2D_1 ::
  "encoder \<Rightarrow> GLenum \<Rightarrow> int \<Rightarrow> GLenum \<Rightarrow> int \<Rightarrow> int \<Rightarrow> int \<Rightarrow> int \<Rightarrow> addr \<Rightarrow> encoder"
where
  "s_glCompressedTexImage2D_1 = s_glCompressedTexImage2D"

definition s_glCompressedTexSubImage2D_1 ::
  "encoder \<Rightarrow> GLenum \<Rightarrow> int \<Rightarrow> int \<Rightarrow> int \<Rightarrow> int \<Rightarrow> int \<Rightarrow> GLenum \<Rightarrow> int \<Rightarrow> addr \<Rightarrow> encoder"
where
  "s_glCompressedTexSubImage2D_1 = s_glCompressedTexSubImage2D"

definition s_glCopyTexImage2D_1 ::
  "encoder \<Rightarrow> GLenum \<Rightarrow> int \<Rightarrow> GLenum \<Rightarrow> int \<Rightarrow> int \<Rightarrow> int \<Rightarrow> int \<Rightarrow> int \<Rightarrow> encoder"
where
  "s_glCopyTexImage2D_1 = s_glCopyTexImage2D"

definition s_glCopyTexSubImage2D_1 ::
  "encoder \<Rightarrow> GLenum \<Rightarrow> int \<Rightarrow> int \<Rightarrow> int \<Rightarrow> int \<Rightarrow> int \<Rightarrow> int \<Rightarrow> int \<Rightarrow> encoder"
where
  "s_glCopyTexSubImage2D_1 = s_glCopyTexSubImage2D"

definition s_glGenerateMipmapOES_1 :: "encoder \<Rightarrow> GLenum \<Rightarrow> encoder" where
  "s_glGenerateMipmapOES_1 = s_glGenerateMipmap"

section \<open>State queries\<close>

text \<open>
  The results are what is stored at the caller's pointer. The default branches ask the client
  state first; \<open>None\<close> is a NULL dereference there.
\<close>

definition s_glGetString_1 :: "GLenum \<Rightarrow> string" where
  "s_glGetString_1 name =
     (if name = GL_VENDOR then ''Android''
      else if name = GL_RENDERER then ''Android HW-GLES 1.0''
      else if name = GL_VERSION then ''OpenGL ES-CM 1.0''
      else [])"

definition s_glGetIntegerv_1 :: "host \<Rightarrow> encoder \<Rightarrow> GLenum \<Rightarrow> (encoder \<times> int list) ub" where
  "s_glGetIntegerv_1 H e param =
     (if param = GL_COMPRESSED_TEXTURE_FORMATS then
        (case getCompressedTextureFormats_1 H e of (e1, fs) \<Rightarrow>
           Some (e1, if 0 < e_num_formats e1 then (case fs of None \<Rightarrow> [] | Some l \<Rightarrow> l) else []))
      else if param = GL_MAX_TEXTURE_UNITS_1 then
        (let e1 = emit e (H_query (GetIntegerv param))
         in Some (e1, head_map (\<lambda>v. min v (int MAX_TEXTURE_UNITS)) (h_ints H (e_calls e1))))
      else if param = GL_TEXTURE_BINDING_2D then
        Some (e, [sint (getBoundTexture (e_state e) GL_TEXTURE_2D)])
      else if param = GL_TEXTURE_BINDING_EXTERNAL_OES then
        Some (e, [sint (getBoundTexture (e_state e) GL_TEXTURE_EXTERNAL_OES)])
      else (case getClientStateParameter (e_state e) param of
              None \<Rightarrow> None
            | Some (True, v) \<Rightarrow> Some (e, case v of None \<Rightarrow> [] | Some x \<Rightarrow> [i32 x])
            | Some (False, _) \<Rightarrow>
                (let e1 = emit e (H_query (GetIntegerv param)) in Some (e1, h_ints H (e_calls e1)))))"

definition s_glGetFloatv_1 ::
  "float_ops \<Rightarrow> host \<Rightarrow> encoder \<Rightarrow> GLenum \<Rightarrow> (encoder \<times> GLfloat list) ub"
where
  "s_glGetFloatv_1 F H e param =
     (if param = GL_COMPRESSED_TEXTURE_FORMATS then
        (case getCompressedTextureFormats_1 H e of (e1, fs) \<Rightarrow>
           Some (e1, if 0 < e_num_formats e1
                     then (case fs of None \<Rightarrow> [] | Some l \<Rightarrow> map (f_of_int F) l) else []))
      else if param = GL_MAX_TEXTURE_UNITS_1 then
        (let e1 = emit e (H_query (GetFloatv param)); top = f_of_int F (int MAX_TEXTURE_UNITS)
         in Some (e1, head_map (\<lambda>v. if f_less F v top then v else top) (h_floats H (e_calls e1))))
      else if param = GL_TEXTURE_BINDING_2D then
        Some (e, [f_of_int F (uint (getBoundTexture (e_state e) GL_TEXTURE_2D))])
      else if param = GL_TEXTURE_BINDING_EXTERNAL_OES then
        Some (e, [f_of_int F (uint (getBoundTexture (e_state e) GL_TEXTURE_EXTERNAL_OES))])
      else (case getClientStateParameter (e_state e) param of
              None \<Rightarrow> None
            | Some (True, v) \<Rightarrow> Some (e, case v of None \<Rightarrow> [] | Some x \<Rightarrow> [f_of_int F x])
            | Some (False, _) \<Rightarrow>
                (let e1 = emit e (H_query (GetFloatv param)) in Some (e1, h_floats H (e_calls e1)))))"

text \<open>
  Fixed-point numbers have 16 fractional bits, but the answers of the client state are not
  shifted.
\<close>

definition s_glGetFixedv_1 :: "host \<Rightarrow> encoder \<Rightarrow> GLenum \<Rightarrow> (encoder \<times> GLfixed list) ub" where
  "s_glGetFixedv_1 H e param =
     (if param = GL_COMPRESSED_TEXTURE_FORMATS then
        (case getCompressedTextureFormats_1 H e of (e1, fs) \<Rightarrow>
           Some (e1, if 0 < e_num_formats e1
                     then (case fs of None \<Rightarrow> [] | Some l \<Rightarrow> map (\<lambda>x. i32 (x * 65536)) l) else []))
      else if param = GL_MAX_TEXTURE_UNITS_1 then
        (let e1 = emit e (H_gl1 (GetFixedv param))
         in Some (e1, head_map (\<lambda>v. min v (int MAX_TEXTURE_UNITS * 65536)) (h_ints H (e_calls e1))))
      else if param = GL_TEXTURE_BINDING_2D then
        Some (e, [sint (push_bit 16 (getBoundTexture (e_state e) GL_TEXTURE_2D))])
      else if param = GL_TEXTURE_BINDING_EXTERNAL_OES then
        Some (e, [sint (push_bit 16 (getBoundTexture (e_state e) GL_TEXTURE_EXTERNAL_OES))])
      else (case getClientStateParameter (e_state e) param of
              None \<Rightarrow> None
            | Some (True, v) \<Rightarrow> Some (e, case v of None \<Rightarrow> [] | Some x \<Rightarrow> [i32 x])
            | Some (False, _) \<Rightarrow>
                (let e1 = emit e (H_gl1 (GetFixedv param)) in Some (e1, h_ints H (e_calls e1)))))"

definition s_glGetBooleanv_1 :: "host \<Rightarrow> encoder \<Rightarrow> GLenum \<Rightarrow> (encoder \<times> byte list) ub" where
  "s_glGetBooleanv_1 H e param =
     (if param = GL_COMPRESSED_TEXTURE_FORMATS then
        (case getCompressedTextureFormats_1 H e of (e1, fs) \<Rightarrow>
           Some (e1, if 0 < e_num_formats e1
                     then (case fs of None \<Rightarrow> [] | Some l \<Rightarrow> map (\<lambda>x. truth (x \<noteq> 0)) l) else []))
      else if param = GL_TEXTURE_BINDING_2D then
        Some (e, [truth (getBoundTexture (e_state e) GL_TEXTURE_2D \<noteq> 0)])
      else if param = GL_TEXTURE_BINDING_EXTERNAL_OES then
        Some (e, [truth (getBoundTexture (e_state e) GL_TEXTURE_EXTERNAL_OES \<noteq> 0)])
      else (case getClientStateParameter (e_state e) param of
              None \<Rightarrow> None
            | Some (True, v) \<Rightarrow> Some (e, case v of None \<Rightarrow> [] | Some x \<Rightarrow> [word_of_int x])
            | Some (False, _) \<Rightarrow>
                (let e1 = emit e (H_query (GetBooleanv param)) in Some (e1, h_bytes H (e_calls e1)))))"

definition s_glGetPointerv_1 :: "encoder \<Rightarrow> GLenum \<Rightarrow> addr option" where
  "s_glGetPointerv_1 e param = getClientStatePointer (e_state e) param"

definition pixelDataSize_1 :: "encoder \<Rightarrow> int \<Rightarrow> int \<Rightarrow> GLenum \<Rightarrow> GLenum \<Rightarrow> int \<Rightarrow> size_t" where
  "pixelDataSize_1 e width height format type pack =
     pixelDataSize (e_state e) width height format type (pack \<noteq> 0)"

section \<open>Fixed-function arrays\<close>

definition set_array :: "encoder \<Rightarrow> int \<Rightarrow> int \<Rightarrow> GLenum \<Rightarrow> int \<Rightarrow> addr \<Rightarrow> encoder" where
  "set_array e location sz type stride data =
     e\<lparr>e_state := setState (e_state e) location sz type 0 stride data\<rparr>"

definition s_glVertexPointer_1 :: "encoder \<Rightarrow> int \<Rightarrow> GLenum \<Rightarrow> int \<Rightarrow> addr \<Rightarrow> encoder" where
  "s_glVertexPointer_1 e sz type stride data = set_array e VERTEX_LOCATION sz type stride data"

definition s_glNormalPointer_1 :: "encoder \<Rightarrow> GLenum \<Rightarrow> int \<Rightarrow> addr \<Rightarrow> encoder" where
  "s_glNormalPointer_1 e type stride data = set_array e NORMAL_LOCATION 3 type stride data"

definition s_glColorPointer_1 :: "encoder \<Rightarrow> int \<Rightarrow> GLenum \<Rightarrow> int \<Rightarrow> addr \<Rightarrow> encoder" where
  "s_glColorPointer_1 e sz type stride data = set_array e COLOR_LOCATION sz type stride data"

definition s_glPointsizePointer_1 :: "encoder \<Rightarrow> GLenum \<Rightarrow> int \<Rightarrow> addr \<Rightarrow> encoder" where
  "s_glPointsizePointer_1 e type stride data = set_array e POINTSIZE_LOCATION 1 type stride data"

definition s_glTexcoordPointer_1 :: "encoder \<Rightarrow> int \<Rightarrow> GLenum \<Rightarrow> int \<Rightarrow> addr \<Rightarrow> encoder" where
  "s_glTexcoordPointer_1 e sz type stride data =
     set_array e (getLocation (e_state e) GL_TEXTURE_COORD_ARRAY) sz type stride data"

definition s_glMatrixIndexPointerOES_1 :: "encoder \<Rightarrow> int \<Rightarrow> GLenum \<Rightarrow> int \<Rightarrow> addr \<Rightarrow> encoder" where
  "s_glMatrixIndexPointerOES_1 e sz type stride data =
     set_array e (getLocation (e_state e) GL_MATRIX_INDEX_ARRAY_OES) sz type stride data"

definition s_glWeightPointerOES_1 :: "encoder \<Rightarrow> int \<Rightarrow> GLenum \<Rightarrow> int \<Rightarrow> addr \<Rightarrow> encoder" where
  "s_glWeightPointerOES_1 e sz type stride data =
     set_array e (getLocation (e_state e) GL_WEIGHT_ARRAY_OES) sz type stride data"

text \<open>Nothing is sent: the unit is stored as it is.\<close>

definition s_glClientActiveTexture_1 :: "encoder \<Rightarrow> GLenum \<Rightarrow> encoder" where
  "s_glClientActiveTexture_1 e texture =
     e\<lparr>e_state := setActiveTexture (e_state e) (sint (texture - GL_TEXTURE0))\<rparr>"

definition s_glEnableClientState_1 :: "encoder \<Rightarrow> GLenum \<Rightarrow> encoder" where
  "s_glEnableClientState_1 e state =
     e\<lparr>e_state := enable (e_state e) (getLocation (e_state e) state) 1\<rparr>"

definition s_glDisableClientState_1 :: "encoder \<Rightarrow> GLenum \<Rightarrow> encoder" where
  "s_glDisableClientState_1 e state =
     e\<lparr>e_state := enable (e_state e) (getLocation (e_state e) state) 0\<rparr>"

definition s_glIsEnabled_1 :: "host \<Rightarrow> encoder \<Rightarrow> GLenum \<Rightarrow> encoder \<times> byte" where
  "s_glIsEnabled_1 H e cap =
     (case getState (e_state e) (getLocation (e_state e) cap) of
        Some v \<Rightarrow> (e, word_of_int (va_enabled v))
      | None \<Rightarrow> (let e1 = emit e (H_gl1 (IsEnabled cap)) in (e1, ucast (h_word H (e_calls e1)))))"

section \<open>Drawing\<close>

text \<open>
  The two switches of \<open>sendVertexData\<close>: what the call that sends array \<open>i\<close> is. Both know all
  14 locations; a texture coordinate array in a buffer object carries no unit.
\<close>

definition data_kind :: "nat \<Rightarrow> vertex_attrib \<Rightarrow> array_kind option" where
  "data_kind i v =
     (if int i = VERTEX_LOCATION then Some (Vertex_array (va_size v))
      else if int i = NORMAL_LOCATION then Some Normal_array
      else if int i = COLOR_LOCATION then Some (Color_array (va_size v))
      else if TEXCOORD0_LOCATION \<le> int i \<and> int i \<le> TEXCOORD0_LOCATION + 7
        then Some (Texcoord_data (i - nat TEXCOORD0_LOCATION) (va_size v))
      else if int i = POINTSIZE_LOCATION then Some Point_size_array
      else if int i = WEIGHT_LOCATION then Some (Weight_array (va_size v))
      else if int i = MATRIXINDEX_LOCATION then Some (Matrix_index_array (va_size v))
      else None)"

definition offset_kind :: "nat \<Rightarrow> vertex_attrib \<Rightarrow> array_kind option" where
  "offset_kind i v =
     (if int i = VERTEX_LOCATION then Some (Vertex_array (va_size v))
      else if int i = NORMAL_LOCATION then Some Normal_array
      else if int i = POINTSIZE_LOCATION then Some Point_size_array
      else if int i = COLOR_LOCATION then Some (Color_array (va_size v))
      else if TEXCOORD0_LOCATION \<le> int i \<and> int i \<le> TEXCOORD0_LOCATION + 7
        then Some (Texcoord_offset (va_size v))
      else if int i = WEIGHT_LOCATION then Some (Weight_array (va_size v))
      else if int i = MATRIXINDEX_LOCATION then Some (Matrix_index_array (va_size v))
      else None)"

text \<open>One round of the loop.\<close>

definition send_client_array :: "int \<Rightarrow> int \<Rightarrow> encoder \<Rightarrow> nat \<Rightarrow> encoder" where
  "send_client_array first count e i =
     (case getStateAndEnableDirty (e_state e) (int i) of (s, r) \<Rightarrow>
        let e1 = e\<lparr>e_state := s\<rparr> in
        case r of
          None \<Rightarrow> e1
        | Some (v, dirty) \<Rightarrow>
            if \<not> dirty \<and> va_enabled v = 0 then e1
            else
              (let e2 = (if TEXCOORD0_LOCATION \<le> int i \<and> int i \<le> TEXCOORD0_LOCATION + 7
                         then emit e1 (H_gl1 (ClientActiveTexture
                                (GL_TEXTURE0 + of_nat i - word_of_int TEXCOORD0_LOCATION)))
                         else e1)
               in if va_enabled v \<noteq> 0 then
                    (let e3 = (if dirty then emit e2 (H_gl1 (EnableClientState (va_glConst v))) else e2);
                         datalen = va_elementSize v * word_of_int count;
                         stride = (if va_stride v = 0 then sint (va_elementSize v) else va_stride v);
                         firstIndex = i32 (stride * first)
                     in if va_bufferObject v = 0
                        then (case data_kind i v of None \<Rightarrow> e3
                              | Some k \<Rightarrow> emit e3 (H_gl1 (PointerData k (va_type v) (va_stride v)
                                             (va_data v + word_of_int firstIndex) datalen)))
                        else
                          (let e4 = emit e3 (H_glBindBuffer GL_ARRAY_BUFFER (va_bufferObject v));
                               e5 = (case offset_kind i v of None \<Rightarrow> e4
                                     | Some k \<Rightarrow> emit e4 (H_gl1 (PointerOffset k (va_type v) (va_stride v)
                                             (va_data v + word_of_int firstIndex))))
                           in emit e5 (H_glBindBuffer GL_ARRAY_BUFFER (cs_currentArrayVbo (e_state e5)))))
                  else emit e2 (H_gl1 (DisableClientState (va_glConst v)))))"

definition sendVertexData :: "encoder \<Rightarrow> int \<Rightarrow> int \<Rightarrow> encoder" where
  "sendVertexData e first count = foldl (send_client_array first count) e [0..<nat LAST_LOCATION]"

definition s_glDrawArrays_1 :: "encoder \<Rightarrow> GLenum \<Rightarrow> int \<Rightarrow> int \<Rightarrow> encoder" where
  "s_glDrawArrays_1 e mode first count =
     emit (sendVertexData e first count) (H_glDrawArrays mode 0 count)"

text \<open>
  The loop that looks for enabled arrays dereferences the slot of every location; a state has
  at least \<open>LAST_LOCATION\<close> of them.
\<close>

definition client_arrays :: "client_state \<Rightarrow> vertex_attrib list" where
  "client_arrays s = take (nat LAST_LOCATION) (cs_states s)"

definition has_immediate_arrays_1 :: "client_state \<Rightarrow> bool" where
  "has_immediate_arrays_1 s \<longleftrightarrow> (\<exists>v \<in> set (client_arrays s). va_enabled v \<noteq> 0 \<and> va_bufferObject v = 0)"

definition has_indirect_arrays_1 :: "client_state \<Rightarrow> bool" where
  "has_indirect_arrays_1 s \<longleftrightarrow> (\<exists>v \<in> set (client_arrays s). va_enabled v \<noteq> 0 \<and> va_bufferObject v \<noteq> 0)"

definition s_glDrawElements_1 ::
  "allocator \<Rightarrow> memory \<Rightarrow> encoder \<Rightarrow> GLenum \<Rightarrow> int \<Rightarrow> GLenum \<Rightarrow> addr \<Rightarrow> encoder ub"
where
  "s_glDrawElements_1 fresh m e mode count type indices =
     (let s = e_state e; vbo = cs_currentIndexVbo s in
      if count < 0 then Some (setError e GL_INVALID_VALUE)
      else if \<not> has_immediate_arrays_1 s \<and> \<not> has_indirect_arrays_1 s then Some e
      else if vbo \<noteq> 0 \<and> \<not> has_immediate_arrays_1 s then
        (let e1 = sendVertexData e 0 count;
             e2 = emit e1 (H_glBindBuffer GL_ELEMENT_ARRAY_BUFFER (cs_currentIndexVbo (e_state e1)))
         in Some (emit e2 (H_glDrawElementsOffset mode count type indices)))
      else
        (let source =
           (if vbo \<noteq> 0 then
              (case getBufferData (e_shared e) vbo of None \<Rightarrow> None
               | Some buf \<Rightarrow> Some (emit e (H_glBindBuffer GL_ELEMENT_ARRAY_BUFFER 0),
                                 buffer_indices buf indices))
            else Some (e, client_indices m indices))
         in case source of None \<Rightarrow> None
          | Some (e1, rd) \<Rightarrow>
              (case adjust_indices fresh e1 rd count type of None \<Rightarrow> None
               | Some (e2, adjusted, mn, mx) \<Rightarrow>
                   Some (emit (sendVertexData e2 mn (i32 (mx - mn + 1)))
                     (H_glDrawElementsData mode count type adjusted
                        (word_of_int count * glSizeof type))))))"

section \<open>Texture targets\<close>

text \<open>
  The host has one 2D target per unit, which stands for the 2D and the external target of the
  application: it is enabled while one of them is, and holds the binding of the one of higher
  priority.
\<close>

definition s_glDisable_1 :: "encoder \<Rightarrow> GLenum \<Rightarrow> encoder" where
  "s_glDisable_1 e cap =
     (if cap = GL_TEXTURE_2D \<or> cap = GL_TEXTURE_EXTERNAL_OES then
        (let prevTarget = getPriorityEnabledTarget (e_state e) GL_INVALID_ENUM;
             e1 = e\<lparr>e_state := disableTextureTarget (e_state e) cap\<rparr>;
             currTarget = getPriorityEnabledTarget (e_state e1) GL_INVALID_ENUM
         in if prevTarget \<noteq> currTarget then
              (let off = (currTarget = GL_INVALID_ENUM);
                   e2 = (if off then emit e1 (H_gl1 (Disable GL_TEXTURE_2D)) else e1);
                   currTarget = (if off then GL_TEXTURE_2D else currTarget)
               in emit e2 (H_glBindTexture GL_TEXTURE_2D (getBoundTexture (e_state e2) currTarget)))
            else e1)
      else emit e (H_gl1 (Disable cap)))"

definition s_glEnable_1 :: "encoder \<Rightarrow> GLenum \<Rightarrow> encoder" where
  "s_glEnable_1 e cap =
     (if cap = GL_TEXTURE_2D \<or> cap = GL_TEXTURE_EXTERNAL_OES then
        (let prevTarget = getPriorityEnabledTarget (e_state e) GL_INVALID_ENUM;
             e1 = e\<lparr>e_state := enableTextureTarget (e_state e) cap\<rparr>;
             currTarget = getPriorityEnabledTarget (e_state e1) GL_INVALID_ENUM
         in if prevTarget \<noteq> currTarget then
              (let e2 = (if prevTarget = GL_INVALID_ENUM
                         then emit e1 (H_gl1 (Enable GL_TEXTURE_2D)) else e1)
               in if currTarget = GL_TEXTURE_EXTERNAL_OES
                  then emit e2 (H_glBindTexture GL_TEXTURE_2D (getBoundTexture (e_state e2) currTarget))
                  else e2)
            else e1)
      else emit e (H_gl1 (Enable cap)))"

section \<open>Texture parameters\<close>

definition isValidTextureExternalParam_1 :: "GLenum \<Rightarrow> GLenum \<Rightarrow> bool" where
  "isValidTextureExternalParam_1 pname param \<longleftrightarrow>
     (if pname = GL_TEXTURE_MIN_FILTER \<or> pname = GL_TEXTURE_MAG_FILTER
        then param = GL_NEAREST \<or> param = GL_LINEAR
      else if pname = GL_TEXTURE_WRAP_S \<or> pname = GL_TEXTURE_WRAP_T
        then param = GL_CLAMP_TO_EDGE
      else if pname = GL_GENERATE_MIPMAP_1 then param = 0
      else True)"

definition s_glGetTexParameterxv_1 ::
  "host \<Rightarrow> encoder \<Rightarrow> GLenum \<Rightarrow> GLenum \<Rightarrow> encoder \<times> GLfixed list"
where
  "s_glGetTexParameterxv_1 H e target pname =
     (if target = GL_TEXTURE_2D \<or> target = GL_TEXTURE_EXTERNAL_OES then
        (let e1 = override2DTextureTarget_1 e target;
             e2 = emit e1 (H_texture GL_TEXTURE_2D (GetTexParameterxv pname))
         in (restore2DTextureTarget_1 e2, h_ints H (e_calls e2)))
      else (let e1 = emit e (H_texture target (GetTexParameterxv pname))
            in (e1, h_ints H (e_calls e1))))"

definition s_glTexParameterf_1 ::
  "float_ops \<Rightarrow> encoder \<Rightarrow> GLenum \<Rightarrow> GLenum \<Rightarrow> GLfloat \<Rightarrow> encoder"
where
  "s_glTexParameterf_1 F e target pname param =
     (if target = GL_TEXTURE_EXTERNAL_OES
         \<and> \<not> isValidTextureExternalParam_1 pname (f_to_enum F param)
      then setError e GL_INVALID_ENUM
      else if target = GL_TEXTURE_2D \<or> target = GL_TEXTURE_EXTERNAL_OES
      then restore2DTextureTarget_1 (emit (override2DTextureTarget_1 e target)
             (H_texture GL_TEXTURE_2D (TexParameterf pname param)))
      else emit e (H_texture target (TexParameterf pname param)))"

definition s_glTexParameterfv_1 ::
  "float_ops \<Rightarrow> encoder \<Rightarrow> GLenum \<Rightarrow> GLenum \<Rightarrow> GLfloat list \<Rightarrow> encoder"
where
  "s_glTexParameterfv_1 F e target pname param =
     (if target = GL_TEXTURE_EXTERNAL_OES
         \<and> \<not> isValidTextureExternalParam_1 pname (f_to_enum F (hd param))
      then setError e GL_INVALID_ENUM
      else if target = GL_TEXTURE_2D \<or> target = GL_TEXTURE_EXTERNAL_OES
      then restore2DTextureTarget_1 (emit (override2DTextureTarget_1 e target)
             (H_texture GL_TEXTURE_2D (TexParameterfv pname param)))
      else emit e (H_texture target (TexParameterfv pname param)))"

definition s_glTexParameteri_1 ::
  "encoder \<Rightarrow> GLenum \<Rightarrow> GLenum \<Rightarrow> int \<Rightarrow> encoder"
where
  "s_glTexParameteri_1 e target pname param =
     (if target = GL_TEXTURE_EXTERNAL_OES
         \<and> \<not> isValidTextureExternalParam_1 pname (word_of_int param)
      then setError e GL_INVALID_ENUM
      else if target = GL_TEXTURE_2D \<or> target = GL_TEXTURE_EXTERNAL_OES
      then restore2DTextureTarget_1 (emit (override2DTextureTarget_1 e target)
             (H_texture GL_TEXTURE_2D (TexParameteri pname param)))
      else emit e (H_texture target (TexParameteri pname param)))"

definition s_glTexParameterx_1 ::
  "encoder \<Rightarrow> GLenum \<Rightarrow> GLenum \<Rightarrow> GLfixed \<Rightarrow> encoder"
where
  "s_glTexParameterx_1 e target pname param =
     (if target = GL_TEXTURE_EXTERNAL_OES
         \<and> \<not> isValidTextureExternalParam_1 pname (word_of_int param)
      then setError e GL_INVALID_ENUM
      else if target = GL_TEXTURE_2D \<or> target = GL_TEXTURE_EXTERNAL_OES
      then restore2DTextureTarget_1 (emit (override2DTextureTarget_1 e target)
             (H_texture GL_TEXTURE_2D (TexParameterx pname param)))
      else emit e (H_texture target (TexParameterx pname param)))"

definition s_glTexParameteriv_1 ::
  "encoder \<Rightarrow> GLenum \<Rightarrow> GLenum \<Rightarrow> int list \<Rightarrow> encoder"
where
  "s_glTexParameteriv_1 e target pname param =
     (if target = GL_TEXTURE_EXTERNAL_OES
         \<and> \<not> isValidTextureExternalParam_1 pname (word_of_int (hd param))
      then setError e GL_INVALID_ENUM
      else if target = GL_TEXTURE_2D \<or> target = GL_TEXTURE_EXTERNAL_OES
      then restore2DTextureTarget_1 (emit (override2DTextureTarget_1 e target)
             (H_texture GL_TEXTURE_2D (TexParameteriv pname param)))
      else emit e (H_texture target (TexParameteriv pname param)))"

definition s_glTexParameterxv_1 ::
  "encoder \<Rightarrow> GLenum \<Rightarrow> GLenum \<Rightarrow> GLfixed list \<Rightarrow> encoder"
where
  "s_glTexParameterxv_1 e target pname param =
     (if target = GL_TEXTURE_EXTERNAL_OES
         \<and> \<not> isValidTextureExternalParam_1 pname (word_of_int (hd param))
      then setError e GL_INVALID_ENUM
      else if target = GL_TEXTURE_2D \<or> target = GL_TEXTURE_EXTERNAL_OES
      then restore2DTextureTarget_1 (emit (override2DTextureTarget_1 e target)
             (H_texture GL_TEXTURE_2D (TexParameterxv pname param)))
      else emit e (H_texture target (TexParameterxv pname param)))"

end
