(* ===== verification/GL2Coherence.thy ===== *)
theory GL2Coherence
  imports GL2Encoder
begin

text \<open>
  The encoder and the host stay in step. The guest shares the host's 2D texture target
  between the 2D and the external target of the application, and postpones the switching of
  vertex arrays to the next draw; the relation between both states that makes this work is an
  invariant of every entry point of \<open>GL2Encoder.cpp\<close>.
\<close>

section \<open>The relation\<close>

text \<open>The texture that a unit samples from: the one of its target of higher priority.\<close>

definition sampled :: "texture_unit \<Rightarrow> GLuint" where
  "sampled u = unit_texture u (unit_priority u GL_TEXTURE_2D)"

definition textures_agree :: "client_state \<Rightarrow> host_state \<Rightarrow> bool" where
  "textures_agree s h \<longleftrightarrow> hs_unit h = cs_activeUnit s
     \<and> (\<forall>u<MAX_TEXTURE_UNITS. hs_2d h u = sampled (cs_units s ! u))"

text \<open>An array whose flag on the host differs from the guest's is marked as dirty.\<close>

definition arrays_agree :: "client_state \<Rightarrow> host_state \<Rightarrow> bool" where
  "arrays_agree s h \<longleftrightarrow> (\<forall>i<length (cs_states s).
     va_enableDirty (cs_states s ! i) \<or> (i \<in> hs_enabled h \<longleftrightarrow> va_enabled (cs_states s ! i) \<noteq> 0))"

definition agree :: "client_state \<Rightarrow> host_state \<Rightarrow> bool" where
  "agree s h \<longleftrightarrow> textures_agree s h \<and> arrays_agree s h"

definition host_of :: "encoder \<Rightarrow> host_state" where
  "host_of e = host_run (e_calls e)"

definition enc_inv :: "encoder \<Rightarrow> bool" where
  "enc_inv e \<longleftrightarrow> cs_inv (e_state e) \<and> agree (e_state e) (host_of e)"

lemma enc_invI: "cs_inv (e_state e) \<Longrightarrow> agree (e_state e) (host_of e) \<Longrightarrow> enc_inv e"
  by (simp add: enc_inv_def)

lemma enc_invD:
  assumes "enc_inv e"
  shows "cs_inv (e_state e)" and "agree (e_state e) (host_of e)"
  using assms by (simp_all add: enc_inv_def)

text \<open>Calls that leave the host's part of the state alone.\<close>

lemma host_step_inert [simp]:
  "host_step h H_glFlush = h" "host_step h H_stream_flush = h" "host_step h H_glFinishRoundTrip = h"
  "host_step h (H_glPixelStorei p v) = h" "host_step h (H_glBufferData t sz d us) = h"
  "host_step h (H_glBufferSubData t off sz bs) = h" "host_step h (H_query q) = h"
  "host_step h (H_program pc) = h" "host_step h (H_uniform u) = h" "host_step h (H_texture t tc) = h"
  "host_step h (H_glVertexAttribPointerData i sz ty nm st ptr n) = h"
  "host_step h (H_glVertexAttribPointerOffset i sz ty nm st offs) = h"
  "host_step h (H_glDrawArrays m f cnt) = h" "host_step h (H_glDrawElementsOffset m cnt ty offs) = h"
  "host_step h (H_glDrawElementsData m cnt ty bs n) = h"
  by (simp_all add: host_step_def)

lemma emit_simps [simp]:
  "e_state (emit e c) = e_state e" "e_shared (emit e c) = e_shared e"
  "e_error (emit e c) = e_error e" "e_fixed (emit e c) = e_fixed e"
  "e_num_formats (emit e c) = e_num_formats e" "e_formats (emit e c) = e_formats e"
  "e_calls (emit e c) = e_calls e @ [c]"
  "host_of (emit e c) = host_step (host_of e) c"
  by (simp_all add: emit_def host_of_def)

lemma host_of_upd [simp]:
  "host_of (e\<lparr>e_state := s\<rparr>) = host_of e" "host_of (e\<lparr>e_shared := g\<rparr>) = host_of e"
  "host_of (e\<lparr>e_error := err\<rparr>) = host_of e" "host_of (e\<lparr>e_fixed := fb\<rparr>) = host_of e"
  "host_of (e\<lparr>e_formats := fs\<rparr>) = host_of e" "host_of (e\<lparr>e_num_formats := n\<rparr>) = host_of e"
  by (simp_all add: host_of_def)

lemma setError_simps [simp]:
  "e_state (setError e err) = e_state e" "host_of (setError e err) = host_of e"
  "e_shared (setError e err) = e_shared e" "e_calls (setError e err) = e_calls e"
  by (simp_all add: setError_def)

text \<open>A step that changes neither the client state nor what the host knows keeps the relation.\<close>

lemma enc_inv_frame:
  "enc_inv e \<Longrightarrow> e_state e' = e_state e \<Longrightarrow> host_of e' = host_of e \<Longrightarrow> enc_inv e'"
  by (simp add: enc_inv_def)

section \<open>Texture bindings\<close>

lemma sampled_simps:
  "sampled u = (if unit_priority u GL_TEXTURE_2D = GL_TEXTURE_EXTERNAL_OES then tu_external u else tu_2d u)"
  by (simp add: sampled_def unit_texture_def unit_priority_def)

lemma unit_priority_cases:
  "unit_priority u GL_TEXTURE_2D = GL_TEXTURE_2D \<or> unit_priority u GL_TEXTURE_2D = GL_TEXTURE_EXTERNAL_OES"
  by (simp add: unit_priority_def)

lemma unit_priority_upd [simp]:
  "unit_priority (u\<lparr>tu_2d := t\<rparr>) d = unit_priority u d"
  "unit_priority (u\<lparr>tu_external := t\<rparr>) d = unit_priority u d"
  by (simp_all add: unit_priority_def)

lemma agreeD:
  assumes "agree s h"
  shows "hs_unit h = cs_activeUnit s"
    and "u < MAX_TEXTURE_UNITS \<Longrightarrow> hs_2d h u = sampled (cs_units s ! u)"
    and "i < length (cs_states s) \<Longrightarrow> va_enableDirty (cs_states s ! i)
           \<or> (i \<in> hs_enabled h \<longleftrightarrow> va_enabled (cs_states s ! i) \<noteq> 0)"
  using assms by (simp_all add: agree_def textures_agree_def arrays_agree_def)

text \<open>
  The active unit changes to \<open>f\<close> of it, and the host binds what it samples from then, or did
  already.
\<close>

definition units_ok :: "client_state \<Rightarrow> bool" where
  "units_ok s \<longleftrightarrow> length (cs_units s) = MAX_TEXTURE_UNITS \<and> cs_activeUnit s < MAX_TEXTURE_UNITS"

lemma units_ok: "cs_inv s \<Longrightarrow> units_ok s"
  by (simp add: units_ok_def cs_invD)

lemma agree_upd_unit:
  assumes "units_ok s" and "agree s h" and "hs_unit h' = hs_unit h" and "hs_enabled h' = hs_enabled h"
    and "hs_2d h' = (hs_2d h)(hs_unit h := sampled (f (active_unit s)))"
  shows "agree (upd_unit s f) h'"
  using assms
  by (auto simp: units_ok_def agree_def textures_agree_def arrays_agree_def upd_unit_def nth_list_update)

lemma agree_upd_unit_same:
  assumes "units_ok s" and "agree s h" and "sampled (f (active_unit s)) = sampled (active_unit s)"
  shows "agree (upd_unit s f) h"
proof (rule agree_upd_unit [OF assms(1,2) refl refl])
  show "hs_2d h = (hs_2d h)(hs_unit h := sampled (f (active_unit s)))"
    using assms(1,3) agreeD(1,2) [OF assms(2)]
    by (simp add: active_unit_def fun_upd_idem units_ok_def)
qed

lemma agree_bind_sampled:
  assumes "units_ok s" and "agree s h" and "t = sampled (active_unit s)"
  shows "agree s (host_step h (H_glBindTexture GL_TEXTURE_2D t))"
  using assms agreeD(1,2) [OF assms(2)]
  by (auto simp: units_ok_def host_step_def agree_def textures_agree_def arrays_agree_def active_unit_def)

lemma agree_bind_other:
  "agree s h \<Longrightarrow> target \<noteq> GL_TEXTURE_2D \<Longrightarrow> agree s (host_step h (H_glBindTexture target t))"
  by (simp add: host_step_def)

text \<open>\<open>restore2DTextureTarget\<close> puts back what any binding before it has changed.\<close>

lemma bind_bind [simp]:
  "host_step (host_step h (H_glBindTexture GL_TEXTURE_2D a)) (H_glBindTexture GL_TEXTURE_2D b)
   = host_step h (H_glBindTexture GL_TEXTURE_2D b)"
  by (simp add: host_step_def)

lemma sampled_bound:
  "getBoundTexture s (getPriorityEnabledTarget s GL_TEXTURE_2D) = sampled (active_unit s)"
  by (simp add: getBoundTexture_def getPriorityEnabledTarget_def sampled_def)

lemma override_restore:
  assumes "enc_inv e"
  shows "enc_inv (restore2DTextureTarget (emit (override2DTextureTarget e target)
           (H_texture GL_TEXTURE_2D c)))"
proof -
  have a: "agree (e_state e) (host_step (host_of e) (H_glBindTexture GL_TEXTURE_2D (sampled (active_unit (e_state e)))))"
    using assms by (intro agree_bind_sampled) (simp_all add: enc_inv_def units_ok)
  then show ?thesis
    using assms by (auto simp: enc_inv_def restore2DTextureTarget_def override2DTextureTarget_def sampled_bound)
qed

lemma setActiveTextureUnit_agree:
  assumes "cs_inv s" and "agree s h"
  shows "agree (fst (setActiveTextureUnit s t)) (host_step h (H_glActiveTexture t))"
  using assms
  by (auto simp: setActiveTextureUnit_def Let_def host_step_def agree_def textures_agree_def
      arrays_agree_def not_le)

lemma s_glActiveTexture_inv: "enc_inv e \<Longrightarrow> enc_inv (s_glActiveTexture e t)"
  using setActiveTextureUnit_agree [of "e_state e" "host_of e" t]
    setActiveTextureUnit_inv [of "e_state e" t]
  by (auto simp: enc_inv_def s_glActiveTexture_def split: prod.splits)

text \<open>Binding a texture.\<close>

abbreviation bind_unit :: "client_state \<Rightarrow> GLenum \<Rightarrow> GLuint \<Rightarrow> client_state" where
  "bind_unit s target tid \<equiv>
     (if target = GL_TEXTURE_2D then upd_unit s (\<lambda>u. u\<lparr>tu_2d := tid\<rparr>)
      else if target = GL_TEXTURE_EXTERNAL_OES then upd_unit s (\<lambda>u. u\<lparr>tu_external := tid\<rparr>)
      else s)"

lemma bindTexture_shape:
  assumes "cs_inv s" and "name_ok tid" and "bindTexture ra s target tid = (s', err, first)"
  obtains "err \<noteq> GL_NO_ERROR" and "s' = s"
    | a ts where "err = GL_NO_ERROR"
        and "s' = bind_unit (s\<lparr>cs_allocTextures := a, cs_textures := ts\<rparr>) target tid"
proof -
  have same: "s\<lparr>cs_allocTextures := cs_allocTextures s, cs_textures := cs_textures s\<rparr> = s" by simp
  note ok = that(2) [of "cs_textures s" "cs_allocTextures s", unfolded same]
  from assms show ?thesis
  proof (cases rule: bindTexture_cases)
    case zero
    from zero(5) show ?thesis unfolding zero(1) by (rule ok [unfolded zero(1), OF zero(2)])
  next
    case known
    from known(6) show ?thesis by (rule ok [OF known(3)])
  next
    case (fresh a)
    from fresh(6) show ?thesis unfolding Let_def by (rule that(2) [OF fresh(3)])
  next
    case (other g)
    show ?thesis by (rule that(1)) (simp_all only: other, simp)
  next
    case oom
    show ?thesis by (rule that(1)) (simp_all only: oom, simp)
  qed
qed

text \<open>After a successful bind the guest's unit holds the texture; the other target keeps its own.\<close>

lemma agree_bound:
  assumes "units_ok s" and "agree s h"
    and "target = GL_TEXTURE_2D \<or> target = GL_TEXTURE_EXTERNAL_OES"
  shows "if target = unit_priority (active_unit s) GL_TEXTURE_2D
     then agree (bind_unit s target tid) (host_step h (H_glBindTexture GL_TEXTURE_2D tid))
     else agree (bind_unit s target tid) h"
proof (cases "target = unit_priority (active_unit s) GL_TEXTURE_2D")
  case True
  then show ?thesis
    using assms by (auto simp: host_step_def sampled_simps intro!: agree_upd_unit)
next
  case False
  then show ?thesis
    using assms unit_priority_cases [of "active_unit s"]
    by (auto simp: sampled_simps intro!: agree_upd_unit_same)
qed

lemma active_unit_upd [simp]:
  "units_ok s \<Longrightarrow> active_unit (upd_unit s f) = f (active_unit s)"
  by (simp add: active_unit_def upd_unit_def units_ok_def)

lemma s_glBindTexture_inv:
  assumes "enc_inv e" and "name_ok tid"
  shows "enc_inv (s_glBindTexture ra e target tid)"
proof -
  obtain s err first where b: "bindTexture ra (e_state e) target tid = (s, err, first)"
    by (cases "bindTexture ra (e_state e) target tid") auto
  note i = enc_invD [OF assms(1)]
  have inv: "cs_inv s" using bindTexture_inv [OF i(1) assms(2), of ra target] b by simp
  from i(1) assms(2) b show ?thesis
  proof (cases rule: bindTexture_shape)
    case 1
    then show ?thesis using assms(1) b by (simp add: s_glBindTexture_def enc_inv_def)
  next
    case (2 a ts)
    let ?t = "(e_state e)\<lparr>cs_allocTextures := a, cs_textures := ts\<rparr>"
    have u: "units_ok ?t" and ag: "agree ?t (host_of e)"
      using i units_ok [OF i(1)]
      by (simp_all add: units_ok_def agree_def textures_agree_def arrays_agree_def)
    show ?thesis
    proof (cases "target = GL_TEXTURE_2D \<or> target = GL_TEXTURE_EXTERNAL_OES")
      case False
      then show ?thesis
        using 2 b inv agree_bind_other [OF ag, of target] by (auto simp: s_glBindTexture_def enc_inv_def)
    next
      case True
      let ?p = "unit_priority (active_unit (e_state e)) GL_TEXTURE_2D"
      have act: "active_unit ?t = active_unit (e_state e)" by (simp add: active_unit_def)
      have pr: "getPriorityEnabledTarget s GL_TEXTURE_2D = ?p"
        using 2(2) u True by (auto simp: getPriorityEnabledTarget_def act)
      note ab = agree_bound [OF u ag True, of tid, unfolded act, folded 2(2)]
      have restore: "getBoundTexture s GL_TEXTURE_2D = sampled (active_unit s)"
        if "target \<noteq> ?p" "target = GL_TEXTURE_EXTERNAL_OES"
        using that pr unit_priority_cases [of "active_unit (e_state e)"]
        by (simp add: sampled_bound [symmetric])
      have put: "agree s (host_step (host_of e) (H_glBindTexture GL_TEXTURE_2D (sampled (active_unit s))))"
        if "target \<noteq> ?p"
        using agree_bind_sampled [OF units_ok [OF inv]] ab that by simp
      show ?thesis
        using True 2(1) b inv ab restore put
        by (auto simp: s_glBindTexture_def enc_inv_def pr Let_def)
    qed
  qed
qed

text \<open>Deleting textures unbinds them on both sides.\<close>

lemma host_delete_Cons:
  "host_step h (H_glDeleteTextures (t # ts))
   = host_step (host_step h (H_glDeleteTextures [t])) (H_glDeleteTextures ts)"
  by (auto simp: host_step_def fun_eq_iff)

lemma sampled_unbind:
  assumes "cs_inv s" and "name_ok tid" and "u < MAX_TEXTURE_UNITS"
  shows "sampled (cs_units (deleteTexture s tid) ! u)
    = (if sampled (cs_units s ! u) = tid then 0 else sampled (cs_units s ! u))"
proof -
  let ?u = "cs_units s ! u"
  note ok = cs_invD(8) [OF assms(1)]
  have len: "u < length (cs_units s)" using assms(3) cs_invD(6) [OF assms(1)] by simp
  then have uok: "unit_ok (cs_textures s) ?u" using cs_invD(10) [OF assms(1)] by simp
  show ?thesis
  proof (cases "find_texture (cs_textures s) tid")
    case None
    then have "tid \<notin> tr_id ` set (cs_textures s)"
      using find_texture_None_iff [OF ok assms(2)] by auto
    then have "sampled ?u = tid \<Longrightarrow> tid = 0"
      using unit_ok_not_bound [OF uok] by (auto simp: sampled_simps split: if_splits)
    then show ?thesis using None by (auto simp: deleteTexture_def)
  next
    case (Some k)
    then have mem: "tid \<in> tr_id ` set (cs_textures s)"
      using find_texture_None_iff [OF ok assms(2)] by auto
    have nb: "tid \<noteq> 0 \<Longrightarrow> tu_2d (unbind_unit tid ?u) \<noteq> tid \<and> tu_external (unbind_unit tid ?u) \<noteq> tid"
      by (rule unbind_unit_ok(2) [OF ok assms(2) mem uok])
    show ?thesis
      using Some len nb
      by (cases "tid = 0") (auto simp: deleteTexture_def sampled_simps unbind_unit_def split: if_splits)
  qed
qed

lemma deleteTexture_fields [simp]:
  "cs_states (deleteTexture s t) = cs_states s" "cs_activeUnit (deleteTexture s t) = cs_activeUnit s"
  by (simp_all add: deleteTexture_def split: option.split)

lemma agree_delete_one:
  assumes "cs_inv s" and "agree s h" and "name_ok tid"
  shows "agree (deleteTexture s tid) (host_step h (H_glDeleteTextures [tid]))"
  using assms sampled_unbind [OF assms(1,3)]
  by (auto simp: agree_def textures_agree_def arrays_agree_def host_step_def)

lemma agree_delete:
  "cs_inv s \<Longrightarrow> agree s h \<Longrightarrow> list_all name_ok ts
   \<Longrightarrow> agree (deleteTextures s ts) (host_step h (H_glDeleteTextures ts))"
proof (induction ts arbitrary: s h)
  case Nil
  then show ?case
    by (auto simp: deleteTextures_def agree_def textures_agree_def arrays_agree_def host_step_def)
next
  case (Cons t ts)
  have "agree (deleteTextures (deleteTexture s t) ts)
      (host_step (host_step h (H_glDeleteTextures [t])) (H_glDeleteTextures ts))"
    using Cons.prems by (intro Cons.IH deleteTexture_inv agree_delete_one) simp_all
  then show ?case by (simp add: deleteTextures_def host_delete_Cons [of h t ts])
qed

lemma s_glDeleteTextures_inv:
  "enc_inv e \<Longrightarrow> list_all name_ok ts \<Longrightarrow> enc_inv (s_glDeleteTextures e ts)"
  by (simp add: enc_inv_def s_glDeleteTextures_def deleteTextures_inv agree_delete)

section \<open>Samplers\<close>

text \<open>
  While \<open>glUseProgram\<close> walks over the samplers, the guest's active unit is a scratch register;
  the bindings agree all the same.
\<close>

definition bindings_agree :: "client_state \<Rightarrow> host_state \<Rightarrow> bool" where
  "bindings_agree s h \<longleftrightarrow> (\<forall>u<MAX_TEXTURE_UNITS. hs_2d h u = sampled (cs_units s ! u))
     \<and> arrays_agree s h"

lemma agree_split: "agree s h \<longleftrightarrow> bindings_agree s h \<and> hs_unit h = cs_activeUnit s"
  by (auto simp: agree_def textures_agree_def bindings_agree_def)

lemma bindings_agree_active [simp]:
  "bindings_agree (s\<lparr>cs_activeUnit := k\<rparr>) h \<longleftrightarrow> bindings_agree s h"
  "bindings_agree s (h\<lparr>hs_unit := k\<rparr>) \<longleftrightarrow> bindings_agree s h"
  by (simp_all add: bindings_agree_def arrays_agree_def)

text \<open>The unit of a valid enumerant, and what the two sides do with it.\<close>

definition unit_of :: "GLenum \<Rightarrow> nat" where
  "unit_of t = unat (t - GL_TEXTURE0)"

lemma unit_of_add [simp]: "unit_of (GL_TEXTURE0 + w) = unat w"
  by (simp add: unit_of_def)

lemma unit_valid_iff: "t - GL_TEXTURE0 < of_nat MAX_TEXTURE_UNITS \<longleftrightarrow> unit_of t < MAX_TEXTURE_UNITS"
  by (simp add: unit_of_def word_less_nat_alt)

lemma setActiveTextureUnit_eq:
  "fst (setActiveTextureUnit s t)
   = (if unit_of t < MAX_TEXTURE_UNITS then s\<lparr>cs_activeUnit := unit_of t\<rparr> else s)"
  using unit_valid_iff [of t] by (auto simp: setActiveTextureUnit_def Let_def unit_of_def not_less [symmetric])

lemma host_step_active:
  "host_step h (H_glActiveTexture t)
   = (if unit_of t < MAX_TEXTURE_UNITS then h\<lparr>hs_unit := unit_of t\<rparr> else h)"
  using unit_valid_iff [of t] by (simp add: host_step_def unit_of_def)

lemma unit_of_getActive: "cs_inv s \<Longrightarrow> unit_of (getActiveTextureUnit s) = cs_activeUnit s"
  using cs_invD(7) [of s] by (simp add: getActiveTextureUnit_def unat_of_nat32)

text \<open>Switching the target of the active unit, and binding what it then samples on the host.\<close>

definition switch_target :: "client_state \<Rightarrow> GLenum \<Rightarrow> client_state" where
  "switch_target s t =
     (if t = GL_TEXTURE_EXTERNAL_OES
      then enableTextureTarget (disableTextureTarget s GL_TEXTURE_2D) GL_TEXTURE_EXTERNAL_OES
      else enableTextureTarget (disableTextureTarget s GL_TEXTURE_EXTERNAL_OES) GL_TEXTURE_2D)"

lemma switch_target_unit:
  assumes "units_ok s" and "t = GL_TEXTURE_2D \<or> t = GL_TEXTURE_EXTERNAL_OES"
  obtains en where "switch_target s t = upd_unit s (\<lambda>u. u\<lparr>tu_enables := en\<rparr>)"
    and "unit_priority ((active_unit s)\<lparr>tu_enables := en\<rparr>) GL_TEXTURE_2D = t"
proof -
  have two: "upd_unit (upd_unit s f) g = upd_unit s (\<lambda>u. g (f u))" for f g
    using assms(1) by (simp add: upd_unit_def active_unit_def units_ok_def)
  let ?en = "tu_enables (active_unit s)"
  have upd: "upd_unit s f = upd_unit s g" if "f (active_unit s) = g (active_unit s)" for f g
    using that by (simp add: upd_unit_def)
  show ?thesis
  proof (cases "t = GL_TEXTURE_EXTERNAL_OES")
    case True
    show ?thesis
    proof (rule that [of "(?en AND NOT 1) OR 2"])
      show "switch_target s t = upd_unit s (\<lambda>u. u\<lparr>tu_enables := (?en AND NOT 1) OR 2\<rparr>)"
        using True by (auto simp: switch_target_def enableTextureTarget_def disableTextureTarget_def
            two intro!: upd)
      have "((?en AND NOT 1) OR 2) AND 2 = (2 :: u32)"
        by (rule bit_word_eqI) (auto simp: bit_simps)
      then show "unit_priority ((active_unit s)\<lparr>tu_enables := (?en AND NOT 1) OR 2\<rparr>) GL_TEXTURE_2D = t"
        using True by (simp add: unit_priority_def)
    qed
  next
    case False
    then have t: "t = GL_TEXTURE_2D" using assms(2) by simp
    show ?thesis
    proof (rule that [of "(?en AND NOT 2) OR 1"])
      show "switch_target s t = upd_unit s (\<lambda>u. u\<lparr>tu_enables := (?en AND NOT 2) OR 1\<rparr>)"
        using t by (auto simp: switch_target_def enableTextureTarget_def disableTextureTarget_def
            two intro!: upd)
      have "((?en AND NOT 2) OR 1) AND 2 = (0 :: u32)"
        by (rule bit_word_eqI) (auto simp: bit_simps)
      then show "unit_priority ((active_unit s)\<lparr>tu_enables := (?en AND NOT 2) OR 1\<rparr>) GL_TEXTURE_2D = t"
        using t by (simp add: unit_priority_def)
    qed
  qed
qed

lemma switch_target_inv: "cs_inv s \<Longrightarrow> cs_inv (switch_target s t)"
  by (simp add: switch_target_def texture_target_inv)

lemma switch_target_agree:
  assumes "cs_inv s" and "agree s h" and "t = GL_TEXTURE_2D \<or> t = GL_TEXTURE_EXTERNAL_OES"
  shows "agree (switch_target s t)
     (host_step h (H_glBindTexture GL_TEXTURE_2D (getBoundTexture (switch_target s t) t)))"
proof -
  note u = units_ok [OF assms(1)]
  obtain en where sw: "switch_target s t = upd_unit s (\<lambda>u. u\<lparr>tu_enables := en\<rparr>)"
    and pr: "unit_priority ((active_unit s)\<lparr>tu_enables := en\<rparr>) GL_TEXTURE_2D = t"
    by (rule switch_target_unit [OF u assms(3)])
  have "getBoundTexture (switch_target s t) t = sampled ((active_unit s)\<lparr>tu_enables := en\<rparr>)"
    using u pr by (simp add: sw getBoundTexture_def sampled_def)
  then show ?thesis
    unfolding sw using u assms(2) by (auto intro!: agree_upd_unit simp: host_step_def)
qed

lemma getNextSampler_target:
  "getNextSamplerUniform g p i = Some (j, v, t) \<Longrightarrow> t = GL_TEXTURE_2D \<or> t = GL_TEXTURE_EXTERNAL_OES"
  by (auto simp: getNextSamplerUniform_def getNextSamplerUniform_program_def sampler_target_def Let_def
      split: option.splits if_splits)

lemma updateHost_eq:
  assumes "t = GL_TEXTURE_2D \<or> t = GL_TEXTURE_EXTERNAL_OES"
  shows "updateHostTexture2DBinding e unit t =
    (let s1 = fst (setActiveTextureUnit (e_state e) unit) in
     if t \<noteq> getPriorityEnabledTarget s1 GL_TEXTURE_2D
     then (emit (emit (e\<lparr>e_state := switch_target s1 t\<rparr>) (H_glActiveTexture unit))
             (H_glBindTexture GL_TEXTURE_2D (getBoundTexture (switch_target s1 t) t)), True)
     else (e\<lparr>e_state := s1\<rparr>, False))"
  using assms by (auto simp: updateHostTexture2DBinding_def switch_target_def Let_def)

text \<open>
  From agreeing bindings an update of a valid unit leads to agreeing bindings; when it
  reports a change the host's active unit is that unit, otherwise the host is untouched.
\<close>

lemma updateHost_bindings:
  assumes "cs_inv (e_state e)" and "bindings_agree (e_state e) (host_of e)"
    and "unit_of unit < MAX_TEXTURE_UNITS"
    and "t = GL_TEXTURE_2D \<or> t = GL_TEXTURE_EXTERNAL_OES"
    and "updateHostTexture2DBinding e unit t = (e', changed)"
  shows "cs_inv (e_state e')" and "bindings_agree (e_state e') (host_of e')"
    and "hs_unit (host_of e') = (if changed then unit_of unit else hs_unit (host_of e))"
    and "e_shared e' = e_shared e"
proof -
  define s1 where "s1 = (e_state e)\<lparr>cs_activeUnit := unit_of unit\<rparr>"
  have f: "fst (setActiveTextureUnit (e_state e) unit) = s1"
    using assms(3) by (simp add: setActiveTextureUnit_eq s1_def)
  have i1: "cs_inv s1" using setActiveTextureUnit_inv [OF assms(1), of unit] by (simp add: f)
  let ?h = "(host_of e)\<lparr>hs_unit := unit_of unit\<rparr>"
  have ag: "agree s1 ?h" using assms(2) by (simp add: agree_split s1_def)
  have sw: "agree (switch_target s1 t)
     (host_step ?h (H_glBindTexture GL_TEXTURE_2D (getBoundTexture (switch_target s1 t) t)))"
    by (rule switch_target_agree [OF i1 ag assms(4)])
  have unit: "hs_unit (host_step ?h (H_glBindTexture a b)) = unit_of unit" for a b
    by (simp add: host_step_def)
  have b1: "bindings_agree s1 (host_of e)" using assms(2) by (simp add: s1_def)
  show "cs_inv (e_state e')" and "bindings_agree (e_state e') (host_of e')"
    and "hs_unit (host_of e') = (if changed then unit_of unit else hs_unit (host_of e))"
    and "e_shared e' = e_shared e"
    using assms(3,5) i1 sw unit b1
    by (auto simp: updateHost_eq [OF assms(4)] f Let_def host_step_active switch_target_inv
        agree_split split: if_splits)
qed

lemma use_samplers_bindings:
  assumes "cs_inv (e_state e)" and "bindings_agree (e_state e) (host_of e)"
    and "hs_unit (host_of e) = unit_of active" and "unit_of active < MAX_TEXTURE_UNITS"
    and "use_samplers e program idx active = (e', active')"
  shows "cs_inv (e_state e') \<and> bindings_agree (e_state e') (host_of e')
    \<and> hs_unit (host_of e') = unit_of active' \<and> unit_of active' < MAX_TEXTURE_UNITS"
  using assms
proof (induction e program idx active rule: use_samplers.induct)
  case (1 e program idx active)
  show ?case
  proof (cases "getNextSamplerUniform (e_shared e) program (sint idx)")
    case None
    then show ?thesis using "1.prems" by (simp add: use_samplers.simps)
  next
    case (Some r)
    obtain i v t where r: "r = (i, v, t)" by (cases r)
    note ns = Some [unfolded r]
    show ?thesis
    proof (cases "v < 0 \<or> int MAX_TEXTURE_UNITS \<le> v")
      case True
      have "use_samplers e program (word_of_int i) active = (e', active')"
        using "1.prems"(5) ns True by (subst (asm) use_samplers.simps) simp
      then show ?thesis using "1.IH"(1) [OF Some r [symmetric] refl True] "1.prems" by blast
    next
      case False
      let ?unit = "GL_TEXTURE0 + word_of_int v"
      have v: "unit_of ?unit < MAX_TEXTURE_UNITS"
        using False by (simp add: nat_less_iff unat_eq_nat_uint uint_word_of_int32)
      obtain e1 ch where up: "updateHostTexture2DBinding e ?unit t = (e1, ch)" by fastforce
      note b = updateHost_bindings [OF "1.prems"(1,2) v getNextSampler_target [OF ns] up]
      have "use_samplers e1 program (word_of_int i) (if ch then ?unit else active) = (e', active')"
        using "1.prems"(5) ns False up by (subst (asm) use_samplers.simps) simp
      then show ?thesis
        using "1.IH"(2) [OF Some r [symmetric] refl False up [symmetric]] b "1.prems"(3,4) v by simp
    qed
  qed
qed

lemma setCurrentProgram_agree [simp]: "agree (setCurrentProgram s p) h = agree s h"
  by (simp add: setCurrentProgram_def agree_def textures_agree_def arrays_agree_def)

lemma setCurrentProgram_fields [simp]:
  "cs_units (setCurrentProgram s p) = cs_units s"
  "getActiveTextureUnit (setCurrentProgram s p) = getActiveTextureUnit s"
  by (simp_all add: setCurrentProgram_def getActiveTextureUnit_def)

lemma s_glUseProgram_inv:
  assumes "enc_inv e"
  shows "enc_inv (s_glUseProgram e program)"
proof -
  define e2 where "e2 = (emit e (H_program (UseProgram program)))
    \<lparr>e_state := setCurrentProgram (e_state e) (sint program)\<rparr>"
  have i2: "enc_inv e2" using assms by (simp add: e2_def enc_inv_def scalar_updates_inv)
  let ?orig = "getActiveTextureUnit (e_state e2)"
  have o: "unit_of ?orig = cs_activeUnit (e_state e2)" and lt: "unit_of ?orig < MAX_TEXTURE_UNITS"
    using enc_invD(1) [OF i2] cs_invD(7) by (simp_all add: unit_of_getActive)
  obtain e3 active where us: "use_samplers e2 program (- 1) ?orig = (e3, active)" by fastforce
  have "bindings_agree (e_state e2) (host_of e2)" and "hs_unit (host_of e2) = unit_of ?orig"
    using enc_invD(2) [OF i2] o by (simp_all add: agree_split)
  note u = use_samplers_bindings [OF enc_invD(1) [OF i2] this lt us]
  have inv: "cs_inv (fst (setActiveTextureUnit (e_state e3) ?orig))"
    using u by (simp add: setActiveTextureUnit_inv)
  have fin: "enc_inv (let e4 = e3\<lparr>e_state := fst (setActiveTextureUnit (e_state e3) ?orig)\<rparr>
      in if active \<noteq> ?orig then emit e4 (H_glActiveTexture ?orig) else e4)"
    using u lt inv by (auto simp: enc_inv_def Let_def setActiveTextureUnit_eq host_step_active agree_split)
  have "s_glUseProgram e program
      = (let e4 = e3\<lparr>e_state := fst (setActiveTextureUnit (e_state e3) ?orig)\<rparr>
         in if active \<noteq> ?orig then emit e4 (H_glActiveTexture ?orig) else e4)"
    unfolding s_glUseProgram_def Let_def by (simp only: emit_simps(1) e2_def [symmetric] us prod.case)
  then show ?thesis using fin by simp
qed

lemma setSampler_target:
  "setSamplerUniform g p l v = (g', Some t) \<Longrightarrow> t = GL_TEXTURE_2D \<or> t = GL_TEXTURE_EXTERNAL_OES"
  by (auto simp: setSamplerUniform_def setSamplerUniform_program_def sampler_target_def
      split: option.splits prod.splits if_splits)

lemma s_glUniform1i_inv:
  assumes "enc_inv e"
  shows "enc_inv (s_glUniform1i e location x)"
proof -
  define e1 where "e1 = emit e (H_uniform (U1i (host_location e location) x))"
  obtain g target where ss: "setSamplerUniform (e_shared e1) (word_of_int (cs_currentProgram (e_state e1)))
      location x = (g, target)" by fastforce
  define e2 where "e2 = e1\<lparr>e_shared := g\<rparr>"
  have i2: "enc_inv e2" using assms by (simp add: e2_def e1_def enc_inv_def)
  show ?thesis
  proof (cases target)
    case None
    then show ?thesis
      using i2 ss by (simp add: s_glUniform1i_def e1_def e2_def Let_def)
  next
    case (Some t)
    have t: "t = GL_TEXTURE_2D \<or> t = GL_TEXTURE_EXTERNAL_OES" using ss Some setSampler_target by metis
    let ?orig = "getActiveTextureUnit (e_state e2)"
    let ?unit = "GL_TEXTURE0 + word_of_int x"
    have o: "unit_of ?orig = cs_activeUnit (e_state e2)" and lt: "unit_of ?orig < MAX_TEXTURE_UNITS"
      using enc_invD(1) [OF i2] cs_invD(7) by (simp_all add: unit_of_getActive)
    obtain e3 ch where up: "updateHostTexture2DBinding e2 ?unit t = (e3, ch)" by fastforce
    have r: "cs_inv (e_state e3) \<and> bindings_agree (e_state e3) (host_of e3)
       \<and> (\<not> ch \<longrightarrow> hs_unit (host_of e3) = unit_of ?orig)"
    proof (cases "unit_of ?unit < MAX_TEXTURE_UNITS")
      case True
      have "bindings_agree (e_state e2) (host_of e2)" and "hs_unit (host_of e2) = unit_of ?orig"
        using enc_invD(2) [OF i2] o by (simp_all add: agree_split)
      then show ?thesis
        using updateHost_bindings [OF enc_invD(1) [OF i2] _ True t up] by auto
    next
      case False
      then show ?thesis
        using up i2 o switch_target_agree [OF enc_invD [OF i2] t] switch_target_inv [OF enc_invD(1) [OF i2]]
        by (auto simp: updateHost_eq [OF t] setActiveTextureUnit_eq host_step_active Let_def
            enc_inv_def agree_split split: if_splits)
    qed
    have inv: "cs_inv (fst (setActiveTextureUnit (e_state e3) ?orig))"
      using r by (simp add: setActiveTextureUnit_inv)
    have fin: "enc_inv (let e4 = (if ch then emit e3 (H_glActiveTexture ?orig) else e3)
        in e4\<lparr>e_state := fst (setActiveTextureUnit (e_state e4) ?orig)\<rparr>)"
      using r lt inv
      by (auto simp: enc_inv_def Let_def setActiveTextureUnit_eq host_step_active agree_split)
    have "s_glUniform1i e location x
        = (let e4 = (if ch then emit e3 (H_glActiveTexture ?orig) else e3)
           in e4\<lparr>e_state := fst (setActiveTextureUnit (e_state e4) ?orig)\<rparr>)"
      unfolding s_glUniform1i_def Let_def
      by (simp only: e1_def [symmetric] ss Some prod.case option.case e2_def [symmetric] up)
    then show ?thesis using fin by simp
  qed
qed

section \<open>Vertex arrays\<close>

lemma nth_update_at:
  "xs[k := y] ! i = (if i = k \<and> k < length xs then y else xs ! i)"
  by (cases "k < length xs") (auto simp: nth_list_update list_update_beyond)

lemma agree_upd_location:
  assumes "agree s h" and "\<And>v. va_enableDirty (f v) = va_enableDirty v \<and> va_enabled (f v) = va_enabled v"
  shows "agree (upd_location s l f) h"
proof -
  have "va_enableDirty ((cs_states s)[nat l := f (cs_states s ! nat l)] ! i) = va_enableDirty (cs_states s ! i)
    \<and> va_enabled ((cs_states s)[nat l := f (cs_states s ! nat l)] ! i) = va_enabled (cs_states s ! i)" for i
    using assms(2) by (simp add: nth_update_at)
  then show ?thesis
    using assms(1) by (simp add: agree_def textures_agree_def arrays_agree_def upd_location_def)
qed

lemma setState_agree: "agree s h \<Longrightarrow> agree (setState s l sz ty nm st p) h"
  by (simp add: setState_def agree_upd_location)

lemma enable_agree: "agree s h \<Longrightarrow> agree (enable s l b) h"
  by (auto simp: enable_def upd_location_def agree_def textures_agree_def arrays_agree_def
      nth_update_at split: if_splits)

lemma bindBuffer_agree [simp]: "agree (fst (bindBuffer s t b)) h = agree s h"
  by (simp add: bindBuffer_def agree_def textures_agree_def arrays_agree_def)

lemma setPixelStore_agree [simp]: "agree (fst (setPixelStore s p v)) h = agree s h"
  by (simp add: setPixelStore_def agree_def textures_agree_def arrays_agree_def)

lemma agree_host_cong:
  "hs_unit h' = hs_unit h \<Longrightarrow> hs_2d h' = hs_2d h \<Longrightarrow> hs_enabled h' = hs_enabled h
   \<Longrightarrow> agree s h' = agree s h"
  by (simp add: agree_def textures_agree_def arrays_agree_def)

lemma agree_buffer_calls [simp]:
  "agree s (host_step h (H_glBindBuffer t b)) = agree s h"
  "agree s (host_step h (H_glDeleteBuffers bs)) = agree s h"
  by (rule agree_host_cong; simp add: host_step_def)+

text \<open>
  What one round of a loop over the arrays does: after round \<open>i\<close> array \<open>i\<close> is clean and the
  host's flag is the guest's; the other arrays are as before. The loops of both encoders are
  built of such rounds.
\<close>

definition sends_array :: "nat \<Rightarrow> encoder \<Rightarrow> encoder \<Rightarrow> bool" where
  "sends_array i e e' \<longleftrightarrow>
     e_state e' = (e_state e)\<lparr>cs_states := (cs_states (e_state e))[i := (cs_states (e_state e) ! i)\<lparr>va_enableDirty := False\<rparr>]\<rparr>
     \<and> hs_unit (host_of e') = hs_unit (host_of e) \<and> hs_2d (host_of e') = hs_2d (host_of e)
     \<and> hs_tex2d (host_of e') = hs_tex2d (host_of e)
     \<and> hs_enabled (host_of e') - {i} = hs_enabled (host_of e) - {i}
     \<and> (i \<in> hs_enabled (host_of e') \<longleftrightarrow> va_enabled (cs_states (e_state e) ! i) \<noteq> 0)
     \<and> hs_element (host_of e') = hs_element (host_of e)
     \<and> (hs_array (host_of e) = cs_currentArrayVbo (e_state e) \<longrightarrow> hs_array (host_of e') = cs_currentArrayVbo (e_state e))
     \<and> e_shared e' = e_shared e"

text \<open>All rounds together.\<close>

definition sent_upto :: "nat \<Rightarrow> encoder \<Rightarrow> encoder \<Rightarrow> bool" where
  "sent_upto n e e' \<longleftrightarrow>
     e_state e' = (e_state e)\<lparr>cs_states := map (\<lambda>v. v\<lparr>va_enableDirty := False\<rparr>)
         (take n (cs_states (e_state e))) @ drop n (cs_states (e_state e))\<rparr>
     \<and> hs_unit (host_of e') = hs_unit (host_of e) \<and> hs_2d (host_of e') = hs_2d (host_of e)
     \<and> hs_tex2d (host_of e') = hs_tex2d (host_of e)
     \<and> (\<forall>i. i \<in> hs_enabled (host_of e') \<longleftrightarrow>
          (if i < n then va_enabled (cs_states (e_state e) ! i) \<noteq> 0
           else i \<in> hs_enabled (host_of e)))
     \<and> hs_element (host_of e') = hs_element (host_of e)
     \<and> (hs_array (host_of e) = cs_currentArrayVbo (e_state e)
          \<longrightarrow> hs_array (host_of e') = cs_currentArrayVbo (e_state e))
     \<and> e_shared e' = e_shared e"

lemma clean_prefix_inv:
  assumes "cs_inv s"
  shows "cs_inv (s\<lparr>cs_states := map (\<lambda>v. v\<lparr>va_enableDirty := False\<rparr>) (take n (cs_states s)) @ drop n (cs_states s)\<rparr>)"
proof -
  have "va_glConst ((map (\<lambda>v. v\<lparr>va_enableDirty := False\<rparr>) (take n (cs_states s)) @ drop n (cs_states s)) ! i)
      = va_glConst (cs_states s ! i)" if "i < length (cs_states s)" for i
    using that by (auto simp: nth_append min_def)
  moreover have "14 \<le> length (cs_states s)" using cs_invD(1,2) [OF assms] by simp
  ultimately show ?thesis using assms by (simp add: cs_inv_def)
qed

locale array_sender =
  fixes send :: "encoder \<Rightarrow> nat \<Rightarrow> encoder" and bound :: "encoder \<Rightarrow> nat"
  assumes round_sends: "cs_inv (e_state e) \<Longrightarrow> i < length (cs_states (e_state e)) \<Longrightarrow> i < bound e
      \<Longrightarrow> va_enableDirty (cs_states (e_state e) ! i)
           \<or> (i \<in> hs_enabled (host_of e) \<longleftrightarrow> va_enabled (cs_states (e_state e) ! i) \<noteq> 0)
      \<Longrightarrow> sends_array i e (send e i)"
    and bound_length: "length (cs_states (e_state e')) = length (cs_states (e_state e)) \<Longrightarrow> bound e' = bound e"
begin

lemma rounds_send:
  assumes "enc_inv e" and "n \<le> length (cs_states (e_state e))" and "n \<le> bound e"
  shows "sent_upto n e (foldl send e [0..<n])"
  using assms(2,3)
proof (induction n)
  case 0
  then show ?case by (simp add: sent_upto_def)
next
  case (Suc n)
  let ?s = "e_state e"
  let ?e1 = "foldl send e [0..<n]"
  have ih: "sent_upto n e ?e1" using Suc by simp
  then have st: "e_state ?e1 = ?s\<lparr>cs_states := map (\<lambda>v. v\<lparr>va_enableDirty := False\<rparr>)
         (take n (cs_states ?s)) @ drop n (cs_states ?s)\<rparr>"
    by (simp add: sent_upto_def)
  have n: "n < length (cs_states ?s)" using Suc.prems by simp
  have nth: "cs_states (e_state ?e1) ! n = cs_states ?s ! n" using n by (simp add: st nth_append)
  have inv: "cs_inv (e_state ?e1)" unfolding st by (rule clean_prefix_inv [OF enc_invD(1) [OF assms(1)]])
  have dirty: "va_enableDirty (cs_states ?s ! n)
      \<or> (n \<in> hs_enabled (host_of e) \<longleftrightarrow> va_enabled (cs_states ?s ! n) \<noteq> 0)"
    using agreeD(3) [OF enc_invD(2) [OF assms(1)]] n by simp
  have len: "length (cs_states (e_state ?e1)) = length (cs_states ?s)" using n by (simp add: st)
  have dirty1: "va_enableDirty (cs_states (e_state ?e1) ! n)
      \<or> (n \<in> hs_enabled (host_of ?e1) \<longleftrightarrow> va_enabled (cs_states (e_state ?e1) ! n) \<noteq> 0)"
    unfolding nth using dirty ih by (simp add: sent_upto_def)
  have "sends_array n ?e1 (send ?e1 n)"
    using Suc.prems n by (intro round_sends [OF inv _ _ dirty1]) (simp_all only: len bound_length [OF len] Suc_le_eq)
  note step = this [unfolded sends_array_def nth]
  have fold: "foldl send e [0..<Suc n] = send ?e1 n"
    by simp
  have lst: "(map (\<lambda>v. v\<lparr>va_enableDirty := False\<rparr>) (take n (cs_states ?s)) @ drop n (cs_states ?s))
      [n := (cs_states ?s ! n)\<lparr>va_enableDirty := False\<rparr>]
    = map (\<lambda>v. v\<lparr>va_enableDirty := False\<rparr>) (take (Suc n) (cs_states ?s)) @ drop (Suc n) (cs_states ?s)"
    using n by (intro nth_equalityI) (auto simp: nth_append nth_list_update less_Suc_eq)
  have en: "i \<in> hs_enabled (host_of (send ?e1 n)) \<longleftrightarrow>
      (if i < Suc n then va_enabled (cs_states ?s ! i) \<noteq> 0 else i \<in> hs_enabled (host_of e))" for i
  proof (cases "i = n")
    case True
    then show ?thesis using step by simp
  next
    case False
    then have "i \<in> hs_enabled (host_of (send ?e1 n)) \<longleftrightarrow> i \<in> hs_enabled (host_of ?e1) - {n}"
      using step by blast
    then show ?thesis using ih False by (simp add: sent_upto_def less_Suc_eq)
  qed
  have "e_state (send ?e1 n) = ?s\<lparr>cs_states := map (\<lambda>v. v\<lparr>va_enableDirty := False\<rparr>)
         (take (Suc n) (cs_states ?s)) @ drop (Suc n) (cs_states ?s)\<rparr>"
    using step by (simp add: st lst)
  moreover have "hs_array (host_of e) = cs_currentArrayVbo ?s
      \<longrightarrow> hs_array (host_of (send ?e1 n)) = cs_currentArrayVbo ?s"
    using step ih by (simp add: st sent_upto_def)
  ultimately show ?case
    unfolding fold sent_upto_def
    using ih step en by (simp only: sent_upto_def) blast
qed

lemma rounds_inv:
  assumes "enc_inv e" and "n \<le> length (cs_states (e_state e))" and "n \<le> bound e"
  shows "enc_inv (foldl send e [0..<n])"
proof -
  note s = rounds_send [OF assms, unfolded sent_upto_def]
  note a = agreeD [OF enc_invD(2) [OF assms(1)]]
  have "agree (e_state (foldl send e [0..<n])) (host_of (foldl send e [0..<n]))"
    unfolding agree_def
  proof
    show "textures_agree (e_state (foldl send e [0..<n])) (host_of (foldl send e [0..<n]))"
      using s a(1,2) by (simp add: textures_agree_def)
    show "arrays_agree (e_state (foldl send e [0..<n])) (host_of (foldl send e [0..<n]))"
      using s a(3) assms(2) by (auto simp: arrays_agree_def nth_append min_def)
  qed
  then show ?thesis using s clean_prefix_inv [OF enc_invD(1) [OF assms(1)], of n] by (simp add: enc_inv_def)
qed

end

lemma send_attribute_sends:
  assumes "cs_inv (e_state e)" and "i < length (cs_states (e_state e))"
    and "va_enableDirty (cs_states (e_state e) ! i)
      \<or> (i \<in> hs_enabled (host_of e) \<longleftrightarrow> va_enabled (cs_states (e_state e) ! i) \<noteq> 0)"
  shows "sends_array i e (send_attribute first count e i)"
proof -
  have valid: "validLocation (e_state e) (int i)"
    using assms(1,2) by (simp add: validLocation_def cs_invD(1))
  show ?thesis
    using valid assms(2,3)
    by (auto simp: sends_array_def send_attribute_def getStateAndEnableDirty_def upd_location_def Let_def
        host_step_def)
qed

interpretation vertex_attributes: array_sender "send_attribute first count" "\<lambda>e. length (cs_states (e_state e))"
  by unfold_locales (simp_all add: send_attribute_sends)

lemma send_upto:
  "enc_inv e \<Longrightarrow> n \<le> length (cs_states (e_state e)) \<Longrightarrow> sent_upto n e (foldl (send_attribute first count) e [0..<n])"
  by (rule vertex_attributes.rounds_send)

lemma sendVertexAttributes_sent:
  assumes "enc_inv e"
  shows "sent_upto (length (cs_states (e_state e))) e (sendVertexAttributes e first count)"
  using send_upto [OF assms order_refl] cs_invD(1) [OF enc_invD(1) [OF assms]]
  by (simp add: sendVertexAttributes_def)

lemma sendVertexAttributes_inv:
  assumes "enc_inv e"
  shows "enc_inv (sendVertexAttributes e first count)"
  using vertex_attributes.rounds_inv [OF assms order_refl order_refl] cs_invD(1) [OF enc_invD(1) [OF assms]]
  by (simp add: sendVertexAttributes_def)

lemma e_fixed_upd_inv [simp]: "enc_inv (e\<lparr>e_fixed := fb\<rparr>) = enc_inv e"
  by (simp add: enc_inv_def)

lemma emit_draw_inv [simp]:
  "enc_inv (emit e (H_glDrawArrays m f c)) = enc_inv e"
  "enc_inv (emit e (H_glDrawElementsOffset m c ty offs)) = enc_inv e"
  "enc_inv (emit e (H_glDrawElementsData m c ty bs n)) = enc_inv e"
  "enc_inv (emit e (H_glBindBuffer t b)) = enc_inv e"
  by (simp_all add: enc_inv_def)

lemma s_glDrawArrays_inv: "enc_inv e \<Longrightarrow> enc_inv (s_glDrawArrays e mode first count)"
  by (simp add: s_glDrawArrays_def sendVertexAttributes_inv)

lemma adjust_indices_inv:
  assumes "adjust_indices fresh e rd count ty = Some (e', r)" and "enc_inv e"
  shows "enc_inv e'" and "e_state e' = e_state e" and "host_of e' = host_of e"
  using assms
  by (auto simp: adjust_indices_def store_indices_def Let_def split: if_splits option.splits prod.splits)

lemma s_glDrawElements_inv:
  assumes "enc_inv e" and "s_glDrawElements fresh m e mode count ty p = Some e'"
  shows "enc_inv e'"
proof -
  have se: "enc_inv (setError e err)" for err using assms(1) by (simp add: enc_inv_def)
  show ?thesis
    using assms se
    by (auto simp: s_glDrawElements_def Let_def sendVertexAttributes_inv dest!: adjust_indices_inv(1)
        split: if_splits option.splits prod.splits)
qed

end
