(* ===== verification/GL2Steps.thy ===== *)
theory GL2Steps
  imports GL2Coherence
begin

text \<open>
  Runs of an OpenGL ES 2 application: one step is any entry point of the encoder. The
  invariant of \<open>GL2Coherence\<close> is kept by each of them, hence by every run.
\<close>

section \<open>Every entry point\<close>

text \<open>
  One step of an application: any entry point, with any arguments, any answers of the host and
  any outcome of allocations. Only texture names are restricted, to those below \<open>2^31\<close>. Where
  an entry point can run into undefined behaviour, the step is taken when it does not.
\<close>

inductive gl2_step :: "encoder \<Rightarrow> encoder \<Rightarrow> bool" where
  GL_GetError: "gl2_step e (fst (s_glGetError H e))"
| GL_Flush: "gl2_step e (s_glFlush e)"
| GL_Finish: "gl2_step e (s_glFinish e)"
| GL_PixelStorei: "gl2_step e (s_glPixelStorei e param v)"
| GL_GetIntegerv: "s_glGetIntegerv H e param = Some (e', is) \<Longrightarrow> gl2_step e e'"
| GL_GetFloatv: "s_glGetFloatv F H e param = Some (e', fs) \<Longrightarrow> gl2_step e e'"
| GL_GetBooleanv: "s_glGetBooleanv H e param = Some (e', bs) \<Longrightarrow> gl2_step e e'"
| GL_BindBuffer: "gl2_step e (s_glBindBuffer e target b)"
| GL_BufferData: "s_glBufferData fresh e target sz data usage = Some e' \<Longrightarrow> gl2_step e e'"
| GL_BufferSubData: "s_glBufferSubData e target offs sz bs = Some e' \<Longrightarrow> gl2_step e e'"
| GL_DeleteBuffers: "gl2_step e (s_glDeleteBuffers e n buffers)"
| GL_VertexAttribPointer: "gl2_step e (s_glVertexAttribPointer e idx sz type normalized stride ptr)"
| GL_EnableVertexAttribArray: "gl2_step e (s_glEnableVertexAttribArray e idx)"
| GL_DisableVertexAttribArray: "gl2_step e (s_glDisableVertexAttribArray e idx)"
| GL_GetVertexAttribiv: "gl2_step e (fst (s_glGetVertexAttribiv H e idx pname))"
| GL_GetVertexAttribfv: "gl2_step e (fst (s_glGetVertexAttribfv F H e idx pname))"
| GL_DrawArrays: "gl2_step e (s_glDrawArrays e mode first count)"
| GL_DrawElements: "s_glDrawElements fresh m e mode count type indices = Some e' \<Longrightarrow> gl2_step e e'"
| GL_ShaderSource: "s_glShaderSource e shader strings lens = Some e' \<Longrightarrow> gl2_step e e'"
| GL_LinkProgram: "gl2_step e (s_glLinkProgram junk H e program)"
| GL_DeleteProgram: "gl2_step e (s_glDeleteProgram e program)"
| GL_GetUniformiv: "gl2_step e (fst (s_glGetUniformiv H e program location))"
| GL_GetUniformfv: "gl2_step e (fst (s_glGetUniformfv H e program location))"
| GL_CreateProgram: "gl2_step e (fst (s_glCreateProgram H e))"
| GL_CreateShader: "s_glCreateShader add_ok H e type = Some (e', shader) \<Longrightarrow> gl2_step e e'"
| GL_DeleteShader: "gl2_step e (s_glDeleteShader e shader)"
| GL_AttachShader: "gl2_step e (s_glAttachShader e program shader)"
| GL_DetachShader: "gl2_step e (s_glDetachShader e program shader)"
| GL_GetUniformLocation: "s_glGetUniformLocation H e program name = Some (e', loc) \<Longrightarrow> gl2_step e e'"
| GL_UseProgram: "gl2_step e (s_glUseProgram e program)"
| GL_Uniform1f: "gl2_step e (s_glUniform1f e location x)"
| GL_Uniform1fv: "gl2_step e (s_glUniform1fv e location count ptr)"
| GL_Uniform1iv: "gl2_step e (s_glUniform1iv e location count ptr)"
| GL_Uniform2i: "gl2_step e (s_glUniform2i e location i j)"
| GL_Uniform2f: "gl2_step e (s_glUniform2f e location x y)"
| GL_Uniform2fv: "gl2_step e (s_glUniform2fv e location count ptr)"
| GL_Uniform2iv: "gl2_step e (s_glUniform2iv e location count ptr)"
| GL_Uniform3i: "gl2_step e (s_glUniform3i e location i j k)"
| GL_Uniform3f: "gl2_step e (s_glUniform3f e location x y z)"
| GL_Uniform3fv: "gl2_step e (s_glUniform3fv e location count ptr)"
| GL_Uniform3iv: "gl2_step e (s_glUniform3iv e location count ptr)"
| GL_Uniform4i: "gl2_step e (s_glUniform4i e location i j k l)"
| GL_Uniform4f: "gl2_step e (s_glUniform4f e location x y z w)"
| GL_Uniform4fv: "gl2_step e (s_glUniform4fv e location count ptr)"
| GL_Uniform4iv: "gl2_step e (s_glUniform4iv e location count ptr)"
| GL_Uniform1i: "gl2_step e (s_glUniform1i e location i)"
| GL_UniformMatrix2fv: "gl2_step e (s_glUniformMatrix2fv e location count transposed ptr)"
| GL_UniformMatrix3fv: "gl2_step e (s_glUniformMatrix3fv e location count transposed ptr)"
| GL_UniformMatrix4fv: "gl2_step e (s_glUniformMatrix4fv e location count transposed ptr)"
| GL_ActiveTexture: "gl2_step e (s_glActiveTexture e target)"
| GL_BindTexture: "name_ok t \<Longrightarrow> gl2_step e (s_glBindTexture ra e target t)"
| GL_DeleteTextures: "list_all name_ok ts \<Longrightarrow> gl2_step e (s_glDeleteTextures e ts)"
| GL_GetTexParameterfv: "gl2_step e (fst (s_glGetTexParameterfv H e target pname))"
| GL_GetTexParameteriv: "gl2_step e (fst (s_glGetTexParameteriv H e target pname))"
| GL_TexParameterf: "gl2_step e (s_glTexParameterf F e target pname x)"
| GL_TexParameterfv: "gl2_step e (s_glTexParameterfv F e target pname fs)"
| GL_TexParameteri: "gl2_step e (s_glTexParameteri e target pname i)"
| GL_TexParameteriv: "gl2_step e (s_glTexParameteriv e target pname is)"
| GL_TexImage2D: "gl2_step e (s_glTexImage2D e target level ifmt width height border format type ptr)"
| GL_TexSubImage2D: "gl2_step e (s_glTexSubImage2D e target level x0 y0 width height format type ptr)"
| GL_CompressedTexImage2D: "gl2_step e (s_glCompressedTexImage2D e target level format width height border sz ptr)"
| GL_CompressedTexSubImage2D: "gl2_step e (s_glCompressedTexSubImage2D e target level x0 y0 width height format sz ptr)"
| GL_CopyTexImage2D: "gl2_step e (s_glCopyTexImage2D e target level format x0 y0 width height border)"
| GL_CopyTexSubImage2D: "gl2_step e (s_glCopyTexSubImage2D e target level x0 y0 x1 y1 width height)"
| GL_GenerateMipmap: "gl2_step e (s_glGenerateMipmap e target)"

text \<open>The entry points that leave the client state alone and send only calls that the host's state ignores.\<close>

named_theorems entry_defs \<open>definitions of the simple entry points\<close>

declare
  s_glGetError_def [entry_defs]
  s_glFlush_def [entry_defs]
  s_glFinish_def [entry_defs]
  s_glGetVertexAttribiv_def [entry_defs]
  s_glGetVertexAttribfv_def [entry_defs]
  s_glDeleteProgram_def [entry_defs]
  s_glGetUniformiv_def [entry_defs]
  s_glGetUniformfv_def [entry_defs]
  s_glCreateProgram_def [entry_defs]
  s_glDeleteShader_def [entry_defs]
  s_glAttachShader_def [entry_defs]
  s_glDetachShader_def [entry_defs]
  s_glUniform1f_def [entry_defs]
  s_glUniform1fv_def [entry_defs]
  s_glUniform1iv_def [entry_defs]
  s_glUniform2f_def [entry_defs]
  s_glUniform2fv_def [entry_defs]
  s_glUniform2i_def [entry_defs]
  s_glUniform2iv_def [entry_defs]
  s_glUniform3f_def [entry_defs]
  s_glUniform3fv_def [entry_defs]
  s_glUniform3i_def [entry_defs]
  s_glUniform3iv_def [entry_defs]
  s_glUniform4f_def [entry_defs]
  s_glUniform4fv_def [entry_defs]
  s_glUniform4i_def [entry_defs]
  s_glUniform4iv_def [entry_defs]
  s_glUniformMatrix2fv_def [entry_defs]
  s_glUniformMatrix3fv_def [entry_defs]
  s_glUniformMatrix4fv_def [entry_defs]

lemmas texture_entry_defs =
  s_glGetTexParameterfv_def s_glGetTexParameteriv_def
  s_glTexParameterf_def s_glTexParameterfv_def s_glTexParameteri_def s_glTexParameteriv_def
  s_glTexImage2D_def s_glTexSubImage2D_def s_glCompressedTexImage2D_def
  s_glCompressedTexSubImage2D_def s_glCopyTexImage2D_def s_glCopyTexSubImage2D_def
  s_glGenerateMipmap_def

lemma emit_inert_inv [simp]:
  "enc_inv (emit e (H_texture t c)) = enc_inv e" "enc_inv (emit e (H_query q)) = enc_inv e"
  "enc_inv (emit e (H_program p)) = enc_inv e" "enc_inv (emit e (H_uniform u)) = enc_inv e"
  "enc_inv (emit e H_glFlush) = enc_inv e" "enc_inv (emit e H_stream_flush) = enc_inv e"
  "enc_inv (emit e H_glFinishRoundTrip) = enc_inv e" "enc_inv (emit e (H_glPixelStorei pn v)) = enc_inv e"
  "enc_inv (emit e (H_glBufferData tg sz d us)) = enc_inv e"
  "enc_inv (emit e (H_glBufferSubData tg off sz bs)) = enc_inv e"
  "enc_inv (emit e (H_glDeleteBuffers ns)) = enc_inv e"
  by (simp_all add: enc_inv_def)

lemma enc_inv_upd [simp]:
  "enc_inv (e\<lparr>e_shared := g\<rparr>) = enc_inv e" "enc_inv (setError e err) = enc_inv e"
  "enc_inv (e\<lparr>e_formats := fs\<rparr>) = enc_inv e" "enc_inv (e\<lparr>e_num_formats := n\<rparr>) = enc_inv e"
  by (simp_all add: enc_inv_def)

lemma formats_inv: "enc_inv e \<Longrightarrow> getCompressedTextureFormats H e = (e', fs) \<Longrightarrow> enc_inv e'"
  by (auto simp: getCompressedTextureFormats_def Let_def split: option.splits if_splits)

lemma s_glGetIntegerv_inv: "s_glGetIntegerv H e param = Some (e', r) \<Longrightarrow> enc_inv e \<Longrightarrow> enc_inv e'"
  using formats_inv [of e H]
  by (auto simp: s_glGetIntegerv_def Let_def split: option.splits prod.splits bool.splits if_splits)

lemma s_glGetFloatv_inv: "s_glGetFloatv F H e param = Some (e', r) \<Longrightarrow> enc_inv e \<Longrightarrow> enc_inv e'"
  using formats_inv [of e H]
  by (auto simp: s_glGetFloatv_def Let_def split: option.splits prod.splits bool.splits if_splits)

lemma s_glGetBooleanv_inv: "s_glGetBooleanv H e param = Some (e', r) \<Longrightarrow> enc_inv e \<Longrightarrow> enc_inv e'"
  using formats_inv [of e H]
  by (auto simp: s_glGetBooleanv_def Let_def split: option.splits prod.splits bool.splits if_splits)

lemma s_glBindBuffer_inv: "enc_inv e \<Longrightarrow> enc_inv (s_glBindBuffer e t b)"
  by (simp add: s_glBindBuffer_def enc_inv_def scalar_updates_inv)

lemma s_glPixelStorei_inv: "enc_inv e \<Longrightarrow> enc_inv (s_glPixelStorei e p v)"
  by (simp add: s_glPixelStorei_def enc_inv_def scalar_updates_inv)

lemma s_glBufferData_inv:
  "s_glBufferData fresh e t sz d us = Some e' \<Longrightarrow> enc_inv e \<Longrightarrow> enc_inv e'"
  by (auto simp: s_glBufferData_def Let_def split: if_splits option.splits)

lemma s_glBufferSubData_inv:
  "s_glBufferSubData e t off sz bs = Some e' \<Longrightarrow> enc_inv e \<Longrightarrow> enc_inv e'"
  by (auto simp: s_glBufferSubData_def Let_def split: if_splits option.splits prod.splits)

lemma s_glDeleteBuffers_inv: "enc_inv e \<Longrightarrow> enc_inv (s_glDeleteBuffers e n bs)"
proof -
  have "enc_inv e \<Longrightarrow> enc_inv (foldl delete_buffer e ns)" for ns
    by (induction ns arbitrary: e) (simp_all add: delete_buffer_def)
  then show "enc_inv e \<Longrightarrow> enc_inv (s_glDeleteBuffers e n bs)" by (simp add: s_glDeleteBuffers_def)
qed

lemma vertex_entry_inv:
  "enc_inv e \<Longrightarrow> enc_inv (s_glVertexAttribPointer e i sz ty nm st p)"
  "enc_inv e \<Longrightarrow> enc_inv (s_glEnableVertexAttribArray e i)"
  "enc_inv e \<Longrightarrow> enc_inv (s_glDisableVertexAttribArray e i)"
  by (simp_all add: s_glVertexAttribPointer_def s_glEnableVertexAttribArray_def
      s_glDisableVertexAttribArray_def enc_inv_def setState_inv setState_agree enable_inv enable_agree)

lemma s_glShaderSource_inv: "s_glShaderSource e sh ss ls = Some e' \<Longrightarrow> enc_inv e \<Longrightarrow> enc_inv e'"
  by (auto simp: s_glShaderSource_def Let_def split: if_splits option.splits prod.splits)

lemma s_glLinkProgram_inv:
  assumes "enc_inv e"
  shows "enc_inv (s_glLinkProgram junk H e program)"
proof -
  have "enc_inv e \<Longrightarrow> enc_inv (foldl (link_uniform H program n) e is)" for e n "is"
    by (induction "is" arbitrary: e) (simp_all add: link_uniform_def Let_def split: prod.split)
  then show ?thesis using assms by (simp add: s_glLinkProgram_def Let_def)
qed

lemma s_glCreateShader_inv: "s_glCreateShader a H e ty = Some (e', sh) \<Longrightarrow> enc_inv e \<Longrightarrow> enc_inv e'"
  by (auto simp: s_glCreateShader_def Let_def split: if_splits option.splits prod.splits)

lemma s_glGetUniformLocation_inv:
  "s_glGetUniformLocation H e p nm = Some (e', l) \<Longrightarrow> enc_inv e \<Longrightarrow> enc_inv e'"
  by (auto simp: s_glGetUniformLocation_def Let_def split: if_splits option.splits prod.splits)

lemma texture_emit_inv:
  "enc_inv e \<Longrightarrow> enc_inv (fst (s_glGetTexParameterfv H e target pname))"
  "enc_inv e \<Longrightarrow> enc_inv (fst (s_glGetTexParameteriv H e target pname))"
  "enc_inv e \<Longrightarrow> enc_inv (s_glTexParameterf F e target pname x)"
  "enc_inv e \<Longrightarrow> enc_inv (s_glTexParameterfv F e target pname fs)"
  "enc_inv e \<Longrightarrow> enc_inv (s_glTexParameteri e target pname i)"
  "enc_inv e \<Longrightarrow> enc_inv (s_glTexParameteriv e target pname is)"
  by (simp_all add: texture_entry_defs Let_def override_restore)

lemma image_inv:
  "enc_inv e \<Longrightarrow> enc_inv (s_glTexImage2D e target level ifmt width height border format type ptr)"
  "enc_inv e \<Longrightarrow> enc_inv (s_glTexSubImage2D e target level x0 y0 width height format type ptr)"
  "enc_inv e \<Longrightarrow> enc_inv (s_glCompressedTexImage2D e target level cfmt width height border sz ptr)"
  "enc_inv e \<Longrightarrow> enc_inv (s_glCompressedTexSubImage2D e target level x0 y0 width height format sz ptr)"
  "enc_inv e \<Longrightarrow> enc_inv (s_glCopyTexImage2D e target level cfmt x0 y0 width height border)"
  "enc_inv e \<Longrightarrow> enc_inv (s_glCopyTexSubImage2D e target level x0 y0 x1 y1 width height)"
  "enc_inv e \<Longrightarrow> enc_inv (s_glGenerateMipmap e target)"
  by (simp_all add: texture_entry_defs override_restore)

lemmas entry_inv =
  s_glGetIntegerv_inv s_glGetFloatv_inv s_glGetBooleanv_inv s_glBindBuffer_inv s_glPixelStorei_inv
  s_glBufferData_inv s_glBufferSubData_inv s_glDeleteBuffers_inv vertex_entry_inv
  s_glDrawArrays_inv s_glDrawElements_inv s_glShaderSource_inv s_glLinkProgram_inv
  s_glCreateShader_inv s_glGetUniformLocation_inv s_glUseProgram_inv s_glUniform1i_inv
  s_glActiveTexture_inv s_glBindTexture_inv s_glDeleteTextures_inv texture_emit_inv image_inv

lemma gl2_step_inv: "gl2_step e e' \<Longrightarrow> enc_inv e \<Longrightarrow> enc_inv e'"
proof (induction rule: gl2_step.induct)
  case (GL_DrawElements fresh m e mode count type indices e')
  then show ?case by (blast intro: s_glDrawElements_inv)
qed (auto simp: entry_defs Let_def intro: entry_inv split: prod.split bool.split)

lemma gl2_steps_inv: "gl2_step\<^sup>*\<^sup>* e e' \<Longrightarrow> enc_inv e \<Longrightarrow> enc_inv e'"
  by (induction rule: rtranclp_induct) (auto intro: gl2_step_inv)

lemma agree_new: "agree (GLClientState_new junk n) host_init"
  by (auto simp: agree_def textures_agree_def arrays_agree_def host_init_def GLClientState_new_def
      sampled_simps Let_def)

lemma enc_inv_new: "enc_inv (GL2Encoder_new (GLClientState_new junk n) g)"
  by (simp add: enc_inv_def GL2Encoder_new_def GLClientState_new_inv host_of_def agree_new)

end
