(* ===== verification/GL1Coherence.thy ===== *)
theory GL1Coherence
  imports GL1Encoder GL2Steps
begin

text \<open>
  The encoder of OpenGL ES 1 and the host stay in step. The relation is the one of
  \<open>GL2Coherence\<close>, whose lemmas the shared functions inherit, with one clause more: the host's
  2D target of a unit is enabled while the 2D or the external target of the guest's is.
\<close>

section \<open>The relation\<close>

definition targets_agree :: "client_state \<Rightarrow> host_state \<Rightarrow> bool" where
  "targets_agree s h \<longleftrightarrow> (\<forall>u<length (cs_units s).
     u \<in> hs_tex2d h \<longleftrightarrow> unit_priority (cs_units s ! u) GL_INVALID_ENUM \<noteq> GL_INVALID_ENUM)"

definition enc1_inv :: "encoder \<Rightarrow> bool" where
  "enc1_inv e \<longleftrightarrow> enc_inv e \<and> targets_agree (e_state e) (host_of e)"

lemma enc1_invD:
  assumes "enc1_inv e"
  shows "enc_inv e" and "targets_agree (e_state e) (host_of e)"
  using assms by (simp_all add: enc1_inv_def)

text \<open>Most functions change neither the guest's enables nor the host's.\<close>

definition enables_of :: "client_state \<Rightarrow> u32 list" where
  "enables_of s = map tu_enables (cs_units s)"

definition kept :: "encoder \<Rightarrow> encoder \<Rightarrow> bool" where
  "kept e e' \<longleftrightarrow> hs_tex2d (host_of e') = hs_tex2d (host_of e)
     \<and> enables_of (e_state e') = enables_of (e_state e)"

lemma unit_priority_cong: "tu_enables u = tu_enables v \<Longrightarrow> unit_priority u d = unit_priority v d"
  by (simp add: unit_priority_def)

lemma targets_agree_cong:
  assumes "hs_tex2d h' = hs_tex2d h" and "enables_of s' = enables_of s"
  shows "targets_agree s' h' = targets_agree s h"
proof -
  have len: "length (cs_units s') = length (cs_units s)"
    using assms(2) by (metis enables_of_def length_map)
  have "tu_enables (cs_units s' ! u) = tu_enables (cs_units s ! u)" if "u < length (cs_units s)" for u
    using assms(2) that len by (metis enables_of_def nth_map)
  then have "unit_priority (cs_units s' ! u) d = unit_priority (cs_units s ! u) d"
    if "u < length (cs_units s)" for u d
    using that by (intro unit_priority_cong) simp
  then show ?thesis using assms(1) len by (simp add: targets_agree_def)
qed

lemma kept_inv: "enc1_inv e \<Longrightarrow> enc_inv e' \<Longrightarrow> kept e e' \<Longrightarrow> enc1_inv e'"
  using targets_agree_cong [of "host_of e'" "host_of e" "e_state e'" "e_state e"]
  by (simp add: enc1_inv_def kept_def)

lemma kept_refl [simp]: "kept e e"
  by (simp add: kept_def)

lemma kept_trans: "kept e e' \<Longrightarrow> kept e' e'' \<Longrightarrow> kept e e''"
  by (simp add: kept_def)

lemma host_step_tex2d [simp]:
  "hs_tex2d (host_step h c) = (case c of H_gl1 g \<Rightarrow> hs_tex2d (gl1_step h g) | _ \<Rightarrow> hs_tex2d h)"
  by (simp add: host_step_def split: host_call.split)

lemma gl1_step_tex2d [simp]:
  "hs_tex2d (gl1_step h g) = (case g of
     Enable cap \<Rightarrow> if cap = GL_TEXTURE_2D then insert (hs_unit h) (hs_tex2d h) else hs_tex2d h
   | Disable cap \<Rightarrow> if cap = GL_TEXTURE_2D then hs_tex2d h - {hs_unit h} else hs_tex2d h
   | _ \<Rightarrow> hs_tex2d h)"
  by (simp add: gl1_step_def split: gl1_call.split option.split)

lemma enables_upd [simp]:
  "enables_of (upd_location s l f) = enables_of s"
  "enables_of (setState s l sz ty nm st p) = enables_of s"
  "enables_of (enable s l b) = enables_of s"
  "enables_of (fst (bindBuffer s t bid)) = enables_of s"
  "enables_of (fst (setPixelStore s p v)) = enables_of s"
  "enables_of (fst (setActiveTextureUnit s t)) = enables_of s"
  "enables_of (setActiveTexture s k) = enables_of s"
  by (simp_all add: enables_of_def upd_location_def setState_def enable_def bindBuffer_def
      setPixelStore_def setActiveTextureUnit_def setActiveTexture_def Let_def)

lemma enables_upd_unit:
  assumes "units_ok s" and "tu_enables (f (active_unit s)) = tu_enables (active_unit s)"
  shows "enables_of (upd_unit s f) = enables_of s"
  using assms by (simp add: enables_of_def upd_unit_def map_update active_unit_def units_ok_def
      list_update_same_conv)

lemma enables_deleteTexture [simp]: "enables_of (deleteTexture s t) = enables_of s"
  by (simp add: enables_of_def deleteTexture_def unbind_unit_def comp_def split: option.split)

lemma enables_deleteTextures [simp]: "enables_of (deleteTextures s ts) = enables_of s"
  unfolding deleteTextures_def by (induction ts arbitrary: s) simp_all

lemma enables_bindTexture:
  assumes "cs_inv s" and "name_ok tid" and "bindTexture ra s target tid = (s', err, first)"
  shows "enables_of s' = enables_of s"
  using assms
proof (cases rule: bindTexture_shape)
  case (2 a ts)
  have "units_ok (s\<lparr>cs_allocTextures := a, cs_textures := ts\<rparr>)"
    using units_ok [OF assms(1)] by (simp add: units_ok_def)
  then have "enables_of s' = enables_of (s\<lparr>cs_allocTextures := a, cs_textures := ts\<rparr>)"
    unfolding 2(2) by (auto intro!: enables_upd_unit)
  then show ?thesis by (simp add: enables_of_def)
qed simp

section \<open>The shared functions\<close>

lemmas shared_1 =
  s_glGetError_1_def s_glFlush_1_def s_glFinish_1_def s_glPixelStorei_1_def
  getCompressedTextureFormats_1_def s_glBindBuffer_1_def s_glBufferData_1_def
  s_glBufferSubData_1_def s_glDeleteBuffers_1_def s_glActiveTexture_1_def s_glBindTexture_1_def
  s_glDeleteTextures_1_def override2DTextureTarget_1_def restore2DTextureTarget_1_def
  s_glGetTexParameterfv_1_def s_glGetTexParameteriv_1_def s_glTexImage2D_1_def
  s_glTexSubImage2D_1_def s_glCompressedTexImage2D_1_def s_glCompressedTexSubImage2D_1_def
  s_glCopyTexImage2D_1_def s_glCopyTexSubImage2D_1_def s_glGenerateMipmapOES_1_def

lemma kept_emit [simp]: "\<forall>g. c \<noteq> H_gl1 g \<Longrightarrow> kept e (emit e' c) = kept e e'"
  by (cases c) (auto simp: kept_def)

lemma kept_upd [simp]:
  "kept e (e'\<lparr>e_shared := g\<rparr>) = kept e e'" "kept e (setError e' err) = kept e e'"
  "kept e (e'\<lparr>e_formats := fs\<rparr>) = kept e e'" "kept e (e'\<lparr>e_num_formats := n\<rparr>) = kept e e'"
  "kept e (e'\<lparr>e_fixed := fb\<rparr>) = kept e e'"
  by (simp_all add: kept_def)

lemma override_restore_kept [simp]:
  "kept e (restore2DTextureTarget (emit (override2DTextureTarget e target) (H_texture t c)))"
  by (simp add: restore2DTextureTarget_def override2DTextureTarget_def)

lemma formats_kept: "getCompressedTextureFormats H e = (e', fs) \<Longrightarrow> kept e e'"
  by (auto simp: getCompressedTextureFormats_def Let_def kept_def split: option.splits if_splits)

lemma buffer_kept:
  "kept e (s_glBindBuffer e target bid)"
  "s_glBufferData fresh e target sz data usage = Some e' \<Longrightarrow> kept e e'"
  "s_glBufferSubData e target offs sz bs = Some e' \<Longrightarrow> kept e e'"
  by (auto simp: s_glBindBuffer_def s_glBufferData_def s_glBufferSubData_def Let_def kept_def
      split: if_splits option.splits prod.splits)

lemma delete_buffers_kept: "kept e (s_glDeleteBuffers e n bs)"
proof -
  have "kept e (foldl delete_buffer e1 ns)" if "kept e e1" for e1 ns
    using that by (induction ns arbitrary: e1) (simp_all add: delete_buffer_def kept_def)
  then show ?thesis by (simp add: s_glDeleteBuffers_def)
qed

lemma simple_kept:
  "kept e (fst (s_glGetError H e))" "kept e (s_glFlush e)" "kept e (s_glFinish e)"
  "kept e (s_glPixelStorei e param v)" "kept e (s_glDeleteTextures e ts)"
  "kept e (fst (s_glGetTexParameterfv H e target pname))"
  "kept e (fst (s_glGetTexParameteriv H e target pname))"
  by (simp_all add: entry_defs s_glPixelStorei_def s_glDeleteTextures_def kept_def Let_def
      texture_entry_defs override2DTextureTarget_def restore2DTextureTarget_def)

lemma image_kept:
  "kept e (s_glTexImage2D e target level ifmt width height border format type ptr)"
  "kept e (s_glTexSubImage2D e target level x0 y0 width height format type ptr)"
  "kept e (s_glCompressedTexImage2D e target level cfmt width height border sz ptr)"
  "kept e (s_glCompressedTexSubImage2D e target level x0 y0 width height format sz ptr)"
  "kept e (s_glCopyTexImage2D e target level cfmt x0 y0 width height border)"
  "kept e (s_glCopyTexSubImage2D e target level x0 y0 x1 y1 width height)"
  "kept e (s_glGenerateMipmap e target)"
  by (simp_all add: texture_entry_defs)

lemma activeTexture_kept: "kept e (s_glActiveTexture e t)"
proof -
  obtain s err where a: "setActiveTextureUnit (e_state e) t = (s, err)" by fastforce
  then have "enables_of s = enables_of (e_state e)" by (metis enables_upd(6) fst_conv)
  then show ?thesis using a by (simp add: s_glActiveTexture_def kept_def)
qed

lemma bindTexture_kept:
  assumes "cs_inv (e_state e)" and "name_ok tid"
  shows "kept e (s_glBindTexture ra e target tid)"
proof -
  obtain s err first where b: "bindTexture ra (e_state e) target tid = (s, err, first)"
    by (cases "bindTexture ra (e_state e) target tid") auto
  then show ?thesis
    using enables_bindTexture [OF assms b] by (simp add: s_glBindTexture_def kept_def Let_def)
qed

section \<open>Texture targets\<close>

lemma target_bits:
  fixes w :: u32
  shows "(w OR 1) AND 2 = w AND 2" "(w OR 2) AND 1 = w AND 1"
    "(w AND NOT 1) AND 2 = w AND 2" "(w AND NOT 2) AND 1 = w AND 1"
    "(w OR 1) AND 1 = 1" "(w OR 2) AND 2 = 2" "(w AND NOT 1) AND 1 = 0" "(w AND NOT 2) AND 2 = 0"
  by (rule bit_word_eqI; auto simp: bit_simps)+

lemma target_masks:
  fixes w :: u32
  shows "(w AND - 2) AND 2 = w AND 2" "(w AND - 3) AND 1 = w AND 1"
    "(w AND - 2) AND 1 = 0" "(w AND - 3) AND 2 = 0"
  using target_bits [of w] by simp_all

text \<open>What a unit samples, by its target of higher priority when none is the default.\<close>

lemma sampled_priority:
  "sampled u = (if unit_priority u GL_INVALID_ENUM = GL_TEXTURE_EXTERNAL_OES then tu_external u else tu_2d u)"
  by (simp add: sampled_simps unit_priority_def)

definition target_switched :: "GLenum \<Rightarrow> bool \<Rightarrow> texture_unit \<Rightarrow> texture_unit" where
  "target_switched cap on u = u\<lparr>tu_enables :=
     (let bit = (if cap = GL_TEXTURE_2D then BIT_2D else BIT_EXTERNAL)
      in if on then tu_enables u OR bit else tu_enables u AND NOT bit)\<rparr>"

lemma target_switched_fields [simp]:
  "tu_2d (target_switched cap on u) = tu_2d u" "tu_external (target_switched cap on u) = tu_external u"
  by (simp_all add: target_switched_def)

lemma switch_targets:
  assumes "cap = GL_TEXTURE_2D \<or> cap = GL_TEXTURE_EXTERNAL_OES"
  shows "enableTextureTarget s cap = upd_unit s (target_switched cap True)"
    and "disableTextureTarget s cap = upd_unit s (target_switched cap False)"
  using assms by (auto simp: enableTextureTarget_def disableTextureTarget_def upd_unit_def target_switched_def)

lemma targets_upd_unit:
  assumes "units_ok s" and "targets_agree s h" and "hs_unit h = cs_activeUnit s"
    and "hs_tex2d h' = (if unit_priority (f (active_unit s)) GL_INVALID_ENUM = GL_INVALID_ENUM
           then hs_tex2d h - {hs_unit h} else insert (hs_unit h) (hs_tex2d h))"
  shows "targets_agree (upd_unit s f) h'"
  using assms by (auto simp: targets_agree_def upd_unit_def nth_list_update units_ok_def)

lemma s_glEnable_1_texture:
  assumes "cap = GL_TEXTURE_2D \<or> cap = GL_TEXTURE_EXTERNAL_OES" and "units_ok (e_state e)"
    and "agree (e_state e) (host_of e)" and "targets_agree (e_state e) (host_of e)"
  shows "e_state (s_glEnable_1 e cap) = upd_unit (e_state e) (target_switched cap True)
    \<and> agree (e_state (s_glEnable_1 e cap)) (host_of (s_glEnable_1 e cap))
    \<and> targets_agree (e_state (s_glEnable_1 e cap)) (host_of (s_glEnable_1 e cap))"
proof -
  let ?s = "e_state e" and ?u = "active_unit (e_state e)" and ?f = "target_switched cap True"
  let ?e = "s_glEnable_1 e cap" and ?on = "unit_priority (?f ?u) GL_INVALID_ENUM"
  let ?was = "unit_priority ?u GL_INVALID_ENUM"
  have on: "?on = (if cap = GL_TEXTURE_EXTERNAL_OES \<or> ?was = GL_TEXTURE_EXTERNAL_OES
      then GL_TEXTURE_EXTERNAL_OES else GL_TEXTURE_2D)"
    using assms(1) by (auto simp: target_switched_def unit_priority_def target_bits target_masks)
  have was: "?was = GL_TEXTURE_2D \<or> ?was = GL_TEXTURE_EXTERNAL_OES \<or> ?was = GL_INVALID_ENUM"
    by (simp add: unit_priority_def)
  have st: "e_state ?e = upd_unit ?s ?f"
    using assms(1) by (simp add: s_glEnable_1_def switch_targets Let_def)
  have unit: "hs_unit (host_of e) = cs_activeUnit ?s" by (rule agreeD(1) [OF assms(3)])
  have mem: "hs_unit (host_of e) \<in> hs_tex2d (host_of e) \<longleftrightarrow> ?was \<noteq> GL_INVALID_ENUM"
    using assms(2,4) by (simp add: unit targets_agree_def active_unit_def units_ok_def)
  have host: "hs_unit (host_of ?e) = hs_unit (host_of e)" "hs_enabled (host_of ?e) = hs_enabled (host_of e)"
    "hs_tex2d (host_of ?e) = insert (hs_unit (host_of e)) (hs_tex2d (host_of e))"
    "hs_2d (host_of ?e) = (if ?was \<noteq> ?on \<and> ?on = GL_TEXTURE_EXTERNAL_OES
       then (hs_2d (host_of e))(hs_unit (host_of e) := sampled (?f ?u)) else hs_2d (host_of e))"
    using assms(1,2) was on mem
    by (auto simp: s_glEnable_1_def switch_targets Let_def getPriorityEnabledTarget_def
        host_step_def gl1_step_def getBoundTexture_def unit_texture_def sampled_priority)
  have same: "hs_2d (host_of e) = (hs_2d (host_of e))(hs_unit (host_of e) := sampled ?u)"
    using agreeD(2) [OF assms(3)] assms(2) by (simp add: unit active_unit_def fun_upd_idem units_ok_def)
  have "hs_2d (host_of ?e) = (hs_2d (host_of e))(hs_unit (host_of e) := sampled (?f ?u))"
  proof (cases "?was \<noteq> ?on \<and> ?on = GL_TEXTURE_EXTERNAL_OES")
    case True
    show ?thesis unfolding host(4) by (rule if_P [OF True])
  next
    case False
    then have "sampled (?f ?u) = sampled ?u" using on was by (auto simp: sampled_priority split: if_splits)
    moreover have "hs_2d (host_of ?e) = hs_2d (host_of e)" unfolding host(4) by (rule if_not_P [OF False])
    ultimately show ?thesis using same by metis
  qed
  then have "agree (upd_unit ?s ?f) (host_of ?e)" by (rule agree_upd_unit [OF assms(2,3) host(1,2)])
  moreover have "targets_agree (upd_unit ?s ?f) (host_of ?e)"
    using on by (intro targets_upd_unit [OF assms(2,4) unit]) (simp add: host(3))
  ultimately show ?thesis by (simp add: st)
qed

lemma s_glDisable_1_texture:
  assumes "cap = GL_TEXTURE_2D \<or> cap = GL_TEXTURE_EXTERNAL_OES" and "units_ok (e_state e)"
    and "agree (e_state e) (host_of e)" and "targets_agree (e_state e) (host_of e)"
  shows "e_state (s_glDisable_1 e cap) = upd_unit (e_state e) (target_switched cap False)
    \<and> agree (e_state (s_glDisable_1 e cap)) (host_of (s_glDisable_1 e cap))
    \<and> targets_agree (e_state (s_glDisable_1 e cap)) (host_of (s_glDisable_1 e cap))"
proof -
  let ?s = "e_state e" and ?u = "active_unit (e_state e)" and ?f = "target_switched cap False"
  let ?e = "s_glDisable_1 e cap" and ?on = "unit_priority (?f ?u) GL_INVALID_ENUM"
  let ?was = "unit_priority ?u GL_INVALID_ENUM"
  have on: "?on = ?was \<or> ?on \<noteq> GL_TEXTURE_EXTERNAL_OES"
    using assms(1) by (auto simp: target_switched_def unit_priority_def target_bits target_masks)
  have off: "?was = GL_INVALID_ENUM \<Longrightarrow> ?on = GL_INVALID_ENUM"
    using assms(1) by (auto simp: target_switched_def unit_priority_def target_bits target_masks split: if_splits)
  have tgt: "?on = GL_TEXTURE_2D \<or> ?on = GL_TEXTURE_EXTERNAL_OES \<or> ?on = GL_INVALID_ENUM"
    by (simp add: unit_priority_def)
  have st: "e_state ?e = upd_unit ?s ?f"
    using assms(1) by (simp add: s_glDisable_1_def switch_targets Let_def)
  have unit: "hs_unit (host_of e) = cs_activeUnit ?s" by (rule agreeD(1) [OF assms(3)])
  have mem: "hs_unit (host_of e) \<in> hs_tex2d (host_of e) \<longleftrightarrow> ?was \<noteq> GL_INVALID_ENUM"
    using assms(2,4) by (simp add: unit targets_agree_def active_unit_def units_ok_def)
  have host: "hs_unit (host_of ?e) = hs_unit (host_of e)" "hs_enabled (host_of ?e) = hs_enabled (host_of e)"
    "hs_tex2d (host_of ?e) = (if ?on = GL_INVALID_ENUM then hs_tex2d (host_of e) - {hs_unit (host_of e)}
       else insert (hs_unit (host_of e)) (hs_tex2d (host_of e)))"
    "hs_2d (host_of ?e) = (if ?was \<noteq> ?on
       then (hs_2d (host_of e))(hs_unit (host_of e) := sampled (?f ?u)) else hs_2d (host_of e))"
    using assms(1,2) tgt on off mem
    by (auto simp: s_glDisable_1_def switch_targets Let_def getPriorityEnabledTarget_def
        host_step_def gl1_step_def getBoundTexture_def unit_texture_def sampled_priority)
  have same: "hs_2d (host_of e) = (hs_2d (host_of e))(hs_unit (host_of e) := sampled ?u)"
    using agreeD(2) [OF assms(3)] assms(2) by (simp add: unit active_unit_def fun_upd_idem units_ok_def)
  have "hs_2d (host_of ?e) = (hs_2d (host_of e))(hs_unit (host_of e) := sampled (?f ?u))"
  proof (cases "?was = ?on")
    case True
    then have "sampled (?f ?u) = sampled ?u" by (simp add: sampled_priority)
    moreover have "hs_2d (host_of ?e) = hs_2d (host_of e)" using True host(4) by simp
    ultimately show ?thesis using same by metis
  qed (simp add: host(4))
  then have "agree (upd_unit ?s ?f) (host_of ?e)" by (rule agree_upd_unit [OF assms(2,3) host(1,2)])
  moreover have "targets_agree (upd_unit ?s ?f) (host_of ?e)"
    by (intro targets_upd_unit [OF assms(2,4) unit]) (rule host(3))
  ultimately show ?thesis by (simp add: st)
qed

lemma target_switched_ok [simp]: "unit_ok ts (target_switched cap on u) = unit_ok ts u"
  by (simp add: target_switched_def)

lemma enable_inv1: "enc1_inv e \<Longrightarrow> enc1_inv (s_glEnable_1 e cap)"
  using s_glEnable_1_texture [of cap e] upd_unit_inv [of "e_state e" "target_switched cap True"]
  by (cases "cap = GL_TEXTURE_2D \<or> cap = GL_TEXTURE_EXTERNAL_OES")
    (auto simp: enc1_inv_def enc_inv_def units_ok active_unit_ok s_glEnable_1_def host_step_def
      gl1_step_def)

lemma disable_inv1: "enc1_inv e \<Longrightarrow> enc1_inv (s_glDisable_1 e cap)"
  using s_glDisable_1_texture [of cap e] upd_unit_inv [of "e_state e" "target_switched cap False"]
  by (cases "cap = GL_TEXTURE_2D \<or> cap = GL_TEXTURE_EXTERNAL_OES")
    (auto simp: enc1_inv_def enc_inv_def units_ok active_unit_ok s_glDisable_1_def host_step_def
      gl1_step_def)

section \<open>Arrays\<close>

lemma below_14: "i < 14 \<Longrightarrow> i \<in> {0, 1, 2, 3, 4, 5, 6, 7, 8, 9, 10, 11, 12, 13 :: nat}"
proof -
  assume "i < 14"
  then have i: "i \<in> set [0..<14]" by simp
  have "[0..<14] = [0, 1, 2, 3, 4, 5, 6, 7, 8, 9, 10, 11, 12, 13]" by (simp add: upt_conv_Cons)
  from i [unfolded this] show ?thesis by simp
qed

lemma location_list: "location_consts =
  [GL_VERTEX_ARRAY, GL_NORMAL_ARRAY, GL_COLOR_ARRAY, GL_POINT_SIZE_ARRAY_OES,
   GL_TEXTURE_COORD_ARRAY, GL_TEXTURE_COORD_ARRAY, GL_TEXTURE_COORD_ARRAY, GL_TEXTURE_COORD_ARRAY,
   GL_TEXTURE_COORD_ARRAY, GL_TEXTURE_COORD_ARRAY, GL_TEXTURE_COORD_ARRAY, GL_TEXTURE_COORD_ARRAY,
   GL_MATRIX_INDEX_ARRAY_OES, GL_WEIGHT_ARRAY_OES]"
  by (simp add: location_consts_def numeral_eq_Suc)

text \<open>Every slot is told to the host by a constant that, with the unit sent before it, names the slot.\<close>

lemma array_number_location:
  assumes "i < 14"
  shows "array_number (location_consts ! i) (if 4 \<le> i \<and> i \<le> 11 then i - 4 else u) = Some i"
  using below_14 [OF assms] unfolding location_list array_number_def
  by (elim insertE emptyE) simp_all

lemma coordinate_unit:
  assumes "4 \<le> i" and "i \<le> 11"
  shows "(4 :: GLenum) \<le> of_nat i" and "unat (of_nat i - 4 :: GLenum) = i - 4"
    and "(of_nat i - 4 :: GLenum) < 8"
proof -
  have "i \<in> {4, 5, 6, 7, 8, 9, 10, 11}" using below_14 [of i] assms by auto
  then show "(4 :: GLenum) \<le> of_nat i" and "unat (of_nat i - 4 :: GLenum) = i - 4"
    and "(of_nat i - 4 :: GLenum) < 8" by auto
qed

text \<open>
  The unit of a texture coordinate array is told to the host first; after that the constant of
  the slot names it, and nothing else has changed.
\<close>

definition unit_sent :: "nat \<Rightarrow> encoder \<Rightarrow> encoder" where
  "unit_sent i e = (if 4 \<le> i \<and> i \<le> 11
     then emit e (H_gl1 (ClientActiveTexture (GL_TEXTURE0 + of_nat i - 4))) else e)"

lemma unit_sent_simps [simp]:
  "e_state (unit_sent i e) = e_state e" "e_shared (unit_sent i e) = e_shared e"
  "hs_unit (host_of (unit_sent i e)) = hs_unit (host_of e)"
  "hs_2d (host_of (unit_sent i e)) = hs_2d (host_of e)"
  "hs_tex2d (host_of (unit_sent i e)) = hs_tex2d (host_of e)"
  "hs_enabled (host_of (unit_sent i e)) = hs_enabled (host_of e)"
  "hs_array (host_of (unit_sent i e)) = hs_array (host_of e)"
  "hs_element (host_of (unit_sent i e)) = hs_element (host_of e)"
  by (simp_all add: unit_sent_def host_step_def gl1_step_def)

lemma unit_sent_number:
  assumes "i < 14"
  shows "array_number (location_consts ! i) (hs_client_unit (host_of (unit_sent i e))) = Some i"
  using array_number_location [OF assms, of "hs_client_unit (host_of e)"] coordinate_unit [of i]
  by (auto simp: unit_sent_def host_step_def gl1_step_def)

lemma send_client_array_eq:
  assumes "validLocation (e_state e) (int i)" and "i < length (cs_states (e_state e))"
  shows "send_client_array first count e i =
    (let v = (cs_states (e_state e) ! i)\<lparr>va_enableDirty := False\<rparr>;
         dirty = va_enableDirty (cs_states (e_state e) ! i);
         e1 = e\<lparr>e_state := upd_location (e_state e) (int i) (\<lambda>v. v\<lparr>va_enableDirty := False\<rparr>)\<rparr>;
         e2 = unit_sent i e1
     in if \<not> dirty \<and> va_enabled v = 0 then e1
        else if va_enabled v \<noteq> 0 then
          (let e3 = (if dirty then emit e2 (H_gl1 (EnableClientState (va_glConst v))) else e2);
               datalen = va_elementSize v * word_of_int count;
               stride = (if va_stride v = 0 then sint (va_elementSize v) else va_stride v);
               firstIndex = i32 (stride * first)
           in if va_bufferObject v = 0
              then (case data_kind i v of None \<Rightarrow> e3
                    | Some k \<Rightarrow> emit e3 (H_gl1 (PointerData k (va_type v) (va_stride v)
                                   (va_data v + word_of_int firstIndex) datalen)))
              else
                (let e4 = emit e3 (H_glBindBuffer GL_ARRAY_BUFFER (va_bufferObject v));
                     e5 = (case offset_kind i v of None \<Rightarrow> e4
                           | Some k \<Rightarrow> emit e4 (H_gl1 (PointerOffset k (va_type v) (va_stride v)
                                   (va_data v + word_of_int firstIndex))))
                 in emit e5 (H_glBindBuffer GL_ARRAY_BUFFER (cs_currentArrayVbo (e_state e5)))))
        else emit e2 (H_gl1 (DisableClientState (va_glConst v))))"
proof -
  have "unit_sent i e1 = (if TEXCOORD0_LOCATION \<le> int i \<and> int i \<le> TEXCOORD0_LOCATION + 7
      then emit e1 (H_gl1 (ClientActiveTexture (GL_TEXTURE0 + of_nat i - word_of_int TEXCOORD0_LOCATION)))
      else e1)" for e1
    by (simp add: unit_sent_def)
  then show ?thesis
    using assms by (simp add: send_client_array_def getStateAndEnableDirty_def upd_location_def Let_def)
qed

lemma pointer_inert [simp]:
  "host_step h (H_gl1 (PointerData k t s p n)) = h" "host_step h (H_gl1 (PointerOffset k t s p')) = h"
  by (simp_all add: host_step_def gl1_step_def)

lemma client_state_step:
  assumes "array_number c (hs_client_unit h) = Some i"
  shows "host_step h (H_gl1 (EnableClientState c)) = h\<lparr>hs_enabled := insert i (hs_enabled h)\<rparr>"
    and "host_step h (H_gl1 (DisableClientState c)) = h\<lparr>hs_enabled := hs_enabled h - {i}\<rparr>"
  using assms by (simp_all add: host_step_def gl1_step_def)

lemma bind_array_step: "host_step h (H_glBindBuffer GL_ARRAY_BUFFER b) = h\<lparr>hs_array := b\<rparr>"
  by (simp add: host_step_def)

lemma send_client_array_sends:
  assumes "cs_inv (e_state e)" and "i < 14"
    and "va_enableDirty (cs_states (e_state e) ! i)
      \<or> (i \<in> hs_enabled (host_of e) \<longleftrightarrow> va_enabled (cs_states (e_state e) ! i) \<noteq> 0)"
  shows "sends_array i e (send_client_array first count e i)"
proof -
  let ?v = "cs_states (e_state e) ! i"
  have len: "i < length (cs_states (e_state e))" using assms(1,2) cs_invD(1,2) [of "e_state e"] by simp
  then have valid: "validLocation (e_state e) (int i)"
    using assms(1) by (simp add: validLocation_def cs_invD(1))
  have const: "va_glConst ?v = location_consts ! i" using assms(1,2) cs_invD(3) [of "e_state e" i] by simp
  note eq = send_client_array_eq [OF valid len, of first count, unfolded Let_def]
  note num = unit_sent_number [OF assms(2)]
  show ?thesis
  proof (cases "va_enabled ?v = 0")
    case True
    then show ?thesis
      using assms(3) len unfolding eq
      by (auto simp: sends_array_def upd_location_def const client_state_step [OF num])
  next
    case False
    then show ?thesis
      using assms(3) len unfolding eq
      by (cases "va_enableDirty ?v"; cases "va_bufferObject ?v = 0")
        (auto simp: sends_array_def upd_location_def const client_state_step [OF num] bind_array_step
          split: option.split)
  qed
qed

interpretation client_arrays: array_sender "send_client_array first count" "\<lambda>_. 14"
  by unfold_locales (simp_all add: send_client_array_sends)

lemma sendVertexData_upto:
  assumes "enc_inv e"
  shows "sent_upto 14 e (sendVertexData e first count)"
  using client_arrays.rounds_send [OF assms, of 14] cs_invD(1,2) [OF enc_invD(1) [OF assms]]
  by (simp add: sendVertexData_def)

lemma sendVertexData_inv: "enc_inv e \<Longrightarrow> enc_inv (sendVertexData e first count)"
  using client_arrays.rounds_inv [of e 14] cs_invD(1,2) [OF enc_invD(1)]
  by (simp add: sendVertexData_def)

lemma sendVertexData_kept: "enc_inv e \<Longrightarrow> kept e (sendVertexData e first count)"
  using sendVertexData_upto [of e first count] by (simp add: kept_def sent_upto_def enables_of_def)

end
