(* ===== verification/GL1Steps.thy ===== *)
theory GL1Steps
  imports GL1Coherence
begin

text \<open>
  Runs of an OpenGL ES 1 application: one step is any entry point of \<open>GLEncoder.cpp\<close>. The
  relation of \<open>GL1Coherence\<close> is kept by each of them, hence by every run.
\<close>

section \<open>Every entry point\<close>

text \<open>
  Arguments, answers of the host and outcomes of allocations are arbitrary, except that texture
  names are below \<open>2^31\<close>. Where an entry point can run into undefined behaviour, the step is
  taken when it does not.
\<close>

inductive es1_step :: "encoder \<Rightarrow> encoder \<Rightarrow> bool" where
  E_GetError: "es1_step e (fst (s_glGetError_1 H e))"
| E_Flush: "es1_step e (s_glFlush_1 e)"
| E_Finish: "es1_step e (s_glFinish_1 e)"
| E_PixelStorei: "es1_step e (s_glPixelStorei_1 e param v)"
| E_GetIntegerv: "s_glGetIntegerv_1 H e param = Some (e', is) \<Longrightarrow> es1_step e e'"
| E_GetFloatv: "s_glGetFloatv_1 F H e param = Some (e', fs) \<Longrightarrow> es1_step e e'"
| E_GetFixedv: "s_glGetFixedv_1 H e param = Some (e', xs) \<Longrightarrow> es1_step e e'"
| E_GetBooleanv: "s_glGetBooleanv_1 H e param = Some (e', bs) \<Longrightarrow> es1_step e e'"
| E_VertexPointer: "es1_step e (s_glVertexPointer_1 e sz type stride ptr)"
| E_NormalPointer: "es1_step e (s_glNormalPointer_1 e type stride ptr)"
| E_ColorPointer: "es1_step e (s_glColorPointer_1 e sz type stride ptr)"
| E_PointsizePointer: "es1_step e (s_glPointsizePointer_1 e type stride ptr)"
| E_TexcoordPointer: "es1_step e (s_glTexcoordPointer_1 e sz type stride ptr)"
| E_MatrixIndexPointer: "es1_step e (s_glMatrixIndexPointerOES_1 e sz type stride ptr)"
| E_WeightPointer: "es1_step e (s_glWeightPointerOES_1 e sz type stride ptr)"
| E_ClientActiveTexture: "es1_step e (s_glClientActiveTexture_1 e texture)"
| E_EnableClientState: "es1_step e (s_glEnableClientState_1 e array)"
| E_DisableClientState: "es1_step e (s_glDisableClientState_1 e array)"
| E_IsEnabled: "es1_step e (fst (s_glIsEnabled_1 H e cap))"
| E_BindBuffer: "es1_step e (s_glBindBuffer_1 e target b)"
| E_BufferData: "s_glBufferData_1 fresh e target sz data usage = Some e' \<Longrightarrow> es1_step e e'"
| E_BufferSubData: "s_glBufferSubData_1 e target offs sz bs = Some e' \<Longrightarrow> es1_step e e'"
| E_DeleteBuffers: "es1_step e (s_glDeleteBuffers_1 e n buffers)"
| E_DrawArrays: "es1_step e (s_glDrawArrays_1 e mode first count)"
| E_DrawElements: "s_glDrawElements_1 fresh m e mode count type indices = Some e' \<Longrightarrow> es1_step e e'"
| E_ActiveTexture: "es1_step e (s_glActiveTexture_1 e texture)"
| E_BindTexture: "name_ok t \<Longrightarrow> es1_step e (s_glBindTexture_1 ra e target t)"
| E_DeleteTextures: "list_all name_ok ts \<Longrightarrow> es1_step e (s_glDeleteTextures_1 e ts)"
| E_Disable: "es1_step e (s_glDisable_1 e cap)"
| E_Enable: "es1_step e (s_glEnable_1 e cap)"
| E_GetTexParameterfv: "es1_step e (fst (s_glGetTexParameterfv_1 H e target pname))"
| E_GetTexParameteriv: "es1_step e (fst (s_glGetTexParameteriv_1 H e target pname))"
| E_GetTexParameterxv: "es1_step e (fst (s_glGetTexParameterxv_1 H e target pname))"
| E_TexParameterf: "es1_step e (s_glTexParameterf_1 F e target pname x)"
| E_TexParameterfv: "es1_step e (s_glTexParameterfv_1 F e target pname fs)"
| E_TexParameteri: "es1_step e (s_glTexParameteri_1 e target pname i)"
| E_TexParameterx: "es1_step e (s_glTexParameterx_1 e target pname i)"
| E_TexParameteriv: "es1_step e (s_glTexParameteriv_1 e target pname is)"
| E_TexParameterxv: "es1_step e (s_glTexParameterxv_1 e target pname is)"
| E_TexImage2D: "es1_step e (s_glTexImage2D_1 e target level ifmt width height border format type ptr)"
| E_TexSubImage2D: "es1_step e (s_glTexSubImage2D_1 e target level x0 y0 width height format type ptr)"
| E_CompressedTexImage2D:
    "es1_step e (s_glCompressedTexImage2D_1 e target level cfmt width height border sz ptr)"
| E_CompressedTexSubImage2D:
    "es1_step e (s_glCompressedTexSubImage2D_1 e target level x0 y0 width height cfmt sz ptr)"
| E_CopyTexImage2D: "es1_step e (s_glCopyTexImage2D_1 e target level cfmt x0 y0 width height border)"
| E_CopyTexSubImage2D: "es1_step e (s_glCopyTexSubImage2D_1 e target level x0 y0 x1 y1 width height)"
| E_GenerateMipmapOES: "es1_step e (s_glGenerateMipmapOES_1 e target)"

inductive_cases es1_step_cases: "es1_step e e'"

inductive es1_run :: "encoder \<Rightarrow> bool" where
  ES1_start: "es1_run (GLEncoder_new (GLClientState_new junk n) g)"
| ES1_step: "es1_run e \<Longrightarrow> es1_step e e' \<Longrightarrow> es1_run e'"

section \<open>The invariant\<close>

lemma host_step_query_inert [simp]:
  "host_step h (H_gl1 (GetFixedv p)) = h" "host_step h (H_gl1 (IsEnabled p)) = h"
  by (simp_all add: host_step_def gl1_step_def)

lemma query_inert [simp]:
  "kept e (emit e' (H_gl1 (GetFixedv p))) = kept e e'" "kept e (emit e' (H_gl1 (IsEnabled p))) = kept e e'"
  "enc_inv (emit e (H_gl1 (GetFixedv p))) = enc_inv e" "enc_inv (emit e (H_gl1 (IsEnabled p))) = enc_inv e"
  by (simp_all add: kept_def enc_inv_def)

lemma query_kept:
  "s_glGetIntegerv_1 H e param = Some (e', r) \<Longrightarrow> enc_inv e \<Longrightarrow> enc_inv e' \<and> kept e e'"
  "s_glGetBooleanv_1 H e param = Some (e', b) \<Longrightarrow> enc_inv e \<Longrightarrow> enc_inv e' \<and> kept e e'"
  using formats_inv [of e H] formats_kept [of H e]
  by (auto simp: s_glGetIntegerv_1_def s_glGetBooleanv_1_def shared_1 Let_def
      split: option.splits prod.splits bool.splits if_splits)

lemma query_float_kept:
  "s_glGetFloatv_1 F H e param = Some (e', r) \<Longrightarrow> enc_inv e \<Longrightarrow> enc_inv e' \<and> kept e e'"
  using formats_inv [of e H] formats_kept [of H e]
  by (auto simp: s_glGetFloatv_1_def shared_1 Let_def split: option.splits prod.splits bool.splits if_splits)

lemma query_fixed_kept:
  "s_glGetFixedv_1 H e param = Some (e', r) \<Longrightarrow> enc_inv e \<Longrightarrow> enc_inv e' \<and> kept e e'"
  using formats_inv [of e H] formats_kept [of H e]
  by (auto simp: s_glGetFixedv_1_def shared_1 Let_def split: option.splits prod.splits bool.splits if_splits)

lemmas array_entry_defs =
  set_array_def s_glVertexPointer_1_def s_glNormalPointer_1_def s_glColorPointer_1_def
  s_glPointsizePointer_1_def s_glTexcoordPointer_1_def s_glMatrixIndexPointerOES_1_def
  s_glWeightPointerOES_1_def s_glClientActiveTexture_1_def s_glEnableClientState_1_def
  s_glDisableClientState_1_def

lemma setActiveTexture_agree [simp]: "agree (setActiveTexture s k) h = agree s h"
  by (simp add: setActiveTexture_def agree_def textures_agree_def arrays_agree_def)

lemma state_upd_inv1:
  assumes "enc1_inv e" and "cs_inv s" and "agree s (host_of e)" and "enables_of s = enables_of (e_state e)"
  shows "enc1_inv (e\<lparr>e_state := s\<rparr>)"
  using assms(2-4) by (intro kept_inv [OF assms(1)]) (simp_all add: enc_inv_def kept_def)

lemma array_inv1:
  assumes "enc1_inv e"
  shows "enc1_inv (set_array e l sz type stride ptr)" and "enc1_inv (s_glClientActiveTexture_1 e texture)"
    and "enc1_inv (s_glEnableClientState_1 e array)" and "enc1_inv (s_glDisableClientState_1 e array)"
  unfolding array_entry_defs
  using enc_invD [OF enc1_invD(1) [OF assms]]
  by (auto intro!: state_upd_inv1 [OF assms] setState_inv enable_inv setState_agree enable_agree
      simp: scalar_updates_inv)

lemma draw_inv1:
  assumes "enc1_inv e"
  shows "enc1_inv (s_glDrawArrays_1 e mode first count)"
    and "s_glDrawElements_1 fresh m e mode count type indices = Some e' \<Longrightarrow> enc1_inv e'"
proof -
  note i = enc1_invD(1) [OF assms]
  note send = sendVertexData_inv sendVertexData_kept
  show "enc1_inv (s_glDrawArrays_1 e mode first count)"
    using send [OF i, of first count] by (intro kept_inv [OF assms]) (simp_all add: s_glDrawArrays_1_def kept_def)
  show "enc1_inv e'" if d: "s_glDrawElements_1 fresh m e mode count type indices = Some e'"
  proof (rule kept_inv [OF assms])
    have se: "enc_inv (setError e err)" for err using i by (simp add: enc_inv_def)
    show "enc_inv e'"
      using d i se
      by (auto simp: s_glDrawElements_1_def Let_def send dest!: adjust_indices_inv(1)
          split: if_splits option.splits prod.splits)
    have draw: "kept e (sendVertexData e2 mn n)"
      if "adjust_indices fresh e1 rd count type = Some (e2, r)" "enc_inv e1" "kept e e1" for e1 e2 rd r mn n
    proof -
      note a = adjust_indices_inv [OF that(1,2)]
      have "kept e1 e2" using a(2,3) by (simp add: kept_def)
      then show ?thesis by (rule kept_trans [OF kept_trans [OF that(3)] send(2) [OF a(1)]])
    qed
    have bound: "kept e (emit e (H_glBindBuffer t b))" for t b by simp
    show "kept e e'"
      using d i send(2) [OF i, of 0 count] draw [OF _ i kept_refl] draw [OF _ _ bound]
      by (auto simp: s_glDrawElements_1_def Let_def split: if_splits option.splits prod.splits)
  qed
qed

lemmas parameter_defs =
  s_glGetTexParameterxv_1_def s_glTexParameterf_1_def s_glTexParameterfv_1_def s_glTexParameteri_1_def
  s_glTexParameterx_1_def s_glTexParameteriv_1_def s_glTexParameterxv_1_def

lemma override_restore_inv1 [simp]:
  "enc1_inv e \<Longrightarrow> enc1_inv (restore2DTextureTarget (emit (override2DTextureTarget e target)
     (H_texture GL_TEXTURE_2D c)))"
  using kept_inv [OF _ override_restore [OF enc1_invD(1)]] by simp

lemma emit_inert_inv1 [simp]:
  "enc1_inv (emit e (H_texture t c)) = enc1_inv e" "enc1_inv (setError e err) = enc1_inv e"
  "enc1_inv (emit e (H_gl1 (IsEnabled p))) = enc1_inv e"
  by (simp_all add: enc1_inv_def)

lemma parameter_inv1:
  assumes "enc1_inv e"
  shows "enc1_inv (fst (s_glGetTexParameterxv_1 H e target pname))"
    and "enc1_inv (s_glTexParameterf_1 F e target pname x)"
    and "enc1_inv (s_glTexParameterfv_1 F e target pname fs)"
    and "enc1_inv (s_glTexParameteri_1 e target pname i)"
    and "enc1_inv (s_glTexParameterx_1 e target pname i)"
    and "enc1_inv (s_glTexParameteriv_1 e target pname is)"
    and "enc1_inv (s_glTexParameterxv_1 e target pname is)"
  using assms by (simp_all add: parameter_defs shared_1 Let_def)

lemma isEnabled_inv1: "enc1_inv e \<Longrightarrow> enc1_inv (fst (s_glIsEnabled_1 H e cap))"
  by (simp add: s_glIsEnabled_1_def Let_def split: option.split)

lemma simple_inv:
  "enc_inv e \<Longrightarrow> enc_inv (fst (s_glGetError H e))" "enc_inv e \<Longrightarrow> enc_inv (s_glFlush e)"
  "enc_inv e \<Longrightarrow> enc_inv (s_glFinish e)"
  by (simp_all add: entry_defs Let_def)

lemma simple_inv1:
  assumes "enc1_inv e"
  shows "enc1_inv (fst (s_glGetError H e))" and "enc1_inv (s_glFlush e)" and "enc1_inv (s_glFinish e)"
    and "enc1_inv (s_glPixelStorei e param v)" and "enc1_inv (s_glBindBuffer e target b)"
    and "enc1_inv (s_glDeleteBuffers e n buffers)" and "enc1_inv (s_glActiveTexture e texture)"
    and "enc1_inv (fst (s_glGetTexParameterfv H e target pname))"
    and "enc1_inv (fst (s_glGetTexParameteriv H e target pname))"
  using enc1_invD(1) [OF assms]
  by (auto intro!: kept_inv [OF assms] simple_inv entry_inv simple_kept buffer_kept delete_buffers_kept
      activeTexture_kept)

lemma query_inv1:
  assumes "enc1_inv e"
  shows "s_glGetIntegerv_1 H e param = Some (e', is) \<Longrightarrow> enc1_inv e'"
    and "s_glGetFloatv_1 F H e param = Some (e', fs) \<Longrightarrow> enc1_inv e'"
    and "s_glGetFixedv_1 H e param = Some (e', is) \<Longrightarrow> enc1_inv e'"
    and "s_glGetBooleanv_1 H e param = Some (e', bs) \<Longrightarrow> enc1_inv e'"
  using enc1_invD(1) [OF assms]
  by (auto intro!: kept_inv [OF assms] dest: query_kept query_float_kept query_fixed_kept)

lemma buffer_inv1:
  assumes "enc1_inv e"
  shows "s_glBufferData fresh e target sz data usage = Some e' \<Longrightarrow> enc1_inv e'"
    and "s_glBufferSubData e target offs sz bs = Some e' \<Longrightarrow> enc1_inv e'"
  using enc1_invD(1) [OF assms]
  by (blast intro: kept_inv [OF assms] s_glBufferData_inv s_glBufferSubData_inv buffer_kept)+

lemma texture_inv1:
  assumes "enc1_inv e"
  shows "name_ok t \<Longrightarrow> enc1_inv (s_glBindTexture ra e target t)"
    and "list_all name_ok ts \<Longrightarrow> enc1_inv (s_glDeleteTextures e ts)"
  using enc1_invD(1) [OF assms] enc_invD(1) [OF enc1_invD(1) [OF assms]]
  by (auto intro!: kept_inv [OF assms] s_glBindTexture_inv s_glDeleteTextures_inv bindTexture_kept simple_kept)

lemma image_inv1:
  assumes "enc1_inv e"
  shows "enc1_inv (s_glTexImage2D e target level ifmt width height border format type ptr)"
    and "enc1_inv (s_glTexSubImage2D e target level x0 y0 width height format type ptr)"
    and "enc1_inv (s_glCompressedTexImage2D e target level cfmt width height border sz ptr)"
    and "enc1_inv (s_glCompressedTexSubImage2D e target level x0 y0 width height cfmt sz ptr)"
    and "enc1_inv (s_glCopyTexImage2D e target level cfmt x0 y0 width height border)"
    and "enc1_inv (s_glCopyTexSubImage2D e target level x0 y0 x1 y1 width height)"
    and "enc1_inv (s_glGenerateMipmap e target)"
  using enc1_invD(1) [OF assms]
  by (auto intro!: kept_inv [OF assms] image_inv image_kept)

lemma es1_step_inv: "es1_step e e' \<Longrightarrow> enc1_inv e \<Longrightarrow> enc1_inv e'"
proof (induction rule: es1_step.induct)
  case (E_DrawElements fresh m e mode count type indices e')
  from E_DrawElements(2,1) show ?case by (rule draw_inv1(2))
qed (auto simp: array_entry_defs(2-8) shared_1
    intro: array_inv1 draw_inv1(1) enable_inv1 disable_inv1 parameter_inv1 isEnabled_inv1
      simple_inv1 query_inv1 buffer_inv1 texture_inv1 image_inv1)

lemma targets_new: "targets_agree (GLClientState_new junk n) host_init"
  by (simp add: targets_agree_def GLClientState_new_def host_init_def unit_priority_def Let_def)

lemma enc1_inv_new: "enc1_inv (GLEncoder_new (GLClientState_new junk n) g)"
  using enc_inv_new [of junk n g] targets_new
  by (simp add: enc1_inv_def GLEncoder_new_def GL2Encoder_new_def host_of_def)

lemma es1_run_inv: "es1_run e \<Longrightarrow> enc1_inv e"
  by (induction rule: es1_run.induct) (auto intro: es1_step_inv enc1_inv_new)

end
