(* ===== verification/GL2Properties.thy ===== *)
theory GL2Properties
  imports GL2Steps
begin

text \<open>
  What the OpenGL ES 2 encoder guarantees to the application: the host samples the texture
  that the application bound, draws with the arrays that it enabled and with the vertices its
  indices address; the locations and names it uses reach the host as they should. And the
  cases in which the code does not keep these promises.
\<close>

section \<open>Texture bindings and vertex arrays\<close>

text \<open>
  C1. The host never falls out of step. Whatever entry points an application has called on a
  new context, with whatever arguments, host answers and allocation failures (only texture
  names from \<open>2^31\<close> on excepted): the host's active texture unit is the guest's, in every unit
  the host has bound the texture of the target that the guest samples from (external before
  2D), and a vertex array whose switch differs from the guest's is marked for the next draw.
\<close>

theorem encoder_host_coherent:
  assumes "gl2_step\<^sup>*\<^sup>* (GL2Encoder_new (GLClientState_new junk n) g) e"
  shows "hs_unit (host_run (e_calls e)) = cs_activeUnit (e_state e)
    \<and> (\<forall>u<MAX_TEXTURE_UNITS. hs_2d (host_run (e_calls e)) u
         = unit_texture (cs_units (e_state e) ! u) (unit_priority (cs_units (e_state e) ! u) GL_TEXTURE_2D))
    \<and> (\<forall>i<length (cs_states (e_state e)). va_enableDirty (cs_states (e_state e) ! i)
         \<or> (i \<in> hs_enabled (host_run (e_calls e)) \<longleftrightarrow> va_enabled (cs_states (e_state e) ! i) \<noteq> 0))"
  using enc_invD(2) [OF gl2_steps_inv [OF assms enc_inv_new]]
  by (simp add: agree_def textures_agree_def arrays_agree_def host_of_def sampled_def)

definition new_encoder :: encoder where
  "new_encoder = GL2Encoder_new (GLClientState_new (\<lambda>_. blank_attrib) 16) GLSharedGroup_new"

lemma new_encoder_inv [simp]: "enc_inv new_encoder"
  by (simp add: new_encoder_def enc_inv_new)

text \<open>An external texture takes over unit 0 once its target is enabled for the program's sampler.\<close>

theorem encoder_host_coherent_witness:
  "\<exists>e. gl2_step\<^sup>*\<^sup>* new_encoder e \<and> hs_2d (host_run (e_calls e)) 0 = 7 \<and> cs_activeUnit (e_state e) = 0
     \<and> hs_unit (host_run (e_calls e)) = 0"
proof -
  let ?e1 = "s_glBindTexture (\<lambda>_. True) new_encoder GL_TEXTURE_2D 7"
  have st: "cs_units (e_state ?e1) ! 0 = \<lparr>tu_enables = 0, tu_2d = 7, tu_external = 0\<rparr>"
    and un: "cs_activeUnit (e_state ?e1) = 0"
    by (simp_all add: new_encoder_def GL2Encoder_new_def GLClientState_new_def s_glBindTexture_def
        bindTexture_def find_texture_def bsearch.simps addTextureRec_def upd_unit_def active_unit_def
        Let_def)
  have run: "gl2_step\<^sup>*\<^sup>* new_encoder ?e1"
    by (intro r_into_rtranclp gl2_step.GL_BindTexture) (simp add: name_ok_def)
  note c = encoder_host_coherent [OF run [unfolded new_encoder_def], folded new_encoder_def]
  have "hs_2d (host_run (e_calls ?e1)) 0 = 7"
    using c st by (auto simp: unit_texture_def unit_priority_def)
  then show ?thesis using c un run by auto
qed

text \<open>
  C8. A draw settles the arrays: in a state that agrees with the host, \<open>sendVertexAttributes\<close>
  leaves exactly those arrays enabled on the host that the application has enabled, leaves no
  array dirty, and puts the host's \<open>GL_ARRAY_BUFFER\<close> binding back to the application's.
\<close>

theorem sendVertexAttributes_settles:
  assumes "gl2_step\<^sup>*\<^sup>* (GL2Encoder_new (GLClientState_new junk n) g) e"
    and "sendVertexAttributes e first count = e'"
  shows "(\<forall>i<length (cs_states (e_state e)).
        (i \<in> hs_enabled (host_run (e_calls e')) \<longleftrightarrow> va_enabled (cs_states (e_state e) ! i) \<noteq> 0)
        \<and> \<not> va_enableDirty (cs_states (e_state e') ! i))
    \<and> (hs_array (host_run (e_calls e)) = cs_currentArrayVbo (e_state e)
        \<longrightarrow> hs_array (host_run (e_calls e')) = cs_currentArrayVbo (e_state e'))"
  using sendVertexAttributes_sent [OF gl2_steps_inv [OF assms(1) enc_inv_new], of first count] assms(2)
  by (auto simp: sent_upto_def host_of_def)

theorem sendVertexAttributes_settles_witness:
  "1 \<in> hs_enabled (host_run (e_calls (sendVertexAttributes (s_glEnableVertexAttribArray new_encoder 1) 0 3)))"
proof -
  let ?e = "s_glEnableVertexAttribArray new_encoder 1"
  have run: "gl2_step\<^sup>*\<^sup>* new_encoder ?e"
    by (intro r_into_rtranclp gl2_step.GL_EnableVertexAttribArray)
  have len: "length (cs_states (e_state ?e)) = 16" and en: "va_enabled (cs_states (e_state ?e) ! 1) \<noteq> 0"
    by (simp_all add: new_encoder_def GL2Encoder_new_def GLClientState_new_def Let_def
        s_glEnableVertexAttribArray_def enable_def validLocation_def upd_location_def)
  show ?thesis
    using sendVertexAttributes_settles [OF run [unfolded new_encoder_def] refl, folded new_encoder_def, of 0 3]
      len en by auto
qed

section \<open>Draws\<close>

text \<open>The call that array \<open>i\<close> of client memory makes, and that it is made.\<close>

definition data_call :: "nat \<Rightarrow> vertex_attrib \<Rightarrow> int \<Rightarrow> int \<Rightarrow> host_call" where
  "data_call i v first count = H_glVertexAttribPointerData i (va_size v) (va_type v) (va_normalized v)
     (va_stride v)
     (va_data v + word_of_int (i32 ((if va_stride v = 0 then sint (va_elementSize v) else va_stride v) * first)))
     (va_elementSize v * word_of_int count)"

lemma send_attribute_calls: "set (e_calls e) \<subseteq> set (e_calls (send_attribute first count e i))"
  by (auto simp: send_attribute_def Let_def split: prod.splits option.splits)

lemma send_attributes_calls:
  "set (e_calls e) \<subseteq> set (e_calls (foldl (send_attribute first count) e is))"
  by (induction "is" arbitrary: e) (use send_attribute_calls in \<open>auto, blast\<close>)

lemma send_attribute_data:
  assumes "i < length (cs_states (e_state e))" and "cs_nLocations (e_state e) = int (length (cs_states (e_state e)))"
    and "va_enabled (cs_states (e_state e) ! i) \<noteq> 0" and "va_bufferObject (cs_states (e_state e) ! i) = 0"
  shows "data_call i (cs_states (e_state e) ! i) first count \<in> set (e_calls (send_attribute first count e i))"
  using assms
  by (simp add: send_attribute_def getStateAndEnableDirty_def validLocation_def upd_location_def
      data_call_def Let_def)

lemma sendVertexAttributes_data:
  assumes "enc_inv e" and "i < length (cs_states (e_state e))"
    and "va_enabled (cs_states (e_state e) ! i) \<noteq> 0" and "va_bufferObject (cs_states (e_state e) ! i) = 0"
  shows "data_call i (cs_states (e_state e) ! i) first count \<in> set (e_calls (sendVertexAttributes e first count))"
proof -
  let ?n = "length (cs_states (e_state e))"
  let ?e1 = "foldl (send_attribute first count) e [0..<i]"
  have n: "nat (cs_nLocations (e_state e)) = ?n"
    using cs_invD(1) [OF enc_invD(1) [OF assms(1)]] by simp
  have "[0..<?n] = [0..<i] @ i # [Suc i..<?n]"
    using assms(2) upt_add_eq_append [of 0 i "?n - i"] by (simp add: upt_conv_Cons)
  then have split: "sendVertexAttributes e first count
      = foldl (send_attribute first count) (send_attribute first count ?e1 i) [Suc i..<?n]"
    by (simp add: sendVertexAttributes_def n)
  have s: "sent_upto i e ?e1" by (rule send_upto [OF assms(1)]) (use assms(2) in simp)
  then have st: "e_state ?e1 = (e_state e)\<lparr>cs_states := map (\<lambda>v. v\<lparr>va_enableDirty := False\<rparr>)
         (take i (cs_states (e_state e))) @ drop i (cs_states (e_state e))\<rparr>"
    by (simp add: sent_upto_def)
  have nth: "cs_states (e_state ?e1) ! i = cs_states (e_state e) ! i"
    using assms(2) by (simp add: st nth_append)
  have "data_call i (cs_states (e_state e) ! i) first count \<in> set (e_calls (send_attribute first count ?e1 i))"
  proof (rule send_attribute_data [of i ?e1 first count, unfolded nth])
    show "i < length (cs_states (e_state ?e1))" using assms(2) by (simp add: st)
    show "cs_nLocations (e_state ?e1) = int (length (cs_states (e_state ?e1)))"
      using assms(2) cs_invD(1) [OF enc_invD(1) [OF assms(1)]] by (simp add: st)
  qed (rule assms)+
  then show ?thesis unfolding split using send_attributes_calls by blast
qed

text \<open>Half-words and bytes.\<close>

lemma bytes_of_shorts_of: "even (length bs) \<Longrightarrow> bytes_of (shorts_of bs) = bs"
proof (induction bs rule: shorts_of.induct)
  case (1 a b bs)
  have "ucast ((ucast a :: 16 word) OR push_bit 8 (ucast b)) = a"
    by (rule bit_word_eqI) (auto simp: bit_simps)
  moreover have "ucast (drop_bit 8 ((ucast a :: 16 word) OR push_bit 8 (ucast b))) = b"
    by (rule bit_word_eqI) (auto simp: bit_simps dest: bit_imp_le_length)
  ultimately show ?case using 1 by simp
qed auto

lemma length_shorts_of: "length (shorts_of bs) = length bs div 2"
  by (induction bs rule: shorts_of.induct) auto

lemma shiftIndices_0 [simp]: "shiftIndices ws 0 = ws"
  by (simp add: shiftIndices_def)

lemma store_indices_same: "store_indices fresh e sz bs = Some (e', bs') \<Longrightarrow> bs' = bs"
  by (auto simp: store_indices_def Let_def split: option.splits)

text \<open>The values of indices of a type, as numbers.\<close>

definition index_values :: "GLenum \<Rightarrow> byte list \<Rightarrow> int list" where
  "index_values type bs = (if type = GL_UNSIGNED_BYTE then map uint bs else map uint (shorts_of bs))"

lemma shifted_values:
  assumes "minmax xs = (mn, mx)"
  shows "map uint (shiftIndices xs (- mn)) = map (\<lambda>i. i - mn) (map uint xs)"
  using shiftIndices_minmax [OF assms] by (intro nth_equalityI) (simp_all add: shiftIndices_def)

lemma shorts_of_bytes_of: "shorts_of (bytes_of ws) = ws"
proof (induction ws)
  case (Cons w ws)
  have "(ucast (ucast w :: byte) :: 16 word) OR push_bit 8 (ucast (ucast (drop_bit 8 w) :: byte)) = w"
    by (rule bit_word_eqI) (auto simp: bit_simps dest: bit_imp_le_length)
  then show ?case using Cons by simp
qed simp

lemma length_bytes_of: "length (bytes_of ws) = 2 * length ws"
  by (induction ws) simp_all

text \<open>What the adjustment leaves of the caller's indices.\<close>

lemma adjust_sends:
  assumes "adjust_indices fresh e rd count type = Some (e', sent, mn, mx)"
    and "type \<in> {GL_UNSIGNED_BYTE, GL_UNSIGNED_SHORT}" and "0 < count"
    and "\<And>n bs. rd n = Some bs \<Longrightarrow> length bs = n"
  obtains raw where "rd (unat (glSizeof type) * nat count) = Some raw"
    and "length sent = length raw" and "length (index_values type raw) = nat count"
    and "index_values type sent = map (\<lambda>i. i - mn) (index_values type raw)"
    and "mn = Min (set (index_values type raw))" and "mx = Max (set (index_values type raw))"
    and "e_state e' = e_state e" and "e_calls e' = e_calls e"
proof (cases "type = GL_UNSIGNED_BYTE")
  case True
  with assms(1) obtain raw where raw: "rd (nat count) = Some raw" "minmax raw = (mn, mx)"
    "mn = 0 \<and> sent = raw \<and> e' = e \<or> (\<exists>sz. store_indices fresh e sz (shiftIndices raw (- mn)) = Some (e', sent))"
    by (auto simp: adjust_indices_def split: option.splits prod.splits if_split_asm)
  have len: "length raw = nat count" using assms(4) raw(1) by simp
  then have "raw \<noteq> []" using assms(3) by auto
  then have "mn = Min (uint ` set raw)" "mx = Max (uint ` set raw)" using raw(2) by (simp_all add: minmax_eq)
  moreover have "sent = shiftIndices raw (- mn)" using raw(3) store_indices_same by (auto simp: shiftIndices_0)
  moreover have "e_state e' = e_state e" "e_calls e' = e_calls e"
    using raw(3) by (auto simp: store_indices_def Let_def split: option.splits)
  ultimately show ?thesis
    using that [of raw] raw(1) len True shifted_values [OF raw(2)]
    by (simp add: index_values_def glSizeof_def shiftIndices_def)
next
  case False
  then have ty: "type = GL_UNSIGNED_SHORT" using assms(2) by simp
  with assms(1) obtain raw where raw: "rd (2 * nat count) = Some raw" "minmax (shorts_of raw) = (mn, mx)"
    "mn = 0 \<and> sent = raw \<and> e' = e
     \<or> (\<exists>sz. store_indices fresh e sz (bytes_of (shiftIndices (shorts_of raw) (- mn))) = Some (e', sent))"
    by (auto simp: adjust_indices_def Let_def split: option.splits prod.splits if_split_asm)
  have len: "length raw = 2 * nat count" using assms(4) raw(1) by simp
  then have "shorts_of raw \<noteq> []" using assms(3) length_shorts_of [of raw] by auto
  then have "mn = Min (uint ` set (shorts_of raw))" "mx = Max (uint ` set (shorts_of raw))"
    using raw(2) by (simp_all add: minmax_eq)
  moreover have "sent = bytes_of (shiftIndices (shorts_of raw) (- mn))"
    using raw(3) store_indices_same bytes_of_shorts_of [of raw] len by auto
  moreover have "e_state e' = e_state e" "e_calls e' = e_calls e"
    using raw(3) by (auto simp: store_indices_def Let_def split: option.splits)
  ultimately show ?thesis
    using that [of raw] raw(1) len ty shifted_values [OF raw(2)] length_shorts_of [of raw]
    by (simp add: index_values_def glSizeof_def shorts_of_bytes_of length_bytes_of shiftIndices_def)
qed

text \<open>The bytes that an indexed draw reads: from client memory, or from the bound element buffer.\<close>

definition index_bytes :: "memory \<Rightarrow> encoder \<Rightarrow> addr \<Rightarrow> nat \<Rightarrow> byte list ub" where
  "index_bytes m e p n =
     (if cs_currentIndexVbo (e_state e) = 0 then client_indices m p n
      else case getBufferData (e_shared e) (cs_currentIndexVbo (e_state e)) of None \<Rightarrow> None
         | Some buf \<Rightarrow> buffer_indices buf p n)"

lemma index_bytes_eq:
  "cs_currentIndexVbo (e_state e) = 0 \<Longrightarrow> index_bytes m e p = client_indices m p"
  "cs_currentIndexVbo (e_state e) \<noteq> 0 \<Longrightarrow> getBufferData (e_shared e) (cs_currentIndexVbo (e_state e)) = Some buf
     \<Longrightarrow> index_bytes m e p = buffer_indices buf p"
  by (simp_all add: index_bytes_def fun_eq_iff)

lemma length_index_bytes: "index_bytes m e p n = Some bs \<Longrightarrow> length bs = n"
  by (auto simp: index_bytes_def client_indices_def buffer_indices_def Let_def read_mem_def
      split: option.splits if_split_asm)

text \<open>
  C17. \<open>glDrawElements\<close> of at least one index of type \<open>GL_UNSIGNED_BYTE\<close> or \<open>GL_UNSIGNED_SHORT\<close>, the
  index types of GLES 2, with an enabled array in client memory; the indices are in client memory
  or in the bound element buffer. If the call is defined, the last thing it sends is the draw with
  as many index bytes as the application gave, and these are the application's indices counted
  from the smallest one; before it, from every enabled array in client memory exactly the elements
  from the smallest to the largest index have been sent, so that every index on the wire addresses
  the element that the application meant.
\<close>

theorem drawElements_sends_window:
  assumes "enc_inv e" and "0 < count" and "type \<in> {GL_UNSIGNED_BYTE, GL_UNSIGNED_SHORT}"
    and "has_immediate_arrays (e_state e)"
    and "s_glDrawElements fresh m e mode count type p = Some e'"
  shows "\<exists>raw sent mn mx. index_bytes m e p (unat (glSizeof type) * nat count) = Some raw
    \<and> last (e_calls e') = H_glDrawElementsData mode count type sent (word_of_int count * glSizeof type)
    \<and> length sent = length raw
    \<and> index_values type sent = map (\<lambda>i. i - mn) (index_values type raw)
    \<and> length (index_values type raw) = nat count
    \<and> mn = Min (set (index_values type raw)) \<and> mx = Max (set (index_values type raw))
    \<and> (\<forall>i<length (cs_states (e_state e)). va_enabled (cs_states (e_state e) ! i) \<noteq> 0
         \<longrightarrow> va_bufferObject (cs_states (e_state e) ! i) = 0
         \<longrightarrow> data_call i (cs_states (e_state e) ! i) mn (mx - mn + 1) \<in> set (e_calls e'))"
proof -
  obtain e0 rd e1 sent mn mx where a: "adjust_indices fresh e0 rd count type = Some (e1, sent, mn, mx)"
    and e': "e' = emit (sendVertexAttributes e1 mn (i32 (mx - mn + 1)))
       (H_glDrawElementsData mode count type sent (word_of_int count * glSizeof type))"
    and e0: "e0 = e \<or> e0 = emit e (H_glBindBuffer GL_ELEMENT_ARRAY_BUFFER 0)"
    and rd: "rd = index_bytes m e p"
  proof (cases "cs_currentIndexVbo (e_state e) = 0")
    case True
    then show ?thesis
      using that [of e "index_bytes m e p"] assms(2,4,5) index_bytes_eq(1)
      by (auto simp: s_glDrawElements_def Let_def split: if_splits option.splits)
  next
    case False
    then show ?thesis
      using that [of "emit e (H_glBindBuffer GL_ELEMENT_ARRAY_BUFFER 0)" "index_bytes m e p"] assms(2,4,5) index_bytes_eq(2)
      by (auto simp: s_glDrawElements_def Let_def split: if_splits option.splits)
  qed
  obtain raw where s: "rd (unat (glSizeof type) * nat count) = Some raw" "length sent = length raw"
    "length (index_values type raw) = nat count" "index_values type sent = map (\<lambda>i. i - mn) (index_values type raw)"
    "mn = Min (set (index_values type raw))" "mx = Max (set (index_values type raw))"
    "e_state e1 = e_state e0" "e_calls e1 = e_calls e0"
    by (rule adjust_sends [OF a assms(3,2)]) (use rd length_index_bytes in auto)
  have st: "e_state e1 = e_state e" and inv: "enc_inv e1"
    using e0 s(7) assms(1) adjust_indices_inv(1) [OF a] by auto
  have ne: "set (index_values type raw) \<noteq> {}" using s(3) assms(2) by (cases "index_values type raw") auto
  have lt: "0 \<le> i \<and> i < 65536" if "i \<in> set (index_values type raw)" for i
  proof -
    have "uint w < 65536" for w :: "16 word" using uint_lt2p [of w] by simp
    moreover have "uint b < 65536" for b :: byte using uint_lt2p [of b] by simp
    ultimately show ?thesis using that by (auto simp: index_values_def split: if_split_asm)
  qed
  have "mn \<in> set (index_values type raw)" "mx \<in> set (index_values type raw)" "mn \<le> mx"
    using ne by (auto simp: s(5,6) intro: order_trans [OF Min_le Max_ge])
  then have "i32 (mx - mn + 1) = mx - mn + 1" using lt [of mn] lt [of mx] by (intro i32_id int_rangeI) auto
  then have "data_call i (cs_states (e_state e) ! i) mn (mx - mn + 1) \<in> set (e_calls e')"
    if "i < length (cs_states (e_state e))" "va_enabled (cs_states (e_state e) ! i) \<noteq> 0"
      "va_bufferObject (cs_states (e_state e) ! i) = 0" for i
    using sendVertexAttributes_data [OF inv, of i mn "mx - mn + 1"] that st by (simp add: e')
  moreover have "last (e_calls e') = H_glDrawElementsData mode count type sent (word_of_int count * glSizeof type)"
    by (simp add: e')
  ultimately show ?thesis using s(1-6) rd by blast
qed

definition one_array :: encoder where
  "one_array = s_glVertexAttribPointer (s_glEnableVertexAttribArray new_encoder 0) 0 2 GL_FLOAT 0 0 4096"

lemma one_array_inv [simp]: "enc_inv one_array"
  by (simp add: one_array_def vertex_entry_inv)

lemma one_array_states:
  "cs_states (e_state one_array) ! 0 = \<lparr>va_enabled = 1, va_size = 2, va_type = GL_FLOAT, va_stride = 0,
     va_data = 4096, va_bufferObject = 0, va_glConst = GL_VERTEX_ARRAY, va_elementSize = 8,
     va_enableDirty = True, va_normalized = False\<rparr>"
  "length (cs_states (e_state one_array)) = 16" "cs_nLocations (e_state one_array) = 16"
  "cs_currentIndexVbo (e_state one_array) = 0"
  by (simp_all add: one_array_def s_glVertexAttribPointer_def s_glEnableVertexAttribArray_def
      new_encoder_def GL2Encoder_new_def GLClientState_new_def Let_def enable_def setState_def
      validLocation_def upd_location_def blank_attrib_def location_consts_def glSizeof_def)

lemma one_array_immediate: "has_immediate_arrays (e_state one_array)"
proof -
  have "cs_states (e_state one_array) ! 0 \<in> set (cs_states (e_state one_array))"
    using one_array_states(2) by (intro nth_mem) simp
  then show ?thesis
    using one_array_states by (auto simp: has_immediate_arrays_def intro!: bexI)
qed

definition two_indices :: memory where
  "two_indices a = (if a = 256 then 5 else if a = 258 then 7 else 0)"

lemma two_indices_read: "read_mem two_indices 256 4 = [5, 0, 7, 0]"
proof -
  have "[0..<4] = [0, 1, 2, 3 :: nat]" by (simp add: upt_conv_Cons)
  then show ?thesis by (simp add: read_mem_def two_indices_def)
qed

theorem drawElements_sends_window_witness:
  "\<exists>e' sent. s_glDrawElements zero_alloc two_indices one_array 4 2 GL_UNSIGNED_SHORT 256 = Some e'
    \<and> last (e_calls e') = H_glDrawElementsData 4 2 GL_UNSIGNED_SHORT sent 4
    \<and> index_values GL_UNSIGNED_SHORT sent = [0, 2]
    \<and> H_glVertexAttribPointerData 0 2 GL_FLOAT False 0 (4096 + 40) 24 \<in> set (e_calls e')"
proof -
  have mm: "minmax [5, 7 :: 16 word] = (5, 7)" by (simp add: minmax_def)
  obtain e' where d: "s_glDrawElements zero_alloc two_indices one_array 4 2 GL_UNSIGNED_SHORT 256
      = Some e'"
    using one_array_states(4) one_array_immediate mm two_indices_read
    by (simp add: s_glDrawElements_def Let_def adjust_indices_def client_indices_def store_indices_def
        shiftIndices_def glSizeof_def fb_alloc_def one_array_def new_encoder_def GL2Encoder_new_def
        s_glVertexAttribPointer_def s_glEnableVertexAttribArray_def zero_alloc_def fb_bytes_def blit_def)
  have "index_bytes two_indices one_array 256 (unat (glSizeof GL_UNSIGNED_SHORT) * nat 2) = Some [5, 0, 7, 0]"
    using two_indices_read by (simp add: index_bytes_def one_array_states(4) client_indices_def glSizeof_def)
  moreover have "index_values GL_UNSIGNED_SHORT [5, 0, 7, 0] = [5, 7]"
    by (simp add: index_values_def)
  moreover note drawElements_sends_window [OF one_array_inv _ _ one_array_immediate d]
  ultimately obtain sent where w: "last (e_calls e') = H_glDrawElementsData 4 2 GL_UNSIGNED_SHORT sent 4"
    "index_values GL_UNSIGNED_SHORT sent = [0, 2]"
    "\<forall>i<16. va_enabled (cs_states (e_state one_array) ! i) \<noteq> 0
      \<longrightarrow> va_bufferObject (cs_states (e_state one_array) ! i) = 0
      \<longrightarrow> data_call i (cs_states (e_state one_array) ! i) 5 3 \<in> set (e_calls e')"
    by (auto simp: one_array_states(2) glSizeof_def)
  have "data_call 0 (cs_states (e_state one_array) ! 0) 5 3 \<in> set (e_calls e')"
    using spec [OF w(3), of 0] one_array_states(1) by simp
  then have "H_glVertexAttribPointerData 0 2 GL_FLOAT False 0 (4096 + 40) 24 \<in> set (e_calls e')"
    by (simp add: one_array_states(1) data_call_def i32_def)
  then show ?thesis using w d by blast
qed

text \<open>
  A draw of no elements still sends a vertex, and one that does not exist: the smallest
  index of nothing is \<open>-1\<close>, so for every enabled array in client memory one element is read
  \<open>stride\<close> bytes before its start.
\<close>

theorem drawElements_empty_reads_before:
  assumes "enc_inv e" and "cs_currentIndexVbo (e_state e) = 0"
    and "i < length (cs_states (e_state e))" and "va_enabled (cs_states (e_state e) ! i) \<noteq> 0"
    and "va_bufferObject (cs_states (e_state e) ! i) = 0"
  shows "\<exists>e'. s_glDrawElements fresh m e mode 0 GL_UNSIGNED_SHORT p = Some e'
    \<and> data_call i (cs_states (e_state e) ! i) (- 1) 1 \<in> set (e_calls e')"
proof -
  have imm: "has_immediate_arrays (e_state e)"
    using assms(3-5) cs_invD(1) [OF enc_invD(1) [OF assms(1)]]
    by (auto simp: has_immediate_arrays_def intro!: bexI [of _ "cs_states (e_state e) ! i"])
  let ?e1 = "e\<lparr>e_fixed := (e_fixed e)\<lparr>fb_buffer := map_option (\<lambda>_. fb_bytes (e_fixed e)) (fb_buffer (e_fixed e))\<rparr>\<rparr>"
  have "adjust_indices fresh e (client_indices m p) 0 GL_UNSIGNED_SHORT = Some (?e1, [], - 1, - 1)"
    by (simp add: adjust_indices_def client_indices_def store_indices_def shiftIndices_def Let_def
        fb_alloc_keeps blit_def)
  then have "s_glDrawElements fresh m e mode 0 GL_UNSIGNED_SHORT p
      = Some (emit (sendVertexAttributes ?e1 (- 1) 1) (H_glDrawElementsData mode 0 GL_UNSIGNED_SHORT [] 0))"
    using assms(2) imm by (simp add: s_glDrawElements_def Let_def i32_id int_range_def)
  moreover have "data_call i (cs_states (e_state e) ! i) (- 1) 1
      \<in> set (e_calls (sendVertexAttributes ?e1 (- 1) 1))"
    using sendVertexAttributes_data [of ?e1 i "- 1" 1] assms by simp
  ultimately show ?thesis by auto
qed

theorem drawElements_empty_reads_before_witness:
  "\<exists>e'. s_glDrawElements zero_alloc (\<lambda>_. 0) one_array 4 0 GL_UNSIGNED_SHORT 0 = Some e'
    \<and> H_glVertexAttribPointerData 0 2 GL_FLOAT False 0 (4096 - 8) 8 \<in> set (e_calls e')"
  using drawElements_empty_reads_before [OF one_array_inv one_array_states(4), of 0 zero_alloc "\<lambda>_. 0"
      4 0] one_array_states(1,2)
  by (simp add: data_call_def i32_def)

text \<open>
  An indexed draw that takes its indices from the copy of an element buffer because some
  array is in client memory leaves the host with no element buffer bound, although the
  application's binding stands: a \<open>glBufferData\<close> for it that follows is an error on the host.
\<close>

theorem drawElements_drops_element_binding:
  assumes "enc_inv e" and "0 \<le> count" and "cs_currentIndexVbo (e_state e) \<noteq> 0"
    and "has_immediate_arrays (e_state e)"
    and "s_glDrawElements fresh m e mode count type p = Some e'"
  shows "hs_element (host_run (e_calls e')) = 0
    \<and> cs_currentIndexVbo (e_state e') = cs_currentIndexVbo (e_state e)"
proof -
  obtain buf e2 bs mn mx where
    a: "adjust_indices fresh (emit e (H_glBindBuffer GL_ELEMENT_ARRAY_BUFFER 0)) (buffer_indices buf p) count type
      = Some (e2, bs, mn, mx)"
    and e': "e' = emit (sendVertexAttributes e2 mn (i32 (mx - mn + 1)))
       (H_glDrawElementsData mode count type bs (word_of_int count * glSizeof type))"
    using assms(2-5) by (auto simp: s_glDrawElements_def Let_def split: if_splits option.splits)
  have i: "enc_inv (emit e (H_glBindBuffer GL_ELEMENT_ARRAY_BUFFER 0))" using assms(1) by simp
  note adj = adjust_indices_inv [OF a i]
  have "hs_element (host_of e2) = 0" by (simp add: adj(3) host_step_def)
  then show ?thesis
    using sendVertexAttributes_sent [OF adj(1), of mn "i32 (mx - mn + 1)"] adj(2)
    by (simp add: e' sent_upto_def host_of_def)
qed

definition indexed_array :: encoder where
  "indexed_array = one_array\<lparr>e_state := (e_state one_array)\<lparr>cs_currentIndexVbo := 1\<rparr>, e_shared := one_buffer\<rparr>"

lemma indexed_array_simps [simp]:
  "enc_inv indexed_array" "cs_currentIndexVbo (e_state indexed_array) = 1"
  "has_immediate_arrays (e_state indexed_array)" "e_shared indexed_array = one_buffer"
proof -
  have "cs_inv ((e_state one_array)\<lparr>cs_currentIndexVbo := 1\<rparr>)"
    using enc_invD(1) [OF one_array_inv] by (simp add: cs_inv_def)
  moreover have "agree ((e_state one_array)\<lparr>cs_currentIndexVbo := 1\<rparr>) (host_of one_array)"
    using enc_invD(2) [OF one_array_inv] by (simp add: agree_def textures_agree_def arrays_agree_def)
  ultimately show "enc_inv indexed_array" by (simp add: indexed_array_def enc_inv_def)
  show "has_immediate_arrays (e_state indexed_array)"
    using one_array_immediate by (simp add: indexed_array_def has_immediate_arrays_def)
qed (simp_all add: indexed_array_def)

theorem drawElements_drops_element_binding_witness:
  "\<exists>e'. s_glDrawElements zero_alloc (\<lambda>_. 0) indexed_array 4 2 GL_UNSIGNED_SHORT 0 = Some e'
    \<and> hs_element (host_run (e_calls e')) = 0 \<and> cs_currentIndexVbo (e_state e') = 1"
proof -
  have mm: "minmax [0, 0 :: 16 word] = (0, 0)" by (simp add: minmax_def)
  let ?e1 = "emit indexed_array (H_glBindBuffer GL_ELEMENT_ARRAY_BUFFER 0)"
  have rd: "buffer_indices four_bytes 0 4 = Some [0, 0, 0, 0]"
    by (simp add: buffer_indices_def fb_bytes_def)
  have "adjust_indices zero_alloc ?e1 (buffer_indices four_bytes 0) 2 GL_UNSIGNED_SHORT
      = Some (?e1, [0, 0, 0, 0], 0, 0)"
    using mm by (simp add: adjust_indices_def rd Let_def)
  then obtain e' where d: "s_glDrawElements zero_alloc (\<lambda>_. 0) indexed_array 4 2 GL_UNSIGNED_SHORT 0 = Some e'"
    by (simp add: s_glDrawElements_def Let_def getBufferData_def)
  show ?thesis
    using drawElements_drops_element_binding [OF _ _ _ _ d] d by simp
qed

text \<open>
  Deleting the element buffer that is bound does not unbind it in the guest. An indexed
  draw with an array in client memory then uses the NULL that the lookup of its copy returns.
\<close>

theorem draw_after_delete_undefined:
  assumes "cs_currentIndexVbo (e_state e) = b" and "b \<noteq> 0" and "0 \<le> count"
    and "has_immediate_arrays (e_state e)"
  shows "s_glDrawElements fresh m (s_glDeleteBuffers e 1 [b]) mode count type p = None"
  using assms
  by (simp add: s_glDrawElements_def s_glDeleteBuffers_def delete_buffer_def deleteBufferData_def
      getBufferData_def Let_def)

theorem draw_after_delete_undefined_witness:
  "s_glDrawElements zero_alloc (\<lambda>_. 0) (s_glDeleteBuffers indexed_array 1 [1]) 4 2
     GL_UNSIGNED_SHORT 0 = None"
  by (rule draw_after_delete_undefined) simp_all

section \<open>Shader sources\<close>

lemma strstr_split:
  assumes "strstr s pat = Some k"
  shows "s = take k s @ pat @ drop (k + length pat) s"
proof -
  have "drop k s = pat @ drop (length pat) (drop k s)"
    using strstr_Some [OF assms] by (metis append_take_drop_id)
  then show ?thesis by (metis append_take_drop_id drop_drop add.commute)
qed

lemma map_in_line_take: "map in_line (takeWhile in_line t) = replicate (length (takeWhile in_line t)) True"
  by (intro replicate_eqI) (auto dest: set_takeWhileD)

lemma in_line_space: "in_line CHR '' '' = True"
  by (simp add: in_line_def)

lemma blank_extensions_lines: "map in_line (blank_extensions s) = map in_line s"
proof (induction s rule: blank_extensions.induct)
  case (1 s)
  show ?case
  proof (cases "strstr s STR_HASH_EXTENSION")
    case None
    then show ?thesis by (simp add: blank_extensions.simps [of s])
  next
    case (Some k)
    let ?rest = "drop (k + length STR_HASH_EXTENSION) s"
    let ?arg = "dropWhile is_space ?rest" and ?line = "drop k s"
    have s: "map in_line s = map in_line (take k s) @ map in_line STR_HASH_EXTENSION @ map in_line ?rest"
      using arg_cong [OF strstr_split [OF Some], of "map in_line"] by (simp only: map_append)
    have r: "map in_line ?rest = map in_line (takeWhile is_space ?rest) @ map in_line ?arg"
      by (metis map_append takeWhile_dropWhile_id)
    have l: "map in_line s = map in_line (take k s) @ replicate (length (takeWhile in_line ?line)) True
        @ map in_line (dropWhile in_line ?line)"
      by (metis append_take_drop_id map_append map_in_line_take takeWhile_dropWhile_id)
    show ?thesis
    proof (cases "take (length STR_GL_OES_EGL_IMAGE_EXTERNAL) ?arg = STR_GL_OES_EGL_IMAGE_EXTERNAL")
      case True
      have "blank_extensions s = take k s @ replicate (length (takeWhile in_line ?line)) CHR '' ''
          @ blank_extensions (dropWhile in_line ?line)"
        by (subst blank_extensions.simps) (simp only: Some option.case Let_def True simp_thms if_True)
      then show ?thesis
        using "1.IH"(1) [OF Some refl refl refl True] l in_line_space by (simp only: map_append map_replicate)
    next
      case False
      have "blank_extensions s = take k s @ STR_HASH_EXTENSION @ takeWhile is_space ?rest @ blank_extensions ?arg"
        by (subst blank_extensions.simps) (simp only: Some option.case Let_def False if_False)
      then show ?thesis
        using "1.IH"(2) [OF Some refl refl refl False] s r by simp
    qed
  qed
qed

lemma takeWhile_append_drop: "takeWhile P xs @ drop (length (takeWhile P xs)) xs = xs"
  by (metis append_take_drop_id takeWhile_eq_take)

lemma list_all_takeWhile: "list_all P (takeWhile P xs)"
  by (auto simp: list_all_iff dest: set_takeWhileD)

definition glsl_name :: "string \<Rightarrow> bool" where
  "glsl_name n \<longleftrightarrow> n \<noteq> [] \<and> (is_alpha (hd n) \<or> hd n = CHR ''_'') \<and> list_all is_name n"

lemma replace_samplers_props:
  "case replace_samplers prev s of (ok, t, ns) \<Rightarrow> map in_line t = map in_line s \<and> list_all glsl_name ns"
proof (induction prev s rule: replace_samplers.induct)
  case (1 prev s)
  show ?case
  proof (cases "strstr s STR_SAMPLER_EXTERNAL_OES")
    case None
    then show ?thesis by (simp add: replace_samplers.simps [of prev s])
  next
    case (Some k)
    define before where "before = (if k = 0 then prev else Some (s ! (k - 1)))"
    define rest where "rest = drop (k + length STR_SAMPLER_EXTERNAL_OES) s"
    define arg where "arg = dropWhile is_space rest"
    define name where "name = hd arg # takeWhile is_name (tl arg)"
    note IH = "1.IH" [OF Some before_def rest_def arg_def name_def]
    have s: "map in_line s = map in_line (take k s) @ map in_line STR_SAMPLER_EXTERNAL_OES @ map in_line rest"
      using arg_cong [OF strstr_split [OF Some], of "map in_line"] unfolding rest_def
      by (simp only: map_append)
    have r: "map in_line rest = map in_line (takeWhile is_space rest) @ map in_line arg"
      unfolding arg_def by (metis map_append takeWhile_dropWhile_id)
    have map_split: "map in_line (take (Suc k) s) @ map in_line (drop (Suc k) s) = map in_line s"
      by (simp only: map_append [symmetric] append_take_drop_id)
    have tok: "map in_line STR_SAMPLER_EXTERNAL_OES = map in_line STR_SAMPLER2D_SPACE"
      by (simp add: in_line_def)
    note u = replace_samplers.simps [of prev s, unfolded Some option.case Let_def, folded before_def rest_def,
        folded arg_def, folded name_def]
    show ?thesis
    proof (cases "case before of None \<Rightarrow> False | Some c \<Rightarrow> is_space c")
      case False
      then show ?thesis
        using IH(1) [OF False] map_split unfolding u by (simp split: prod.splits)
    next
      case b: True
      show ?thesis
      proof (cases "rest \<noteq> [] \<and> \<not> is_space (hd rest)")
        case True
        then show ?thesis
          using IH(2) [OF _ True] b s unfolding u by (simp del: list.map append.simps split: prod.splits)
      next
        case w: False
        show ?thesis
        proof (cases "arg = [] \<or> \<not> (is_alpha (hd arg) \<or> hd arg = CHR ''_'')")
          case True
          then show ?thesis using b w unfolding u by auto
        next
          case False
          then have "glsl_name name" and arg: "name @ drop (length name) arg = arg"
            by (auto simp: takeWhile_append_drop glsl_name_def name_def is_name_def list_all_takeWhile neq_Nil_conv)
          then have "map in_line name @ map in_line (drop (length name) arg) = map in_line arg"
            by (simp only: map_append [symmetric])
          with \<open>glsl_name name\<close> show ?thesis
            using IH(3) [OF _ w False] b w False s r tok
            unfolding u by (cases "replace_samplers (Some (last name)) (drop (length name) arg)")
              (auto simp del: list.map append.simps)
        qed
      qed
    qed
  qed
qed

text \<open>
  C31. Rewriting the external samplers of a shader keeps the shape of its source: the text has
  the same length and the same line breaks as before, so that it fits the buffer and the
  compiler's messages name the right lines, and every name recorded is an identifier of GLSL.
\<close>

theorem replaceSamplerExternal_keeps_lines:
  "case replaceSamplerExternalWith2D str of (ok, out, names) \<Rightarrow>
     length out = length str \<and> map in_line out = map in_line str \<and> list_all glsl_name names"
  using replace_samplers_props [where prev = None and s = "blank_extensions str"] blank_extensions_lines [of str]
  by (auto simp: replaceSamplerExternalWith2D_def split: prod.splits dest: map_eq_imp_length_eq)

end
