(* ===== verification/GL1Properties.thy ===== *)
theory GL1Properties
  imports GL1Steps GL2Properties
begin

text \<open>
  What the OpenGL ES 1 encoder guarantees: the host has the bindings, the target enables and,
  at every draw, the arrays of the application. And three places where the guest's picture of
  the fixed-function state is wrong.
\<close>

section \<open>Coherence with the host\<close>

text \<open>
  C2. The OpenGL ES 1 host never falls out of step. Whatever entry points have been called on a
  new context: the host's active unit is the guest's; in every unit the host's 2D target is
  enabled exactly while the 2D or the external target is enabled for the application, and holds
  the texture of the one of higher priority (external before 2D, and 2D when none is enabled);
  an array whose switch differs from the guest's is marked for the next draw.
\<close>

theorem es1_host_coherent:
  assumes "es1_run e"
  shows "hs_unit (host_run (e_calls e)) = cs_activeUnit (e_state e)
    \<and> (\<forall>u<MAX_TEXTURE_UNITS.
         (u \<in> hs_tex2d (host_run (e_calls e))
            \<longleftrightarrow> unit_priority (cs_units (e_state e) ! u) GL_INVALID_ENUM \<noteq> GL_INVALID_ENUM)
       \<and> hs_2d (host_run (e_calls e)) u
            = unit_texture (cs_units (e_state e) ! u) (unit_priority (cs_units (e_state e) ! u) GL_TEXTURE_2D))
    \<and> (\<forall>i<length (cs_states (e_state e)). va_enableDirty (cs_states (e_state e) ! i)
         \<or> (i \<in> hs_enabled (host_run (e_calls e)) \<longleftrightarrow> va_enabled (cs_states (e_state e) ! i) \<noteq> 0))"
proof -
  note i = enc1_invD [OF es1_run_inv [OF assms]]
  have "length (cs_units (e_state e)) = MAX_TEXTURE_UNITS" by (rule cs_invD(6) [OF enc_invD(1) [OF i(1)]])
  then show ?thesis
    using i(2) enc_invD(2) [OF i(1)]
    by (simp add: targets_agree_def agree_def textures_agree_def arrays_agree_def host_of_def sampled_def)
qed

definition new_encoder1 :: encoder where
  "new_encoder1 = GLEncoder_new (GLClientState_new (\<lambda>_. blank_attrib) CODEC_MAX_VERTEX_ATTRIBUTES) GLSharedGroup_new"

lemma new_encoder1_run [simp]: "es1_run new_encoder1"
  unfolding new_encoder1_def by (rule ES1_start)

lemmas new_encoder1_defs =
  new_encoder1_def GLEncoder_new_def GL2Encoder_new_def GLClientState_new_def

text \<open>A context with external texture 7 bound to unit 0 and its target enabled there.\<close>

definition external_shown :: encoder where
  "external_shown = s_glEnable_1 (s_glBindTexture_1 (\<lambda>_. True) new_encoder1 GL_TEXTURE_EXTERNAL_OES 7)
     GL_TEXTURE_EXTERNAL_OES"

lemma external_shown_run [simp]: "es1_run external_shown"
  unfolding external_shown_def
  by (intro ES1_step [OF _ E_Enable] ES1_step [OF new_encoder1_run E_BindTexture]) (simp add: name_ok_def)

lemma external_shown_unit:
  "cs_activeUnit (e_state external_shown) = 0"
  "cs_units (e_state external_shown) ! 0 = \<lparr>tu_enables = 2, tu_2d = 0, tu_external = 7\<rparr>"
  by (simp_all add: external_shown_def new_encoder1_defs s_glEnable_1_def s_glBindTexture_1_def
      s_glBindTexture_def bindTexture_def find_texture_def bsearch.simps addTextureRec_def upd_unit_def
      active_unit_def enableTextureTarget_def getPriorityEnabledTarget_def unit_priority_def Let_def)

lemma external_shown_locations: "cs_nLocations (e_state external_shown) = CODEC_MAX_VERTEX_ATTRIBUTES"
  by (simp add: external_shown_def new_encoder1_defs s_glEnable_1_def s_glBindTexture_1_def
      s_glBindTexture_def bindTexture_def find_texture_def bsearch.simps addTextureRec_def upd_unit_def
      active_unit_def enableTextureTarget_def getPriorityEnabledTarget_def unit_priority_def Let_def)

theorem es1_host_coherent_witness:
  "hs_2d (host_run (e_calls external_shown)) 0 = 7 \<and> 0 \<in> hs_tex2d (host_run (e_calls external_shown))"
  using es1_host_coherent [OF external_shown_run] external_shown_unit
  by (auto simp: unit_texture_def unit_priority_def)

text \<open>
  C9. A draw of OpenGL ES 1 settles the fourteen fixed-function arrays: exactly those that the
  application has enabled are enabled on the host afterwards, the texture coordinate arrays of
  the eight units each in its own; none of them is marked any more, and the host's
  \<open>GL_ARRAY_BUFFER\<close> binding is the application's again.
\<close>

theorem sendVertexData_settles:
  assumes "es1_run e" and "sendVertexData e first count = e'"
  shows "(\<forall>i<14. (i \<in> hs_enabled (host_run (e_calls e')) \<longleftrightarrow> va_enabled (cs_states (e_state e) ! i) \<noteq> 0)
        \<and> \<not> va_enableDirty (cs_states (e_state e') ! i))
    \<and> (hs_array (host_run (e_calls e)) = cs_currentArrayVbo (e_state e)
        \<longrightarrow> hs_array (host_run (e_calls e')) = cs_currentArrayVbo (e_state e'))"
proof -
  note i = enc1_invD(1) [OF es1_run_inv [OF assms(1)]]
  have "14 \<le> length (cs_states (e_state e))" using cs_invD(1,2) [OF enc_invD(1) [OF i]] by simp
  then show ?thesis
    using sendVertexData_upto [OF i, of first count] assms(2)
    by (auto simp: sent_upto_def host_of_def nth_append)
qed

definition coordinates_on :: encoder where
  "coordinates_on = s_glEnableClientState_1 (s_glClientActiveTexture_1 new_encoder1 (GL_TEXTURE0 + 3))
     GL_TEXTURE_COORD_ARRAY"

lemma coordinates_on_run [simp]: "es1_run coordinates_on"
  unfolding coordinates_on_def
  by (intro ES1_step [OF _ E_EnableClientState] ES1_step [OF _ E_ClientActiveTexture]) simp

theorem sendVertexData_settles_witness:
  "7 \<in> hs_enabled (host_run (e_calls (sendVertexData coordinates_on 0 3)))
   \<and> 4 \<notin> hs_enabled (host_run (e_calls (sendVertexData coordinates_on 0 3)))"
proof -
  have "va_enabled (cs_states (e_state coordinates_on) ! 7) = 1"
    "va_enabled (cs_states (e_state coordinates_on) ! 4) = 0"
    by (simp_all add: coordinates_on_def new_encoder1_defs s_glEnableClientState_1_def
        s_glClientActiveTexture_1_def setActiveTexture_def getLocation_def enable_def validLocation_def
        upd_location_def Let_def i32_def)
  then show ?thesis using sendVertexData_settles [OF coordinates_on_run refl, of 0 3] by auto
qed

section \<open>Where the guest's picture is wrong\<close>

text \<open>What an honest host answers to \<open>glIsEnabled(GL_TEXTURE_2D)\<close>.\<close>

definition answers_isEnabled :: "host \<Rightarrow> bool" where
  "answers_isEnabled H \<longleftrightarrow> (\<forall>cs. h_word H (cs @ [H_gl1 (IsEnabled GL_TEXTURE_2D)])
     = (if hs_unit (host_run cs) \<in> hs_tex2d (host_run cs) then 1 else 0))"

text \<open>
  C36. \<open>glIsEnabled\<close> asks the host about a target that it shares. While an application has
  enabled the external target of the active unit and never the 2D one, an honest host still
  answers \<open>glIsEnabled(GL_TEXTURE_2D)\<close> with true, because the encoder has enabled its 2D
  target to show the external texture.
\<close>

theorem isEnabled_confuses_targets:
  assumes "es1_run e" and "answers_isEnabled H"
    and "tu_enables (active_unit (e_state e)) AND BIT_2D = 0"
    and "tu_enables (active_unit (e_state e)) AND BIT_EXTERNAL \<noteq> 0"
    and "cs_nLocations (e_state e) = CODEC_MAX_VERTEX_ATTRIBUTES"
  shows "snd (s_glIsEnabled_1 H e GL_TEXTURE_2D) = 1"
proof -
  note i = enc1_invD [OF es1_run_inv [OF assms(1)]]
  note c = cs_invD [OF enc_invD(1) [OF i(1)]]
  have "hs_unit (host_of e) \<in> hs_tex2d (host_of e)"
    using i(2) c(6,7) agreeD(1) [OF enc_invD(2) [OF i(1)]] assms(4)
    by (simp add: targets_agree_def active_unit_def unit_priority_def)
  moreover have "getState (e_state e) (getLocation (e_state e) GL_TEXTURE_2D) = None"
    using assms(5) by (simp add: getState_def getLocation_def validLocation_def)
  ultimately show ?thesis
    using assms(2) by (simp add: s_glIsEnabled_1_def answers_isEnabled_def host_of_def Let_def)
qed

definition honest_host :: host where
  "honest_host = \<lparr>h_int = (\<lambda>_. 0),
     h_word = (\<lambda>cs. if hs_unit (host_run (butlast cs)) \<in> hs_tex2d (host_run (butlast cs)) then 1 else 0),
     h_ints = (\<lambda>_. []), h_floats = (\<lambda>_. []), h_bytes = (\<lambda>_. []), h_uniform = (\<lambda>_. (0, 0, []))\<rparr>"

theorem isEnabled_confuses_targets_witness:
  "snd (s_glIsEnabled_1 honest_host external_shown GL_TEXTURE_2D) = 1"
proof (rule isEnabled_confuses_targets [OF external_shown_run])
  show "answers_isEnabled honest_host" by (simp add: answers_isEnabled_def honest_host_def)
  show "tu_enables (active_unit (e_state external_shown)) AND BIT_2D = 0"
    and "tu_enables (active_unit (e_state external_shown)) AND BIT_EXTERNAL \<noteq> 0"
    using external_shown_unit by (simp_all add: active_unit_def)
qed (rule external_shown_locations)

text \<open>
  \<open>glClientActiveTexture\<close> takes any unit. After the ninth unit has been chosen, which no
  array belongs to and OpenGL ES refuses, \<open>glTexCoordPointer\<close> writes the slot of the matrix
  index array: \<open>glGetPointerv\<close> shows the texture coordinates there, and a following
  \<open>glEnableClientState(GL_TEXTURE_COORD_ARRAY)\<close> switches that array on. No error is set.
\<close>

theorem client_unit_overruns_coordinates:
  assumes "es1_run e"
  shows "let e' = s_glTexcoordPointer_1 (s_glClientActiveTexture_1 e (GL_TEXTURE0 + 8)) sz type stride ptr;
             e'' = s_glEnableClientState_1 e' GL_TEXTURE_COORD_ARRAY
         in s_glGetPointerv_1 e' GL_MATRIX_INDEX_ARRAY_POINTER_OES = Some ptr
            \<and> va_enabled (cs_states (e_state e'') ! nat MATRIXINDEX_LOCATION) = 1
            \<and> e_error e'' = e_error e"
proof -
  note c = cs_invD(1,2) [OF enc_invD(1) [OF enc1_invD(1) [OF es1_run_inv [OF assms]]]]
  have len: "12 < length (cs_states (e_state e))" using c by simp
  then have nl: "12 < cs_nLocations (e_state e)" using c by simp
  show ?thesis
    using len nl
    by (simp add: Let_def array_entry_defs getLocation_def i32_def s_glGetPointerv_1_def
        getClientStatePointer_def getState_def setState_def enable_def validLocation_def
        upd_location_def setActiveTexture_def)
qed

theorem client_unit_overruns_coordinates_witness:
  "s_glGetPointerv_1 (s_glTexcoordPointer_1 (s_glClientActiveTexture_1 new_encoder1 (GL_TEXTURE0 + 8))
     2 GL_FLOAT 0 4096) GL_MATRIX_INDEX_ARRAY_POINTER_OES = Some 4096"
  using client_unit_overruns_coordinates [OF new_encoder1_run, of 2 GL_FLOAT 0 4096] by (simp add: Let_def)

end
