(* ===== verification/IOStream.thy ===== *)
theory IOStream
  imports FixedBuffer
begin

text \<open>
  The byte streams between guest and renderer: \<open>IOStream.h\<close> with its buffer, and its two
  implementations \<open>QemuPipeStream.cpp\<close> and \<open>SocketStream.cpp\<close>. What the kernel answers to the
  system calls is a script in the state of the stream: for writing, how many bytes it is
  ready to take; for reading, the chunks that arrive. It never takes or delivers more than
  the call asks for.
\<close>

section \<open>The kernel\<close>

text \<open>\<open>Takes 0\<close> and \<open>Chunk []\<close> are a return value of 0; an interrupted call fails with \<open>EINTR\<close>.\<close>

datatype wr_answer = Takes nat | WInterrupted | WFailed

datatype rd_answer = Chunk "byte list" | RInterrupted | RFailed

text \<open>A call that returns, one that blocks at the end of the script, and undefined behaviour.\<close>

datatype 'a outcome = Blocked | Undefined | Returned 'a

record stream =
  io_open :: bool
  io_bufsize :: nat
  io_free :: nat
  st_sock :: int
  st_bufsize :: nat
  st_buf :: "byte list option"
  st_wr :: "wr_answer list"
  st_rd :: "rd_answer list"
  st_sent :: "byte list"

text \<open>
  \<open>m_buf\<close> of the base class is NULL or the buffer of the derived class: \<open>io_open\<close> says which.
  \<open>st_sent\<close> is all the kernel has taken so far.
\<close>

definition stream_new :: "int \<Rightarrow> nat \<Rightarrow> wr_answer list \<Rightarrow> rd_answer list \<Rightarrow> stream" where
  "stream_new sock bufSize ws rs = \<lparr>io_open = False, io_bufsize = bufSize, io_free = 0,
     st_sock = sock, st_bufsize = bufSize, st_buf = None, st_wr = ws, st_rd = rs, st_sent = []\<rparr>"

definition valid :: "stream \<Rightarrow> bool" where
  "valid st \<longleftrightarrow> 0 \<le> st_sock st"

section \<open>The buffer of a stream\<close>

text \<open>
  \<open>allocBuffer\<close>, the same in both implementations. \<open>malloc\<close> does not update \<open>m_bufsize\<close>;
  \<open>realloc\<close> keeps the bytes that were there.
\<close>

definition allocBuffer :: "allocator \<Rightarrow> stream \<Rightarrow> nat \<Rightarrow> stream" where
  "allocBuffer fresh st minSize =
     (let allocSize = max (st_bufsize st) minSize in
      case st_buf st of
        None \<Rightarrow> st\<lparr>st_buf := fresh allocSize\<rparr>
      | Some old \<Rightarrow>
          if st_bufsize st < allocSize then
            (case fresh allocSize of
               Some bs \<Rightarrow> st\<lparr>st_buf := Some (take allocSize (old @ drop (length old) bs)),
                             st_bufsize := allocSize\<rparr>
             | None \<Rightarrow> st\<lparr>st_buf := None, st_bufsize := 0\<rparr>)
          else st)"

section \<open>Writing\<close>

text \<open>
  The loops of \<open>writeFully\<close>: result, bytes the kernel took, what is left of its answers. A pipe
  treats a return value of 0 as the end of the stream, a socket tries again.
\<close>

fun pipe_write_loop ::
  "byte list \<Rightarrow> wr_answer list \<Rightarrow> byte list \<Rightarrow> (int \<times> wr_answer list \<times> byte list) outcome" where
  "pipe_write_loop [] ws sent = Returned (0, ws, sent)"
| "pipe_write_loop (b # bs) [] sent = Blocked"
| "pipe_write_loop (b # bs) (Takes n # ws) sent =
     (if n = 0 then Returned (- 1, ws, sent)
      else pipe_write_loop (drop n (b # bs)) ws (sent @ take n (b # bs)))"
| "pipe_write_loop (b # bs) (WInterrupted # ws) sent = pipe_write_loop (b # bs) ws sent"
| "pipe_write_loop (b # bs) (WFailed # ws) sent = Returned (- 1, ws, sent)"

fun socket_write_loop ::
  "byte list \<Rightarrow> wr_answer list \<Rightarrow> byte list \<Rightarrow> (int \<times> wr_answer list \<times> byte list) outcome" where
  "socket_write_loop [] ws sent = Returned (0, ws, sent)"
| "socket_write_loop (b # bs) [] sent = Blocked"
| "socket_write_loop (b # bs) (Takes n # ws) sent =
     socket_write_loop (drop n (b # bs)) ws (sent @ take n (b # bs))"
| "socket_write_loop (b # bs) (WInterrupted # ws) sent = socket_write_loop (b # bs) ws sent"
| "socket_write_loop (b # bs) (WFailed # ws) sent = Returned (- 1, ws, sent)"

fun after_write ::
  "stream \<Rightarrow> (int \<times> wr_answer list \<times> byte list) outcome \<Rightarrow> (int \<times> stream) outcome" where
  "after_write st Blocked = Blocked"
| "after_write st Undefined = Undefined"
| "after_write st (Returned (r, ws, sent)) = Returned (r, st\<lparr>st_wr := ws, st_sent := sent\<rparr>)"

definition QemuPipeStream_writeFully :: "stream \<Rightarrow> byte list \<Rightarrow> (int \<times> stream) outcome" where
  "QemuPipeStream_writeFully st bs =
     (if \<not> valid st then Returned (- 1, st)
      else after_write st (pipe_write_loop bs (st_wr st) (st_sent st)))"

definition SocketStream_writeFully :: "stream \<Rightarrow> byte list \<Rightarrow> (int \<times> stream) outcome" where
  "SocketStream_writeFully st bs =
     (if \<not> valid st then Returned (- 1, st)
      else after_write st (socket_write_loop bs (st_wr st) (st_sent st)))"

text \<open>
  The operations of the base class. \<open>wr\<close> is the \<open>writeFully\<close> of the derived class, which
  \<open>commitBuffer\<close> calls on the first \<open>n\<close> bytes of the buffer.
\<close>

type_synonym writer = "stream \<Rightarrow> byte list \<Rightarrow> (int \<times> stream) outcome"

definition commitBuffer :: "writer \<Rightarrow> stream \<Rightarrow> nat \<Rightarrow> (int \<times> stream) outcome" where
  "commitBuffer wr st n =
     (case st_buf st of
        None \<Rightarrow> Undefined
      | Some bs \<Rightarrow> if n \<le> length bs then wr st (take n bs) else Undefined)"

fun after_commit :: "(int \<times> stream) outcome \<Rightarrow> (int \<times> stream) outcome" where
  "after_commit (Returned (r, st)) = Returned (r, st\<lparr>io_open := False, io_free := 0\<rparr>)"
| "after_commit x = x"

definition IOStream_flush :: "writer \<Rightarrow> stream \<Rightarrow> (int \<times> stream) outcome" where
  "IOStream_flush wr st =
     (if \<not> io_open st \<or> io_free st = io_bufsize st then Returned (0, st)
      else after_commit (commitBuffer wr st (io_bufsize st - io_free st)))"

text \<open>
  The second half of \<open>alloc\<close>; the result is the offset of the new bytes, \<open>None\<close> for NULL. The
  length passes through an \<open>int\<close> and back into a \<open>size_t\<close>, as the argument of \<open>allocBuffer\<close> and
  in \<open>m_bufsize = m_free = allocLen\<close>; both have 32 bits, so that every length comes back unchanged.
\<close>

definition take_room :: "allocator \<Rightarrow> stream \<Rightarrow> nat \<Rightarrow> nat option \<times> stream" where
  "take_room fresh st n =
     (let st1 = (if \<not> io_open st \<or> io_bufsize st < n
                 then (let m = max (io_bufsize st) n; st' = allocBuffer fresh st m in
                       if st_buf st' = None then st'\<lparr>io_open := False\<rparr>
                       else st'\<lparr>io_open := True, io_bufsize := m, io_free := m\<rparr>)
                 else st)
      in if io_open st1
         then (Some (io_bufsize st1 - io_free st1), st1\<lparr>io_free := io_free st1 - n\<rparr>)
         else (None, st1))"

definition IOStream_alloc ::
  "allocator \<Rightarrow> writer \<Rightarrow> stream \<Rightarrow> nat \<Rightarrow> (nat option \<times> stream) outcome" where
  "IOStream_alloc fresh wr st n =
     (case (if io_open st \<and> io_free st < n then IOStream_flush wr st else Returned (0, st)) of
        Blocked \<Rightarrow> Blocked
      | Undefined \<Rightarrow> Undefined
      | Returned (r, st1) \<Rightarrow>
          if r < 0 then Returned (None, st1) else Returned (take_room fresh st1 n))"

text \<open>
  What the encoders do with a stream: \<open>alloc\<close> room for a packet and store its bytes there.
  Storing through a NULL result is undefined.
\<close>

definition put_packet :: "allocator \<Rightarrow> writer \<Rightarrow> stream \<Rightarrow> byte list \<Rightarrow> stream outcome" where
  "put_packet fresh wr st bs =
     (case IOStream_alloc fresh wr st (length bs) of
        Blocked \<Rightarrow> Blocked
      | Undefined \<Rightarrow> Undefined
      | Returned (None, st1) \<Rightarrow> Undefined
      | Returned (Some off, st1) \<Rightarrow>
          (case st_buf st1 of None \<Rightarrow> Undefined
           | Some buf \<Rightarrow> (case blit buf off bs of None \<Rightarrow> Undefined
               | Some buf' \<Rightarrow> Returned (st1\<lparr>st_buf := Some buf'\<rparr>))))"

section \<open>Reading\<close>

text \<open>\<open>read\<close> with room for \<open>n\<close> bytes of the first chunk: what it delivers and what is left.\<close>

definition deliver :: "nat \<Rightarrow> byte list \<Rightarrow> rd_answer list \<Rightarrow> byte list \<times> rd_answer list" where
  "deliver n bs rs = (take n bs, if length bs \<le> n then rs else Chunk (drop n bs) # rs)"

text \<open>
  The loops of \<open>readFully\<close> into the object \<open>buf\<close> of \<open>len\<close> bytes, of which \<open>res\<close> are missing. The
  pipe asks for \<open>len\<close> bytes every time, the socket for the \<open>res\<close> that are missing.
\<close>

function pipe_read_loop ::
  "byte list \<Rightarrow> nat \<Rightarrow> nat \<Rightarrow> rd_answer list \<Rightarrow> (byte list option \<times> rd_answer list) outcome" where
  "pipe_read_loop buf len res rs =
     (if res = 0 then Returned (Some buf, rs)
      else case rs of
        [] \<Rightarrow> Blocked
      | Chunk bs # rs' \<Rightarrow>
          (let (got, rest) = deliver len bs rs' in
           if got = [] then Returned (None, rest)
           else case blit buf (len - res) got of
                  None \<Rightarrow> Undefined
                | Some buf' \<Rightarrow> pipe_read_loop buf' len (res - length got) rest)
      | RInterrupted # rs' \<Rightarrow> pipe_read_loop buf len res rs'
      | RFailed # rs' \<Rightarrow> Returned (None, rs'))"
  by pat_completeness auto
termination
  by (relation "measures [\<lambda>(buf, len, res, rs). res, \<lambda>(buf, len, res, rs). length rs]")
    (auto simp: deliver_def)

function socket_read_loop ::
  "byte list \<Rightarrow> nat \<Rightarrow> nat \<Rightarrow> rd_answer list \<Rightarrow> (byte list option \<times> rd_answer list) outcome" where
  "socket_read_loop buf len res rs =
     (if res = 0 then Returned (Some buf, rs)
      else case rs of
        [] \<Rightarrow> Blocked
      | Chunk bs # rs' \<Rightarrow>
          (let (got, rest) = deliver res bs rs' in
           if got = [] then Returned (None, rest)
           else case blit buf (len - res) got of
                  None \<Rightarrow> Undefined
                | Some buf' \<Rightarrow> socket_read_loop buf' len (res - length got) rest)
      | RInterrupted # rs' \<Rightarrow> socket_read_loop buf len res rs'
      | RFailed # rs' \<Rightarrow> Returned (None, rs'))"
  by pat_completeness auto
termination
  by (relation "measures [\<lambda>(buf, len, res, rs). res, \<lambda>(buf, len, res, rs). length rs]")
    (auto simp: deliver_def)

declare pipe_read_loop.simps [simp del] socket_read_loop.simps [simp del]

fun after_read ::
  "stream \<Rightarrow> ('a \<times> rd_answer list) outcome \<Rightarrow> ('a \<times> stream) outcome" where
  "after_read st Blocked = Blocked"
| "after_read st Undefined = Undefined"
| "after_read st (Returned (r, rs)) = Returned (r, st\<lparr>st_rd := rs\<rparr>)"

text \<open>\<open>buf\<close> is \<open>None\<close> for NULL, otherwise the object of \<open>len\<close> bytes that is read into.\<close>

definition QemuPipeStream_readFully ::
  "stream \<Rightarrow> byte list option \<Rightarrow> (byte list option \<times> stream) outcome" where
  "QemuPipeStream_readFully st buf =
     (case buf of
        None \<Rightarrow> Returned (None, st)
      | Some b \<Rightarrow> if \<not> valid st then Returned (None, st)
                 else after_read st (pipe_read_loop b (length b) (length b) (st_rd st)))"

definition SocketStream_readFully ::
  "stream \<Rightarrow> byte list option \<Rightarrow> (byte list option \<times> stream) outcome" where
  "SocketStream_readFully st buf =
     (case buf of
        None \<Rightarrow> Returned (None, st)
      | Some b \<Rightarrow> if \<not> valid st then Returned (None, st)
                 else after_read st (socket_read_loop b (length b) (length b) (st_rd st)))"

type_synonym reader = "stream \<Rightarrow> byte list option \<Rightarrow> (byte list option \<times> stream) outcome"

text \<open>\<open>readback\<close> ignores the result of \<open>flush\<close>.\<close>

definition IOStream_readback ::
  "writer \<Rightarrow> reader \<Rightarrow> stream \<Rightarrow> byte list option \<Rightarrow> (byte list option \<times> stream) outcome" where
  "IOStream_readback wr rd st buf =
     (case IOStream_flush wr st of
        Blocked \<Rightarrow> Blocked
      | Undefined \<Rightarrow> Undefined
      | Returned (r, st1) \<Rightarrow> rd st1 buf)"

text \<open>
  \<open>QemuPipeStream::recv\<close> collects up to \<open>len\<close> bytes until the stream ends; its result is the
  count and the bytes stored, \<open>-1\<close> when the first read fails.
\<close>

function pipe_recv_loop ::
  "byte list \<Rightarrow> nat \<Rightarrow> rd_answer list \<Rightarrow> ((int \<times> byte list) \<times> rd_answer list) outcome" where
  "pipe_recv_loop acc len rs =
     (if len = 0 then Returned ((int (length acc), acc), rs)
      else case rs of
        [] \<Rightarrow> Blocked
      | Chunk bs # rs' \<Rightarrow>
          (let (got, rest) = deliver len bs rs' in
           if got = [] then Returned ((int (length acc), acc), rest)
           else pipe_recv_loop (acc @ got) (len - length got) rest)
      | RInterrupted # rs' \<Rightarrow> pipe_recv_loop acc len rs'
      | RFailed # rs' \<Rightarrow> Returned ((if acc = [] then - 1 else int (length acc), acc), rs'))"
  by pat_completeness auto
termination
  by (relation "measures [\<lambda>(acc, len, rs). len, \<lambda>(acc, len, rs). length rs]")
    (auto simp: deliver_def)

declare pipe_recv_loop.simps [simp del]

definition ERR_INVALID_SOCKET :: int where
  "ERR_INVALID_SOCKET = - 1000"

definition QemuPipeStream_recv :: "stream \<Rightarrow> nat \<Rightarrow> ((int \<times> byte list) \<times> stream) outcome" where
  "QemuPipeStream_recv st len =
     (if \<not> valid st then Returned ((ERR_INVALID_SOCKET, []), st)
      else after_read st (pipe_recv_loop [] len (st_rd st)))"

text \<open>\<open>SocketStream::recv\<close> is one read, repeated while it is interrupted.\<close>

fun socket_recv_loop ::
  "nat \<Rightarrow> rd_answer list \<Rightarrow> ((int \<times> byte list) \<times> rd_answer list) outcome" where
  "socket_recv_loop len [] = Blocked"
| "socket_recv_loop len (Chunk bs # rs) =
     (let (got, rest) = deliver len bs rs in Returned ((int (length got), got), rest))"
| "socket_recv_loop len (RInterrupted # rs) = socket_recv_loop len rs"
| "socket_recv_loop len (RFailed # rs) = Returned ((- 1, []), rs)"

definition SocketStream_recv :: "stream \<Rightarrow> nat \<Rightarrow> ((int \<times> byte list) \<times> stream) outcome" where
  "SocketStream_recv st len =
     (if \<not> valid st then Returned ((ERR_INVALID_SOCKET, []), st)
      else after_read st (socket_recv_loop len (st_rd st)))"

text \<open>\<open>read\<close>: the bytes read, \<open>None\<close> for NULL; \<open>has_buf\<close> says that the buffer is not NULL.\<close>

fun positive_only ::
  "((int \<times> byte list) \<times> stream) outcome \<Rightarrow> (byte list option \<times> stream) outcome" where
  "positive_only Blocked = Blocked"
| "positive_only Undefined = Undefined"
| "positive_only (Returned ((n, bs), st)) = Returned (if 0 < n then Some bs else None, st)"

definition QemuPipeStream_read :: "stream \<Rightarrow> bool \<Rightarrow> nat \<Rightarrow> (byte list option \<times> stream) outcome" where
  "QemuPipeStream_read st has_buf len =
     (if \<not> valid st \<or> \<not> has_buf then Returned (None, st)
      else positive_only (QemuPipeStream_recv st len))"

text \<open>
  The outer loop of \<open>SocketStream::read\<close> repeats on \<open>EINTR\<close>, which \<open>recv\<close> has already absorbed.
\<close>

definition SocketStream_read :: "stream \<Rightarrow> bool \<Rightarrow> nat \<Rightarrow> (byte list option \<times> stream) outcome" where
  "SocketStream_read st has_buf len =
     (if \<not> valid st \<or> \<not> has_buf then Returned (None, st)
      else positive_only (SocketStream_recv st len))"

section \<open>The contract of \<open>writeFully\<close>\<close>

text \<open>
  What the base class relies on: a write is defined, changes nothing but the kernel's side, has
  given the kernel a prefix of the bytes, and all of them when it returns 0.
\<close>

locale byte_sink =
  fixes wr :: "stream \<Rightarrow> byte list \<Rightarrow> (int \<times> stream) outcome"
  assumes wr_defined: "wr st bs \<noteq> Undefined"
    and wr_frame: "wr st bs = Returned (r, st') \<Longrightarrow>
      st' = st\<lparr>st_wr := st_wr st', st_sent := st_sent st'\<rparr>"
    and wr_done: "wr st bs = Returned (0, st') \<Longrightarrow> st_sent st' = st_sent st @ bs"
    and wr_prefix: "wr st bs = Returned (r, st') \<Longrightarrow> \<exists>k. st_sent st' = st_sent st @ take k bs"
    and wr_sign: "wr st bs = Returned (r, st') \<Longrightarrow> r \<le> 0"

lemma take_drop_prefix: "\<exists>j. take n xs @ take k (drop n xs) = take j xs"
  by (rule exI [of _ "n + k"]) (simp add: take_add)

lemma pipe_write_loop_props:
  "case pipe_write_loop bs ws sent of
     Blocked \<Rightarrow> True | Undefined \<Rightarrow> False
   | Returned (r, ws', sent') \<Rightarrow> r \<le> 0 \<and> (r = 0 \<longrightarrow> sent' = sent @ bs)
       \<and> (\<exists>k. sent' = sent @ take k bs)"
proof (induction bs ws sent rule: pipe_write_loop.induct)
  case (3 b bs n ws sent)
  show ?case
  proof (cases "n = 0")
    case True
    then show ?thesis by (auto intro!: exI [of _ 0])
  next
    case False
    from 3 [OF False] show ?thesis
      using take_drop_prefix [of n "b # bs"]
      by (simp add: False split: outcome.splits prod.splits) metis
  qed
qed (auto split: outcome.splits intro!: exI [of _ 0])

lemma socket_write_loop_props:
  "case socket_write_loop bs ws sent of
     Blocked \<Rightarrow> True | Undefined \<Rightarrow> False
   | Returned (r, ws', sent') \<Rightarrow> r \<le> 0 \<and> (r = 0 \<longrightarrow> sent' = sent @ bs)
       \<and> (\<exists>k. sent' = sent @ take k bs)"
proof (induction bs ws sent rule: socket_write_loop.induct)
  case (3 b bs n ws sent)
  then show ?case
    using take_drop_prefix [of n "b # bs"] by (simp split: outcome.splits prod.splits) metis
qed (auto split: outcome.splits intro!: exI [of _ 0])

lemma after_write_Returned:
  "after_write st w = Returned (r, st') \<longleftrightarrow>
     (\<exists>ws sent. w = Returned (r, ws, sent) \<and> st' = st\<lparr>st_wr := ws, st_sent := sent\<rparr>)"
  by (cases w) auto

lemma after_write_Undefined [simp]: "after_write st w = Undefined \<longleftrightarrow> w = Undefined"
  by (cases w) auto

interpretation pipe: byte_sink QemuPipeStream_writeFully
proof
  fix st bs r st'
  show "QemuPipeStream_writeFully st bs \<noteq> Undefined"
    using pipe_write_loop_props [where bs = bs and ws = "st_wr st" and sent = "st_sent st"]
    by (auto simp: QemuPipeStream_writeFully_def)
  assume w: "QemuPipeStream_writeFully st bs = Returned (r, st')"
  show "st' = st\<lparr>st_wr := st_wr st', st_sent := st_sent st'\<rparr>"
    using w by (auto simp: QemuPipeStream_writeFully_def after_write_Returned split: if_splits)
  show "r \<le> 0" and "\<exists>k. st_sent st' = st_sent st @ take k bs"
    using w pipe_write_loop_props [where bs = bs and ws = "st_wr st" and sent = "st_sent st"]
    by (auto simp: QemuPipeStream_writeFully_def after_write_Returned split: if_splits
        intro: exI [of _ 0])
next
  fix st bs st'
  assume "QemuPipeStream_writeFully st bs = Returned (0, st')"
  then show "st_sent st' = st_sent st @ bs"
    using pipe_write_loop_props [where bs = bs and ws = "st_wr st" and sent = "st_sent st"]
    by (auto simp: QemuPipeStream_writeFully_def after_write_Returned split: if_splits)
qed

interpretation socket: byte_sink SocketStream_writeFully
proof
  fix st bs r st'
  show "SocketStream_writeFully st bs \<noteq> Undefined"
    using socket_write_loop_props [where bs = bs and ws = "st_wr st" and sent = "st_sent st"]
    by (auto simp: SocketStream_writeFully_def)
  assume w: "SocketStream_writeFully st bs = Returned (r, st')"
  show "st' = st\<lparr>st_wr := st_wr st', st_sent := st_sent st'\<rparr>"
    using w by (auto simp: SocketStream_writeFully_def after_write_Returned split: if_splits)
  show "r \<le> 0" and "\<exists>k. st_sent st' = st_sent st @ take k bs"
    using w socket_write_loop_props [where bs = bs and ws = "st_wr st" and sent = "st_sent st"]
    by (auto simp: SocketStream_writeFully_def after_write_Returned split: if_splits
        intro: exI [of _ 0])
next
  fix st bs st'
  assume "SocketStream_writeFully st bs = Returned (0, st')"
  then show "st_sent st' = st_sent st @ bs"
    using socket_write_loop_props [where bs = bs and ws = "st_wr st" and sent = "st_sent st"]
    by (auto simp: SocketStream_writeFully_def after_write_Returned split: if_splits)
qed

section \<open>The stream as a queue of bytes\<close>

text \<open>
  Abstractly a stream is the sequence of bytes written to it: those the kernel has, then those
  in the buffer.
\<close>

definition pending :: "stream \<Rightarrow> byte list" where
  "pending st = (case st_buf st of
     None \<Rightarrow> []
   | Some b \<Rightarrow> if io_open st then take (io_bufsize st - io_free st) b else [])"

definition queued :: "stream \<Rightarrow> byte list" where
  "queued st = st_sent st @ pending st"

definition stream_inv :: "stream \<Rightarrow> bool" where
  "stream_inv st \<longleftrightarrow> (case st_buf st of
     None \<Rightarrow> \<not> io_open st
   | Some b \<Rightarrow> st_bufsize st \<le> length b
       \<and> (io_open st \<longrightarrow> io_bufsize st \<le> length b \<and> io_free st \<le> io_bufsize st))"

lemma stream_inv_new [simp]: "stream_inv (stream_new sock n ws rs)"
  and queued_new [simp]: "queued (stream_new sock n ws rs) = []"
  by (simp_all add: stream_inv_def stream_new_def queued_def pending_def)

lemma allocBuffer_frame:
  "io_open (allocBuffer fresh st n) = io_open st" "st_sent (allocBuffer fresh st n) = st_sent st"
  "io_free (allocBuffer fresh st n) = io_free st"
  "io_bufsize (allocBuffer fresh st n) = io_bufsize st"
  "st_wr (allocBuffer fresh st n) = st_wr st" "st_sock (allocBuffer fresh st n) = st_sock st"
  by (simp_all add: allocBuffer_def Let_def split: option.split)

text \<open>\<open>allocBuffer\<close> returns NULL or room for what was asked.\<close>

lemma allocBuffer_room:
  assumes "allocator_ok fresh" and "stream_inv st" and "st_buf (allocBuffer fresh st n) = Some b"
  shows "n \<le> length b \<and> st_bufsize (allocBuffer fresh st n) \<le> length b"
  using assms
  by (auto simp: allocBuffer_def stream_inv_def allocator_ok_def Let_def
      split: option.splits if_splits)

text \<open>Making room keeps the queue; the new bytes start where the pending ones end.\<close>

lemma take_room_props:
  assumes "allocator_ok fresh" and "stream_inv st" and "io_open st \<Longrightarrow> n \<le> io_free st \<or> pending st = []"
    and "io_open st \<Longrightarrow> io_bufsize st < n \<Longrightarrow> pending st = []"
    and "take_room fresh st n = (r, st')"
  shows "st_sent st' = st_sent st"
    and "case r of
        None \<Rightarrow> stream_inv st'
      | Some off \<Rightarrow> \<exists>b. st_buf st' = Some b \<and> io_open st' \<and> off + n \<le> io_bufsize st'
          \<and> io_bufsize st' \<le> length b \<and> st_bufsize st' \<le> length b
          \<and> take off b = pending st \<and> io_bufsize st' - io_free st' = off + n
          \<and> io_free st' \<le> io_bufsize st'"
proof -
  show "st_sent st' = st_sent st"
    using assms(5) by (auto simp: take_room_def Let_def allocBuffer_frame split: if_splits)
  show "case r of
        None \<Rightarrow> stream_inv st'
      | Some off \<Rightarrow> \<exists>b. st_buf st' = Some b \<and> io_open st' \<and> off + n \<le> io_bufsize st'
          \<and> io_bufsize st' \<le> length b \<and> st_bufsize st' \<le> length b
          \<and> take off b = pending st \<and> io_bufsize st' - io_free st' = off + n
          \<and> io_free st' \<le> io_bufsize st'"
  proof (cases "\<not> io_open st \<or> io_bufsize st < n")
    case True
    let ?m = "max (io_bufsize st) n"
    let ?a = "allocBuffer fresh st ?m"
    have pend: "pending st = []" using True assms(4) by (auto simp: pending_def split: option.split)
    show ?thesis
    proof (cases "st_buf ?a")
      case None
      then have "r = None" and "st' = ?a\<lparr>io_open := False\<rparr>"
        using assms(5) True by (auto simp: take_room_def Let_def)
      then show ?thesis using None by (simp add: stream_inv_def)
    next
      case (Some b)
      then have "r = Some 0"
        and "st' = ?a\<lparr>io_open := True, io_bufsize := ?m, io_free := ?m - n\<rparr>"
        using assms(5) True by (auto simp: take_room_def Let_def)
      then show ?thesis
        using allocBuffer_room [OF assms(1,2) Some] Some pend by auto
    qed
  next
    case False
    then have o: "io_open st" and n: "n \<le> io_bufsize st" by auto
    obtain b where b: "st_buf st = Some b" and lb: "io_bufsize st \<le> length b"
      "st_bufsize st \<le> length b" "io_free st \<le> io_bufsize st"
      using assms(2) o by (auto simp: stream_inv_def split: option.splits)
    have r: "r = Some (io_bufsize st - io_free st)" and st': "st' = st\<lparr>io_free := io_free st - n\<rparr>"
      using assms(5) False by (auto simp: take_room_def Let_def)
    have p: "pending st = take (io_bufsize st - io_free st) b" using b o by (simp add: pending_def)
    have "n \<le> io_free st" using assms(3) [OF o] n lb p by auto
    then show ?thesis using b lb o p r st' by auto
  qed
qed


fun put_packets :: "allocator \<Rightarrow> writer \<Rightarrow> stream \<Rightarrow> byte list list \<Rightarrow> stream outcome" where
  "put_packets fresh wr st [] = Returned st"
| "put_packets fresh wr st (p # ps) =
     (case put_packet fresh wr st p of
        Returned st' \<Rightarrow> put_packets fresh wr st' ps | x \<Rightarrow> x)"

context byte_sink
begin

lemma frame_fields:
  assumes "wr st bs = Returned (r, st')"
  shows "io_open st' = io_open st" "io_bufsize st' = io_bufsize st" "io_free st' = io_free st"
    "st_buf st' = st_buf st" "st_bufsize st' = st_bufsize st" "st_rd st' = st_rd st"
  by (subst wr_frame [OF assms], simp)+

lemma flush_defined:
  assumes "stream_inv st"
  shows "IOStream_flush wr st \<noteq> Undefined"
proof -
  have "commitBuffer wr st (io_bufsize st - io_free st) \<noteq> Undefined"
    if "io_open st" "io_free st \<noteq> io_bufsize st"
    using assms that wr_defined by (auto simp: stream_inv_def commitBuffer_def split: option.splits)
  then show ?thesis
    by (cases "commitBuffer wr st (io_bufsize st - io_free st)") (auto simp: IOStream_flush_def)
qed

text \<open>A flush hands over a prefix of what was pending, all of it when it returns 0.\<close>

lemma flush_props:
  assumes "stream_inv st" and "IOStream_flush wr st = Returned (r, st')"
  shows "stream_inv st'" and "pending st' = []" and "r \<le> 0"
    and "r = 0 \<Longrightarrow> st_sent st' = queued st"
    and "\<exists>k. st_sent st' = st_sent st @ take k (pending st)"
    and "st_bufsize st' = st_bufsize st" and "st_buf st' = st_buf st"
    and "io_open st' \<Longrightarrow> io_free st' = io_bufsize st'"
proof -
  have all: "stream_inv st' \<and> pending st' = [] \<and> r \<le> 0 \<and> (r = 0 \<longrightarrow> st_sent st' = queued st)
    \<and> (\<exists>k. st_sent st' = st_sent st @ take k (pending st))
    \<and> st_bufsize st' = st_bufsize st \<and> st_buf st' = st_buf st
    \<and> (io_open st' \<longrightarrow> io_free st' = io_bufsize st')"
  proof (cases "\<not> io_open st \<or> io_free st = io_bufsize st")
    case True
    then have "r = 0" and "st' = st" and "pending st = []"
      using assms(2) by (auto simp: IOStream_flush_def pending_def split: option.split)
    then show ?thesis using assms(1) True by (auto simp: queued_def)
  next
    case False
    then obtain b where b: "st_buf st = Some b"
      using assms(1) by (auto simp: stream_inv_def split: option.splits)
    let ?n = "io_bufsize st - io_free st"
    have n: "?n \<le> length b" using assms(1) b False by (auto simp: stream_inv_def)
    have p: "pending st = take ?n b" using b False by (simp add: pending_def)
    obtain st1 where w: "wr st (take ?n b) = Returned (r, st1)"
      and st': "st' = st1\<lparr>io_open := False, io_free := 0\<rparr>"
      using assms(2) False b n
      by (cases "wr st (take ?n b)") (auto simp: IOStream_flush_def commitBuffer_def)
    note f = frame_fields [OF w]
    have "stream_inv st'" using assms(1) f b by (auto simp: stream_inv_def st')
    moreover have "pending st' = []" by (simp add: pending_def st' split: option.split)
    moreover have "r = 0 \<longrightarrow> st_sent st' = queued st"
      using wr_done w p by (auto simp: st' queued_def)
    ultimately show ?thesis using wr_sign [OF w] wr_prefix [OF w] f p st' by simp
  qed
  then show "stream_inv st'" and "pending st' = []" and "r \<le> 0"
    and "r = 0 \<Longrightarrow> st_sent st' = queued st"
    and "\<exists>k. st_sent st' = st_sent st @ take k (pending st)"
    and "st_bufsize st' = st_bufsize st" and "st_buf st' = st_buf st"
    and "io_open st' \<Longrightarrow> io_free st' = io_bufsize st'" by blast+
qed

text \<open>Storing a packet appends it to the queue.\<close>

lemma put_packet_queue:
  assumes "allocator_ok fresh" and "stream_inv st" and "put_packet fresh wr st bs = Returned st'"
  shows "stream_inv st' \<and> queued st' = queued st @ bs"
proof -
  obtain r0 st0 where f: "(if io_open st \<and> io_free st < length bs then IOStream_flush wr st
                           else Returned (0, st)) = Returned (r0, st0)" and r0: "\<not> r0 < 0"
    using assms(3) by (auto simp: put_packet_def IOStream_alloc_def split: outcome.splits if_splits)
  obtain off st1 where t: "take_room fresh st0 (length bs) = (Some off, st1)"
    and "\<exists>buf buf'. st_buf st1 = Some buf \<and> blit buf off bs = Some buf'
           \<and> st' = st1\<lparr>st_buf := Some buf'\<rparr>"
    using assms(3) f r0
    by (cases "take_room fresh st0 (length bs)")
      (auto simp: put_packet_def IOStream_alloc_def split: option.splits)
  then obtain buf buf' where buf: "st_buf st1 = Some buf" and bl: "blit buf off bs = Some buf'"
    and st': "st' = st1\<lparr>st_buf := Some buf'\<rparr>" by blast
  have i0: "stream_inv st0" and q0: "queued st0 = queued st"
    and c: "io_open st0 \<Longrightarrow> length bs \<le> io_free st0 \<or> pending st0 = []"
    and d: "io_open st0 \<Longrightarrow> io_bufsize st0 < length bs \<Longrightarrow> pending st0 = []"
  proof -
    have "stream_inv st0 \<and> queued st0 = queued st
      \<and> (io_open st0 \<longrightarrow> length bs \<le> io_free st0 \<or> pending st0 = [])
      \<and> (io_open st0 \<longrightarrow> io_bufsize st0 < length bs \<longrightarrow> pending st0 = [])"
    proof (cases "io_open st \<and> io_free st < length bs")
      case True
      then have fl: "IOStream_flush wr st = Returned (r0, st0)" using f by simp
      note p = flush_props [OF assms(2) fl]
      have "r0 = 0" using p(3) r0 by simp
      then show ?thesis using p(1,2,4) by (simp add: queued_def)
    next
      case False
      then have s: "st0 = st" using f by (simp only: if_not_P [OF False]) simp
      have "length bs \<le> io_bufsize st" if "io_open st"
        using that False assms(2) by (auto simp: stream_inv_def split: option.splits)
      then show ?thesis using assms(2) s False by auto
    qed
    then show "stream_inv st0" and "queued st0 = queued st"
      and "io_open st0 \<Longrightarrow> length bs \<le> io_free st0 \<or> pending st0 = []"
      and "io_open st0 \<Longrightarrow> io_bufsize st0 < length bs \<Longrightarrow> pending st0 = []" by blast+
  qed
  note tp = take_room_props [OF assms(1) i0 c d t, simplified]
  obtain b where b: "st_buf st1 = Some b" and o: "io_open st1"
    and le: "off + length bs \<le> io_bufsize st1" "io_bufsize st1 \<le> length b"
      "st_bufsize st1 \<le> length b" "io_free st1 \<le> io_bufsize st1"
    and tk: "take off b = pending st0" and used: "io_bufsize st1 - io_free st1 = off + length bs"
    using tp(2) by blast
  have bb: "b = buf" using b buf by simp
  have lb: "length buf' = length b" using length_blit [OF bl] bb by simp
  have "stream_inv st'" using le lb o by (auto simp: stream_inv_def st')
  moreover have "pending st' = pending st0 @ bs"
  proof -
    have "pending st' = take (off + length bs) buf'" using o used by (simp add: pending_def st')
    also have "\<dots> = take off buf @ bs"
      using bl le bb by (auto simp: blit_Some_iff)
    finally show ?thesis using tk bb by simp
  qed
  ultimately show ?thesis using tp(1) q0 by (simp add: queued_def st')
qed

lemma put_packets_queue:
  "allocator_ok fresh \<Longrightarrow> stream_inv st \<Longrightarrow> put_packets fresh wr st ps = Returned st'
   \<Longrightarrow> stream_inv st' \<and> queued st' = queued st @ concat ps"
proof (induction ps arbitrary: st)
  case (Cons p ps)
  then obtain st1 where "put_packet fresh wr st p = Returned st1"
    and "put_packets fresh wr st1 ps = Returned st'"
    by (auto split: outcome.splits)
  then show ?case using Cons.IH [of st1] put_packet_queue [of fresh st p st1] Cons.prems by simp
qed simp

lemma put_packets_flush:
  assumes "allocator_ok fresh" and "stream_inv st"
    and "put_packets fresh wr st ps = Returned st1" and "IOStream_flush wr st1 = Returned (0, st2)"
  shows "st_sent st2 = queued st @ concat ps"
  using put_packets_queue [OF assms(1-3)] flush_props(4) [OF _ assms(4)] by simp

end

section \<open>Termination of the writing loops\<close>

text \<open>A kernel that keeps taking at least one byte, with any number of interruptions.\<close>

fun takes_some :: "wr_answer \<Rightarrow> bool" where
  "takes_some (Takes n) \<longleftrightarrow> 0 < n"
| "takes_some _ \<longleftrightarrow> False"

lemma pipe_write_loop_returns:
  "WFailed \<notin> set ws \<Longrightarrow> Takes 0 \<notin> set ws \<Longrightarrow> length bs \<le> length (filter takes_some ws)
   \<Longrightarrow> \<exists>ws'. pipe_write_loop bs ws sent = Returned (0, ws', sent @ bs)"
proof (induction bs ws sent rule: pipe_write_loop.induct)
  case (3 b bs n ws sent)
  then have "n \<noteq> 0" by auto
  with 3 show ?case by fastforce
qed auto

lemma socket_write_loop_returns:
  "WFailed \<notin> set ws \<Longrightarrow> length bs \<le> length (filter takes_some ws)
   \<Longrightarrow> \<exists>ws'. socket_write_loop bs ws sent = Returned (0, ws', sent @ bs)"
proof (induction bs ws sent rule: socket_write_loop.induct)
  case (3 b bs n ws sent)
  then show ?case by (cases "n = 0") fastforce+
qed auto

section \<open>Reading\<close>

text \<open>The bytes that arrive before the end of the stream or an error.\<close>

fun arriving :: "rd_answer list \<Rightarrow> byte list" where
  "arriving [] = []"
| "arriving (Chunk bs # rs) = (if bs = [] then [] else bs @ arriving rs)"
| "arriving (RInterrupted # rs) = arriving rs"
| "arriving (RFailed # rs) = []"

lemma arriving_deliver:
  assumes "deliver n bs rs = (got, rest)" and "0 < n" and "bs \<noteq> []"
  shows "bs @ arriving rs = got @ arriving rest" and "got \<noteq> []" and "length got \<le> n"
  using assms by (auto simp: deliver_def split: if_splits)

lemma take_both: "length xs = k \<Longrightarrow> take (k + length ys) (xs @ ys @ zs) = xs @ ys"
  by simp

lemma socket_read_loop_exact:
  assumes "res \<le> len" and "length buf = len" and "take (len - res) buf = xs"
  shows "case socket_read_loop buf len res rs of
     Blocked \<Rightarrow> length (arriving rs) < res
   | Undefined \<Rightarrow> False
   | Returned (None, rs') \<Rightarrow> length (arriving rs) < res
   | Returned (Some buf', rs') \<Rightarrow> res \<le> length (arriving rs)
       \<and> buf' = xs @ take res (arriving rs) \<and> arriving rs' = drop res (arriving rs)"
  using assms
proof (induction buf len res rs arbitrary: xs rule: socket_read_loop.induct)
  case (1 buf len res rs)
  show ?case
  proof (cases "res = 0")
    case True
    then show ?thesis using "1.prems" by (simp add: socket_read_loop.simps)
  next
    case nz: False
    show ?thesis
    proof (cases rs)
      case Nil
      then show ?thesis using nz by (subst socket_read_loop.simps) simp
    next
      case (Cons r rs')
      show ?thesis
      proof (cases r)
        case (Chunk bs)
        obtain got rest where d: "deliver res bs rs' = (got, rest)" by fastforce
        show ?thesis
        proof (cases "bs = []")
          case True
          then have "got = []" using d by (simp add: deliver_def)
          then show ?thesis
            using nz Cons Chunk True d by (subst socket_read_loop.simps) simp
        next
          case False
          note a = arriving_deliver [OF d _ False]
          have ne: "got \<noteq> []" and le: "length got \<le> res" and ar: "bs @ arriving rs' = got @ arriving rest"
            using a nz by simp_all
          have fit: "len - res + length got \<le> length buf" using le "1.prems" by simp
          define buf' where "buf' = take (len - res) buf @ got @ drop (len - res + length got) buf"
          have bl: "blit buf (len - res) got = Some buf'" using fit by (simp add: blit_def buf'_def)
          have step: "socket_read_loop buf len res rs = socket_read_loop buf' len (res - length got) rest"
            using nz Cons Chunk d ne bl by (subst socket_read_loop.simps) simp
          have lb: "length buf' = len" using length_blit [OF bl] "1.prems" by simp
          have e: "len - (res - length got) = len - res + length got" using le "1.prems" by simp
          have tk: "take (len - (res - length got)) buf' = xs @ got"
            unfolding e buf'_def "1.prems"(3) [symmetric]
            by (rule take_both) (use "1.prems"(1,2) in simp)
          have ih: "case socket_read_loop buf' len (res - length got) rest of
             Blocked \<Rightarrow> length (arriving rest) < res - length got
           | Undefined \<Rightarrow> False
           | Returned (None, rs') \<Rightarrow> length (arriving rest) < res - length got
           | Returned (Some b, rs') \<Rightarrow> res - length got \<le> length (arriving rest)
               \<and> b = (xs @ got) @ take (res - length got) (arriving rest)
               \<and> arriving rs' = drop (res - length got) (arriving rest)"
            using "1.IH"(1) [OF nz Cons Chunk d [symmetric] refl ne bl _ lb tk] "1.prems" by simp
          have arr: "arriving rs = got @ arriving rest" using Cons Chunk False ar by simp
          show ?thesis
            using ih le unfolding step arr
            by (auto split: outcome.splits option.splits)
        qed
      next
        case RInterrupted
        have "socket_read_loop buf len res rs = socket_read_loop buf len res rs'"
          using nz Cons RInterrupted by (subst socket_read_loop.simps) simp
        then show ?thesis
          using "1.IH"(2) [OF nz Cons RInterrupted "1.prems"] unfolding Cons RInterrupted arriving.simps by simp
      next
        case RFailed
        then show ?thesis using nz Cons by (subst socket_read_loop.simps) simp
      qed
    qed
  qed
qed


text \<open>
  The loop of the pipe is the loop of the socket as long as no read delivers more than what
  is missing, and undefined otherwise.
\<close>

lemma pipe_read_loop_cases:
  assumes "res \<le> len" and "length buf = len"
  shows "pipe_read_loop buf len res rs = Undefined
    \<or> pipe_read_loop buf len res rs = socket_read_loop buf len res rs"
  using assms
proof (induction buf len res rs rule: pipe_read_loop.induct)
  case (1 buf len res rs)
  show ?case
  proof (cases "res = 0")
    case True
    then show ?thesis by (simp add: pipe_read_loop.simps socket_read_loop.simps)
  next
    case nz: False
    show ?thesis
    proof (cases rs)
      case Nil
      then show ?thesis by (simp add: pipe_read_loop.simps socket_read_loop.simps)
    next
      case (Cons r rs')
      show ?thesis
      proof (cases r)
        case (Chunk bs)
        obtain got rest where d: "deliver len bs rs' = (got, rest)" by fastforce
        show ?thesis
        proof (cases "got = []")
          case True
          then have "bs = []" using d nz "1.prems" by (auto simp: deliver_def)
          then show ?thesis
            unfolding Cons Chunk
            by (subst pipe_read_loop.simps, subst (3) pipe_read_loop.simps,
                subst socket_read_loop.simps) (simp add: deliver_def)
        next
          case False
          show ?thesis
          proof (cases "blit buf (len - res) got")
            case None
            then show ?thesis
              using Cons Chunk d False nz by (subst pipe_read_loop.simps) simp
          next
            case (Some buf')
            then have le: "length got \<le> res" using "1.prems" by (auto simp: blit_def split: if_splits)
            have same: "deliver res bs rs' = (got, rest)"
              using d le "1.prems" by (auto simp: deliver_def split: if_splits)
            have "pipe_read_loop buf' len (res - length got) rest = Undefined
              \<or> pipe_read_loop buf' len (res - length got) rest
                 = socket_read_loop buf' len (res - length got) rest"
              using "1.IH"(1) [OF nz Cons Chunk d [symmetric] refl False Some] "1.prems"
                length_blit [OF Some] by simp
            moreover have "pipe_read_loop buf len res rs = pipe_read_loop buf' len (res - length got) rest"
              using Cons Chunk d False Some nz by (subst pipe_read_loop.simps) simp
            moreover have "socket_read_loop buf len res rs = socket_read_loop buf' len (res - length got) rest"
              using Cons Chunk same False Some nz by (subst socket_read_loop.simps) simp
            ultimately show ?thesis by simp
          qed
        qed
      next
        case RInterrupted
        have "pipe_read_loop buf len res rs = pipe_read_loop buf len res rs'"
          using nz Cons RInterrupted by (subst pipe_read_loop.simps) simp
        moreover have "socket_read_loop buf len res rs = socket_read_loop buf len res rs'"
          using nz Cons RInterrupted by (subst socket_read_loop.simps) simp
        ultimately show ?thesis using "1.IH"(2) [OF nz Cons RInterrupted "1.prems"] by simp
      next
        case RFailed
        have "pipe_read_loop buf len res rs = Returned (None, rs')"
          using nz Cons RFailed by (subst pipe_read_loop.simps) simp
        moreover have "socket_read_loop buf len res rs = Returned (None, rs')"
          using nz Cons RFailed by (subst socket_read_loop.simps) simp
        ultimately show ?thesis by simp
      qed
    qed
  qed
qed

lemma pipe_recv_loop_props:
  "case pipe_recv_loop acc len rs of
     Blocked \<Rightarrow> length (arriving rs) < len
   | Undefined \<Rightarrow> False
   | Returned ((n, bs), rs') \<Rightarrow> bs = acc @ take len (arriving rs)
       \<and> (n = int (length bs) \<or> n = - 1 \<and> bs = [])"
proof (induction acc len rs rule: pipe_recv_loop.induct)
  case (1 acc len rs)
  show ?case
  proof (cases "len = 0")
    case True
    then show ?thesis by (simp add: pipe_recv_loop.simps)
  next
    case nz: False
    show ?thesis
    proof (cases rs)
      case Nil
      then show ?thesis using nz by (subst pipe_recv_loop.simps) simp
    next
      case (Cons r rs')
      show ?thesis
      proof (cases r)
        case (Chunk bs)
        obtain got rest where d: "deliver len bs rs' = (got, rest)" by fastforce
        show ?thesis
        proof (cases "bs = []")
          case True
          then have "got = []" using d by (simp add: deliver_def)
          then show ?thesis using nz Cons Chunk True d by (subst pipe_recv_loop.simps) simp
        next
          case False
          note a = arriving_deliver [OF d _ False]
          have ne: "got \<noteq> []" and le: "length got \<le> len" using a nz by simp_all
          have arr: "arriving rs = got @ arriving rest" using Cons Chunk False a(1) nz by simp
          have step: "pipe_recv_loop acc len rs = pipe_recv_loop (acc @ got) (len - length got) rest"
            using nz Cons Chunk d ne by (subst pipe_recv_loop.simps) simp
          show ?thesis
            using "1.IH"(1) [OF nz Cons Chunk d [symmetric] refl ne] le
            unfolding step arr by (auto split: outcome.splits prod.splits)
        qed
      next
        case RInterrupted
        have "pipe_recv_loop acc len rs = pipe_recv_loop acc len rs'"
          using nz Cons RInterrupted by (subst pipe_recv_loop.simps) simp
        then show ?thesis
          using "1.IH"(2) [OF nz Cons RInterrupted] unfolding Cons RInterrupted arriving.simps by simp
      next
        case RFailed
        then show ?thesis using nz Cons by (subst pipe_recv_loop.simps) simp
      qed
    qed
  qed
qed

section \<open>Properties of the streams\<close>

text \<open>
  C13. A stream is a faithful queue. Whatever packets the encoders store, with the buffer
  growing and being flushed along the way, and whatever fragments and interruptions the
  kernel answers with: when the final flush returns 0, the kernel has received exactly the
  concatenation of the packets, in order. For pipe and socket alike.
\<close>

theorem stream_is_queue:
  assumes "allocator_ok fresh" and "wr = QemuPipeStream_writeFully \<or> wr = SocketStream_writeFully"
    and "put_packets fresh wr (stream_new sock n ws rs) ps = Returned st1"
    and "IOStream_flush wr st1 = Returned (0, st2)"
  shows "st_sent st2 = concat ps"
  using pipe.put_packets_flush [OF assms(1) stream_inv_new, of sock n ws rs ps st1 st2]
    socket.put_packets_flush [OF assms(1) stream_inv_new, of sock n ws rs ps st1 st2] assms(2-4)
  by auto

definition bytes_alloc :: allocator where
  "bytes_alloc n = Some (replicate n 0)"

lemma bytes_alloc_ok [simp]: "allocator_ok bytes_alloc"
  by (simp add: allocator_ok_def bytes_alloc_def)

definition example_start :: stream where
  "example_start = stream_new 3 4 [Takes 2, WInterrupted, Takes 9, Takes 5] []"

lemma example_run:
  "put_packets bytes_alloc QemuPipeStream_writeFully example_start [[1, 2, 3], [4, 5], [6]]
   = Returned \<lparr>io_open = True, io_bufsize = 4, io_free = 1, st_sock = 3, st_bufsize = 4,
      st_buf = Some [4, 5, 6, 0], st_wr = [Takes 5], st_rd = [], st_sent = [1, 2, 3]\<rparr>"
  by (simp add: example_start_def stream_new_def put_packet_def IOStream_alloc_def
      IOStream_flush_def commitBuffer_def take_room_def allocBuffer_def bytes_alloc_def blit_def
      QemuPipeStream_writeFully_def valid_def Let_def numeral_eq_Suc)

fun returned :: "'a outcome \<Rightarrow> 'a" where
  "returned (Returned x) = x"
| "returned Blocked = undefined"
| "returned Undefined = undefined"

theorem stream_is_queue_witness:
  "\<exists>st1 st2. put_packets bytes_alloc QemuPipeStream_writeFully example_start
      [[1, 2, 3], [4, 5], [6]] = Returned st1
    \<and> IOStream_flush QemuPipeStream_writeFully st1 = Returned (0, st2)
    \<and> st_sent st2 = [1, 2, 3, 4, 5, 6]"
proof -
  let ?st1 = "\<lparr>io_open = True, io_bufsize = 4, io_free = 1, st_sock = 3, st_bufsize = 4,
      st_buf = Some [4, 5, 6, 0], st_wr = [Takes 5], st_rd = [], st_sent = [1, 2, 3]\<rparr>"
  obtain st2 where f: "IOStream_flush QemuPipeStream_writeFully ?st1 = Returned (0, st2)"
    by (simp add: IOStream_flush_def commitBuffer_def QemuPipeStream_writeFully_def valid_def
        numeral_eq_Suc)
  have "st_sent st2 = concat [[1, 2, 3], [4, 5], [6]]"
    by (rule stream_is_queue [OF bytes_alloc_ok _ example_run [unfolded example_start_def] f]) simp
  then show ?thesis using example_run f by auto
qed

text \<open>
  \<open>writeFully\<close> returns. If the kernel keeps taking bytes, at least one per call and in as
  many calls as there are bytes at most, with any number of interruptions in between, then
  \<open>writeFully\<close> on a valid stream returns 0 after sending exactly the bytes.
\<close>

theorem writeFully_returns:
  assumes "valid st" and "WFailed \<notin> set (st_wr st)" and "Takes 0 \<notin> set (st_wr st)"
    and "length bs \<le> length (filter takes_some (st_wr st))"
    and "wr = QemuPipeStream_writeFully \<or> wr = SocketStream_writeFully"
  shows "\<exists>st'. wr st bs = Returned (0, st') \<and> st_sent st' = st_sent st @ bs"
  using pipe_write_loop_returns [OF assms(2-4), of "st_sent st"]
    socket_write_loop_returns [OF assms(2,4), of "st_sent st"] assms(1,5)
  by (auto simp: QemuPipeStream_writeFully_def SocketStream_writeFully_def)

theorem writeFully_returns_witness:
  "\<exists>st'. SocketStream_writeFully (stream_new 3 4 [Takes 1, WInterrupted, Takes 2] []) [7, 8]
     = Returned (0, st') \<and> st_sent st' = [7, 8]"
  using writeFully_returns [of "stream_new 3 4 [Takes 1, WInterrupted, Takes 2] []" "[7, 8]"
      SocketStream_writeFully]
  by (simp add: stream_new_def valid_def)

text \<open>
  C29. \<open>SocketStream::readFully\<close> reads exactly: it never writes outside the buffer, it succeeds
  when at least as many bytes arrive as the buffer holds, then with the first of them in the
  order of arrival however they were fragmented, and leaves the rest unread.
\<close>

theorem socket_readFully_exact:
  assumes "valid st"
  shows "case SocketStream_readFully st (Some buf) of
     Blocked \<Rightarrow> length (arriving (st_rd st)) < length buf
   | Undefined \<Rightarrow> False
   | Returned (None, st') \<Rightarrow> length (arriving (st_rd st)) < length buf
   | Returned (Some buf', st') \<Rightarrow> length buf \<le> length (arriving (st_rd st))
       \<and> buf' = take (length buf) (arriving (st_rd st))
       \<and> arriving (st_rd st') = drop (length buf) (arriving (st_rd st))"
proof -
  let ?n = "length buf" and ?r = "SocketStream_readFully st (Some buf)"
  have eq: "?r = after_read st (socket_read_loop buf ?n ?n (st_rd st))"
    using assms by (simp add: SocketStream_readFully_def)
  have loop: "case socket_read_loop buf ?n ?n (st_rd st) of
     Blocked \<Rightarrow> length (arriving (st_rd st)) < ?n
   | Undefined \<Rightarrow> False
   | Returned (None, rs') \<Rightarrow> length (arriving (st_rd st)) < ?n
   | Returned (Some buf', rs') \<Rightarrow> ?n \<le> length (arriving (st_rd st))
       \<and> buf' = [] @ take ?n (arriving (st_rd st)) \<and> arriving rs' = drop ?n (arriving (st_rd st))"
    by (rule socket_read_loop_exact) simp_all
  show ?thesis
  proof (cases "socket_read_loop buf ?n ?n (st_rd st)")
    case (Returned x)
    obtain r rs where x: "x = (r, rs)" by (cases x)
    show ?thesis using loop unfolding eq Returned x by (cases r) simp_all
  qed (use loop eq in simp_all)
qed

theorem socket_readFully_exact_witness:
  "arriving (st_rd (snd (returned (SocketStream_readFully
     (stream_new 3 4 [] [Chunk [1], RInterrupted, Chunk [2, 3, 4]]) (Some [0, 0, 0]))))) = [4]"
proof -
  let ?st = "stream_new 3 4 [] [Chunk [1], RInterrupted, Chunk [2, 3, 4]]"
  have r: "SocketStream_readFully ?st (Some [0, 0, 0])
    = Returned (Some [1, 2, 3], ?st\<lparr>st_rd := [Chunk [4]]\<rparr>)"
    by (simp add: SocketStream_readFully_def stream_new_def valid_def socket_read_loop.simps
        deliver_def blit_def)
  show ?thesis
    using socket_readFully_exact [of ?st "[0, 0, 0]"] unfolding r
    by (simp add: stream_new_def valid_def)
qed

text \<open>
  C30. \<open>QemuPipeStream::readFully\<close> asks for \<open>len\<close> bytes in every round instead of the missing
  ones. When the answer arrives in two parts and more data follows directly, the second read
  writes behind the end of the buffer, although the kernel never delivers more than asked for.
  Short of that it does what \<open>SocketStream::readFully\<close> does.
\<close>

theorem pipe_readFully_overruns:
  assumes "valid st" and "st_rd st = Chunk as # Chunk bs # rs"
    and "as \<noteq> []" and "length as < length buf" and "length buf < length as + length bs"
  shows "QemuPipeStream_readFully st (Some buf) = Undefined"
proof -
  let ?n = "length buf"
  have bne: "bs \<noteq> []" using assms(4,5) by auto
  have d1: "deliver ?n as (Chunk bs # rs) = (as, Chunk bs # rs)" using assms(4) by (simp add: deliver_def)
  obtain rest where d2: "deliver ?n bs rs = (take ?n bs, rest)" by (simp add: deliver_def)
  have big: "blit b (length as) (take ?n bs) = None" if "length b = ?n" for b
    using that assms(3-5) by (auto simp: blit_def min_def)
  obtain b where bl: "blit buf 0 as = Some b" using assms(4) by (simp add: blit_def)
  have l: "length b = ?n" by (rule length_blit [OF bl])
  have n0: "buf \<noteq> []" using assms(4) by auto
  have "pipe_read_loop b ?n (?n - length as) (Chunk bs # rs) = Undefined"
    using assms(4) bne n0 d2 big [OF l] by (subst pipe_read_loop.simps) simp
  then have "pipe_read_loop buf ?n ?n (Chunk as # Chunk bs # rs) = Undefined"
    using assms(3) n0 d1 bl by (subst pipe_read_loop.simps) simp
  then show ?thesis using assms(1,2) by (simp add: QemuPipeStream_readFully_def)
qed

theorem pipe_readFully_overruns_witness:
  "QemuPipeStream_readFully (stream_new 3 4 [] [Chunk [1, 2], Chunk [3, 4, 5, 6]])
     (Some [0, 0, 0, 0]) = Undefined"
  by (rule pipe_readFully_overruns [of _ "[1, 2]" "[3, 4, 5, 6]" "[]"])
    (simp_all add: stream_new_def valid_def)

text \<open>A pipe's \<open>readFully\<close> that stays inside its buffer gives what a socket's would give.\<close>

theorem pipe_readFully_like_socket:
  "QemuPipeStream_readFully st buf = Undefined
   \<or> QemuPipeStream_readFully st buf = SocketStream_readFully st buf"
proof (cases "buf = None \<or> \<not> valid st")
  case False
  then obtain b where "buf = Some b" by auto
  then show ?thesis
    using pipe_read_loop_cases [of "length b" "length b" b "st_rd st"] False
    by (auto simp: QemuPipeStream_readFully_def SocketStream_readFully_def)
qed (auto simp: QemuPipeStream_readFully_def SocketStream_readFully_def split: option.split)

text \<open>
  \<open>QemuPipeStream::recv\<close> stores the first bytes that arrive, as many as fit into \<open>len\<close> or
  come before the stream ends, and returns their number, or \<open>-1\<close> with none of them stored.
\<close>

theorem pipe_recv_collects:
  assumes "valid st" and "QemuPipeStream_recv st len = Returned ((n, bs), st')"
  shows "bs = take len (arriving (st_rd st)) \<and> (n = int (length bs) \<or> n = - 1 \<and> bs = [])"
  using assms pipe_recv_loop_props [where acc = "[]" and len = len and rs = "st_rd st"]
  by (cases "pipe_recv_loop [] len (st_rd st)") (auto simp: QemuPipeStream_recv_def)

theorem pipe_recv_collects_witness:
  "fst (returned (QemuPipeStream_recv (stream_new 3 4 [] [Chunk [1], Chunk [2, 3]]) 2)) = (2, [1, 2])"
proof -
  let ?st = "stream_new 3 4 [] [Chunk [1], Chunk [2, 3]]"
  have r: "QemuPipeStream_recv ?st 2 = Returned ((2, [1, 2]), ?st\<lparr>st_rd := [Chunk [3]]\<rparr>)"
    by (simp add: QemuPipeStream_recv_def stream_new_def valid_def pipe_recv_loop.simps deliver_def)
  show ?thesis
    using pipe_recv_collects [OF _ r] unfolding r by (simp add: stream_new_def valid_def)
qed

end
