(* ===== verification/HostConnection.thy ===== *)
theory HostConnection
  imports IOStream
begin

text \<open>
  The connection of a thread to the renderer: \<open>HostConnection.cpp\<close> with the stream of
  \<open>TcpStream.cpp\<close>, kept in the thread's \<open>EGLThreadInfo\<close> (\<open>ThreadInfo.cpp\<close>). What the
  kernel answers to an attempt to connect is a parameter.
\<close>

section \<open>Results that may block\<close>

fun obind :: "'a outcome \<Rightarrow> ('a \<Rightarrow> 'b outcome) \<Rightarrow> 'b outcome" where
  "obind (Returned x) f = f x"
| "obind Blocked f = Blocked"
| "obind Undefined f = Undefined"

lemma obind_Returned_iff: "obind x f = Returned y \<longleftrightarrow> (\<exists>z. x = Returned z \<and> f z = Returned y)"
  by (cases x) auto

lemma obind_E:
  assumes "obind x f = Returned y"
  obtains z where "x = Returned z" and "f z = Returned y"
  using assms by (auto simp: obind_Returned_iff)

section \<open>State\<close>

text \<open>
  What a connection keeps of the two GL encoders it has created: the client state and the
  shared group that they work on, and whether their entry points are installed. Of the
  renderControl encoder it keeps that it exists.
\<close>

record enc_binding =
  eb_state :: addr
  eb_group :: addr
  eb_init :: bool

definition enc_binding_new :: enc_binding where
  "enc_binding_new = \<lparr>eb_state = 0, eb_group = 0, eb_init = False\<rparr>"

record host_conn =
  hc_stream :: stream
  hc_gl :: "enc_binding option"
  hc_gl2 :: "enc_binding option"
  hc_rc :: bool

record thread_info =
  ti_currentContext :: addr
  ti_hostConn :: "host_conn option"
  ti_eglError :: int

abbreviation (input) EGL_SUCCESS :: int where "EGL_SUCCESS \<equiv> 0x3000"

definition EGLThreadInfo_new :: thread_info where
  "EGLThreadInfo_new = \<lparr>ti_currentContext = 0, ti_hostConn = None, ti_eglError = EGL_SUCCESS\<rparr>"

text \<open>The thread's record is created on first use.\<close>

definition slow_getEGLThreadInfo :: "thread_info option \<Rightarrow> thread_info" where
  "slow_getEGLThreadInfo tls = (case tls of Some ti \<Rightarrow> ti | None \<Rightarrow> EGLThreadInfo_new)"

section \<open>Connecting\<close>

text \<open>One attempt: what \<open>socket\<close> returns, whether \<open>connect\<close> succeeds, and the stream's scripts.\<close>

record conn_answer =
  ca_socket :: int
  ca_connect :: int
  ca_wr :: "wr_answer list"
  ca_rd :: "rd_answer list"

definition TcpStream_connect :: "conn_answer \<Rightarrow> stream \<Rightarrow> stream \<times> int" where
  "TcpStream_connect a st =
     (let st1 = st\<lparr>st_sock := ca_socket a\<rparr> in
      if \<not> valid st1 then (st1, - 1)
      else if ca_connect a < 0 then (st1, - 1)
      else (st1, 0))"

definition STREAM_BUFFER_SIZE :: nat where
  "STREAM_BUFFER_SIZE = 4 * 1024 * 1024"

text \<open>
  \<open>HostConnection::get\<close>, for a TCP connection as it is built. The four bytes of the client
  flags are the first that the host receives; what \<open>commitBuffer\<close> returns is dropped.
\<close>

definition HostConnection_get ::
  "allocator \<Rightarrow> conn_answer \<Rightarrow> thread_info \<Rightarrow> (thread_info \<times> bool) outcome" where
  "HostConnection_get fresh a ti =
     (case ti_hostConn ti of
        Some con \<Rightarrow> Returned (ti, True)
      | None \<Rightarrow>
          (let st = stream_new (- 1) STREAM_BUFFER_SIZE (ca_wr a) (ca_rd a) in
           case TcpStream_connect a st of
             (st1, r) \<Rightarrow>
               if r < 0 then Returned (ti, False)
               else (let st2 = allocBuffer fresh st1 4 in
                     case Option.bind (st_buf st2) (\<lambda>bs. blit bs 0 (le32 0)) of
                       None \<Rightarrow> Undefined
                     | Some bs \<Rightarrow>
                         obind (commitBuffer SocketStream_writeFully (st2\<lparr>st_buf := Some bs\<rparr>) 4)
                           (\<lambda>(r, st3). Returned (ti\<lparr>ti_hostConn := Some \<lparr>hc_stream = st3,
                              hc_gl = None, hc_gl2 = None, hc_rc = False\<rparr>\<rparr>, True)))))"

text \<open>The encoders are created when they are first asked for.\<close>

definition glEncoder :: "host_conn \<Rightarrow> host_conn" where
  "glEncoder con = (if hc_gl con = None then con\<lparr>hc_gl := Some enc_binding_new\<rparr> else con)"

definition gl2Encoder :: "host_conn \<Rightarrow> host_conn" where
  "gl2Encoder con = (if hc_gl2 con = None then con\<lparr>hc_gl2 := Some enc_binding_new\<rparr> else con)"

definition rcEncoder :: "host_conn \<Rightarrow> host_conn" where
  "rcEncoder con = (if \<not> hc_rc con then con\<lparr>hc_rc := True\<rparr> else con)"

definition HostConnection_flush :: "host_conn \<Rightarrow> host_conn outcome" where
  "HostConnection_flush con =
     obind (IOStream_flush SocketStream_writeFully (hc_stream con))
       (\<lambda>(r, st). Returned (con\<lparr>hc_stream := st\<rparr>))"

section \<open>What connecting does\<close>

lemma get_connected [simp]: "ti_hostConn ti = Some con \<Longrightarrow> HostConnection_get fresh a ti = Returned (ti, True)"
  by (simp add: HostConnection_get_def)

lemma get_refused:
  assumes "ti_hostConn ti = None" and "ca_socket a < 0 \<or> ca_connect a < 0"
  shows "HostConnection_get fresh a ti = Returned (ti, False)"
  using assms by (auto simp: HostConnection_get_def TcpStream_connect_def valid_def Let_def)

lemma get_result:
  assumes "HostConnection_get fresh a ti = Returned (ti', ok)"
  shows "(if ok then ti_hostConn ti' \<noteq> None else ti' = ti \<and> ti_hostConn ti = None)"
  using assms
  by (auto simp: HostConnection_get_def obind_Returned_iff Let_def split: option.splits prod.splits if_splits)

end
