(* ===== verification/GrallocList.thy ===== *)
theory GrallocList
  imports Prelude
begin

text \<open>
  The list of allocated buffers of a gralloc device (\<open>AllocListNode\<close> in
  \<open>common/opengl/system/gralloc/gralloc.cpp\<close>): a doubly linked list in an explicit store of
  nodes, with the insertion of \<open>gralloc_alloc\<close> and the search and removal of
  \<open>gralloc_free\<close>, and the abstract list of handles that they implement.
\<close>

section \<open>Nodes and operations\<close>

record alloc_node =
  an_handle :: addr
  an_next :: addr
  an_prev :: addr

type_synonym node_store = "addr \<rightharpoonup> alloc_node"

text \<open>\<open>allocListHead\<close> and the nodes; the address 0 is NULL.\<close>

type_synonym alloc_list = "addr \<times> node_store"

definition list_insert :: "alloc_list \<Rightarrow> addr \<Rightarrow> addr \<Rightarrow> alloc_list ub" where
  "list_insert l node cb =
     (case l of (head, ns) \<Rightarrow>
        let ns1 = ns(node \<mapsto> \<lparr>an_handle = cb, an_next = head, an_prev = 0\<rparr>) in
        if head = 0 then Some (node, ns1)
        else case ns1 head of
               None \<Rightarrow> None
             | Some h \<Rightarrow> Some (node, ns1(head \<mapsto> h\<lparr>an_prev := node\<rparr>)))"

text \<open>The search; \<open>None\<close> for a dangling pointer and for a list without end.\<close>

partial_function (option) find_node :: "node_store \<Rightarrow> addr \<Rightarrow> addr \<Rightarrow> addr ub" where
  "find_node ns n cb =
     (if n = 0 then Some 0
      else case ns n of
             None \<Rightarrow> None
           | Some x \<Rightarrow> if an_handle x = cb then Some n else find_node ns (an_next x) cb)"

definition unlink :: "alloc_list \<Rightarrow> addr \<Rightarrow> alloc_list ub" where
  "unlink l n =
     (case l of (head, ns) \<Rightarrow>
        Option.bind (ns n) (\<lambda>x.
          Option.bind (if an_next x = 0 then Some ns
                else map_option (\<lambda>y. ns(an_next x \<mapsto> y\<lparr>an_prev := an_prev x\<rparr>)) (ns (an_next x)))
            (\<lambda>ns1. if an_prev x = 0 then Some (an_next x, ns1(n := None))
               else map_option (\<lambda>y. (head, (ns1(an_prev x \<mapsto> y\<lparr>an_next := an_next x\<rparr>))(n := None)))
                      (ns1 (an_prev x)))))"

definition list_remove :: "alloc_list \<Rightarrow> addr \<Rightarrow> alloc_list ub" where
  "list_remove l cb =
     (case find_node (snd l) (fst l) cb of
        None \<Rightarrow> None
      | Some n \<Rightarrow> if n = 0 then Some l else unlink l n)"

section \<open>Segments\<close>

text \<open>
  From \<open>p\<close>, whose predecessor is \<open>q\<close>, the nodes \<open>as\<close> lead to \<open>e\<close>, whose predecessor is \<open>z\<close>.
\<close>

primrec dseg :: "node_store \<Rightarrow> addr \<Rightarrow> addr \<Rightarrow> addr list \<Rightarrow> addr \<Rightarrow> addr \<Rightarrow> bool" where
  "dseg ns q p [] e z \<longleftrightarrow> p = e \<and> q = z"
| "dseg ns q p (a # as) e z \<longleftrightarrow>
     p = a \<and> a \<noteq> 0 \<and> (\<exists>n. ns a = Some n \<and> an_prev n = q \<and> dseg ns a (an_next n) as e z)"

lemma dseg_append [simp]:
  "dseg ns q p (as @ bs) e z \<longleftrightarrow> (\<exists>m w. dseg ns q p as m w \<and> dseg ns w m bs e z)"
  by (induction as arbitrary: q p) auto

lemma dseg_upd [simp]: "u \<notin> set as \<Longrightarrow> dseg (ns(u := v)) q p as e z = dseg ns q p as e z"
  by (induction as arbitrary: q p) auto

lemma dseg_set_prev:
  assumes "dseg ns q p (b # bs) e z" and "b \<notin> set bs" and "ns b = Some n"
  shows "dseg (ns(b \<mapsto> n\<lparr>an_prev := q'\<rparr>)) q' b (b # bs) e z"
  using assms by auto

lemma dseg_set_next:
  assumes "dseg ns q p (as @ [l]) e z" and "l \<notin> set as" and "ns l = Some n"
  shows "dseg (ns(l \<mapsto> n\<lparr>an_next := e'\<rparr>)) q p (as @ [l]) e' z"
  using assms by auto

lemma dseg_last: "dseg ns q p as e z \<Longrightarrow> z = (if as = [] then q else last as)"
  by (induction as arbitrary: q p) auto

definition handles :: "node_store \<Rightarrow> addr list \<Rightarrow> addr list" where
  "handles ns as = map (\<lambda>a. an_handle (the (ns a))) as"

definition represents :: "alloc_list \<Rightarrow> addr list \<Rightarrow> bool" where
  "represents l hs \<longleftrightarrow>
     (\<exists>as z. dseg (snd l) 0 (fst l) as 0 z \<and> distinct as \<and> handles (snd l) as = hs)"

lemma representsI:
  "dseg (snd l) 0 (fst l) as 0 z \<Longrightarrow> distinct as \<Longrightarrow> handles (snd l) as = hs \<Longrightarrow> represents l hs"
  by (auto simp: represents_def)

lemma handles_upd [simp]: "u \<notin> set as \<Longrightarrow> handles (ns(u := v)) as = handles ns as"
  by (auto simp: handles_def)

lemma handles_link [simp]:
  assumes "ns u = Some n"
  shows "handles (ns(u \<mapsto> n\<lparr>an_prev := q\<rparr>)) as = handles ns as"
    and "handles (ns(u \<mapsto> n\<lparr>an_next := q\<rparr>)) as = handles ns as"
  using assms by (simp_all add: handles_def)

lemma handles_append [simp]: "handles ns (as @ bs) = handles ns as @ handles ns bs"
  and handles_Cons [simp]: "handles ns (a # as) = an_handle (the (ns a)) # handles ns as"
  and handles_Nil [simp]: "handles ns [] = []"
  by (simp_all add: handles_def)

lemma dseg_nodes: "dseg ns q p as e z \<Longrightarrow> a \<in> set as \<Longrightarrow> a \<noteq> 0 \<and> ns a \<noteq> None"
  by (induction as arbitrary: q p) auto

section \<open>The operations implement a list of handles\<close>

lemma list_insert_represents:
  assumes "represents l hs" and "node \<noteq> 0" and "snd l node = None"
  shows "\<exists>l'. list_insert l node cb = Some l' \<and> represents l' (cb # hs)"
proof -
  obtain head ns where l: "l = (head, ns)" by fastforce
  obtain as z where as: "dseg ns 0 head as 0 z" "distinct as" "handles ns as = hs"
    using assms(1) by (auto simp: represents_def l)
  have nin: "node \<notin> set as" using dseg_nodes [OF as(1), of node] assms(3) by (auto simp: l)
  define ns1 where "ns1 = ns(node \<mapsto> \<lparr>an_handle = cb, an_next = head, an_prev = 0\<rparr>)"
  show ?thesis
  proof (cases as)
    case Nil
    then show ?thesis using as assms(2)
      by (auto simp: l list_insert_def represents_def intro!: exI [of _ "[node]"])
  next
    case (Cons a bs)
    then obtain n where n: "head = a" "a \<noteq> 0" "ns a = Some n" "a \<notin> set bs" "a \<noteq> node"
      using as(1,2) nin by auto
    have seg: "dseg (ns1(a \<mapsto> n\<lparr>an_prev := node\<rparr>)) node a (a # bs) 0 z"
      using as(1) nin n Cons by (intro dseg_set_prev [of _ 0 a]) (auto simp: ns1_def)
    have "handles (ns1(a \<mapsto> n\<lparr>an_prev := node\<rparr>)) (node # a # bs) = cb # hs"
      using as(3) nin n Cons by (subst handles_link) (auto simp: ns1_def)
    moreover have "dseg (ns1(a \<mapsto> n\<lparr>an_prev := node\<rparr>)) 0 node (node # a # bs) 0 z"
      using seg n assms(2) by (simp add: ns1_def)
    moreover have "distinct (node # a # bs)" using as(2) nin Cons by auto
    moreover have "list_insert l node cb = Some (node, ns1(a \<mapsto> n\<lparr>an_prev := node\<rparr>))"
      using n by (simp add: l list_insert_def ns1_def Let_def)
    ultimately show ?thesis
      by (intro exI conjI) (assumption, rule representsI, simp_all only: fst_conv snd_conv)
  qed
qed

lemma find_node_represents:
  assumes "dseg ns q p as 0 z"
  shows "find_node ns p cb = Some 0 \<and> cb \<notin> set (handles ns as)
    \<or> (\<exists>as1 a as2. as = as1 @ a # as2 \<and> find_node ns p cb = Some a \<and> an_handle (the (ns a)) = cb
         \<and> cb \<notin> set (handles ns as1))"
  using assms
proof (induction as arbitrary: q p)
  case (Cons b bs)
  then obtain n where n: "p = b" "b \<noteq> 0" "ns b = Some n" "dseg ns b (an_next n) bs 0 z" by auto
  show ?case
  proof (cases "an_handle n = cb")
    case True
    then have "find_node ns p cb = Some b" using n by (simp add: find_node.simps)
    then show ?thesis using n True by (intro disjI2 exI [of _ "[]"]) auto
  next
    case False
    then have "find_node ns p cb = find_node ns (an_next n) cb"
      using n by (subst find_node.simps) simp
    moreover from Cons.IH [OF n(4)] have "find_node ns (an_next n) cb = Some 0 \<and> cb \<notin> set (handles ns (b # bs))
      \<or> (\<exists>as1 a as2. b # bs = (b # as1) @ a # as2 \<and> find_node ns (an_next n) cb = Some a
          \<and> an_handle (the (ns a)) = cb \<and> cb \<notin> set (handles ns (b # as1)))"
      using n(3) False by auto
    ultimately show ?thesis by metis
  qed
qed (simp add: find_node.simps)

text \<open>Removing a node in the middle; \<open>w\<close> and \<open>m\<close> are its neighbours.\<close>

lemma unlink_segment:
  assumes "dseg ns 0 p (as @ a # bs) 0 z" and "distinct (as @ a # bs)"
  shows "\<exists>l z'. unlink (p, ns) a = Some l \<and> dseg (snd l) 0 (fst l) (as @ bs) 0 z'
    \<and> handles (snd l) (as @ bs) = handles ns (as @ bs)"
proof -
  obtain m w n where seg: "dseg ns 0 p as a w" and n: "ns a = Some n" "a \<noteq> 0" "an_prev n = w"
    and rest: "dseg ns a (an_next n) bs 0 z"
    using assms(1) by auto
  have nin: "a \<notin> set as" "a \<notin> set bs" "set as \<inter> set bs = {}" "distinct as" "distinct bs"
    using assms(2) by auto
  define m where "m = an_next n"
  obtain ns1 z1 where ns1: "(if m = 0 then Some ns else map_option (\<lambda>y. ns(m \<mapsto> y\<lparr>an_prev := w\<rparr>)) (ns m))
      = Some ns1"
    and rest1: "dseg ns1 w m bs 0 z1" and keep1: "dseg ns1 0 p as a w" "ns1 a = Some n"
    and h1: "\<And>cs. handles ns1 cs = handles ns cs"
  proof (cases bs)
    case Nil
    then have "m = 0" using rest by (simp add: m_def)
    then show ?thesis using that [of ns w] Nil seg n by simp
  next
    case (Cons b bs')
    then obtain y where b: "m = b" "b \<noteq> 0" "ns b = Some y" using rest by (auto simp: m_def)
    have "dseg (ns(b \<mapsto> y\<lparr>an_prev := w\<rparr>)) w b (b # bs') 0 z"
      using rest Cons b nin(5) by (intro dseg_set_prev [of _ a m]) (auto simp: m_def)
    moreover have "b \<notin> set as" "b \<noteq> a" using nin Cons by auto
    ultimately show ?thesis
      using that [of "ns(b \<mapsto> y\<lparr>an_prev := w\<rparr>)" z] b seg n Cons by simp
  qed
  show ?thesis
  proof (cases as rule: rev_cases)
    case Nil
    then have w: "w = 0" "p = a" using seg by auto
    have "unlink (p, ns) a = Some (m, ns1(a := None))"
      using ns1 n w unfolding unlink_def m_def by (cases "an_next n = 0") (auto simp: m_def)
    moreover have "dseg (ns1(a := None)) 0 m bs 0 z1" using rest1 w nin by simp
    ultimately show ?thesis using Nil h1 nin by auto
  next
    case (snoc as' l)
    then have w: "w = l" "l \<noteq> 0" "l \<noteq> a" "l \<notin> set as'" "l \<notin> set bs"
      using dseg_last [OF seg] dseg_nodes [OF seg, of l] nin by auto
    then obtain y where y: "ns1 l = Some y" using dseg_nodes [OF keep1(1), of l] snoc by auto
    have u: "unlink (p, ns) a = Some (p, (ns1(l \<mapsto> y\<lparr>an_next := m\<rparr>))(a := None))"
      using ns1 n w y unfolding unlink_def m_def by (cases "an_next n = 0") (auto simp: m_def)
    have "dseg (ns1(l \<mapsto> y\<lparr>an_next := m\<rparr>)) 0 p as m w"
      using dseg_set_next [of ns1 0 p as' l a w y m] keep1(1) snoc w(4) y by auto
    then have "dseg ((ns1(l \<mapsto> y\<lparr>an_next := m\<rparr>))(a := None)) 0 p (as @ bs) 0 z1"
      using rest1 nin w by (auto simp del: fun_upd_apply)
    moreover have "handles ((ns1(l \<mapsto> y\<lparr>an_next := m\<rparr>))(a := None)) (as @ bs) = handles ns (as @ bs)"
      using nin y h1 by (subst handles_upd) auto
    ultimately show ?thesis using u by auto
  qed
qed

lemma list_remove_represents:
  assumes "represents l hs"
  shows "\<exists>l'. list_remove l cb = Some l' \<and> represents l' (remove1 cb hs)"
proof -
  obtain as z where as: "dseg (snd l) 0 (fst l) as 0 z" "distinct as" "handles (snd l) as = hs"
    using assms by (auto simp: represents_def)
  from find_node_represents [OF as(1), of cb] show ?thesis
  proof (elim disjE exE conjE)
    assume f: "find_node (snd l) (fst l) cb = Some 0" and "cb \<notin> set (handles (snd l) as)"
    then have "remove1 cb hs = hs" using as(3) by (simp add: remove1_idem)
    then show ?thesis using f assms by (simp add: list_remove_def)
  next
    fix as1 a as2
    assume sp: "as = as1 @ a # as2" and f: "find_node (snd l) (fst l) cb = Some a"
      and a: "an_handle (the (snd l a)) = cb" "cb \<notin> set (handles (snd l) as1)"
    have "remove1 cb hs = handles (snd l) (as1 @ as2)"
      using as(3) a by (auto simp: sp remove1_append)
    moreover have "a \<noteq> 0" using dseg_nodes [OF as(1), of a] by (simp add: sp)
    moreover obtain l' z' where u: "unlink l a = Some l'" "dseg (snd l') 0 (fst l') (as1 @ as2) 0 z'"
      "handles (snd l') (as1 @ as2) = handles (snd l) (as1 @ as2)"
      using unlink_segment [of "snd l" "fst l" as1 a as2 z, simplified prod.collapse] as(1,2)
      unfolding sp by blast
    moreover have "distinct (as1 @ as2)" using as(2) by (auto simp: sp)
    ultimately have "represents l' (remove1 cb hs)" by (intro representsI [of _ "as1 @ as2" z']) simp_all
    then show ?thesis using f u(1) \<open>a \<noteq> 0\<close> by (simp add: list_remove_def)
  qed
qed

lemma represents_empty: "represents (0, Map.empty) []"
  by (auto simp: represents_def intro!: exI [of _ "[]"])

text \<open>The head of the list is NULL exactly when no handle is left.\<close>

lemma represents_head:
  assumes "represents l hs"
  shows "fst l = 0 \<longleftrightarrow> hs = []"
    and "hs = h # hs' \<Longrightarrow> \<exists>n. snd l (fst l) = Some n \<and> an_handle n = h"
  using assms by (auto simp: represents_def handles_def map_eq_Cons_conv Cons_eq_map_conv)
    (metis dseg.simps(1) dseg.simps(2) neq_Nil_conv)+

section \<open>The contract\<close>

text \<open>
  What the allocator relies on: a representation of a list of handles, an insertion in front and
  a removal of the first occurrence.
\<close>

locale handle_list =
  fixes rep :: "'l \<Rightarrow> 'h list \<Rightarrow> bool"
    and ins :: "'l \<Rightarrow> 'n \<Rightarrow> 'h \<Rightarrow> 'l option"
    and del :: "'l \<Rightarrow> 'h \<Rightarrow> 'l option"
    and unused :: "'l \<Rightarrow> 'n \<Rightarrow> bool"
  assumes ins_rep: "rep l hs \<Longrightarrow> unused l n \<Longrightarrow> \<exists>l'. ins l n h = Some l' \<and> rep l' (h # hs)"
    and del_rep: "rep l hs \<Longrightarrow> \<exists>l'. del l h = Some l' \<and> rep l' (remove1 h hs)"
begin

text \<open>Allocating and freeing a handle leaves the list as it was.\<close>

lemma ins_del:
  assumes "rep l hs" and "unused l n"
  shows "\<exists>l1 l2. ins l n h = Some l1 \<and> del l1 h = Some l2 \<and> rep l2 hs"
proof -
  obtain l1 where "ins l n h = Some l1" "rep l1 (h # hs)" using ins_rep [OF assms] by blast
  then show ?thesis using del_rep [of l1 "h # hs" h] by auto
qed

text \<open>A freed handle that was on the list once is no longer there.\<close>

lemma del_gone:
  assumes "rep l hs" and "distinct hs"
  shows "\<exists>l' hs'. del l h = Some l' \<and> rep l' hs' \<and> distinct hs' \<and> set hs' = set hs - {h}"
  using del_rep [OF assms(1), of h] assms(2) by (metis set_remove1_eq distinct_remove1)

end

interpretation nodes: handle_list represents list_insert list_remove
  "\<lambda>l n. n \<noteq> 0 \<and> snd l n = None"
  using list_insert_represents list_remove_represents by unfold_locales blast+

end
