(* ===== verification/Gralloc.thy ===== *)
theory Gralloc
  imports GLUtils HostConnection GrallocList
begin

text \<open>
  The gralloc module \<open>common/opengl/system/gralloc/gralloc.cpp\<close> with its buffer handles
  (\<open>OpenglSystemCommon/gralloc_cb.h\<close>): allocating and freeing graphics buffers, registering
  them in a process, locking them for the CPU, and the framebuffer device. The calls to the
  kernel, to \<open>new\<close> and \<open>malloc\<close> and to the host's renderControl protocol are a trace; what they
  answer is a parameter, a function of the trace that ends in the call.
\<close>

section \<open>Constants\<close>

text \<open>
  The constants of \<open>hardware/gralloc.h\<close> and \<open>system/graphics.h\<close>, headers of the Android
  platform outside this repository, and the error numbers of Linux.
\<close>

abbreviation (input) SW_READ_MASK :: int where "SW_READ_MASK \<equiv> 0xf"
abbreviation (input) SW_WRITE_MASK :: int where "SW_WRITE_MASK \<equiv> 0xf0"
abbreviation (input) HW_TEXTURE :: int where "HW_TEXTURE \<equiv> 0x100"
abbreviation (input) HW_RENDER :: int where "HW_RENDER \<equiv> 0x200"
abbreviation (input) HW_2D :: int where "HW_2D \<equiv> 0x400"
abbreviation (input) HW_COMPOSER :: int where "HW_COMPOSER \<equiv> 0x800"
abbreviation (input) HW_FB :: int where "HW_FB \<equiv> 0x1000"
abbreviation (input) HW_VIDEO_ENCODER :: int where "HW_VIDEO_ENCODER \<equiv> 0x10000"
abbreviation (input) HW_CAMERA_WRITE :: int where "HW_CAMERA_WRITE \<equiv> 0x20000"
abbreviation (input) HW_CAMERA_READ :: int where "HW_CAMERA_READ \<equiv> 0x40000"
abbreviation (input) HW_CAMERA_ZSL :: int where "HW_CAMERA_ZSL \<equiv> 0x60000"
abbreviation (input) HW_CAMERA_MASK :: int where "HW_CAMERA_MASK \<equiv> 0x60000"

abbreviation (input) RGBA_8888 :: int where "RGBA_8888 \<equiv> 1"
abbreviation (input) RGBX_8888 :: int where "RGBX_8888 \<equiv> 2"
abbreviation (input) RGB_888 :: int where "RGB_888 \<equiv> 3"
abbreviation (input) RGB_565 :: int where "RGB_565 \<equiv> 4"
abbreviation (input) BGRA_8888 :: int where "BGRA_8888 \<equiv> 5"
abbreviation (input) RGBA_5551 :: int where "RGBA_5551 \<equiv> 6"
abbreviation (input) RGBA_4444 :: int where "RGBA_4444 \<equiv> 7"
abbreviation (input) YCrCb_420_SP :: int where "YCrCb_420_SP \<equiv> 0x11"
abbreviation (input) RAW_SENSOR :: int where "RAW_SENSOR \<equiv> 0x20"
abbreviation (input) BLOB :: int where "BLOB \<equiv> 0x21"
abbreviation (input) IMPLEMENTATION_DEFINED :: int where "IMPLEMENTATION_DEFINED \<equiv> 0x22"
abbreviation (input) YCbCr_420_888 :: int where "YCbCr_420_888 \<equiv> 0x23"
abbreviation (input) YV12 :: int where "YV12 \<equiv> 0x32315659"

abbreviation (input) EIO :: int where "EIO \<equiv> 5"
abbreviation (input) ENOMEM :: int where "ENOMEM \<equiv> 12"
abbreviation (input) EACCES :: int where "EACCES \<equiv> 13"
abbreviation (input) EBUSY :: int where "EBUSY \<equiv> 16"
abbreviation (input) EINVAL :: int where "EINVAL \<equiv> 22"

abbreviation (input) FB_WIDTH :: int where "FB_WIDTH \<equiv> 1"
abbreviation (input) FB_HEIGHT :: int where "FB_HEIGHT \<equiv> 2"
abbreviation (input) FB_FPS :: int where "FB_FPS \<equiv> 5"
abbreviation (input) FB_MIN_SWAP_INTERVAL :: int where "FB_MIN_SWAP_INTERVAL \<equiv> 6"
abbreviation (input) FB_MAX_SWAP_INTERVAL :: int where "FB_MAX_SWAP_INTERVAL \<equiv> 7"
abbreviation (input) FB_DPI :: int where "FB_DPI \<equiv> 8"

text \<open>A test of usage bits.\<close>

definition has :: "int \<Rightarrow> int \<Rightarrow> bool" where
  "has usage flags \<longleftrightarrow> usage AND flags \<noteq> 0"

section \<open>State\<close>

text \<open>
  A buffer handle. \<open>cb_ashmemBase\<close> is the address of the mapping of the process that wrote it,
  read as an unsigned word.
\<close>

record cb_handle =
  cb_version :: int
  cb_numFds :: int
  cb_numInts :: int
  cb_fd :: int
  cb_magic :: u32
  cb_usage :: int
  cb_width :: int
  cb_height :: int
  cb_frameworkFormat :: int
  cb_format :: int
  cb_glFormat :: GLenum
  cb_glType :: GLenum
  cb_ashmemSize :: int
  cb_ashmemBase :: addr
  cb_ashmemBasePid :: int
  cb_mappedPid :: int
  cb_lockedLeft :: int
  cb_lockedTop :: int
  cb_lockedWidth :: int
  cb_lockedHeight :: int
  cb_hostHandle :: u32

definition BUFFER_HANDLE_MAGIC :: u32 where
  "BUFFER_HANDLE_MAGIC = 0xabfabfab"

text \<open>\<open>sizeof(cb_handle_t)\<close>: the three ints of \<open>native_handle\<close> and the eighteen of its own.\<close>

definition CB_HANDLE_NUM_INTS :: "int \<Rightarrow> int" where
  "CB_HANDLE_NUM_INTS nfds = (84 - nfds * 4) div 4"

definition cb_handle_new ::
  "int \<Rightarrow> int \<Rightarrow> int \<Rightarrow> int \<Rightarrow> int \<Rightarrow> int \<Rightarrow> int \<Rightarrow> GLenum \<Rightarrow> GLenum \<Rightarrow> cb_handle" where
  "cb_handle_new fd ashmemSize usage width height frameworkFormat format glFormat glType =
     \<lparr>cb_version = 12, cb_numFds = 0, cb_numInts = CB_HANDLE_NUM_INTS 0, cb_fd = fd,
      cb_magic = BUFFER_HANDLE_MAGIC, cb_usage = usage, cb_width = width, cb_height = height,
      cb_frameworkFormat = frameworkFormat, cb_format = format, cb_glFormat = glFormat,
      cb_glType = glType, cb_ashmemSize = ashmemSize, cb_ashmemBase = 0, cb_ashmemBasePid = 0,
      cb_mappedPid = 0, cb_lockedLeft = 0, cb_lockedTop = 0, cb_lockedWidth = 0,
      cb_lockedHeight = 0, cb_hostHandle = 0\<rparr>"

definition setFd :: "cb_handle \<Rightarrow> int \<Rightarrow> cb_handle" where
  "setFd c fd =
     (let nfds = (if 0 \<le> fd then 1 else 0)
      in c\<lparr>cb_numFds := nfds, cb_fd := fd, cb_numInts := CB_HANDLE_NUM_INTS nfds\<rparr>)"

definition validate :: "cb_handle \<Rightarrow> bool" where
  "validate c \<longleftrightarrow> cb_version c = 12 \<and> cb_magic c = BUFFER_HANDLE_MAGIC
     \<and> cb_numInts c = CB_HANDLE_NUM_INTS (cb_numFds c)"

definition canBePosted :: "cb_handle \<Rightarrow> bool" where
  "canBePosted c \<longleftrightarrow> has (cb_usage c) HW_FB"

text \<open>The calls that leave the module.\<close>

datatype fallback_call =
    F_registerBuffer addr
  | F_unregisterBuffer addr
  | F_lock addr int int int int int
  | F_unlock addr
  | F_open string

datatype rc_call =
    rcCreateColorBuffer int int GLenum
  | rcOpenColorBuffer u32
  | rcCloseColorBuffer u32
  | rcColorBufferCacheFlush u32 int bool
  | rcUpdateColorBuffer u32 int int int int GLenum GLenum "byte list"
  | rcFBPost u32
  | rcFBSetSwapInterval int
  | rcSetOrientation int
  | rcGetFBParam int

datatype gr_call =
    NewObject
  | MallocDevice
  | AshmemCreate int
  | Mmap int int
  | Munmap addr int
  | CloseFd int
  | TryConnect
  | FlushStream
  | LoadFallback
  | SetDpi int
  | Host rc_call
  | Fallback fallback_call

record fb_device =
  fb_orientation :: int
  fb_width :: int
  fb_height :: int
  fb_stride :: int
  fb_format :: int
  fb_dpi :: "int \<times> int"
  fb_fps :: int
  fb_swap :: "int \<times> int"

text \<open>
  The state of a process: handles, nodes of the allocation lists, the devices with their
  \<open>allocListHead\<close>, framebuffer devices, the mapped regions with their sizes, the memory as it
  is when an operation starts (mapped regions are shared with other processes), the calling
  thread and the two statics.
\<close>

record gr_state =
  gs_cbs :: "addr \<rightharpoonup> cb_handle"
  gs_nodes :: node_store
  gs_devs :: "addr \<rightharpoonup> addr"
  gs_fbs :: "addr \<rightharpoonup> fb_device"
  gs_maps :: "(addr \<times> int) list"
  gs_mem :: memory
  gs_thread :: thread_info
  gs_once :: bool
  gs_fallback :: bool
  gs_calls :: "gr_call list"

text \<open>
  The answers. \<open>ge_addr\<close> is the address that \<open>new\<close>, \<open>malloc\<close> or \<open>mmap\<close> returns or a colour buffer's
  handle, \<open>ge_int\<close> any other result.
\<close>

record gr_env =
  ge_pid :: int
  ge_int :: "gr_call list \<Rightarrow> int"
  ge_addr :: "gr_call list \<Rightarrow> u32"
  ge_errno :: "gr_call list \<Rightarrow> int"
  ge_connect :: "gr_call list \<Rightarrow> conn_answer"
  ge_fresh :: allocator
  ge_gles :: int
  ge_module :: bool

definition gcall :: "gr_state \<Rightarrow> gr_call \<Rightarrow> gr_state" where
  "gcall st c = st\<lparr>gs_calls := gs_calls st @ [c]\<rparr>"

text \<open>A range of addresses that lies in one mapped region.\<close>

definition mapped :: "gr_state \<Rightarrow> addr \<Rightarrow> nat \<Rightarrow> bool" where
  "mapped st a n \<longleftrightarrow>
     (\<exists>(b, sz) \<in> set (gs_maps st). unat b \<le> unat a \<and> unat a + n \<le> unat b + nat sz)"

definition put_cb :: "gr_state \<Rightarrow> addr \<Rightarrow> cb_handle \<Rightarrow> gr_state" where
  "put_cb st h c = st\<lparr>gs_cbs := (gs_cbs st)(h \<mapsto> c)\<rparr>"

definition delete_cb :: "gr_state \<Rightarrow> addr \<Rightarrow> gr_state" where
  "delete_cb st h = st\<lparr>gs_cbs := (gs_cbs st)(h := None)\<rparr>"

text \<open>\<open>cb_handle_t::validate\<close> of a pointer: NULL is invalid, a dangling pointer undefined.\<close>

definition valid_cb :: "gr_state \<Rightarrow> addr \<Rightarrow> cb_handle option outcome" where
  "valid_cb st h =
     (if h = 0 then Returned None
      else case gs_cbs st h of
             None \<Rightarrow> Undefined
           | Some c \<Rightarrow> Returned (if validate c then Some c else None))"

text \<open>\<open>HostConnection::get\<close> and its \<open>rcEncoder\<close>.\<close>

definition get_host :: "gr_env \<Rightarrow> gr_state \<Rightarrow> (gr_state \<times> bool) outcome" where
  "get_host E st =
     (let st1 = (if ti_hostConn (gs_thread st) = None then gcall st TryConnect else st) in
      obind (HostConnection_get (ge_fresh E) (ge_connect E (gs_calls st1)) (gs_thread st1))
        (\<lambda>(ti, ok). Returned (st1\<lparr>gs_thread :=
            (if ok then ti\<lparr>ti_hostConn := map_option rcEncoder (ti_hostConn ti)\<rparr> else ti)\<rparr>, ok)))"

text \<open>\<open>DEFINE_AND_VALIDATE_HOST_CONNECTION\<close> in front of \<open>f\<close>.\<close>

definition with_host ::
  "gr_env \<Rightarrow> gr_state \<Rightarrow> (gr_state \<Rightarrow> (gr_state \<times> int) outcome) \<Rightarrow> (gr_state \<times> int) outcome" where
  "with_host E st f = obind (get_host E st) (\<lambda>(st1, ok). if ok then f st1 else Returned (st1, - EIO))"

text \<open>\<open>hostCon->flush()\<close> writes what the thread's stream holds.\<close>

definition flush_host :: "gr_state \<Rightarrow> gr_state outcome" where
  "flush_host st =
     (case ti_hostConn (gs_thread st) of
        None \<Rightarrow> Undefined
      | Some con \<Rightarrow> obind (HostConnection_flush con) (\<lambda>con'.
          Returned (gcall (st\<lparr>gs_thread := (gs_thread st)\<lparr>ti_hostConn := Some con'\<rparr>\<rparr>) FlushStream)))"

definition map_buffer :: "gr_env \<Rightarrow> gr_state \<Rightarrow> addr \<Rightarrow> cb_handle \<Rightarrow> gr_state \<times> int" where
  "map_buffer E st h c =
     (if cb_fd c < 0 \<or> cb_ashmemSize c \<le> 0 then (st, - EINVAL)
      else let st1 = gcall st (Mmap (cb_ashmemSize c) (cb_fd c));
               a = ge_addr E (gs_calls st1)
           in if a = - 1 then (st1, - ge_errno E (gs_calls st1))
              else ((put_cb st1 h (c\<lparr>cb_ashmemBase := a, cb_ashmemBasePid := ge_pid E\<rparr>))
                      \<lparr>gs_maps := (a, cb_ashmemSize c) # gs_maps st1\<rparr>, 0))"

section \<open>Allocating\<close>

text \<open>The concrete format for a requested one; \<open>None\<close> is \<open>-EINVAL\<close>.\<close>

definition pick_format :: "int \<Rightarrow> int \<Rightarrow> int option" where
  "pick_format format usage =
     (if format = IMPLEMENTATION_DEFINED then
        (if \<not> has usage HW_CAMERA_WRITE then None
         else if has usage HW_TEXTURE then Some RGBA_8888
         else if has usage HW_VIDEO_ENCODER then Some YCrCb_420_SP
         else if usage AND HW_CAMERA_MASK = HW_CAMERA_ZSL then Some RGB_888
         else None)
      else if format = YCbCr_420_888 \<and> has usage HW_CAMERA_WRITE then Some YCrCb_420_SP
      else Some format)"

record pixel_layout =
  pl_bpp :: int
  pl_align :: int
  pl_yuv :: bool
  pl_glFormat :: GLenum
  pl_glType :: GLenum

text \<open>The \<open>switch\<close> over the concrete format.\<close>

definition format_layout :: "int \<Rightarrow> int \<Rightarrow> pixel_layout option" where
  "format_layout format usage =
     (let layout = (\<lambda>bpp align yuv f t. Some \<lparr>pl_bpp = bpp, pl_align = align, pl_yuv = yuv,
                      pl_glFormat = f, pl_glType = t\<rparr>);
          sw_read = has usage SW_READ_MASK; sw_write = has usage SW_WRITE_MASK;
          cam_read = has usage HW_CAMERA_READ; cam_write = has usage HW_CAMERA_WRITE
      in if format \<in> {RGBA_8888, RGBX_8888, BGRA_8888} then layout 4 1 False GL_RGBA GL_UNSIGNED_BYTE
         else if format = RGB_888 then layout 3 1 False GL_RGB GL_UNSIGNED_BYTE
         else if format = RGB_565 then layout 2 1 False GL_RGB GL_UNSIGNED_SHORT_5_6_5
         else if format = RGBA_5551 then layout 2 1 False GL_RGB5_A1_OES GL_UNSIGNED_SHORT_5_5_5_1
         else if format = RGBA_4444 then layout 2 1 False GL_RGBA4_OES GL_UNSIGNED_SHORT_4_4_4_4
         else if format = RAW_SENSOR then
           (if \<not> ((sw_read \<or> cam_read) \<and> (sw_write \<or> cam_write)) then None
            else layout 2 32 False GL_LUMINANCE GL_UNSIGNED_SHORT)
         else if format = BLOB then
           (if \<not> (sw_read \<and> cam_write) then None
            else layout 1 1 False GL_LUMINANCE GL_UNSIGNED_BYTE)
         else if format = YCrCb_420_SP then layout 1 1 True 0 0
         else if format = YV12 then layout 1 16 True 0 0
         else None)"

text \<open>\<open>(x + (align-1)) & ~(align-1)\<close> on \<open>size_t\<close>.\<close>

definition round_to :: "int \<Rightarrow> u32 \<Rightarrow> u32" where
  "round_to align x = (x + word_of_int (align - 1)) AND NOT (word_of_int (align - 1))"

text \<open>
  \<open>ashmem_size\<close> before it is rounded to pages, and \<open>stride\<close>. The first product of each branch
  is a product of \<open>int\<close>s, the others are unsigned.
\<close>

definition ashmem_bytes :: "pixel_layout \<Rightarrow> int \<Rightarrow> int \<Rightarrow> int \<Rightarrow> int \<times> int" where
  "ashmem_bytes pl usage w h =
     (let counter = (if has usage HW_FB then 4 else 0 :: u32);
          row = round_to (pl_align pl) (word_of_int (i32 (w * pl_bpp pl)))
      in if has usage SW_READ_MASK \<or> has usage SW_WRITE_MASK \<or> has usage HW_CAMERA_WRITE
            \<or> has usage HW_VIDEO_ENCODER
         then (if pl_yuv pl
               then (let uvStride = round_to (pl_align pl) (row div 2);
                         uvHeight = word_of_int (c_div h 2)
                     in (sint (counter + (row * word_of_int h + 2 * (uvHeight * uvStride))),
                         sint (row div word_of_int (pl_bpp pl))))
               else (sint (counter + row * word_of_int h), sint (row div word_of_int (pl_bpp pl))))
         else (sint counter, w))"

definition PAGE_SIZE :: int where
  "PAGE_SIZE = 4096"

text \<open>
  The region and the handle: the descriptor with the new handle, or an error. A failing exit
  closes the descriptor.
\<close>

definition alloc_region ::
  "gr_env \<Rightarrow> gr_state \<Rightarrow> int \<Rightarrow> int \<Rightarrow> int \<Rightarrow> int \<Rightarrow> int \<Rightarrow> pixel_layout \<Rightarrow> int \<Rightarrow> gr_state \<times> (int + addr \<times> int)" where
  "alloc_region E st w h format f usage pl size0 =
     (let size = (if 0 < size0 then sint (round_to PAGE_SIZE (word_of_int size0)) else size0);
          st1 = (if 0 < size0 then gcall st (AshmemCreate size) else st);
          fd = (if 0 < size0 then ge_int E (gs_calls st1) else - 1)
      in if 0 < size0 \<and> fd < 0 then (st1, Inl (- ge_errno E (gs_calls st1)))
         else (let st2 = gcall st1 NewObject;
                   cb = ge_addr E (gs_calls st2);
                   c = cb_handle_new fd size usage w h format f (pl_glFormat pl) (pl_glType pl);
                   st3 = put_cb st2 cb c
               in if 0 < size
                  then (case map_buffer E st3 cb c of
                          (st4, err) \<Rightarrow>
                            if err \<noteq> 0 then (delete_cb (gcall st4 (CloseFd fd)) cb, Inl err)
                            else (put_cb st4 cb (setFd (the (gs_cbs st4 cb)) fd), Inr (cb, fd)))
                  else (st3, Inr (cb, fd))))"

text \<open>The last steps: a colour buffer on the host where the usage needs one, and the list.\<close>

definition alloc_color ::
  "gr_env \<Rightarrow> gr_state \<Rightarrow> addr \<Rightarrow> int \<Rightarrow> int \<Rightarrow> GLenum \<Rightarrow> int \<Rightarrow> int \<Rightarrow> (gr_state \<times> int) outcome" where
  "alloc_color E st cb w h glFormat usage fd =
     (if has usage (HW_TEXTURE OR HW_RENDER OR HW_2D OR HW_COMPOSER OR HW_FB) then
        obind (get_host E st) (\<lambda>(st1, ok).
          let st2 = (if ok then gcall st1 (Host (rcCreateColorBuffer w h glFormat)) else st1);
              color = (if ok then ge_addr E (gs_calls st2) else 0)
          in case gs_cbs st2 cb of
               None \<Rightarrow> Undefined
             | Some c \<Rightarrow>
                 if color = 0 then Returned (delete_cb (gcall st2 (CloseFd fd)) cb, - EIO)
                 else Returned (put_cb st2 cb (c\<lparr>cb_hostHandle := color\<rparr>), 0))
      else Returned (st, 0))"

definition alloc_insert :: "gr_env \<Rightarrow> gr_state \<Rightarrow> addr \<Rightarrow> addr \<Rightarrow> gr_state outcome" where
  "alloc_insert E st dev cb =
     (let st1 = gcall st NewObject; node = ge_addr E (gs_calls st1) in
      case gs_devs st1 dev of
        None \<Rightarrow> Undefined
      | Some head \<Rightarrow>
          (case list_insert (head, gs_nodes st1) node cb of
             None \<Rightarrow> Undefined
           | Some (head', ns) \<Rightarrow>
               Returned (st1\<lparr>gs_nodes := ns, gs_devs := (gs_devs st1)(dev \<mapsto> head')\<rparr>)))"

text \<open>
  \<open>gralloc_alloc\<close>. \<open>out\<close> says whether \<open>pHandle\<close> and \<open>pStride\<close> are both given. The result is an error
  or the handle and the stride; the failure exits do not unmap the region.
\<close>

definition gralloc_alloc ::
  "gr_env \<Rightarrow> gr_state \<Rightarrow> addr \<Rightarrow> int \<Rightarrow> int \<Rightarrow> int \<Rightarrow> int \<Rightarrow> bool \<Rightarrow> (gr_state \<times> (int + addr \<times> int)) outcome" where
  "gralloc_alloc E st dev w h format usage out =
     (if dev = 0 \<or> \<not> out then Returned (st, Inl (- EINVAL))
      else if has usage HW_RENDER \<and> has usage SW_WRITE_MASK then Returned (st, Inl (- EINVAL))
      else case Option.bind (pick_format format usage)
                  (\<lambda>f. map_option (Pair f) (format_layout f usage)) of
        None \<Rightarrow> Returned (st, Inl (- EINVAL))
      | Some (f, pl) \<Rightarrow>
         (case ashmem_bytes pl usage w h of (size0, stride) \<Rightarrow>
           (case alloc_region E st w h format f usage pl size0 of
              (st1, Inl err) \<Rightarrow> Returned (st1, Inl err)
            | (st1, Inr (cb, fd)) \<Rightarrow>
                obind (alloc_color E st1 cb w h (pl_glFormat pl) usage fd) (\<lambda>(st2, r).
                  if r \<noteq> 0 then Returned (st2, Inl r)
                  else obind (alloc_insert E st2 dev cb) (\<lambda>st3.
                    Returned (st3, Inr (cb, if format = YCbCr_420_888 then 0 else stride)))))))"

section \<open>Freeing\<close>

definition close_color :: "gr_state \<Rightarrow> cb_handle \<Rightarrow> gr_state" where
  "close_color st c =
     (let st1 = gcall st (Host (rcCloseColorBuffer (cb_hostHandle c)))
      in if has (cb_usage c) HW_COMPOSER then gcall st1 (Host (rcCloseColorBuffer (cb_hostHandle c)))
         else st1)"

definition release_region :: "gr_state \<Rightarrow> cb_handle \<Rightarrow> gr_state" where
  "release_region st c =
     (if 0 < cb_fd c then
        (let st1 = (if 0 < cb_ashmemSize c \<and> cb_ashmemBase c \<noteq> 0
                    then (gcall st (Munmap (cb_ashmemBase c) (cb_ashmemSize c)))
                           \<lparr>gs_maps := remove1 (cb_ashmemBase c, cb_ashmemSize c) (gs_maps st)\<rparr>
                    else st)
         in gcall st1 (CloseFd (cb_fd c)))
      else st)"

definition free_node :: "gr_state \<Rightarrow> addr \<Rightarrow> addr \<Rightarrow> gr_state outcome" where
  "free_node st dev h =
     (case gs_devs st dev of
        None \<Rightarrow> Undefined
      | Some head \<Rightarrow>
          (case list_remove (head, gs_nodes st) h of
             None \<Rightarrow> Undefined
           | Some (head', ns) \<Rightarrow>
               Returned (st\<lparr>gs_nodes := ns, gs_devs := (gs_devs st)(dev \<mapsto> head')\<rparr>)))"

definition gralloc_free :: "gr_env \<Rightarrow> gr_state \<Rightarrow> addr \<Rightarrow> addr \<Rightarrow> (gr_state \<times> int) outcome" where
  "gralloc_free E st dev h =
     obind (valid_cb st h) (\<lambda>v. case v of
       None \<Rightarrow> Returned (st, - EINVAL)
     | Some c \<Rightarrow>
         obind (if cb_hostHandle c \<noteq> 0 then with_host E st (\<lambda>s. Returned (close_color s c, 0))
                else Returned (st, 0)) (\<lambda>(st1, r).
           if r \<noteq> 0 then Returned (st1, r)
           else obind (free_node (release_region st1 c) dev h) (\<lambda>st2.
             Returned (delete_cb st2 h, 0))))"

text \<open>The loop of \<open>gralloc_device_close\<close>; \<open>None\<close> when it runs forever.\<close>

partial_function (option) close_loop :: "gr_env \<Rightarrow> gr_state \<Rightarrow> addr \<Rightarrow> gr_state outcome option" where
  "close_loop E st dev =
     (case gs_devs st dev of
        None \<Rightarrow> Some Undefined
      | Some head \<Rightarrow>
          if head = 0 then Some (Returned st)
          else (case gs_nodes st head of
                  None \<Rightarrow> Some Undefined
                | Some n \<Rightarrow>
                    (case gralloc_free E st dev (an_handle n) of
                       Blocked \<Rightarrow> Some Blocked
                     | Undefined \<Rightarrow> Some Undefined
                     | Returned r \<Rightarrow> close_loop E (fst r) dev)))"

definition gralloc_device_close :: "gr_env \<Rightarrow> gr_state \<Rightarrow> addr \<Rightarrow> (gr_state \<times> int) outcome option" where
  "gralloc_device_close E st dev =
     (if dev = 0 then Some (Returned (st, 0))
      else map_option (\<lambda>r. obind r (\<lambda>st1.
             Returned (st1\<lparr>gs_devs := (gs_devs st1)(dev := None)\<rparr>, 0))) (close_loop E st dev))"

section \<open>The framebuffer device\<close>

definition fb_compositionComplete :: "gr_state \<Rightarrow> gr_state \<times> int" where
  "fb_compositionComplete st = (st, 0)"

text \<open>\<open>(*postCountPtr)++\<close>.\<close>

definition bump_counter :: "gr_state \<Rightarrow> addr \<Rightarrow> gr_state ub" where
  "bump_counter st a =
     (if \<not> mapped st a 4 then None
      else let bs = le32 (rd32 (read_mem (gs_mem st) a 4) + 1) in
        Some (st\<lparr>gs_mem := (\<lambda>x. if unat (x - a) < 4 then bs ! unat (x - a) else gs_mem st x)\<rparr>))"

definition fb_post :: "gr_env \<Rightarrow> gr_state \<Rightarrow> addr \<Rightarrow> addr \<Rightarrow> (gr_state \<times> int) outcome" where
  "fb_post E st fbdev buffer =
     (if fbdev = 0 then Returned (st, - EINVAL)
      else obind (valid_cb st buffer) (\<lambda>v. case v of
        None \<Rightarrow> Returned (st, - EINVAL)
      | Some c \<Rightarrow>
          if \<not> canBePosted c then Returned (st, - EINVAL)
          else with_host E st (\<lambda>st1.
            if cb_ashmemBase c = 0 then Returned (st1, - EINVAL)
            else case bump_counter st1 (cb_ashmemBase c) of
                   None \<Rightarrow> Undefined
                 | Some st2 \<Rightarrow>
                     obind (flush_host (gcall st2 (Host (rcFBPost (cb_hostHandle c)))))
                       (\<lambda>st3. Returned (st3, 0)))))"

definition fb_setUpdateRect :: "gr_env \<Rightarrow> gr_state \<Rightarrow> addr \<Rightarrow> (gr_state \<times> int) outcome" where
  "fb_setUpdateRect E st fbdev =
     (if fbdev = 0 then Returned (st, - EINVAL) else with_host E st (\<lambda>st1. Returned (st1, 0)))"

definition fb_setSwapInterval :: "gr_env \<Rightarrow> gr_state \<Rightarrow> addr \<Rightarrow> int \<Rightarrow> (gr_state \<times> int) outcome" where
  "fb_setSwapInterval E st fbdev interval =
     (if fbdev = 0 then Returned (st, - EINVAL)
      else with_host E st (\<lambda>st1.
        obind (flush_host (gcall st1 (Host (rcFBSetSwapInterval interval)))) (\<lambda>st2. Returned (st2, 0))))"

definition fb_close :: "gr_state \<Rightarrow> addr \<Rightarrow> (gr_state \<times> int) outcome" where
  "fb_close st fbdev =
     (if fbdev \<noteq> 0 \<and> gs_fbs st fbdev = None then Undefined
      else Returned (st\<lparr>gs_fbs := (gs_fbs st)(fbdev := None)\<rparr>, 0))"

definition fb_manageOrientation :: "gr_env \<Rightarrow> gr_state \<Rightarrow> addr \<Rightarrow> int \<Rightarrow> (gr_state \<times> int) outcome" where
  "fb_manageOrientation E st fbdev orientation =
     (if fbdev = 0 then Returned (st, - 1)
      else with_host E st (\<lambda>st1.
        case gs_fbs st1 fbdev of
          None \<Rightarrow> Undefined
        | Some fb \<Rightarrow>
            if fb_orientation fb = orientation then Returned (st1, 0)
            else (let st2 = (if orientation = 0 then gcall st1 (Host (rcSetOrientation 0))
                             else if orientation = 1 then gcall st1 (Host (rcSetOrientation 90))
                             else if orientation = 2 then gcall st1 (Host (rcSetOrientation 180))
                             else if orientation = 3 then gcall st1 (Host (rcSetOrientation 270))
                             else st1)
                  in Returned (st2\<lparr>gs_fbs := (gs_fbs st2)(fbdev \<mapsto> fb\<lparr>fb_orientation := orientation\<rparr>)\<rparr>, 0))))"

definition fb_setOrientation :: "gr_env \<Rightarrow> gr_state \<Rightarrow> addr \<Rightarrow> int \<Rightarrow> gr_state outcome" where
  "fb_setOrientation E st fbdev orientation =
     obind (fb_manageOrientation E st fbdev orientation) (\<lambda>(st1, r). Returned st1)"

section \<open>The module: registering buffers\<close>

text \<open>\<open>pthread_once\<close> of \<open>fallback_init\<close>: without GPU emulation the default module is loaded.\<close>

definition fallback_init :: "gr_env \<Rightarrow> gr_state \<Rightarrow> gr_state" where
  "fallback_init E st =
     (if 0 < ge_gles E then st else (gcall st LoadFallback)\<lparr>gs_fallback := ge_module E\<rparr>)"

definition once_fallback :: "gr_env \<Rightarrow> gr_state \<Rightarrow> gr_state" where
  "once_fallback E st = (if gs_once st then st else (fallback_init E st)\<lparr>gs_once := True\<rparr>)"

definition forward :: "gr_env \<Rightarrow> gr_state \<Rightarrow> fallback_call \<Rightarrow> gr_state \<times> int" where
  "forward E st f = (let st1 = gcall st (Fallback f) in (st1, ge_int E (gs_calls st1)))"

text \<open>\<open>return -err\<close> of an \<open>err\<close> that is negative already.\<close>

definition gralloc_register_buffer ::
  "gr_env \<Rightarrow> gr_state \<Rightarrow> addr \<Rightarrow> addr \<Rightarrow> (gr_state \<times> int) outcome" where
  "gralloc_register_buffer E st0 module h =
     (let st = once_fallback E st0 in
      if gs_fallback st then Returned (forward E st (F_registerBuffer h))
      else if module = 0 then Returned (st, - EINVAL)
      else obind (valid_cb st h) (\<lambda>v. case v of
        None \<Rightarrow> Returned (st, - EINVAL)
      | Some c \<Rightarrow>
          obind (if cb_hostHandle c \<noteq> 0
                 then with_host E st (\<lambda>s. Returned (gcall s (Host (rcOpenColorBuffer (cb_hostHandle c))), 0))
                 else Returned (st, 0)) (\<lambda>(st1, r).
            if r \<noteq> 0 then Returned (st1, r)
            else if 0 < cb_ashmemSize c \<and> cb_mappedPid c \<noteq> ge_pid E
            then (case map_buffer E st1 h c of
                    (st2, err) \<Rightarrow>
                      if err \<noteq> 0 then Returned (st2, - err)
                      else (case gs_cbs st2 h of
                              None \<Rightarrow> Undefined
                            | Some c2 \<Rightarrow> Returned (put_cb st2 h (c2\<lparr>cb_mappedPid := ge_pid E\<rparr>), 0)))
            else Returned (st1, 0))))"

definition gralloc_unregister_buffer ::
  "gr_env \<Rightarrow> gr_state \<Rightarrow> addr \<Rightarrow> addr \<Rightarrow> (gr_state \<times> int) outcome" where
  "gralloc_unregister_buffer E st module h =
     (if gs_fallback st then Returned (forward E st (F_unregisterBuffer h))
      else if module = 0 then Returned (st, - EINVAL)
      else obind (valid_cb st h) (\<lambda>v. case v of
        None \<Rightarrow> Returned (st, - EINVAL)
      | Some c \<Rightarrow>
          obind (if cb_hostHandle c \<noteq> 0
                 then with_host E st (\<lambda>s. Returned (gcall s (Host (rcCloseColorBuffer (cb_hostHandle c))), 0))
                 else Returned (st, 0)) (\<lambda>(st1, r).
            if r \<noteq> 0 then Returned (st1, r)
            else if 0 < cb_ashmemSize c \<and> cb_mappedPid c = ge_pid E
            then (let st2 = gcall st1 (Munmap (cb_ashmemBase c) (cb_ashmemSize c))
                  in if ge_int E (gs_calls st2) \<noteq> 0 then Returned (st2, - EINVAL)
                     else Returned ((put_cb st2 h (c\<lparr>cb_ashmemBase := 0, cb_mappedPid := 0\<rparr>))
                            \<lparr>gs_maps := remove1 (cb_ashmemBase c, cb_ashmemSize c) (gs_maps st2)\<rparr>, 0))
            else Returned (st1, 0))))"

section \<open>The module: locking\<close>

definition lock_refused :: "int \<Rightarrow> cb_handle \<Rightarrow> bool" where
  "lock_refused usage c \<longleftrightarrow>
     (has usage HW_TEXTURE \<or> has usage HW_RENDER)
     \<or> (\<not> has usage SW_READ_MASK \<and> \<not> has usage SW_WRITE_MASK \<and> \<not> has usage HW_CAMERA_WRITE
        \<and> \<not> has usage HW_CAMERA_READ \<and> \<not> has usage HW_VIDEO_ENCODER)
     \<or> (has usage SW_READ_MASK \<and> \<not> has (cb_usage c) SW_READ_MASK)
     \<or> (has usage SW_WRITE_MASK \<and> \<not> has (cb_usage c) SW_WRITE_MASK)"

text \<open>Where the pixels of a mapped buffer start: behind the post counter, if it has one.\<close>

definition pixel_base :: "cb_handle \<Rightarrow> addr" where
  "pixel_base c = (if canBePosted c then cb_ashmemBase c + 4 else cb_ashmemBase c)"

definition lock_region :: "cb_handle \<Rightarrow> int \<Rightarrow> int \<Rightarrow> int \<Rightarrow> int \<Rightarrow> cb_handle" where
  "lock_region c l t w h =
     c\<lparr>cb_lockedLeft := l, cb_lockedTop := t, cb_lockedWidth := w, cb_lockedHeight := h\<rparr>"

text \<open>
  \<open>gralloc_lock\<close> of a valid handle: the result with what is stored to \<open>*vaddr\<close>. The post count is
  read from the buffer; the other branch of the mapping test is never taken after the check of
  the usage.
\<close>

definition sync_host ::
  "gr_env \<Rightarrow> gr_state \<Rightarrow> cb_handle \<Rightarrow> int \<Rightarrow> bool \<Rightarrow> (gr_state \<times> int) outcome" where
  "sync_host E st c postCount sw_read =
     (if cb_hostHandle c \<noteq> 0
      then with_host E st (\<lambda>s.
        let s1 = gcall s (Host (rcColorBufferCacheFlush (cb_hostHandle c) postCount sw_read))
        in Returned (s1, if ge_int E (gs_calls s1) < 0 then - EBUSY else 0))
      else Returned (st, 0))"

definition lock_cb ::
  "gr_env \<Rightarrow> gr_state \<Rightarrow> addr \<Rightarrow> cb_handle \<Rightarrow> int \<Rightarrow> int \<Rightarrow> int \<Rightarrow> int \<Rightarrow> int
     \<Rightarrow> (gr_state \<times> int \<times> addr option) outcome" where
  "lock_cb E st h c usage l t w ht =
     (if cb_frameworkFormat c = YCbCr_420_888 \<or> lock_refused usage c then Returned (st, - EINVAL, None)
      else if cb_ashmemBasePid c \<noteq> ge_pid E \<or> cb_ashmemBase c = 0 then Returned (st, - EACCES, None)
      else if canBePosted c \<and> \<not> mapped st (cb_ashmemBase c) 4 then Undefined
      else obind (sync_host E st c
                    (if canBePosted c then sint (rd32 (read_mem (gs_mem st) (cb_ashmemBase c) 4)) else 0)
                    (has usage SW_READ_MASK))
             (\<lambda>(st1, r). if r \<noteq> 0 then Returned (st1, r, None)
               else Returned (if has usage SW_WRITE_MASK \<or> has usage HW_CAMERA_WRITE
                              then put_cb st1 h (lock_region c l t w ht) else st1,
                              0, Some (pixel_base c))))"

definition gralloc_lock ::
  "gr_env \<Rightarrow> gr_state \<Rightarrow> addr \<Rightarrow> addr \<Rightarrow> int \<Rightarrow> int \<Rightarrow> int \<Rightarrow> int \<Rightarrow> int
     \<Rightarrow> (gr_state \<times> int \<times> addr option) outcome" where
  "gralloc_lock E st module h usage l t w ht =
     (if gs_fallback st then
        (let st1 = gcall st (Fallback (F_lock h usage l t w ht))
         in Returned (st1, ge_int E (gs_calls st1), Some (ge_addr E (gs_calls st1))))
      else if module = 0 then Returned (st, - EINVAL, None)
      else obind (valid_cb st h) (\<lambda>v. case v of
        None \<Rightarrow> Returned (st, - EINVAL, None)
      | Some c \<Rightarrow> lock_cb E st h c usage l t w ht))"

text \<open>The loop that copies the locked rows out of the buffer; \<open>None\<close> when it leaves the mapping.\<close>

fun copy_rows :: "gr_state \<Rightarrow> addr \<Rightarrow> int \<Rightarrow> int \<Rightarrow> nat \<Rightarrow> byte list ub" where
  "copy_rows st src src_len dst_len 0 = Some []"
| "copy_rows st src src_len dst_len (Suc n) =
     (if \<not> mapped st src (nat dst_len) then None
      else map_option (\<lambda>bs. read_mem (gs_mem st) src (nat dst_len) @ bs)
             (copy_rows st (src + word_of_int src_len) src_len dst_len n))"

text \<open>
  The pixels that \<open>gralloc_unlock\<close> sends: the locked rectangle, packed, or the whole buffer. The
  length of a whole buffer is the one that the protocol's encoder computes from the arguments.
\<close>

definition unlock_update :: "gr_state \<Rightarrow> cb_handle \<Rightarrow> rc_call ub" where
  "unlock_update st c =
     (if cb_lockedWidth c < cb_width c \<or> cb_lockedHeight c < cb_height c then
        (let bpp = glUtilsPixelBitSize (cb_glFormat c) (cb_glType c) div 8;
             room = i32 (i32 (cb_lockedWidth c * cb_lockedHeight c) * bpp);
             dst_len = i32 (cb_lockedWidth c * bpp);
             src_len = i32 (cb_width c * bpp);
             src = pixel_base c + word_of_int (i32 (cb_lockedTop c * src_len))
                     + word_of_int (i32 (cb_lockedLeft c * bpp))
         in if dst_len < 0 \<or> room < dst_len * cb_lockedHeight c then None
            else map_option (rcUpdateColorBuffer (cb_hostHandle c) (cb_lockedLeft c) (cb_lockedTop c)
                      (cb_lockedWidth c) (cb_lockedHeight c) (cb_glFormat c) (cb_glType c))
                   (copy_rows st src src_len dst_len (nat (cb_lockedHeight c))))
      else (let n = nat (uint (word_of_int (i32 (i32 (glUtilsPixelBitSize (cb_glFormat c) (cb_glType c)
                      * cb_width c) div 8) * cb_height c) :: u32))
            in if \<not> mapped st (pixel_base c) n then None
               else Some (rcUpdateColorBuffer (cb_hostHandle c) 0 0 (cb_width c) (cb_height c)
                      (cb_glFormat c) (cb_glType c) (read_mem (gs_mem st) (pixel_base c) n))))"

definition gralloc_unlock :: "gr_env \<Rightarrow> gr_state \<Rightarrow> addr \<Rightarrow> addr \<Rightarrow> (gr_state \<times> int) outcome" where
  "gralloc_unlock E st module h =
     (if gs_fallback st then Returned (forward E st (F_unlock h))
      else if module = 0 then Returned (st, - EINVAL)
      else obind (valid_cb st h) (\<lambda>v. case v of
        None \<Rightarrow> Returned (st, - EINVAL)
      | Some c \<Rightarrow>
          obind (if 0 < cb_lockedWidth c \<and> 0 < cb_lockedHeight c \<and> cb_hostHandle c \<noteq> 0
                 then with_host E st (\<lambda>s. case unlock_update s c of
                        None \<Rightarrow> Undefined
                      | Some u \<Rightarrow> Returned (gcall s (Host u), 0))
                 else Returned (st, 0)) (\<lambda>(st1, r).
            if r \<noteq> 0 then Returned (st1, r)
            else Returned (put_cb st1 h (c\<lparr>cb_lockedWidth := 0, cb_lockedHeight := 0\<rparr>), 0))))"

record android_ycbcr =
  yc_y :: addr
  yc_cb :: addr
  yc_cr :: addr
  yc_ystride :: u32
  yc_cstride :: u32
  yc_chroma_step :: u32

definition gralloc_lock_ycbcr ::
  "gr_env \<Rightarrow> gr_state \<Rightarrow> addr \<Rightarrow> addr \<Rightarrow> int \<Rightarrow> int \<Rightarrow> int \<Rightarrow> int \<Rightarrow> int \<Rightarrow> bool
     \<Rightarrow> (gr_state \<times> (int + android_ycbcr)) outcome" where
  "gralloc_lock_ycbcr E st module h usage l t w ht out =
     (if gs_fallback st \<or> \<not> out \<or> module = 0 then Returned (st, Inl (- EINVAL))
      else obind (valid_cb st h) (\<lambda>v. case v of
        None \<Rightarrow> Returned (st, Inl (- EINVAL))
      | Some c \<Rightarrow>
          if cb_frameworkFormat c \<noteq> YCbCr_420_888 then Returned (st, Inl (- EINVAL))
          else if (\<not> has usage HW_CAMERA_WRITE \<and> \<not> has usage SW_READ_MASK)
                  \<or> (has usage SW_READ_MASK \<and> \<not> has (cb_usage c) SW_READ_MASK)
          then Returned (st, Inl (- EINVAL))
          else if cb_ashmemBasePid c \<noteq> ge_pid E \<or> cb_ashmemBase c = 0
          then Returned (st, Inl (- EACCES))
          else if cb_format c \<noteq> YCrCb_420_SP then Returned (st, Inl (- EINVAL))
          else (let cpu = pixel_base c; yStride = word_of_int (cb_width c);
                    vOffset = yStride * word_of_int (cb_height c); uOffset = vOffset + 1
                in Returned (put_cb st h (lock_region c l t w ht),
                     Inr \<lparr>yc_y = cpu, yc_cb = cpu + uOffset, yc_cr = cpu + vOffset,
                          yc_ystride = yStride, yc_cstride = yStride, yc_chroma_step = 2\<rparr>))))"

section \<open>The module: opening devices\<close>

definition fb_params :: "int list" where
  "fb_params = [FB_WIDTH, FB_HEIGHT, FB_DPI, FB_DPI, FB_FPS, FB_MIN_SWAP_INTERVAL,
     FB_MAX_SWAP_INTERVAL, FB_DPI]"

text \<open>One query of the host after the other, with the answers.\<close>

fun query_fb :: "gr_env \<Rightarrow> gr_state \<Rightarrow> int list \<Rightarrow> gr_state \<times> int list" where
  "query_fb E st [] = (st, [])"
| "query_fb E st (p # ps) =
     (let st1 = gcall st (Host (rcGetFBParam p)) in
      case query_fb E st1 ps of (st2, rs) \<Rightarrow> (st2, ge_int E (gs_calls st1) # rs))"

definition gralloc_device_open ::
  "gr_env \<Rightarrow> gr_state \<Rightarrow> string \<Rightarrow> (gr_state \<times> (int + addr)) outcome" where
  "gralloc_device_open E st0 name =
     (let st = once_fallback E st0 in
      if gs_fallback st then
        (case forward E st (F_open name) of
           (st1, r) \<Rightarrow> Returned (st1, if r = 0 then Inr (ge_addr E (gs_calls st1)) else Inl r))
      else if name = ''gpu0'' then
        obind (get_host E st) (\<lambda>(st1, ok).
          if \<not> ok then Returned (st1, Inl (- EIO))
          else let st2 = gcall st1 MallocDevice; dev = ge_addr E (gs_calls st2) in
            if dev = 0 then Returned (st2, Inl (- ENOMEM))
            else Returned (st2\<lparr>gs_devs := (gs_devs st2)(dev \<mapsto> 0)\<rparr>, Inr dev))
      else if name = ''fb0'' then
        obind (get_host E st) (\<lambda>(st1, ok).
          if \<not> ok then Returned (st1, Inl (- EIO))
          else case query_fb E st1 fb_params of
            (st2, rs) \<Rightarrow>
              (let st3 = gcall (gcall st2 (SetDpi (rs ! 7))) MallocDevice; dev = ge_addr E (gs_calls st3) in
               if dev = 0 then Returned (st3, Inl (- ENOMEM))
               else Returned (st3\<lparr>gs_fbs := (gs_fbs st3)(dev \<mapsto>
                      \<lparr>fb_orientation = 0, fb_width = rs ! 0, fb_height = rs ! 1, fb_stride = rs ! 0,
                       fb_format = RGBA_8888, fb_dpi = (rs ! 2, rs ! 3), fb_fps = rs ! 4,
                       fb_swap = (rs ! 5, rs ! 6)\<rparr>)\<rparr>, Inr dev)))
      else Returned (st, Inl (- EINVAL)))"

end
