(* ===== verification/GrallocProperties.thy ===== *)
theory GrallocProperties
  imports Gralloc
begin

text \<open>
  What the gralloc module guarantees: buffers large enough for their image, locks that hand
  out mapped memory, updates that carry the locked rectangle to the host, devices that close;
  and the cases in which it does not.
\<close>

section \<open>Frames\<close>

lemma gcall_simps [simp]:
  "gs_cbs (gcall st c) = gs_cbs st" "gs_nodes (gcall st c) = gs_nodes st"
  "gs_devs (gcall st c) = gs_devs st" "gs_fbs (gcall st c) = gs_fbs st"
  "gs_maps (gcall st c) = gs_maps st" "gs_mem (gcall st c) = gs_mem st"
  "gs_thread (gcall st c) = gs_thread st" "gs_fallback (gcall st c) = gs_fallback st"
  "gs_once (gcall st c) = gs_once st" "gs_calls (gcall st c) = gs_calls st @ [c]"
  by (simp_all add: gcall_def)

lemma cb_update_simps [simp]:
  "gs_cbs (put_cb st h c) = (gs_cbs st)(h \<mapsto> c)" "gs_cbs (delete_cb st h) = (gs_cbs st)(h := None)"
  "gs_nodes (put_cb st h c) = gs_nodes st" "gs_nodes (delete_cb st h) = gs_nodes st"
  "gs_devs (put_cb st h c) = gs_devs st" "gs_devs (delete_cb st h) = gs_devs st"
  "gs_maps (put_cb st h c) = gs_maps st" "gs_maps (delete_cb st h) = gs_maps st"
  "gs_mem (put_cb st h c) = gs_mem st" "gs_mem (delete_cb st h) = gs_mem st"
  "gs_thread (put_cb st h c) = gs_thread st" "gs_thread (delete_cb st h) = gs_thread st"
  "gs_fallback (put_cb st h c) = gs_fallback st" "gs_fallback (delete_cb st h) = gs_fallback st"
  "gs_calls (put_cb st h c) = gs_calls st" "gs_calls (delete_cb st h) = gs_calls st"
  by (simp_all add: put_cb_def delete_cb_def)

text \<open>Everything but the handles, the thread's record and the trace; with the handles.\<close>

definition same_tables :: "gr_state \<Rightarrow> gr_state \<Rightarrow> bool" where
  "same_tables st st' \<longleftrightarrow> gs_nodes st' = gs_nodes st \<and> gs_devs st' = gs_devs st
     \<and> gs_maps st' = gs_maps st \<and> gs_mem st' = gs_mem st \<and> gs_fallback st' = gs_fallback st
     \<and> (\<exists>cs. gs_calls st' = gs_calls st @ cs)"

definition same_objects :: "gr_state \<Rightarrow> gr_state \<Rightarrow> bool" where
  "same_objects st st' \<longleftrightarrow> same_tables st st' \<and> gs_cbs st' = gs_cbs st"

lemma same_tables_trans: "same_tables st s \<Longrightarrow> same_tables s t \<Longrightarrow> same_tables st t"
  by (auto simp: same_tables_def)

lemma same_tables_refl [simp]: "same_tables st st"
  and same_tables_gcall [simp]: "same_tables st (gcall st c)"
  and same_tables_cb [simp]: "same_tables st (put_cb st h x)" "same_tables st (delete_cb st h)"
  by (simp_all add: same_tables_def)

lemma same_objects_refl [simp]: "same_objects st st"
  by (simp add: same_objects_def)

lemma same_objects_gcall: "same_objects st st' \<Longrightarrow> same_objects st (gcall st' c)"
  by (auto simp: same_objects_def same_tables_def)

lemma get_host_frame:
  assumes "get_host E st = Returned (st1, ok)"
  shows "same_objects st st1" and "ok \<Longrightarrow> ti_hostConn (gs_thread st1) \<noteq> None"
proof -
  define s where "s = (if ti_hostConn (gs_thread st) = None then gcall st TryConnect else st)"
  obtain ti where get: "HostConnection_get (ge_fresh E) (ge_connect E (gs_calls s)) (gs_thread s) = Returned (ti, ok)"
    and st1: "st1 = s\<lparr>gs_thread :=
      (if ok then ti\<lparr>ti_hostConn := map_option rcEncoder (ti_hostConn ti)\<rparr> else ti)\<rparr>"
    using assms by (auto simp: get_host_def obind_Returned_iff Let_def simp flip: s_def)
  have "same_objects st s" by (simp add: s_def same_objects_gcall)
  then show "same_objects st st1" by (simp add: st1 same_objects_def same_tables_def)
  show "ok \<Longrightarrow> ti_hostConn (gs_thread st1) \<noteq> None" using get_result [OF get] by (simp add: st1)
qed

text \<open>How many calls were made.\<close>

definition calls_within :: "nat \<Rightarrow> gr_state \<Rightarrow> gr_state \<Rightarrow> bool" where
  "calls_within n st st' \<longleftrightarrow> (\<exists>cs. gs_calls st' = gs_calls st @ cs \<and> length cs \<le> n)"

lemma calls_within_trans: "calls_within m st s \<Longrightarrow> calls_within n s t \<Longrightarrow> calls_within (m + n) st t"
  unfolding calls_within_def by (elim exE conjE) (intro exI conjI, auto)

lemma calls_within_refl [simp]: "calls_within n st st"
  and calls_within_gcall [simp]: "calls_within (Suc n) st (gcall st c)"
  by (simp_all add: calls_within_def)

lemma get_host_calls:
  assumes "get_host E st = Returned (st1, ok)"
  shows "calls_within 1 st st1"
  using assms
  by (auto simp: get_host_def calls_within_def obind_Returned_iff Let_def split: if_splits prod.splits)

text \<open>With a connection at hand nothing changes but that the control encoder exists.\<close>

definition connected :: "gr_state \<Rightarrow> bool" where
  "connected st \<longleftrightarrow> ti_hostConn (gs_thread st) \<noteq> None"

definition with_rc :: "gr_state \<Rightarrow> gr_state" where
  "with_rc st = st\<lparr>gs_thread := (gs_thread st)\<lparr>ti_hostConn :=
     map_option rcEncoder (ti_hostConn (gs_thread st))\<rparr>\<rparr>"

lemma with_rc_simps [simp]:
  "gs_cbs (with_rc st) = gs_cbs st" "gs_nodes (with_rc st) = gs_nodes st"
  "gs_devs (with_rc st) = gs_devs st" "gs_maps (with_rc st) = gs_maps st"
  "gs_mem (with_rc st) = gs_mem st" "gs_calls (with_rc st) = gs_calls st"
  "gs_fallback (with_rc st) = gs_fallback st" "connected (with_rc st) = connected st"
  by (simp_all add: with_rc_def connected_def)

lemma get_host_connected: "connected st \<Longrightarrow> get_host E st = Returned (with_rc st, True)"
  by (auto simp: connected_def get_host_def with_rc_def)

lemma with_host_connected: "connected st \<Longrightarrow> with_host E st f = f (with_rc st)"
  by (simp add: with_host_def get_host_connected)

lemma mapped_cong: "gs_maps st' = gs_maps st \<Longrightarrow> mapped st' a n = mapped st a n"
  by (simp add: mapped_def)

lemma mapped_mem: "(b, sz) \<in> set (gs_maps st) \<Longrightarrow> mapped st b (nat sz)"
  by (force simp: mapped_def)

section \<open>Rounding\<close>

lemma and_not_mask_word: "(x :: u32) AND NOT (mask n) = word_of_int (uint x div 2 ^ n * 2 ^ n)"
proof -
  have "word_of_int (uint x div 2 ^ n * 2 ^ n) = (word_of_int (push_bit n (drop_bit n (uint x))) :: u32)"
    by (simp add: push_bit_eq_mult drop_bit_eq_div)
  moreover have "x AND NOT (mask n) = word_of_int (push_bit n (drop_bit n (uint x)))"
    by (rule bit_word_eqI) (auto simp: bit_simps bit_uint_iff)
  ultimately show ?thesis by simp
qed

lemma uint_and_not_mask: "uint ((x :: u32) AND NOT (mask n)) = uint x div 2 ^ n * 2 ^ n"
proof -
  have "uint x div 2 ^ n * 2 ^ n \<le> uint x" by (simp add: mult.commute flip: minus_mod_eq_mult_div)
  moreover have "0 \<le> uint x div 2 ^ n * 2 ^ n" by (simp add: pos_imp_zdiv_nonneg_iff)
  ultimately show ?thesis using uint_lt2p [of x] unfolding and_not_mask_word
    by (intro uint_word_of_int32) auto
qed

text \<open>The least multiple of \<open>a\<close> from \<open>x\<close> on.\<close>

definition up_to :: "int \<Rightarrow> int \<Rightarrow> int" where
  "up_to a x = (x + a - 1) div a * a"

lemma up_to_bounds:
  assumes "0 < a"
  shows "x \<le> up_to a x" and "up_to a x < x + a" and "a dvd up_to a x"
proof -
  have "(x + a - 1) div a * a = x + a - 1 - (x + a - 1) mod a" by (simp add: minus_mod_eq_div_mult)
  moreover have "0 \<le> (x + a - 1) mod a" "(x + a - 1) mod a < a" using assms by simp_all
  ultimately show "x \<le> up_to a x" and "up_to a x < x + a" by (simp_all add: up_to_def)
qed (simp add: up_to_def)

lemma uint_round_to:
  assumes "0 \<le> x" and "x + 2 ^ n - 1 < 4294967296"
  shows "uint (round_to (2 ^ n) (word_of_int x)) = up_to (2 ^ n) x"
proof -
  have m: "(word_of_int (2 ^ n - 1) :: u32) = mask n" by (simp add: mask_eq_exp_minus_1)
  have "(word_of_int x + mask n :: u32) = word_of_int (x + 2 ^ n - 1)"
    unfolding m [symmetric] by (simp add: algebra_simps)
  moreover have "(1::int) \<le> 2 ^ n" by simp
  then have "uint (word_of_int (x + 2 ^ n - 1) :: u32) = x + 2 ^ n - 1"
    using assms by (intro uint_word_of_int32) linarith+
  ultimately show ?thesis unfolding round_to_def m uint_and_not_mask up_to_def by (simp only:)
qed

section \<open>The size of a buffer\<close>

text \<open>The bytes of an image: padded rows, and for YUV two planes of half the size.\<close>

definition row_bytes :: "pixel_layout \<Rightarrow> int \<Rightarrow> int" where
  "row_bytes pl w = up_to (pl_align pl) (w * pl_bpp pl)"

definition image_bytes :: "pixel_layout \<Rightarrow> int \<Rightarrow> int \<Rightarrow> int" where
  "image_bytes pl w h =
     row_bytes pl w * h
       + (if pl_yuv pl then 2 * (h div 2 * up_to (pl_align pl) (row_bytes pl w div 2)) else 0)"

definition cpu_access :: "int \<Rightarrow> bool" where
  "cpu_access usage \<longleftrightarrow> has usage SW_READ_MASK \<or> has usage SW_WRITE_MASK
     \<or> has usage HW_CAMERA_WRITE \<or> has usage HW_VIDEO_ENCODER"

lemma ifE_Some:
  assumes "(if b then x else y) = Some z"
  obtains "b" "x = Some z" | "\<not> b" "y = Some z"
  using assms by (cases b) simp_all

definition layout_table :: "(int \<times> int \<times> bool \<times> GLenum \<times> GLenum) list" where
  "layout_table =
     [(4, 1, False, GL_RGBA, GL_UNSIGNED_BYTE), (3, 1, False, GL_RGB, GL_UNSIGNED_BYTE),
      (2, 1, False, GL_RGB, GL_UNSIGNED_SHORT_5_6_5), (2, 1, False, GL_RGB5_A1_OES, GL_UNSIGNED_SHORT_5_5_5_1),
      (2, 1, False, GL_RGBA4_OES, GL_UNSIGNED_SHORT_4_4_4_4), (2, 32, False, GL_LUMINANCE, GL_UNSIGNED_SHORT),
      (1, 1, False, GL_LUMINANCE, GL_UNSIGNED_BYTE), (1, 1, True, 0, 0), (1, 16, True, 0, 0)]"

lemma format_layout_range:
  assumes "format_layout f usage = Some pl"
  shows "(pl_bpp pl, pl_align pl, pl_yuv pl, pl_glFormat pl, pl_glType pl) \<in> set layout_table"
  using assms unfolding format_layout_def Let_def
  by (elim ifE_Some) (simp_all only: option.inject option.distinct,
    (hypsubst, simp only: pixel_layout.simps layout_table_def list.set insert_iff simp_thms)+)

lemma layout_cases:
  assumes "format_layout f usage = Some pl"
  shows "pl_align pl = 2 ^ 0 \<or> pl_align pl = 2 ^ 4 \<or> pl_align pl = 2 ^ 5"
    and "1 \<le> pl_bpp pl" "pl_bpp pl \<le> 4" and "pl_bpp pl dvd pl_align pl \<or> pl_align pl = 1"
    and "pl_yuv pl \<Longrightarrow> pl_bpp pl = 1"
proof -
  have "list_all (\<lambda>(bpp, align, yuv, f, t). (align = 2 ^ 0 \<or> align = 2 ^ 4 \<or> align = 2 ^ 5)
      \<and> 1 \<le> bpp \<and> bpp \<le> 4 \<and> (bpp dvd align \<or> align = 1) \<and> (yuv \<longrightarrow> bpp = 1)) layout_table"
    by (simp add: layout_table_def)
  then show "pl_align pl = 2 ^ 0 \<or> pl_align pl = 2 ^ 4 \<or> pl_align pl = 2 ^ 5"
    and "1 \<le> pl_bpp pl" "pl_bpp pl \<le> 4" and "pl_bpp pl dvd pl_align pl \<or> pl_align pl = 1"
    and "pl_yuv pl \<Longrightarrow> pl_bpp pl = 1"
    using format_layout_range [OF assms] by (auto simp only: list_all_iff split: prod.splits)
qed

text \<open>Without overflow the computed size is the one that the image needs.\<close>

lemma ashmem_bytes_exact:
  assumes "format_layout f usage = Some pl" and "cpu_access usage" and "0 \<le> w" and "0 \<le> h"
    and "w * pl_bpp pl < 2147483648" and "4 + image_bytes pl w h < 2147483648"
    and "row_bytes pl w < 2147483648"
  shows "ashmem_bytes pl usage w h =
    ((if has usage HW_FB then 4 else 0) + image_bytes pl w h, row_bytes pl w div pl_bpp pl)"
proof -
  obtain n where n: "pl_align pl = 2 ^ n" "n < 6"
    using layout_cases(1) [OF assms(1)] that [of 0] that [of 4] that [of 5] by auto
  have bpp: "1 \<le> pl_bpp pl" "pl_bpp pl \<le> 4" using layout_cases(2,3) [OF assms(1)] by simp_all
  have al: "(1::int) \<le> 2 ^ n" "(2::int) ^ n \<le> 32"
    using n(2) power_increasing [of n 5 "2::int"] by simp_all
  have wb: "0 \<le> w * pl_bpp pl" using assms(3) bpp by simp
  define R where "R = row_bytes pl w"
  define U where "U = up_to (2 ^ n) (R div 2)"
  have R: "0 \<le> R" "R < 2147483648"
    using up_to_bounds(1) [of "2 ^ n" "w * pl_bpp pl"] wb al(1) assms(7) n(1)
    by (auto simp: R_def row_bytes_def)
  have U: "0 \<le> U" using up_to_bounds(1) [of "2 ^ n" "R div 2"] R(1) al(1) by (simp add: U_def)
  have word: "round_to (2 ^ n) (word_of_int x) = word_of_int (up_to (2 ^ n) x)"
    if "0 \<le> x" "x < 2147483648" for x
  proof -
    have "uint (round_to (2 ^ n) (word_of_int x)) = up_to (2 ^ n) x"
      using that al by (intro uint_round_to) linarith+
    then show ?thesis by (metis word_of_int_uint)
  qed
  have row: "round_to (pl_align pl) (word_of_int (i32 (w * pl_bpp pl))) = word_of_int R"
    using word [OF wb assms(5)] wb assms(5) by (simp add: n(1) R_def row_bytes_def int_range_def)
  have uR: "uint (word_of_int R :: u32) = R" using R by (simp add: uint_word_of_int32)
  have "uint ((word_of_int R :: u32) div 2) = R div 2" by (simp add: uint_div uR)
  then have "(word_of_int R :: u32) div 2 = word_of_int (R div 2)" by (metis word_of_int_uint)
  then have uv: "round_to (pl_align pl) ((word_of_int R :: u32) div 2) = word_of_int U"
    using word [of "R div 2"] R by (simp add: n(1) U_def)
  have st: "sint ((word_of_int R :: u32) div word_of_int (pl_bpp pl)) = R div pl_bpp pl"
  proof -
    have "uint ((word_of_int R :: u32) div word_of_int (pl_bpp pl)) = R div pl_bpp pl"
      using bpp by (simp add: uint_div uR uint_word_of_int32)
    moreover have "R div pl_bpp pl \<le> R" using R(1) bpp zdiv_mono2 [of R 1 "pl_bpp pl"] by simp
    ultimately show ?thesis
      using R(2) by (subst sint_small32) (simp_all add: word_less_def)
  qed
  have h2: "c_div h 2 = h div 2" using assms(4) by (simp add: c_div_nonneg)
  have img: "image_bytes pl w h = R * h + (if pl_yuv pl then 2 * (h div 2 * U) else 0)"
    by (simp add: image_bytes_def R_def U_def n(1))
  have nn: "0 \<le> R * h" "0 \<le> h div 2 * U" using R(1) U assms(4) by simp_all
  have cnt: "(if has usage HW_FB then 4 else 0 :: u32) = word_of_int (if has usage HW_FB then 4 else 0)"
    by simp
  have acc: "has usage SW_READ_MASK \<or> has usage SW_WRITE_MASK \<or> has usage HW_CAMERA_WRITE
      \<or> has usage HW_VIDEO_ENCODER"
    using assms(2) by (simp add: cpu_access_def)
  have size: "(if has usage HW_FB then 4 else 0) + (word_of_int R * word_of_int h
      + (if pl_yuv pl then 2 * (word_of_int (h div 2) * word_of_int U) else 0))
    = (word_of_int ((if has usage HW_FB then 4 else 0) + image_bytes pl w h) :: u32)"
    by (simp add: img)
  have rng: "int_range ((if has usage HW_FB then 4 else 0) + image_bytes pl w h)"
    using assms(6) nn by (simp add: img int_range_def)
  show ?thesis
    unfolding ashmem_bytes_def Let_def row uv st h2 if_P [OF acc]
    using arg_cong [OF size, of sint] sint_word_of_int32 [OF rng] by (simp add: R_def split: if_split_asm)
qed

section \<open>What the environment promises\<close>

text \<open>
  A failing call sets \<open>errno\<close>. For the calls of the next operation from \<open>st\<close> on (none makes
  more than eight): \<open>new\<close> returns a free address, \<open>mmap\<close> fails or maps a range of the address
  space at an address that starts no other mapping.
\<close>

definition kernel_ok :: "gr_env \<Rightarrow> gr_state \<Rightarrow> bool" where
  "kernel_ok E st \<longleftrightarrow> (\<forall>cs. 0 < ge_errno E cs)
     \<and> (\<forall>cs. length cs < 8 \<longrightarrow> (let a = ge_addr E (gs_calls st @ cs @ [NewObject])
           in a \<noteq> 0 \<and> gs_cbs st a = None \<and> gs_nodes st a = None))
     \<and> (\<forall>cs sz fd. length cs < 8 \<longrightarrow> (let a = ge_addr E (gs_calls st @ cs @ [Mmap sz fd])
           in a = - 1 \<or> a \<noteq> 0 \<and> unat a + nat sz \<le> 4294967296 \<and> a \<notin> fst ` set (gs_maps st)))"

lemma kernel_okD:
  assumes "kernel_ok E st" and "length cs < 8"
  shows "0 < ge_errno E ds"
    and "ge_addr E (gs_calls st @ cs @ [NewObject]) \<noteq> 0"
    and "gs_cbs st (ge_addr E (gs_calls st @ cs @ [NewObject])) = None"
    and "gs_nodes st (ge_addr E (gs_calls st @ cs @ [NewObject])) = None"
    and "ge_addr E (gs_calls st @ cs @ [Mmap sz fd]) = - 1
      \<or> ge_addr E (gs_calls st @ cs @ [Mmap sz fd]) \<noteq> 0
        \<and> unat (ge_addr E (gs_calls st @ cs @ [Mmap sz fd])) + nat sz \<le> 4294967296
        \<and> ge_addr E (gs_calls st @ cs @ [Mmap sz fd]) \<notin> fst ` set (gs_maps st)"
  using assms by (auto simp: kernel_ok_def Let_def)

section \<open>The shape of an allocation\<close>

lemma map_buffer_cases:
  assumes "map_buffer E st h c = (st', err)" and "\<And>cs. 0 < ge_errno E cs"
  obtains "err < 0" "same_objects st st'"
  | a where "err = 0" "a \<noteq> - 1" "0 < cb_ashmemSize c" "a = ge_addr E (gs_calls st @ [Mmap (cb_ashmemSize c) (cb_fd c)])"
      "gs_cbs st' = (gs_cbs st)(h \<mapsto> c\<lparr>cb_ashmemBase := a, cb_ashmemBasePid := ge_pid E\<rparr>)"
      "gs_maps st' = (a, cb_ashmemSize c) # gs_maps st" "gs_nodes st' = gs_nodes st"
      "gs_devs st' = gs_devs st" "gs_fallback st' = gs_fallback st" "gs_mem st' = gs_mem st"
      "gs_calls st' = gs_calls st @ [Mmap (cb_ashmemSize c) (cb_fd c)]"
proof (cases "cb_fd c < 0 \<or> cb_ashmemSize c \<le> 0 \<or> ge_addr E (gs_calls st @ [Mmap (cb_ashmemSize c) (cb_fd c)]) = - 1")
  case True
  then have "err < 0" and "same_objects st st'"
    using assms(1) assms(2) [of "gs_calls st @ [Mmap (cb_ashmemSize c) (cb_fd c)]"]
    by (auto simp: map_buffer_def same_objects_def Let_def split: if_splits)
  then show ?thesis by (rule that(1))
next
  case False
  then show ?thesis using assms(1) by (intro that(2)) (auto simp: map_buffer_def Let_def)
qed

text \<open>
  The handle that \<open>alloc_region\<close> makes: mapped exactly when its region is not empty.
\<close>

definition new_handle ::
  "gr_env \<Rightarrow> int \<Rightarrow> int \<Rightarrow> int \<Rightarrow> int \<Rightarrow> int \<Rightarrow> pixel_layout \<Rightarrow> int \<Rightarrow> (addr \<times> int) list \<Rightarrow> cb_handle \<Rightarrow> bool" where
  "new_handle E w h format f usage pl size0 maps c \<longleftrightarrow>
     validate c \<and> cb_usage c = usage \<and> cb_width c = w \<and> cb_height c = h \<and> cb_frameworkFormat c = format
     \<and> cb_format c = f \<and> cb_glFormat c = pl_glFormat pl \<and> cb_glType c = pl_glType pl
     \<and> cb_mappedPid c = 0 \<and> cb_lockedWidth c = 0 \<and> cb_lockedHeight c = 0
     \<and> cb_ashmemSize c = (if 0 < size0 then sint (round_to PAGE_SIZE (word_of_int size0)) else size0)
     \<and> (if 0 < cb_ashmemSize c
        then cb_ashmemBasePid c = ge_pid E \<and> (cb_ashmemBase c, cb_ashmemSize c) \<in> set maps
        else cb_ashmemBase c = 0)"

lemma new_handleD:
  assumes "new_handle E w h format f usage pl size0 maps c"
  shows "validate c" and "cb_usage c = usage" and "cb_width c = w" and "cb_height c = h"
    and "cb_mappedPid c = 0" and "0 < size0 \<Longrightarrow> cb_ashmemSize c = sint (round_to PAGE_SIZE (word_of_int size0))"
    and "0 < cb_ashmemSize c \<Longrightarrow> cb_ashmemBasePid c = ge_pid E \<and> (cb_ashmemBase c, cb_ashmemSize c) \<in> set maps"
    and "cb_ashmemSize c \<le> 0 \<Longrightarrow> cb_ashmemBase c = 0"
  using assms unfolding new_handle_def by (elim conjE; cases "0 < cb_ashmemSize c"; simp)+

lemma alloc_region_cases:
  assumes "alloc_region E st w h format f usage pl size0 = (st', r)" and "kernel_ok E st"
  obtains err where "r = Inl err" "gs_cbs st' = gs_cbs st" "same_tables st st'" "err < 0"
  | cb fd c ms where "r = Inr (cb, fd)" "gs_cbs st' = (gs_cbs st)(cb \<mapsto> c)" "cb \<noteq> 0" "gs_cbs st cb = None"
      "gs_maps st' = ms @ gs_maps st" "new_handle E w h format f usage pl size0 (gs_maps st') c"
      "ms = (if 0 < cb_ashmemSize c then [(cb_ashmemBase c, cb_ashmemSize c)] else [])"
      "0 < cb_ashmemSize c \<Longrightarrow> cb_ashmemBase c \<noteq> 0 \<and> cb_ashmemBase c \<notin> fst ` set (gs_maps st)
         \<and> unat (cb_ashmemBase c) + nat (cb_ashmemSize c) \<le> 4294967296"
      "gs_nodes st' = gs_nodes st" "gs_devs st' = gs_devs st" "gs_fallback st' = gs_fallback st"
      "gs_mem st' = gs_mem st" "\<exists>cs. gs_calls st' = gs_calls st @ cs \<and> length cs \<le> 3"
proof -
  define size where "size = (if 0 < size0 then sint (round_to PAGE_SIZE (word_of_int size0)) else size0)"
  define cs where "cs = (if 0 < size0 then [AshmemCreate size] else [])"
  define st1 where "st1 = (if 0 < size0 then gcall st (AshmemCreate size) else st)"
  define fd where "fd = (if 0 < size0 then ge_int E (gs_calls st1) else - 1)"
  define cb where "cb = ge_addr E (gs_calls st @ cs @ [NewObject])"
  define c0 where "c0 = cb_handle_new fd size usage w h format f (pl_glFormat pl) (pl_glType pl)"
  define st3 where "st3 = put_cb (gcall st1 NewObject) cb c0"
  have st1: "gs_calls st1 = gs_calls st @ cs" "gs_cbs st1 = gs_cbs st" "gs_maps st1 = gs_maps st"
    "gs_nodes st1 = gs_nodes st" "gs_devs st1 = gs_devs st" "gs_fallback st1 = gs_fallback st"
    "gs_mem st1 = gs_mem st" "length cs \<le> 1" by (simp_all add: st1_def cs_def)
  have cb: "cb \<noteq> 0" "gs_cbs st cb = None"
    using kernel_okD(2,3) [OF assms(2), of cs] st1(8) by (simp_all add: cb_def)
  have new: "ge_addr E (gs_calls (gcall st1 NewObject)) = cb" by (simp add: cb_def st1(1))
  have val: "validate c0" by (simp add: c0_def cb_handle_new_def validate_def)
  have r: "(st', r) = (if 0 < size0 \<and> fd < 0 then (st1, Inl (- ge_errno E (gs_calls st1)))
     else if 0 < size
          then (case map_buffer E st3 cb c0 of
                  (st4, err) \<Rightarrow> if err \<noteq> 0 then (delete_cb (gcall st4 (CloseFd fd)) cb, Inl err)
                    else (put_cb st4 cb (setFd (the (gs_cbs st4 cb)) fd), Inr (cb, fd)))
          else (st3, Inr (cb, fd)))"
    unfolding assms(1) [symmetric] alloc_region_def Let_def size_def [symmetric] st1_def [symmetric]
      fd_def [symmetric] new st3_def [symmetric] c0_def [symmetric] ..
  have st3: "gs_calls st3 = gs_calls st @ cs @ [NewObject]" "gs_cbs st3 = (gs_cbs st)(cb \<mapsto> c0)"
    "same_tables st st3"
    using st1 by (simp_all add: st3_def same_tables_def)
  have errno: "\<And>ds. 0 < ge_errno E ds" using assms(2) by (simp add: kernel_ok_def)
  consider "0 < size0" "fd < 0" | "\<not> (0 < size0 \<and> fd < 0)" "size \<le> 0" | "\<not> (0 < size0 \<and> fd < 0)" "0 < size"
    by linarith
  then show thesis
  proof cases
    case 1
    then have "st' = st1" "r = Inl (- ge_errno E (gs_calls st1))" using r by simp_all
    then show thesis using errno [of "gs_calls st1"] st1 by (intro that(1)) (auto simp: same_tables_def)
  next
    case 2
    then have res: "st' = st3" "r = Inr (cb, fd)" using r unfolding if_not_P [OF 2(1)] by auto
    have "new_handle E w h format f usage pl size0 (gs_maps st') c0"
      using 2 val by (simp add: new_handle_def c0_def cb_handle_new_def size_def [symmetric])
    then show thesis
      using 2 res st3 cb st1(8)
      by (intro that(2) [of cb fd c0 "[]"]) (auto simp: same_tables_def c0_def cb_handle_new_def)
  next
    case 3
    obtain st4 err where mb: "map_buffer E st3 cb c0 = (st4, err)" by fastforce
    have r3: "(st', r) = (if err \<noteq> 0 then (delete_cb (gcall st4 (CloseFd fd)) cb, Inl err)
                    else (put_cb st4 cb (setFd (the (gs_cbs st4 cb)) fd), Inr (cb, fd)))"
      using r 3 mb by auto
    from mb errno show thesis
    proof (cases rule: map_buffer_cases)
      case 1
      then have "same_tables st (gcall st4 (CloseFd fd))"
        using st3(3) by (auto simp: same_objects_def same_tables_def)
      then show thesis
        using r3 1 st3(2) cb(2)
        by (intro that(1) [of err]) (auto simp: same_objects_def same_tables_def)
    next
      case (2 a)
      define c where "c = setFd (c0\<lparr>cb_ashmemBase := a, cb_ashmemBasePid := ge_pid E\<rparr>) fd"
      have a: "a = ge_addr E (gs_calls st @ (cs @ [NewObject]) @ [Mmap (cb_ashmemSize c0) (cb_fd c0)])"
        using 2 st3(1) by simp
      have a': "a \<noteq> 0 \<and> unat a + nat (cb_ashmemSize c0) \<le> 4294967296 \<and> a \<notin> fst ` set (gs_maps st)"
        using kernel_okD(5) [OF assms(2), of "cs @ [NewObject]" "cb_ashmemSize c0" "cb_fd c0"] st1(8) 2(2)
        unfolding a [symmetric] by simp
      have c: "cb_ashmemSize c = size" "cb_ashmemSize c0 = size" "cb_ashmemBase c = a"
        by (simp_all add: c_def c0_def cb_handle_new_def setFd_def Let_def)
      have "new_handle E w h format f usage pl size0 ((a, size) # gs_maps st) c"
        using val 3
        by (simp add: new_handle_def c_def c0_def cb_handle_new_def setFd_def validate_def Let_def
            size_def [symmetric])
      moreover have "st' = put_cb st4 cb c" and "r = Inr (cb, fd)"
        using r3 2(1,5) st3(2) by (simp_all add: c_def)
      ultimately show thesis
        using 2(5-11) 3 a' c cb st3 st1(8)
        by (intro that(2) [of cb fd c "[(a, size)]"]) (simp_all add: same_tables_def)
    qed
  qed
qed

lemma alloc_color_cases:
  assumes "alloc_color E st cb w h f usage fd = Returned (st', r)" and "gs_cbs st cb = Some c"
  obtains hh where "r = 0" "gs_cbs st' = (gs_cbs st)(cb \<mapsto> c\<lparr>cb_hostHandle := hh\<rparr>)" "same_tables st st'"
      "calls_within 3 st st'"
  | "r = - EIO" "gs_cbs st' = (gs_cbs st)(cb := None)" "same_tables st st'"
proof (cases "has usage (HW_TEXTURE OR HW_RENDER OR HW_2D OR HW_COMPOSER OR HW_FB)")
  case False
  then have "st' = st" "r = 0" using assms(1) by (simp_all add: alloc_color_def)
  then show thesis using assms(2) that(1) [of "cb_hostHandle c"] by (simp add: fun_upd_idem)
next
  case True
  obtain st1 ok where gh: "get_host E st = Returned (st1, ok)"
    using assms(1) True by (auto simp: alloc_color_def obind_Returned_iff)
  define st2 where "st2 = (if ok then gcall st1 (Host (rcCreateColorBuffer w h f)) else st1)"
  define color where "color = (if ok then ge_addr E (gs_calls st2) else 0)"
  have st2: "same_tables st st2" "gs_cbs st2 = gs_cbs st" "calls_within 2 st st2"
    using get_host_frame(1) [OF gh] calls_within_trans [OF get_host_calls [OF gh], of 1 st2]
    by (auto simp: st2_def same_objects_def same_tables_def numeral_2_eq_2)
  have "Returned (st', r) = (if color = 0 then Returned (delete_cb (gcall st2 (CloseFd fd)) cb, - EIO)
      else Returned (put_cb st2 cb (c\<lparr>cb_hostHandle := color\<rparr>), 0))"
    unfolding assms(1) [symmetric] alloc_color_def if_P [OF True] gh obind.simps prod.case Let_def
      st2_def [symmetric] color_def [symmetric] by (simp add: st2(2) assms(2))
  then show thesis
    using st2 that by (cases "color = 0") (auto simp: same_tables_def calls_within_def)
qed

lemma alloc_insert_cases:
  assumes "alloc_insert E st dev cb = Returned st'"
  obtains head l node where "gs_devs st dev = Some head" "node = ge_addr E (gs_calls st @ [NewObject])"
      "list_insert (head, gs_nodes st) node cb = Some l"
      "gs_devs st' = (gs_devs st)(dev \<mapsto> fst l)" "gs_nodes st' = snd l"
      "gs_cbs st' = gs_cbs st" "gs_maps st' = gs_maps st" "gs_fallback st' = gs_fallback st"
      "gs_mem st' = gs_mem st" "gs_thread st' = gs_thread st"
  using assms by (auto simp: alloc_insert_def Let_def split: option.splits)

text \<open>A successful \<open>gralloc_alloc\<close>, with everything it changes.\<close>

lemma gralloc_alloc_Inr:
  assumes "gralloc_alloc E st dev w h format usage out = Returned (st', Inr (b, stride))" and "kernel_ok E st"
  obtains f pl size0 c head node l where "pick_format format usage = Some f" "format_layout f usage = Some pl"
      "size0 = fst (ashmem_bytes pl usage w h)"
      "stride = (if format = YCbCr_420_888 then 0 else snd (ashmem_bytes pl usage w h))"
      "gs_cbs st' = (gs_cbs st)(b \<mapsto> c)" "b \<noteq> 0" "gs_cbs st b = None"
      "new_handle E w h format f usage pl size0 (gs_maps st') c"
      "gs_maps st' = (if 0 < cb_ashmemSize c then [(cb_ashmemBase c, cb_ashmemSize c)] else []) @ gs_maps st"
      "0 < cb_ashmemSize c \<Longrightarrow> cb_ashmemBase c \<noteq> 0 \<and> cb_ashmemBase c \<notin> fst ` set (gs_maps st)
         \<and> unat (cb_ashmemBase c) + nat (cb_ashmemSize c) \<le> 4294967296"
      "gs_devs st dev = Some head" "list_insert (head, gs_nodes st) node b = Some l"
      "node \<noteq> 0" "gs_nodes st node = None"
      "gs_devs st' = (gs_devs st)(dev \<mapsto> fst l)" "gs_nodes st' = snd l"
      "gs_fallback st' = gs_fallback st"
proof -
  obtain f pl where f: "pick_format format usage = Some f" "format_layout f usage = Some pl"
    using assms(1) by (auto simp: gralloc_alloc_def bind_eq_Some_conv split: if_splits option.splits)
  obtain size0 stride0 where ab: "ashmem_bytes pl usage w h = (size0, stride0)" by fastforce
  obtain st1 r1 where ar: "alloc_region E st w h format f usage pl size0 = (st1, r1)" by fastforce
  have r: "(case r1 of Inl err \<Rightarrow> Returned (st1, Inl err)
     | Inr (cb, fd) \<Rightarrow> obind (alloc_color E st1 cb w h (pl_glFormat pl) usage fd) (\<lambda>(st2, r).
          if r \<noteq> 0 then Returned (st2, Inl r)
          else obind (alloc_insert E st2 dev cb) (\<lambda>st3.
            Returned (st3, Inr (cb, if format = YCbCr_420_888 then 0 else stride0)))))
     = Returned (st', Inr (b, stride))"
    using assms(1) ar ab
    by (cases r1) (auto simp: gralloc_alloc_def f split: if_splits)
  from ar assms(2) show thesis
  proof (cases rule: alloc_region_cases)
    case (1 err)
    then show thesis using r by simp
  next
    case (2 cb fd c ms)
    obtain z where ac': "alloc_color E st1 cb w h (pl_glFormat pl) usage fd = Returned z"
      and z: "(case z of (st2, r) \<Rightarrow> if r \<noteq> 0 then Returned (st2, Inl r)
          else obind (alloc_insert E st2 dev cb) (\<lambda>st3.
            Returned (st3, Inr (cb, if format = YCbCr_420_888 then 0 else stride0))))
        = Returned (st', Inr (b, stride))"
      using r unfolding 2(1) sum.case prod.case obind_Returned_iff by blast
    obtain st2 r2 where z2: "z = (st2, r2)" by fastforce
    note ac = ac' [unfolded z2]
    have r2: "r2 = 0" using z by (auto simp: z2 split: if_splits)
    have ai: "alloc_insert E st2 dev cb = Returned st'" and bcb: "b = cb"
      and stride: "stride = (if format = YCbCr_420_888 then 0 else stride0)"
      using z by (auto simp: z2 r2 obind_Returned_iff)
    have "gs_cbs st1 cb = Some c" using 2(2) by simp
    from ac this show thesis
    proof (cases rule: alloc_color_cases)
      case (1 hh)
      from ai show thesis
      proof (cases rule: alloc_insert_cases)
        case (1 head l node)
        obtain cs where cs: "gs_calls st1 = gs_calls st @ cs" "length cs \<le> 3" using 2(13) by blast
        obtain ds where ds: "gs_calls st2 = gs_calls st1 @ ds" "length ds \<le> 3"
          using \<open>calls_within 3 st1 st2\<close> by (auto simp: calls_within_def)
        have node: "node \<noteq> 0" "gs_nodes st node = None"
          using kernel_okD(2,4) [OF assms(2), of "cs @ ds"] cs ds 1(2) by simp_all
        have same: "gs_nodes st2 = gs_nodes st" "gs_devs st2 = gs_devs st" "gs_maps st2 = gs_maps st1"
          "gs_fallback st2 = gs_fallback st"
          using \<open>same_tables st1 st2\<close> 2(9-11) by (simp_all add: same_tables_def)
        show thesis
          using f stride bcb 2(3-8) 1 \<open>gs_cbs st2 = _\<close> node same
          by (intro that [of f pl size0 "c\<lparr>cb_hostHandle := hh\<rparr>" head node l])
            (auto simp: new_handle_def validate_def 2(2) ab)
      qed
    qed (use r2 in simp)
  qed
qed

text \<open>
  C32. A buffer is large enough. When \<open>gralloc_alloc\<close> succeeds for a usage with CPU access and a
  positive width and height, a row and the image with counter and one page stay within 31 bits, and
  the kernel maps what it is asked to map at fresh addresses, the handle's region holds the post
  counter, if there is one, and the whole image, is a multiple of the page size and less than a page larger than needed;
  it is mapped, and the stride covers the width. The bounds are needed: the size of a larger image
  wraps (below), and without CPU access the region has the counter only.
\<close>

theorem alloc_region_holds_image:
  assumes "gralloc_alloc E st dev w h format usage out = Returned (st', Inr (b, stride))" and "kernel_ok E st"
    and "cpu_access usage" and "0 < w" and "0 < h"
    and "pick_format format usage = Some f" and "format_layout f usage = Some pl"
    and "row_bytes pl w < 2147483648" and "image_bytes pl w h + 4 + PAGE_SIZE \<le> 2147483648"
  shows "\<exists>c. gs_cbs st' b = Some c \<and> validate c \<and> cb_width c = w \<and> cb_height c = h
    \<and> (if canBePosted c then 4 else 0) + image_bytes pl w h \<le> cb_ashmemSize c
    \<and> cb_ashmemSize c < (if canBePosted c then 4 else 0) + image_bytes pl w h + PAGE_SIZE
    \<and> PAGE_SIZE dvd cb_ashmemSize c
    \<and> mapped st' (cb_ashmemBase c) (nat (cb_ashmemSize c))
    \<and> (format = YCbCr_420_888 \<or> w \<le> stride)"
proof -
  obtain c where c: "gs_cbs st' b = Some c"
      "new_handle E w h format f usage pl (fst (ashmem_bytes pl usage w h)) (gs_maps st') c"
    and stride: "stride = (if format = YCbCr_420_888 then 0 else snd (ashmem_bytes pl usage w h))"
    using assms(1,2)
  proof (cases rule: gralloc_alloc_Inr)
    case (1 f' pl' size0 c head node l)
    then show ?thesis using assms(6,7) by (intro that [of c]) auto
  qed
  define need where "need = (if has usage HW_FB then 4 else 0) + image_bytes pl w h"
  have bpp: "1 \<le> pl_bpp pl" using layout_cases(2) [OF assms(7)] .
  have al: "0 < pl_align pl" using layout_cases(1) [OF assms(7)] by auto
  have row: "w * pl_bpp pl \<le> row_bytes pl w" unfolding row_bytes_def by (rule up_to_bounds(1) [OF al])
  have w1: "w \<le> w * pl_bpp pl" using bpp assms(4) by simp
  have r0: "0 < row_bytes pl w" by (rule less_le_trans [OF assms(4) order_trans [OF w1 row]])
  then have rpos: "0 < row_bytes pl w * h" using assms(5) by simp
  have "0 \<le> h div 2 * up_to (pl_align pl) (row_bytes pl w div 2)"
    using up_to_bounds(1) [OF al, of "row_bytes pl w div 2"] r0 assms(5)
    by (intro mult_nonneg_nonneg) auto
  then have need: "0 < need" "need + 4095 < 2147483648"
    using rpos assms(9) by (auto simp: need_def image_bytes_def PAGE_SIZE_def)
  have ab: "ashmem_bytes pl usage w h = (need, row_bytes pl w div pl_bpp pl)"
    unfolding need_def using assms(3-5,7-9) row
    by (intro ashmem_bytes_exact) (auto simp: PAGE_SIZE_def)
  have page: "up_to PAGE_SIZE need = sint (round_to PAGE_SIZE (word_of_int need))"
  proof -
    have u: "uint (round_to PAGE_SIZE (word_of_int need)) = up_to PAGE_SIZE need"
      using uint_round_to [of need 12] need by (simp add: PAGE_SIZE_def)
    moreover have "up_to PAGE_SIZE need < 2147483648"
      using up_to_bounds(2) [of PAGE_SIZE need] need by (simp add: PAGE_SIZE_def)
    ultimately show ?thesis by (subst sint_small32) (simp_all add: word_less_def)
  qed
  have sz: "cb_ashmemSize c = up_to PAGE_SIZE need"
    using new_handleD(6) [OF c(2)] need(1) by (simp add: ab page)
  have "0 < cb_ashmemSize c"
    using up_to_bounds(1) [of PAGE_SIZE need] need by (simp add: sz PAGE_SIZE_def)
  then have "(cb_ashmemBase c, cb_ashmemSize c) \<in> set (gs_maps st')"
    using new_handleD(7) [OF c(2)] by simp
  note m = mapped_mem [OF this]
  have "w \<le> row_bytes pl w div pl_bpp pl" using zdiv_mono1 [OF row, of "pl_bpp pl"] bpp by simp
  then have "format = YCbCr_420_888 \<or> w \<le> stride" by (simp add: stride ab)
  moreover have "need \<le> up_to PAGE_SIZE need" "up_to PAGE_SIZE need < need + PAGE_SIZE"
    "PAGE_SIZE dvd up_to PAGE_SIZE need" by (simp_all add: up_to_bounds PAGE_SIZE_def)
  moreover have "(if canBePosted c then 4 else 0) + image_bytes pl w h = need"
    by (simp add: canBePosted_def need_def new_handleD(2) [OF c(2)])
  ultimately show ?thesis
    using m unfolding sz [symmetric]
    by (intro exI [of _ c]) (simp add: c(1) new_handleD(1,3,4) [OF c(2)])
qed

text \<open>
  A device with an empty list in a process that has nothing else: \<open>new\<close> returns addresses behind
  each other, \<open>mmap\<close> maps high above them, the host refuses connections.
\<close>

definition demo_env :: gr_env where
  "demo_env = \<lparr>ge_pid = 1, ge_int = (\<lambda>cs. 3),
     ge_addr = (\<lambda>cs. case last cs of
        NewObject \<Rightarrow> 0x100 * word_of_nat (length cs)
      | Mmap n fd \<Rightarrow> (if n < 0x1000000 then 0x10000000 else - 1)
      | _ \<Rightarrow> 7),
     ge_errno = (\<lambda>cs. 1),
     ge_connect = (\<lambda>cs. \<lparr>ca_socket = 5, ca_connect = - 1, ca_wr = [], ca_rd = []\<rparr>),
     ge_fresh = (\<lambda>n. None), ge_gles = 1, ge_module = False\<rparr>"

definition demo_state :: gr_state where
  "demo_state = \<lparr>gs_cbs = Map.empty, gs_nodes = Map.empty, gs_devs = [1 \<mapsto> 0], gs_fbs = Map.empty,
     gs_maps = [], gs_mem = (\<lambda>_. 0), gs_thread = EGLThreadInfo_new, gs_once = True,
     gs_fallback = False, gs_calls = []\<rparr>"

lemma demo_kernel:
  assumes "gs_calls st = []" and "gs_maps st = []" and "gs_nodes st = Map.empty"
    and "\<And>n. n < 8 \<Longrightarrow> gs_cbs st (0x100 * word_of_nat (Suc n)) = None"
  shows "kernel_ok demo_env st"
proof -
  have new: "0x100 * word_of_nat (Suc n) \<noteq> (0 :: u32)" if "n < 8" for n
  proof -
    have "\<forall>n \<in> set [0..<8]. 0x100 * word_of_nat (Suc n) \<noteq> (0 :: u32)" by (simp add: upt_rec)
    then show ?thesis using that by simp
  qed
  show ?thesis
    unfolding kernel_ok_def demo_env_def Let_def gr_env.select_convs assms(1-3)
      append_Nil last_snoc gr_call.case length_append_singleton
    using new assms(4) by (auto simp: nat_le_iff)
qed

lemma demo_kernel_ok [simp]: "kernel_ok demo_env demo_state"
  by (rule demo_kernel) (simp_all add: demo_state_def)

lemmas alloc_defs = gralloc_alloc_def has_def pick_format_def format_layout_def ashmem_bytes_def
  alloc_region_def alloc_color_def alloc_insert_def map_buffer_def gcall_def put_cb_def
  list_insert_def round_to_def PAGE_SIZE_def cb_handle_new_def i32_def Let_def

lemma demo_alloc:
  "\<exists>st'. gralloc_alloc demo_env demo_state 1 8 4 RGB_565 0x33 True = Returned (st', Inr (0x200, 8))"
  by (simp add: alloc_defs demo_env_def demo_state_def)

theorem alloc_region_holds_image_witness:
  "\<exists>st' c. gralloc_alloc demo_env demo_state 1 8 4 RGB_565 0x33 True = Returned (st', Inr (0x200, 8))
     \<and> gs_cbs st' 0x200 = Some c \<and> cb_ashmemSize c = 4096"
proof -
  obtain st' where a: "gralloc_alloc demo_env demo_state 1 8 4 RGB_565 0x33 True = Returned (st', Inr (0x200, 8))"
    using demo_alloc by blast
  obtain pl where pl: "format_layout RGB_565 0x33 = Some pl" "pl_align pl = 1" "pl_bpp pl = 2" "\<not> pl_yuv pl"
    by (simp add: format_layout_def Let_def)
  have img: "row_bytes pl 8 = 16" "image_bytes pl 8 4 = 64"
    by (simp_all add: image_bytes_def row_bytes_def up_to_def pl)
  have "\<exists>c. gs_cbs st' 0x200 = Some c \<and> validate c \<and> cb_width c = 8 \<and> cb_height c = 4
    \<and> (if canBePosted c then 4 else 0) + image_bytes pl 8 4 \<le> cb_ashmemSize c
    \<and> cb_ashmemSize c < (if canBePosted c then 4 else 0) + image_bytes pl 8 4 + PAGE_SIZE
    \<and> PAGE_SIZE dvd cb_ashmemSize c
    \<and> mapped st' (cb_ashmemBase c) (nat (cb_ashmemSize c))
    \<and> (RGB_565 = YCbCr_420_888 \<or> (8::int) \<le> 8)"
    by (rule alloc_region_holds_image [OF a demo_kernel_ok _ _ _ _ pl(1)])
      (simp_all add: cpu_access_def has_def pick_format_def img PAGE_SIZE_def)
  then obtain c where c: "gs_cbs st' 0x200 = Some c" "64 \<le> cb_ashmemSize c" "cb_ashmemSize c < 4164"
    "4096 dvd cb_ashmemSize c"
    by (auto simp: img PAGE_SIZE_def split: if_splits)
  then have "cb_ashmemSize c = 4096" by (auto simp: dvd_def)
  then show ?thesis using a c(1) by blast
qed

text \<open>
  The size of a buffer is computed in 32 bits. A buffer of 65536 by 65537 pixels of four
  bytes needs 17 GB; when \<open>gralloc_alloc\<close> succeeds for it, it hands out a region of 262144 bytes,
  a single row, with the stride of the full width.
\<close>

theorem alloc_image_overflow:
  assumes "gralloc_alloc E st dev 65536 65537 RGBA_8888 usage out = Returned (st', Inr (b, stride))"
    and "kernel_ok E st" and "cpu_access usage" and "\<not> has usage HW_FB"
  shows "\<exists>c. gs_cbs st' b = Some c \<and> cb_width c = 65536 \<and> cb_height c = 65537
    \<and> cb_ashmemSize c = 262144 \<and> stride = 65536"
  using assms(1,2)
proof (cases rule: gralloc_alloc_Inr)
  case (1 f pl size0 c head node l)
  have f: "f = RGBA_8888" using 1(1) by (simp add: pick_format_def)
  have pl: "pl_bpp pl = 4" "pl_align pl = 1" "\<not> pl_yuv pl"
    using 1(2) by (auto simp: f format_layout_def Let_def)
  have "ashmem_bytes pl usage 65536 65537 = (262144, 65536)"
    using assms(3,4) by (simp add: ashmem_bytes_def cpu_access_def pl round_to_def i32_def Let_def)
  then show ?thesis
    using 1(3-5) new_handleD(3,4,6) [OF 1(8)]
    by (simp add: round_to_def PAGE_SIZE_def)
qed

theorem alloc_image_overflow_witness:
  "\<exists>st' c. gralloc_alloc demo_env demo_state 1 65536 65537 RGBA_8888 0x33 True
      = Returned (st', Inr (0x200, 65536))
    \<and> gs_cbs st' 0x200 = Some c \<and> cb_ashmemSize c = 262144"
proof -
  obtain st' where a: "gralloc_alloc demo_env demo_state 1 65536 65537 RGBA_8888 0x33 True
      = Returned (st', Inr (0x200, 65536))"
    by (simp add: alloc_defs demo_env_def demo_state_def)
  from alloc_image_overflow [OF a demo_kernel_ok] show ?thesis
    using a by (auto simp: cpu_access_def has_def)
qed

section \<open>Sending a locked rectangle\<close>

lemma mapped_sub:
  assumes "mapped st a n" and "unat a + n \<le> 4294967296" and "off + m \<le> n" and "0 < m"
  shows "mapped st (a + word_of_nat off) m"
proof -
  have "unat (word_of_nat off :: u32) = off" using assms(2-4) by (intro unat_of_nat32) simp
  then have "unat (a + word_of_nat off) = unat a + off"
    using assms(2-4) by (subst unat_add32) simp_all
  then show ?thesis using assms(1,3) by (force simp: mapped_def)
qed

lemma copy_rows_eq:
  assumes "\<And>y. y < n \<Longrightarrow> mapped st (src + word_of_nat y * word_of_int src_len) (nat dst_len)"
  shows "copy_rows st src src_len dst_len n =
    Some (concat (map (\<lambda>y. read_mem (gs_mem st) (src + word_of_nat y * word_of_int src_len) (nat dst_len)) [0..<n]))"
  using assms
proof (induction n arbitrary: src)
  case (Suc n)
  have step: "src + word_of_nat (Suc y) * word_of_int src_len
      = src + word_of_int src_len + word_of_nat y * word_of_int src_len" for y
    by (simp add: algebra_simps)
  have "copy_rows st (src + word_of_int src_len) src_len dst_len n =
    Some (concat (map (\<lambda>y. read_mem (gs_mem st) (src + word_of_nat (Suc y) * word_of_int src_len) (nat dst_len)) [0..<n]))"
    unfolding step using Suc.prems [of "Suc _"] unfolding step by (intro Suc.IH) simp
  moreover have "mapped st src (nat dst_len)" using Suc.prems [of 0] by simp
  ultimately show ?case
    by (simp add: upt_conv_Cons map_Suc_upt [symmetric] comp_def del: upt_Suc of_nat_Suc)
qed simp

lemma nth_concat_rows:
  assumes "\<And>r. r \<in> set rows \<Longrightarrow> length r = m" and "y < length rows" and "k < m"
  shows "concat rows ! (y * m + k) = rows ! y ! k"
  using assms
proof (induction rows arbitrary: y)
  case (Cons r rows)
  then show ?case by (cases y) (auto simp: nth_append)
qed simp

lemma length_concat_rows: "(\<And>r. r \<in> set rows \<Longrightarrow> length r = m) \<Longrightarrow> length (concat rows) = length rows * m"
  by (induction rows) auto

lemma concat_read_rows:
  "concat (map (\<lambda>y. read_mem m (p + word_of_nat (y * k)) k) [0..<n]) = read_mem m p (n * k)"
proof (induction n)
  case (Suc n)
  have "Suc n * k = n * k + k" by simp
  then show ?case using Suc by (simp only: read_mem_append upt_Suc_append map_append concat_append) simp
qed simp

text \<open>The locked rectangle lies inside the buffer, and the buffer's pixels are mapped.\<close>

definition rect_inside :: "cb_handle \<Rightarrow> bool" where
  "rect_inside c \<longleftrightarrow> 0 \<le> cb_lockedLeft c \<and> 0 \<le> cb_lockedTop c \<and> 0 < cb_lockedWidth c \<and> 0 < cb_lockedHeight c
     \<and> cb_lockedLeft c + cb_lockedWidth c \<le> cb_width c \<and> cb_lockedTop c + cb_lockedHeight c \<le> cb_height c"

definition pixel_bytes :: "cb_handle \<Rightarrow> int" where
  "pixel_bytes c = glUtilsPixelBitSize (cb_glFormat c) (cb_glType c) div 8"

definition pixels_mapped :: "gr_state \<Rightarrow> cb_handle \<Rightarrow> bool" where
  "pixels_mapped st c \<longleftrightarrow> (let n = cb_width c * cb_height c * pixel_bytes c in
     0 < pixel_bytes c \<and> 8 * pixel_bytes c * cb_width c < 2147483648 \<and> n < 2147483648 \<and> mapped st (pixel_base c) (nat n)
     \<and> unat (pixel_base c) + nat n \<le> 4294967296)"

text \<open>The offset of the first locked pixel of row \<open>y\<close>.\<close>

definition rect_offset :: "cb_handle \<Rightarrow> int \<Rightarrow> int" where
  "rect_offset c y = ((cb_lockedTop c + y) * cb_width c + cb_lockedLeft c) * pixel_bytes c"

lemma rect_offset_bounds:
  assumes "rect_inside c" and "0 < pixel_bytes c" and "0 \<le> y" and "y < cb_lockedHeight c"
  shows "0 \<le> rect_offset c y"
    and "rect_offset c y + cb_lockedWidth c * pixel_bytes c \<le> cb_width c * cb_height c * pixel_bytes c"
proof -
  note r = assms(1) [unfolded rect_inside_def]
  show "0 \<le> rect_offset c y"
    using r assms(2,3) unfolding rect_offset_def by (intro mult_nonneg_nonneg add_nonneg_nonneg) auto
  have "(cb_lockedTop c + y) * cb_width c + cb_lockedLeft c + cb_lockedWidth c
      \<le> (cb_lockedTop c + y) * cb_width c + cb_width c" using r by simp
  also have "\<dots> = (cb_lockedTop c + y + 1) * cb_width c" by (simp add: algebra_simps)
  also have "\<dots> \<le> cb_height c * cb_width c" using r assms(4) by (intro mult_right_mono) auto
  finally have "((cb_lockedTop c + y) * cb_width c + cb_lockedLeft c + cb_lockedWidth c) * pixel_bytes c
      \<le> cb_height c * cb_width c * pixel_bytes c"
    using assms(2) by (intro mult_right_mono) auto
  then show "rect_offset c y + cb_lockedWidth c * pixel_bytes c \<le> cb_width c * cb_height c * pixel_bytes c"
    by (simp add: rect_offset_def algebra_simps)
qed

text \<open>The rectangle, packed.\<close>

definition rect_rows :: "gr_state \<Rightarrow> cb_handle \<Rightarrow> byte list list" where
  "rect_rows st c =
     map (\<lambda>y. read_mem (gs_mem st) (pixel_base c + word_of_int (rect_offset c (int y)))
                (nat (cb_lockedWidth c * pixel_bytes c))) [0..<nat (cb_lockedHeight c)]"

lemma unlock_update_rect:
  assumes "rect_inside c" and "pixels_mapped st c"
  shows "unlock_update st c = Some (rcUpdateColorBuffer (cb_hostHandle c) (cb_lockedLeft c) (cb_lockedTop c)
    (cb_lockedWidth c) (cb_lockedHeight c) (cb_glFormat c) (cb_glType c) (concat (rect_rows st c)))"
proof -
  note r = assms(1) [unfolded rect_inside_def]
  define n where "n = cb_width c * cb_height c * pixel_bytes c"
  have w8: "8 * pixel_bytes c * cb_width c < 2147483648"
    and m: "0 < pixel_bytes c" "n < 2147483648" "mapped st (pixel_base c) (nat n)"
    "unat (pixel_base c) + nat n \<le> 4294967296"
    using assms(2) by (simp_all add: pixels_mapped_def n_def Let_def)
  define B where "B = cb_lockedWidth c * pixel_bytes c"
  have B: "0 < B" using r m(1) by (simp add: B_def)
  have off: "0 \<le> rect_offset c y" "rect_offset c y + B \<le> n" if "0 \<le> y" "y < cb_lockedHeight c" for y
    using rect_offset_bounds [OF assms(1) m(1) that] by (simp_all add: n_def B_def)
  have row: "mapped st (pixel_base c + word_of_int (rect_offset c (int y))) (nat B)"
    if "y < nat (cb_lockedHeight c)" for y
  proof -
    have "mapped st (pixel_base c + word_of_nat (nat (rect_offset c (int y)))) (nat B)"
      using off [of "int y"] that B m
      by (intro mapped_sub [OF m(3,4)]) (simp_all add: zless_nat_eq_int_zless nat_add_distrib [symmetric])
    then show ?thesis using off [of "int y"] that by simp
  qed
  show ?thesis
  proof (cases "cb_lockedWidth c < cb_width c \<or> cb_lockedHeight c < cb_height c")
    case True
    let ?S = "cb_width c * pixel_bytes c"
    have top: "cb_lockedTop c * ?S + cb_lockedLeft c * pixel_bytes c = rect_offset c 0"
      by (simp add: rect_offset_def algebra_simps)
    have nn: "0 \<le> cb_lockedTop c * ?S" "0 \<le> cb_lockedLeft c * pixel_bytes c" "0 \<le> ?S"
      using r m(1) by simp_all
    define A where "A = cb_lockedWidth c * cb_lockedHeight c"
    have A: "0 < A" using r by (simp add: A_def)
    then have "A * 1 \<le> A * pixel_bytes c" using m(1) by (intro mult_left_mono) auto
    moreover have AB: "cb_lockedHeight c * B = A * pixel_bytes c" by (simp add: A_def B_def)
    moreover have "cb_lockedHeight c * cb_lockedWidth c \<le> cb_height c * cb_width c"
      using r by (intro mult_mono) auto
    then have "A * pixel_bytes c \<le> cb_height c * cb_width c * pixel_bytes c"
      using m(1) by (intro mult_right_mono) (auto simp: A_def mult.commute)
    ultimately have An: "A \<le> A * pixel_bytes c" "A * pixel_bytes c \<le> n" by (simp_all add: n_def mult.commute)
    then have sizes: "int_range A" "int_range (A * pixel_bytes c)"
      using A m(2) by (intro int_rangeI; linarith)+
    have o0: "0 \<le> rect_offset c 0" "rect_offset c 0 + B \<le> n" using off [of 0] r by simp_all
    have w8': "8 * ?S < 2147483648" using w8 by (simp add: mult.commute mult.left_commute)
    have ids: "int_range (cb_lockedTop c * ?S)" "int_range (cb_lockedLeft c * pixel_bytes c)" "int_range ?S" "int_range B"
      using o0 top nn m(2) w8' B by (intro int_rangeI; linarith)+
    have addr: "pixel_base c + word_of_int (cb_lockedTop c * ?S) + word_of_int (cb_lockedLeft c * pixel_bytes c)
        + word_of_nat y * word_of_int ?S = pixel_base c + word_of_int (rect_offset c (int y))" for y
      by (simp add: rect_offset_def algebra_simps)
    have rows: "copy_rows st (pixel_base c + word_of_int (cb_lockedTop c * ?S)
        + word_of_int (cb_lockedLeft c * pixel_bytes c)) ?S B (nat (cb_lockedHeight c)) = Some (concat (rect_rows st c))"
      by (subst copy_rows_eq) (simp_all only: addr row [unfolded B_def] rect_rows_def B_def)
    show ?thesis
      unfolding unlock_update_def if_P [OF True] Let_def pixel_bytes_def [symmetric] B_def [symmetric]
        i32_id [OF ids(1)] i32_id [OF ids(2)] i32_id [OF ids(3)] i32_id [OF ids(4)] rows
        A_def [symmetric] i32_id [OF sizes(1)] AB [symmetric] mult.commute [of B]
        i32_id [OF sizes(2) [unfolded AB [symmetric]]]
      using B by simp
  next
    case False
    then have eq: "cb_lockedLeft c = 0" "cb_lockedTop c = 0" "cb_lockedWidth c = cb_width c"
      "cb_lockedHeight c = cb_height c" using r by auto
    let ?S = "cb_width c * pixel_bytes c"
    have bits: "glUtilsPixelBitSize (cb_glFormat c) (cb_glType c) = 8 * pixel_bytes c"
      by (simp add: pixel_bytes_def glUtilsPixelBitSize_whole_bytes)
    have S: "0 \<le> ?S" "0 \<le> n" using r m(1) by (simp_all add: n_def)
    have i8: "i32 (8 * pixel_bytes c * cb_width c) = 8 * pixel_bytes c * cb_width c"
      using w8 S(1) by (intro i32_id int_rangeI) (auto simp: mult.commute)
    have "8 * pixel_bytes c * cb_width c div 8 = pixel_bytes c * cb_width c" by (simp add: mult.assoc)
    moreover have "int_range (pixel_bytes c * cb_width c)"
      using w8 S(1) by (intro int_rangeI) (auto simp: mult.commute)
    ultimately have row: "i32 (i32 (8 * pixel_bytes c * cb_width c) div 8) = pixel_bytes c * cb_width c"
      by (simp only: i8 i32_id)
    have "pixel_bytes c * cb_width c * cb_height c = n" by (simp add: n_def mult.commute mult.left_commute)
    then have sz: "nat (uint (word_of_int (i32 (i32 (8 * pixel_bytes c * cb_width c) div 8) * cb_height c) :: u32)) = nat n"
      using S(2) m(2) unfolding row by (simp only: uint_word_of_int32)
    have "concat (rect_rows st c) = read_mem (gs_mem st) (pixel_base c) (nat (cb_height c) * nat ?S)"
    proof -
      have "rect_rows st c = map (\<lambda>y. read_mem (gs_mem st) (pixel_base c + word_of_nat (y * nat ?S)) (nat ?S))
          [0..<nat (cb_height c)]"
        using S(1) by (simp add: rect_rows_def rect_offset_def eq mult.assoc)
      then show ?thesis by (simp only: concat_read_rows)
    qed
    moreover have "nat (cb_height c) * nat ?S = nat n"
      using r eq S(1) by (simp add: n_def nat_mult_distrib [symmetric] mult.commute mult.left_commute)
    moreover have "unlock_update st c = (if \<not> mapped st (pixel_base c) (nat n) then None
        else Some (rcUpdateColorBuffer (cb_hostHandle c) 0 0 (cb_width c) (cb_height c)
               (cb_glFormat c) (cb_glType c) (read_mem (gs_mem st) (pixel_base c) (nat n))))"
      unfolding unlock_update_def if_not_P [OF False] Let_def bits sz ..
    ultimately show ?thesis using m(3) by (simp add: eq)
  qed
qed

text \<open>
  C10. What an application has drawn with the CPU reaches the host. When a buffer is unlocked
  whose locked rectangle lies inside it, \<open>gralloc_unlock\<close> succeeds, sends exactly one update,
  for that rectangle of the buffer's colour buffer, whose byte \<open>k\<close> of row \<open>y\<close> is the byte of the
  mapped buffer at that place, and leaves the buffer unlocked.
\<close>

theorem unlock_sends_rect:
  assumes "gs_cbs st h = Some c" and "h \<noteq> 0" and "module \<noteq> 0" and "validate c" and "\<not> gs_fallback st"
    and "connected st" and "cb_hostHandle c \<noteq> 0" and "rect_inside c" and "pixels_mapped st c"
  shows "\<exists>st' bytes. gralloc_unlock E st module h = Returned (st', 0)
    \<and> gs_calls st' = gs_calls st @ [Host (rcUpdateColorBuffer (cb_hostHandle c) (cb_lockedLeft c)
         (cb_lockedTop c) (cb_lockedWidth c) (cb_lockedHeight c) (cb_glFormat c) (cb_glType c) bytes)]
    \<and> length bytes = nat (cb_lockedHeight c) * nat (cb_lockedWidth c * pixel_bytes c)
    \<and> (\<forall>y < nat (cb_lockedHeight c). \<forall>k < nat (cb_lockedWidth c * pixel_bytes c).
         bytes ! (y * nat (cb_lockedWidth c * pixel_bytes c) + k)
         = gs_mem st (pixel_base c + word_of_int
             (((cb_lockedTop c + int y) * cb_width c + cb_lockedLeft c) * pixel_bytes c) + word_of_nat k))
    \<and> gs_cbs st' = (gs_cbs st)(h \<mapsto> c\<lparr>cb_lockedWidth := 0, cb_lockedHeight := 0\<rparr>)"
proof -
  let ?rows = "rect_rows st c" and ?B = "nat (cb_lockedWidth c * pixel_bytes c)"
  have len: "\<And>r. r \<in> set ?rows \<Longrightarrow> length r = ?B" by (auto simp: rect_rows_def)
  have "rect_rows (with_rc st) c = ?rows" by (simp add: rect_rows_def)
  moreover have "pixels_mapped (with_rc st) c"
    using assms(9) by (simp add: pixels_mapped_def mapped_cong [of "with_rc st" st] Let_def)
  ultimately have u: "unlock_update (with_rc st) c = Some (rcUpdateColorBuffer (cb_hostHandle c) (cb_lockedLeft c)
      (cb_lockedTop c) (cb_lockedWidth c) (cb_lockedHeight c) (cb_glFormat c) (cb_glType c) (concat ?rows))"
    using unlock_update_rect [OF assms(8), of "with_rc st"] by simp
  have pos: "0 < cb_lockedWidth c" "0 < cb_lockedHeight c" using assms(8) by (simp_all add: rect_inside_def)
  have byte: "concat ?rows ! (y * ?B + k) = gs_mem st (pixel_base c + word_of_int
      (((cb_lockedTop c + int y) * cb_width c + cb_lockedLeft c) * pixel_bytes c) + word_of_nat k)"
    if "y < nat (cb_lockedHeight c)" "k < ?B" for y k
  proof -
    have "concat ?rows ! (y * ?B + k) = ?rows ! y ! k"
      using that by (intro nth_concat_rows [OF len]) (simp_all add: rect_rows_def)
    then show ?thesis using that by (simp add: rect_rows_def rect_offset_def)
  qed
  have "length (concat ?rows) = nat (cb_lockedHeight c) * ?B"
    by (subst length_concat_rows [OF len]) (simp_all add: rect_rows_def)
  moreover have "\<exists>st'. gralloc_unlock E st module h = Returned (st', 0)
    \<and> gs_calls st' = gs_calls st @ [Host (rcUpdateColorBuffer (cb_hostHandle c) (cb_lockedLeft c)
         (cb_lockedTop c) (cb_lockedWidth c) (cb_lockedHeight c) (cb_glFormat c) (cb_glType c) (concat ?rows))]
    \<and> gs_cbs st' = (gs_cbs st)(h \<mapsto> c\<lparr>cb_lockedWidth := 0, cb_lockedHeight := 0\<rparr>)"
    using assms(1-7) pos u by (simp add: gralloc_unlock_def valid_cb_def with_host_connected)
  ultimately show ?thesis using byte by blast
qed

text \<open>A locked buffer of four by three pixels in a process that is connected.\<close>

definition demo_conn :: host_conn where
  "demo_conn = \<lparr>hc_stream = stream_new 5 16 [] [], hc_gl = None, hc_gl2 = None, hc_rc = True\<rparr>"

definition demo_cb :: cb_handle where
  "demo_cb = (lock_region (cb_handle_new 3 4096 0x133 4 3 RGB_565 RGB_565 GL_RGB GL_UNSIGNED_SHORT_5_6_5)
     1 1 2 2)\<lparr>cb_ashmemBase := 0x10000000, cb_ashmemBasePid := 1, cb_hostHandle := 7\<rparr>"

definition demo_locked :: gr_state where
  "demo_locked = demo_state\<lparr>gs_cbs := [0x200 \<mapsto> demo_cb], gs_maps := [(0x10000000, 4096)],
     gs_mem := ucast, gs_thread := EGLThreadInfo_new\<lparr>ti_hostConn := Some demo_conn\<rparr>\<rparr>"

lemma demo_cb_simps [simp]:
  "cb_lockedLeft demo_cb = 1" "cb_lockedTop demo_cb = 1" "cb_lockedWidth demo_cb = 2"
  "cb_lockedHeight demo_cb = 2" "cb_width demo_cb = 4" "cb_height demo_cb = 3" "cb_hostHandle demo_cb = 7"
  "pixel_bytes demo_cb = 2" "pixel_base demo_cb = 0x10000000" "validate demo_cb"
  by (simp_all add: demo_cb_def lock_region_def cb_handle_new_def pixel_bytes_def glUtilsPixelBitSize_def
      pixel_base_def canBePosted_def has_def validate_def Let_def)

theorem unlock_sends_rect_witness:
  "\<exists>st' bytes. gralloc_unlock demo_env demo_locked 1 0x200 = Returned (st', 0)
    \<and> gs_calls st' = [Host (rcUpdateColorBuffer 7 1 1 2 2 (cb_glFormat demo_cb) (cb_glType demo_cb) bytes)]
    \<and> length bytes = 8 \<and> bytes ! 0 = 10 \<and> bytes ! 4 = 18"
proof -
  have pm: "pixels_mapped demo_locked demo_cb"
    by (simp add: pixels_mapped_def demo_locked_def demo_state_def mapped_def)
  obtain st' bytes where u: "gralloc_unlock demo_env demo_locked 1 0x200 = Returned (st', 0)"
    "gs_calls st' = [Host (rcUpdateColorBuffer 7 1 1 2 2 (cb_glFormat demo_cb) (cb_glType demo_cb) bytes)]"
    "length bytes = 8"
    and byte: "\<And>y k. y < 2 \<Longrightarrow> k < 4 \<Longrightarrow> bytes ! (y * 4 + k)
       = ucast (0x10000000 + word_of_int (((1 + int y) * 4 + 1) * 2) + word_of_nat k :: u32)"
    using unlock_sends_rect [where st = demo_locked and h = "0x200" and c = demo_cb and module = 1
        and E = demo_env, OF _ _ _ _ _ _ _ _ pm]
    by (auto simp: demo_locked_def demo_state_def connected_def rect_inside_def)
  have "bytes ! 0 = 10" "bytes ! 4 = 18" using byte [of 0 0] byte [of 1 0] by simp_all
  then show ?thesis using u by blast
qed

section \<open>Closing a device\<close>

text \<open>The calls that freeing a buffer takes.\<close>

definition free_calls :: "cb_handle \<Rightarrow> gr_call list" where
  "free_calls c =
     (if cb_hostHandle c = 0 then []
      else if has (cb_usage c) HW_COMPOSER
      then [Host (rcCloseColorBuffer (cb_hostHandle c)), Host (rcCloseColorBuffer (cb_hostHandle c))]
      else [Host (rcCloseColorBuffer (cb_hostHandle c))])
     @ (if 0 < cb_fd c
        then (if 0 < cb_ashmemSize c \<and> cb_ashmemBase c \<noteq> 0
              then [Munmap (cb_ashmemBase c) (cb_ashmemSize c)] else []) @ [CloseFd (cb_fd c)]
        else [])"

lemma close_color_simps [simp]:
  "gs_cbs (close_color st c) = gs_cbs st" "gs_nodes (close_color st c) = gs_nodes st"
  "gs_devs (close_color st c) = gs_devs st" "gs_maps (close_color st c) = gs_maps st"
  "gs_thread (close_color st c) = gs_thread st" "gs_fallback (close_color st c) = gs_fallback st"
  "gs_mem (close_color st c) = gs_mem st"
  by (simp_all add: close_color_def Let_def)

lemma release_region_simps [simp]:
  "gs_cbs (release_region st c) = gs_cbs st" "gs_nodes (release_region st c) = gs_nodes st"
  "gs_devs (release_region st c) = gs_devs st" "gs_thread (release_region st c) = gs_thread st"
  "gs_fallback (release_region st c) = gs_fallback st" "gs_mem (release_region st c) = gs_mem st"
  "gs_maps (release_region st c) = (if 0 < cb_fd c \<and> 0 < cb_ashmemSize c \<and> cb_ashmemBase c \<noteq> 0
     then remove1 (cb_ashmemBase c, cb_ashmemSize c) (gs_maps st) else gs_maps st)"
  by (simp_all add: release_region_def Let_def)

text \<open>A device whose list holds the handles \<open>hs\<close>, all of them valid.\<close>

definition device_holds :: "gr_state \<Rightarrow> addr \<Rightarrow> addr list \<Rightarrow> bool" where
  "device_holds st dev hs \<longleftrightarrow> dev \<noteq> 0 \<and> distinct hs
     \<and> (\<exists>head. gs_devs st dev = Some head \<and> represents (head, gs_nodes st) hs)
     \<and> (\<forall>h \<in> set hs. h \<noteq> 0 \<and> (\<exists>c. gs_cbs st h = Some c \<and> validate c))"

lemma gralloc_free_connected:
  assumes "device_holds st dev (h # hs)" and "connected st" and "gs_cbs st h = Some c"
  shows "\<exists>st'. gralloc_free E st dev h = Returned (st', 0) \<and> device_holds st' dev hs \<and> connected st'
    \<and> gs_cbs st' = (gs_cbs st)(h := None) \<and> gs_calls st' = gs_calls st @ free_calls c
    \<and> gs_devs st' = (gs_devs st)(dev := gs_devs st' dev)"
proof -
  obtain head where head: "gs_devs st dev = Some head" "represents (head, gs_nodes st) (h # hs)"
    and ok: "h \<noteq> 0" "validate c" "h \<notin> set hs"
    using assms(1,3) by (auto simp: device_holds_def)
  obtain head' ns where rm: "list_remove (head, gs_nodes st) h = Some (head', ns)" "represents (head', ns) hs"
    using nodes.del_rep [OF head(2), of h] by auto
  define st1 where "st1 = (if cb_hostHandle c \<noteq> 0 then close_color (with_rc st) c else st)"
  define st2 where "st2 = release_region st1 c"
  define st' where "st' = delete_cb (st2\<lparr>gs_nodes := ns, gs_devs := (gs_devs st2)(dev \<mapsto> head')\<rparr>) h"
  have st1: "gs_nodes st1 = gs_nodes st" "gs_devs st1 = gs_devs st" "gs_cbs st1 = gs_cbs st" "connected st1"
    using assms(2) by (simp_all add: st1_def connected_def with_rc_def)
  have "(if cb_hostHandle c \<noteq> 0 then with_host E st (\<lambda>s. Returned (close_color s c, 0)) else Returned (st, 0))
      = Returned (st1, 0)"
    using assms(2) by (simp add: with_host_connected st1_def)
  then have free: "gralloc_free E st dev h = Returned (st', 0)"
    using assms(3) ok(1,2) head(1) rm(1) st1
    by (simp add: gralloc_free_def valid_cb_def free_node_def st2_def [symmetric])
      (simp add: st2_def st'_def)
  have "gs_calls st' = gs_calls st @ free_calls c"
    by (simp add: st'_def st2_def st1_def release_region_def close_color_def free_calls_def Let_def)
  moreover have cbs: "gs_cbs st' = (gs_cbs st)(h := None)" using st1 by (simp add: st'_def st2_def)
  moreover have "connected st'" using st1(4) by (simp add: st'_def st2_def connected_def delete_cb_def)
  moreover have devs: "gs_devs st' = (gs_devs st)(dev \<mapsto> head')" "gs_nodes st' = ns"
    using st1 by (simp_all add: st'_def st2_def)
  moreover have "device_holds st' dev hs"
    using assms(1) ok(3) rm(2) by (auto simp: device_holds_def cbs devs)
  ultimately show ?thesis using free by auto
qed

lemma close_loop_connected:
  assumes "device_holds st dev hs" and "connected st"
  shows "\<exists>st'. close_loop E st dev = Some (Returned st') \<and> gs_devs st' = (gs_devs st)(dev \<mapsto> 0)
    \<and> gs_cbs st' = (\<lambda>h. if h \<in> set hs then None else gs_cbs st h)
    \<and> gs_calls st' = gs_calls st @ concat (map (\<lambda>h. free_calls (the (gs_cbs st h))) hs)"
  using assms
proof (induction hs arbitrary: st)
  case Nil
  then obtain head where "gs_devs st dev = Some head" "represents (head, gs_nodes st) []"
    by (auto simp: device_holds_def)
  then show ?case using represents_head(1) [of "(head, gs_nodes st)" "[]"]
    by (simp add: close_loop.simps [of E st] fun_upd_idem)
next
  case (Cons h hs)
  then obtain head c where head: "gs_devs st dev = Some head" "represents (head, gs_nodes st) (h # hs)"
    and c: "gs_cbs st h = Some c" and ni: "h \<notin> set hs"
    by (auto simp: device_holds_def)
  obtain n where n: "gs_nodes st head = Some n" "an_handle n = h" and "head \<noteq> 0"
    using represents_head [OF head(2)] by auto
  obtain s where s: "gralloc_free E st dev h = Returned (s, 0)" "device_holds s dev hs" "connected s"
    "gs_cbs s = (gs_cbs st)(h := None)" "gs_calls s = gs_calls st @ free_calls c"
    "gs_devs s = (gs_devs st)(dev := gs_devs s dev)"
    using gralloc_free_connected [OF Cons.prems c] by blast
  have "close_loop E st dev = close_loop E s dev"
    using head(1) n \<open>head \<noteq> 0\<close> s(1) by (subst close_loop.simps) simp
  moreover have m: "map (\<lambda>h. free_calls (the (gs_cbs s h))) hs = map (\<lambda>h. free_calls (the (gs_cbs st h))) hs"
    using ni by (auto simp: s(4))
  obtain st' where "close_loop E s dev = Some (Returned st')" "gs_devs st' = (gs_devs s)(dev \<mapsto> 0)"
    "gs_cbs st' = (\<lambda>h. if h \<in> set hs then None else gs_cbs s h)"
    "gs_calls st' = gs_calls s @ concat (map (\<lambda>h. free_calls (the (gs_cbs st h))) hs)"
    using Cons.IH [OF s(2,3)] unfolding m by blast
  moreover have "(gs_devs s)(dev \<mapsto> 0) = (gs_devs st)(dev \<mapsto> 0)" by (subst s(6)) simp
  ultimately show ?case by (intro exI [of _ st']) (auto simp: s(4,5) c)
qed

text \<open>
  C33. Closing a device frees what it still holds. From a thread that is connected to the host,
  \<open>gralloc_device_close\<close> returns, and has freed every buffer of the device in list order: the
  colour buffer closed on the host, the region unmapped, the descriptor closed, the handle
  deleted; no other handle is touched, and the device is gone.
\<close>

theorem device_close_returns:
  assumes "device_holds st dev hs" and "connected st"
  shows "\<exists>st'. gralloc_device_close E st dev = Some (Returned (st', 0))
    \<and> gs_calls st' = gs_calls st @ concat (map (\<lambda>h. free_calls (the (gs_cbs st h))) hs)
    \<and> (\<forall>h. gs_cbs st' h = (if h \<in> set hs then None else gs_cbs st h))
    \<and> gs_devs st' = (gs_devs st)(dev := None)"
proof -
  obtain s where s: "close_loop E st dev = Some (Returned s)" "gs_devs s = (gs_devs st)(dev \<mapsto> 0)"
    "gs_cbs s = (\<lambda>h. if h \<in> set hs then None else gs_cbs st h)"
    "gs_calls s = gs_calls st @ concat (map (\<lambda>h. free_calls (the (gs_cbs st h))) hs)"
    using close_loop_connected [OF assms] by blast
  moreover have "dev \<noteq> 0" using assms(1) by (simp add: device_holds_def)
  ultimately show ?thesis by (simp add: gralloc_device_close_def)
qed

text \<open>The locked buffer, on the list of the device 1.\<close>

definition demo_device :: gr_state where
  "demo_device = demo_locked\<lparr>gs_devs := [1 \<mapsto> 0x300],
     gs_nodes := [0x300 \<mapsto> \<lparr>an_handle = 0x200, an_next = 0, an_prev = 0\<rparr>]\<rparr>"

lemma demo_device_holds: "device_holds demo_device 1 [0x200]"
  by (auto simp: device_holds_def demo_device_def demo_locked_def represents_def intro!: exI [of _ "[0x300]"])

theorem device_close_returns_witness:
  "\<exists>st'. gralloc_device_close demo_env demo_device 1 = Some (Returned (st', 0))
     \<and> gs_calls st' = [Host (rcCloseColorBuffer 7), Munmap 0x10000000 4096, CloseFd 3]
     \<and> gs_cbs st' 0x200 = None"
proof -
  have "connected demo_device" by (simp add: connected_def demo_device_def demo_locked_def)
  from device_close_returns [OF demo_device_holds this, of demo_env] show ?thesis
    by (simp add: demo_device_def demo_locked_def demo_state_def free_calls_def)
      (auto simp: demo_cb_def lock_region_def cb_handle_new_def has_def)
qed

text \<open>
  The first buffer of the list has a colour buffer on the host, and the calling thread neither
  is connected nor can connect.
\<close>

definition stuck :: "gr_env \<Rightarrow> gr_state \<Rightarrow> addr \<Rightarrow> bool" where
  "stuck E st dev \<longleftrightarrow>
     (case gs_devs st dev of None \<Rightarrow> False
      | Some head \<Rightarrow> head \<noteq> 0 \<and> (case gs_nodes st head of None \<Rightarrow> False
          | Some n \<Rightarrow> an_handle n \<noteq> 0 \<and> (case gs_cbs st (an_handle n) of None \<Rightarrow> False
              | Some c \<Rightarrow> validate c \<and> cb_hostHandle c \<noteq> 0)))
     \<and> \<not> connected st
     \<and> (\<forall>cs. ca_socket (ge_connect E cs) < 0 \<or> ca_connect (ge_connect E cs) < 0)"

lemma stuck_free:
  assumes "stuck E st dev" and "gs_devs st dev = Some head" and "gs_nodes st head = Some n"
  shows "gralloc_free E st dev (an_handle n) = Returned (gcall st TryConnect, - EIO)"
proof -
  obtain c where c: "gs_cbs st (an_handle n) = Some c" "validate c" "cb_hostHandle c \<noteq> 0" "an_handle n \<noteq> 0"
    and nc: "ti_hostConn (gs_thread st) = None"
    using assms by (auto simp: stuck_def connected_def split: option.splits)
  have "HostConnection_get (ge_fresh E) (ge_connect E (gs_calls (gcall st TryConnect))) (gs_thread st)
      = Returned (gs_thread st, False)"
    using assms(1) nc by (intro get_refused) (auto simp: stuck_def)
  then have "get_host E st = Returned (gcall st TryConnect, False)"
    by (simp add: get_host_def nc gcall_def)
  then show ?thesis using c by (simp add: gralloc_free_def valid_cb_def with_host_def)
qed

lemma stuck_step: "stuck E st dev \<Longrightarrow> stuck E (gcall st TryConnect) dev"
  unfolding stuck_def connected_def gcall_simps .

lemma close_loop_stuck:
  assumes "close_loop E st dev = Some r"
  shows "\<not> stuck E st dev"
proof (rule close_loop.raw_induct [OF _ assms])
  fix loop E st dev r
  assume IH: "\<And>E st dev r. loop E st dev = Some r \<Longrightarrow> \<not> stuck E st dev"
    and body: "(case gs_devs st dev of None \<Rightarrow> Some Undefined
      | Some head \<Rightarrow>
          if head = 0 then Some (Returned st)
          else (case gs_nodes st head of
                  None \<Rightarrow> Some Undefined
                | Some n \<Rightarrow>
                    (case gralloc_free E st dev (an_handle n) of
                       Blocked \<Rightarrow> Some Blocked
                     | Undefined \<Rightarrow> Some Undefined
                     | Returned z \<Rightarrow> loop E (fst z) dev))) = Some r"
  show "\<not> stuck E st dev"
  proof
    assume st: "stuck E st dev"
    then obtain head n where "gs_devs st dev = Some head" "gs_nodes st head = Some n" "head \<noteq> 0"
      by (auto simp: stuck_def split: option.splits)
    then have "loop E (gcall st TryConnect) dev = Some r" using body stuck_free [OF st] by simp
    then show False using IH stuck_step [OF st] by blast
  qed
qed

text \<open>
  C34. Without the host a device never closes. When the first buffer of the list has a colour
  buffer on the host and the calling thread can not connect, freeing it fails before the buffer
  leaves the list, and \<open>gralloc_device_close\<close> tries again forever.
\<close>

theorem device_close_hangs:
  assumes "stuck E st dev" and "dev \<noteq> 0"
  shows "gralloc_device_close E st dev = None"
  using assms close_loop_stuck [of E st dev]
  by (cases "close_loop E st dev") (auto simp: gralloc_device_close_def)

theorem device_close_hangs_witness:
  "gralloc_device_close demo_env (demo_device\<lparr>gs_thread := EGLThreadInfo_new\<rparr>) 1 = None"
  by (rule device_close_hangs)
    (simp_all add: stuck_def demo_device_def demo_locked_def connected_def EGLThreadInfo_new_def demo_env_def)

end
