(* ===== verification/GrallocSteps.thy ===== *)
theory GrallocSteps
  imports GrallocProperties
begin

text \<open>
  Everything that can happen to the gralloc state of a process, as a step relation: the
  operations of the module with any arguments and answers, handles that arrive from another
  process, other processes writing to shared memory, and a change of the calling thread. The
  invariant says which mapping belongs to which handle. Nothing is excluded: a free of a handle
  that has no mapping here, or the arrival of one that claims a mapping, spoils a range
  (\<open>spoils_ranges\<close>), of which the invariant then says nothing.
\<close>

section \<open>The invariant\<close>

text \<open>The handle has a mapping in this process.\<close>

definition own :: "gr_env \<Rightarrow> cb_handle \<Rightarrow> bool" where
  "own E c \<longleftrightarrow> cb_ashmemBase c \<noteq> 0 \<and> cb_ashmemBasePid c = ge_pid E"

text \<open>
  \<open>R\<close> are addresses of which nothing is said: where a region has been unmapped for a handle that had
  no mapping in this process, or where a handle has arrived that claims one.
\<close>

definition cb_ok :: "gr_env \<Rightarrow> addr set \<Rightarrow> (addr \<times> int) list \<Rightarrow> cb_handle \<Rightarrow> bool" where
  "cb_ok E R maps c \<longleftrightarrow> (cb_mappedPid c = ge_pid E \<longrightarrow> own E c \<or> cb_ashmemBase c \<in> R)
     \<and> (own E c \<longrightarrow> cb_ashmemBase c \<notin> R \<longrightarrow> 0 < cb_ashmemSize c \<and> (cb_ashmemBase c, cb_ashmemSize c) \<in> set maps)"

definition gr_inv :: "gr_env \<Rightarrow> addr set \<Rightarrow> gr_state \<Rightarrow> bool" where
  "gr_inv E R st \<longleftrightarrow>
     (\<forall>h c. gs_cbs st h = Some c \<longrightarrow> h \<noteq> 0 \<and> cb_ok E R (gs_maps st) c)
     \<and> (\<forall>h c h' c'. gs_cbs st h = Some c \<longrightarrow> gs_cbs st h' = Some c' \<longrightarrow> own E c \<longrightarrow> own E c'
          \<longrightarrow> cb_ashmemBase c = cb_ashmemBase c' \<longrightarrow> cb_ashmemBase c' \<notin> R \<longrightarrow> h = h')
     \<and> distinct (map fst (gs_maps st))
     \<and> (\<forall>(b, sz) \<in> set (gs_maps st). unat b + nat sz \<le> 4294967296)"

lemma gr_invI:
  assumes "\<And>h c. gs_cbs st h = Some c \<Longrightarrow> h \<noteq> 0 \<and> cb_ok E R (gs_maps st) c"
    and "\<And>h c h' c'. gs_cbs st h = Some c \<Longrightarrow> gs_cbs st h' = Some c' \<Longrightarrow> own E c \<Longrightarrow> own E c'
      \<Longrightarrow> cb_ashmemBase c = cb_ashmemBase c' \<Longrightarrow> cb_ashmemBase c' \<notin> R \<Longrightarrow> h = h'"
    and "distinct (map fst (gs_maps st))"
    and "\<And>b sz. (b, sz) \<in> set (gs_maps st) \<Longrightarrow> unat b + nat sz \<le> 4294967296"
  shows "gr_inv E R st"
  unfolding gr_inv_def using assms by blast

lemma gr_invD:
  assumes "gr_inv E R st"
  shows "gs_cbs st h = Some c \<Longrightarrow> h \<noteq> 0" and "gs_cbs st h = Some c \<Longrightarrow> cb_ok E R (gs_maps st) c"
    and "gs_cbs st h = Some c \<Longrightarrow> gs_cbs st h' = Some c' \<Longrightarrow> own E c \<Longrightarrow> own E c'
      \<Longrightarrow> cb_ashmemBase c = cb_ashmemBase c' \<Longrightarrow> cb_ashmemBase c' \<notin> R \<Longrightarrow> h = h'"
    and "distinct (map fst (gs_maps st))"
    and "(b, sz) \<in> set (gs_maps st) \<Longrightarrow> unat b + nat sz \<le> 4294967296"
  using assms unfolding gr_inv_def by blast+

lemma gr_inv_spoil: "gr_inv E R st \<Longrightarrow> R \<subseteq> R' \<Longrightarrow> gr_inv E R' st"
  by (fastforce simp: gr_inv_def cb_ok_def)

text \<open>What the invariant reads of a handle.\<close>

definition same_key :: "cb_handle \<Rightarrow> cb_handle \<Rightarrow> bool" where
  "same_key c d \<longleftrightarrow> validate c = validate d \<and> cb_ashmemSize c = cb_ashmemSize d
     \<and> cb_ashmemBase c = cb_ashmemBase d \<and> cb_ashmemBasePid c = cb_ashmemBasePid d
     \<and> cb_mappedPid c = cb_mappedPid d"

lemma same_key_refl [simp]: "same_key c c"
  by (simp add: same_key_def)

lemma gr_inv_frame:
  assumes "gr_inv E R st" and "gs_maps st' = gs_maps st"
    and "\<And>h c'. gs_cbs st' h = Some c' \<Longrightarrow> \<exists>c. gs_cbs st h = Some c \<and> same_key c' c"
  shows "gr_inv E R st'"
proof (rule gr_invI)
  fix h c' assume "gs_cbs st' h = Some c'"
  then show "h \<noteq> 0 \<and> cb_ok E R (gs_maps st') c'"
    using assms(3) gr_invD(1,2) [OF assms(1)] assms(2) by (fastforce simp: cb_ok_def same_key_def own_def)
next
  fix h c' h2 d'
  assume "gs_cbs st' h = Some c'" "gs_cbs st' h2 = Some d'" "own E c'" "own E d'"
    "cb_ashmemBase c' = cb_ashmemBase d'" "cb_ashmemBase d' \<notin> R"
  moreover obtain c where "gs_cbs st h = Some c" "same_key c' c"
    using assms(3) [OF calculation(1)] by blast
  moreover obtain d where "gs_cbs st h2 = Some d" "same_key d' d"
    using assms(3) [OF calculation(2)] by blast
  ultimately show "h = h2"
    by (intro gr_invD(3) [OF assms(1), of h c h2 d]) (simp_all add: same_key_def own_def)
qed (use gr_invD(4,5) [OF assms(1)] assms(2) in auto)

lemma gr_inv_same:
  "gr_inv E R st \<Longrightarrow> gs_maps st' = gs_maps st \<Longrightarrow> gs_cbs st' = gs_cbs st \<Longrightarrow> gr_inv E R st'"
  by (rule gr_inv_frame) auto

lemma gr_inv_objects: "gr_inv E R st \<Longrightarrow> same_objects st st' \<Longrightarrow> gr_inv E R st'"
  by (rule gr_inv_same) (simp_all add: same_objects_def same_tables_def)

lemma gr_inv_put:
  assumes "gr_inv E R st" and "gs_cbs st h = Some c" and "same_key c' c"
  shows "gr_inv E R (put_cb st h c')"
  using assms(1) by (rule gr_inv_frame) (use assms(2,3) in \<open>auto split: if_splits\<close>)

text \<open>A new mapping for one handle; its old one, if any, stays mapped.\<close>

lemma gr_inv_map:
  assumes "gr_inv E R st" and "h \<noteq> 0" and "0 < cb_ashmemSize c"
    and "own E c" and "cb_ashmemBase c \<notin> fst ` set (gs_maps st)"
    and "unat (cb_ashmemBase c) + nat (cb_ashmemSize c) \<le> 4294967296"
    and "gs_maps st' = (cb_ashmemBase c, cb_ashmemSize c) # gs_maps st" and "gs_cbs st' = (gs_cbs st)(h \<mapsto> c)"
  shows "gr_inv E R st'"
proof (rule gr_invI)
  have other: "cb_ashmemBase d \<noteq> cb_ashmemBase c" if "gs_cbs st g = Some d" "own E d" "cb_ashmemBase d \<notin> R" for g d
    using gr_invD(2) [OF assms(1) that(1)] that(2,3) assms(5) by (force simp: cb_ok_def)
  show "g \<noteq> 0 \<and> cb_ok E R (gs_maps st') d" if "gs_cbs st' g = Some d" for g d
    using that gr_invD(1,2) [OF assms(1), of g d] assms(2-4)
    by (auto simp: assms(7,8) cb_ok_def split: if_splits)
  show "g = g'" if "gs_cbs st' g = Some d" "gs_cbs st' g' = Some d'" "own E d" "own E d'"
    "cb_ashmemBase d = cb_ashmemBase d'" "cb_ashmemBase d' \<notin> R" for g d g' d'
    using that other [of g d] other [of g' d'] gr_invD(3) [OF assms(1), of g d g' d']
    by (auto simp: assms(8) split: if_splits)
qed (use gr_invD(4,5) [OF assms(1)] assms(5,6) in \<open>auto simp: assms(7)\<close>)

text \<open>Unmapping the region of a handle that then has none or is gone.\<close>

lemma gr_inv_unmap:
  assumes "gr_inv E R st" and "gs_cbs st h = Some c" and "own E c \<or> cb_ashmemBase c \<in> R"
    and "gs_maps st' = remove1 (cb_ashmemBase c, cb_ashmemSize c) (gs_maps st)"
    and "gs_cbs st' = (gs_cbs st)(h := d)"
    and "\<And>c'. d = Some c' \<Longrightarrow> cb_ashmemBase c' = 0 \<and> cb_mappedPid c' \<noteq> ge_pid E"
  shows "gr_inv E R st'"
proof (rule gr_invI)
  note i = gr_invD [OF assms(1)]
  have "inj_on fst (set (gs_maps st))" using i(4) by (simp add: distinct_map)
  have other: "(cb_ashmemBase x, cb_ashmemSize x) \<noteq> (cb_ashmemBase c, cb_ashmemSize c)"
    if "gs_cbs st g = Some x" "own E x" "g \<noteq> h" "cb_ashmemBase x \<notin> R" for g x
    using i(3) [OF that(1) assms(2) that(2)] assms(3) that(3,4) by auto
  show "g \<noteq> 0 \<and> cb_ok E R (gs_maps st') x" if x: "gs_cbs st' g = Some x" for g x
  proof (cases "g = h")
    case True
    then show ?thesis
      using x assms(6) i(1) [OF assms(2)] by (auto simp: assms(5) cb_ok_def own_def)
  next
    case False
    then have g: "gs_cbs st g = Some x" using x by (simp add: assms(5))
    then show ?thesis
      using i(1,2) [OF g] other [OF g _ False] i(4)
      by (auto simp: cb_ok_def assms(4) in_set_remove1)
  qed
  show "g = g'" if "gs_cbs st' g = Some x" "gs_cbs st' g' = Some x'" "own E x" "own E x'"
    "cb_ashmemBase x = cb_ashmemBase x'" "cb_ashmemBase x' \<notin> R" for g x g' x'
    using that assms(6) i(3) [of g x g' x'] by (auto simp: assms(5) own_def split: if_splits)
  show "distinct (map fst (gs_maps st'))"
    using i(4) unfolding assms(4) by (auto simp: distinct_map distinct_remove1 inj_on_def dest!: notin_set_remove1 [rotated] in_set_remove1)
  show "unat b + nat sz \<le> 4294967296" if "(b, sz) \<in> set (gs_maps st')" for b sz
    using that i(5) by (metis assms(4) notin_set_remove1)
qed

lemma gr_inv_add:
  assumes "gr_inv E R st" and "h \<noteq> 0"
    and "own E c \<or> cb_mappedPid c = ge_pid E \<longrightarrow> cb_ashmemBase c \<in> R"
    and "gs_maps st' = gs_maps st" and "gs_cbs st' = (gs_cbs st)(h \<mapsto> c)"
  shows "gr_inv E R st'"
proof (rule gr_invI)
  note i = gr_invD [OF assms(1)]
  show "g \<noteq> 0 \<and> cb_ok E R (gs_maps st') x" if "gs_cbs st' g = Some x" for g x
    using that i(1,2) [of g x] assms(2,3) by (auto simp: assms(4,5) cb_ok_def split: if_splits)
  show "g = g'" if "gs_cbs st' g = Some x" "gs_cbs st' g' = Some x'" "own E x" "own E x'"
    "cb_ashmemBase x = cb_ashmemBase x'" "cb_ashmemBase x' \<notin> R" for g x g' x'
    using that assms(3) i(3) [of g x g' x'] by (auto simp: assms(5) split: if_splits)
qed (use gr_invD(4,5) [OF assms(1)] in \<open>auto simp: assms(4)\<close>)

section \<open>Every operation keeps it\<close>

lemma get_host_inv: "gr_inv E R st \<Longrightarrow> get_host E st = Returned (st', ok) \<Longrightarrow> gr_inv E R st'"
  using gr_inv_objects get_host_frame(1) by blast

lemma with_host_cases:
  assumes "with_host E st f = Returned (st', r)"
  obtains s where "same_objects st s" "f s = Returned (st', r)" | "same_objects st st'" "r = - EIO"
  using assms get_host_frame(1) [of E st]
  by (auto simp: with_host_def obind_Returned_iff split: if_splits)

lemma gralloc_alloc_inv:
  assumes "gr_inv E R st" and "kernel_ok E st" and "ge_pid E \<noteq> 0"
    and "gralloc_alloc E st dev w h format usage out = Returned (st', r)"
  shows "gr_inv E R st'"
proof (cases "st' = st")
  case False
  then obtain f pl where f: "pick_format format usage = Some f" "format_layout f usage = Some pl"
    using assms(4) by (auto simp: gralloc_alloc_def bind_eq_Some_conv split: if_splits option.splits)
  obtain size0 stride0 where ab: "ashmem_bytes pl usage w h = (size0, stride0)" by fastforce
  obtain st1 r1 where ar: "alloc_region E st w h format f usage pl size0 = (st1, r1)" by fastforce
  have r: "(case r1 of Inl err \<Rightarrow> Returned (st1, Inl err)
     | Inr (cb, fd) \<Rightarrow> obind (alloc_color E st1 cb w h (pl_glFormat pl) usage fd) (\<lambda>(st2, r).
          if r \<noteq> 0 then Returned (st2, Inl r)
          else obind (alloc_insert E st2 dev cb) (\<lambda>st3.
            Returned (st3, Inr (cb, if format = YCbCr_420_888 then 0 else stride0)))))
     = Returned (st', r)"
    using assms(4) ar ab False
    by (cases r1) (auto simp: gralloc_alloc_def f split: if_splits)
  from ar assms(2) show ?thesis
  proof (cases rule: alloc_region_cases)
    case (1 err)
    then show ?thesis using r gr_inv_same [OF assms(1), of st1] by (simp add: same_tables_def)
  next
    case (2 cb fd c ms)
    have i1: "gr_inv E R st1"
    proof (cases "0 < cb_ashmemSize c")
      case True
      then show ?thesis
        using 2(3,5,7,8) new_handleD(1,7) [OF 2(6)]
        by (intro gr_inv_map [OF assms(1) _ True _ _ _ _ 2(2)]) (auto simp: own_def)
    next
      case False
      then show ?thesis
        using 2(3,5,7) new_handleD(1,5,8) [OF 2(6)] assms(3)
        by (intro gr_inv_add [OF assms(1) _ _ _ 2(2)]) (auto simp: own_def)
    qed
    have cb: "gs_cbs st1 cb = Some c" using 2(2) by simp
    obtain z where ac': "alloc_color E st1 cb w h (pl_glFormat pl) usage fd = Returned z"
      and z: "(case z of (st2, r) \<Rightarrow> if r \<noteq> 0 then Returned (st2, Inl r)
          else obind (alloc_insert E st2 dev cb) (\<lambda>st3.
            Returned (st3, Inr (cb, if format = YCbCr_420_888 then 0 else stride0))))
        = Returned (st', r)"
      using r unfolding 2(1) sum.case prod.case obind_Returned_iff by blast
    obtain st2 r2 where z2: "z = (st2, r2)" by fastforce
    from ac' [unfolded z2] cb have i2: "gr_inv E R st2"
    proof (cases rule: alloc_color_cases)
      case (1 hh)
      then show ?thesis
        using cb by (intro gr_inv_frame [OF i1]) (auto simp: same_tables_def same_key_def validate_def split: if_splits)
    next
      case 2
      then show ?thesis by (intro gr_inv_frame [OF i1]) (auto simp: same_tables_def split: if_splits)
    qed
    show ?thesis
    proof (cases "r2 = 0")
      case True
      then have "alloc_insert E st2 dev cb = Returned st'" using z by (auto simp: z2 obind_Returned_iff)
      then show ?thesis
        by (cases rule: alloc_insert_cases) (use gr_inv_same [OF i2] in blast)
    qed (use i2 z in \<open>simp add: z2\<close>)
  qed
qed (use assms(1) in simp)

lemma valid_cb_Some: "valid_cb st h = Returned (Some c) \<Longrightarrow> gs_cbs st h = Some c \<and> h \<noteq> 0 \<and> validate c"
  by (auto simp: valid_cb_def split: if_splits option.splits)

text \<open>The form of every operation on a handle: refused, or run on a valid one.\<close>

lemma valid_cb_bind:
  assumes "obind (valid_cb st h) (\<lambda>v. case v of None \<Rightarrow> Returned (st, e) | Some c \<Rightarrow> f c) = Returned (st', r)"
  obtains "st' = st" | c where "gs_cbs st h = Some c" "f c = Returned (st', r)"
  using assms valid_cb_Some by (fastforce simp: obind_Returned_iff split: option.splits)

lemma close_color_same: "same_objects st s \<Longrightarrow> same_objects st (close_color s c)"
  by (auto simp: close_color_def same_objects_def same_tables_def Let_def)

text \<open>The part before the release: the colour buffer is closed, or there is none, or no host.\<close>

lemma host_part_cases:
  assumes "(if b then with_host E st (\<lambda>s. Returned (g s, 0)) else Returned (st, 0)) = Returned (st1, r)"
    and "\<And>s. same_objects st s \<Longrightarrow> same_objects st (g s)"
  shows "same_objects st st1"
  using assms by (cases b) (auto elim!: with_host_cases)

lemma gralloc_free_inv:
  assumes "gr_inv E R st" and "gralloc_free E st dev h = Returned (st', r)"
    and "\<And>c. gs_cbs st h = Some c \<Longrightarrow> cb_ashmemBase c = 0 \<or> cb_ashmemBasePid c = ge_pid E \<or> cb_ashmemBase c \<in> R"
  shows "gr_inv E R st'" and "gs_cbs st' h' = None \<or> gs_cbs st' h' = gs_cbs st h'"
proof -
  have "gr_inv E R st' \<and> (gs_cbs st' h' = None \<or> gs_cbs st' h' = gs_cbs st h')"
    using assms(2) unfolding gralloc_free_def
  proof (cases rule: valid_cb_bind)
    case (2 c)
    then obtain st1 r1 where host: "(if cb_hostHandle c \<noteq> 0 then with_host E st (\<lambda>s. Returned (close_color s c, 0))
        else Returned (st, 0)) = Returned (st1, r1)"
      and rest: "(if r1 \<noteq> 0 then Returned (st1, r1)
         else obind (free_node (release_region st1 c) dev h) (\<lambda>st2. Returned (delete_cb st2 h, 0))) = Returned (st', r)"
      by (auto simp: obind_Returned_iff)
    have s1: "same_objects st st1" by (rule host_part_cases [OF host close_color_same])
    then have f1: "gs_cbs st1 = gs_cbs st" "gs_maps st1 = gs_maps st"
      by (simp_all add: same_objects_def same_tables_def)
    show ?thesis
    proof (cases "r1 = 0")
      case False
      then show ?thesis using rest gr_inv_objects [OF assms(1) s1] f1 by simp
    next
      case True
      then obtain st2 where fn: "free_node (release_region st1 c) dev h = Returned st2" and st': "st' = delete_cb st2 h"
        using rest by (auto simp: obind_Returned_iff)
      have maps: "gs_maps st' = gs_maps (release_region st1 c)" and cbs: "gs_cbs st' = (gs_cbs st)(h := None)"
        using fn f1 by (auto simp: st' free_node_def split: option.splits)
      have "gr_inv E R st'"
      proof (cases "0 < cb_fd c \<and> 0 < cb_ashmemSize c \<and> cb_ashmemBase c \<noteq> 0")
        case True
        then have "own E c \<or> cb_ashmemBase c \<in> R" using assms(3) [OF 2(1)] by (auto simp: own_def)
        then show ?thesis
          using True f1 by (intro gr_inv_unmap [OF assms(1) 2(1) _ _ cbs]) (simp_all add: maps)
      next
        case False
        then show ?thesis using f1 by (intro gr_inv_frame [OF assms(1)]) (auto simp: maps cbs split: if_splits)
      qed
      then show ?thesis by (simp add: cbs)
    qed
  qed (use assms(1) in simp)
  then show "gr_inv E R st'" and "gs_cbs st' h' = None \<or> gs_cbs st' h' = gs_cbs st h'" by simp_all
qed

text \<open>The handles with a mapping of another process: what closing a device must not meet.\<close>

definition no_foreign :: "gr_env \<Rightarrow> addr set \<Rightarrow> gr_state \<Rightarrow> bool" where
  "no_foreign E R st \<longleftrightarrow> (\<forall>h c. gs_cbs st h = Some c \<longrightarrow>
     cb_ashmemBase c = 0 \<or> cb_ashmemBasePid c = ge_pid E \<or> cb_ashmemBase c \<in> R)"

lemma close_loop_inv:
  assumes "close_loop E st dev = Some (Returned st')" and "gr_inv E R st" and "no_foreign E R st"
  shows "gr_inv E R st'"
proof -
  have "\<forall>st'. r = Returned st' \<longrightarrow> gr_inv E R st \<longrightarrow> no_foreign E R st \<longrightarrow> gr_inv E R st'"
    if "close_loop E st dev = Some r" for r
  proof (rule close_loop.raw_induct [OF _ that], intro allI impI)
    fix loop E st dev r st'
    assume IH: "\<And>E st dev r. loop E st dev = Some r \<Longrightarrow>
        \<forall>st'. r = Returned st' \<longrightarrow> gr_inv E R st \<longrightarrow> no_foreign E R st \<longrightarrow> gr_inv E R st'"
      and body: "(case gs_devs st dev of None \<Rightarrow> Some Undefined
        | Some head \<Rightarrow>
            if head = 0 then Some (Returned st)
            else (case gs_nodes st head of
                    None \<Rightarrow> Some Undefined
                  | Some n \<Rightarrow>
                      (case gralloc_free E st dev (an_handle n) of
                         Blocked \<Rightarrow> Some Blocked
                       | Undefined \<Rightarrow> Some Undefined
                       | Returned z \<Rightarrow> loop E (fst z) dev))) = Some r"
      and r: "r = Returned st'" and inv: "gr_inv E R st" and nf: "no_foreign E R st"
    then obtain head where head: "gs_devs st dev = Some head" by (auto split: option.splits)
    show "gr_inv E R st'"
    proof (cases "head = 0")
      case False
      then obtain n z where n: "gs_nodes st head = Some n" and z: "gralloc_free E st dev (an_handle n) = Returned z"
        and l: "loop E (fst z) dev = Some r"
        using body head r by (auto split: option.splits outcome.splits)
      obtain s q where zz: "z = (s, q)" by fastforce
      have own: "cb_ashmemBase c = 0 \<or> cb_ashmemBasePid c = ge_pid E \<or> cb_ashmemBase c \<in> R" if "gs_cbs st (an_handle n) = Some c" for c
        using nf that by (auto simp: no_foreign_def)
      note fr = gralloc_free_inv [OF inv z [unfolded zz] own]
      have "no_foreign E R s"
        using nf fr(2) unfolding no_foreign_def by (metis option.distinct(1))
      then show ?thesis using IH [OF l] r fr(1) by (simp add: zz)
    qed (use body head r inv in simp)
  qed
  then show ?thesis using assms by blast
qed

text \<open>\<open>pthread_once\<close> and forwarded calls touch no buffer.\<close>

lemma once_fallback_same:
  "gs_cbs (once_fallback E st) = gs_cbs st" "gs_maps (once_fallback E st) = gs_maps st"
  "gs_nodes (once_fallback E st) = gs_nodes st" "calls_within 1 st (once_fallback E st)"
  by (auto simp: once_fallback_def fallback_init_def calls_within_def)

lemma forward_same [simp]:
  "gs_cbs (fst (forward E st f)) = gs_cbs st" "gs_maps (fst (forward E st f)) = gs_maps st"
  by (simp_all add: forward_def Let_def)

lemma same_objects_trans: "same_objects a b \<Longrightarrow> same_objects b c \<Longrightarrow> same_objects a c"
  using same_tables_trans by (auto simp: same_objects_def)

lemma gralloc_register_inv:
  assumes "gr_inv E R st0" and "kernel_ok E st0" and "gralloc_register_buffer E st0 module h = Returned (st', r)"
  shows "gr_inv E R st'"
proof -
  define st where "st = once_fallback E st0"
  note once = once_fallback_same [where E = E and st = st0, folded st_def]
  have i0: "gr_inv E R st" by (rule gr_inv_same [OF assms(1) once(2,1)])
  show ?thesis
  proof (cases "gs_fallback st \<or> module = 0")
    case True
    then show ?thesis
      using assms(3) gr_inv_same [OF i0, of "fst (forward E st (F_registerBuffer h))"] i0
      by (auto simp: gralloc_register_buffer_def Let_def st_def split: if_splits)
  next
    case False
    let ?open = "\<lambda>c s. gcall s (Host (rcOpenColorBuffer (cb_hostHandle c)))"
    have "obind (valid_cb st h) (\<lambda>v. case v of None \<Rightarrow> Returned (st, - EINVAL)
      | Some c \<Rightarrow>
          obind (if cb_hostHandle c \<noteq> 0 then with_host E st (\<lambda>s. Returned (?open c s, 0)) else Returned (st, 0))
           (\<lambda>(st1, r).
            if r \<noteq> 0 then Returned (st1, r)
            else if 0 < cb_ashmemSize c \<and> cb_mappedPid c \<noteq> ge_pid E
            then (case map_buffer E st1 h c of
                    (st2, err) \<Rightarrow>
                      if err \<noteq> 0 then Returned (st2, - err)
                      else (case gs_cbs st2 h of
                              None \<Rightarrow> Undefined
                            | Some c2 \<Rightarrow> Returned (put_cb st2 h (c2\<lparr>cb_mappedPid := ge_pid E\<rparr>), 0)))
            else Returned (st1, 0))) = Returned (st', r)"
      using assms(3) False by (simp add: gralloc_register_buffer_def Let_def flip: st_def)
    then show ?thesis
    proof (cases rule: valid_cb_bind)
      case (2 c)
      obtain st1 r1 where host: "(if cb_hostHandle c \<noteq> 0 then with_host E st (\<lambda>s. Returned (?open c s, 0))
          else Returned (st, 0)) = Returned (st1, r1)"
        and rest: "(if r1 \<noteq> 0 then Returned (st1, r1)
            else if 0 < cb_ashmemSize c \<and> cb_mappedPid c \<noteq> ge_pid E
            then (case map_buffer E st1 h c of
                    (st2, err) \<Rightarrow>
                      if err \<noteq> 0 then Returned (st2, - err)
                      else (case gs_cbs st2 h of
                              None \<Rightarrow> Undefined
                            | Some c2 \<Rightarrow> Returned (put_cb st2 h (c2\<lparr>cb_mappedPid := ge_pid E\<rparr>), 0)))
            else Returned (st1, 0)) = Returned (st', r)"
        using 2(2) by (auto simp: obind_Returned_iff)
      have s1: "same_objects st st1" by (rule host_part_cases [OF host same_objects_gcall])
      have i1: "gr_inv E R st1" by (rule gr_inv_objects [OF i0 s1])
      have c1: "gs_cbs st1 h = Some c" and m1: "gs_maps st1 = gs_maps st0"
        using s1 2(1) once by (simp_all add: same_objects_def same_tables_def)
      have "calls_within 2 st st1"
        using host get_host_calls [of E st]
        by (fastforce simp: with_host_def obind_Returned_iff calls_within_def split: if_splits)
      from calls_within_trans [OF once(4) this] obtain cs where cs: "gs_calls st1 = gs_calls st0 @ cs" "length cs \<le> 3"
        by (auto simp: calls_within_def)
      show ?thesis
      proof (cases "r1 = 0 \<and> 0 < cb_ashmemSize c \<and> cb_mappedPid c \<noteq> ge_pid E")
        case False
        then show ?thesis using rest i1 by (auto split: if_splits)
      next
        case True
        obtain st2 err where mb: "map_buffer E st1 h c = (st2, err)" by fastforce
        have "\<And>ds. 0 < ge_errno E ds" using assms(2) by (simp add: kernel_ok_def)
        from mb this show ?thesis
        proof (cases rule: map_buffer_cases)
          case 1
          then have "st' = st2" using rest True mb 1(1) by simp
          then show ?thesis using gr_inv_objects [OF i1 1(2)] by simp
        next
          case (2 a)
          let ?c = "c\<lparr>cb_ashmemBase := a, cb_ashmemBasePid := ge_pid E, cb_mappedPid := ge_pid E\<rparr>"
          have st': "st' = put_cb st2 h ?c" using rest True mb 2(1,5) by simp
          have a: "a \<noteq> 0 \<and> unat a + nat (cb_ashmemSize c) \<le> 4294967296 \<and> a \<notin> fst ` set (gs_maps st0)"
            using kernel_okD(5) [OF assms(2), of cs "cb_ashmemSize c" "cb_fd c"] cs 2(2,4) by simp
          show ?thesis
            using a 2(5,6) True m1 gr_invD(1) [OF i1 c1]
            by (intro gr_inv_map [OF i1, of h ?c]) (simp_all add: st' own_def)
        qed
      qed
    qed (use i0 in simp)
  qed
qed

lemma gralloc_unregister_inv:
  assumes "gr_inv E R st" and "ge_pid E \<noteq> 0" and "gralloc_unregister_buffer E st module h = Returned (st', r)"
  shows "gr_inv E R st'"
proof (cases "gs_fallback st \<or> module = 0")
  case True
  then show ?thesis
    using assms(3) gr_inv_same [OF assms(1), of "fst (forward E st (F_unregisterBuffer h))"] assms(1)
    by (auto simp: gralloc_unregister_buffer_def split: if_splits)
next
  case False
  have "gralloc_unregister_buffer E st module h = obind (valid_cb st h) (\<lambda>v. case v of
        None \<Rightarrow> Returned (st, - EINVAL)
      | Some c \<Rightarrow>
          obind (if cb_hostHandle c \<noteq> 0
                 then with_host E st (\<lambda>s. Returned (gcall s (Host (rcCloseColorBuffer (cb_hostHandle c))), 0))
                 else Returned (st, 0)) (\<lambda>(st1, r).
            if r \<noteq> 0 then Returned (st1, r)
            else if 0 < cb_ashmemSize c \<and> cb_mappedPid c = ge_pid E
            then (let st2 = gcall st1 (Munmap (cb_ashmemBase c) (cb_ashmemSize c))
                  in if ge_int E (gs_calls st2) \<noteq> 0 then Returned (st2, - EINVAL)
                     else Returned ((put_cb st2 h (c\<lparr>cb_ashmemBase := 0, cb_mappedPid := 0\<rparr>))
                            \<lparr>gs_maps := remove1 (cb_ashmemBase c, cb_ashmemSize c) (gs_maps st2)\<rparr>, 0))
            else Returned (st1, 0)))"
    using False by (simp add: gralloc_unregister_buffer_def)
  from assms(3) [unfolded this] show ?thesis
  proof (cases rule: valid_cb_bind)
    case (2 c)
    obtain st1 r1 where host: "(if cb_hostHandle c \<noteq> 0
         then with_host E st (\<lambda>s. Returned (gcall s (Host (rcCloseColorBuffer (cb_hostHandle c))), 0))
         else Returned (st, 0)) = Returned (st1, r1)"
      and rest: "(if r1 \<noteq> 0 then Returned (st1, r1)
            else if 0 < cb_ashmemSize c \<and> cb_mappedPid c = ge_pid E
            then (let st2 = gcall st1 (Munmap (cb_ashmemBase c) (cb_ashmemSize c))
                  in if ge_int E (gs_calls st2) \<noteq> 0 then Returned (st2, - EINVAL)
                     else Returned ((put_cb st2 h (c\<lparr>cb_ashmemBase := 0, cb_mappedPid := 0\<rparr>))
                            \<lparr>gs_maps := remove1 (cb_ashmemBase c, cb_ashmemSize c) (gs_maps st2)\<rparr>, 0))
            else Returned (st1, 0)) = Returned (st', r)"
      using 2(2) by (auto simp: obind_Returned_iff)
    have s1: "same_objects st st1" by (rule host_part_cases [OF host same_objects_gcall])
    have i1: "gr_inv E R st1" by (rule gr_inv_objects [OF assms(1) s1])
    have c1: "gs_cbs st1 h = Some c" using s1 2(1) by (simp add: same_objects_def)
    have ok: "cb_mappedPid c = ge_pid E \<longrightarrow> own E c \<or> cb_ashmemBase c \<in> R"
      using gr_invD(2) [OF i1 c1] by (simp add: cb_ok_def)
    define s2 where "s2 = gcall st1 (Munmap (cb_ashmemBase c) (cb_ashmemSize c))"
    have i2: "gr_inv E R s2" by (rule gr_inv_same [OF i1]) (simp_all add: s2_def)
    let ?d = "c\<lparr>cb_ashmemBase := 0, cb_mappedPid := 0\<rparr>"
    consider "st' = st1" | "st' = s2"
      | "cb_mappedPid c = ge_pid E" "st' = (put_cb s2 h ?d)
          \<lparr>gs_maps := remove1 (cb_ashmemBase c, cb_ashmemSize c) (gs_maps s2)\<rparr>"
      using rest by (auto simp: Let_def simp flip: s2_def split: if_splits)
    then show ?thesis
    proof cases
      case 3
      then show ?thesis
        using ok assms(2) c1
        by (intro gr_inv_unmap [OF i2, of h c _ "Some ?d"]) (auto simp: s2_def validate_def)
    qed (use i1 i2 in simp_all)
  qed (use assms(1) in simp)
qed

lemma sync_host_same: "sync_host E st c n b = Returned (st1, r) \<Longrightarrow> same_objects st st1"
  by (cases "cb_hostHandle c = 0")
    (auto simp: sync_host_def Let_def elim!: with_host_cases intro: same_objects_gcall)

lemma lock_cb_cases:
  assumes "lock_cb E st h c usage l t w ht = Returned (st', r, v)"
  obtains "same_objects st st'" "v = None"
  | st1 where "same_objects st st1" "r = 0" "v = Some (pixel_base c)" "own E c"
      "st' = (if has usage SW_WRITE_MASK \<or> has usage HW_CAMERA_WRITE
              then put_cb st1 h (lock_region c l t w ht) else st1)"
  using assms unfolding lock_cb_def
  by (auto simp: obind_Returned_iff own_def split: if_splits dest: sync_host_same)

lemma gralloc_lock_cases:
  assumes "gralloc_lock E st module h usage l t w ht = Returned (st', r, v)" and "\<not> gs_fallback st"
  obtains "same_objects st st'" "v = None"
  | c where "gs_cbs st h = Some c" "lock_cb E st h c usage l t w ht = Returned (st', r, v)" "validate c"
  using assms valid_cb_Some
  by (fastforce simp: gralloc_lock_def obind_Returned_iff split: if_splits option.splits)

lemma gralloc_lock_inv:
  assumes "gr_inv E R st" and "gralloc_lock E st module h usage l t w ht = Returned (st', r, v)"
  shows "gr_inv E R st'"
proof (cases "gs_fallback st")
  case True
  then show ?thesis
    using assms(2) gr_inv_same [OF assms(1), of st'] by (auto simp: gralloc_lock_def Let_def)
next
  case False
  from assms(2) this show ?thesis
  proof (cases rule: gralloc_lock_cases)
    case (2 c)
    from 2(2) show ?thesis
    proof (cases rule: lock_cb_cases)
      case (2 st1)
      have "gs_cbs st1 h = Some c" using \<open>gs_cbs st h = Some c\<close> 2(1) by (simp add: same_objects_def)
      then show ?thesis
        using gr_inv_objects [OF assms(1) 2(1)] gr_inv_put [of E R st1 h c "lock_region c l t w ht"]
        by (auto simp: 2(5) same_key_def lock_region_def validate_def)
    qed (use gr_inv_objects [OF assms(1)] in blast)
  qed (use gr_inv_objects [OF assms(1)] in blast)
qed

lemma gralloc_unlock_inv:
  assumes "gr_inv E R st" and "gralloc_unlock E st module h = Returned (st', r)"
  shows "gr_inv E R st'"
proof (cases "gs_fallback st \<or> module = 0")
  case True
  then show ?thesis
    using assms(2) gr_inv_same [OF assms(1), of "fst (forward E st (F_unlock h))"] assms(1)
    by (auto simp: gralloc_unlock_def split: if_splits)
next
  case False
  let ?send = "\<lambda>c s. case unlock_update s c of None \<Rightarrow> Undefined | Some u \<Rightarrow> Returned (gcall s (Host u), 0)"
  have "gralloc_unlock E st module h = obind (valid_cb st h) (\<lambda>v. case v of
        None \<Rightarrow> Returned (st, - EINVAL)
      | Some c \<Rightarrow>
          obind (if 0 < cb_lockedWidth c \<and> 0 < cb_lockedHeight c \<and> cb_hostHandle c \<noteq> 0
                 then with_host E st (?send c) else Returned (st, 0)) (\<lambda>(st1, r).
            if r \<noteq> 0 then Returned (st1, r)
            else Returned (put_cb st1 h (c\<lparr>cb_lockedWidth := 0, cb_lockedHeight := 0\<rparr>), 0)))"
    using False by (simp add: gralloc_unlock_def)
  from assms(2) [unfolded this] show ?thesis
  proof (cases rule: valid_cb_bind)
    case (2 c)
    obtain st1 r1 where host: "(if 0 < cb_lockedWidth c \<and> 0 < cb_lockedHeight c \<and> cb_hostHandle c \<noteq> 0
         then with_host E st (?send c) else Returned (st, 0)) = Returned (st1, r1)"
      and rest: "st' = (if r1 \<noteq> 0 then st1 else put_cb st1 h (c\<lparr>cb_lockedWidth := 0, cb_lockedHeight := 0\<rparr>))"
      using 2(2) by (auto simp: obind_Returned_iff split: if_splits)
    have s1: "same_objects st st1"
    proof (cases "0 < cb_lockedWidth c \<and> 0 < cb_lockedHeight c \<and> cb_hostHandle c \<noteq> 0")
      case True
      then have "with_host E st (?send c) = Returned (st1, r1)" using host by simp
      then show ?thesis
        by (cases rule: with_host_cases) (auto split: option.splits intro: same_objects_gcall)
    qed (use host in \<open>simp split: if_splits\<close>)
    then have "gs_cbs st1 h = Some c" using 2(1) by (simp add: same_objects_def)
    then show ?thesis
      using gr_inv_objects [OF assms(1) s1] gr_inv_put [of E R st1 h c "c\<lparr>cb_lockedWidth := 0, cb_lockedHeight := 0\<rparr>"]
      by (simp add: rest same_key_def validate_def)
  qed (use assms(1) in simp)
qed

lemma gralloc_lock_ycbcr_inv:
  assumes "gr_inv E R st" and "gralloc_lock_ycbcr E st module h usage l t w ht out = Returned (st', r)"
  shows "gr_inv E R st'"
proof -
  have "st' = st \<or> (\<exists>c. gs_cbs st h = Some c \<and> st' = put_cb st h (lock_region c l t w ht))"
    using assms(2) valid_cb_Some [of st h]
    by (auto simp: gralloc_lock_ycbcr_def obind_Returned_iff Let_def split: if_splits option.splits)
  then show ?thesis
    using assms(1) gr_inv_put [of E R st h _ "lock_region _ l t w ht"]
    by (auto simp: same_key_def lock_region_def validate_def)
qed

text \<open>The framebuffer device and the opening of devices leave handles and mappings alone.\<close>

definition same_buffers :: "gr_state \<Rightarrow> gr_state \<Rightarrow> bool" where
  "same_buffers st st' \<longleftrightarrow> gs_cbs st' = gs_cbs st \<and> gs_maps st' = gs_maps st"

lemma flush_host_same: "flush_host s = Returned st' \<Longrightarrow> same_buffers s st'"
  by (auto simp: flush_host_def obind_Returned_iff same_buffers_def split: option.splits)

lemma same_objects_buffers: "same_objects st s \<Longrightarrow> same_buffers st s"
  by (simp add: same_objects_def same_tables_def same_buffers_def)

lemma bump_counter_same: "bump_counter s a = Some s' \<Longrightarrow> same_buffers s s'"
  by (auto simp: bump_counter_def same_buffers_def Let_def split: if_splits)

lemma fb_post_same:
  assumes "fb_post E st fbdev buffer = Returned (st', r)"
  shows "same_buffers st st'"
proof (cases "st' = st")
  case False
  then obtain c where c: "canBePosted c" and w: "with_host E st (\<lambda>st1.
            if cb_ashmemBase c = 0 then Returned (st1, - EINVAL)
            else case bump_counter st1 (cb_ashmemBase c) of
                   None \<Rightarrow> Undefined
                 | Some st2 \<Rightarrow>
                     obind (flush_host (gcall st2 (Host (rcFBPost (cb_hostHandle c)))))
                       (\<lambda>st3. Returned (st3, 0))) = Returned (st', r)"
    using assms by (auto simp: fb_post_def obind_Returned_iff split: if_splits option.splits)
  from w show ?thesis
  proof (cases rule: with_host_cases)
    case (1 s)
    then show ?thesis
      using same_objects_buffers [OF 1(1)]
      by (auto simp: obind_Returned_iff same_buffers_def split: if_splits option.splits
          dest!: flush_host_same bump_counter_same)
  qed (rule same_objects_buffers)
qed (simp add: same_buffers_def)

lemma fb_setSwapInterval_same:
  assumes "fb_setSwapInterval E st fbdev i = Returned (st', r)"
  shows "same_buffers st st'"
proof (cases "fbdev = 0")
  case False
  then have "with_host E st (\<lambda>st1. obind (flush_host (gcall st1 (Host (rcFBSetSwapInterval i))))
      (\<lambda>st2. Returned (st2, 0))) = Returned (st', r)"
    using assms by (simp add: fb_setSwapInterval_def)
  then show ?thesis
    by (cases rule: with_host_cases)
      (auto simp: obind_Returned_iff same_buffers_def dest!: flush_host_same same_objects_buffers)
qed (use assms in \<open>simp add: fb_setSwapInterval_def same_buffers_def\<close>)

lemma fb_setOrientation_same:
  assumes "fb_setOrientation E st fbdev i = Returned st'"
  shows "same_buffers st st'"
proof -
  obtain r where m: "fb_manageOrientation E st fbdev i = Returned (st', r)"
    using assms by (auto simp: fb_setOrientation_def obind_Returned_iff)
  show ?thesis
  proof (cases "fbdev = 0")
    case False
    then have "with_host E st (\<lambda>st1. case gs_fbs st1 fbdev of
          None \<Rightarrow> Undefined
        | Some fb \<Rightarrow>
            if fb_orientation fb = i then Returned (st1, 0)
            else (let st2 = (if i = 0 then gcall st1 (Host (rcSetOrientation 0))
                             else if i = 1 then gcall st1 (Host (rcSetOrientation 90))
                             else if i = 2 then gcall st1 (Host (rcSetOrientation 180))
                             else if i = 3 then gcall st1 (Host (rcSetOrientation 270))
                             else st1)
                  in Returned (st2\<lparr>gs_fbs := (gs_fbs st2)(fbdev \<mapsto> fb\<lparr>fb_orientation := i\<rparr>)\<rparr>, 0))) = Returned (st', r)"
      using m by (simp add: fb_manageOrientation_def)
    then show ?thesis
      by (cases rule: with_host_cases)
        (auto simp: same_buffers_def Let_def split: option.splits if_splits dest!: same_objects_buffers)
  qed (use m in \<open>simp add: fb_manageOrientation_def same_buffers_def\<close>)
qed

lemma query_fb_same: "query_fb E st ps = (st', rs) \<Longrightarrow> same_buffers st st'"
  by (induction ps arbitrary: st st' rs)
    (fastforce simp: same_buffers_def Let_def split: prod.splits)+

lemma same_buffers_trans: "same_buffers a b \<Longrightarrow> same_buffers b c \<Longrightarrow> same_buffers a c"
  and same_buffers_refl [simp]: "same_buffers a a"
  by (simp_all add: same_buffers_def)

lemma open_host_same:
  assumes "obind (get_host E st) (\<lambda>(st1, ok). if \<not> ok then Returned (st1, e) else f st1) = Returned (st', r)"
    and "\<And>s. f s = Returned (st', r) \<Longrightarrow> same_buffers s st'"
  shows "same_buffers st st'"
proof -
  obtain st1 ok where gh: "get_host E st = Returned (st1, ok)"
    and z: "(if \<not> ok then Returned (st1, e) else f st1) = Returned (st', r)"
    using assms(1) by (auto simp: obind_Returned_iff)
  have "same_buffers st st1" by (rule same_objects_buffers [OF get_host_frame(1) [OF gh]])
  moreover have "same_buffers st1 st'" using z assms(2) [of st1] by (cases ok) auto
  ultimately show ?thesis by (rule same_buffers_trans)
qed

lemma gralloc_device_open_same:
  assumes "gralloc_device_open E st0 name = Returned (st', r)"
  shows "same_buffers st0 st'"
proof -
  define st where "st = once_fallback E st0"
  have "same_buffers st0 st" by (simp add: st_def same_buffers_def once_fallback_same)
  moreover have "same_buffers st st'"
  proof (cases "gs_fallback st")
    case True
    then show ?thesis
      using assms by (auto simp: gralloc_device_open_def same_buffers_def forward_def Let_def simp flip: st_def)
  next
    case False
    note op = assms [unfolded gralloc_device_open_def Let_def, folded st_def, unfolded if_not_P [OF False]]
    consider "name = ''gpu0''" | "name = ''fb0''" | "name \<noteq> ''gpu0''" "name \<noteq> ''fb0''" by blast
    then show ?thesis
    proof cases
      case 1
      show ?thesis
        using op unfolding if_P [OF 1]
        by (rule open_host_same) (auto simp: same_buffers_def split: if_splits)
    next
      case 2
      then have no: "name \<noteq> ''gpu0''" by simp
      show ?thesis
        using op unfolding if_not_P [OF no] if_P [OF 2]
        by (rule open_host_same)
          (auto simp: same_buffers_def split: if_splits prod.splits dest!: query_fb_same)
    qed (use op in simp)
  qed
  ultimately show ?thesis by (rule same_buffers_trans)
qed

section \<open>Calls and runs\<close>

text \<open>What a call does to the address space: a buffer is freed, a device is closed, a handle arrives.\<close>

datatype gr_event = Frees addr | Closes | Receives cb_handle | Other

text \<open>
  One operation of the module that returns, with any arguments and any answers of the host; a handle
  that arrives in fresh memory, with any contents; a write to shared memory by another process; a
  change of the calling thread. Of the kernel it is asked that new memory is not in use
  (\<open>kernel_ok\<close>).
\<close>

inductive gr_does :: "gr_env \<Rightarrow> gr_event \<Rightarrow> gr_state \<Rightarrow> gr_state \<Rightarrow> bool" for E where
  Alloc: "kernel_ok E st \<Longrightarrow> gralloc_alloc E st dev w h format usage out = Returned (st', r) \<Longrightarrow> gr_does E Other st st'"
| Free: "gralloc_free E st dev h = Returned (st', r1) \<Longrightarrow> gr_does E (Frees h) st st'"
| Close: "gralloc_device_close E st dev = Some (Returned (st', r1)) \<Longrightarrow> gr_does E Closes st st'"
| Open: "gralloc_device_open E st name = Returned (st', r2) \<Longrightarrow> gr_does E Other st st'"
| Register: "kernel_ok E st \<Longrightarrow> gralloc_register_buffer E st module h = Returned (st', r1) \<Longrightarrow> gr_does E Other st st'"
| Unregister: "gralloc_unregister_buffer E st module h = Returned (st', r1) \<Longrightarrow> gr_does E Other st st'"
| Lock: "gralloc_lock E st module h usage l t w ht = Returned (st', r1, v) \<Longrightarrow> gr_does E Other st st'"
| Unlock: "gralloc_unlock E st module h = Returned (st', r1) \<Longrightarrow> gr_does E Other st st'"
| LockYcbcr: "gralloc_lock_ycbcr E st module h usage l t w ht out = Returned (st', r3) \<Longrightarrow> gr_does E Other st st'"
| Post: "fb_post E st fbdev h = Returned (st', r1) \<Longrightarrow> gr_does E Other st st'"
| Swap: "fb_setSwapInterval E st fbdev i = Returned (st', r1) \<Longrightarrow> gr_does E Other st st'"
| Orientation: "fb_setOrientation E st fbdev i = Returned st' \<Longrightarrow> gr_does E Other st st'"
| CloseFb: "fb_close st fbdev = Returned (st', r1) \<Longrightarrow> gr_does E Other st st'"
| Receive: "h \<noteq> 0 \<Longrightarrow> gs_cbs st h = None \<Longrightarrow> gr_does E (Receives c) st (put_cb st h c)"
| Memory: "gr_does E Other st (st\<lparr>gs_mem := m\<rparr>)"
| Thread: "gr_does E Other st (st\<lparr>gs_thread := ti\<rparr>)"

text \<open>
  The ranges that are no longer to be trusted. \<open>gralloc_free\<close> unmaps the range that the handle names,
  also when the handle still names the mapping of another process (it has arrived and has not been
  registered here): whatever this process has at these addresses is gone. Closing a device frees its
  buffers. And a handle may arrive that says that it is mapped in this process already.
\<close>

definition foreign_ranges :: "gr_env \<Rightarrow> gr_state \<Rightarrow> addr set \<Rightarrow> (addr \<times> int) set" where
  "foreign_ranges E st H = {(cb_ashmemBase c, cb_ashmemSize c) | h c. h \<in> H \<and> gs_cbs st h = Some c
     \<and> cb_ashmemBase c \<noteq> 0 \<and> cb_ashmemBasePid c \<noteq> ge_pid E}"

fun spoils_ranges :: "gr_env \<Rightarrow> gr_state \<Rightarrow> gr_event \<Rightarrow> (addr \<times> int) set" where
  "spoils_ranges E st (Frees h) = foreign_ranges E st {h}"
| "spoils_ranges E st Closes = foreign_ranges E st UNIV"
| "spoils_ranges E st (Receives c) =
     (if own E c \<or> cb_mappedPid c = ge_pid E then {(cb_ashmemBase c, cb_ashmemSize c)} else {})"
| "spoils_ranges E st Other = {}"

lemma gr_does_inv:
  assumes "gr_does E ev st st'" and i: "gr_inv E R st" and "ge_pid E \<noteq> 0"
  shows "gr_inv E (R \<union> fst ` spoils_ranges E st ev) st'"
proof -
  define R' where "R' = R \<union> fst ` spoils_ranges E st ev"
  have i': "gr_inv E R' st" using i by (rule gr_inv_spoil) (simp add: R'_def)
  have same: "gr_inv E R' st'" if "same_buffers st st'"
    using i' gr_inv_same that by (auto simp: same_buffers_def)
  have "gr_inv E R' st'"
    using assms(1)
  proof cases
    case (Alloc dev w h format usage out r)
    then show ?thesis using gralloc_alloc_inv i' assms(3) by blast
  next
    case (Free dev h r1)
    have "cb_ashmemBase c = 0 \<or> cb_ashmemBasePid c = ge_pid E \<or> cb_ashmemBase c \<in> R'" if "gs_cbs st h = Some c" for c
      using that by (force simp: R'_def Free(1) foreign_ranges_def)
    then show ?thesis using gralloc_free_inv(1) [OF i' Free(2)] by blast
  next
    case (Close dev r1)
    have "no_foreign E R' st" by (force simp: no_foreign_def R'_def Close(1) foreign_ranges_def)
    moreover have "st' = st \<or> (\<exists>s. close_loop E st dev = Some (Returned s) \<and> st' = s\<lparr>gs_devs := (gs_devs s)(dev := None)\<rparr>)"
      using Close(2) by (auto simp: gralloc_device_close_def obind_Returned_iff split: if_splits)
    ultimately show ?thesis
      using i' close_loop_inv [OF _ i'] gr_inv_same by fastforce
  next
    case (Register module h r1)
    then show ?thesis using gralloc_register_inv [OF i'] by blast
  next
    case (Unregister module h r1)
    then show ?thesis using gralloc_unregister_inv [OF i' assms(3)] by blast
  next
    case (Lock module h usage l t w ht r1 v)
    then show ?thesis using gralloc_lock_inv [OF i'] by blast
  next
    case (Unlock module h r1)
    then show ?thesis using gralloc_unlock_inv [OF i'] by blast
  next
    case (LockYcbcr module h usage l t w ht out r3)
    then show ?thesis using gralloc_lock_ycbcr_inv [OF i'] by blast
  next
    case (Receive h c)
    then show ?thesis by (intro gr_inv_add [OF i', of h c]) (auto simp: R'_def)
  qed (use same gralloc_device_open_same fb_post_same fb_setSwapInterval_same fb_setOrientation_same in
      \<open>auto simp: same_buffers_def fb_close_def split: if_splits\<close>)
  then show ?thesis by (simp add: R'_def)
qed

text \<open>A process that has just loaded the module.\<close>

definition gr_init :: gr_state where
  "gr_init = \<lparr>gs_cbs = Map.empty, gs_nodes = Map.empty, gs_devs = Map.empty, gs_fbs = Map.empty,
     gs_maps = [], gs_mem = (\<lambda>_. 0), gs_thread = EGLThreadInfo_new, gs_once = False,
     gs_fallback = False, gs_calls = []\<rparr>"

lemma gr_inv_init: "gr_inv E R gr_init"
  by (rule gr_invI) (simp_all add: gr_init_def)

text \<open>All runs of a process, with the ranges that have been spoiled.\<close>

inductive gr_run :: "gr_env \<Rightarrow> gr_state \<Rightarrow> (addr \<times> int) set \<Rightarrow> bool" for E where
  start: "gr_run E gr_init {}"
| call: "gr_run E st S \<Longrightarrow> gr_does E ev st st' \<Longrightarrow> gr_run E st' (S \<union> spoils_ranges E st ev)"

lemma gr_run_inv: "gr_run E st S \<Longrightarrow> ge_pid E \<noteq> 0 \<Longrightarrow> gr_inv E (fst ` S) st"
  by (induction rule: gr_run.induct) (auto simp: image_Un intro: gr_inv_init gr_does_inv)

lemma gr_run_quiet: "gr_run E st S \<Longrightarrow> gr_does E ev st st' \<Longrightarrow> spoils_ranges E st ev = {} \<Longrightarrow> gr_run E st' S"
  using gr_run.call [of E st S ev st'] by simp

text \<open>Two ranges of addresses meet.\<close>

definition ranges_meet :: "addr \<times> int \<Rightarrow> addr \<times> int \<Rightarrow> bool" where
  "ranges_meet a b \<longleftrightarrow> fst a = fst b
     \<or> unat (fst a) < unat (fst b) + nat (snd b) \<and> unat (fst b) < unat (fst a) + nat (snd a)"

text \<open>
  C5. A lock hands out mapped memory. Whatever has happened in a process since it loaded the module -
  buffers allocated, received, registered, unregistered, locked and freed, devices opened and closed,
  in any order and with any failures of the kernel and the host - when \<open>gralloc_lock\<close> succeeds (in the
  module itself, not in the fallback), the address it returns is the start of the pixels in the
  buffer's region, and every byte of the region from there to its end is mapped in the process; unless
  the region meets a range that was spoiled (\<open>spoils_ranges\<close>): unmapped by freeing a received handle
  that had not been registered here, or claimed by a handle that arrived as mapped already. The claim
  is about the region, which has the size it was allocated with; whether that is enough for an image
  is a question of the allocation.
\<close>

theorem lock_gives_mapped:
  assumes "gr_run E st S" and "ge_pid E \<noteq> 0" and "\<not> gs_fallback st"
    and "gralloc_lock E st module h usage l t w ht = Returned (st', r, Some a)"
  shows "r = 0 \<and> (\<exists>c. gs_cbs st h = Some c \<and> validate c \<and> a = pixel_base c
    \<and> (let skip = (if canBePosted c then 4 else 0)
       in (\<exists>range \<in> S. ranges_meet range (cb_ashmemBase c, cb_ashmemSize c))
          \<or> (\<forall>k < nat (cb_ashmemSize c) - skip. mapped st' (a + word_of_nat k) 1)))"
proof -
  have i: "gr_inv E (fst ` S) st" by (rule gr_run_inv [OF assms(1,2)])
  from assms(4,3) show ?thesis
  proof (cases rule: gralloc_lock_cases)
    case (2 c)
    note cb = 2(1,3)
    from 2(2) show ?thesis
    proof (cases rule: lock_cb_cases)
      case (2 st1)
      have maps: "gs_maps st' = gs_maps st" using 2(1,5) by (simp add: same_objects_def same_tables_def)
      have "\<forall>k < nat (cb_ashmemSize c) - (if canBePosted c then 4 else 0). mapped st' (pixel_base c + word_of_nat k) 1"
        if clear: "\<not> (\<exists>range \<in> S. ranges_meet range (cb_ashmemBase c, cb_ashmemSize c))"
      proof (intro allI impI)
        fix k assume k: "k < nat (cb_ashmemSize c) - (if canBePosted c then 4 else 0)"
        have "cb_ashmemBase c \<notin> fst ` S" using clear by (force simp: ranges_meet_def)
        then have ok: "(cb_ashmemBase c, cb_ashmemSize c) \<in> set (gs_maps st)"
          using gr_invD(2) [OF i cb(1)] 2(4) by (simp add: cb_ok_def)
        have m: "mapped st' (cb_ashmemBase c + word_of_nat k) 1" if "k < nat (cb_ashmemSize c)" for k
          using mapped_mem [OF ok] gr_invD(5) [OF i ok] that
          by (intro mapped_sub [of st' _ "nat (cb_ashmemSize c)"]) (simp_all add: mapped_cong [OF maps])
        show "mapped st' (pixel_base c + word_of_nat k) 1"
          using m [of k] m [of "k + 4"] k by (auto simp: pixel_base_def algebra_simps split: if_splits)
      qed
      then show ?thesis using 2(2,3) cb by (auto simp: Let_def)
    qed simp
  qed simp
qed

text \<open>A buffer that arrives from another process, is registered and locked for writing.\<close>

definition demo_received :: cb_handle where
  "demo_received = (cb_handle_new 3 4096 0x33 8 4 RGB_565 RGB_565 GL_RGB GL_UNSIGNED_SHORT_5_6_5)
     \<lparr>cb_ashmemBase := 0x20000000, cb_ashmemBasePid := 9, cb_mappedPid := 9\<rparr>"

theorem lock_gives_mapped_witness:
  "\<exists>st st'. gr_run demo_env st {}
     \<and> gralloc_lock demo_env st 1 0x9000 0x33 0 0 8 4 = Returned (st', 0, Some 0x10000000)
     \<and> mapped st' 0x10000000 1"
proof -
  let ?s1 = "put_cb gr_init 0x9000 demo_received"
  let ?c = "demo_received\<lparr>cb_ashmemBase := 0x10000000, cb_ashmemBasePid := 1, cb_mappedPid := 1\<rparr>"
  have val: "validate demo_received"
    by (simp add: demo_received_def cb_handle_new_def validate_def)
  have "gr_does demo_env (Receives demo_received) gr_init ?s1"
    by (rule gr_does.Receive) (simp_all add: gr_init_def)
  from gr_run_quiet [OF gr_run.start this] have r1: "gr_run demo_env ?s1 {}"
    by (simp add: own_def demo_received_def demo_env_def cb_handle_new_def)
  define s0 where "s0 = once_fallback demo_env ?s1"
  have s0: "gs_cbs s0 = [0x9000 \<mapsto> demo_received]" "\<not> gs_fallback s0"
    by (simp_all add: s0_def once_fallback_def fallback_init_def gr_init_def put_cb_def gcall_def demo_env_def Let_def)
  have fields: "cb_hostHandle demo_received = 0" "cb_ashmemSize demo_received = 4096"
    "cb_mappedPid demo_received = 9" "cb_fd demo_received = 3"
    by (simp_all add: demo_received_def cb_handle_new_def)
  obtain s1 where m: "map_buffer demo_env s0 0x9000 demo_received = (s1, 0)"
    and s1: "gs_cbs s1 = [0x9000 \<mapsto> demo_received\<lparr>cb_ashmemBase := 0x10000000, cb_ashmemBasePid := 1\<rparr>]"
      "\<not> gs_fallback s1"
    using s0 fields by (simp add: map_buffer_def gcall_def Let_def put_cb_def demo_env_def)
  have pid: "ge_pid demo_env = 1" by (simp add: demo_env_def)
  have reg: "gralloc_register_buffer demo_env ?s1 1 0x9000 = Returned (put_cb s1 0x9000 ?c, 0)"
    unfolding gralloc_register_buffer_def s0_def [symmetric] Let_def
    using s0 s1 val by (simp add: valid_cb_def m fields pid)
  then obtain s2 where s2: "gralloc_register_buffer demo_env ?s1 1 0x9000 = Returned (s2, 0)"
    "gs_cbs s2 = [0x9000 \<mapsto> ?c]" "\<not> gs_fallback s2"
    using s1 by (simp add: put_cb_def)
  have "kernel_ok demo_env ?s1"
  proof (rule demo_kernel)
    fix n :: nat assume "n < 8"
    moreover have "\<forall>n \<in> set [0..<8]. 0x100 * word_of_nat (Suc n) \<noteq> (0x9000 :: u32)" by (simp add: upt_rec)
    ultimately show "gs_cbs ?s1 (0x100 * word_of_nat (Suc n)) = None" by (simp add: gr_init_def)
  qed (simp_all add: gr_init_def)
  from gr_run_quiet [OF r1 gr_does.Register [OF this s2(1)]] have run: "gr_run demo_env s2 {}" by simp
  have "validate ?c" using val by (simp add: validate_def)
  moreover have "\<not> lock_refused 0x33 ?c" "\<not> canBePosted ?c" "cb_frameworkFormat ?c \<noteq> YCbCr_420_888" "has 0x33 SW_WRITE_MASK"
    by (simp_all add: lock_refused_def canBePosted_def has_def demo_received_def cb_handle_new_def)
  ultimately obtain s3 where l: "gralloc_lock demo_env s2 1 0x9000 0x33 0 0 8 4 = Returned (s3, 0, Some 0x10000000)"
    using s2(2,3)
    by (simp add: gralloc_lock_def valid_cb_def lock_cb_def sync_host_def pid fields pixel_base_def)
  from lock_gives_mapped [OF run _ _ l] s2(2,3) \<open>\<not> canBePosted ?c\<close> fields pid
  have "\<forall>k < 4096. mapped s3 (0x10000000 + word_of_nat k) 1" by simp
  from this [rule_format, of 0] have "mapped s3 0x10000000 1" by simp
  then show ?thesis using run l by auto
qed

end
