(* ===== verification/EGLState.thy ===== *)
theory EGLState
  imports Gralloc GLClientState
begin

text \<open>
  The objects of the EGL library (\<open>egl.cpp\<close>, \<open>eglContext.h\<close>, \<open>eglSurface.h\<close>): contexts, window
  and pbuffer surfaces, the state of the process, and the operations of the objects that the
  entry points call. Handles are addresses; the heap is one map per class. Every operation runs
  on a thread \<open>t\<close>, whose \<open>EGLThreadInfo\<close> holds its error, its current context and its host
  connection. Calls that leave the library (renderControl, the native window, the GLES
  libraries) are a trace; \<open>egl_env\<close> answers them, given the trace up to the call.
\<close>

section \<open>Constants of EGL\<close>

abbreviation (input) EGL_NOT_INITIALIZED :: int where "EGL_NOT_INITIALIZED \<equiv> 0x3001"
abbreviation (input) EGL_BAD_ACCESS :: int where "EGL_BAD_ACCESS \<equiv> 0x3002"
abbreviation (input) EGL_BAD_ALLOC :: int where "EGL_BAD_ALLOC \<equiv> 0x3003"
abbreviation (input) EGL_BAD_ATTRIBUTE :: int where "EGL_BAD_ATTRIBUTE \<equiv> 0x3004"
abbreviation (input) EGL_BAD_CONFIG :: int where "EGL_BAD_CONFIG \<equiv> 0x3005"
abbreviation (input) EGL_BAD_CONTEXT :: int where "EGL_BAD_CONTEXT \<equiv> 0x3006"
abbreviation (input) EGL_BAD_CURRENT_SURFACE :: int where "EGL_BAD_CURRENT_SURFACE \<equiv> 0x3007"
abbreviation (input) EGL_BAD_DISPLAY :: int where "EGL_BAD_DISPLAY \<equiv> 0x3008"
abbreviation (input) EGL_BAD_MATCH :: int where "EGL_BAD_MATCH \<equiv> 0x3009"
abbreviation (input) EGL_BAD_NATIVE_PIXMAP :: int where "EGL_BAD_NATIVE_PIXMAP \<equiv> 0x300A"
abbreviation (input) EGL_BAD_NATIVE_WINDOW :: int where "EGL_BAD_NATIVE_WINDOW \<equiv> 0x300B"
abbreviation (input) EGL_BAD_PARAMETER :: int where "EGL_BAD_PARAMETER \<equiv> 0x300C"
abbreviation (input) EGL_BAD_SURFACE :: int where "EGL_BAD_SURFACE \<equiv> 0x300D"
abbreviation (input) EGL_CONTEXT_LOST :: int where "EGL_CONTEXT_LOST \<equiv> 0x300E"
abbreviation (input) EGL_ALPHA_SIZE :: int where "EGL_ALPHA_SIZE \<equiv> 0x3021"
abbreviation (input) EGL_BLUE_SIZE :: int where "EGL_BLUE_SIZE \<equiv> 0x3022"
abbreviation (input) EGL_GREEN_SIZE :: int where "EGL_GREEN_SIZE \<equiv> 0x3023"
abbreviation (input) EGL_RED_SIZE :: int where "EGL_RED_SIZE \<equiv> 0x3024"
abbreviation (input) EGL_CONFIG_ID :: int where "EGL_CONFIG_ID \<equiv> 0x3028"
abbreviation (input) EGL_NATIVE_VISUAL_ID :: int where "EGL_NATIVE_VISUAL_ID \<equiv> 0x302E"
abbreviation (input) EGL_SURFACE_TYPE :: int where "EGL_SURFACE_TYPE \<equiv> 0x3033"
abbreviation (input) EGL_NONE :: int where "EGL_NONE \<equiv> 0x3038"
abbreviation (input) EGL_VENDOR :: int where "EGL_VENDOR \<equiv> 0x3053"
abbreviation (input) EGL_VERSION :: int where "EGL_VERSION \<equiv> 0x3054"
abbreviation (input) EGL_EXTENSIONS :: int where "EGL_EXTENSIONS \<equiv> 0x3055"
abbreviation (input) EGL_HEIGHT :: int where "EGL_HEIGHT \<equiv> 0x3056"
abbreviation (input) EGL_WIDTH :: int where "EGL_WIDTH \<equiv> 0x3057"
abbreviation (input) EGL_LARGEST_PBUFFER :: int where "EGL_LARGEST_PBUFFER \<equiv> 0x3058"
abbreviation (input) EGL_DRAW :: int where "EGL_DRAW \<equiv> 0x3059"
abbreviation (input) EGL_READ :: int where "EGL_READ \<equiv> 0x305A"
abbreviation (input) EGL_NO_TEXTURE :: int where "EGL_NO_TEXTURE \<equiv> 0x305C"
abbreviation (input) EGL_TEXTURE_FORMAT :: int where "EGL_TEXTURE_FORMAT \<equiv> 0x3080"
abbreviation (input) EGL_TEXTURE_TARGET :: int where "EGL_TEXTURE_TARGET \<equiv> 0x3081"
abbreviation (input) EGL_BACK_BUFFER :: int where "EGL_BACK_BUFFER \<equiv> 0x3084"
abbreviation (input) EGL_RENDER_BUFFER :: int where "EGL_RENDER_BUFFER \<equiv> 0x3086"
abbreviation (input) EGL_CLIENT_APIS :: int where "EGL_CLIENT_APIS \<equiv> 0x308D"
abbreviation (input) EGL_SWAP_BEHAVIOR :: int where "EGL_SWAP_BEHAVIOR \<equiv> 0x3093"
abbreviation (input) EGL_BUFFER_PRESERVED :: int where "EGL_BUFFER_PRESERVED \<equiv> 0x3094"
abbreviation (input) EGL_CONTEXT_CLIENT_TYPE :: int where "EGL_CONTEXT_CLIENT_TYPE \<equiv> 0x3097"
abbreviation (input) EGL_CONTEXT_CLIENT_VERSION :: int where "EGL_CONTEXT_CLIENT_VERSION \<equiv> 0x3098"
abbreviation (input) EGL_OPENGL_ES_API :: int where "EGL_OPENGL_ES_API \<equiv> 0x30A0"
abbreviation (input) EGL_SYNC_PRIOR_COMMANDS_COMPLETE_KHR :: int where
  "EGL_SYNC_PRIOR_COMMANDS_COMPLETE_KHR \<equiv> 0x30F0"
abbreviation (input) EGL_SYNC_STATUS_KHR :: int where "EGL_SYNC_STATUS_KHR \<equiv> 0x30F1"
abbreviation (input) EGL_SIGNALED_KHR :: int where "EGL_SIGNALED_KHR \<equiv> 0x30F2"
abbreviation (input) EGL_CONDITION_SATISFIED_KHR :: int where "EGL_CONDITION_SATISFIED_KHR \<equiv> 0x30F6"
abbreviation (input) EGL_SYNC_TYPE_KHR :: int where "EGL_SYNC_TYPE_KHR \<equiv> 0x30F7"
abbreviation (input) EGL_SYNC_CONDITION_KHR :: int where "EGL_SYNC_CONDITION_KHR \<equiv> 0x30F8"
abbreviation (input) EGL_SYNC_FENCE_KHR :: int where "EGL_SYNC_FENCE_KHR \<equiv> 0x30F9"
abbreviation (input) EGL_NATIVE_BUFFER_ANDROID :: int where "EGL_NATIVE_BUFFER_ANDROID \<equiv> 0x3140"

abbreviation (input) EGL_PBUFFER_BIT :: int where "EGL_PBUFFER_BIT \<equiv> 1"
abbreviation (input) EGL_WINDOW_BIT :: int where "EGL_WINDOW_BIT \<equiv> 4"

abbreviation (input) IS_CURRENT :: u32 where "IS_CURRENT \<equiv> 0x00010000"
abbreviation (input) TO_DELETE :: u32 where "TO_DELETE \<equiv> 0x00040000"

section \<open>Objects\<close>

record egl_ctx =
  cx_flags :: u32
  cx_dpy :: addr
  cx_config :: int
  cx_read :: addr
  cx_draw :: addr
  cx_shareCtx :: addr
  cx_version :: int
  cx_rcContext :: u32
  cx_versionString :: "string option"
  cx_vendorString :: "string option"
  cx_rendererString :: "string option"
  cx_extensionString :: "string option"
  cx_clientState :: addr
  cx_sharedGroup :: addr

text \<open>The two classes derived from \<open>egl_surface_t\<close>: window and buffer, or colour buffer.\<close>

datatype surface_kind = Window_surface addr addr | Pbuffer_surface u32

record egl_surface =
  su_dpy :: addr
  su_config :: int
  su_width :: int
  su_height :: int
  su_texFormat :: int
  su_texTarget :: int
  su_surfaceType :: int
  su_rcSurface :: u32
  su_kind :: surface_kind

text \<open>The native buffers of the process belong to the windows.\<close>

record native_buffer =
  nb_magic :: u32
  nb_version :: int
  nb_handle :: addr

record egl_display =
  ds_initialized :: bool
  ds_major :: int
  ds_minor :: int
  ds_hostRendererVersion :: int
  ds_numConfigs :: int
  ds_numConfigAttribs :: int
  ds_attribs :: "int \<rightharpoonup> int"
  ds_configs :: "int list option"
  ds_gles_iface :: bool
  ds_gles2_iface :: bool
  ds_versionString :: "string option"
  ds_vendorString :: "string option"
  ds_extensionString :: "string option"
  ds_contexts :: "addr list"
  ds_surfaces :: "addr list"

section \<open>State\<close>

datatype egl_call =
    Rc rc_call
  | rcGetRendererVersion
  | rcGetEGLVersion
  | rcGetNumConfigs
  | rcGetConfigs u32
  | rcChooseConfig "int list" int
  | rcQueryEGLString int int
  | rcGetGLString int int
  | rcCreateContext int u32 int
  | rcDestroyContext u32
  | rcCreateWindowSurface int int int
  | rcDestroyWindowSurface u32
  | rcSetWindowColorBuffer u32 u32
  | rcFlushWindowColorBuffer u32
  | rcMakeCurrent u32 u32 u32
  | rcBindTexture u32
  | Win_incRef addr
  | Win_decRef addr
  | Win_query_width addr
  | Win_query_height addr
  | Win_dequeue addr
  | Win_queue addr addr
  | Win_cancel addr addr
  | Win_swapInterval addr int
  | Buf_incRef addr
  | Buf_decRef addr
  | Load_gles nat
  | Gles_init nat
  | Gles_finish nat
  | New_object
  | Connect
  | Flush_stream

text \<open>
  \<open>eg_exts\<close> is the table of extension functions of each GLES library. The windows are given by
  the magic number that their memory holds, the buffer handles are those of the allocator.
\<close>

record egl_state =
  eg_display :: egl_display
  eg_contexts :: "addr \<rightharpoonup> egl_ctx"
  eg_surfaces :: "addr \<rightharpoonup> egl_surface"
  eg_clients :: "addr \<rightharpoonup> client_state"
  eg_threads :: "nat \<Rightarrow> thread_info"
  eg_exts :: "nat \<Rightarrow> string \<Rightarrow> addr"
  eg_windows :: "addr \<rightharpoonup> u32"
  eg_buffers :: "addr \<rightharpoonup> native_buffer"
  eg_cbs :: "addr \<rightharpoonup> cb_handle"
  eg_calls :: "egl_call list"

text \<open>
  The answers: an integer result, a handle or an address, the integers and the text that a call
  writes through a pointer; \<open>ee_uninit\<close> is what new memory holds. \<open>ee_circular\<close> says what incrementing the end of the platform's
  \<open>List\<close> does: step to the first element, or be undefined as for the standard containers.
\<close>

record egl_env =
  ee_display :: addr
  ee_int :: "egl_call list \<Rightarrow> int"
  ee_word :: "egl_call list \<Rightarrow> u32"
  ee_out :: "egl_call list \<Rightarrow> nat \<Rightarrow> int"
  ee_str :: "egl_call list \<Rightarrow> string"
  ee_uninit :: "nat \<Rightarrow> int"
  ee_connect :: "egl_call list \<Rightarrow> conn_answer"
  ee_fresh :: allocator
  ee_proc :: "nat \<Rightarrow> string \<Rightarrow> addr"
  ee_junk :: "nat \<Rightarrow> vertex_attrib"
  ee_circular :: bool
  ee_window_magic :: u32
  ee_buffer_magic :: u32
  ee_buffer_size :: int

definition ecall :: "egl_state \<Rightarrow> egl_call \<Rightarrow> egl_state" where
  "ecall st c = st\<lparr>eg_calls := eg_calls st @ [c]\<rparr>"

definition put_thread :: "egl_state \<Rightarrow> nat \<Rightarrow> thread_info \<Rightarrow> egl_state" where
  "put_thread st t ti = st\<lparr>eg_threads := (eg_threads st)(t := ti)\<rparr>"

definition put_ctx :: "egl_state \<Rightarrow> addr \<Rightarrow> egl_ctx \<Rightarrow> egl_state" where
  "put_ctx st h c = st\<lparr>eg_contexts := (eg_contexts st)(h \<mapsto> c)\<rparr>"

definition put_surface :: "egl_state \<Rightarrow> addr \<Rightarrow> egl_surface \<Rightarrow> egl_state" where
  "put_surface st h s = st\<lparr>eg_surfaces := (eg_surfaces st)(h \<mapsto> s)\<rparr>"

definition put_display :: "egl_state \<Rightarrow> egl_display \<Rightarrow> egl_state" where
  "put_display st d = st\<lparr>eg_display := d\<rparr>"

text \<open>A dereference of an object's address.\<close>

definition deref :: "('k \<rightharpoonup> 'a) \<Rightarrow> 'k \<Rightarrow> 'a outcome" where
  "deref m h = (case m h of None \<Rightarrow> Undefined | Some x \<Rightarrow> Returned x)"

abbreviation current_of :: "egl_state \<Rightarrow> nat \<Rightarrow> addr" where
  "current_of st t \<equiv> ti_currentContext (eg_threads st t)"

section \<open>Errors, validation, host connection\<close>

definition eglStrError :: "int \<Rightarrow> string" where
  "eglStrError err =
     (if err = EGL_SUCCESS then ''EGL_SUCCESS''
      else if err = EGL_NOT_INITIALIZED then ''EGL_NOT_INITIALIZED''
      else if err = EGL_BAD_ACCESS then ''EGL_BAD_ACCESS''
      else if err = EGL_BAD_ALLOC then ''EGL_BAD_ALLOC''
      else if err = EGL_BAD_ATTRIBUTE then ''EGL_BAD_ATTRIBUTE''
      else if err = EGL_BAD_CONFIG then ''EGL_BAD_CONFIG''
      else if err = EGL_BAD_CONTEXT then ''EGL_BAD_CONTEXT''
      else if err = EGL_BAD_CURRENT_SURFACE then ''EGL_BAD_CURRENT_SURFACE''
      else if err = EGL_BAD_DISPLAY then ''EGL_BAD_DISPLAY''
      else if err = EGL_BAD_MATCH then ''EGL_BAD_MATCH''
      else if err = EGL_BAD_NATIVE_PIXMAP then ''EGL_BAD_NATIVE_PIXMAP''
      else if err = EGL_BAD_NATIVE_WINDOW then ''EGL_BAD_NATIVE_WINDOW''
      else if err = EGL_BAD_PARAMETER then ''EGL_BAD_PARAMETER''
      else if err = EGL_BAD_SURFACE then ''EGL_BAD_SURFACE''
      else if err = EGL_CONTEXT_LOST then ''EGL_CONTEXT_LOST''
      else ''UNKNOWN'')"

definition set_error :: "nat \<Rightarrow> egl_state \<Rightarrow> int \<Rightarrow> egl_state" where
  "set_error t st err = put_thread st t ((eg_threads st t)\<lparr>ti_eglError := err\<rparr>)"

definition setErrorFunc :: "nat \<Rightarrow> egl_state \<Rightarrow> int \<Rightarrow> 'a \<Rightarrow> egl_state \<times> 'a" where
  "setErrorFunc t st err r = (set_error t st err, r)"

text \<open>The validation macros, in front of the rest of the function.\<close>

definition validate_display ::
  "egl_env \<Rightarrow> nat \<Rightarrow> egl_state \<Rightarrow> addr \<Rightarrow> 'a \<Rightarrow> (egl_state \<times> 'a) outcome \<Rightarrow> (egl_state \<times> 'a) outcome"
where
  "validate_display E t st dpy ret k =
     (if dpy \<noteq> ee_display E then Returned (setErrorFunc t st EGL_BAD_DISPLAY ret) else k)"

definition validate_display_init ::
  "egl_env \<Rightarrow> nat \<Rightarrow> egl_state \<Rightarrow> addr \<Rightarrow> 'a \<Rightarrow> (egl_state \<times> 'a) outcome \<Rightarrow> (egl_state \<times> 'a) outcome"
where
  "validate_display_init E t st dpy ret k =
     validate_display E t st dpy ret
       (if \<not> ds_initialized (eg_display st)
        then Returned (setErrorFunc t st EGL_NOT_INITIALIZED ret) else k)"

definition validate_config ::
  "nat \<Rightarrow> egl_state \<Rightarrow> int \<Rightarrow> 'a \<Rightarrow> (egl_state \<times> 'a) outcome \<Rightarrow> (egl_state \<times> 'a) outcome" where
  "validate_config t st cfg ret k =
     (if cfg < 0 \<or> ds_numConfigs (eg_display st) < cfg
      then Returned (setErrorFunc t st EGL_BAD_CONFIG ret) else k)"

definition validate_surface ::
  "egl_env \<Rightarrow> nat \<Rightarrow> egl_state \<Rightarrow> addr \<Rightarrow> 'a \<Rightarrow> (egl_state \<times> 'a) outcome \<Rightarrow> (egl_state \<times> 'a) outcome"
where
  "validate_surface E t st surface egl_false k =
     (if surface = 0 then k
      else obind (deref (eg_surfaces st) surface) (\<lambda>s.
        if su_dpy s \<noteq> ee_display E then Returned (setErrorFunc t st EGL_BAD_DISPLAY egl_false)
        else k))"

text \<open>\<open>DEFINE_HOST_CONNECTION\<close>: whether there is a connection, and so an encoder.\<close>

definition egl_host :: "egl_env \<Rightarrow> nat \<Rightarrow> egl_state \<Rightarrow> (egl_state \<times> bool) outcome" where
  "egl_host E t st =
     (let st1 = (if ti_hostConn (eg_threads st t) = None then ecall st Connect else st) in
      obind (HostConnection_get (ee_fresh E) (ee_connect E (eg_calls st1)) (eg_threads st1 t))
        (\<lambda>(ti, ok). Returned (put_thread st1 t
            (if ok then ti\<lparr>ti_hostConn := map_option rcEncoder (ti_hostConn ti)\<rparr> else ti), ok)))"

text \<open>\<open>DEFINE_AND_VALIDATE_HOST_CONNECTION\<close> in front of \<open>k\<close>.\<close>

definition with_rc ::
  "egl_env \<Rightarrow> nat \<Rightarrow> egl_state \<Rightarrow> 'a \<Rightarrow> (egl_state \<Rightarrow> (egl_state \<times> 'a) outcome)
     \<Rightarrow> (egl_state \<times> 'a) outcome" where
  "with_rc E t st ret k = obind (egl_host E t st) (\<lambda>(st1, ok). if ok then k st1 else Returned (st1, ret))"

text \<open>\<open>rcEnc->m_stream->flush()\<close> and \<open>hostCon->flush()\<close>.\<close>

definition egl_flush :: "nat \<Rightarrow> egl_state \<Rightarrow> egl_state outcome" where
  "egl_flush t st =
     (case ti_hostConn (eg_threads st t) of
        None \<Rightarrow> Undefined
      | Some con \<Rightarrow> obind (HostConnection_flush con) (\<lambda>con'.
          Returned (ecall (put_thread st t ((eg_threads st t)\<lparr>ti_hostConn := Some con'\<rparr>)) Flush_stream)))"

section \<open>Contexts\<close>

text \<open>
  \<open>new EGLContext_t\<close>: three objects are allocated, the context, its client state and, without a
  context to share with, a group of shared objects.
\<close>

definition EGLContext_new ::
  "egl_env \<Rightarrow> egl_state \<Rightarrow> addr \<Rightarrow> int \<Rightarrow> addr \<Rightarrow> (egl_state \<times> addr) outcome" where
  "EGLContext_new E st dpy config shareCtx =
     (let st1 = ecall st New_object; h = ee_word E (eg_calls st1);
          st2 = ecall st1 New_object; cl = ee_word E (eg_calls st2);
          st3 = st2\<lparr>eg_clients := (eg_clients st2)(cl \<mapsto> GLClientState_new (ee_junk E) CODEC_MAX_VERTEX_ATTRIBUTES)\<rparr>
      in obind (if shareCtx \<noteq> 0
                then obind (deref (eg_contexts st3) shareCtx) (\<lambda>c. Returned (st3, cx_sharedGroup c))
                else (let st4 = ecall st3 New_object in Returned (st4, ee_word E (eg_calls st4))))
           (\<lambda>(st4, group). Returned (put_ctx st4 h
              \<lparr>cx_flags = 0, cx_dpy = dpy, cx_config = config, cx_read = 0, cx_draw = 0,
               cx_shareCtx = shareCtx, cx_version = 1, cx_rcContext = 0, cx_versionString = None,
               cx_vendorString = None, cx_rendererString = None, cx_extensionString = None,
               cx_clientState = cl, cx_sharedGroup = group\<rparr>, h)))"

definition EGLContext_delete :: "egl_state \<Rightarrow> addr \<Rightarrow> egl_state outcome" where
  "EGLContext_delete st h =
     obind (deref (eg_contexts st) h) (\<lambda>c.
       Returned (st\<lparr>eg_contexts := (eg_contexts st)(h := None),
                   eg_clients := (eg_clients st)(cx_clientState c := None)\<rparr>))"

end
