(* ===== verification/EGLSurface.thy ===== *)
theory EGLSurface
  imports EGLState
begin

text \<open>
  Window and pbuffer surfaces of \<open>egl.cpp\<close>: construction, the virtual operations by the class of
  the surface, and destruction; and the strings that a context caches.
\<close>

section \<open>Surfaces\<close>

definition egl_surface_new :: "addr \<Rightarrow> int \<Rightarrow> int \<Rightarrow> surface_kind \<Rightarrow> egl_surface" where
  "egl_surface_new dpy config surfaceType kind =
     \<lparr>su_dpy = dpy, su_config = config, su_width = 0, su_height = 0, su_texFormat = EGL_NO_TEXTURE,
      su_texTarget = EGL_NO_TEXTURE, su_surfaceType = surfaceType, su_rcSurface = 0, su_kind = kind\<rparr>"

text \<open>The host's colour buffer behind a native buffer, \<open>((cb_handle_t* )(buffer->handle))->hostHandle\<close>.\<close>

definition buffer_host :: "egl_state \<Rightarrow> addr \<Rightarrow> u32 outcome" where
  "buffer_host st buffer =
     obind (deref (eg_buffers st) buffer) (\<lambda>b.
       obind (deref (eg_cbs st) (nb_handle b)) (\<lambda>c. Returned (cb_hostHandle c)))"

definition forget_surface :: "egl_state \<Rightarrow> addr \<Rightarrow> egl_state" where
  "forget_surface st h = st\<lparr>eg_surfaces := (eg_surfaces st)(h := None)\<rparr>"

text \<open>
  The destructors. Both end in \<open>rcEnc->m_stream->flush()\<close>, which dereferences NULL when there is
  no host connection.
\<close>

definition surface_delete :: "egl_env \<Rightarrow> nat \<Rightarrow> egl_state \<Rightarrow> addr \<Rightarrow> egl_state outcome" where
  "surface_delete E t st h =
     obind (deref (eg_surfaces st) h) (\<lambda>s.
     obind (egl_host E t st) (\<lambda>(st1, ok).
       let st4 = (case su_kind s of
             Window_surface win buffer \<Rightarrow>
               (let st2 = (if su_rcSurface s \<noteq> 0 \<and> ok then ecall st1 (rcDestroyWindowSurface (su_rcSurface s)) else st1);
                    st3 = (if buffer \<noteq> 0 then ecall st2 (Win_cancel win buffer) else st2)
                in ecall st3 (Win_decRef win))
           | Pbuffer_surface rcColorBuffer \<Rightarrow>
               (if ok
                then (let st2 = (if rcColorBuffer \<noteq> 0 then ecall st1 (Rc (rcCloseColorBuffer rcColorBuffer)) else st1)
                      in if su_rcSurface s \<noteq> 0 then ecall st2 (rcDestroyWindowSurface (su_rcSurface s)) else st2)
                else st1))
       in if \<not> ok then Undefined
          else obind (egl_flush t st4) (\<lambda>st5. Returned (forget_surface st5 h))))"

definition window_init :: "egl_env \<Rightarrow> nat \<Rightarrow> egl_state \<Rightarrow> addr \<Rightarrow> egl_surface \<Rightarrow> addr \<Rightarrow> (egl_state \<times> bool) outcome"
where
  "window_init E t st h s win =
     (let st1 = ecall st (Win_dequeue win) in
      if ee_int E (eg_calls st1) \<noteq> 0 then Returned (setErrorFunc t st1 EGL_BAD_ALLOC False)
      else (let buffer = ee_word E (eg_calls st1);
                s1 = s\<lparr>su_kind := Window_surface win buffer\<rparr>
            in with_rc E t (put_surface st1 h s1) False (\<lambda>st2.
                 let st3 = ecall st2 (rcCreateWindowSurface (su_config s) (su_width s) (su_height s));
                     rc = ee_word E (eg_calls st3);
                     st4 = put_surface st3 h (s1\<lparr>su_rcSurface := rc\<rparr>)
                 in if rc = 0 then Returned (st4, False)
                    else obind (buffer_host st4 buffer) (\<lambda>host.
                           Returned (ecall st4 (rcSetWindowColorBuffer rc host), True)))))"

definition window_create ::
  "egl_env \<Rightarrow> nat \<Rightarrow> egl_state \<Rightarrow> addr \<Rightarrow> int \<Rightarrow> int \<Rightarrow> addr \<Rightarrow> (egl_state \<times> addr) outcome" where
  "window_create E t st dpy config surfType win =
     (let st1 = ecall st New_object; h = ee_word E (eg_calls st1);
          st2 = ecall (ecall st1 (Win_incRef win)) (Win_query_width win);
          st3 = ecall st2 (Win_query_height win);
          s = (egl_surface_new dpy config surfType (Window_surface win 0))
                \<lparr>su_width := ee_out E (eg_calls st2) 0, su_height := ee_out E (eg_calls st3) 0\<rparr>
      in obind (window_init E t (put_surface st3 h s) h s win) (\<lambda>(st4, ok).
           if ok then Returned (st4, h)
           else obind (surface_delete E t st4 h) (\<lambda>st5. Returned (st5, 0))))"

definition pbuffer_init :: "egl_env \<Rightarrow> nat \<Rightarrow> egl_state \<Rightarrow> addr \<Rightarrow> egl_surface \<Rightarrow> GLenum \<Rightarrow> (egl_state \<times> bool) outcome"
where
  "pbuffer_init E t st h s pixelFormat =
     with_rc E t st False (\<lambda>st1.
       let st2 = ecall st1 (rcCreateWindowSurface (su_config s) (su_width s) (su_height s));
           rc = ee_word E (eg_calls st2); s1 = s\<lparr>su_rcSurface := rc\<rparr>
       in if rc = 0 then Returned (put_surface st2 h s1, False)
          else (let st3 = ecall st2 (Rc (rcCreateColorBuffer (su_width s) (su_height s) pixelFormat));
                    color = ee_word E (eg_calls st3);
                    st4 = put_surface st3 h (s1\<lparr>su_kind := Pbuffer_surface color\<rparr>)
                in if color = 0 then Returned (st4, False)
                   else Returned (ecall st4 (rcSetWindowColorBuffer rc color), True)))"

definition pbuffer_create ::
  "egl_env \<Rightarrow> nat \<Rightarrow> egl_state \<Rightarrow> addr \<Rightarrow> int \<Rightarrow> int \<Rightarrow> int \<Rightarrow> int \<Rightarrow> GLenum \<Rightarrow> (egl_state \<times> addr) outcome" where
  "pbuffer_create E t st dpy config surfType w ht pixelFormat =
     (let st1 = ecall st New_object; h = ee_word E (eg_calls st1);
          s = (egl_surface_new dpy config surfType (Pbuffer_surface 0))\<lparr>su_width := w, su_height := ht\<rparr>
      in obind (pbuffer_init E t (put_surface st1 h s) h s pixelFormat) (\<lambda>(st2, ok).
           if ok then Returned (st2, h)
           else obind (surface_delete E t st2 h) (\<lambda>st3. Returned (st3, 0))))"

definition surface_setSwapInterval :: "egl_state \<Rightarrow> egl_surface \<Rightarrow> int \<Rightarrow> egl_state" where
  "surface_setSwapInterval st s interval =
     (case su_kind s of
        Window_surface win _ \<Rightarrow> ecall st (Win_swapInterval win interval)
      | Pbuffer_surface _ \<Rightarrow> st)"

definition surface_swapBuffers :: "egl_env \<Rightarrow> nat \<Rightarrow> egl_state \<Rightarrow> addr \<Rightarrow> (egl_state \<times> bool) outcome" where
  "surface_swapBuffers E t st h =
     obind (deref (eg_surfaces st) h) (\<lambda>s.
       case su_kind s of
         Pbuffer_surface _ \<Rightarrow> Returned (st, True)
       | Window_surface win buffer \<Rightarrow>
           with_rc E t st False (\<lambda>st1.
             let st2 = ecall (ecall st1 (rcFlushWindowColorBuffer (su_rcSurface s))) (Win_queue win buffer);
                 st3 = ecall st2 (Win_dequeue win)
             in if ee_int E (eg_calls st3) \<noteq> 0
                then Returned (setErrorFunc t (put_surface st3 h (s\<lparr>su_kind := Window_surface win 0\<rparr>))
                       EGL_BAD_ALLOC False)
                else (let buffer' = ee_word E (eg_calls st3);
                          st4 = put_surface st3 h (s\<lparr>su_kind := Window_surface win buffer'\<rparr>)
                      in obind (buffer_host st4 buffer') (\<lambda>host.
                           Returned (ecall st4 (rcSetWindowColorBuffer (su_rcSurface s) host), True)))))"

section \<open>Strings of a context\<close>

abbreviation (input) GL_VENDOR :: int where "GL_VENDOR \<equiv> 0x1F00"
abbreviation (input) GL_RENDERER :: int where "GL_RENDERER \<equiv> 0x1F01"
abbreviation (input) GL_VERSION :: int where "GL_VERSION \<equiv> 0x1F02"
abbreviation (input) GL_EXTENSIONS :: int where "GL_EXTENSIONS \<equiv> 0x1F03"

text \<open>The cached string that \<open>strPtr\<close> points to, and the context with another one there.\<close>

definition ctx_string :: "egl_ctx \<Rightarrow> int \<Rightarrow> string option option" where
  "ctx_string c glEnum =
     (if glEnum = GL_VERSION then Some (cx_versionString c)
      else if glEnum = GL_VENDOR then Some (cx_vendorString c)
      else if glEnum = GL_RENDERER then Some (cx_rendererString c)
      else if glEnum = GL_EXTENSIONS then Some (cx_extensionString c)
      else None)"

definition set_ctx_string :: "egl_ctx \<Rightarrow> int \<Rightarrow> string option \<Rightarrow> egl_ctx" where
  "set_ctx_string c glEnum s =
     (if glEnum = GL_VERSION then c\<lparr>cx_versionString := s\<rparr>
      else if glEnum = GL_VENDOR then c\<lparr>cx_vendorString := s\<rparr>
      else if glEnum = GL_RENDERER then c\<lparr>cx_rendererString := s\<rparr>
      else c\<lparr>cx_extensionString := s\<rparr>)"

definition getGLString :: "egl_env \<Rightarrow> nat \<Rightarrow> egl_state \<Rightarrow> int \<Rightarrow> (egl_state \<times> string option) outcome" where
  "getGLString E t st glEnum =
     (if current_of st t = 0 then Returned (st, None)
      else obind (deref (eg_contexts st) (current_of st t)) (\<lambda>c.
        case ctx_string c glEnum of
          None \<Rightarrow> Returned (st, None)
        | Some (Some s) \<Rightarrow> Returned (st, Some s)
        | Some None \<Rightarrow> with_rc E t st None (\<lambda>st1.
            let st2 = ecall st1 (rcGetGLString glEnum 0); n = ee_int E (eg_calls st2);
                (st3, hostStr) =
                  (if n < 0
                   then (let st' = ecall st2 (rcGetGLString glEnum (- n))
                         in (st', if ee_int E (eg_calls st') \<le> 0 then None else Some (ee_str E (eg_calls st'))))
                   else (st2, None))
            in Returned (put_ctx st3 (current_of st3 t) (set_ctx_string c glEnum hostStr), hostStr))))"

end
