(* ===== verification/EGLDisplay.thy ===== *)
theory EGLDisplay
  imports EGLSurface
begin

text \<open>
  The display of \<open>eglDisplay.cpp\<close>: loading and initialisation, the table of configurations, the
  strings, the lists of contexts and surfaces, and termination. \<open>destroyContext\<close> of \<open>egl.cpp\<close>,
  which termination calls, stands here as well. The display's mutex is held for the length of an
  operation, so that an operation is one step.
\<close>

section \<open>The table of configurations\<close>

abbreviation (input) ATTRIBUTE_NONE :: int where "ATTRIBUTE_NONE \<equiv> - 1"

definition eglDisplay_new :: egl_display where
  "eglDisplay_new =
     \<lparr>ds_initialized = False, ds_major = 0, ds_minor = 0, ds_hostRendererVersion = 0,
      ds_numConfigs = 0, ds_numConfigAttribs = 0, ds_attribs = Map.empty, ds_configs = None,
      ds_gles_iface = False, ds_gles2_iface = False, ds_versionString = None,
      ds_vendorString = None, ds_extensionString = None, ds_contexts = [], ds_surfaces = []\<rparr>"

text \<open>\<open>m_attribs.valueFor\<close> of the \<open>DefaultKeyedVector\<close>.\<close>

definition valueFor :: "egl_display \<Rightarrow> int \<Rightarrow> int" where
  "valueFor d attrib = (case ds_attribs d attrib of Some i \<Rightarrow> i | None \<Rightarrow> ATTRIBUTE_NONE)"

text \<open>Where in \<open>m_configs\<close> an attribute of a configuration lies, if it lies there.\<close>

definition config_slot :: "egl_display \<Rightarrow> int \<Rightarrow> int \<Rightarrow> (int list \<times> nat) outcome" where
  "config_slot d config idx =
     (let k = config * ds_numConfigAttribs d + idx in
      case ds_configs d of
        None \<Rightarrow> Undefined
      | Some cs \<Rightarrow> if 0 \<le> k \<and> k < int (length cs) then Returned (cs, nat k) else Undefined)"

text \<open>\<open>EGL_FALSE\<close> is \<open>None\<close>: nothing is stored then.\<close>

definition getAttribValue :: "egl_display \<Rightarrow> int \<Rightarrow> int \<Rightarrow> int option outcome" where
  "getAttribValue d config idx =
     (if idx = ATTRIBUTE_NONE then Returned None
      else obind (config_slot d config idx) (\<lambda>(cs, k). Returned (Some (cs ! k))))"

definition getConfigAttrib :: "egl_display \<Rightarrow> int \<Rightarrow> int \<Rightarrow> int option outcome" where
  "getConfigAttrib d config attrib = getAttribValue d config (valueFor d attrib)"

definition setAttribValue :: "egl_display \<Rightarrow> int \<Rightarrow> int \<Rightarrow> int \<Rightarrow> (egl_display \<times> bool) outcome" where
  "setAttribValue d config idx v =
     (if idx = ATTRIBUTE_NONE then Returned (d, False)
      else obind (config_slot d config idx) (\<lambda>(cs, k).
        Returned (d\<lparr>ds_configs := Some (cs[k := v])\<rparr>, True)))"

definition setConfigAttrib :: "egl_display \<Rightarrow> int \<Rightarrow> int \<Rightarrow> int \<Rightarrow> (egl_display \<times> bool) outcome" where
  "setConfigAttrib d config attrib v = setAttribValue d config (valueFor d attrib) v"

text \<open>The sizes of red, blue, green and alpha, read in this order until one is missing.\<close>

fun read_attribs :: "egl_display \<Rightarrow> int \<Rightarrow> int list \<Rightarrow> int list option outcome" where
  "read_attribs d config [] = Returned (Some [])"
| "read_attribs d config (a # as) =
     obind (getAttribValue d config (valueFor d a)) (\<lambda>v. case v of
       None \<Rightarrow> Returned None
     | Some x \<Rightarrow> obind (read_attribs d config as) (\<lambda>xs. Returned (map_option ((#) x) xs)))"

definition getConfigNativePixelFormat :: "egl_display \<Rightarrow> int \<Rightarrow> int option outcome" where
  "getConfigNativePixelFormat d config =
     obind (read_attribs d config [EGL_RED_SIZE, EGL_BLUE_SIZE, EGL_GREEN_SIZE, EGL_ALPHA_SIZE])
       (\<lambda>sizes. Returned (case sizes of
          Some [red, blue, green, alpha] \<Rightarrow>
            (if red = 8 \<and> green = 8 \<and> blue = 8 \<and> alpha = 8 then Some RGBA_8888
             else if red = 8 \<and> green = 8 \<and> blue = 8 \<and> alpha = 0 then Some RGBX_8888
             else if red = 5 \<and> green = 6 \<and> blue = 5 \<and> alpha = 0 then Some RGB_565
             else if red = 5 \<and> green = 5 \<and> blue = 5 \<and> alpha = 1 then Some RGBA_5551
             else if red = 4 \<and> green = 4 \<and> blue = 4 \<and> alpha = 4 then Some RGBA_4444
             else None)
        | _ \<Rightarrow> None))"

abbreviation (input) GL_RGB565_OES :: GLenum where "GL_RGB565_OES \<equiv> 0x8D62"

text \<open>The first test looks at the size of blue twice and not at that of green.\<close>

definition getConfigGLPixelFormat :: "egl_display \<Rightarrow> int \<Rightarrow> GLenum option outcome" where
  "getConfigGLPixelFormat d config =
     obind (read_attribs d config [EGL_RED_SIZE, EGL_BLUE_SIZE, EGL_GREEN_SIZE, EGL_ALPHA_SIZE])
       (\<lambda>sizes. Returned (case sizes of
          Some [red, blue, green, alpha] \<Rightarrow>
            (if red = 8 \<and> blue = 8 \<and> blue = 8 \<and> alpha = 8 then Some GL_RGBA
             else if red = 8 \<and> green = 8 \<and> blue = 8 \<and> alpha = 0 then Some GL_RGB
             else if red = 5 \<and> green = 6 \<and> blue = 5 \<and> alpha = 0 then Some GL_RGB565_OES
             else if red = 5 \<and> green = 5 \<and> blue = 5 \<and> alpha = 1 then Some GL_RGB5_A1_OES
             else if red = 4 \<and> green = 4 \<and> blue = 4 \<and> alpha = 4 then Some GL_RGBA4_OES
             else None)
        | _ \<Rightarrow> None))"

section \<open>Initialisation\<close>

fun process_from :: "egl_display \<Rightarrow> nat list \<Rightarrow> egl_display outcome" where
  "process_from d [] = Returned d"
| "process_from d (i # is) =
     obind (getConfigNativePixelFormat d (int i)) (\<lambda>f. case f of
       None \<Rightarrow> process_from d is
     | Some format \<Rightarrow> obind (setConfigAttrib d (int i) EGL_NATIVE_VISUAL_ID format)
                        (\<lambda>(d1, _). process_from d1 is))"

definition processConfigs :: "egl_display \<Rightarrow> egl_display outcome" where
  "processConfigs d = process_from d [0..<nat (ds_numConfigs d)]"

text \<open>The library's minimum of its own version and the host's.\<close>

definition min_version :: "int \<Rightarrow> int \<Rightarrow> int \<times> int" where
  "min_version major minor =
     (if 1 < major then (1, 4) else if major = 1 \<and> 4 < minor then (major, 4) else (major, minor))"

text \<open>
  From the query of the configurations to the end of the critical section. The temporary buffer
  holds \<open>numConfigs + 1\<close> rows: the names of the attributes, then their values. It is an array on
  the stack; one whose size does not fit in 32 bits is undefined.
\<close>

definition load_configs :: "egl_env \<Rightarrow> egl_state \<Rightarrow> (egl_state \<times> bool) outcome" where
  "load_configs E st =
     (let st1 = ecall st rcGetNumConfigs; n = ee_int E (eg_calls st1); m = ee_out E (eg_calls st1) 0;
          d1 = (eg_display st1)\<lparr>ds_numConfigs := n, ds_numConfigAttribs := m\<rparr>
      in if n \<le> 0 \<or> m \<le> 0 then Returned (put_display st1 d1, False)
         else if 4294967296 \<le> 4 * (m * (n + 1)) then Undefined
         else (let st2 = ecall st1 (rcGetConfigs (word_of_int (4 * (m * (n + 1)))));
                   tmp_buf = ee_out E (eg_calls st2);
                   d2 = d1\<lparr>ds_configs := Some (map (ee_uninit E) [0..<nat (m * n)])\<rparr>
               in if ee_int E (eg_calls st2) \<noteq> n then Returned (put_display st2 d2, False)
                  else Returned (put_display st2 (d2\<lparr>
                      ds_attribs := foldl (\<lambda>as i. as(tmp_buf i \<mapsto> int i)) (ds_attribs d2) [0..<nat m],
                      ds_configs := Some (map (\<lambda>k. tmp_buf (nat m + k)) [0..<nat (m * n)]),
                      ds_initialized := True\<rparr>), True)))"

text \<open>\<open>loadGLESClientAPI\<close>: the library is found and its initialisation returns an interface.\<close>

definition load_gles :: "egl_env \<Rightarrow> egl_state \<Rightarrow> nat \<Rightarrow> egl_state \<times> bool" where
  "load_gles E st version =
     (let st1 = ecall st (Load_gles version) in (st1, ee_word E (eg_calls st1) \<noteq> 0))"

definition eglDisplay_initialize :: "egl_env \<Rightarrow> nat \<Rightarrow> egl_state \<Rightarrow> (egl_state \<times> bool) outcome" where
  "eglDisplay_initialize E t st =
     obind (if ds_initialized (eg_display st) then Returned (st, True)
            else (case load_gles E st 1 of (st1, ok1) \<Rightarrow>
              let st2 = put_display st1 ((eg_display st1)\<lparr>ds_gles_iface := ok1\<rparr>) in
              if \<not> ok1 then Returned (st2, False)
              else (case load_gles E st2 2 of (st3, ok2) \<Rightarrow>
                with_rc E t (put_display st3 ((eg_display st3)\<lparr>ds_gles2_iface := ok2\<rparr>)) False (\<lambda>st4.
                  let st5 = ecall st4 rcGetRendererVersion; version = ee_int E (eg_calls st5);
                      st6 = ecall st5 rcGetEGLVersion;
                      major = ee_out E (eg_calls st6) 0; minor = ee_out E (eg_calls st6) 1;
                      d6 = (eg_display st6)\<lparr>ds_hostRendererVersion := version,
                              ds_major := major, ds_minor := minor\<rparr>
                  in if ee_int E (eg_calls st6) \<noteq> 1 then Returned (put_display st6 d6, False)
                     else (case min_version major minor of (major', minor') \<Rightarrow>
                       load_configs E (put_display st6 (d6\<lparr>ds_major := major', ds_minor := minor'\<rparr>)))))))
       (\<lambda>(st7, ok). if \<not> ok then Returned (st7, False)
          else obind (processConfigs (eg_display st7)) (\<lambda>d. Returned (put_display st7 d, True)))"

section \<open>Strings\<close>

definition systemEGLVendor :: string where
  "systemEGLVendor = ''Google Android emulator''"

definition systemStaticEGLExtensions :: string where
  "systemStaticEGLExtensions = ''EGL_ANDROID_image_native_buffer EGL_KHR_fence_sync ''"

definition systemDynamicEGLExtensions :: string where
  "systemDynamicEGLExtensions = ''EGL_KHR_image_base EGL_KHR_gl_texture_2d_image ''"

text \<open>
  A string of the host with the space that is appended. The buffer has room for the announced
  length and two more bytes; a text of the announced length has no terminator in it.
\<close>

definition queryHostEGLString :: "egl_env \<Rightarrow> nat \<Rightarrow> egl_state \<Rightarrow> int \<Rightarrow> (egl_state \<times> string option) outcome" where
  "queryHostEGLString E t st name =
     with_rc E t st None (\<lambda>st1.
       let st2 = ecall st1 (rcQueryEGLString name 0); n = ee_int E (eg_calls st2)
       in if 0 \<le> n then Returned (st2, None)
          else (let st3 = ecall st2 (rcQueryEGLString name (- n)); str = ee_str E (eg_calls st3)
                in if ee_int E (eg_calls st3) \<le> 0 then Returned (st3, None)
                   else if - n \<le> int (length str) then Undefined
                   else Returned (st3, Some (str @ '' ''))))"

text \<open>The loop over a list of names, each followed by a space.\<close>

function findExtInList :: "string \<Rightarrow> string \<Rightarrow> bool" where
  "findExtInList token p =
     (if CHR '' '' \<notin> set p then False
      else if token = takeWhile (\<lambda>c. c \<noteq> CHR '' '') p then True
      else findExtInList token (tl (dropWhile (\<lambda>c. c \<noteq> CHR '' '') p)))"
  by pat_completeness auto
termination
proof (relation "measure (length \<circ> snd)")
  fix token p :: string
  assume "\<not> CHR '' '' \<notin> set p"
  then have "dropWhile (\<lambda>c. c \<noteq> CHR '' '') p \<noteq> []" by (simp add: dropWhile_eq_Nil_conv)
  moreover have "length (dropWhile (\<lambda>c. c \<noteq> CHR '' '') p) \<le> length p" by (rule length_dropWhile_le)
  ultimately show "((token, tl (dropWhile (\<lambda>c. c \<noteq> CHR '' '') p)), token, p) \<in> measure (length \<circ> snd)"
    by (cases "dropWhile (\<lambda>c. c \<noteq> CHR '' '') p") auto
qed simp

lemma length_moved: "(if move then blit buf i bs else Some buf) = Some buf' \<Longrightarrow> length buf' = length buf"
  by (simp add: length_blit split: if_splits)

text \<open>
  The filtering of the host's list in place. \<open>buf\<close> is the text, \<open>ext\<close>, \<open>c\<close> and \<open>insert\<close> are the
  positions of the code's pointers; the result is the buffer and the position of the terminator.
  The ranges of the code's \<open>memcpy\<close> may overlap, the destination in front: it is taken to copy
  from the front.
\<close>

function filter_ext :: "string \<Rightarrow> nat \<Rightarrow> nat \<Rightarrow> nat \<Rightarrow> (string \<times> nat) ub" where
  "filter_ext buf ext c ins =
     (if length buf \<le> c then Some (buf, ins)
      else if buf ! c = CHR '' '' then
        (let len = c - ext; token = take len (drop ext buf) in
         if findExtInList token systemDynamicEGLExtensions
         then (case (if ext \<noteq> ins then blit buf ins (take (len + 1) (drop ext buf)) else Some buf) of
                 None \<Rightarrow> None
               | Some buf' \<Rightarrow> filter_ext buf' (c + 1) (c + 1) (ins + len + 1))
         else filter_ext buf (c + 1) (c + 1) ins)
      else filter_ext buf ext (c + 1) ins)"
  by pat_completeness auto
termination
  by (relation "measure (\<lambda>(buf, ext, c, ins). length buf - c)") (simp_all add: length_moved)

definition extension_string :: "string option \<Rightarrow> string ub" where
  "extension_string hostExt =
     (case hostExt of
        None \<Rightarrow> Some systemStaticEGLExtensions
      | Some text \<Rightarrow>
          if length text \<le> 1 then Some systemStaticEGLExtensions
          else map_option (\<lambda>(buf, ins).
                 if 0 < ins then systemStaticEGLExtensions @ take ins buf else systemStaticEGLExtensions)
               (filter_ext text 0 0 0))"

definition buildExtensionString :: "egl_env \<Rightarrow> nat \<Rightarrow> egl_state \<Rightarrow> (egl_state \<times> string) outcome" where
  "buildExtensionString E t st =
     obind (queryHostEGLString E t st EGL_EXTENSIONS) (\<lambda>(st1, hostExt).
       case extension_string hostExt of None \<Rightarrow> Undefined | Some s \<Rightarrow> Returned (st1, s))"

definition eglDisplay_queryString :: "egl_env \<Rightarrow> nat \<Rightarrow> egl_state \<Rightarrow> int \<Rightarrow> (egl_state \<times> string option) outcome" where
  "eglDisplay_queryString E t st name =
     (let d = eg_display st in
      if name = EGL_CLIENT_APIS then Returned (st, Some ''OpenGL_ES'')
      else if name = EGL_VERSION then
        (case ds_versionString d of
           Some s \<Rightarrow> Returned (st, Some s)
         | None \<Rightarrow> (let s = print_int (ds_major d) @ ''.'' @ print_int (ds_minor d)
                    in Returned (put_display st (d\<lparr>ds_versionString := Some s\<rparr>), Some s)))
      else if name = EGL_VENDOR then
        (case ds_vendorString d of
           Some s \<Rightarrow> Returned (st, Some s)
         | None \<Rightarrow> obind (queryHostEGLString E t st EGL_VENDOR) (\<lambda>(st1, hostVendor).
             let s = (case hostVendor of
                        Some v \<Rightarrow> systemEGLVendor @ '' Host: '' @ v
                      | None \<Rightarrow> systemEGLVendor)
             in Returned (put_display st1 ((eg_display st1)\<lparr>ds_vendorString := Some s\<rparr>), Some s)))
      else if name = EGL_EXTENSIONS then
        (case ds_extensionString d of
           Some s \<Rightarrow> Returned (st, Some s)
         | None \<Rightarrow> obind (buildExtensionString E t st) (\<lambda>(st1, s).
             Returned (put_display st1 ((eg_display st1)\<lparr>ds_extensionString := Some s\<rparr>), Some s)))
      else Returned (st, None))"

section \<open>The lists of contexts and surfaces\<close>

definition addContext :: "egl_state \<Rightarrow> addr \<Rightarrow> egl_state" where
  "addContext st h = put_display st ((eg_display st)\<lparr>ds_contexts := ds_contexts (eg_display st) @ [h]\<rparr>)"

definition removeContext :: "egl_state \<Rightarrow> addr \<Rightarrow> egl_state" where
  "removeContext st h = put_display st ((eg_display st)\<lparr>ds_contexts := remove1 h (ds_contexts (eg_display st))\<rparr>)"

definition addSurface :: "egl_state \<Rightarrow> addr \<Rightarrow> egl_state" where
  "addSurface st h = put_display st ((eg_display st)\<lparr>ds_surfaces := ds_surfaces (eg_display st) @ [h]\<rparr>)"

definition removeSurface :: "egl_state \<Rightarrow> addr \<Rightarrow> egl_state" where
  "removeSurface st h = put_display st ((eg_display st)\<lparr>ds_surfaces := remove1 h (ds_surfaces (eg_display st))\<rparr>)"

section \<open>Destroying contexts\<close>

text \<open>
  The part of \<open>destroyContext\<close> and \<open>eglDestroyContext\<close> up to \<open>delete context\<close>; they differ in the
  call of \<open>removeContext\<close> in front of it (\<open>before\<close>).
\<close>

definition destroy_context_with ::
  "(egl_state \<Rightarrow> egl_state) \<Rightarrow> egl_env \<Rightarrow> nat \<Rightarrow> egl_state \<Rightarrow> addr \<Rightarrow> addr \<Rightarrow> (egl_state \<times> bool) outcome" where
  "destroy_context_with before E t st dpy ctx =
     validate_display_init E t st dpy False
       (if ctx = 0 then Returned (setErrorFunc t st EGL_BAD_CONTEXT False)
        else obind (deref (eg_contexts st) ctx) (\<lambda>c.
          if current_of st t = ctx
          then Returned (put_ctx st ctx (c\<lparr>cx_flags := cx_flags c OR TO_DELETE\<rparr>), True)
          else (let finish = (\<lambda>st'. obind (EGLContext_delete (before st') ctx) (\<lambda>st''. Returned (st'', True)))
                in if cx_rcContext c \<noteq> 0
                   then with_rc E t st False (\<lambda>st1.
                          let st2 = ecall st1 (rcDestroyContext (cx_rcContext c));
                              st3 = put_ctx st2 ctx (c\<lparr>cx_rcContext := 0\<rparr>)
                          in obind (egl_flush t st3) finish)
                   else finish st)))"

definition destroyContext :: "egl_env \<Rightarrow> nat \<Rightarrow> egl_state \<Rightarrow> addr \<Rightarrow> addr \<Rightarrow> (egl_state \<times> bool) outcome" where
  "destroyContext = destroy_context_with (\<lambda>st. st)"

section \<open>Termination\<close>

fun delete_surfaces :: "egl_env \<Rightarrow> nat \<Rightarrow> egl_state \<Rightarrow> addr list \<Rightarrow> egl_state outcome" where
  "delete_surfaces E t st [] = Returned st"
| "delete_surfaces E t st (h # hs) = obind (surface_delete E t st h) (\<lambda>st1. delete_surfaces E t st1 hs)"

text \<open>
  The loop over the contexts with the iterator at position \<open>i\<close> of the list \<open>cs\<close>. \<open>erase\<close> returns
  the element after the erased one, and the loop then increments the iterator once more.
\<close>

function terminate_contexts :: "egl_env \<Rightarrow> nat \<Rightarrow> egl_state \<Rightarrow> addr list \<Rightarrow> nat \<Rightarrow> (egl_state \<times> addr list) outcome"
where
  "terminate_contexts E t st cs i =
     (if length cs \<le> i then Returned (st, cs)
      else case eg_contexts st (cs ! i) of
             None \<Rightarrow> Undefined
           | Some c \<Rightarrow>
               if cx_flags c AND IS_CURRENT \<noteq> 0
               then terminate_contexts E t
                      (put_ctx st (cs ! i) (c\<lparr>cx_flags := cx_flags c OR TO_DELETE\<rparr>)) cs (Suc i)
               else (case destroyContext E t st (ee_display E) (cs ! i) of
                       Blocked \<Rightarrow> Blocked
                     | Undefined \<Rightarrow> Undefined
                     | Returned (st1, _) \<Rightarrow>
                         if Suc i < length cs
                         then terminate_contexts E t st1 (take i cs @ drop (Suc i) cs) (Suc i)
                         else if ee_circular E
                         then terminate_contexts E t st1 (take i cs @ drop (Suc i) cs) 0
                         else Undefined))"
  by pat_completeness auto
termination
  by (relation "measures [\<lambda>(E, t, st, cs, i). length cs, \<lambda>(E, t, st, cs, i). length cs - i]") auto

definition eglDisplay_terminate :: "egl_env \<Rightarrow> nat \<Rightarrow> egl_state \<Rightarrow> egl_state outcome" where
  "eglDisplay_terminate E t st =
     obind (delete_surfaces E t st (ds_surfaces (eg_display st))) (\<lambda>st1.
       obind (terminate_contexts E t (put_display st1 ((eg_display st1)\<lparr>ds_surfaces := []\<rparr>))
                (ds_contexts (eg_display st1)) 0) (\<lambda>(st2, cs).
         Returned (put_display st2 ((eg_display st2)\<lparr>ds_contexts := cs\<rparr>))))"

declare findExtInList.simps [simp del] filter_ext.simps [simp del]
  terminate_contexts.simps [simp del]

end
