(* ===== verification/EGL.thy ===== *)
theory EGL
  imports EGLDisplay
begin

text \<open>
  The entry points of the EGL library (\<open>egl.cpp\<close>) and the dispatch of the extension functions
  (\<open>ClientAPIExts.cpp\<close>). A value stored through an out-pointer is part of the result, \<open>None\<close>
  where nothing is stored. An attribute list is the integers from the pointer to the end of
  the object it points into; reading behind them is undefined.
\<close>

section \<open>Display and configurations\<close>

definition eglGetDisplay :: "egl_env \<Rightarrow> addr \<Rightarrow> addr" where
  "eglGetDisplay E display_id = (if display_id \<noteq> 0 then 0 else ee_display E)"

definition eglInitialize :: "egl_env \<Rightarrow> nat \<Rightarrow> egl_state \<Rightarrow> addr \<Rightarrow> (egl_state \<times> (int \<times> int) option) outcome" where
  "eglInitialize E t st dpy =
     validate_display E t st dpy None
       (obind (eglDisplay_initialize E t st) (\<lambda>(st1, ok).
          Returned (st1, if ok then Some (ds_major (eg_display st1), ds_minor (eg_display st1)) else None)))"

definition eglTerminate :: "egl_env \<Rightarrow> nat \<Rightarrow> egl_state \<Rightarrow> addr \<Rightarrow> (egl_state \<times> bool) outcome" where
  "eglTerminate E t st dpy =
     validate_display_init E t st dpy False
       (obind (eglDisplay_terminate E t st) (\<lambda>st1. Returned (st1, True)))"

definition eglGetError :: "nat \<Rightarrow> egl_state \<Rightarrow> egl_state \<times> int" where
  "eglGetError t st = setErrorFunc t st EGL_SUCCESS (ti_eglError (eg_threads st t))"

definition egl_funcs_by_name :: "string list" where
  "egl_funcs_by_name =
     [''eglGetError'', ''eglGetDisplay'', ''eglInitialize'', ''eglTerminate'', ''eglQueryString'',
      ''eglGetConfigs'', ''eglChooseConfig'', ''eglGetConfigAttrib'', ''eglCreateWindowSurface'',
      ''eglCreatePbufferSurface'', ''eglCreatePixmapSurface'', ''eglDestroySurface'',
      ''eglQuerySurface'', ''eglBindAPI'', ''eglQueryAPI'', ''eglWaitClient'',
      ''eglReleaseThread'', ''eglCreatePbufferFromClientBuffer'', ''eglSurfaceAttrib'',
      ''eglBindTexImage'', ''eglReleaseTexImage'', ''eglSwapInterval'', ''eglCreateContext'',
      ''eglDestroyContext'', ''eglMakeCurrent'', ''eglGetCurrentContext'',
      ''eglGetCurrentSurface'', ''eglGetCurrentDisplay'', ''eglQueryContext'', ''eglWaitGL'',
      ''eglWaitNative'', ''eglSwapBuffers'', ''eglCopyBuffers'', ''eglGetProcAddress'',
      ''eglLockSurfaceKHR'', ''eglUnlockSurfaceKHR'', ''eglCreateImageKHR'',
      ''eglDestroyImageKHR'', ''eglCreateSyncKHR'', ''eglDestroySyncKHR'',
      ''eglClientWaitSyncKHR'', ''eglGetSyncAttribKHR'']"

definition s_client_ext_funcs :: "string list" where
  "s_client_ext_funcs =
     [''glEGLImageTargetTexture2DOES'', ''glEGLImageTargetRenderbufferStorageOES'',
      ''glBlendEquationSeparateOES'', ''glBlendFuncSeparateOES'', ''glBlendEquationOES'',
      ''glCurrentPaletteMatrixOES'', ''glLoadPaletteFromModelViewMatrixOES'',
      ''glMatrixIndexPointerOES'', ''glWeightPointerOES'', ''glDepthRangefOES'',
      ''glFrustumfOES'', ''glOrthofOES'', ''glClipPlanefOES'', ''glGetClipPlanefOES'',
      ''glClearDepthfOES'', ''glPointSizePointerOES'', ''glTexGenfOES'', ''glTexGenfvOES'',
      ''glTexGeniOES'', ''glTexGenivOES'', ''glTexGenxOES'', ''glTexGenxvOES'',
      ''glGetTexGenfvOES'', ''glGetTexGenivOES'', ''glGetTexGenxvOES'', ''glIsRenderbufferOES'',
      ''glBindRenderbufferOES'', ''glDeleteRenderbuffersOES'', ''glGenRenderbuffersOES'',
      ''glRenderbufferStorageOES'', ''glGetRenderbufferParameterivOES'', ''glIsFramebufferOES'',
      ''glBindFramebufferOES'', ''glDeleteFramebuffersOES'', ''glGenFramebuffersOES'',
      ''glCheckFramebufferStatusOES'', ''glFramebufferTexture2DOES'',
      ''glFramebufferRenderbufferOES'', ''glGetFramebufferAttachmentParameterivOES'',
      ''glGenerateMipmapOES'', ''glDrawTexsOES'', ''glDrawTexiOES'', ''glDrawTexfOES'',
      ''glDrawTexxOES'', ''glDrawTexsvOES'', ''glDrawTexivOES'', ''glDrawTexfvOES'',
      ''glDrawTexxvOES'']"

text \<open>The position of the first entry with a name; entries of the two tables are told apart.\<close>

definition lookup_name :: "string list \<Rightarrow> string \<Rightarrow> nat option" where
  "lookup_name names procname = find (\<lambda>i. names ! i = procname) [0..<length names]"

datatype proc_address = Egl_function nat | Client_extension nat

definition ClientAPIExts_getProcAddress :: "string \<Rightarrow> proc_address option" where
  "ClientAPIExts_getProcAddress fname = map_option Client_extension (lookup_name s_client_ext_funcs fname)"

definition eglGetProcAddress :: "egl_env \<Rightarrow> nat \<Rightarrow> egl_state \<Rightarrow> string \<Rightarrow> (egl_state \<times> proc_address option) outcome"
where
  "eglGetProcAddress E t st procname =
     (case lookup_name egl_funcs_by_name procname of
        Some i \<Rightarrow> Returned (st, Some (Egl_function i))
      | None \<Rightarrow>
          obind (if ds_initialized (eg_display st) then Returned (st, True) else eglDisplay_initialize E t st)
            (\<lambda>(st1, ok). Returned (st1, if ok then ClientAPIExts_getProcAddress procname else None)))"

text \<open>An extension function: the library of the current context's version is called.\<close>

definition call_extension :: "nat \<Rightarrow> egl_state \<Rightarrow> string \<Rightarrow> addr option outcome" where
  "call_extension t st fname =
     (if current_of st t = 0 then Returned None
      else obind (deref (eg_contexts st) (current_of st t)) (\<lambda>c.
        let idx = cx_version c - 1 in
        if idx \<noteq> 0 \<and> idx \<noteq> 1 then Undefined
        else if eg_exts st (nat idx) fname = 0 then Returned None
        else Returned (Some (eg_exts st (nat idx) fname))))"

definition initClientFuncs :: "egl_env \<Rightarrow> egl_state \<Rightarrow> nat \<Rightarrow> egl_state" where
  "initClientFuncs E st idx =
     st\<lparr>eg_exts := (eg_exts st)(idx := (\<lambda>fname.
       if fname \<in> set s_client_ext_funcs then ee_proc E idx fname else 0))\<rparr>"

definition eglQueryString :: "egl_env \<Rightarrow> nat \<Rightarrow> egl_state \<Rightarrow> addr \<Rightarrow> int \<Rightarrow> (egl_state \<times> string option) outcome" where
  "eglQueryString E t st dpy name =
     validate_display_init E t st dpy None (eglDisplay_queryString E t st name)"

text \<open>The result, what is stored through \<open>configs\<close>, and through \<open>num_config\<close>.\<close>

definition eglGetConfigs ::
  "egl_env \<Rightarrow> nat \<Rightarrow> egl_state \<Rightarrow> addr \<Rightarrow> bool \<Rightarrow> int \<Rightarrow> bool \<Rightarrow> (egl_state \<times> bool \<times> int list \<times> int option) outcome"
where
  "eglGetConfigs E t st dpy configs config_size num_config =
     validate_display_init E t st dpy (False, [], None)
       (if \<not> num_config then Returned (setErrorFunc t st EGL_BAD_PARAMETER (False, [], None))
        else (let n = ds_numConfigs (eg_display st) in
          if \<not> configs then Returned (st, True, [], Some n)
          else (let stored = map int [0..<nat (min n config_size)]
                in Returned (st, True, stored, Some (int (length stored))))))"

text \<open>The number of integers up to and including \<open>EGL_NONE\<close>.\<close>

fun attribs_size :: "int list \<Rightarrow> nat outcome" where
  "attribs_size [] = Undefined"
| "attribs_size (a # as) =
     (if a = EGL_NONE then Returned 1
      else case as of [] \<Rightarrow> Undefined | v # rest \<Rightarrow> obind (attribs_size rest) (\<lambda>n. Returned (2 + n)))"

definition eglChooseConfig ::
  "egl_env \<Rightarrow> nat \<Rightarrow> egl_state \<Rightarrow> addr \<Rightarrow> int list option \<Rightarrow> int \<Rightarrow> bool \<Rightarrow> (egl_state \<times> bool \<times> int option) outcome"
where
  "eglChooseConfig E t st dpy attrib_list config_size num_config =
     validate_display_init E t st dpy (False, None)
       (obind (case attrib_list of None \<Rightarrow> Returned 0 | Some as \<Rightarrow> attribs_size as) (\<lambda>n.
          with_rc E t st (False, None) (\<lambda>st1.
            let st2 = ecall st1 (rcChooseConfig (case attrib_list of None \<Rightarrow> [] | Some as \<Rightarrow> take n as) config_size)
            in if \<not> num_config then Undefined
               else Returned (st2, True, Some (ee_int E (eg_calls st2))))))"

definition eglGetConfigAttrib ::
  "egl_env \<Rightarrow> nat \<Rightarrow> egl_state \<Rightarrow> addr \<Rightarrow> int \<Rightarrow> int \<Rightarrow> (egl_state \<times> int option) outcome" where
  "eglGetConfigAttrib E t st dpy config attribute =
     validate_display_init E t st dpy None
       (validate_config t st config None
         (obind (getConfigAttrib (eg_display st) config attribute) (\<lambda>v. case v of
            Some x \<Rightarrow> Returned (st, Some x)
          | None \<Rightarrow> Returned (setErrorFunc t st EGL_BAD_ATTRIBUTE None))))"

section \<open>Surfaces\<close>

definition eglCreateWindowSurface ::
  "egl_env \<Rightarrow> nat \<Rightarrow> egl_state \<Rightarrow> addr \<Rightarrow> int \<Rightarrow> addr \<Rightarrow> (egl_state \<times> addr) outcome" where
  "eglCreateWindowSurface E t st dpy config win =
     validate_display_init E t st dpy 0
       (validate_config t st config 0
         (if win = 0 then Returned (setErrorFunc t st EGL_BAD_MATCH 0)
          else obind (getConfigAttrib (eg_display st) config EGL_SURFACE_TYPE) (\<lambda>v. case v of
            None \<Rightarrow> Returned (st, 0)
          | Some surfaceType \<Rightarrow>
              if surfaceType AND EGL_WINDOW_BIT = 0 then Returned (setErrorFunc t st EGL_BAD_MATCH 0)
              else obind (deref (eg_windows st) win) (\<lambda>magic.
                if magic \<noteq> ee_window_magic E then Returned (setErrorFunc t st EGL_BAD_NATIVE_WINDOW 0)
                else obind (window_create E t st (ee_display E) config surfaceType win) (\<lambda>(st1, h).
                  if h = 0 then Returned (setErrorFunc t st1 EGL_BAD_ALLOC 0)
                  else Returned (addSurface st1 h, h))))))"

text \<open>The loop over the attributes of a pbuffer: width, height, texture format and target.\<close>

fun pbuffer_attribs :: "int list \<Rightarrow> int \<times> int \<times> int \<times> int \<Rightarrow> (int \<times> int \<times> int \<times> int) outcome" where
  "pbuffer_attribs [] acc = Undefined"
| "pbuffer_attribs (a # as) (w, h, texFormat, texTarget) =
     (if a = 0 then Returned (w, h, texFormat, texTarget)
      else case as of
             [] \<Rightarrow> Undefined
           | v # rest \<Rightarrow> pbuffer_attribs rest
               (if a = EGL_WIDTH then (v, h, texFormat, texTarget)
                else if a = EGL_HEIGHT then (w, v, texFormat, texTarget)
                else if a = EGL_TEXTURE_FORMAT then (w, h, v, texTarget)
                else if a = EGL_TEXTURE_TARGET then (w, h, texFormat, v)
                else (w, h, texFormat, texTarget)))"

definition eglCreatePbufferSurface ::
  "egl_env \<Rightarrow> nat \<Rightarrow> egl_state \<Rightarrow> addr \<Rightarrow> int \<Rightarrow> int list option \<Rightarrow> (egl_state \<times> addr) outcome" where
  "eglCreatePbufferSurface E t st dpy config attrib_list =
     validate_display_init E t st dpy 0
       (validate_config t st config 0
         (obind (getConfigAttrib (eg_display st) config EGL_SURFACE_TYPE) (\<lambda>v. case v of
            None \<Rightarrow> Returned (st, 0)
          | Some surfaceType \<Rightarrow>
              if surfaceType AND EGL_PBUFFER_BIT = 0 then Returned (setErrorFunc t st EGL_BAD_MATCH 0)
              else obind (case attrib_list of None \<Rightarrow> Undefined
                          | Some as \<Rightarrow> pbuffer_attribs as (0, 0, EGL_NO_TEXTURE, EGL_NO_TEXTURE))
                (\<lambda>(w, h, texFormat, texTarget).
                  if (texFormat = EGL_NO_TEXTURE) \<noteq> (texTarget = EGL_NO_TEXTURE)
                  then Returned (setErrorFunc t st EGL_BAD_MATCH 0)
                  else obind (getConfigGLPixelFormat (eg_display st) config) (\<lambda>f. case f of
                    None \<Rightarrow> Returned (setErrorFunc t st EGL_BAD_MATCH 0)
                  | Some pixelFormat \<Rightarrow>
                      obind (pbuffer_create E t st dpy config surfaceType w h pixelFormat) (\<lambda>(st1, p).
                        if p = 0 then Returned (setErrorFunc t st1 EGL_BAD_ALLOC 0)
                        else obind (deref (eg_surfaces st1) p) (\<lambda>s.
                          Returned (addSurface (put_surface st1 p
                            (s\<lparr>su_texFormat := texFormat, su_texTarget := texTarget\<rparr>)) p, p))))))))"

definition eglDestroySurface :: "egl_env \<Rightarrow> nat \<Rightarrow> egl_state \<Rightarrow> addr \<Rightarrow> addr \<Rightarrow> (egl_state \<times> bool) outcome" where
  "eglDestroySurface E t st dpy surface =
     validate_display_init E t st dpy False
       (validate_surface E t st surface False
         (let st1 = removeSurface st surface in
          if surface = 0 then Returned (st1, True)
          else obind (surface_delete E t st1 surface) (\<lambda>st2. Returned (st2, True))))"

text \<open>The result and what is stored through \<open>value\<close>.\<close>

definition eglQuerySurface ::
  "egl_env \<Rightarrow> nat \<Rightarrow> egl_state \<Rightarrow> addr \<Rightarrow> addr \<Rightarrow> int \<Rightarrow> (egl_state \<times> bool \<times> int option) outcome" where
  "eglQuerySurface E t st dpy surface attribute =
     validate_display_init E t st dpy (False, None)
       (validate_surface E t st surface (False, None)
         (if attribute \<in> {EGL_CONFIG_ID, EGL_WIDTH, EGL_HEIGHT, EGL_TEXTURE_FORMAT, EGL_TEXTURE_TARGET,
               EGL_SWAP_BEHAVIOR, EGL_LARGEST_PBUFFER}
          then obind (deref (eg_surfaces st) surface) (\<lambda>s.
            if attribute = EGL_CONFIG_ID then
              obind (getConfigAttrib (eg_display st) (su_config s) EGL_CONFIG_ID) (\<lambda>v. Returned (st, v \<noteq> None, v))
            else Returned (st, True,
              if attribute = EGL_WIDTH then Some (su_width s)
              else if attribute = EGL_HEIGHT then Some (su_height s)
              else if attribute = EGL_TEXTURE_FORMAT then Some (su_texFormat s)
              else if attribute = EGL_TEXTURE_TARGET then Some (su_texTarget s)
              else if attribute = EGL_SWAP_BEHAVIOR then Some EGL_BUFFER_PRESERVED
              else if su_surfaceType s AND EGL_PBUFFER_BIT \<noteq> 0 then Some 0 else None))
          else Returned (setErrorFunc t st EGL_BAD_ATTRIBUTE (False, None))))"

definition eglBindAPI :: "nat \<Rightarrow> egl_state \<Rightarrow> int \<Rightarrow> egl_state \<times> bool" where
  "eglBindAPI t st api =
     (if api \<noteq> EGL_OPENGL_ES_API then setErrorFunc t st EGL_BAD_PARAMETER False else (st, True))"

definition eglQueryAPI :: int where
  "eglQueryAPI = EGL_OPENGL_ES_API"

text \<open>The entry points that are not implemented and return 0.\<close>

definition egl_unimplemented :: "egl_state \<Rightarrow> egl_state \<times> int" where
  "egl_unimplemented st = (st, 0)"

text \<open>A window surface is no pbuffer surface: to read the colour buffer of one is undefined.\<close>

definition eglBindTexImage :: "egl_env \<Rightarrow> nat \<Rightarrow> egl_state \<Rightarrow> addr \<Rightarrow> addr \<Rightarrow> int \<Rightarrow> (egl_state \<times> bool) outcome" where
  "eglBindTexImage E t st dpy surface buffer =
     validate_display_init E t st dpy False
       (validate_surface E t st surface False
         (if surface = 0 then Returned (setErrorFunc t st EGL_BAD_SURFACE False)
          else if buffer \<noteq> EGL_BACK_BUFFER then Returned (setErrorFunc t st EGL_BAD_PARAMETER False)
          else obind (deref (eg_surfaces st) surface) (\<lambda>s.
            if su_texFormat s = EGL_NO_TEXTURE then Returned (setErrorFunc t st EGL_BAD_MATCH False)
            else if su_surfaceType s AND EGL_PBUFFER_BIT = 0
              then Returned (setErrorFunc t st EGL_BAD_SURFACE False)
            else with_rc E t st False (\<lambda>st1. case su_kind s of
              Window_surface _ _ \<Rightarrow> Undefined
            | Pbuffer_surface color \<Rightarrow> Returned (ecall st1 (rcBindTexture color), True)))))"

definition eglSwapInterval :: "egl_env \<Rightarrow> nat \<Rightarrow> egl_state \<Rightarrow> addr \<Rightarrow> int \<Rightarrow> (egl_state \<times> bool) outcome" where
  "eglSwapInterval E t st dpy interval =
     validate_display_init E t st dpy False
       (with_rc E t st False (\<lambda>st1.
          if current_of st1 t = 0 then Returned (setErrorFunc t st1 EGL_BAD_CONTEXT False)
          else obind (deref (eg_contexts st1) (current_of st1 t)) (\<lambda>c.
            if cx_draw c = 0 then Returned (setErrorFunc t st1 EGL_BAD_SURFACE False)
            else obind (deref (eg_surfaces st1) (cx_draw c)) (\<lambda>s.
              Returned (ecall (surface_setSwapInterval st1 s interval) (Rc (rcFBSetSwapInterval interval)), True)))))"

text \<open>What \<open>swapBuffers\<close> returns is dropped.\<close>

definition eglSwapBuffers :: "egl_env \<Rightarrow> nat \<Rightarrow> egl_state \<Rightarrow> addr \<Rightarrow> addr \<Rightarrow> (egl_state \<times> bool) outcome" where
  "eglSwapBuffers E t st dpy surface =
     validate_display_init E t st dpy False
       (if surface = 0 then Returned (setErrorFunc t st EGL_BAD_SURFACE False)
        else with_rc E t st False (\<lambda>st1.
          obind (deref (eg_surfaces st1) surface) (\<lambda>d.
            if su_dpy d \<noteq> dpy then Returned (setErrorFunc t st1 EGL_BAD_DISPLAY False)
            else obind (surface_swapBuffers E t st1 surface) (\<lambda>(st2, _).
              obind (egl_flush t st2) (\<lambda>st3. Returned (st3, True))))))"

section \<open>Contexts\<close>

fun context_version :: "int list \<Rightarrow> int \<Rightarrow> int outcome" where
  "context_version [] version = Undefined"
| "context_version (a # as) version =
     (if a = 0 then Returned version
      else case as of
             [] \<Rightarrow> Undefined
           | v # rest \<Rightarrow> context_version rest (if a = EGL_CONTEXT_CLIENT_VERSION then v else version))"

definition eglCreateContext ::
  "egl_env \<Rightarrow> nat \<Rightarrow> egl_state \<Rightarrow> addr \<Rightarrow> int \<Rightarrow> addr \<Rightarrow> int list option \<Rightarrow> (egl_state \<times> addr) outcome" where
  "eglCreateContext E t st dpy config share_context attrib_list =
     validate_display_init E t st dpy 0
       (validate_config t st config 0
         (obind (case attrib_list of None \<Rightarrow> Returned 1 | Some as \<Rightarrow> context_version as 1) (\<lambda>version.
          obind (if share_context = 0 then Returned (0, dpy)
                 else obind (deref (eg_contexts st) share_context) (\<lambda>c. Returned (cx_rcContext c, cx_dpy c)))
            (\<lambda>(rcShareCtx, share_dpy).
              if share_dpy \<noteq> dpy then Returned (setErrorFunc t st EGL_BAD_MATCH 0)
              else with_rc E t st 0 (\<lambda>st1.
                let st2 = ecall st1 (rcCreateContext config rcShareCtx version);
                    rcContext = ee_word E (eg_calls st2)
                in if rcContext = 0 then Returned (setErrorFunc t st2 EGL_BAD_ALLOC 0)
                   else obind (EGLContext_new E st2 dpy config share_context) (\<lambda>(st3, h).
                     obind (deref (eg_contexts st3) h) (\<lambda>c.
                       Returned (addContext (put_ctx st3 h
                         (c\<lparr>cx_version := version, cx_rcContext := rcContext\<rparr>)) h, h))))))))"

definition eglDestroyContext :: "egl_env \<Rightarrow> nat \<Rightarrow> egl_state \<Rightarrow> addr \<Rightarrow> addr \<Rightarrow> (egl_state \<times> bool) outcome" where
  "eglDestroyContext E t st dpy ctx = destroy_context_with (\<lambda>st'. removeContext st' ctx) E t st dpy ctx"

text \<open>\<open>setClientState\<close> and \<open>setSharedGroup\<close> of the encoder for a version.\<close>

definition bind_encoder :: "int \<Rightarrow> addr \<Rightarrow> addr \<Rightarrow> host_conn \<Rightarrow> host_conn" where
  "bind_encoder version clientState sharedGroup con =
     (let bind = map_option (\<lambda>b. b\<lparr>eb_state := clientState, eb_group := sharedGroup\<rparr>) in
      if version = 2 then (gl2Encoder con)\<lparr>hc_gl2 := bind (hc_gl2 (gl2Encoder con))\<rparr>
      else (glEncoder con)\<lparr>hc_gl := bind (hc_gl (glEncoder con))\<rparr>)"

definition upd_conn :: "nat \<Rightarrow> egl_state \<Rightarrow> (host_conn \<Rightarrow> host_conn) \<Rightarrow> egl_state" where
  "upd_conn t st f = put_thread st t ((eg_threads st t)\<lparr>ti_hostConn := map_option f (ti_hostConn (eg_threads st t))\<rparr>)"

definition upd_ctx :: "egl_state \<Rightarrow> addr \<Rightarrow> (egl_ctx \<Rightarrow> egl_ctx) \<Rightarrow> egl_state outcome" where
  "upd_ctx st h f = obind (deref (eg_contexts st) h) (\<lambda>c. Returned (put_ctx st h (f c)))"

text \<open>The local bind: of a context, or the release of the encoder of the previous one.\<close>

definition bind_local :: "nat \<Rightarrow> egl_state \<Rightarrow> addr \<Rightarrow> addr \<Rightarrow> addr \<Rightarrow> egl_state outcome" where
  "bind_local t st draw read ctx =
     (if ctx \<noteq> 0
      then obind (deref (eg_contexts st) ctx) (\<lambda>c.
        Returned (upd_conn t
          (put_ctx st ctx (c\<lparr>cx_draw := draw, cx_read := read, cx_flags := cx_flags c OR IS_CURRENT\<rparr>))
          (bind_encoder (cx_version c) (cx_clientState c) (cx_sharedGroup c))))
      else obind (deref (eg_contexts st) (current_of st t)) (\<lambda>c.
        Returned (upd_conn t st (bind_encoder (cx_version c) 0 0))))"

text \<open>The change of the current context; a previous one that is marked is destroyed now.\<close>

definition switch_current :: "egl_env \<Rightarrow> nat \<Rightarrow> egl_state \<Rightarrow> addr \<Rightarrow> egl_state outcome" where
  "switch_current E t st ctx =
     (let prev = current_of st t in
      obind (if prev = 0 then Returned st
             else upd_ctx st prev (\<lambda>c. c\<lparr>cx_flags := cx_flags c AND NOT IS_CURRENT\<rparr>)) (\<lambda>st1.
        let st2 = put_thread st1 t ((eg_threads st1 t)\<lparr>ti_currentContext := ctx\<rparr>) in
        if prev = 0 then Returned st2
        else obind (deref (eg_contexts st2) prev) (\<lambda>p.
          if cx_flags p AND TO_DELETE \<noteq> 0
          then obind (eglDestroyContext E t st2 (ee_display E) prev) (\<lambda>(st3, _). Returned st3)
          else Returned st2)))"

definition set_encoder_init :: "int \<Rightarrow> host_conn \<Rightarrow> host_conn" where
  "set_encoder_init version con =
     (let init = map_option (\<lambda>b. b\<lparr>eb_init := True\<rparr>) in
      if version = 2 then con\<lparr>hc_gl2 := init (hc_gl2 con)\<rparr> else con\<lparr>hc_gl := init (hc_gl con)\<rparr>)"

text \<open>The first time an encoder is used, the library of its version installs its functions.\<close>

definition init_encoder :: "egl_env \<Rightarrow> nat \<Rightarrow> egl_state \<Rightarrow> egl_state outcome" where
  "init_encoder E t st =
     (if current_of st t = 0 then Returned st
      else obind (deref (eg_contexts st) (current_of st t)) (\<lambda>c.
        let v2 = (cx_version c = 2);
            st1 = upd_conn t st (if v2 then gl2Encoder else glEncoder)
        in case Option.bind (ti_hostConn (eg_threads st1 t)) (if v2 then hc_gl2 else hc_gl) of
             None \<Rightarrow> Undefined
           | Some b \<Rightarrow>
               if eb_init b then Returned st1
               else if \<not> (if v2 then ds_gles2_iface (eg_display st1) else ds_gles_iface (eg_display st1)) then Undefined
               else Returned (initClientFuncs E
                      (upd_conn t (ecall st1 (Gles_init (if v2 then 2 else 1))) (set_encoder_init (cx_version c)))
                      (if v2 then 1 else 0))))"

definition surface_handle :: "egl_state \<Rightarrow> addr \<Rightarrow> u32 outcome" where
  "surface_handle st surface =
     (if surface = 0 then Returned 0 else obind (deref (eg_surfaces st) surface) (\<lambda>s. Returned (su_rcSurface s)))"

definition eglMakeCurrent ::
  "egl_env \<Rightarrow> nat \<Rightarrow> egl_state \<Rightarrow> addr \<Rightarrow> addr \<Rightarrow> addr \<Rightarrow> addr \<Rightarrow> (egl_state \<times> bool) outcome" where
  "eglMakeCurrent E t st dpy draw read ctx =
     validate_display_init E t st dpy False
       (validate_surface E t st draw False
         (validate_surface E t st read False
           (if (read = 0 \<and> draw = 0) \<and> ctx \<noteq> 0 then Returned (setErrorFunc t st EGL_BAD_MATCH False)
            else if (read \<noteq> 0 \<or> draw \<noteq> 0) \<and> ctx = 0 then Returned (setErrorFunc t st EGL_BAD_MATCH False)
            else obind (if ctx = 0 then Returned None else obind (deref (eg_contexts st) ctx) (\<lambda>c. Returned (Some c))) (\<lambda>context.
              obind (surface_handle st draw) (\<lambda>drawHandle.
              obind (surface_handle st read) (\<lambda>readHandle.
                if current_of st t = ctx
                   \<and> (case context of None \<Rightarrow> True | Some c \<Rightarrow> cx_draw c = draw \<and> cx_read c = read)
                then Returned (st, True)
                else if (case context of None \<Rightarrow> False | Some c \<Rightarrow> cx_flags c AND IS_CURRENT \<noteq> 0) \<and> ctx \<noteq> current_of st t
                then Returned (setErrorFunc t st EGL_BAD_ACCESS False)
                else with_rc E t st False (\<lambda>st1.
                  let st2 = ecall st1 (rcMakeCurrent (case context of None \<Rightarrow> 0 | Some c \<Rightarrow> cx_rcContext c) drawHandle readHandle)
                  in if ee_int E (eg_calls st2) = 0 then Returned (setErrorFunc t st2 EGL_BAD_CONTEXT False)
                     else obind (bind_local t st2 draw read ctx) (\<lambda>st3.
                       obind (switch_current E t st3 ctx) (\<lambda>st4.
                         obind (init_encoder E t st4) (\<lambda>st5. Returned (st5, True)))))))))))"

definition eglReleaseThread :: "egl_env \<Rightarrow> nat \<Rightarrow> egl_state \<Rightarrow> (egl_state \<times> bool) outcome" where
  "eglReleaseThread E t st =
     (if current_of st t \<noteq> 0 then eglMakeCurrent E t st (ee_display E) 0 0 0 else Returned (st, True))"

definition eglGetCurrentContext :: "nat \<Rightarrow> egl_state \<Rightarrow> addr" where
  "eglGetCurrentContext t st = current_of st t"

definition eglGetCurrentSurface :: "nat \<Rightarrow> egl_state \<Rightarrow> int \<Rightarrow> (egl_state \<times> addr) outcome" where
  "eglGetCurrentSurface t st readdraw =
     (if current_of st t = 0 then Returned (st, 0)
      else if readdraw = EGL_READ then obind (deref (eg_contexts st) (current_of st t)) (\<lambda>c. Returned (st, cx_read c))
      else if readdraw = EGL_DRAW then obind (deref (eg_contexts st) (current_of st t)) (\<lambda>c. Returned (st, cx_draw c))
      else Returned (setErrorFunc t st EGL_BAD_PARAMETER 0))"

definition eglGetCurrentDisplay :: "nat \<Rightarrow> egl_state \<Rightarrow> addr outcome" where
  "eglGetCurrentDisplay t st =
     (if current_of st t = 0 then Returned 0
      else obind (deref (eg_contexts st) (current_of st t)) (\<lambda>c. Returned (cx_dpy c)))"

definition eglQueryContext ::
  "egl_env \<Rightarrow> nat \<Rightarrow> egl_state \<Rightarrow> addr \<Rightarrow> addr \<Rightarrow> int \<Rightarrow> (egl_state \<times> bool \<times> int option) outcome" where
  "eglQueryContext E t st dpy ctx attribute =
     validate_display_init E t st dpy (False, None)
       (if ctx = 0 then Returned (setErrorFunc t st EGL_BAD_CONTEXT (False, None))
        else if attribute = EGL_CONTEXT_CLIENT_TYPE then Returned (st, True, Some EGL_OPENGL_ES_API)
        else if attribute \<in> {EGL_CONFIG_ID, EGL_CONTEXT_CLIENT_VERSION, EGL_RENDER_BUFFER}
        then obind (deref (eg_contexts st) ctx) (\<lambda>c.
          if attribute = EGL_CONFIG_ID then
            obind (getConfigAttrib (eg_display st) (cx_config c) EGL_CONFIG_ID) (\<lambda>v. Returned (st, v \<noteq> None, v))
          else if attribute = EGL_CONTEXT_CLIENT_VERSION then Returned (st, True, Some (cx_version c))
          else Returned (st, True, Some (if cx_draw c = 0 then EGL_NONE else EGL_BACK_BUFFER)))
        else Returned (setErrorFunc t st EGL_BAD_ATTRIBUTE (False, None)))"

text \<open>\<open>finish\<close> of the library that a version belongs to.\<close>

definition gles_finish :: "egl_state \<Rightarrow> int \<Rightarrow> egl_state outcome" where
  "gles_finish st version =
     (if version = 2
      then (if ds_gles2_iface (eg_display st) then Returned (ecall st (Gles_finish 2)) else Undefined)
      else (if ds_gles_iface (eg_display st) then Returned (ecall st (Gles_finish 1)) else Undefined))"

definition eglWaitGL :: "nat \<Rightarrow> egl_state \<Rightarrow> (egl_state \<times> bool) outcome" where
  "eglWaitGL t st =
     (if current_of st t = 0 then Returned (st, False)
      else obind (deref (eg_contexts st) (current_of st t)) (\<lambda>c.
        obind (gles_finish st (cx_version c)) (\<lambda>st1. Returned (st1, True))))"

definition eglWaitClient :: "nat \<Rightarrow> egl_state \<Rightarrow> (egl_state \<times> bool) outcome" where
  "eglWaitClient t st = eglWaitGL t st"

definition eglWaitNative :: "egl_state \<Rightarrow> egl_state \<times> bool" where
  "eglWaitNative st = (st, True)"

section \<open>Images and fences\<close>

definition eglCreateImageKHR ::
  "egl_env \<Rightarrow> nat \<Rightarrow> egl_state \<Rightarrow> addr \<Rightarrow> addr \<Rightarrow> int \<Rightarrow> addr \<Rightarrow> (egl_state \<times> addr) outcome" where
  "eglCreateImageKHR E t st dpy ctx target buffer =
     validate_display_init E t st dpy 0
       (if ctx \<noteq> 0 then Returned (setErrorFunc t st EGL_BAD_CONTEXT 0)
        else if target \<noteq> EGL_NATIVE_BUFFER_ANDROID then Returned (setErrorFunc t st EGL_BAD_PARAMETER 0)
        else obind (deref (eg_buffers st) buffer) (\<lambda>b.
          if nb_magic b \<noteq> ee_buffer_magic E then Returned (setErrorFunc t st EGL_BAD_PARAMETER 0)
          else if nb_version b \<noteq> ee_buffer_size E then Returned (setErrorFunc t st EGL_BAD_PARAMETER 0)
          else obind (deref (eg_cbs st) (nb_handle b)) (\<lambda>cb.
            if cb_format cb \<notin> {RGBA_8888, RGBX_8888, RGB_888, RGB_565, BGRA_8888, RGBA_5551, RGBA_4444}
            then Returned (setErrorFunc t st EGL_BAD_PARAMETER 0)
            else Returned (ecall st (Buf_incRef buffer), buffer))))"

definition eglDestroyImageKHR :: "egl_env \<Rightarrow> nat \<Rightarrow> egl_state \<Rightarrow> addr \<Rightarrow> addr \<Rightarrow> (egl_state \<times> bool) outcome" where
  "eglDestroyImageKHR E t st dpy img =
     validate_display_init E t st dpy False
       (obind (deref (eg_buffers st) img) (\<lambda>b.
          if nb_magic b \<noteq> ee_buffer_magic E then Returned (setErrorFunc t st EGL_BAD_PARAMETER False)
          else if nb_version b \<noteq> ee_buffer_size E then Returned (setErrorFunc t st EGL_BAD_PARAMETER False)
          else Returned (ecall st (Buf_decRef img), True)))"

definition FENCE_SYNC_HANDLE :: addr where
  "FENCE_SYNC_HANDLE = 0xFE4CE"

definition eglCreateSyncKHR ::
  "egl_env \<Rightarrow> nat \<Rightarrow> egl_state \<Rightarrow> addr \<Rightarrow> int \<Rightarrow> int list option \<Rightarrow> (egl_state \<times> addr) outcome" where
  "eglCreateSyncKHR E t st dpy type attrib_list =
     validate_display E t st dpy 0
       (obind (if type \<noteq> EGL_SYNC_FENCE_KHR then Returned True
               else case attrib_list of
                      None \<Rightarrow> Returned False
                    | Some [] \<Rightarrow> Undefined
                    | Some (a # _) \<Rightarrow> Returned (a \<noteq> EGL_NONE)) (\<lambda>bad.
          if bad then Returned (setErrorFunc t st EGL_BAD_ATTRIBUTE 0)
          else if current_of st t = 0 then Returned (setErrorFunc t st EGL_BAD_MATCH 0)
          else obind (deref (eg_contexts st) (current_of st t)) (\<lambda>c.
            obind (gles_finish st (cx_version c)) (\<lambda>st1. Returned (st1, FENCE_SYNC_HANDLE)))))"

definition eglDestroySyncKHR :: "nat \<Rightarrow> egl_state \<Rightarrow> addr \<Rightarrow> egl_state \<times> bool" where
  "eglDestroySyncKHR t st sync =
     (if sync \<noteq> FENCE_SYNC_HANDLE then setErrorFunc t st EGL_BAD_PARAMETER False else (st, True))"

definition eglClientWaitSyncKHR :: "nat \<Rightarrow> egl_state \<Rightarrow> addr \<Rightarrow> egl_state \<times> int" where
  "eglClientWaitSyncKHR t st sync =
     (if sync \<noteq> FENCE_SYNC_HANDLE then setErrorFunc t st EGL_BAD_PARAMETER 0
      else (st, EGL_CONDITION_SATISFIED_KHR))"

definition eglGetSyncAttribKHR :: "nat \<Rightarrow> egl_state \<Rightarrow> addr \<Rightarrow> int \<Rightarrow> egl_state \<times> int option" where
  "eglGetSyncAttribKHR t st sync attribute =
     (if sync \<noteq> FENCE_SYNC_HANDLE then setErrorFunc t st EGL_BAD_PARAMETER None
      else if attribute = EGL_SYNC_TYPE_KHR then (st, Some EGL_SYNC_FENCE_KHR)
      else if attribute = EGL_SYNC_STATUS_KHR then (st, Some EGL_SIGNALED_KHR)
      else if attribute = EGL_SYNC_CONDITION_KHR then (st, Some EGL_SYNC_PRIOR_COMMANDS_COMPLETE_KHR)
      else setErrorFunc t st EGL_BAD_ATTRIBUTE None)"

end
