(* ===== verification/EGLFrame.thy ===== *)
theory EGLFrame
  imports EGL
begin

text \<open>
  What the entry points of EGL leave alone. \<open>egl_frame st st'\<close> says that contexts, client states,
  current contexts and the encoders' bindings are those of before, that errors stay error codes
  and surfaces well typed. All entry points but those that create, destroy or switch contexts
  have this frame.
\<close>

section \<open>Well-typed errors and surfaces\<close>

definition egl_codes :: "int set" where
  "egl_codes = {EGL_SUCCESS, EGL_NOT_INITIALIZED, EGL_BAD_ACCESS, EGL_BAD_ALLOC, EGL_BAD_ATTRIBUTE,
     EGL_BAD_CONFIG, EGL_BAD_CONTEXT, EGL_BAD_DISPLAY, EGL_BAD_MATCH, EGL_BAD_NATIVE_WINDOW,
     EGL_BAD_PARAMETER, EGL_BAD_SURFACE}"

text \<open>A window surface has no texture format, so that it never passes for a pbuffer.\<close>

definition surface_ok :: "egl_env \<Rightarrow> egl_surface \<Rightarrow> bool" where
  "surface_ok E s \<longleftrightarrow> su_dpy s = ee_display E
     \<and> (case su_kind s of Window_surface _ _ \<Rightarrow> su_texFormat s = EGL_NO_TEXTURE | Pbuffer_surface _ \<Rightarrow> True)"

definition egl_typed :: "egl_env \<Rightarrow> egl_state \<Rightarrow> bool" where
  "egl_typed E st \<longleftrightarrow> (\<forall>t. ti_eglError (eg_threads st t) \<in> egl_codes)
     \<and> (\<forall>h s. eg_surfaces st h = Some s \<longrightarrow> surface_ok E s)"

section \<open>Fields\<close>

lemma ecall_fields [simp]:
  "eg_display (ecall st c) = eg_display st"
  "eg_contexts (ecall st c) = eg_contexts st"
  "eg_surfaces (ecall st c) = eg_surfaces st"
  "eg_clients (ecall st c) = eg_clients st"
  "eg_threads (ecall st c) = eg_threads st"
  "eg_exts (ecall st c) = eg_exts st"
  "eg_windows (ecall st c) = eg_windows st"
  "eg_buffers (ecall st c) = eg_buffers st"
  "eg_cbs (ecall st c) = eg_cbs st"
  by (simp_all add: ecall_def)

lemma put_surface_fields [simp]:
  "eg_display (put_surface st h s) = eg_display st"
  "eg_contexts (put_surface st h s) = eg_contexts st"
  "eg_surfaces (put_surface st h s) = (eg_surfaces st)(h \<mapsto> s)"
  "eg_clients (put_surface st h s) = eg_clients st"
  "eg_threads (put_surface st h s) = eg_threads st"
  "eg_exts (put_surface st h s) = eg_exts st"
  "eg_windows (put_surface st h s) = eg_windows st"
  "eg_buffers (put_surface st h s) = eg_buffers st"
  "eg_cbs (put_surface st h s) = eg_cbs st"
  by (simp_all add: put_surface_def)

lemma put_ctx_fields [simp]:
  "eg_display (put_ctx st h c) = eg_display st"
  "eg_contexts (put_ctx st h c) = (eg_contexts st)(h \<mapsto> c)"
  "eg_surfaces (put_ctx st h c) = eg_surfaces st"
  "eg_clients (put_ctx st h c) = eg_clients st"
  "eg_threads (put_ctx st h c) = eg_threads st"
  "eg_exts (put_ctx st h c) = eg_exts st"
  "eg_windows (put_ctx st h c) = eg_windows st"
  "eg_buffers (put_ctx st h c) = eg_buffers st"
  "eg_cbs (put_ctx st h c) = eg_cbs st"
  by (simp_all add: put_ctx_def)

lemma put_thread_fields [simp]:
  "eg_display (put_thread st t ti) = eg_display st"
  "eg_contexts (put_thread st t ti) = eg_contexts st"
  "eg_surfaces (put_thread st t ti) = eg_surfaces st"
  "eg_clients (put_thread st t ti) = eg_clients st"
  "eg_threads (put_thread st t ti) = (eg_threads st)(t := ti)"
  "eg_exts (put_thread st t ti) = eg_exts st"
  "eg_windows (put_thread st t ti) = eg_windows st"
  "eg_buffers (put_thread st t ti) = eg_buffers st"
  "eg_cbs (put_thread st t ti) = eg_cbs st"
  by (simp_all add: put_thread_def)

lemma put_display_fields [simp]:
  "eg_display (put_display st d) = d"
  "eg_contexts (put_display st d) = eg_contexts st"
  "eg_surfaces (put_display st d) = eg_surfaces st"
  "eg_clients (put_display st d) = eg_clients st"
  "eg_threads (put_display st d) = eg_threads st"
  "eg_exts (put_display st d) = eg_exts st"
  "eg_windows (put_display st d) = eg_windows st"
  "eg_buffers (put_display st d) = eg_buffers st"
  "eg_cbs (put_display st d) = eg_cbs st"
  by (simp_all add: put_display_def)

lemma set_error_fields [simp]:
  "eg_display (set_error t st err) = eg_display st"
  "eg_contexts (set_error t st err) = eg_contexts st"
  "eg_surfaces (set_error t st err) = eg_surfaces st"
  "eg_clients (set_error t st err) = eg_clients st"
  "eg_exts (set_error t st err) = eg_exts st"
  "eg_windows (set_error t st err) = eg_windows st"
  "eg_buffers (set_error t st err) = eg_buffers st"
  "eg_cbs (set_error t st err) = eg_cbs st"
  "eg_calls (set_error t st err) = eg_calls st"
  by (simp_all add: set_error_def put_thread_def)

section \<open>The frame\<close>

text \<open>What matters of a context, and of a connection.\<close>

definition ctx_key :: "egl_ctx \<Rightarrow> u32 \<times> int \<times> addr \<times> addr" where
  "ctx_key c = (cx_flags c, cx_version c, cx_clientState c, cx_sharedGroup c)"

definition conn_kept :: "host_conn option \<Rightarrow> host_conn option \<Rightarrow> bool" where
  "conn_kept a b \<longleftrightarrow> (\<forall>con. a = Some con \<longrightarrow>
     (\<exists>con'. b = Some con' \<and> hc_gl con' = hc_gl con \<and> hc_gl2 con' = hc_gl2 con))"

definition egl_frame :: "egl_env \<Rightarrow> egl_state \<Rightarrow> egl_state \<Rightarrow> bool" where
  "egl_frame E st st' \<longleftrightarrow>
     map_option ctx_key \<circ> eg_contexts st' = map_option ctx_key \<circ> eg_contexts st
     \<and> eg_clients st' = eg_clients st
     \<and> ds_contexts (eg_display st') = ds_contexts (eg_display st)
     \<and> (\<forall>t. current_of st' t = current_of st t)
     \<and> (\<forall>t. conn_kept (ti_hostConn (eg_threads st t)) (ti_hostConn (eg_threads st' t)))
     \<and> (egl_typed E st \<longrightarrow> egl_typed E st')"

lemma egl_frame_refl [simp, intro]: "egl_frame E st st"
  by (simp add: egl_frame_def conn_kept_def)

lemma egl_frame_trans [trans]:
  assumes "egl_frame E st st'" and "egl_frame E st' st''"
  shows "egl_frame E st st''"
proof -
  have "conn_kept (ti_hostConn (eg_threads st t)) (ti_hostConn (eg_threads st'' t))" for t
    using assms unfolding egl_frame_def conn_kept_def by metis
  then show ?thesis using assms by (simp add: egl_frame_def)
qed

text \<open>A frame that extends the one of a state that only differs in irrelevant parts.\<close>

lemma frame_ecall [simp]: "egl_frame E st (ecall st' c) \<longleftrightarrow> egl_frame E st st'"
  by (simp add: egl_frame_def ecall_def egl_typed_def)

lemma frame_ecall_left [simp]: "egl_frame E (ecall st c) st' \<longleftrightarrow> egl_frame E st st'"
  by (simp add: egl_frame_def ecall_def egl_typed_def)

lemma frame_display [simp]:
  "ds_contexts d = ds_contexts (eg_display st') \<Longrightarrow> egl_frame E st (put_display st' d) \<longleftrightarrow> egl_frame E st st'"
  by (simp add: egl_frame_def put_display_def egl_typed_def)

lemma frame_display_left [simp]:
  "ds_contexts d = ds_contexts (eg_display st) \<Longrightarrow> egl_frame E (put_display st d) st' \<longleftrightarrow> egl_frame E st st'"
  by (simp add: egl_frame_def put_display_def egl_typed_def)

lemma frame_exts [simp]: "egl_frame E st (st'\<lparr>eg_exts := x\<rparr>) \<longleftrightarrow> egl_frame E st st'"
  by (simp add: egl_frame_def egl_typed_def)

lemma put_surface_frame: "surface_ok E s \<Longrightarrow> egl_frame E st (put_surface st h s)"
  by (auto simp: put_surface_def egl_frame_def conn_kept_def egl_typed_def)

lemma forget_surface_frame: "egl_frame E st (forget_surface st h)"
  by (auto simp: forget_surface_def egl_frame_def conn_kept_def egl_typed_def)

lemma put_ctx_frame:
  assumes "eg_contexts st h = Some c" and "ctx_key c' = ctx_key c"
  shows "egl_frame E st (put_ctx st h c')"
  using assms by (auto simp: put_ctx_def egl_frame_def conn_kept_def egl_typed_def fun_eq_iff)

lemma put_thread_frame:
  assumes "ti_currentContext ti = current_of st t" and "ti_eglError ti = ti_eglError (eg_threads st t)"
    and "conn_kept (ti_hostConn (eg_threads st t)) (ti_hostConn ti)"
  shows "egl_frame E st (put_thread st t ti)"
  using assms by (auto simp: put_thread_def egl_frame_def egl_typed_def conn_kept_def)

lemma frame_surface [simp]: "egl_frame E st st' \<Longrightarrow> surface_ok E s \<Longrightarrow> egl_frame E st (put_surface st' h s)"
  by (metis egl_frame_trans put_surface_frame)

lemma codes [simp]:
  "EGL_SUCCESS \<in> egl_codes" "EGL_NOT_INITIALIZED \<in> egl_codes" "EGL_BAD_ACCESS \<in> egl_codes"
  "EGL_BAD_ALLOC \<in> egl_codes" "EGL_BAD_ATTRIBUTE \<in> egl_codes" "EGL_BAD_CONFIG \<in> egl_codes"
  "EGL_BAD_CONTEXT \<in> egl_codes" "EGL_BAD_DISPLAY \<in> egl_codes" "EGL_BAD_MATCH \<in> egl_codes"
  "EGL_BAD_NATIVE_WINDOW \<in> egl_codes" "EGL_BAD_PARAMETER \<in> egl_codes" "EGL_BAD_SURFACE \<in> egl_codes"
  by (simp_all add: egl_codes_def)

lemma frame_error [simp]:
  assumes "egl_frame E st st'" and "err \<in> egl_codes"
  shows "egl_frame E st (set_error t st' err)"
proof -
  have "egl_frame E st' (set_error t st' err)"
    using assms(2) by (auto simp: set_error_def put_thread_def egl_frame_def conn_kept_def egl_typed_def)
  then show ?thesis using assms(1) by (rule egl_frame_trans [rotated])
qed

declare setErrorFunc_def [simp]

section \<open>Host connection\<close>

lemma get_keeps:
  assumes "HostConnection_get fresh a ti = Returned (ti', ok)"
  shows "ti_currentContext ti' = ti_currentContext ti \<and> ti_eglError ti' = ti_eglError ti
    \<and> (ti_hostConn ti \<noteq> None \<longrightarrow> ti' = ti \<and> ok) \<and> (ok \<longrightarrow> ti_hostConn ti' \<noteq> None)"
  using assms
  by (auto simp: HostConnection_get_def obind_Returned_iff Let_def split: option.splits prod.splits if_splits)

lemma rcEncoder_keeps [simp]: "hc_gl (rcEncoder con) = hc_gl con" "hc_gl2 (rcEncoder con) = hc_gl2 con"
  "hc_stream (rcEncoder con) = hc_stream con"
  by (simp_all add: rcEncoder_def)

lemma egl_host_frame:
  assumes "egl_host E t st = Returned (st', ok)"
  shows "egl_frame E st st'" and "ok \<longleftrightarrow> ti_hostConn (eg_threads st' t) \<noteq> None"
    and "ti_hostConn (eg_threads st t) \<noteq> None \<Longrightarrow> ok"
    and "eg_contexts st' = eg_contexts st" and "eg_clients st' = eg_clients st"
    and "eg_surfaces st' = eg_surfaces st" and "eg_display st' = eg_display st"
proof -
  define st1 where "st1 = (if ti_hostConn (eg_threads st t) = None then ecall st Connect else st)"
  obtain ti where ti: "HostConnection_get (ee_fresh E) (ee_connect E (eg_calls st1)) (eg_threads st1 t) = Returned (ti, ok)"
    and st': "st' = put_thread st1 t (if ok then ti\<lparr>ti_hostConn := map_option rcEncoder (ti_hostConn ti)\<rparr> else ti)"
    using assms by (auto simp: egl_host_def obind_Returned_iff Let_def st1_def)
  have thr: "eg_threads st1 = eg_threads st" by (simp add: st1_def ecall_def)
  have same: "eg_contexts st1 = eg_contexts st" "eg_clients st1 = eg_clients st"
    "eg_surfaces st1 = eg_surfaces st" "eg_display st1 = eg_display st"
    by (simp_all add: st1_def ecall_def)
  note k = get_keeps [OF ti, unfolded thr]
  note r = get_result [OF ti, unfolded thr]
  have "egl_frame E st1 st'"
    unfolding st' by (rule put_thread_frame) (use k r in \<open>auto simp: thr conn_kept_def split: if_splits\<close>)
  moreover have "egl_frame E st st1" by (simp add: st1_def)
  ultimately show "egl_frame E st st'" by (rule egl_frame_trans [rotated])
  show "ok \<longleftrightarrow> ti_hostConn (eg_threads st' t) \<noteq> None"
    using k r by (auto simp: st' put_thread_def split: if_splits)
  show "ti_hostConn (eg_threads st t) \<noteq> None \<Longrightarrow> ok" using k by blast
  show "eg_contexts st' = eg_contexts st" "eg_clients st' = eg_clients st"
    "eg_surfaces st' = eg_surfaces st" "eg_display st' = eg_display st"
    using same by (simp_all add: st' put_thread_def)
qed

lemma egl_host_calls:
  "egl_host E t st = Returned (st', ok) \<Longrightarrow> \<exists>cs. eg_calls st' = eg_calls st @ cs \<and> length cs \<le> 1"
  by (auto simp: egl_host_def put_thread_def ecall_def Let_def elim!: obind_E split: prod.split_asm if_split_asm)

text \<open>A function behind the connection macro either stops there or goes on in the same frame.\<close>

lemma with_rc_cases [consumes 1, case_names refused connected]:
  assumes "with_rc E t st ret k = Returned (st', r)"
  obtains "egl_frame E st st'" "r = ret" "ti_hostConn (eg_threads st t) = None"
      "eg_contexts st' = eg_contexts st"
  | st1 where "egl_frame E st st1" "k st1 = Returned (st', r)" "ti_hostConn (eg_threads st1 t) \<noteq> None"
      "eg_contexts st1 = eg_contexts st" "eg_clients st1 = eg_clients st"
      "eg_surfaces st1 = eg_surfaces st" "eg_display st1 = eg_display st"
      "\<exists>cs. eg_calls st1 = eg_calls st @ cs \<and> length cs \<le> 1"
proof -
  obtain st1 ok where h: "egl_host E t st = Returned (st1, ok)"
    and k: "(if ok then k st1 else Returned (st1, ret)) = Returned (st', r)"
    using assms by (auto simp: with_rc_def obind_Returned_iff)
  note f = egl_host_frame [OF h]
  show ?thesis
  proof (cases ok)
    case True
    then show ?thesis using f k that(2) [of st1] egl_host_calls [OF h] by auto
  next
    case False
    then show ?thesis using f k that(1) by auto
  qed
qed

lemma flush_keeps: "HostConnection_flush con = Returned con' \<Longrightarrow> hc_gl con' = hc_gl con \<and> hc_gl2 con' = hc_gl2 con"
  by (auto simp: HostConnection_flush_def obind_Returned_iff split: prod.splits)

lemma egl_flush_frame:
  assumes "egl_flush t st = Returned st'"
  shows "egl_frame E st st'" and "eg_contexts st' = eg_contexts st" and "eg_clients st' = eg_clients st"
    and "eg_display st' = eg_display st" and "eg_surfaces st' = eg_surfaces st"
proof -
  obtain con con' where c: "ti_hostConn (eg_threads st t) = Some con" "HostConnection_flush con = Returned con'"
    and st': "st' = ecall (put_thread st t ((eg_threads st t)\<lparr>ti_hostConn := Some con'\<rparr>)) Flush_stream"
    using assms by (auto simp: egl_flush_def obind_Returned_iff split: option.splits)
  show "egl_frame E st st'"
    unfolding st' frame_ecall by (rule put_thread_frame) (use c flush_keeps in \<open>auto simp: conn_kept_def\<close>)
qed (use assms in \<open>auto simp: egl_flush_def obind_Returned_iff ecall_def put_thread_def split: option.splits\<close>)

section \<open>Surfaces\<close>

lemma surface_ok_upd [simp]:
  "surface_ok E (s\<lparr>su_rcSurface := rc\<rparr>) = surface_ok E s"
  "surface_ok E (s\<lparr>su_width := w\<rparr>) = surface_ok E s" "surface_ok E (s\<lparr>su_height := ht\<rparr>) = surface_ok E s"
  "surface_ok E (s\<lparr>su_texTarget := x\<rparr>) = surface_ok E s"
  by (simp_all add: surface_ok_def split: surface_kind.splits)

lemma surface_ok_new [simp]: "dpy = ee_display E \<Longrightarrow> surface_ok E (egl_surface_new dpy config surfType kind)"
  by (simp add: surface_ok_def egl_surface_new_def split: surface_kind.splits)

lemma surface_ok_kind [simp]:
  "surface_ok E s \<Longrightarrow> surface_ok E (s\<lparr>su_kind := Pbuffer_surface color\<rparr>)"
  "surface_ok E s \<Longrightarrow> su_kind s = Window_surface win b \<Longrightarrow> surface_ok E (s\<lparr>su_kind := Window_surface win' b'\<rparr>)"
  by (simp_all add: surface_ok_def)

lemma deref_Returned [simp]: "deref m h = Returned x \<longleftrightarrow> m h = Some x"
  by (simp add: deref_def split: option.splits)

lemma surface_delete_frame:
  assumes "surface_delete E t st h = Returned st'"
  shows "egl_frame E st st'" and "eg_contexts st' = eg_contexts st" and "eg_clients st' = eg_clients st"
    and "eg_display st' = eg_display st"
proof -
  obtain s st1 where h: "egl_host E t st = Returned (st1, True)"
    and s: "eg_surfaces st h = Some s"
    using assms by (auto simp: surface_delete_def obind_Returned_iff Let_def split: if_splits)
  define st4 where "st4 = (case su_kind s of
             Window_surface win buffer \<Rightarrow>
               (let st2 = (if su_rcSurface s \<noteq> 0 \<and> True then ecall st1 (rcDestroyWindowSurface (su_rcSurface s)) else st1);
                    st3 = (if buffer \<noteq> 0 then ecall st2 (Win_cancel win buffer) else st2)
                in ecall st3 (Win_decRef win))
           | Pbuffer_surface rcColorBuffer \<Rightarrow>
               (if True
                then (let st2 = (if rcColorBuffer \<noteq> 0 then ecall st1 (Rc (rcCloseColorBuffer rcColorBuffer)) else st1)
                      in if su_rcSurface s \<noteq> 0 then ecall st2 (rcDestroyWindowSurface (su_rcSurface s)) else st2)
                else st1))"
  obtain st5 where f: "egl_flush t st4 = Returned st5" and st': "st' = forget_surface st5 h"
    using assms h s by (auto simp: surface_delete_def obind_Returned_iff Let_def st4_def)
  have f4: "egl_frame E st st4" "eg_contexts st4 = eg_contexts st" "eg_clients st4 = eg_clients st"
    "eg_display st4 = eg_display st"
    using egl_host_frame [OF h] by (simp_all add: st4_def Let_def ecall_def egl_frame_def egl_typed_def split: surface_kind.splits)
  show "egl_frame E st st'"
    unfolding st' using f4(1) egl_flush_frame(1) [OF f] forget_surface_frame by (blast intro: egl_frame_trans)
  show "eg_contexts st' = eg_contexts st" "eg_clients st' = eg_clients st" "eg_display st' = eg_display st"
    using f4 egl_flush_frame [OF f] by (simp_all add: st' forget_surface_def)
qed

lemma window_init_frame:
  assumes "window_init E t st h s win = Returned (st', ok)" and "surface_ok E s"
    and k: "su_kind s = Window_surface win 0"
  shows "egl_frame E st st'"
proof (cases "ee_int E (eg_calls (ecall st (Win_dequeue win))) = 0")
  case False
  then show ?thesis using assms(1) by (auto simp: window_init_def Let_def)
next
  case True
  let ?b = "ee_word E (eg_calls (ecall st (Win_dequeue win)))"
  let ?s1 = "s\<lparr>su_kind := Window_surface win ?b\<rparr>"
  have ok: "surface_ok E ?s1" using assms(2) k by simp
  from assms(1) True obtain k' where "with_rc E t (put_surface (ecall st (Win_dequeue win)) h ?s1) False k' = Returned (st', ok)"
    and k': "\<And>st2. k' st2 = (let st3 = ecall st2 (rcCreateWindowSurface (su_config s) (su_width s) (su_height s));
                     rc = ee_word E (eg_calls st3);
                     st4 = put_surface st3 h (?s1\<lparr>su_rcSurface := rc\<rparr>)
                 in if rc = 0 then Returned (st4, False)
                    else obind (buffer_host st4 ?b) (\<lambda>host.
                           Returned (ecall st4 (rcSetWindowColorBuffer rc host), True)))"
    by (auto simp: window_init_def Let_def)
  then show ?thesis
  proof (cases rule: with_rc_cases)
    case refused
    then show ?thesis using ok by (metis egl_frame_trans frame_ecall egl_frame_refl frame_surface)
  next
    case (connected st1)
    have "egl_frame E st st1"
      using connected(1) ok by (metis egl_frame_trans frame_ecall egl_frame_refl frame_surface)
    then show ?thesis using connected(2) ok
      by (auto simp: k' Let_def obind_Returned_iff split: if_splits intro!: frame_surface)
  qed
qed

lemma window_create_frame:
  assumes "window_create E t st dpy config surfType win = Returned (st', h)" and "dpy = ee_display E"
  shows "egl_frame E st st'"
proof -
  define st3 where "st3 = ecall (ecall (ecall (ecall st New_object) (Win_incRef win)) (Win_query_width win)) (Win_query_height win)"
  obtain s h' st4 ok where i: "window_init E t (put_surface st3 h' s) h' s win = Returned (st4, ok)"
    and s: "surface_ok E s" "su_kind s = Window_surface win 0"
    and d: "(if ok then Returned (st4, h') else obind (surface_delete E t st4 h') (\<lambda>st5. Returned (st5, 0))) = Returned (st', h)"
    using assms by (auto simp: window_create_def Let_def obind_Returned_iff st3_def egl_surface_new_def surface_ok_def)
  have "egl_frame E st (put_surface st3 h' s)" using s(1) by (simp add: st3_def frame_surface)
  then have "egl_frame E st st4" using window_init_frame [OF i s] by (rule egl_frame_trans)
  then show ?thesis using d surface_delete_frame(1) egl_frame_trans
    by (fastforce simp: obind_Returned_iff split: if_splits)
qed

lemma pbuffer_create_frame:
  assumes "pbuffer_create E t st dpy config surfType w ht f = Returned (st', h)" and "dpy = ee_display E"
  shows "egl_frame E st st'" and "h \<noteq> 0 \<Longrightarrow> \<exists>s color. eg_surfaces st' h = Some s \<and> surface_ok E s \<and> su_kind s = Pbuffer_surface color"
proof -
  define st1 where "st1 = ecall st New_object"
  obtain s h' st2 ok where i: "pbuffer_init E t (put_surface st1 h' s) h' s f = Returned (st2, ok)"
    and s: "surface_ok E s"
    and d: "(if ok then Returned (st2, h') else obind (surface_delete E t st2 h') (\<lambda>st5. Returned (st5, 0))) = Returned (st', h)"
    using assms by (auto simp: pbuffer_create_def Let_def obind_Returned_iff st1_def)
  have p: "egl_frame E st (put_surface st1 h' s)" using s by (simp add: st1_def frame_surface)
  have *: "egl_frame E st st2 \<and> (ok \<longrightarrow> (\<exists>s color. eg_surfaces st2 h' = Some s \<and> surface_ok E s \<and> su_kind s = Pbuffer_surface color))"
    using i unfolding pbuffer_init_def
  proof (cases rule: with_rc_cases)
    case refused
    then show ?thesis using p by (blast intro: egl_frame_trans)
  next
    case (connected st3)
    have "egl_frame E st st3" using connected(1) p by (blast intro: egl_frame_trans)
    then show ?thesis using connected(2) s
      by (auto simp: Let_def split: if_splits intro!: frame_surface)
  qed
  show "egl_frame E st st'"
    using * d surface_delete_frame(1) egl_frame_trans by (fastforce simp: obind_Returned_iff split: if_splits)
  show "h \<noteq> 0 \<Longrightarrow> \<exists>s color. eg_surfaces st' h = Some s \<and> surface_ok E s \<and> su_kind s = Pbuffer_surface color"
    using * d by (auto simp: obind_Returned_iff split: if_splits)
qed

lemma surface_swapBuffers_frame:
  assumes "surface_swapBuffers E t st h = Returned (st', ok)" and "egl_typed E st"
  shows "egl_frame E st st'"
proof -
  obtain s where s: "eg_surfaces st h = Some s" and sok: "surface_ok E s"
    using assms by (auto simp: surface_swapBuffers_def obind_Returned_iff egl_typed_def)
  show ?thesis
  proof (cases "su_kind s")
    case (Pbuffer_surface color)
    then show ?thesis using assms(1) s by (simp add: surface_swapBuffers_def obind_Returned_iff)
  next
    case (Window_surface win b)
    then obtain k' where "with_rc E t st False k' = Returned (st', ok)"
      and k': "\<And>st1. k' st1 = (let st2 = ecall (ecall st1 (rcFlushWindowColorBuffer (su_rcSurface s))) (Win_queue win b);
                 st3 = ecall st2 (Win_dequeue win)
             in if ee_int E (eg_calls st3) \<noteq> 0
                then Returned (setErrorFunc t (put_surface st3 h (s\<lparr>su_kind := Window_surface win 0\<rparr>))
                       EGL_BAD_ALLOC False)
                else (let buffer' = ee_word E (eg_calls st3);
                          st4 = put_surface st3 h (s\<lparr>su_kind := Window_surface win buffer'\<rparr>)
                      in obind (buffer_host st4 buffer') (\<lambda>host.
                           Returned (ecall st4 (rcSetWindowColorBuffer (su_rcSurface s) host), True))))"
      using assms(1) s by (auto simp: surface_swapBuffers_def obind_Returned_iff)
    then show ?thesis
    proof (cases rule: with_rc_cases)
      case (connected st1)
      then show ?thesis using sok Window_surface
        by (auto simp: k' Let_def obind_Returned_iff split: if_splits intro!: frame_surface)
    qed simp
  qed
qed

section \<open>Entry points\<close>

lemma validate_display_frame:
  "validate_display E t st dpy ret k = Returned (st', r) \<Longrightarrow> (k = Returned (st', r) \<Longrightarrow> egl_frame E st st') \<Longrightarrow> egl_frame E st st'"
  by (auto simp: validate_display_def split: if_splits)

lemma validate_init_frame:
  "validate_display_init E t st dpy ret k = Returned (st', r)
     \<Longrightarrow> (k = Returned (st', r) \<Longrightarrow> egl_frame E st st') \<Longrightarrow> egl_frame E st st'"
  by (auto simp: validate_display_def validate_display_init_def split: if_splits)

lemma validate_config_frame:
  "validate_config t st cfg ret k = Returned (st', r) \<Longrightarrow> (k = Returned (st', r) \<Longrightarrow> egl_frame E st st') \<Longrightarrow> egl_frame E st st'"
  by (auto simp: validate_config_def split: if_splits)

lemma validate_surface_frame:
  "validate_surface E t st surface ret k = Returned (st', r)
     \<Longrightarrow> (k = Returned (st', r) \<Longrightarrow> egl_frame E st st') \<Longrightarrow> egl_frame E st st'"
  by (auto simp: validate_surface_def obind_Returned_iff split: if_splits)

lemma with_rc_frame:
  assumes "with_rc E t st ret k = Returned (st', r)"
    and "\<And>st1. egl_frame E st st1 \<Longrightarrow> k st1 = Returned (st', r) \<Longrightarrow> eg_surfaces st1 = eg_surfaces st
      \<Longrightarrow> eg_contexts st1 = eg_contexts st \<Longrightarrow> eg_display st1 = eg_display st \<Longrightarrow> egl_frame E st st'"
  shows "egl_frame E st st'"
  using assms(1) by (cases rule: with_rc_cases) (use assms(2) in blast)+

lemmas frame_elims = validate_display_frame validate_init_frame validate_config_frame validate_surface_frame with_rc_frame

lemma config_slot_kept: "setAttribValue d config i v = Returned (d', ok) \<Longrightarrow> ds_contexts d' = ds_contexts d"
  by (auto simp: setAttribValue_def obind_Returned_iff split: if_splits)

lemma processConfigs_kept: "processConfigs d = Returned d' \<Longrightarrow> ds_contexts d' = ds_contexts d"
proof -
  have "process_from d is = Returned d' \<Longrightarrow> ds_contexts d' = ds_contexts d" for "is"
    by (induction d "is" rule: process_from.induct)
      (auto simp: obind_Returned_iff setConfigAttrib_def dest!: config_slot_kept split: option.splits)
  then show "processConfigs d = Returned d' \<Longrightarrow> ds_contexts d' = ds_contexts d" by (simp add: processConfigs_def)
qed

lemma load_configs_frame: "load_configs E st = Returned (st', ok) \<Longrightarrow> egl_frame E st st'"
  by (auto simp: load_configs_def Let_def split: if_splits)

lemma load_gles_frame: "load_gles E st v = (st', ok) \<Longrightarrow> egl_frame E st st'"
  by (auto simp: load_gles_def Let_def)

lemma eglDisplay_initialize_frame:
  assumes "eglDisplay_initialize E t st = Returned (st', ok)"
  shows "egl_frame E st st'"
proof -
  obtain st7 ok7 where i: "(if ds_initialized (eg_display st) then Returned (st, True)
            else (case load_gles E st 1 of (st1, ok1) \<Rightarrow>
              let st2 = put_display st1 ((eg_display st1)\<lparr>ds_gles_iface := ok1\<rparr>) in
              if \<not> ok1 then Returned (st2, False)
              else (case load_gles E st2 2 of (st3, ok2) \<Rightarrow>
                with_rc E t (put_display st3 ((eg_display st3)\<lparr>ds_gles2_iface := ok2\<rparr>)) False (\<lambda>st4.
                  let st5 = ecall st4 rcGetRendererVersion; version = ee_int E (eg_calls st5);
                      st6 = ecall st5 rcGetEGLVersion;
                      major = ee_out E (eg_calls st6) 0; minor = ee_out E (eg_calls st6) 1;
                      d6 = (eg_display st6)\<lparr>ds_hostRendererVersion := version,
                              ds_major := major, ds_minor := minor\<rparr>
                  in if ee_int E (eg_calls st6) \<noteq> 1 then Returned (put_display st6 d6, False)
                     else (case min_version major minor of (major', minor') \<Rightarrow>
                       load_configs E (put_display st6 (d6\<lparr>ds_major := major', ds_minor := minor'\<rparr>))))))) = Returned (st7, ok7)"
    and d: "(if \<not> ok7 then Returned (st7, False)
          else obind (processConfigs (eg_display st7)) (\<lambda>d. Returned (put_display st7 d, True))) = Returned (st', ok)"
    using assms by (auto simp: eglDisplay_initialize_def obind_Returned_iff)
  have "egl_frame E st st7"
  proof (cases "ds_initialized (eg_display st)")
    case False
    obtain st1 ok1 where l1: "load_gles E st 1 = (st1, ok1)" by fastforce
    define st2 where "st2 = put_display st1 ((eg_display st1)\<lparr>ds_gles_iface := ok1\<rparr>)"
    have f2: "egl_frame E st st2" using load_gles_frame [OF l1] by (simp add: st2_def)
    show ?thesis
    proof (cases ok1)
      case False2: False
      then show ?thesis using i False l1 f2 by (auto simp: st2_def)
    next
      case True
      obtain st3 ok2 where l2: "load_gles E st2 2 = (st3, ok2)" by fastforce
      define st3' where "st3' = put_display st3 ((eg_display st3)\<lparr>ds_gles2_iface := ok2\<rparr>)"
      have f3: "egl_frame E st st3'"
        using f2 load_gles_frame [OF l2] by (auto simp: st3'_def intro: egl_frame_trans)
      have "egl_frame E st3' st7"
        using i False True unfolding l1 prod.case Let_def st2_def [symmetric] l2 st3'_def [symmetric]
        by (auto elim!: with_rc_frame split: if_splits prod.splits dest!: load_configs_frame)
          (blast intro: egl_frame_trans)+
      with f3 show ?thesis by (rule egl_frame_trans)
    qed
  qed (use i in auto)
  then show ?thesis using d processConfigs_kept by (auto simp: obind_Returned_iff split: if_splits)
qed

lemma queryHostEGLString_frame: "queryHostEGLString E t st name = Returned (st', s) \<Longrightarrow> egl_frame E st st'"
  by (auto simp: queryHostEGLString_def Let_def elim!: with_rc_frame split: if_splits)

lemma buildExtensionString_frame: "buildExtensionString E t st = Returned (st', s) \<Longrightarrow> egl_frame E st st'"
  by (auto simp: buildExtensionString_def obind_Returned_iff split: option.split_asm if_split_asm prod.split_asm
      dest: queryHostEGLString_frame)

lemma eglDisplay_queryString_frame: "eglDisplay_queryString E t st name = Returned (st', s) \<Longrightarrow> egl_frame E st st'"
  by (auto simp: eglDisplay_queryString_def Let_def obind_Returned_iff split: if_split_asm option.split_asm
      dest!: queryHostEGLString_frame buildExtensionString_frame)

lemma getGLString_frame:
  assumes "getGLString E t st glEnum = Returned (st', s)"
  shows "egl_frame E st st'"
proof (cases "current_of st t = 0")
  case False
  then obtain c where c: "eg_contexts st (current_of st t) = Some c"
    using assms by (auto simp: getGLString_def obind_Returned_iff)
  have key: "egl_frame E st (put_ctx st1 h (set_ctx_string c g x))"
    if "egl_frame E st st1" and "eg_contexts st1 = eg_contexts st" and "eg_contexts st h = Some c" for st1 h g x
  proof -
    have "ctx_key (set_ctx_string c g x) = ctx_key c" by (simp add: ctx_key_def set_ctx_string_def)
    moreover have "eg_contexts st1 h = Some c" using that by simp
    ultimately show ?thesis using that(1) put_ctx_frame by (blast intro: egl_frame_trans)
  qed
  show ?thesis
  proof (cases "ctx_string c glEnum")
    case (Some y)
    note op = assms [unfolded getGLString_def if_not_P [OF False], folded deref_Returned]
    show ?thesis
    proof (cases y)
      case None
      with op c Some have "with_rc E t st None (\<lambda>st1.
            let st2 = ecall st1 (rcGetGLString glEnum 0); n = ee_int E (eg_calls st2);
                (st3, hostStr) =
                  (if n < 0
                   then (let st' = ecall st2 (rcGetGLString glEnum (- n))
                         in (st', if ee_int E (eg_calls st') \<le> 0 then None else Some (ee_str E (eg_calls st'))))
                   else (st2, None))
            in Returned (put_ctx st3 (current_of st3 t) (set_ctx_string c glEnum hostStr), hostStr)) = Returned (st', s)"
        by (simp add: obind_Returned_iff)
      then show ?thesis
      proof (cases rule: with_rc_cases)
        case (connected st1)
        then have "current_of st1 t = current_of st t" by (simp add: egl_frame_def)
        then show ?thesis using connected c by (auto simp: Let_def split: if_splits intro!: key)
      qed simp
    qed (use op c Some in \<open>simp add: obind_Returned_iff\<close>)
  qed (use assms False c in \<open>simp add: getGLString_def obind_Returned_iff\<close>)
qed (use assms in \<open>simp add: getGLString_def\<close>)

lemma eglInitialize_frame: "eglInitialize E t st dpy = Returned (st', r) \<Longrightarrow> egl_frame E st st'"
  by (auto simp: eglInitialize_def obind_Returned_iff elim!: validate_display_frame dest!: eglDisplay_initialize_frame)

lemma eglGetProcAddress_frame: "eglGetProcAddress E t st name = Returned (st', r) \<Longrightarrow> egl_frame E st st'"
  by (auto simp: eglGetProcAddress_def obind_Returned_iff split: option.split_asm if_split_asm
      dest!: eglDisplay_initialize_frame)

lemma query_frames:
  "eglQueryString E t st dpy name = Returned (st', r1) \<Longrightarrow> egl_frame E st st'"
  "eglGetConfigs E t st dpy configs n m = Returned (st', r2) \<Longrightarrow> egl_frame E st st'"
  "eglGetConfigAttrib E t st dpy config attribute = Returned (st', r4) \<Longrightarrow> egl_frame E st st'"
  by (auto simp: eglQueryString_def eglGetConfigs_def eglGetConfigAttrib_def Let_def
      elim!: frame_elims obind_E dest: eglDisplay_queryString_frame split: if_split_asm option.split_asm)

lemma eglChooseConfig_frame: "eglChooseConfig E t st dpy as n m = Returned (st', r) \<Longrightarrow> egl_frame E st st'"
  unfolding eglChooseConfig_def
  by (elim validate_init_frame) (auto simp: Let_def elim!: obind_E with_rc_frame split: if_split_asm)

lemma eglCreateWindowSurface_frame:
  "eglCreateWindowSurface E t st dpy config win = Returned (st', r) \<Longrightarrow> egl_frame E st st'"
  unfolding eglCreateWindowSurface_def
  by (elim validate_init_frame validate_config_frame)
    (auto simp: addSurface_def elim!: obind_E split: if_split_asm option.split_asm dest!: window_create_frame [OF _ refl])

lemma pbuffer_create_textured:
  assumes "pbuffer_create E t st dpy config surfType w ht f = Returned (st', h)" and "dpy = ee_display E"
  shows "egl_frame E st st' \<and> (h \<noteq> 0 \<longrightarrow> (\<forall>s. eg_surfaces st' h = Some s
    \<longrightarrow> egl_frame E st (put_surface st' h (s\<lparr>su_texFormat := x, su_texTarget := y\<rparr>))))"
  using pbuffer_create_frame [OF assms] by (auto simp: surface_ok_def intro!: frame_surface)

lemma eglCreatePbufferSurface_frame:
  assumes "eglCreatePbufferSurface E t st dpy config as = Returned (st', r)"
  shows "egl_frame E st st'"
proof (cases "dpy = ee_display E")
  case dpy: True
  show ?thesis
    using assms unfolding eglCreatePbufferSurface_def
    by (elim validate_init_frame validate_config_frame)
      (auto simp: addSurface_def elim!: obind_E split: if_split_asm option.split_asm prod.split_asm dest!: pbuffer_create_textured [OF _ dpy])
next
  case False
  then show ?thesis
    using assms by (auto simp: eglCreatePbufferSurface_def validate_display_init_def validate_display_def)
qed

lemma eglDestroySurface_frame: "eglDestroySurface E t st dpy surface = Returned (st', r) \<Longrightarrow> egl_frame E st st'"
  unfolding eglDestroySurface_def
  by (elim frame_elims)
    (auto simp: obind_Returned_iff removeSurface_def Let_def split: if_split_asm dest!: surface_delete_frame(1))

lemma eglQuerySurface_frame: "eglQuerySurface E t st dpy surface attribute = Returned (st', r) \<Longrightarrow> egl_frame E st st'"
  unfolding eglQuerySurface_def
  by (elim frame_elims) (auto elim!: obind_E split: if_split_asm)

lemma eglBindTexImage_frame: "eglBindTexImage E t st dpy surface buffer = Returned (st', r) \<Longrightarrow> egl_frame E st st'"
  unfolding eglBindTexImage_def
  by (elim validate_init_frame validate_surface_frame)
    (auto elim!: obind_E split: if_split_asm surface_kind.split_asm elim!: with_rc_frame)

lemma eglSwapInterval_frame: "eglSwapInterval E t st dpy interval = Returned (st', r) \<Longrightarrow> egl_frame E st st'"
  unfolding eglSwapInterval_def
  by (elim validate_init_frame with_rc_frame)
    (auto simp: surface_setSwapInterval_def elim!: obind_E split: if_split_asm surface_kind.splits)

lemma frame_typed: "egl_frame E st st' \<Longrightarrow> egl_typed E st \<Longrightarrow> egl_typed E st'"
  by (simp add: egl_frame_def)

lemma swap_and_flush_frame:
  assumes "egl_frame E st st1" and "egl_typed E st"
    and "surface_swapBuffers E t st1 surface = Returned (st2, ok)" and "egl_flush t st2 = Returned st3"
  shows "egl_frame E st st3"
proof -
  have "egl_frame E st1 st2" using assms(3) frame_typed [OF assms(1,2)] by (rule surface_swapBuffers_frame)
  then show ?thesis using assms(1) egl_flush_frame(1) [OF assms(4)] by (blast intro: egl_frame_trans)
qed

lemma eglSwapBuffers_frame:
  assumes "eglSwapBuffers E t st dpy surface = Returned (st', r)" and "egl_typed E st"
  shows "egl_frame E st st'"
  using assms(1) unfolding eglSwapBuffers_def
  by (elim validate_init_frame)
    (auto elim!: obind_E with_rc_frame split: if_split_asm prod.split_asm dest: swap_and_flush_frame [OF _ assms(2)])

lemma eglQueryContext_frame: "eglQueryContext E t st dpy ctx attribute = Returned (st', r) \<Longrightarrow> egl_frame E st st'"
  unfolding eglQueryContext_def
  by (elim frame_elims) (auto elim!: obind_E split: if_split_asm)

lemma gles_finish_frame: "gles_finish st version = Returned st' \<Longrightarrow> egl_frame E st st'"
  by (auto simp: gles_finish_def split: if_split_asm)

lemma sync_frames:
  "eglGetError t st = (st', r1) \<Longrightarrow> egl_frame E st st'"
  "eglBindAPI t st api = (st', r2) \<Longrightarrow> egl_frame E st st'"
  "eglGetCurrentSurface t st readdraw = Returned (st', r3) \<Longrightarrow> egl_frame E st st'"
  "eglWaitGL t st = Returned (st', r4) \<Longrightarrow> egl_frame E st st'"
  "eglDestroySyncKHR t st sync = (st', r5) \<Longrightarrow> egl_frame E st st'"
  "eglClientWaitSyncKHR t st sync = (st', r6) \<Longrightarrow> egl_frame E st st'"
  "eglGetSyncAttribKHR t st sync attribute = (st', r7) \<Longrightarrow> egl_frame E st st'"
  by (auto simp: eglGetError_def eglBindAPI_def eglGetCurrentSurface_def eglWaitGL_def eglDestroySyncKHR_def
      eglClientWaitSyncKHR_def eglGetSyncAttribKHR_def elim!: obind_E
      split: if_split_asm dest: gles_finish_frame)

lemma eglCreateSyncKHR_frame: "eglCreateSyncKHR E t st dpy type as = Returned (st', r) \<Longrightarrow> egl_frame E st st'"
  unfolding eglCreateSyncKHR_def
  by (elim validate_display_frame)
    (auto elim!: obind_E split: if_split_asm option.split_asm list.split_asm dest: gles_finish_frame)

lemma image_frames:
  "eglCreateImageKHR E t st dpy ctx target buffer = Returned (st', r1) \<Longrightarrow> egl_frame E st st'"
  "eglDestroyImageKHR E t st dpy img = Returned (st', r2) \<Longrightarrow> egl_frame E st st'"
  unfolding eglCreateImageKHR_def eglDestroyImageKHR_def
  by (elim validate_init_frame; auto elim!: obind_E split: if_split_asm)+

end
