(* ===== verification/EGLSteps.thy ===== *)
theory EGLSteps
  imports EGLFrame
begin

text \<open>
  The invariant of EGL over all threads of a process, and the entry points as a step relation.
  The invariant says that the current context of every thread is alive and marked, that no two
  threads share one, and that the encoder
  of a thread works on the client state and the shared group of the thread's context. Two legal
  calls break this for the context they are about, which is then spoiled (\<open>spoils\<close>) and left out;
  no call is excluded.
\<close>

section \<open>The invariant\<close>

definition encoder_bound :: "bool \<Rightarrow> host_conn option \<Rightarrow> egl_ctx \<Rightarrow> bool" where
  "encoder_bound init conn c \<longleftrightarrow>
     (\<exists>con b. conn = Some con \<and> (if cx_version c = 2 then hc_gl2 con else hc_gl con) = Some b
        \<and> eb_state b = cx_clientState c \<and> eb_group b = cx_sharedGroup c \<and> (init \<longrightarrow> eb_init b))"

text \<open>
  \<open>T\<close> are threads whose encoder is not installed yet (empty between two entry points), \<open>B\<close> the
  contexts that a call has spoiled and of which nothing is said, \<open>L\<close> the list of contexts of the
  display.
\<close>

definition egl_inv_but :: "egl_env \<Rightarrow> nat set \<Rightarrow> addr set \<Rightarrow> addr list \<Rightarrow> egl_state \<Rightarrow> bool" where
  "egl_inv_but E T B L st \<longleftrightarrow>
     eg_contexts st 0 = None
     \<and> (\<forall>t. current_of st t \<noteq> 0 \<longrightarrow> current_of st t \<notin> B \<longrightarrow> (\<exists>c. eg_contexts st (current_of st t) = Some c
          \<and> cx_flags c AND IS_CURRENT \<noteq> 0 \<and> encoder_bound (t \<notin> T) (ti_hostConn (eg_threads st t)) c))
     \<and> (\<forall>t u. t \<noteq> u \<longrightarrow> current_of st t \<noteq> 0 \<longrightarrow> current_of st t \<notin> B \<longrightarrow> current_of st t \<noteq> current_of st u)
     \<and> (\<forall>h c. eg_contexts st h = Some c \<longrightarrow> eg_clients st (cx_clientState c) \<noteq> None)
     \<and> (\<forall>h h' c c'. eg_contexts st h = Some c \<longrightarrow> eg_contexts st h' = Some c'
          \<longrightarrow> cx_clientState c = cx_clientState c' \<longrightarrow> h = h')
     \<and> distinct L \<and> set L \<subseteq> dom (eg_contexts st) \<and> egl_typed E st"

abbreviation egl_inv :: "egl_env \<Rightarrow> addr set \<Rightarrow> egl_state \<Rightarrow> bool" where
  "egl_inv E B st \<equiv> egl_inv_but E {} B (ds_contexts (eg_display st)) st"

lemma invI:
  assumes "eg_contexts st 0 = None"
    and "\<And>t. current_of st t \<noteq> 0 \<Longrightarrow> current_of st t \<notin> B \<Longrightarrow> \<exists>c. eg_contexts st (current_of st t) = Some c
          \<and> cx_flags c AND IS_CURRENT \<noteq> 0 \<and> encoder_bound (t \<notin> T) (ti_hostConn (eg_threads st t)) c"
    and "\<And>t u. t \<noteq> u \<Longrightarrow> current_of st t \<noteq> 0 \<Longrightarrow> current_of st t \<notin> B \<Longrightarrow> current_of st t \<noteq> current_of st u"
    and "\<And>h c. eg_contexts st h = Some c \<Longrightarrow> eg_clients st (cx_clientState c) \<noteq> None"
    and "\<And>h h' c c'. eg_contexts st h = Some c \<Longrightarrow> eg_contexts st h' = Some c'
          \<Longrightarrow> cx_clientState c = cx_clientState c' \<Longrightarrow> h = h'"
    and "distinct L" and "set L \<subseteq> dom (eg_contexts st)"
    and "egl_typed E st"
  shows "egl_inv_but E T B L st"
  using assms unfolding egl_inv_but_def by blast

lemma invD:
  assumes "egl_inv_but E T B L st"
  shows "eg_contexts st 0 = None"
    and "current_of st t \<noteq> 0 \<Longrightarrow> current_of st t \<notin> B \<Longrightarrow> \<exists>c. eg_contexts st (current_of st t) = Some c
          \<and> cx_flags c AND IS_CURRENT \<noteq> 0 \<and> encoder_bound (t \<notin> T) (ti_hostConn (eg_threads st t)) c"
    and "t \<noteq> u \<Longrightarrow> current_of st t \<noteq> 0 \<Longrightarrow> current_of st t \<notin> B \<Longrightarrow> current_of st t \<noteq> current_of st u"
    and "eg_contexts st h = Some c \<Longrightarrow> eg_clients st (cx_clientState c) \<noteq> None"
    and "eg_contexts st h = Some c \<Longrightarrow> eg_contexts st h' = Some c'
          \<Longrightarrow> cx_clientState c = cx_clientState c' \<Longrightarrow> h = h'"
    and "distinct L" and "set L \<subseteq> dom (eg_contexts st)"
    and "egl_typed E st"
  using assms unfolding egl_inv_but_def by blast+

lemma inv_spoil: "egl_inv_but E T B L st \<Longrightarrow> B \<subseteq> B' \<Longrightarrow> egl_inv_but E T B' L st"
  unfolding egl_inv_but_def by blast

lemma encoder_bound_key:
  assumes "encoder_bound i conn c" and "ctx_key c' = ctx_key c" and "conn_kept conn conn'"
  shows "encoder_bound i conn' c'"
  using assms unfolding encoder_bound_def ctx_key_def conn_kept_def by fastforce

text \<open>The frame keeps the invariant.\<close>

lemma frame_ctx:
  assumes "egl_frame E st st'"
  shows "eg_contexts st' h = Some c' \<Longrightarrow> \<exists>c. eg_contexts st h = Some c \<and> ctx_key c' = ctx_key c"
    and "eg_contexts st h = Some c \<Longrightarrow> \<exists>c'. eg_contexts st' h = Some c' \<and> ctx_key c' = ctx_key c"
    and "eg_contexts st' h = None \<longleftrightarrow> eg_contexts st h = None"
proof -
  have *: "map_option ctx_key (eg_contexts st' h) = map_option ctx_key (eg_contexts st h)"
    using assms by (simp add: egl_frame_def fun_eq_iff)
  show "eg_contexts st' h = Some c' \<Longrightarrow> \<exists>c. eg_contexts st h = Some c \<and> ctx_key c' = ctx_key c"
    using * by (cases "eg_contexts st h") auto
  show "eg_contexts st h = Some c \<Longrightarrow> \<exists>c'. eg_contexts st' h = Some c' \<and> ctx_key c' = ctx_key c"
    using * by (cases "eg_contexts st' h") auto
  show "eg_contexts st' h = None \<longleftrightarrow> eg_contexts st h = None" using * by (metis map_option_is_None)
qed

lemma inv_frame:
  assumes f: "egl_frame E st st'" and i: "egl_inv_but E T B L st"
  shows "egl_inv_but E T B L st'"
proof -
  note c = frame_ctx [OF f]
  have cur: "current_of st' t = current_of st t"
    and conn: "conn_kept (ti_hostConn (eg_threads st t)) (ti_hostConn (eg_threads st' t))"
    and cl: "eg_clients st' = eg_clients st" for t using f by (simp_all add: egl_frame_def)
  show ?thesis
  proof (rule invI)
    fix t assume "current_of st' t \<noteq> 0" and "current_of st' t \<notin> B"
    then obtain x where x: "eg_contexts st (current_of st t) = Some x" "cx_flags x AND IS_CURRENT \<noteq> 0"
      "encoder_bound (t \<notin> T) (ti_hostConn (eg_threads st t)) x"
      using invD(2) [OF i] cur by metis
    with c(2) obtain y where y: "eg_contexts st' (current_of st t) = Some y" "ctx_key y = ctx_key x" by blast
    show "\<exists>c. eg_contexts st' (current_of st' t) = Some c \<and> cx_flags c AND IS_CURRENT \<noteq> 0
        \<and> encoder_bound (t \<notin> T) (ti_hostConn (eg_threads st' t)) c"
      unfolding cur using x y encoder_bound_key [OF x(3) y(2) conn] by (auto simp: ctx_key_def)
  next
    show "set L \<subseteq> dom (eg_contexts st')"
      using invD(7) [OF i] c(3) by (auto simp: dom_def)
  next
    fix h h' x x' assume "eg_contexts st' h = Some x" "eg_contexts st' h' = Some x'" "cx_clientState x = cx_clientState x'"
    then show "h = h'" using c(1) invD(5) [OF i] unfolding ctx_key_def by (metis prod.inject)
  next
    fix h x assume "eg_contexts st' h = Some x"
    then obtain y where "eg_contexts st h = Some y" "ctx_key x = ctx_key y" using c(1) by blast
    then show "eg_clients st' (cx_clientState x) \<noteq> None"
      using invD(4) [OF i] unfolding cl ctx_key_def by auto
  qed (use i c(3) cur f in \<open>auto simp: egl_inv_but_def egl_frame_def\<close>)
qed

section \<open>Destroying\<close>

lemma destroy_cases [consumes 1, case_names unchanged marked deleted]:
  assumes "destroy_context_with before E t st dpy ctx = Returned (st', ok)"
  obtains "egl_frame E st st'" "dpy = ee_display E \<Longrightarrow> ds_initialized (eg_display st) \<Longrightarrow> ctx \<noteq> 0
      \<Longrightarrow> ti_hostConn (eg_threads st t) = None"
  | c where "current_of st t = ctx" "ctx \<noteq> 0" "eg_contexts st ctx = Some c"
      "st' = put_ctx st ctx (c\<lparr>cx_flags := cx_flags c OR TO_DELETE\<rparr>)"
  | st1 where "egl_frame E st st1" "current_of st t \<noteq> ctx" "EGLContext_delete (before st1) ctx = Returned st'"
      "eg_surfaces st1 = eg_surfaces st" "eg_display st1 = eg_display st"
proof -
  consider "egl_frame E st st'" "\<not> (dpy = ee_display E \<and> ds_initialized (eg_display st) \<and> ctx \<noteq> 0)"
    | c where "dpy = ee_display E" "ds_initialized (eg_display st)" "ctx \<noteq> 0" "eg_contexts st ctx = Some c"
    using assms by (fastforce simp: destroy_context_with_def validate_display_init_def validate_display_def
        elim!: obind_E split: if_split_asm)
  then show ?thesis
  proof cases
    case (2 c)
    note op = assms [unfolded destroy_context_with_def validate_display_init_def validate_display_def]
    show ?thesis
    proof (cases "current_of st t = ctx")
      case True
      then show ?thesis using that(2) 2 op by (auto simp: obind_Returned_iff)
    next
      case cur: False
      show ?thesis
      proof (cases "cx_rcContext c = 0")
        case True
        then show ?thesis using that(3) [of st] 2 cur op by (auto simp: obind_Returned_iff)
      next
        case False
        then have "with_rc E t st False (\<lambda>st1.
                          let st2 = ecall st1 (rcDestroyContext (cx_rcContext c));
                              st3 = put_ctx st2 ctx (c\<lparr>cx_rcContext := 0\<rparr>)
                          in obind (egl_flush t st3) (\<lambda>st'. obind (EGLContext_delete (before st') ctx)
                               (\<lambda>st''. Returned (st'', True)))) = Returned (st', ok)"
          using 2 cur op by (simp add: obind_Returned_iff)
        then show ?thesis
        proof (cases rule: with_rc_cases)
          case refused
          then show ?thesis using that(1) by blast
        next
          case (connected st1)
          define st3 where "st3 = put_ctx (ecall st1 (rcDestroyContext (cx_rcContext c))) ctx (c\<lparr>cx_rcContext := 0\<rparr>)"
          obtain st4 where fl: "egl_flush t st3 = Returned st4" and d: "EGLContext_delete (before st4) ctx = Returned st'"
            using connected(2) by (auto simp: Let_def st3_def obind_Returned_iff)
          have "egl_frame E st st3"
            using connected(1,4) 2(4) put_ctx_frame [of "ecall st1 (rcDestroyContext (cx_rcContext c))" ctx c "c\<lparr>cx_rcContext := 0\<rparr>" E]
            by (auto simp: st3_def ctx_key_def intro: egl_frame_trans)
          then have "egl_frame E st st4" using egl_flush_frame(1) [OF fl] by (rule egl_frame_trans)
          moreover have "eg_surfaces st4 = eg_surfaces st" "eg_display st4 = eg_display st"
            using egl_flush_frame [OF fl] connected by (simp_all add: st3_def)
          ultimately show ?thesis using that(3) cur d by blast
        qed
      qed
    qed
  qed (use that(1) in blast)
qed

lemma flag_bit:
  "f AND IS_CURRENT = 0 \<longleftrightarrow> \<not> bit (f :: u32) 16" "f AND TO_DELETE = 0 \<longleftrightarrow> \<not> bit (f :: u32) 18"
  using and_exp_eq_0_iff_not_bit [of f 16] and_exp_eq_0_iff_not_bit [of f 18] by simp_all

lemma mask_bits:
  "bit (IS_CURRENT :: u32) 16" "\<not> bit (IS_CURRENT :: u32) 18" "bit (TO_DELETE :: u32) 18" "\<not> bit (TO_DELETE :: u32) 16"
  using bit_exp_iff [where 'a = "32 word", of 16] bit_exp_iff [where 'a = "32 word", of 18] by simp_all

lemma flag_bits [simp]:
  "(f OR TO_DELETE) AND IS_CURRENT = (0 :: u32) \<longleftrightarrow> f AND IS_CURRENT = 0"
  "(f OR IS_CURRENT) AND IS_CURRENT \<noteq> (0 :: u32)"
  "(f OR IS_CURRENT) AND TO_DELETE = (0 :: u32) \<longleftrightarrow> f AND TO_DELETE = 0"
  "(f AND NOT IS_CURRENT) AND IS_CURRENT = (0 :: u32)"
  "(f AND NOT IS_CURRENT) AND TO_DELETE = (0 :: u32) \<longleftrightarrow> f AND TO_DELETE = 0"
  by (simp_all only: flag_bit bit_or_iff bit_and_iff bit_not_iff mask_bits) simp_all

lemma flag_bits_numeral [simp]:
  "(f AND - 65537) AND IS_CURRENT = (0 :: u32)" "(f AND - 65537) AND TO_DELETE = (0 :: u32) \<longleftrightarrow> f AND TO_DELETE = 0"
  using flag_bits(4,5) [of f] by simp_all

lemma inv_mark:
  assumes i: "egl_inv_but E T B L st" and c: "eg_contexts st h = Some c"
  shows "egl_inv_but E T B L (put_ctx st h (c\<lparr>cx_flags := cx_flags c OR TO_DELETE\<rparr>))" (is "egl_inv_but E T B L ?st")
proof (rule invI)
  have eb: "encoder_bound x conn (c\<lparr>cx_flags := f\<rparr>) = encoder_bound x conn c" for x conn f
    by (simp add: encoder_bound_def)
  fix t assume "current_of ?st t \<noteq> 0" and "current_of ?st t \<notin> B"
  then show "\<exists>c. eg_contexts ?st (current_of ?st t) = Some c \<and> cx_flags c AND IS_CURRENT \<noteq> 0
      \<and> encoder_bound (t \<notin> T) (ti_hostConn (eg_threads ?st t)) c"
    using invD(2) [OF i, of t] c by (auto simp: eb)
next
  fix h1 h' x x'
  assume "eg_contexts ?st h1 = Some x" "eg_contexts ?st h' = Some x'" "cx_clientState x = cx_clientState x'"
  then show "h1 = h'" using invD(5) [OF i] c by (auto split: if_split_asm)
qed (use i c in \<open>auto simp: egl_inv_but_def egl_typed_def split: if_split_asm\<close>)

lemma inv_delete:
  assumes i: "egl_inv_but E T B L st" and d: "EGLContext_delete st h = Returned st'"
    and cur: "\<And>t. h \<notin> B \<Longrightarrow> current_of st t \<noteq> h" and ds: "h \<notin> set L"
  shows "egl_inv_but E T B L st'" and "eg_contexts st' h = None"
    and "eg_contexts st' = (eg_contexts st)(h := None)" and "eg_display st' = eg_display st"
    and "eg_threads st' = eg_threads st"
proof -
  obtain c where c: "eg_contexts st h = Some c" and st': "st' = st\<lparr>eg_contexts := (eg_contexts st)(h := None),
      eg_clients := (eg_clients st)(cx_clientState c := None)\<rparr>"
    using d by (auto simp: EGLContext_delete_def obind_Returned_iff)
  show "eg_contexts st' = (eg_contexts st)(h := None)" "eg_display st' = eg_display st" "eg_contexts st' h = None"
    "eg_threads st' = eg_threads st"
    by (simp_all add: st')
  show "egl_inv_but E T B L st'"
  proof (rule invI)
    fix t assume "current_of st' t \<noteq> 0" and "current_of st' t \<notin> B"
    then show "\<exists>c. eg_contexts st' (current_of st' t) = Some c \<and> cx_flags c AND IS_CURRENT \<noteq> 0
        \<and> encoder_bound (t \<notin> T) (ti_hostConn (eg_threads st' t)) c"
      using invD(2) [OF i, of t] cur [of t] by (auto simp: st')
  next
    fix h1 x assume x: "eg_contexts st' h1 = Some x"
    then have "h1 \<noteq> h" "eg_contexts st h1 = Some x" by (auto simp: st' split: if_split_asm)
    moreover from this have "cx_clientState x \<noteq> cx_clientState c" using invD(5) [OF i _ c] by blast
    ultimately show "eg_clients st' (cx_clientState x) \<noteq> None" using invD(4) [OF i] by (simp add: st')
  next
    show "set L \<subseteq> dom (eg_contexts st')" using invD(7) [OF i] ds by (auto simp: st')
  qed (use i in \<open>auto simp: egl_inv_but_def st' egl_typed_def split: if_split_asm\<close>)
qed

lemma removeContext_fields [simp]:
  "eg_contexts (removeContext st h) = eg_contexts st" "eg_clients (removeContext st h) = eg_clients st"
  "eg_threads (removeContext st h) = eg_threads st" "eg_surfaces (removeContext st h) = eg_surfaces st"
  "ds_contexts (eg_display (removeContext st h)) = remove1 h (ds_contexts (eg_display st))"
  by (simp_all add: removeContext_def)

text \<open>The invariant looks at the maps and the threads only.\<close>

lemma inv_same:
  assumes i: "egl_inv_but E T B L st" and same: "eg_contexts st' = eg_contexts st" "eg_clients st' = eg_clients st"
    "eg_threads st' = eg_threads st" "eg_surfaces st' = eg_surfaces st"
    and L: "distinct L'" "set L' \<subseteq> dom (eg_contexts st)"
  shows "egl_inv_but E T B L' st'"
proof -
  have "egl_typed E st'" using invD(8) [OF i] by (simp add: egl_typed_def same)
  then show ?thesis using i L unfolding egl_inv_but_def same by simp
qed

lemma inv_removeContext:
  assumes i: "egl_inv_but E T B L st"
  shows "egl_inv_but E T B (remove1 h L) (removeContext st h)" and "h \<notin> set (remove1 h L)"
  using invD(6,7) [OF i] set_remove1_subset [of h L] by (auto intro!: inv_same [OF i])

lemma frame_lists: "egl_frame E st st' \<Longrightarrow> ds_contexts (eg_display st') = ds_contexts (eg_display st)"
  by (simp add: egl_frame_def)

lemma egl_inv_frame: "egl_frame E st st' \<Longrightarrow> egl_inv E B st \<Longrightarrow> egl_inv E B st'"
  using inv_frame frame_lists by metis

lemma eglDestroyContext_inv:
  assumes op: "eglDestroyContext E t st dpy ctx = Returned (st', ok)"
    and i: "egl_inv_but E T B (ds_contexts (eg_display st)) st"
    and cur: "\<And>u. u \<noteq> t \<Longrightarrow> ctx \<noteq> 0 \<Longrightarrow> ctx \<notin> B \<Longrightarrow> current_of st u \<noteq> ctx"
  shows "egl_inv_but E T B (ds_contexts (eg_display st')) st'"
    and "current_of st' u = current_of st u"
    and "conn_kept (ti_hostConn (eg_threads st u)) (ti_hostConn (eg_threads st' u))"
proof -
  have "egl_inv_but E T B (ds_contexts (eg_display st')) st'
    \<and> (\<forall>u. current_of st' u = current_of st u
      \<and> conn_kept (ti_hostConn (eg_threads st u)) (ti_hostConn (eg_threads st' u)))"
    using op unfolding eglDestroyContext_def
  proof (cases rule: destroy_cases)
    case unchanged
    then show ?thesis using inv_frame [OF _ i] frame_lists [OF unchanged(1)] by (simp add: egl_frame_def)
  next
    case (marked c)
    then show ?thesis using inv_mark [OF i] by (auto simp: conn_kept_def)
  next
    case (deleted st1)
    have i1: "egl_inv_but E T B (ds_contexts (eg_display st)) st1" using deleted(1) i by (rule inv_frame)
    have "eg_contexts st1 ctx \<noteq> None"
      using deleted(3) by (auto simp: EGLContext_delete_def obind_Returned_iff)
    then have nz: "ctx \<noteq> 0" using invD(1) [OF i1] by auto
    have c: "current_of (removeContext st1 ctx) u \<noteq> ctx" if "ctx \<notin> B" for u
      using cur [of u] deleted(1,2) nz that by (cases "u = t") (auto simp: egl_frame_def)
    note d = inv_delete [OF inv_removeContext(1) [OF i1] deleted(3) c inv_removeContext(2) [OF i1]]
    show ?thesis using d deleted(1) frame_lists [OF deleted(1)] by (simp add: egl_frame_def)
  qed
  then show "egl_inv_but E T B (ds_contexts (eg_display st')) st'"
    "current_of st' u = current_of st u"
    "conn_kept (ti_hostConn (eg_threads st u)) (ti_hostConn (eg_threads st' u))"
    by blast+
qed

section \<open>Termination\<close>

lemma delete_surfaces_frame: "delete_surfaces E t st hs = Returned st' \<Longrightarrow> egl_frame E st st'"
  by (induction E t st hs rule: delete_surfaces.induct)
    (auto elim!: obind_E intro: egl_frame_trans dest: surface_delete_frame(1))

lemma set_without_nth: "i < length xs \<Longrightarrow> set (take i xs @ drop (Suc i) xs) \<subseteq> set xs"
  by (auto dest: in_set_takeD in_set_dropD)

lemma distinct_without_nth:
  assumes "distinct xs" and "i < length xs"
  shows "distinct (take i xs @ drop (Suc i) xs)" and "xs ! i \<notin> set (take i xs @ drop (Suc i) xs)"
proof -
  have xs: "xs = take i xs @ xs ! i # drop (Suc i) xs" by (rule id_take_nth_drop) (fact assms(2))
  have "distinct (take i xs @ xs ! i # drop (Suc i) xs)" unfolding xs [symmetric] by (fact assms(1))
  then show "distinct (take i xs @ drop (Suc i) xs)" "xs ! i \<notin> set (take i xs @ drop (Suc i) xs)" by auto
qed

lemma terminate_contexts_inv:
  "terminate_contexts E t st cs i = Returned (st', cs') \<Longrightarrow> egl_inv_but E {} B cs st
     \<Longrightarrow> egl_inv_but E {} B cs' st'"
proof (induction E t st cs i arbitrary: st' cs' rule: terminate_contexts.induct)
  case (1 E t st cs i)
  note inv = "1.prems"(2)
  show ?case
  proof (cases "length cs \<le> i")
    case True
    then show ?thesis using "1.prems" by (simp add: terminate_contexts.simps)
  next
    case False
    then have i: "i < length cs" by simp
    let ?h = "cs ! i" and ?cs = "take i cs @ drop (Suc i) cs"
    obtain c where c: "eg_contexts st ?h = Some c"
      using invD(7) [OF inv] i by (meson domD nth_mem subsetD)
    show ?thesis
    proof (cases "cx_flags c AND IS_CURRENT = 0")
      case cur: False
      have "egl_inv_but E {} B cs (put_ctx st ?h (c\<lparr>cx_flags := cx_flags c OR TO_DELETE\<rparr>))"
        by (rule inv_mark [OF inv c])
      then show ?thesis using "1.IH"(1) [OF False c] "1.prems"(1) False c cur
        by (subst (asm) terminate_contexts.simps) auto
    next
      case True
      obtain st1 ok where d: "destroyContext E t st (ee_display E) ?h = Returned (st1, ok)"
        using "1.prems"(1) False c True
        by (subst (asm) terminate_contexts.simps) (auto split: outcome.splits)
      have nocur: "current_of st u \<noteq> ?h" if "?h \<notin> B" for u
        using invD(2) [OF inv, of u] c True invD(1) [OF inv] that by (cases "current_of st u = 0") auto
      have w: "egl_inv_but E {} B ?cs st"
        by (rule inv_same [OF inv]) (use invD(6,7) [OF inv] i distinct_without_nth(1) set_without_nth in \<open>auto dest: in_set_takeD in_set_dropD\<close>)
      have i1: "egl_inv_but E {} B ?cs st1"
        using d unfolding destroyContext_def
      proof (cases rule: destroy_cases)
        case unchanged
        then show ?thesis using w inv_frame by blast
      next
        case (marked c)
        then show ?thesis using inv_mark [OF w] by blast
      next
        case (deleted st2)
        have "current_of st2 u \<noteq> ?h" if "?h \<notin> B" for u using deleted(1) nocur that by (simp add: egl_frame_def)
        then show ?thesis
          using inv_delete(1) [OF inv_frame [OF deleted(1) w] deleted(3)] distinct_without_nth(2) [OF invD(6) [OF inv] i] by blast
      qed
      show ?thesis
      proof (cases "Suc i < length cs")
        case less: True
        then show ?thesis using "1.IH"(2) [OF False c _ d refl less] "1.prems"(1) False c True d i1
          by (subst (asm) terminate_contexts.simps) auto
      next
        case last: False
        then have "ee_circular E"
          using "1.prems"(1) False c True d by (subst (asm) terminate_contexts.simps) (auto split: if_split_asm)
        then show ?thesis using "1.IH"(3) [OF False c _ d refl last] "1.prems"(1) False c True d i1 last
          by (subst (asm) terminate_contexts.simps) auto
      qed
    qed
  qed
qed

lemma eglTerminate_inv:
  assumes "eglTerminate E t st dpy = Returned (st', ok)" and i: "egl_inv E B st"
  shows "egl_inv E B st'"
proof -
  consider "egl_frame E st st'" | "eglDisplay_terminate E t st = Returned st'"
    using assms(1) by (auto simp: eglTerminate_def validate_display_init_def validate_display_def
        elim!: obind_E split: if_split_asm)
  then show ?thesis
  proof cases
    case 2
    obtain st1 st2 cs where s: "delete_surfaces E t st (ds_surfaces (eg_display st)) = Returned st1"
      and l: "terminate_contexts E t (put_display st1 ((eg_display st1)\<lparr>ds_surfaces := []\<rparr>))
                (ds_contexts (eg_display st1)) 0 = Returned (st2, cs)"
      and st': "st' = put_display st2 ((eg_display st2)\<lparr>ds_contexts := cs\<rparr>)"
      using 2 by (auto simp: eglDisplay_terminate_def elim!: obind_E split: prod.split_asm)
    have i1: "egl_inv E B st1" using delete_surfaces_frame [OF s] i by (rule egl_inv_frame)
    have "egl_inv_but E {} B (ds_contexts (eg_display st1)) (put_display st1 ((eg_display st1)\<lparr>ds_surfaces := []\<rparr>))"
      using invD(6,7) [OF i1] by (intro inv_same [OF i1]) simp_all
    then have "egl_inv_but E {} B cs st2" by (rule terminate_contexts_inv [OF l])
    from inv_same [OF this, of st' cs] invD(6,7) [OF this] show ?thesis by (simp add: st')
  qed (use i egl_inv_frame in blast)
qed

section \<open>Creating contexts\<close>

text \<open>\<open>new\<close> returns memory that no live object uses, whatever other calls come before it.\<close>

definition fresh_objects :: "egl_env \<Rightarrow> egl_state \<Rightarrow> bool" where
  "fresh_objects E st \<longleftrightarrow> (\<forall>cs. length cs \<le> 4 \<longrightarrow>
     (let a = ee_word E (eg_calls st @ cs @ [New_object])
      in a \<noteq> 0 \<and> eg_contexts st a = None \<and> eg_clients st a = None))"

lemma inv_new:
  assumes i: "egl_inv_but E {} B L st" and h: "h \<noteq> 0" "eg_contexts st h = None" and cl: "eg_clients st cl = None"
    and c: "cx_flags c = 0" "cx_clientState c = cl"
    and st': "eg_contexts st' = (eg_contexts st)(h \<mapsto> c)" "eg_clients st' = (eg_clients st)(cl \<mapsto> x)"
      "eg_threads st' = eg_threads st" "eg_surfaces st' = eg_surfaces st"
  shows "egl_inv_but E {} B (L @ [h]) st'"
proof (rule invI)
  have nocur: "current_of st t \<noteq> h" if "h \<notin> B" for t
    using invD(2) [OF i, of t] h that by (cases "current_of st t = 0") auto
  fix t assume "current_of st' t \<noteq> 0" and "current_of st' t \<notin> B"
  then show "\<exists>c. eg_contexts st' (current_of st' t) = Some c \<and> cx_flags c AND IS_CURRENT \<noteq> 0
      \<and> encoder_bound (t \<notin> {}) (ti_hostConn (eg_threads st' t)) c"
    using invD(2) [OF i, of t] nocur [of t] by (auto simp: st')
next
  fix h1 h2 x1 x2
  assume "eg_contexts st' h1 = Some x1" "eg_contexts st' h2 = Some x2" "cx_clientState x1 = cx_clientState x2"
  moreover have "cx_clientState y \<noteq> cl" if "eg_contexts st k = Some y" for k y
    using invD(4) [OF i that] cl by auto
  ultimately show "h1 = h2" using invD(5) [OF i] c(2) by (auto simp: st' split: if_split_asm)
next
  show "distinct (L @ [h])" "set (L @ [h]) \<subseteq> dom (eg_contexts st')"
    using invD(6,7) [OF i] h by (auto simp: st')
next
  show "egl_typed E st'" using invD(8) [OF i] by (simp add: egl_typed_def st')
next
  fix h1 x1 assume "eg_contexts st' h1 = Some x1"
  then show "eg_clients st' (cx_clientState x1) \<noteq> None"
    using invD(4) [OF i] c(2) by (auto simp: st' split: if_split_asm)
qed (use i h c in \<open>auto simp: egl_inv_but_def st' split: if_split_asm\<close>)

lemma EGLContext_new_eqs:
  assumes "EGLContext_new E st dpy config shareCtx = Returned (st', h)"
  defines "cl \<equiv> ee_word E (eg_calls st @ [New_object, New_object])" and "c \<equiv> the (eg_contexts st' h)"
  shows "h = ee_word E (eg_calls st @ [New_object])"
    and "eg_contexts st' = (eg_contexts st)(h \<mapsto> c)"
    and "eg_clients st' = (eg_clients st)(cl \<mapsto> GLClientState_new (ee_junk E) CODEC_MAX_VERTEX_ATTRIBUTES)"
    and "cx_flags c = 0" and "cx_clientState c = cl"
    and "eg_threads st' = eg_threads st" and "eg_surfaces st' = eg_surfaces st" and "eg_display st' = eg_display st"
  using assms(1) unfolding cl_def c_def
  by (auto simp: EGLContext_new_def Let_def ecall_def put_ctx_def elim!: obind_E split: if_split_asm)

lemma eglCreateContext_inv:
  assumes op: "eglCreateContext E t st dpy config share attribs = Returned (st', h)" and i: "egl_inv E B st"
    and fresh: "fresh_objects E st"
  shows "egl_inv E B st'"
proof -
  consider "egl_frame E st st'"
    | version rcShare where "with_rc E t st 0 (\<lambda>st1.
                let st2 = ecall st1 (rcCreateContext config rcShare version);
                    rcContext = ee_word E (eg_calls st2)
                in if rcContext = 0 then Returned (setErrorFunc t st2 EGL_BAD_ALLOC 0)
                   else obind (EGLContext_new E st2 dpy config share) (\<lambda>(st3, h).
                     obind (deref (eg_contexts st3) h) (\<lambda>c.
                       Returned (addContext (put_ctx st3 h
                         (c\<lparr>cx_version := version, cx_rcContext := rcContext\<rparr>)) h, h)))) = Returned (st', h)"
    using op unfolding eglCreateContext_def validate_display_init_def validate_display_def validate_config_def
    by (auto elim!: obind_E split: if_split_asm prod.split_asm)
  then show ?thesis
  proof cases
    case 1
    then show ?thesis using i by (rule egl_inv_frame)
  next
    case (2 version rcShare)
    then show ?thesis
    proof (cases rule: with_rc_cases)
      case refused
      then show ?thesis using i egl_inv_frame by blast
    next
      case (connected st1)
      obtain cs where calls: "eg_calls st1 = eg_calls st @ cs" "length cs \<le> 1" using connected(8) by blast
      define st2 where "st2 = ecall st1 (rcCreateContext config rcShare version)"
      have i1: "egl_inv E B st1" using connected(1) i by (rule egl_inv_frame)
      consider "ee_word E (eg_calls st2) = 0" "egl_frame E st1 st'"
        | st3 c where "EGLContext_new E st2 dpy config share = Returned (st3, h)" "eg_contexts st3 h = Some c"
          "st' = addContext (put_ctx st3 h (c\<lparr>cx_version := version, cx_rcContext := ee_word E (eg_calls st2)\<rparr>)) h"
        using connected(2) by (auto simp: st2_def Let_def elim!: obind_E split: if_split_asm prod.split_asm)
      then show ?thesis
      proof cases
        case 1
        then show ?thesis using i1 egl_inv_frame by blast
      next
        case (2 st3 c)
        note n = EGLContext_new_eqs [OF 2(1)]
        let ?cl = "ee_word E (eg_calls st2 @ [New_object, New_object])" and ?c0 = "the (eg_contexts st3 h)"
        let ?cs = "cs @ [rcCreateContext config rcShare version]"
        have a: "h = ee_word E (eg_calls st @ ?cs @ [New_object])"
          "?cl = ee_word E (eg_calls st @ (?cs @ [New_object]) @ [New_object])"
          using n(1) calls by (simp_all add: st2_def ecall_def)
        have "h \<noteq> 0" "eg_contexts st1 h = None"
          using fresh [unfolded fresh_objects_def, rule_format, of ?cs] calls(2) connected(4) unfolding a(1) [symmetric]
          by (simp_all add: Let_def)
        moreover have "eg_clients st1 ?cl = None"
          using fresh [unfolded fresh_objects_def, rule_format, of "?cs @ [New_object]"] calls(2) connected(5)
          unfolding a(2) [symmetric] by (simp add: Let_def)
        ultimately have "egl_inv_but E {} B (ds_contexts (eg_display st1) @ [h]) st'"
          by (intro inv_new [OF i1, where c = "?c0\<lparr>cx_version := version, cx_rcContext := ee_word E (eg_calls st2)\<rparr>"
                and cl = ?cl and x = "GLClientState_new (ee_junk E) CODEC_MAX_VERTEX_ATTRIBUTES"])
            (use n 2(2,3) in \<open>simp_all add: addContext_def st2_def\<close>)
        then show ?thesis using n(8) by (simp add: 2(3) addContext_def st2_def)
      qed
    qed
  qed
qed

section \<open>Switching contexts\<close>

lemma bound_bind_encoder:
  "encoder_bound False (Some (bind_encoder (cx_version c) (cx_clientState c) (cx_sharedGroup c) con)) c"
  by (auto simp: encoder_bound_def bind_encoder_def Let_def gl2Encoder_def glEncoder_def)

lemma encoder_bound_cong:
  assumes "encoder_bound i conn c" "cx_version c' = cx_version c" "cx_clientState c' = cx_clientState c"
    "cx_sharedGroup c' = cx_sharedGroup c"
  shows "encoder_bound i conn c'"
  using assms by (simp add: encoder_bound_def)

lemma upd_conn_fields [simp]:
  "eg_contexts (upd_conn t st f) = eg_contexts st" "eg_clients (upd_conn t st f) = eg_clients st"
  "eg_surfaces (upd_conn t st f) = eg_surfaces st" "eg_display (upd_conn t st f) = eg_display st"
  "current_of (upd_conn t st f) u = current_of st u"
  "ti_hostConn (eg_threads (upd_conn t st f) u) =
     (if u = t then map_option f (ti_hostConn (eg_threads st t)) else ti_hostConn (eg_threads st u))"
  "ti_eglError (eg_threads (upd_conn t st f) u) = ti_eglError (eg_threads st u)"
  by (simp_all add: upd_conn_def)

text \<open>The state between the change of the current context and the destruction of the previous one.\<close>

lemma switch_inv:
  assumes i: "egl_inv_but E {} B L st" and conn: "ti_hostConn (eg_threads st t) = Some con"
    and ctx: "ctx \<noteq> 0 \<Longrightarrow> eg_contexts st ctx = Some c"
      "ctx \<noteq> 0 \<Longrightarrow> ctx \<notin> B \<Longrightarrow> cx_flags c AND IS_CURRENT = 0 \<and> ctx \<noteq> current_of st t"
    and b: "bind_local t st draw read ctx = Returned st1"
    and u: "(if current_of st t = 0 then Returned st1
             else upd_ctx st1 (current_of st t) (\<lambda>c. c\<lparr>cx_flags := cx_flags c AND NOT IS_CURRENT\<rparr>)) = Returned st2"
    and st3: "st3 = put_thread st2 t ((eg_threads st2 t)\<lparr>ti_currentContext := ctx\<rparr>)"
  shows "egl_inv_but E {t} B L st3" and "eg_display st3 = eg_display st"
    and "current_of st3 v = (if v = t then ctx else current_of st v)"
proof -
  let ?prev = "current_of st t"
  let ?bind = "\<lambda>c. c\<lparr>cx_draw := draw, cx_read := read, cx_flags := cx_flags c OR IS_CURRENT\<rparr>"
  let ?clear = "\<lambda>c. c\<lparr>cx_flags := cx_flags c AND NOT IS_CURRENT\<rparr>"
  have nocur: "current_of st v \<noteq> ctx" if "ctx \<noteq> 0" "ctx \<notin> B" for v
    using invD(2) [OF i, of v] ctx that by auto
  have c1: "eg_contexts st1 = (if ctx = 0 then eg_contexts st else (eg_contexts st)(ctx \<mapsto> ?bind c))"
    and t1: "eg_display st1 = eg_display st" "eg_clients st1 = eg_clients st" "eg_surfaces st1 = eg_surfaces st"
      "current_of st1 v = current_of st v" "v \<noteq> t \<Longrightarrow> eg_threads st1 v = eg_threads st v"
      "ti_eglError (eg_threads st1 v) = ti_eglError (eg_threads st v)"
    and h1: "ti_hostConn (eg_threads st1 t) \<noteq> None"
      "ctx \<noteq> 0 \<Longrightarrow> encoder_bound False (ti_hostConn (eg_threads st1 t)) c" for v
    using b ctx(1) conn bound_bind_encoder
    by (auto simp: bind_local_def upd_conn_def elim!: obind_E split: if_split_asm)
  have c2: "eg_contexts st2 = (if ?prev = 0 then eg_contexts st1
      else (eg_contexts st1)(?prev := map_option ?clear (eg_contexts st1 ?prev)))"
    and t2: "eg_display st2 = eg_display st1" "eg_clients st2 = eg_clients st1" "eg_surfaces st2 = eg_surfaces st1"
      "eg_threads st2 = eg_threads st1"
    using u by (auto simp: upd_ctx_def elim!: obind_E split: if_split_asm)
  have e3: "eg_display st3 = eg_display st" "eg_clients st3 = eg_clients st" "eg_surfaces st3 = eg_surfaces st"
    "eg_contexts st3 = eg_contexts st2"
    using t1 t2 by (simp_all add: st3)
  have cur3: "current_of st3 v = (if v = t then ctx else current_of st v)" for v
    using t1 t2 by (simp add: st3)
  have hc3: "ti_hostConn (eg_threads st3 t) = ti_hostConn (eg_threads st1 t)" using t2 by (simp add: st3)
  have at: "eg_contexts st3 h =
      (let x = (if h = ctx \<and> ctx \<noteq> 0 then Some (?bind c) else eg_contexts st h)
       in if h = ?prev \<and> ?prev \<noteq> 0 then map_option ?clear x else x)" for h
    unfolding e3(4) c2 c1 by (simp add: Let_def)
  show "eg_display st3 = eg_display st" by (fact e3)
  show "current_of st3 v = (if v = t then ctx else current_of st v)" by (fact cur3)
  have key: "\<exists>y. eg_contexts st h = Some y \<and> cx_clientState x = cx_clientState y" if "eg_contexts st3 h = Some x" for h x
    using that ctx(1) by (auto simp: at Let_def split: if_split_asm)
  show "egl_inv_but E {t} B L st3"
  proof (rule invI)
    show "eg_contexts st3 0 = None" using at invD(1) [OF i] by (simp add: Let_def)
  next
    fix v assume nz: "current_of st3 v \<noteq> 0" "current_of st3 v \<notin> B"
    show "\<exists>c. eg_contexts st3 (current_of st3 v) = Some c \<and> cx_flags c AND IS_CURRENT \<noteq> 0
        \<and> encoder_bound (v \<notin> {t}) (ti_hostConn (eg_threads st3 v)) c"
    proof (cases "v = t")
      case True
      then have n: "ctx \<noteq> 0" "ctx \<notin> B" using nz cur3 [of t] by simp_all
      have x: "eg_contexts st3 ctx = Some (?bind c)" using at [of ctx] n nocur [OF n, of t] by (auto simp: Let_def)
      have "encoder_bound False (ti_hostConn (eg_threads st3 t)) (?bind c)"
        unfolding hc3 by (rule encoder_bound_cong [OF h1(2) [OF n(1)]]) simp_all
      then show ?thesis using x n True cur3 [of t] by simp
    next
      case False
      then have v: "current_of st v \<noteq> 0" "current_of st v \<notin> B" using nz cur3 [of v] by simp_all
      then have "current_of st v \<noteq> ?prev" "current_of st v \<noteq> ctx"
        using False invD(3) [OF i, of v t] nocur [of v] by auto
      moreover have "eg_threads st3 v = eg_threads st v" using False t1(5) [of v] t2 by (simp add: st3)
      ultimately show ?thesis using False invD(2) [OF i, of v] v cur3 [of v] at [of "current_of st v"] by (simp add: Let_def)
    qed
  next
    fix v w :: nat assume "v \<noteq> w" "current_of st3 v \<noteq> 0" "current_of st3 v \<notin> B"
    then show "current_of st3 v \<noteq> current_of st3 w"
      using invD(3) [OF i, of v w] nocur [of v] nocur [of w] by (auto simp: cur3 split: if_split_asm)
  next
    fix h x assume x: "eg_contexts st3 h = Some x"
    show "eg_clients st3 (cx_clientState x) \<noteq> None" using key [OF x] invD(4) [OF i] e3(2) by auto
  next
    fix h h' x x' assume "eg_contexts st3 h = Some x" "eg_contexts st3 h' = Some x'" "cx_clientState x = cx_clientState x'"
    then show "h = h'" using key invD(5) [OF i] by metis
  next
    show "set L \<subseteq> dom (eg_contexts st3)" using invD(7) [OF i] ctx(1) by (auto simp: at Let_def dom_def subset_iff)
  next
    show "egl_typed E st3" using invD(8) [OF i] t1 t2 e3 by (auto simp: egl_typed_def st3)
  qed (fact invD(6) [OF i])
qed

lemma init_encoder_fields:
  assumes "init_encoder E t st = Returned st'"
  shows "eg_contexts st' = eg_contexts st" "eg_clients st' = eg_clients st" "eg_surfaces st' = eg_surfaces st"
    "eg_display st' = eg_display st" "current_of st' v = current_of st v"
    "v \<noteq> t \<Longrightarrow> ti_hostConn (eg_threads st' v) = ti_hostConn (eg_threads st v)"
    "ti_eglError (eg_threads st' v) = ti_eglError (eg_threads st v)"
  using assms
  by (auto simp: init_encoder_def initClientFuncs_def obind_Returned_iff Let_def upd_conn_def
      split: if_split_asm option.split_asm)

lemma init_encoder_bound:
  assumes "init_encoder E t st = Returned st'" and "current_of st t \<noteq> 0"
    and "eg_contexts st (current_of st t) = Some c" and "encoder_bound False (ti_hostConn (eg_threads st t)) c"
  shows "encoder_bound True (ti_hostConn (eg_threads st' t)) c"
proof -
  obtain con b where con: "ti_hostConn (eg_threads st t) = Some con"
    "(if cx_version c = 2 then hc_gl2 con else hc_gl con) = Some b"
    "eb_state b = cx_clientState c" "eb_group b = cx_sharedGroup c"
    using assms(4) by (auto simp: encoder_bound_def)
  have same: "(if cx_version c = 2 then gl2Encoder else glEncoder) con = con"
    using con(2) by (auto simp: gl2Encoder_def glEncoder_def split: if_split_asm)
  have "ti_hostConn (eg_threads st' t) = Some (if eb_init b then con else set_encoder_init (cx_version c) con)"
    using assms(1-3) con same
    by (auto simp: init_encoder_def initClientFuncs_def obind_Returned_iff Let_def upd_conn_def
        split: if_split_asm option.split_asm)
  then show ?thesis using con by (auto simp: encoder_bound_def set_encoder_init_def)
qed

lemma init_encoder_inv:
  assumes op: "init_encoder E t st = Returned st'" and i: "egl_inv_but E {t} B L st"
  shows "egl_inv_but E {} B L st'"
proof (rule invI)
  note f = init_encoder_fields [OF op]
  fix v assume v: "current_of st' v \<noteq> 0" "current_of st' v \<notin> B"
  then obtain c where c: "eg_contexts st (current_of st v) = Some c" "cx_flags c AND IS_CURRENT \<noteq> 0"
    "encoder_bound (v \<noteq> t) (ti_hostConn (eg_threads st v)) c"
    using invD(2) [OF i, of v] by (auto simp: f)
  moreover have "encoder_bound True (ti_hostConn (eg_threads st' v)) c"
    using c v init_encoder_bound [OF op] f(6) [of v] by (cases "v = t") (auto simp: f(5))
  ultimately show "\<exists>c. eg_contexts st' (current_of st' v) = Some c \<and> cx_flags c AND IS_CURRENT \<noteq> 0
      \<and> encoder_bound (v \<notin> {}) (ti_hostConn (eg_threads st' v)) c" by (simp add: f)
next
  show "egl_typed E st'" using invD(8) [OF i] by (simp add: egl_typed_def init_encoder_fields [OF op])
next
  fix h h' x x' assume "eg_contexts st' h = Some x" "eg_contexts st' h' = Some x'" "cx_clientState x = cx_clientState x'"
  then show "h = h'" unfolding init_encoder_fields [OF op] by (rule invD(5) [OF i])
qed (use invD [OF i] in \<open>simp_all add: init_encoder_fields [OF op]\<close>)

lemma bind_local_current: "bind_local t st draw read ctx = Returned st1 \<Longrightarrow> current_of st1 v = current_of st v"
  by (auto simp: bind_local_def elim!: obind_E split: if_split_asm)

text \<open>A context is made current, after the host has agreed.\<close>

lemma switch_to_inv:
  assumes b: "bind_local t st draw read ctx = Returned st1" and s: "switch_current E t st1 ctx = Returned st2"
    and n: "init_encoder E t st2 = Returned st3"
    and i: "egl_inv E B st" and conn: "ti_hostConn (eg_threads st t) = Some con"
    and ctx: "ctx \<noteq> 0 \<Longrightarrow> eg_contexts st ctx = Some c"
      "ctx \<noteq> 0 \<Longrightarrow> ctx \<notin> B \<Longrightarrow> cx_flags c AND IS_CURRENT = 0 \<and> ctx \<noteq> current_of st t"
  shows "egl_inv E B st3" and "current_of st3 v = (if v = t then ctx else current_of st v)"
proof -
  let ?prev = "current_of st t" and ?L = "ds_contexts (eg_display st)"
  note cur1 = bind_local_current [OF b]
  obtain u where u: "(if ?prev = 0 then Returned st1
       else upd_ctx st1 ?prev (\<lambda>c. c\<lparr>cx_flags := cx_flags c AND NOT IS_CURRENT\<rparr>)) = Returned u"
    and rest: "(let st2 = put_thread u t ((eg_threads u t)\<lparr>ti_currentContext := ctx\<rparr>) in
        if ?prev = 0 then Returned st2
        else obind (deref (eg_contexts st2) ?prev) (\<lambda>p.
          if cx_flags p AND TO_DELETE \<noteq> 0
          then obind (eglDestroyContext E t st2 (ee_display E) ?prev) (\<lambda>(st3, _). Returned st3)
          else Returned st2)) = Returned st2"
    using s unfolding switch_current_def cur1 Let_def by (auto elim!: obind_E)
  define w where "w = put_thread u t ((eg_threads u t)\<lparr>ti_currentContext := ctx\<rparr>)"
  note W = switch_inv [OF i conn ctx b u w_def]
  consider "st2 = w" | ok where "?prev \<noteq> 0" "eglDestroyContext E t w (ee_display E) ?prev = Returned (st2, ok)"
    using rest unfolding w_def [symmetric] Let_def
    by (auto elim!: obind_E split: if_split_asm prod.split_asm)
  then have "egl_inv_but E {t} B (ds_contexts (eg_display st2)) st2
    \<and> (\<forall>v. current_of st2 v = (if v = t then ctx else current_of st v))"
  proof cases
    case 1
    then show ?thesis using W by simp
  next
    case (2 ok)
    have i2: "egl_inv_but E {t} B (ds_contexts (eg_display w)) w" using W(1,2) by simp
    have others: "current_of w v \<noteq> ?prev" if "v \<noteq> t" "?prev \<notin> B" for v
      using that invD(3) [OF i, of t v] 2(1) W(3) [of v] by simp
    note D = eglDestroyContext_inv [OF 2(2) i2 others]
    show ?thesis using D(1,2) W(3) by simp
  qed
  then have i2: "egl_inv_but E {t} B (ds_contexts (eg_display st2)) st2"
    and c2: "current_of st2 v = (if v = t then ctx else current_of st v)" by simp_all
  show "egl_inv E B st3" using init_encoder_inv [OF n i2] by (simp add: init_encoder_fields(4) [OF n])
  show "current_of st3 v = (if v = t then ctx else current_of st v)" using init_encoder_fields(5) [OF n] c2 by simp
qed

lemma make_current_checked:
  assumes "validate_display_init E t st dpy False
       (validate_surface E t st draw False
         (validate_surface E t st read False
           (if A then Returned (setErrorFunc t st EGL_BAD_MATCH False)
            else if B then Returned (setErrorFunc t st EGL_BAD_MATCH False) else k))) = Returned (st', ok)"
  obtains "egl_frame E st st'" "\<not> ok"
    | "k = Returned (st', ok)" "dpy = ee_display E" "ds_initialized (eg_display st)"
  using assms by (auto simp: validate_display_init_def validate_display_def validate_surface_def
      elim!: obind_E split: if_split_asm)

lemma eglMakeCurrent_cases [consumes 1, case_names refused same switched]:
  assumes "eglMakeCurrent E t st dpy draw read ctx = Returned (st', ok)"
  obtains "egl_frame E st st'" "\<not> ok"
  | "st' = st" "ok" "current_of st t = ctx"
      "ctx \<noteq> 0 \<Longrightarrow> \<exists>c. eg_contexts st ctx = Some c \<and> cx_draw c = draw \<and> cx_read c = read"
  | st1 st2 st3 con rc dh rh where "ok" "egl_frame E st (ecall st1 (rcMakeCurrent rc dh rh))"
      "eg_contexts st1 = eg_contexts st" "eg_clients st1 = eg_clients st" "eg_display st1 = eg_display st"
      "eg_surfaces st1 = eg_surfaces st" "ti_hostConn (eg_threads st1 t) = Some con"
      "ee_int E (eg_calls (ecall st1 (rcMakeCurrent rc dh rh))) \<noteq> 0"
      "bind_local t (ecall st1 (rcMakeCurrent rc dh rh)) draw read ctx = Returned st2"
      "switch_current E t st2 ctx = Returned st3" "init_encoder E t st3 = Returned st'"
      "dpy = ee_display E" "ds_initialized (eg_display st)"
      "rc = (case eg_contexts st ctx of None \<Rightarrow> 0 | Some c \<Rightarrow> cx_rcContext c) \<or> ctx = 0 \<and> rc = 0"
      "surface_handle st draw = Returned dh" "surface_handle st read = Returned rh"
      "ctx \<noteq> 0 \<Longrightarrow> \<exists>c. eg_contexts st ctx = Some c \<and> (cx_flags c AND IS_CURRENT = 0 \<or> ctx = current_of st t)
         \<and> \<not> (current_of st t = ctx \<and> cx_draw c = draw \<and> cx_read c = read)"
      "ctx = 0 \<Longrightarrow> current_of st t \<noteq> 0"
proof -
  consider "egl_frame E st st'" "\<not> ok"
    | co dh rh where "(if ctx = 0 then Returned None else obind (deref (eg_contexts st) ctx) (\<lambda>c. Returned (Some c))) = Returned co"
      "surface_handle st draw = Returned dh" "surface_handle st read = Returned rh"
      "dpy = ee_display E" "ds_initialized (eg_display st)"
      "(if current_of st t = ctx
           \<and> (case co of None \<Rightarrow> True | Some c \<Rightarrow> cx_draw c = draw \<and> cx_read c = read)
        then Returned (st, True)
        else if (case co of None \<Rightarrow> False | Some c \<Rightarrow> cx_flags c AND IS_CURRENT \<noteq> 0) \<and> ctx \<noteq> current_of st t
        then Returned (setErrorFunc t st EGL_BAD_ACCESS False)
        else with_rc E t st False (\<lambda>st1.
          let st2 = ecall st1 (rcMakeCurrent (case co of None \<Rightarrow> 0 | Some c \<Rightarrow> cx_rcContext c) dh rh)
          in if ee_int E (eg_calls st2) = 0 then Returned (setErrorFunc t st2 EGL_BAD_CONTEXT False)
             else obind (bind_local t st2 draw read ctx) (\<lambda>st3.
               obind (switch_current E t st3 ctx) (\<lambda>st4.
                 obind (init_encoder E t st4) (\<lambda>st5. Returned (st5, True)))))) = Returned (st', ok)"
    using assms unfolding eglMakeCurrent_def
    by (cases rule: make_current_checked) (blast, elim obind_E, blast)
  then show ?thesis
  proof cases
    case 1
    then show ?thesis by (rule that(1))
  next
    case (2 co dh rh)
    show ?thesis
    proof (cases "current_of st t = ctx \<and> (case co of None \<Rightarrow> True | Some c \<Rightarrow> cx_draw c = draw \<and> cx_read c = read)")
      case True
      then show ?thesis using 2(1,6) by (intro that(2)) (auto elim!: obind_E split: if_split_asm)
    next
      case change: False
      show ?thesis
      proof (cases "(case co of None \<Rightarrow> False | Some c \<Rightarrow> cx_flags c AND IS_CURRENT \<noteq> 0) \<and> ctx \<noteq> current_of st t")
        case True
        then show ?thesis using 2(6) change by (intro that(1)) auto
      next
        case free: False
        let ?rc = "case co of None \<Rightarrow> 0 | Some c \<Rightarrow> cx_rcContext c"
        have rc: "?rc = (case eg_contexts st ctx of None \<Rightarrow> 0 | Some c \<Rightarrow> cx_rcContext c) \<or> ctx = 0 \<and> ?rc = 0"
          using 2(1) by (auto elim!: obind_E split: if_split_asm)
        have c: "\<exists>c. eg_contexts st ctx = Some c \<and> (cx_flags c AND IS_CURRENT = 0 \<or> ctx = current_of st t)
            \<and> \<not> (current_of st t = ctx \<and> cx_draw c = draw \<and> cx_read c = read)" if "ctx \<noteq> 0"
          using 2(1) change free that by (auto elim!: obind_E)
        have z: "current_of st t \<noteq> 0" if "ctx = 0" using 2(1) change that by auto
        from 2(6) change free have "with_rc E t st False (\<lambda>st1.
          let st2 = ecall st1 (rcMakeCurrent ?rc dh rh)
          in if ee_int E (eg_calls st2) = 0 then Returned (setErrorFunc t st2 EGL_BAD_CONTEXT False)
             else obind (bind_local t st2 draw read ctx) (\<lambda>st3.
               obind (switch_current E t st3 ctx) (\<lambda>st4.
                 obind (init_encoder E t st4) (\<lambda>st5. Returned (st5, True))))) = Returned (st', ok)"
          by (simp only: if_False)
        then show ?thesis
        proof (cases rule: with_rc_cases)
          case refused
          then show ?thesis by (intro that(1)) simp_all
        next
          case (connected st1)
          obtain con where con: "ti_hostConn (eg_threads st1 t) = Some con" using connected(3) by blast
          let ?st2 = "ecall st1 (rcMakeCurrent ?rc dh rh)"
          have f: "egl_frame E st ?st2" by (rule egl_frame_trans [OF connected(1)]) simp
          show ?thesis
          proof (cases "ee_int E (eg_calls ?st2) = 0")
            case True
            then have "st' = set_error t ?st2 EGL_BAD_CONTEXT" "\<not> ok"
              using connected(2) by (simp_all add: Let_def setErrorFunc_def)
            moreover have "egl_frame E ?st2 (set_error t ?st2 EGL_BAD_CONTEXT)" by simp
            ultimately show ?thesis using egl_frame_trans [OF f] by (intro that(1)) simp_all
          next
            case False
            then obtain st3 st4 where k: "bind_local t ?st2 draw read ctx = Returned st3"
              "switch_current E t st3 ctx = Returned st4" "init_encoder E t st4 = Returned st'" "ok"
              using connected(2) by (auto simp: Let_def elim!: obind_E)
            show ?thesis
              by (rule that(3) [OF k(4) f connected(4,5,7,6) con False k(1-3) 2(4,5) rc 2(2,3) c z])
          qed
        qed
      qed
    qed
  qed
qed

lemma eglMakeCurrent_inv:
  assumes op: "eglMakeCurrent E t st dpy draw read ctx = Returned (st', ok)" and i: "egl_inv E B st"
    and rebind: "\<And>c. ctx \<noteq> 0 \<Longrightarrow> ctx = current_of st t \<Longrightarrow> eg_contexts st ctx = Some c
      \<Longrightarrow> cx_draw c = draw \<and> cx_read c = read \<or> ctx \<in> B"
  shows "egl_inv E B st'" and "current_of st' v = (if ok \<and> v = t then ctx else current_of st v)"
proof -
  have "egl_inv E B st' \<and> current_of st' v = (if ok \<and> v = t then ctx else current_of st v)"
    using op
  proof (cases rule: eglMakeCurrent_cases)
    case refused
    then show ?thesis using egl_inv_frame [OF refused(1) i] by (simp add: egl_frame_def)
  next
    case same
    then show ?thesis using i by simp
  next
    case (switched st1 st2 st3 con rc dh rh)
    let ?a = "ecall st1 (rcMakeCurrent rc dh rh)"
    have ia: "egl_inv E B ?a" using switched(2) i by (rule egl_inv_frame)
    have cur: "current_of ?a v = current_of st v" for v using switched(2) by (simp add: egl_frame_def)
    have c: "eg_contexts ?a ctx = Some (the (eg_contexts st ctx))"
      "ctx \<notin> B \<Longrightarrow> cx_flags (the (eg_contexts st ctx)) AND IS_CURRENT = 0 \<and> ctx \<noteq> current_of ?a t"
      if "ctx \<noteq> 0" using switched(3) switched(17) [OF that] rebind [OF that] cur [of t] by auto
    have h: "ti_hostConn (eg_threads ?a t) = Some con" using switched(7) by simp
    note S = switch_to_inv [OF switched(9,10,11) ia h c]
    show ?thesis using S(1) S(2) [of v] switched(1) cur by simp
  qed
  then show "egl_inv E B st'" "current_of st' v = (if ok \<and> v = t then ctx else current_of st v)" by simp_all
qed

section \<open>Calls and runs\<close>

text \<open>
  What a call does to contexts that are current: \<open>Binds\<close> is \<open>eglMakeCurrent\<close>, \<open>Destroys\<close> is
  \<open>eglDestroyContext\<close>, by a thread.
\<close>

datatype egl_event = Binds nat addr addr addr | Destroys nat addr | Other

text \<open>
  One call of an entry point by a thread \<open>t\<close> that returns, whatever the call and its arguments, or
  a change of the outside: the windows and native buffers of the process, and the end of a thread,
  with or without a current context. Of the outside only the allocator is asked something, that
  \<open>new\<close> does not return memory that is in use.
\<close>

inductive egl_does :: "egl_env \<Rightarrow> egl_event \<Rightarrow> egl_state \<Rightarrow> egl_state \<Rightarrow> bool" for E where
  initialize: "eglInitialize E t st dpy = Returned (st', r) \<Longrightarrow> egl_does E Other st st'"
| terminate: "eglTerminate E t st dpy = Returned (st', r) \<Longrightarrow> egl_does E Other st st'"
| get_error: "eglGetError t st = (st', r) \<Longrightarrow> egl_does E Other st st'"
| get_proc_address: "eglGetProcAddress E t st name = Returned (st', r) \<Longrightarrow> egl_does E Other st st'"
| query_string: "eglQueryString E t st dpy name = Returned (st', r) \<Longrightarrow> egl_does E Other st st'"
| get_configs: "eglGetConfigs E t st dpy configs n m = Returned (st', r) \<Longrightarrow> egl_does E Other st st'"
| choose_config: "eglChooseConfig E t st dpy attribs n m = Returned (st', r) \<Longrightarrow> egl_does E Other st st'"
| get_config_attrib: "eglGetConfigAttrib E t st dpy config attribute = Returned (st', r) \<Longrightarrow> egl_does E Other st st'"
| create_window: "eglCreateWindowSurface E t st dpy config win = Returned (st', r) \<Longrightarrow> egl_does E Other st st'"
| create_pbuffer: "eglCreatePbufferSurface E t st dpy config attribs = Returned (st', r) \<Longrightarrow> egl_does E Other st st'"
| destroy_surface: "eglDestroySurface E t st dpy surface = Returned (st', r) \<Longrightarrow> egl_does E Other st st'"
| query_surface: "eglQuerySurface E t st dpy surface attribute = Returned (st', r) \<Longrightarrow> egl_does E Other st st'"
| bind_api: "eglBindAPI t st api = (st', r) \<Longrightarrow> egl_does E Other st st'"
| bind_tex_image: "eglBindTexImage E t st dpy surface buffer = Returned (st', r) \<Longrightarrow> egl_does E Other st st'"
| swap_interval: "eglSwapInterval E t st dpy interval = Returned (st', r) \<Longrightarrow> egl_does E Other st st'"
| swap_buffers: "eglSwapBuffers E t st dpy surface = Returned (st', r) \<Longrightarrow> egl_does E Other st st'"
| create_context: "eglCreateContext E t st dpy config share attribs = Returned (st', h) \<Longrightarrow> fresh_objects E st
    \<Longrightarrow> egl_does E Other st st'"
| destroy_context: "eglDestroyContext E t st dpy ctx = Returned (st', ok) \<Longrightarrow> egl_does E (Destroys t ctx) st st'"
| make_current: "eglMakeCurrent E t st dpy draw read ctx = Returned (st', ok)
    \<Longrightarrow> egl_does E (Binds t draw read ctx) st st'"
| release_thread: "eglReleaseThread E t st = Returned (st', ok) \<Longrightarrow> egl_does E Other st st'"
| get_current_surface: "eglGetCurrentSurface t st readdraw = Returned (st', r) \<Longrightarrow> egl_does E Other st st'"
| query_context: "eglQueryContext E t st dpy ctx attribute = Returned (st', r) \<Longrightarrow> egl_does E Other st st'"
| wait_gl: "eglWaitGL t st = Returned (st', r) \<Longrightarrow> egl_does E Other st st'"
| create_image: "eglCreateImageKHR E t st dpy ctx target buffer = Returned (st', r) \<Longrightarrow> egl_does E Other st st'"
| destroy_image: "eglDestroyImageKHR E t st dpy img = Returned (st', r) \<Longrightarrow> egl_does E Other st st'"
| create_sync: "eglCreateSyncKHR E t st dpy type attribs = Returned (st', r) \<Longrightarrow> egl_does E Other st st'"
| destroy_sync: "eglDestroySyncKHR t st sync = (st', r) \<Longrightarrow> egl_does E Other st st'"
| wait_sync: "eglClientWaitSyncKHR t st sync = (st', r) \<Longrightarrow> egl_does E Other st st'"
| get_sync: "eglGetSyncAttribKHR t st sync attribute = (st', r) \<Longrightarrow> egl_does E Other st st'"
| get_string: "getGLString E t st name = Returned (st', r) \<Longrightarrow> egl_does E Other st st'"
| outside: "egl_does E Other st (st\<lparr>eg_windows := w, eg_buffers := b, eg_cbs := x\<rparr>)"
| thread_exit: "egl_does E Other st (put_thread st t EGLThreadInfo_new)"

text \<open>A process before its first call of EGL; its threads may have used the connection already.\<close>

definition egl_start :: "egl_state \<Rightarrow> bool" where
  "egl_start st \<longleftrightarrow> eg_display st = eglDisplay_new \<and> eg_contexts st = Map.empty \<and> eg_surfaces st = Map.empty
     \<and> (\<forall>t. current_of st t = 0 \<and> ti_eglError (eg_threads st t) = EGL_SUCCESS)"

text \<open>
  Two kinds of calls spoil a context that is current: the thread's own context is bound again with
  other surfaces (its mark is lost), and a context is destroyed that is current to another thread
  (that thread keeps a dangling pointer). EGL allows both.
\<close>

fun spoils :: "egl_state \<Rightarrow> egl_event \<Rightarrow> addr set" where
  "spoils st (Binds t draw read ctx) = {h. h = ctx \<and> ctx \<noteq> 0 \<and> ctx = current_of st t
     \<and> (\<exists>c. eg_contexts st ctx = Some c \<and> \<not> (cx_draw c = draw \<and> cx_read c = read))}"
| "spoils st (Destroys t ctx) = {h. h = ctx \<and> ctx \<noteq> 0 \<and> (\<exists>u. u \<noteq> t \<and> current_of st u = ctx)}"
| "spoils st Other = {}"

text \<open>All runs, with the contexts that have been spoiled; reachable without spoiling any.\<close>

inductive egl_run :: "egl_env \<Rightarrow> egl_state \<Rightarrow> addr set \<Rightarrow> bool" for E where
  start: "egl_start st \<Longrightarrow> egl_run E st {}"
| call: "egl_run E st B \<Longrightarrow> egl_does E ev st st' \<Longrightarrow> egl_run E st' (B \<union> spoils st ev)"

definition egl_reachable :: "egl_env \<Rightarrow> egl_state \<Rightarrow> bool" where
  "egl_reachable E st \<longleftrightarrow> egl_run E st {}"

lemma egl_start_inv: "egl_start st \<Longrightarrow> egl_inv E B st"
  by (simp add: egl_start_def egl_inv_but_def egl_typed_def egl_codes_def eglDisplay_new_def)

lemma thread_exit_inv:
  assumes i: "egl_inv E B st"
  shows "egl_inv E B (put_thread st t EGLThreadInfo_new)"
proof -
  define st' where "st' = put_thread st t EGLThreadInfo_new"
  have f: "eg_contexts st' = eg_contexts st" "eg_clients st' = eg_clients st" "eg_display st' = eg_display st"
    and cur: "current_of st' v = (if v = t then 0 else current_of st v)" for v
    by (simp_all add: st'_def EGLThreadInfo_new_def)
  have "egl_inv_but E {} B (ds_contexts (eg_display st)) st'"
  proof (rule invI)
    fix v assume "current_of st' v \<noteq> 0" "current_of st' v \<notin> B"
    then show "\<exists>c. eg_contexts st' (current_of st' v) = Some c \<and> cx_flags c AND IS_CURRENT \<noteq> 0
        \<and> encoder_bound (v \<notin> {}) (ti_hostConn (eg_threads st' v)) c"
      using invD(2) [OF i, of v] unfolding cur f by (auto simp: st'_def split: if_split_asm)
  next
    fix v w :: nat assume "v \<noteq> w" "current_of st' v \<noteq> 0" "current_of st' v \<notin> B"
    then show "current_of st' v \<noteq> current_of st' w"
      using invD(3) [OF i, of v w] by (auto simp: cur split: if_split_asm)
  next
    show "egl_typed E st'"
      using invD(8) [OF i] by (auto simp: st'_def egl_typed_def EGLThreadInfo_new_def egl_codes_def)
  next
    fix h h' x x' assume "eg_contexts st' h = Some x" "eg_contexts st' h' = Some x'" "cx_clientState x = cx_clientState x'"
    then show "h = h'" unfolding f by (rule invD(5) [OF i])
  qed (use invD [OF i] in \<open>simp_all add: f\<close>)
  then show ?thesis using f(3) by (simp add: st'_def)
qed

lemma egl_does_inv: "egl_does E ev st st' \<Longrightarrow> egl_inv E B st \<Longrightarrow> egl_inv E (B \<union> spoils st ev) st'"
proof (induction rule: egl_does.induct)
  case (release_thread t st st' ok)
  then show ?case
    by (auto simp: eglReleaseThread_def split: if_split_asm elim: eglMakeCurrent_inv(1))
next
  case (outside st w b x)
  then show ?case
    unfolding spoils.simps Un_empty_right
    by (intro inv_same [OF outside]) (use invD(6,7) [OF outside] in simp_all)
next
  case (destroy_context t st dpy ctx st' ok)
  have "egl_inv E (B \<union> spoils st (Destroys t ctx)) st" using destroy_context(2) by (rule inv_spoil) blast
  then show ?case by (rule eglDestroyContext_inv(1) [OF destroy_context(1)]) auto
next
  case (make_current t st dpy draw read ctx st' ok)
  have "egl_inv E (B \<union> spoils st (Binds t draw read ctx)) st" using make_current(2) by (rule inv_spoil) blast
  then show ?case by (rule eglMakeCurrent_inv(1) [OF make_current(1)]) auto
qed (simp only: spoils.simps Un_empty_right; blast intro: egl_inv_frame sync_frames query_frames image_frames
    eglInitialize_frame eglGetProcAddress_frame
    eglChooseConfig_frame eglCreateWindowSurface_frame eglCreatePbufferSurface_frame eglDestroySurface_frame
    eglQuerySurface_frame eglBindTexImage_frame eglSwapInterval_frame eglSwapBuffers_frame invD(8)
    eglQueryContext_frame eglCreateSyncKHR_frame getGLString_frame eglTerminate_inv eglCreateContext_inv
    thread_exit_inv)+

lemma egl_run_inv: "egl_run E st B \<Longrightarrow> egl_inv E B st"
  by (induction rule: egl_run.induct) (blast intro: egl_start_inv egl_does_inv)+

lemma egl_reachable_inv: "egl_reachable E st \<Longrightarrow> egl_inv E {} st"
  unfolding egl_reachable_def by (rule egl_run_inv)

lemma egl_reachable_start: "egl_start st \<Longrightarrow> egl_reachable E st"
  by (simp add: egl_reachable_def egl_run.start)

lemma egl_reachable_does: "egl_reachable E st \<Longrightarrow> egl_does E ev st st' \<Longrightarrow> spoils st ev = {} \<Longrightarrow> egl_reachable E st'"
  using egl_run.call [of E st "{}" ev st'] by (simp add: egl_reachable_def)

end
