(* ===== verification/EGLStrings.thy ===== *)
theory EGLStrings
  imports EGLDisplay
begin

text \<open>
  The extension string of the display: the filtering of the host's list in place, against the
  list of names that it stands for.
\<close>

section \<open>Lists of names\<close>

text \<open>The text of a list of names as the host and the library's constants have it.\<close>

definition host_list :: "string list \<Rightarrow> string" where
  "host_list toks = concat (map (\<lambda>t. t @ '' '') toks)"

definition dynamic_names :: "string list" where
  "dynamic_names = [''EGL_KHR_image_base'', ''EGL_KHR_gl_texture_2d_image'']"

definition static_names :: "string list" where
  "static_names = [''EGL_ANDROID_image_native_buffer'', ''EGL_KHR_fence_sync'']"

abbreviation word_like :: "string \<Rightarrow> bool" where
  "word_like t \<equiv> CHR '' '' \<notin> set t"

lemma host_list_simps [simp]:
  "host_list [] = []" "host_list (t # ts) = t @ CHR '' '' # host_list ts"
  by (simp_all add: host_list_def)

lemma system_lists:
  "systemDynamicEGLExtensions = host_list dynamic_names" "systemStaticEGLExtensions = host_list static_names"
  by (simp_all add: systemDynamicEGLExtensions_def systemStaticEGLExtensions_def dynamic_names_def static_names_def)

lemma span_word:
  assumes "word_like t"
  shows "takeWhile (\<lambda>c. c \<noteq> CHR '' '') (t @ CHR '' '' # rest) = t"
    and "dropWhile (\<lambda>c. c \<noteq> CHR '' '') (t @ CHR '' '' # rest) = CHR '' '' # rest"
  using assms by (induction t) auto

lemma findExtInList_host_list:
  "(\<forall>t \<in> set ts. word_like t) \<Longrightarrow> findExtInList token (host_list ts) \<longleftrightarrow> token \<in> set ts"
proof (induction ts)
  case (Cons t ts)
  then show ?case by (subst findExtInList.simps) (simp add: span_word)
qed (simp add: findExtInList.simps)

lemma findExtInList_dynamic: "findExtInList token systemDynamicEGLExtensions \<longleftrightarrow> token \<in> set dynamic_names"
  unfolding system_lists by (rule findExtInList_host_list) (simp add: dynamic_names_def)

section \<open>Filtering in place\<close>

text \<open>The scan runs over the letters of a name to the space behind it.\<close>

lemma filter_ext_scan:
  "word_like t \<Longrightarrow> j \<le> length t \<Longrightarrow>
   filter_ext (pre @ t @ CHR '' '' # rest) (length pre) (length pre + j) ins
     = filter_ext (pre @ t @ CHR '' '' # rest) (length pre) (length pre + length t) ins"
proof (induction "length t - j" arbitrary: j)
  case (Suc n)
  then have j: "j < length t" by simp
  then have "(pre @ t @ CHR '' '' # rest) ! (length pre + j) = t ! j" by (simp add: nth_append)
  moreover have "t ! j \<noteq> CHR '' ''" using Suc.prems(1) j nth_mem by metis
  ultimately have "filter_ext (pre @ t @ CHR '' '' # rest) (length pre) (length pre + j) ins
      = filter_ext (pre @ t @ CHR '' '' # rest) (length pre) (length pre + Suc j) ins"
    using j by (subst filter_ext.simps) simp
  then show ?case using Suc.hyps(1) [of "Suc j"] Suc.hyps(2) Suc.prems j by simp
qed simp

lemma take_exact: "n = length a \<Longrightarrow> take n (a @ b) = a"
  by simp

text \<open>
  At the start of a name, \<open>pre\<close> is the part behind; what is kept of it is its first \<open>ins\<close> bytes.
\<close>

lemma filter_ext_tokens:
  "(\<forall>t \<in> set ts. word_like t) \<Longrightarrow> ins \<le> length pre \<Longrightarrow>
   \<exists>buf ins'. filter_ext (pre @ host_list ts) (length pre) (length pre) ins = Some (buf, ins')
     \<and> take ins' buf = take ins pre @ host_list (filter (\<lambda>t. t \<in> set dynamic_names) ts)
     \<and> ins' = ins + length (host_list (filter (\<lambda>t. t \<in> set dynamic_names) ts))"
proof (induction ts arbitrary: pre ins)
  case (Cons t ts)
  let ?buf = "pre @ t @ CHR '' '' # host_list ts" and ?c = "length pre + length t"
  have t: "word_like t" using Cons.prems(1) by simp
  have scan: "filter_ext ?buf (length pre) (length pre) ins = filter_ext ?buf (length pre) ?c ins"
    using filter_ext_scan [OF t, of 0] by simp
  have sp: "?buf ! ?c = CHR '' ''" by (simp add: nth_append)
  show ?case
  proof (cases "t \<in> set dynamic_names")
    case False
    have "filter_ext ?buf (length pre) ?c ins = filter_ext ?buf (?c + 1) (?c + 1) ins"
      using sp False by (subst filter_ext.simps) (simp add: findExtInList_dynamic Let_def)
    moreover have "ins \<le> length (pre @ t @ '' '')" using Cons.prems(2) by simp
    ultimately show ?thesis
      using Cons.IH [of ins "pre @ t @ '' ''"] Cons.prems False scan by simp
  next
    case True
    define pre' where "pre' = take (?c + 1) (take ins ?buf @ (t @ '' '') @ drop (ins + length t + 1) ?buf)"
    have len: "length pre' = ?c + 1" using Cons.prems(2) by (simp add: pre'_def)
    have head: "take (ins + length t + 1) pre' = take ins pre @ t @ '' ''"
    proof -
      have kept: "take ins ?buf = take ins pre" using Cons.prems(2) by simp
      have "take (ins + length t + 1) pre'
          = take (ins + length t + 1) ((take ins pre @ t @ '' '') @ drop (ins + length t + 1) ?buf)"
        using Cons.prems(2) unfolding pre'_def take_take kept by (simp add: min_absorb1)
      also have "\<dots> = take ins pre @ t @ '' ''" by (rule take_exact) (use Cons.prems(2) in simp)
      finally show ?thesis .
    qed
    have moved: "take ins ?buf @ (t @ '' '') @ drop (ins + length t + 1) ?buf = pre' @ host_list ts"
    proof -
      have "drop (?c + 1) (take ins ?buf @ (t @ '' '') @ drop (ins + length t + 1) ?buf) = host_list ts"
      proof -
        have "drop (?c + 1) (take ins ?buf @ (t @ '' '') @ drop (ins + length t + 1) ?buf)
            = drop (length pre - ins) (drop (ins + length t + 1) ?buf)"
          using Cons.prems(2) by (simp only: drop_append) (simp add: min_def)
        also have "\<dots> = drop (?c + 1) ?buf" using Cons.prems(2) by (simp only: drop_drop) simp
        also have "\<dots> = host_list ts" by simp
        finally show ?thesis .
      qed
      then show ?thesis unfolding pre'_def by (metis append_take_drop_id)
    qed
    have b: "blit ?buf ins (t @ '' '') = Some (pre' @ host_list ts)"
      unfolding moved [symmetric] using Cons.prems(2) by (simp add: blit_def)
    have same: "pre' @ host_list ts = ?buf" if "length pre = ins"
      unfolding moved [symmetric] using that by simp
    have "filter_ext ?buf (length pre) ?c ins = filter_ext (pre' @ host_list ts) (?c + 1) (?c + 1) (ins + length t + 1)"
      using sp True b same by (subst filter_ext.simps) (simp add: findExtInList_dynamic Let_def)
    then show ?thesis
      using Cons.IH [of "ins + length t + 1" pre'] Cons.prems True scan len head by (simp add: add.assoc)
  qed
qed (simp add: filter_ext.simps)

lemma extension_string_filters:
  assumes "\<forall>t \<in> set ts. word_like t"
  shows "extension_string (Some (host_list ts))
    = Some (host_list (static_names @ filter (\<lambda>t. t \<in> set dynamic_names) ts))"
proof -
  let ?ts = "filter (\<lambda>t. t \<in> set dynamic_names) ts"
  obtain buf ins where f: "filter_ext (host_list ts) 0 0 0 = Some (buf, ins)" "take ins buf = host_list ?ts"
    "ins = length (host_list ?ts)"
    using filter_ext_tokens [OF assms, of 0 "[]"] by auto
  have st: "host_list (static_names @ ?ts) = systemStaticEGLExtensions @ host_list ?ts"
    by (simp add: system_lists host_list_def)
  show ?thesis
  proof (cases "length (host_list ts) \<le> 1")
    case True
    then have "ts = [] \<or> ts = [[]]" by (cases ts; cases "tl ts") auto
    then have "?ts = []" by (auto simp: dynamic_names_def)
    then show ?thesis using True st by (simp add: extension_string_def)
  next
    case False
    then show ?thesis using f st by (auto simp: extension_string_def)
  qed
qed

end
