(* ===== verification/EGLConfigs.thy ===== *)
theory EGLConfigs
  imports EGLFrame
begin

text \<open>
  The table of configurations: what \<open>eglInitialize\<close> leaves in it, against the answer of the
  host. The host sends the names of the attributes and then one row of values per configuration.
\<close>

section \<open>The index of the attributes\<close>

abbreviation index_attribs :: "(nat \<Rightarrow> int) \<Rightarrow> (int \<rightharpoonup> int) \<Rightarrow> nat \<Rightarrow> (int \<rightharpoonup> int)" where
  "index_attribs tmp A m \<equiv> foldl (\<lambda>as i. as(tmp i \<mapsto> int i)) A [0..<m]"

lemma index_attribs_hit:
  "i < m \<Longrightarrow> (\<forall>j<m. i < j \<longrightarrow> tmp j \<noteq> tmp i) \<Longrightarrow> index_attribs tmp A m (tmp i) = Some (int i)"
proof (induction m)
  case (Suc m)
  then show ?case by (cases "i = m") auto
qed simp

lemma index_attribs_range: "index_attribs tmp Map.empty m a = Some v \<Longrightarrow> 0 \<le> v \<and> v < int m"
  by (induction m) (auto split: if_split_asm)

lemma index_attribs_key: "index_attribs tmp Map.empty m a = Some v \<Longrightarrow> tmp (nat v) = a"
  by (induction m) (auto split: if_split_asm)

section \<open>The native format of each configuration\<close>

lemma setConfigAttrib_effect:
  assumes "setConfigAttrib d c attrib x = Returned (d', ok)"
  shows "d' = d\<lparr>ds_configs := ds_configs d'\<rparr>"
    and "ds_configs d = Some cs \<Longrightarrow> \<exists>cs'. ds_configs d' = Some cs' \<and> length cs' = length cs
      \<and> (\<forall>k < length cs. valueFor d attrib = ATTRIBUTE_NONE \<or> int k \<noteq> c * ds_numConfigAttribs d + valueFor d attrib
           \<longrightarrow> cs' ! k = cs ! k)"
proof -
  consider "d' = d" | cs k where "config_slot d c (valueFor d attrib) = Returned (cs, k)"
      "d' = d\<lparr>ds_configs := Some (cs[k := x])\<rparr>" "valueFor d attrib \<noteq> ATTRIBUTE_NONE"
    using assms by (auto simp: setConfigAttrib_def setAttribValue_def elim!: obind_E split: if_split_asm prod.split_asm)
  then have "d' = d\<lparr>ds_configs := ds_configs d'\<rparr> \<and> (\<forall>cs. ds_configs d = Some cs \<longrightarrow> (\<exists>cs'. ds_configs d' = Some cs' \<and> length cs' = length cs
      \<and> (\<forall>k < length cs. valueFor d attrib = ATTRIBUTE_NONE \<or> int k \<noteq> c * ds_numConfigAttribs d + valueFor d attrib
           \<longrightarrow> cs' ! k = cs ! k)))"
    by cases (auto simp: config_slot_def Let_def nth_list_update split: option.split_asm if_split_asm)
  then show "d' = d\<lparr>ds_configs := ds_configs d'\<rparr>"
    "ds_configs d = Some cs \<Longrightarrow> \<exists>cs'. ds_configs d' = Some cs' \<and> length cs' = length cs
      \<and> (\<forall>k < length cs. valueFor d attrib = ATTRIBUTE_NONE \<or> int k \<noteq> c * ds_numConfigAttribs d + valueFor d attrib
           \<longrightarrow> cs' ! k = cs ! k)" by blast+
qed

lemma valueFor_configs [simp]: "valueFor (d\<lparr>ds_configs := x\<rparr>) a = valueFor d a"
  by (simp add: valueFor_def)

lemma process_from_effect:
  "process_from d is = Returned d' \<Longrightarrow> ds_configs d = Some cs \<Longrightarrow>
   d' = d\<lparr>ds_configs := ds_configs d'\<rparr> \<and> (\<exists>cs'. ds_configs d' = Some cs' \<and> length cs' = length cs
      \<and> (\<forall>k < length cs. valueFor d EGL_NATIVE_VISUAL_ID = ATTRIBUTE_NONE
            \<or> (\<forall>c. int k \<noteq> c * ds_numConfigAttribs d + valueFor d EGL_NATIVE_VISUAL_ID) \<longrightarrow> cs' ! k = cs ! k))"
proof (induction "is" arbitrary: d cs)
  case (Cons i "is")
  consider "process_from d is = Returned d'"
    | f d1 ok where "setConfigAttrib d (int i) EGL_NATIVE_VISUAL_ID f = Returned (d1, ok)" "process_from d1 is = Returned d'"
    using Cons.prems(1) by (auto elim!: obind_E split: option.split_asm prod.split_asm)
  then show ?case
  proof cases
    case 1
    then show ?thesis using Cons by blast
  next
    case (2 f d1 ok)
    note e = setConfigAttrib_effect [OF 2(1)]
    obtain cs1 where cs1: "ds_configs d1 = Some cs1" "length cs1 = length cs"
      "\<And>k. k < length cs \<Longrightarrow> valueFor d EGL_NATIVE_VISUAL_ID = ATTRIBUTE_NONE
         \<or> int k \<noteq> int i * ds_numConfigAttribs d + valueFor d EGL_NATIVE_VISUAL_ID \<Longrightarrow> cs1 ! k = cs ! k"
      using e(2) [OF Cons.prems(2)] by blast
    have d1: "valueFor d1 a = valueFor d a" "ds_numConfigAttribs d1 = ds_numConfigAttribs d" for a
      using arg_cong [OF e(1), of "\<lambda>d. valueFor d a"] arg_cong [OF e(1), of ds_numConfigAttribs] by simp_all
    obtain cs' where "d' = d1\<lparr>ds_configs := ds_configs d'\<rparr>" "ds_configs d' = Some cs'" "length cs' = length cs"
      "\<And>k. k < length cs \<Longrightarrow> valueFor d EGL_NATIVE_VISUAL_ID = ATTRIBUTE_NONE
            \<or> (\<forall>c. int k \<noteq> c * ds_numConfigAttribs d + valueFor d EGL_NATIVE_VISUAL_ID) \<Longrightarrow> cs' ! k = cs1 ! k"
      using Cons.IH [OF 2(2) cs1(1)] unfolding d1 cs1(2) by blast
    moreover have "d' = d\<lparr>ds_configs := ds_configs d'\<rparr>"
    proof -
      have "d1\<lparr>ds_configs := ds_configs d'\<rparr> = d\<lparr>ds_configs := ds_configs d'\<rparr>"
        by (subst e(1)) simp
      then show ?thesis using calculation(1) by simp
    qed
    ultimately show ?thesis using cs1(3) by auto
  qed
qed simp

section \<open>The table after initialisation\<close>

text \<open>
  What the host has answered when initialisation has succeeded: the last two calls are those for
  the size of the table and for the table.
\<close>

definition host_num_configs :: "egl_env \<Rightarrow> egl_state \<Rightarrow> int" where
  "host_num_configs E st = ee_int E (butlast (eg_calls st))"

definition host_num_attribs :: "egl_env \<Rightarrow> egl_state \<Rightarrow> int" where
  "host_num_attribs E st = ee_out E (butlast (eg_calls st)) 0"

definition host_attrib_name :: "egl_env \<Rightarrow> egl_state \<Rightarrow> nat \<Rightarrow> int" where
  "host_attrib_name E st i = ee_out E (eg_calls st) i"

definition host_config_value :: "egl_env \<Rightarrow> egl_state \<Rightarrow> nat \<Rightarrow> nat \<Rightarrow> int" where
  "host_config_value E st c i =
     ee_out E (eg_calls st) (nat (host_num_attribs E st) + (c * nat (host_num_attribs E st) + i))"

lemma load_configs_loaded:
  assumes "load_configs E st = Returned (st', True)" and "ds_attribs (eg_display st) = Map.empty"
  defines "n \<equiv> host_num_configs E st'" and "m \<equiv> host_num_attribs E st'"
  shows "0 < n" and "0 < m" and "ds_initialized (eg_display st')"
    and "ds_numConfigs (eg_display st') = n" and "ds_numConfigAttribs (eg_display st') = m"
    and "ds_attribs (eg_display st') = index_attribs (host_attrib_name E st') Map.empty (nat m)"
    and "ds_configs (eg_display st') = Some (map (\<lambda>k. ee_out E (eg_calls st') (nat m + k)) [0..<nat (m * n)])"
proof -
  have st': "eg_calls st' = (eg_calls st @ [rcGetNumConfigs]) @ [rcGetConfigs (word_of_int (4 * (m * (n + 1))))]
      \<and> eg_display st' = (eg_display st)\<lparr>ds_numConfigs := n, ds_numConfigAttribs := m,
          ds_attribs := index_attribs (host_attrib_name E st') Map.empty (nat m),
          ds_configs := Some (map (\<lambda>k. ee_out E (eg_calls st') (nat m + k)) [0..<nat (m * n)]), ds_initialized := True\<rparr>
      \<and> 0 < n \<and> 0 < m"
    using assms(1,2)
    by (auto simp: load_configs_def Let_def n_def m_def host_num_configs_def host_num_attribs_def
        host_attrib_name_def [abs_def] ecall_def put_display_def butlast_append split: if_split_asm)
  then show "0 < n" "0 < m" by simp_all
  have d: "eg_display st' = (eg_display st)\<lparr>ds_numConfigs := n, ds_numConfigAttribs := m,
          ds_attribs := index_attribs (host_attrib_name E st') Map.empty (nat m),
          ds_configs := Some (map (\<lambda>k. ee_out E (eg_calls st') (nat m + k)) [0..<nat (m * n)]), ds_initialized := True\<rparr>"
    using st' by (elim conjE)
  show "ds_initialized (eg_display st')"
    "ds_numConfigs (eg_display st') = n" "ds_numConfigAttribs (eg_display st') = m"
    "ds_attribs (eg_display st') = index_attribs (host_attrib_name E st') Map.empty (nat m)"
    "ds_configs (eg_display st') = Some (map (\<lambda>k. ee_out E (eg_calls st') (nat m + k)) [0..<nat (m * n)])"
    by (subst d, simp)+
qed

lemma init_prefix:
  assumes "obind (if ds_initialized (eg_display st) then Returned (st, True)
            else (case load_gles E st 1 of (st1, ok1) \<Rightarrow>
              let st2 = put_display st1 ((eg_display st1)\<lparr>ds_gles_iface := ok1\<rparr>) in
              if \<not> ok1 then Returned (st2, False)
              else (case load_gles E st2 2 of (st3, ok2) \<Rightarrow>
                with_rc E t (put_display st3 ((eg_display st3)\<lparr>ds_gles2_iface := ok2\<rparr>)) False k)))
       (\<lambda>(st7, ok). if \<not> ok then Returned (st7, False)
          else obind (processConfigs (eg_display st7)) (\<lambda>d. Returned (put_display st7 d, True))) = Returned (st', True)"
    and "\<not> ds_initialized (eg_display st)"
  obtains st3 st2 d where "with_rc E t st3 False k = Returned (st2, True)"
    "ds_attribs (eg_display st3) = ds_attribs (eg_display st)"
    "processConfigs (eg_display st2) = Returned d" "st' = put_display st2 d"
  using assms by (auto simp: load_gles_def Let_def elim!: obind_E split: if_split_asm)

lemma initialize_loads:
  assumes "eglDisplay_initialize E t st = Returned (st', True)" and "\<not> ds_initialized (eg_display st)"
    and "ds_attribs (eg_display st) = Map.empty"
  obtains st1 st2 d where "load_configs E st1 = Returned (st2, True)" "ds_attribs (eg_display st1) = Map.empty"
    "processConfigs (eg_display st2) = Returned d" "st' = put_display st2 d"
proof -
  from assms(1,2) obtain st3 st2 d where k: "with_rc E t st3 False (\<lambda>st4.
                  let st5 = ecall st4 rcGetRendererVersion; version = ee_int E (eg_calls st5);
                      st6 = ecall st5 rcGetEGLVersion;
                      major = ee_out E (eg_calls st6) 0; minor = ee_out E (eg_calls st6) 1;
                      d6 = (eg_display st6)\<lparr>ds_hostRendererVersion := version,
                              ds_major := major, ds_minor := minor\<rparr>
                  in if ee_int E (eg_calls st6) \<noteq> 1 then Returned (put_display st6 d6, False)
                     else (case min_version major minor of (major', minor') \<Rightarrow>
                       load_configs E (put_display st6 (d6\<lparr>ds_major := major', ds_minor := minor'\<rparr>)))) = Returned (st2, True)"
    "ds_attribs (eg_display st3) = ds_attribs (eg_display st)"
    "processConfigs (eg_display st2) = Returned d" "st' = put_display st2 d"
    unfolding eglDisplay_initialize_def by (rule init_prefix) blast
  from k(1) show ?thesis
  proof (cases rule: with_rc_cases)
    case (connected st4)
    then show ?thesis using k(2-4) assms(3) that
      by (auto simp: Let_def split: if_split_asm prod.split_asm)
  qed simp
qed

lemma table_index:
  assumes "c < n" and "i < m" and "j < m"
  shows "c * m + i < m * n" and "int (c * m + i) = x * int m + int j \<Longrightarrow> i = j"
proof -
  have "c * m + i < Suc c * m" using assms by simp
  also have "\<dots> \<le> n * m" using assms by (intro mult_le_mono1) simp
  finally show "c * m + i < m * n" by (simp add: mult.commute)
  assume "int (c * m + i) = x * int m + int j"
  then have "(int i + int c * int m) mod int m = (int j + x * int m) mod int m" by (simp add: algebra_simps)
  then show "i = j" using assms by simp
qed

lemma initialized_table:
  assumes init: "eglDisplay_initialize E t st = Returned (st', True)" "\<not> ds_initialized (eg_display st)"
    and empty: "ds_attribs (eg_display st) = Map.empty"
  defines "n \<equiv> host_num_configs E st'" and "m \<equiv> host_num_attribs E st'" and "d \<equiv> eg_display st'"
  shows "0 < n" and "0 < m" and "ds_initialized d" and "ds_numConfigs d = n" and "ds_numConfigAttribs d = m"
    and "i < nat m \<Longrightarrow> (\<forall>j<nat m. i < j \<longrightarrow> host_attrib_name E st' j \<noteq> host_attrib_name E st' i)
      \<Longrightarrow> valueFor d (host_attrib_name E st' i) = int i"
    and "\<exists>cs. ds_configs d = Some cs \<and> length cs = nat (m * n)
      \<and> (\<forall>c < nat n. \<forall>i < nat m. valueFor d EGL_NATIVE_VISUAL_ID \<noteq> int i
            \<longrightarrow> cs ! (c * nat m + i) = host_config_value E st' c i)"
proof -
  obtain st1 st2 d' where l: "load_configs E st1 = Returned (st2, True)" "ds_attribs (eg_display st1) = Map.empty"
    and p: "processConfigs (eg_display st2) = Returned d'" and st': "st' = put_display st2 d'"
    using initialize_loads [OF init empty] by blast
  have calls: "eg_calls st' = eg_calls st2" and d: "d = d'" by (simp_all add: st' d_def put_display_def)
  have same: "n = host_num_configs E st2" "m = host_num_attribs E st2"
    "host_attrib_name E st' = host_attrib_name E st2"
    by (simp_all add: n_def m_def host_num_configs_def host_num_attribs_def host_attrib_name_def [abs_def] calls)
  note L = load_configs_loaded [OF l, folded same(1,2)]
  let ?cs = "map (\<lambda>k. ee_out E (eg_calls st2) (nat m + k)) [0..<nat (m * n)]"
  note P = process_from_effect [OF p [unfolded processConfigs_def] L(7)]
  have upd: "d = (eg_display st2)\<lparr>ds_configs := ds_configs d\<rparr>" using P d by simp
  show "0 < n" "0 < m" by (fact L(1), fact L(2))
  show ini: "ds_initialized d" "ds_numConfigs d = n" "ds_numConfigAttribs d = m"
    by (subst upd, simp add: L(3-5))+
  have attribs: "ds_attribs d = index_attribs (host_attrib_name E st') Map.empty (nat m)"
    by (subst upd) (simp add: L(6) same(3))
  show "valueFor d (host_attrib_name E st' i) = int i"
    if "i < nat m" "\<forall>j<nat m. i < j \<longrightarrow> host_attrib_name E st' j \<noteq> host_attrib_name E st' i"
    by (simp add: valueFor_def attribs index_attribs_hit [OF that])
  have v: "valueFor (eg_display st2) a = valueFor d a" for a by (subst upd) simp
  obtain cs where cs: "ds_configs d = Some cs" "length cs = length ?cs"
    "\<And>k. k < length ?cs \<Longrightarrow> valueFor d EGL_NATIVE_VISUAL_ID = ATTRIBUTE_NONE
            \<or> (\<forall>c. int k \<noteq> c * m + valueFor d EGL_NATIVE_VISUAL_ID) \<Longrightarrow> cs ! k = ?cs ! k"
    using P unfolding v L(5) d by blast
  have "cs ! (c * nat m + i) = host_config_value E st' c i"
    if a: "c < nat n" "i < nat m" "valueFor d EGL_NATIVE_VISUAL_ID \<noteq> int i" for c i
  proof -
    have mn: "nat (m * n) = nat m * nat n" using L(2) by (simp add: nat_mult_distrib)
    have k: "c * nat m + i < nat m * nat n" by (rule table_index(1) [OF a(1,2,2)])
    have "valueFor d EGL_NATIVE_VISUAL_ID = ATTRIBUTE_NONE
        \<or> (\<forall>x. int (c * nat m + i) \<noteq> x * m + valueFor d EGL_NATIVE_VISUAL_ID)"
    proof (cases "ds_attribs d EGL_NATIVE_VISUAL_ID")
      case (Some v)
      then have r: "0 \<le> v" "v < m" using index_attribs_range [of _ "nat m"] L(2) unfolding attribs by fastforce+
      have "int (c * nat m + i) \<noteq> x * m + v" for x
      proof
        assume "int (c * nat m + i) = x * m + v"
        then have "i = nat v" using r L(2) by (intro table_index(2) [OF a(1,2), of "nat v" x]) auto
        then show False using a(3) Some r by (simp add: valueFor_def)
      qed
      then show ?thesis using Some by (simp add: valueFor_def)
    qed (simp add: valueFor_def)
    then show ?thesis
      using cs(3) [of "c * nat m + i"] k
      by (simp add: mn host_config_value_def calls m_def [symmetric])
  qed
  then show "\<exists>cs. ds_configs d = Some cs \<and> length cs = nat (m * n)
      \<and> (\<forall>c < nat n. \<forall>i < nat m. valueFor d EGL_NATIVE_VISUAL_ID \<noteq> int i
            \<longrightarrow> cs ! (c * nat m + i) = host_config_value E st' c i)"
    using cs(1,2) by simp
qed

lemma initialized_keys:
  assumes "eglDisplay_initialize E t st = Returned (st', True)" and "\<not> ds_initialized (eg_display st)"
    and "ds_attribs (eg_display st) = Map.empty" and "ds_attribs (eg_display st') a = Some v"
  shows "host_attrib_name E st' (nat v) = a"
proof -
  obtain st1 st2 d' where l: "load_configs E st1 = Returned (st2, True)" "ds_attribs (eg_display st1) = Map.empty"
    and p: "processConfigs (eg_display st2) = Returned d'" and st': "st' = put_display st2 d'"
    using initialize_loads [OF assms(1-3)] by blast
  note L = load_configs_loaded [OF l]
  have upd: "d' = (eg_display st2)\<lparr>ds_configs := ds_configs d'\<rparr>"
    using process_from_effect [OF p [unfolded processConfigs_def] L(7)] by blast
  have "ds_attribs (eg_display st') = ds_attribs (eg_display st2)" unfolding st' put_display_fields by (subst upd) simp
  then show ?thesis using assms(4) index_attribs_key unfolding L(6) st'
    by (fastforce simp: host_attrib_name_def [abs_def] put_display_def)
qed

section \<open>The column of the native formats\<close>

text \<open>What the format of a configuration depends on: the slots that are not of the column \<open>v\<close>.\<close>

definition same_but_column :: "int \<Rightarrow> egl_display \<Rightarrow> egl_display \<Rightarrow> bool" where
  "same_but_column v d d' \<longleftrightarrow> d' = d\<lparr>ds_configs := ds_configs d'\<rparr>
     \<and> (\<forall>cs. ds_configs d = Some cs \<longrightarrow> (\<exists>cs'. ds_configs d' = Some cs' \<and> length cs' = length cs
          \<and> (\<forall>k < length cs. (\<forall>c. int k \<noteq> c * ds_numConfigAttribs d + v) \<longrightarrow> cs' ! k = cs ! k)))"

lemma same_but_column_fields:
  assumes "same_but_column v d d'"
  shows "valueFor d' a = valueFor d a" and "ds_numConfigAttribs d' = ds_numConfigAttribs d"
proof -
  have e: "d' = d\<lparr>ds_configs := ds_configs d'\<rparr>" using assms by (simp add: same_but_column_def)
  show "valueFor d' a = valueFor d a" by (subst e) simp
  show "ds_numConfigAttribs d' = ds_numConfigAttribs d" by (subst e) simp
qed

lemma column_unique:
  fixes x y m :: int
  assumes "x * m + i = y * m + j" and "0 \<le> i" "i < m" "0 \<le> j" "j < m"
  shows "i = j" and "x = y"
proof -
  have "(i + x * m) mod m = (j + y * m) mod m" using assms(1) by (simp add: add.commute)
  then show ij: "i = j" using assms by simp
  then have "x * m = y * m" using assms(1) by simp
  then show "x = y" using assms(2,3) by simp
qed

lemma getAttribValue_same:
  assumes "same_but_column v d d'" and "ds_configs d = Some cs" and "0 \<le> v" "v < ds_numConfigAttribs d"
    and "idx = ATTRIBUTE_NONE \<or> 0 \<le> idx \<and> idx < ds_numConfigAttribs d \<and> idx \<noteq> v"
  shows "getAttribValue d' c idx = getAttribValue d c idx"
proof (cases "idx = ATTRIBUTE_NONE")
  case False
  let ?k = "c * ds_numConfigAttribs d + idx"
  obtain cs' where cs': "ds_configs d' = Some cs'" "length cs' = length cs"
    "\<And>k. k < length cs \<Longrightarrow> \<forall>c. int k \<noteq> c * ds_numConfigAttribs d + v \<Longrightarrow> cs' ! k = cs ! k"
    using assms(1,2) unfolding same_but_column_def by blast
  have "cs' ! nat ?k = cs ! nat ?k" if "0 \<le> ?k" "?k < int (length cs)"
  proof (rule cs'(3))
    show "nat ?k < length cs" using that by simp
    show "\<forall>x. int (nat ?k) \<noteq> x * ds_numConfigAttribs d + v"
    proof
      fix x
      show "int (nat ?k) \<noteq> x * ds_numConfigAttribs d + v"
        using that(1) column_unique(1) [of c "ds_numConfigAttribs d" idx x v] assms(3-5) False by auto
    qed
  qed
  then show ?thesis using cs' assms(2) same_but_column_fields [OF assms(1)]
    by (auto simp: getAttribValue_def config_slot_def Let_def)
qed (simp add: getAttribValue_def)

lemma read_attribs_same:
  assumes "same_but_column v d d'" and "ds_configs d = Some cs" and "0 \<le> v" "v < ds_numConfigAttribs d"
    and "\<forall>a \<in> set as. valueFor d a = ATTRIBUTE_NONE \<or> 0 \<le> valueFor d a \<and> valueFor d a < ds_numConfigAttribs d \<and> valueFor d a \<noteq> v"
  shows "read_attribs d' c as = read_attribs d c as"
  using assms(5)
proof (induction as)
  case (Cons a as)
  have "getAttribValue d' c (valueFor d a) = getAttribValue d c (valueFor d a)"
    by (rule getAttribValue_same [OF assms(1-4)]) (use Cons.prems in simp)
  then show ?case using Cons by (simp add: same_but_column_fields [OF assms(1)] cong: option.case_cong)
qed simp

definition colour_columns :: "egl_display \<Rightarrow> int \<Rightarrow> bool" where
  "colour_columns d v \<longleftrightarrow> 0 \<le> v \<and> v < ds_numConfigAttribs d
     \<and> (\<forall>a \<in> set [EGL_RED_SIZE, EGL_BLUE_SIZE, EGL_GREEN_SIZE, EGL_ALPHA_SIZE].
          valueFor d a = ATTRIBUTE_NONE \<or> 0 \<le> valueFor d a \<and> valueFor d a < ds_numConfigAttribs d \<and> valueFor d a \<noteq> v)"

lemma format_same:
  "same_but_column v d d' \<Longrightarrow> ds_configs d = Some cs \<Longrightarrow> colour_columns d v
   \<Longrightarrow> getConfigNativePixelFormat d' c = getConfigNativePixelFormat d c"
  unfolding getConfigNativePixelFormat_def colour_columns_def by (subst read_attribs_same) blast+

lemma same_but_column_refl: "ds_configs d = Some cs \<Longrightarrow> same_but_column v d d"
  by (simp add: same_but_column_def)

text \<open>The column of the native formats after the loop.\<close>

definition visual_of :: "egl_display \<Rightarrow> nat \<Rightarrow> int \<Rightarrow> int" where
  "visual_of d i host = (case getConfigNativePixelFormat d (int i) of Returned (Some f) \<Rightarrow> f | _ \<Rightarrow> host)"

lemma process_from_visual:
  assumes "process_from d is = Returned d'" and "ds_configs d = Some cs" and "distinct is"
    and "valueFor d EGL_NATIVE_VISUAL_ID = v" "v \<noteq> ATTRIBUTE_NONE" and "colour_columns d v"
  shows "same_but_column v d d' \<and> (\<exists>cs'. ds_configs d' = Some cs' \<and> (\<forall>i. int i * ds_numConfigAttribs d + v < int (length cs)
      \<longrightarrow> cs' ! nat (int i * ds_numConfigAttribs d + v)
          = (if i \<in> set is then visual_of d i (cs ! nat (int i * ds_numConfigAttribs d + v))
             else cs ! nat (int i * ds_numConfigAttribs d + v))))"
  using assms
proof (induction "is" arbitrary: d cs)
  case Nil
  then show ?case using same_but_column_refl by auto
next
  case (Cons j "is")
  let ?m = "ds_numConfigAttribs d" and ?pos = "\<lambda>i. nat (int i * ds_numConfigAttribs d + v)"
  have m: "0 \<le> v" "v < ?m" using Cons.prems(6) by (simp_all add: colour_columns_def)
  have pos: "?pos i = ?pos k \<longleftrightarrow> i = k" for i k
  proof -
    have "0 \<le> int i * ?m + v" "0 \<le> int k * ?m + v" using m by simp_all
    then show ?thesis using column_unique(2) [of "int i" ?m v "int k" v] m by (auto simp: nat_eq_iff)
  qed
  consider (none) "getConfigNativePixelFormat d (int j) = Returned None" "process_from d is = Returned d'"
    | (some) f where "getConfigNativePixelFormat d (int j) = Returned (Some f)"
        "int j * ?m + v < int (length cs)" "process_from (d\<lparr>ds_configs := Some (cs[?pos j := f])\<rparr>) is = Returned d'"
    using Cons.prems(1,2,4,5)
    by (auto simp: setConfigAttrib_def setAttribValue_def config_slot_def Let_def elim!: obind_E
        split: option.split_asm prod.split_asm if_split_asm)
  then show ?case
  proof cases
    case none
    from Cons.IH [OF none(2) Cons.prems(2) _ Cons.prems(4-6)] Cons.prems(3) show ?thesis
      using none(1) by (auto simp: visual_of_def)
  next
    case (some f)
    define d1 where "d1 = d\<lparr>ds_configs := Some (cs[?pos j := f])\<rparr>"
    have s1: "same_but_column v d d1"
    proof -
      have "int (?pos j) = int j * ?m + v" using m by simp
      then have "cs[?pos j := f] ! k = cs ! k" if "\<forall>c. int k \<noteq> c * ?m + v" for k
        using that nth_list_update_neq [of "?pos j" k cs f] by metis
      then show ?thesis using Cons.prems(2) by (simp add: same_but_column_def d1_def)
    qed
    note f1 = same_but_column_fields [OF s1]
    have vis: "visual_of d1 i h = visual_of d i h" for i h
      by (simp add: visual_of_def format_same [OF s1 Cons.prems(2,6)])
    have col: "colour_columns d1 v" using Cons.prems(6) by (simp add: colour_columns_def f1)
    have dc: "ds_configs d1 = Some (cs[?pos j := f])" by (simp add: d1_def)
    have "same_but_column v d1 d' \<and> (\<exists>cs'. ds_configs d' = Some cs' \<and> (\<forall>i. int i * ds_numConfigAttribs d1 + v < int (length (cs[?pos j := f]))
      \<longrightarrow> cs' ! nat (int i * ds_numConfigAttribs d1 + v)
          = (if i \<in> set is then visual_of d1 i (cs[?pos j := f] ! nat (int i * ds_numConfigAttribs d1 + v))
             else cs[?pos j := f] ! nat (int i * ds_numConfigAttribs d1 + v))))"
      by (rule Cons.IH) (use some(3) Cons.prems(3-5) f1 col dc in \<open>simp_all add: d1_def\<close>)
    then obtain cs' where s2: "same_but_column v d1 d'" and cs': "ds_configs d' = Some cs'"
      "\<And>i. int i * ?m + v < int (length cs) \<Longrightarrow> cs' ! ?pos i
          = (if i \<in> set is then visual_of d i (cs[?pos j := f] ! ?pos i) else cs[?pos j := f] ! ?pos i)"
      unfolding f1 vis length_list_update by blast
    have "same_but_column v d d'"
      using s1 s2 dc Cons.prems(2) m unfolding same_but_column_def f1
      by (auto simp: d1_def nth_list_update)
    moreover have "cs' ! ?pos i = (if i \<in> set (j # is) then visual_of d i (cs ! ?pos i) else cs ! ?pos i)"
      if "int i * ?m + v < int (length cs)" for i
    proof -
      have "?pos i < length cs" using that m by (simp add: nat_less_iff)
      then have "cs[?pos j := f] ! ?pos i = (if i = j then f else cs ! ?pos i)"
        using pos [of j i] nth_list_update_neq [of "?pos j" "?pos i" cs f] by (cases "i = j") (simp, presburger)
      then show ?thesis using cs'(2) [OF that] some(1) Cons.prems(3) by (auto simp: visual_of_def)
    qed
    ultimately show ?thesis using cs'(1) by blast
  qed
qed

lemma initialized_visual:
  assumes init: "eglDisplay_initialize E t st = Returned (st', True)" "\<not> ds_initialized (eg_display st)"
    and empty: "ds_attribs (eg_display st) = Map.empty"
  defines "m \<equiv> nat (host_num_attribs E st')" and "d \<equiv> eg_display st'"
  assumes c: "c < nat (host_num_configs E st')" and i: "i < m" "valueFor d EGL_NATIVE_VISUAL_ID = int i"
    and cs: "ds_configs d = Some cs"
  shows "cs ! (c * m + i) = visual_of d c (host_config_value E st' c i)"
proof -
  obtain st1 st2 d' where l: "load_configs E st1 = Returned (st2, True)" "ds_attribs (eg_display st1) = Map.empty"
    and p: "processConfigs (eg_display st2) = Returned d'" and st': "st' = put_display st2 d'"
    using initialize_loads [OF init empty] by blast
  have calls: "eg_calls st' = eg_calls st2" and d: "d = d'" by (simp_all add: st' d_def put_display_def)
  have same: "host_num_configs E st' = host_num_configs E st2" "host_num_attribs E st' = host_num_attribs E st2"
    "host_attrib_name E st' = host_attrib_name E st2" "host_config_value E st' = host_config_value E st2"
    by (simp_all add: host_num_configs_def host_num_attribs_def host_attrib_name_def [abs_def] host_config_value_def [abs_def] calls)
  note L = load_configs_loaded [OF l]
  let ?d = "eg_display st2"
  let ?cs = "map (\<lambda>k. ee_out E (eg_calls st2) (nat (host_num_attribs E st2) + k))
    [0..<nat (host_num_attribs E st2 * host_num_configs E st2)]"
  have upd: "d = ?d\<lparr>ds_configs := ds_configs d\<rparr>"
    using process_from_effect [OF p [unfolded processConfigs_def] L(7)] d by simp
  have v: "valueFor ?d a = valueFor d a" for a by (subst upd) simp
  have m: "int m = ds_numConfigAttribs ?d" using L(2,5) by (simp add: m_def same)
  have key: "\<exists>j < m. valueFor ?d a = int j \<and> host_attrib_name E st2 j = a" if present: "valueFor ?d a \<noteq> ATTRIBUTE_NONE" for a
  proof -
    obtain w where a: "ds_attribs ?d a = Some w" "valueFor ?d a = w"
      using present by (cases "ds_attribs ?d a") (simp_all add: valueFor_def)
    then have w: "index_attribs (host_attrib_name E st2) Map.empty m a = Some w" by (simp add: L(6) m_def same)
    then show ?thesis using a index_attribs_range [OF w] index_attribs_key [OF w] by (intro exI [of _ "nat w"]) auto
  qed
  have col: "colour_columns ?d (int i)"
    unfolding colour_columns_def
  proof (intro conjI ballI)
    fix a assume a: "a \<in> set [EGL_RED_SIZE, EGL_BLUE_SIZE, EGL_GREEN_SIZE, EGL_ALPHA_SIZE]"
    have n: "host_attrib_name E st2 i = EGL_NATIVE_VISUAL_ID" using key [of EGL_NATIVE_VISUAL_ID] i(2) v by auto
    show "valueFor ?d a = ATTRIBUTE_NONE \<or> 0 \<le> valueFor ?d a \<and> valueFor ?d a < ds_numConfigAttribs ?d \<and> valueFor ?d a \<noteq> int i"
    proof (cases "valueFor ?d a = ATTRIBUTE_NONE")
      case False
      then obtain j where j: "j < m" "valueFor ?d a = int j" "host_attrib_name E st2 j = a" using key by blast
      then have "j \<noteq> i" using n a by auto
      then show ?thesis using j m by auto
    qed simp
  qed (use i m in simp_all)
  have "same_but_column (int i) ?d d' \<and> (\<exists>cs'. ds_configs d' = Some cs' \<and> (\<forall>k. int k * ds_numConfigAttribs ?d + int i < int (length ?cs)
      \<longrightarrow> cs' ! nat (int k * ds_numConfigAttribs ?d + int i)
          = (if k \<in> set [0..<nat (ds_numConfigs ?d)] then visual_of ?d k (?cs ! nat (int k * ds_numConfigAttribs ?d + int i))
             else ?cs ! nat (int k * ds_numConfigAttribs ?d + int i))))"
    by (rule process_from_visual [OF p [unfolded processConfigs_def] L(7)]) (use i v col in simp_all)
  then have s: "same_but_column (int i) ?d d"
    and r: "int c * int m + int i < int (length ?cs) \<Longrightarrow> cs ! nat (int c * int m + int i) = visual_of ?d c (?cs ! nat (int c * int m + int i))"
    using cs c L(4) by (auto simp: d m same)
  have k: "c * m + i < m * nat (host_num_configs E st2)"
    by (rule table_index(1) [OF c [unfolded same] i(1,1)])
  have len: "length ?cs = m * nat (host_num_configs E st2)" using L(2) by (simp add: m_def same nat_mult_distrib)
  have pos: "nat (int c * int m + int i) = c * m + i" by (simp flip: of_nat_mult of_nat_add)
  have "cs ! (c * m + i) = visual_of ?d c (?cs ! (c * m + i))"
    using r k unfolding len pos by (simp flip: of_nat_mult of_nat_add)
  moreover have "?cs ! (c * m + i) = host_config_value E st' c i"
    using k len by (simp add: host_config_value_def same m_def calls)
  moreover have "visual_of ?d c h = visual_of d c h" for h
    by (simp add: visual_of_def format_same [OF s L(7) col])
  ultimately show ?thesis by simp
qed

end
