(* ===== verification/EGLProperties.thy ===== *)
theory EGLProperties
  imports EGLSteps EGLStrings EGLConfigs
begin

text \<open>
  The properties of the EGL library, with a run of the library on a small host as the witness of
  those that have hypotheses.
\<close>

section \<open>A host for the witnesses\<close>

text \<open>
  It has one configuration with six attributes, agrees to everything, and gives out objects at
  addresses that grow with the number of calls.
\<close>

definition demo_env :: egl_env where
  "demo_env =
     \<lparr>ee_display = 1,
      ee_int = (\<lambda>calls. case last calls of
          rcGetNumConfigs \<Rightarrow> 1 | rcGetConfigs _ \<Rightarrow> 1 | rcGetEGLVersion \<Rightarrow> 1 | rcMakeCurrent _ _ _ \<Rightarrow> 1 | _ \<Rightarrow> 0),
      ee_word = (\<lambda>calls. case last calls of
          New_object \<Rightarrow> word_of_nat (100 + length calls) | _ \<Rightarrow> 7),
      ee_out = (\<lambda>calls i. case last calls of
          rcGetNumConfigs \<Rightarrow> 6
        | rcGetEGLVersion \<Rightarrow> (if i = 0 then 1 else 3)
        | rcGetConfigs _ \<Rightarrow> [EGL_SURFACE_TYPE, EGL_RED_SIZE, EGL_BLUE_SIZE, EGL_GREEN_SIZE, EGL_ALPHA_SIZE,
              EGL_CONFIG_ID, 5, 8, 8, 8, 8, 1] ! i
        | _ \<Rightarrow> 16),
      ee_str = (\<lambda>calls. []), ee_uninit = (\<lambda>i. 0),
      ee_connect = (\<lambda>calls. \<lparr>ca_socket = - 1, ca_connect = - 1, ca_wr = [], ca_rd = []\<rparr>),
      ee_fresh = (\<lambda>n. None), ee_proc = (\<lambda>i s. 9), ee_junk = (\<lambda>i. undefined), ee_circular = False,
      ee_window_magic = 5, ee_buffer_magic = 6, ee_buffer_size = 80\<rparr>"

definition demo_start :: egl_state where
  "demo_start =
     \<lparr>eg_display = eglDisplay_new, eg_contexts = Map.empty, eg_surfaces = Map.empty, eg_clients = Map.empty,
      eg_threads = (\<lambda>t. EGLThreadInfo_new\<lparr>ti_hostConn := Some \<lparr>hc_stream = stream_new (- 1) 0 [] [], hc_gl = None,
          hc_gl2 = None, hc_rc = False\<rparr>\<rparr>),
      eg_exts = (\<lambda>i s. 0), eg_windows = Map.empty, eg_buffers = Map.empty, eg_cbs = Map.empty, eg_calls = []\<rparr>"

definition returned_state :: "(egl_state \<times> 'a) outcome \<Rightarrow> egl_state" where
  "returned_state r = (case r of Returned (st, _) \<Rightarrow> st | _ \<Rightarrow> demo_start)"

definition demo_ready :: egl_state where
  "demo_ready = returned_state (eglInitialize demo_env 1 demo_start 1)"

definition demo_created :: egl_state where
  "demo_created = returned_state (eglCreateContext demo_env 1 demo_ready 1 0 0 (Some [EGL_CONTEXT_CLIENT_VERSION, 2, 0]))"

definition demo_surfaced :: egl_state where
  "demo_surfaced = returned_state (eglCreatePbufferSurface demo_env 1 demo_created 1 0 (Some [EGL_WIDTH, 4, EGL_HEIGHT, 4, 0]))"

definition demo_bound :: egl_state where
  "demo_bound = returned_state (eglMakeCurrent demo_env 1 demo_surfaced 1 111 111 108)"

lemma returned_stateI: "(case r of Returned (st, x) \<Rightarrow> P x | _ \<Rightarrow> False) \<Longrightarrow> \<exists>x. r = Returned (returned_state r, x) \<and> P x"
  by (auto simp: returned_state_def split: outcome.splits)

lemma demo_ready: "eglInitialize demo_env 1 demo_start 1 = Returned (demo_ready, Some (1, 3))"
proof -
  have "case eglInitialize demo_env 1 demo_start 1 of Returned (st, x) \<Rightarrow> x = Some (1, 3) | _ \<Rightarrow> False" by code_simp
  from returned_stateI [OF this] show ?thesis by (simp add: demo_ready_def)
qed

lemma demo_created:
  "eglCreateContext demo_env 1 demo_ready 1 0 0 (Some [EGL_CONTEXT_CLIENT_VERSION, 2, 0]) = Returned (demo_created, 108)"
proof -
  have "case eglCreateContext demo_env 1 demo_ready 1 0 0 (Some [EGL_CONTEXT_CLIENT_VERSION, 2, 0]) of
      Returned (st, x) \<Rightarrow> x = 108 | _ \<Rightarrow> False" by code_simp
  from returned_stateI [OF this] show ?thesis by (simp add: demo_created_def)
qed

lemma demo_surfaced:
  "eglCreatePbufferSurface demo_env 1 demo_created 1 0 (Some [EGL_WIDTH, 4, EGL_HEIGHT, 4, 0]) = Returned (demo_surfaced, 111)"
proof -
  have "case eglCreatePbufferSurface demo_env 1 demo_created 1 0 (Some [EGL_WIDTH, 4, EGL_HEIGHT, 4, 0]) of
      Returned (st, x) \<Rightarrow> x = 111 | _ \<Rightarrow> False" by code_simp
  from returned_stateI [OF this] show ?thesis by (simp add: demo_surfaced_def)
qed

lemma demo_bound: "eglMakeCurrent demo_env 1 demo_surfaced 1 111 111 108 = Returned (demo_bound, True)"
proof -
  have "case eglMakeCurrent demo_env 1 demo_surfaced 1 111 111 108 of Returned (st, x) \<Rightarrow> x = True | _ \<Rightarrow> False"
    by code_simp
  from returned_stateI [OF this] show ?thesis by (auto simp: demo_bound_def)
qed

lemma demo_fresh: "fresh_objects demo_env demo_ready"
proof -
  have f: "egl_frame demo_env demo_start demo_ready" by (rule eglInitialize_frame [OF demo_ready])
  have "eg_contexts demo_ready h = None" for h using frame_ctx(3) [OF f] by (simp add: demo_start_def)
  moreover have "eg_clients demo_ready = Map.empty" using f by (simp add: egl_frame_def demo_start_def)
  moreover have "ee_word demo_env (eg_calls demo_ready @ cs @ [New_object]) \<noteq> 0" if "length cs \<le> 4" for cs
  proof -
    have w: "(word_of_nat n :: u32) \<noteq> 0" if "0 < n" "n < 200" for n
      using that by (simp add: word_of_nat_eq_0_iff nat_dvd_not_less)
    have l: "length (eg_calls demo_ready) = 6" by code_simp
    have "ee_word demo_env (eg_calls demo_ready @ cs @ [New_object]) = word_of_nat (107 + length cs)"
      using l by (simp add: demo_env_def)
    also have "\<dots> \<noteq> 0" by (rule w) (use that in simp_all)
    finally show ?thesis .
  qed
  ultimately show ?thesis by (simp add: fresh_objects_def Let_def)
qed

lemma demo_current: "current_of demo_bound 1 = 108" "current_of demo_surfaced 1 = 0"
  by code_simp+

lemma demo_reachable: "egl_reachable demo_env demo_surfaced" "egl_reachable demo_env demo_bound"
proof -
  have "egl_start demo_start" by (simp add: egl_start_def demo_start_def EGLThreadInfo_new_def)
  then have "egl_reachable demo_env demo_start" by (rule egl_reachable_start)
  then have "egl_reachable demo_env demo_ready"
    using egl_does.initialize [OF demo_ready] by (rule egl_reachable_does) simp
  then have "egl_reachable demo_env demo_created"
    using egl_does.create_context [OF demo_created demo_fresh] by (rule egl_reachable_does) simp
  then show s: "egl_reachable demo_env demo_surfaced"
    using egl_does.create_pbuffer [OF demo_surfaced] by (rule egl_reachable_does) simp
  show "egl_reachable demo_env demo_bound"
    using s egl_does.make_current [OF demo_bound] by (rule egl_reachable_does) (use demo_current(2) in simp)
qed

section \<open>Threads and contexts\<close>

text \<open>C4. In every run, whatever EGL calls a process has made on its threads and in which order, threads
  that have ended included: if the current context of a thread has not been spoiled, it is alive,
  marked as current and current to no other thread, its client state is alive, and the thread's
  encoder of the context's version is initialised and works on that client state and on the context's
  shared group. A context is spoiled (\<open>spoils\<close>) when its thread has bound it again with other surfaces
  while it was current, and when another thread has destroyed it while it was current: the code
  survives neither, although EGL allows both; what happens then is shown below.\<close>

theorem egl_threads_coherent:
  assumes "egl_run E st spoiled" and "current_of st t \<noteq> 0" and "current_of st t \<notin> spoiled"
  shows "\<exists>c con b. eg_contexts st (current_of st t) = Some c \<and> cx_flags c AND IS_CURRENT \<noteq> 0
      \<and> (\<forall>u. u \<noteq> t \<longrightarrow> current_of st u \<noteq> current_of st t)
      \<and> eg_clients st (cx_clientState c) \<noteq> None
      \<and> ti_hostConn (eg_threads st t) = Some con
      \<and> (if cx_version c = 2 then hc_gl2 con else hc_gl con) = Some b
      \<and> eb_init b \<and> eb_state b = cx_clientState c \<and> eb_group b = cx_sharedGroup c"
proof -
  note i = egl_run_inv [OF assms(1)]
  obtain c where c: "eg_contexts st (current_of st t) = Some c" "cx_flags c AND IS_CURRENT \<noteq> 0"
    "encoder_bound True (ti_hostConn (eg_threads st t)) c"
    using invD(2) [OF i assms(2,3)] by auto
  moreover have "\<forall>u. u \<noteq> t \<longrightarrow> current_of st u \<noteq> current_of st t" using invD(3) [OF i _ assms(2,3)] by metis
  ultimately show ?thesis using invD(4) [OF i c(1)] by (auto simp: encoder_bound_def)
qed

theorem egl_threads_coherent_witness:
  "\<exists>c con b. eg_contexts demo_bound 108 = Some c \<and> cx_flags c AND IS_CURRENT \<noteq> 0
      \<and> (\<forall>u. u \<noteq> 1 \<longrightarrow> current_of demo_bound u \<noteq> 108)
      \<and> eg_clients demo_bound (cx_clientState c) \<noteq> None
      \<and> ti_hostConn (eg_threads demo_bound 1) = Some con
      \<and> (if cx_version c = 2 then hc_gl2 con else hc_gl con) = Some b
      \<and> eb_init b \<and> eb_state b = cx_clientState c \<and> eb_group b = cx_sharedGroup c"
  using egl_threads_coherent [OF demo_reachable(2) [unfolded egl_reachable_def], of 1] unfolding demo_current by simp

text \<open>C20. Types: the error that a thread sees is always one of the EGL codes, every surface belongs
  to the display, and the cast of a surface to a pbuffer in \<open>eglBindTexImage\<close> is safe: with a live
  surface (or none) and a connection the call returns.\<close>

theorem egl_types_sound:
  assumes "egl_reachable E st"
  shows "ti_eglError (eg_threads st t) \<in> egl_codes
    \<and> (\<forall>s. eg_surfaces st surface = Some s \<longrightarrow> su_dpy s = ee_display E)
    \<and> (surface = 0 \<or> eg_surfaces st surface \<noteq> None \<longrightarrow> ti_hostConn (eg_threads st t) \<noteq> None
        \<longrightarrow> (\<exists>st' ok. eglBindTexImage E t st dpy surface buffer = Returned (st', ok)))"
proof -
  have ty: "egl_typed E st" using invD(8) [OF egl_reachable_inv [OF assms]] .
  have "ti_eglError (eg_threads st t) \<in> egl_codes" using ty by (simp add: egl_typed_def)
  moreover have "su_dpy s = ee_display E" if "eg_surfaces st surface = Some s" for s
    using ty that by (simp add: egl_typed_def surface_ok_def)
  moreover have "\<exists>st' ok. eglBindTexImage E t st dpy surface buffer = Returned (st', ok)"
    if live: "surface = 0 \<or> eg_surfaces st surface \<noteq> None" and con: "ti_hostConn (eg_threads st t) = Some con" for con
  proof (cases "surface = 0")
    case False
    then obtain s where s: "eg_surfaces st surface = Some s" using live by auto
    then have "su_kind s = Window_surface w b \<Longrightarrow> su_texFormat s = EGL_NO_TEXTURE" for w b
      using ty by (fastforce simp: egl_typed_def surface_ok_def)
    then show ?thesis
      using s con by (cases "su_kind s") (simp_all add: eglBindTexImage_def validate_display_init_def validate_display_def
          validate_surface_def with_rc_def egl_host_def deref_def setErrorFunc_def ex_bool_eq)
  qed (simp add: eglBindTexImage_def validate_display_init_def validate_display_def validate_surface_def setErrorFunc_def ex_bool_eq)
  ultimately show ?thesis by blast
qed

theorem egl_types_sound_witness:
  "\<exists>st' ok. eglBindTexImage demo_env 1 demo_surfaced 1 111 EGL_BACK_BUFFER = Returned (st', ok)"
proof -
  have "eg_surfaces demo_surfaced 111 \<noteq> None" "ti_hostConn (eg_threads demo_surfaced 1) \<noteq> None" by code_simp+
  then show ?thesis using egl_types_sound [OF demo_reachable(1), of 1 111 1 EGL_BACK_BUFFER] by auto
qed

section \<open>Making a context current\<close>

lemma bind_local_returns:
  assumes "ctx \<noteq> 0" and "eg_contexts st ctx = Some c"
  shows "bind_local t st draw read ctx = Returned (upd_conn t
      (put_ctx st ctx (c\<lparr>cx_draw := draw, cx_read := read, cx_flags := cx_flags c OR IS_CURRENT\<rparr>))
      (bind_encoder (cx_version c) (cx_clientState c) (cx_sharedGroup c)))"
  using assms by (simp add: bind_local_def deref_def)

text \<open>The state that a switch leaves when the previous context is not to be deleted.\<close>

definition switched_from :: "nat \<Rightarrow> egl_state \<Rightarrow> addr \<Rightarrow> egl_state" where
  "switched_from t st ctx =
     (let st1 = (case eg_contexts st (current_of st t) of
                   None \<Rightarrow> st
                 | Some p \<Rightarrow> put_ctx st (current_of st t) (p\<lparr>cx_flags := cx_flags p AND NOT IS_CURRENT\<rparr>))
      in put_thread st1 t ((eg_threads st1 t)\<lparr>ti_currentContext := ctx\<rparr>))"

lemma switch_current_returns:
  assumes "current_of st t = 0 \<and> eg_contexts st 0 = None
      \<or> (\<exists>p. current_of st t \<noteq> 0 \<and> eg_contexts st (current_of st t) = Some p \<and> cx_flags p AND TO_DELETE = 0)"
  shows "switch_current E t st ctx = Returned (switched_from t st ctx)"
  using assms by (elim disjE exE) (simp_all add: switch_current_def switched_from_def upd_ctx_def deref_def Let_def)

lemma switched_from_fields [simp]:
  "current_of (switched_from t st ctx) v = (if v = t then ctx else current_of st v)"
  "ti_hostConn (eg_threads (switched_from t st ctx) v) = ti_hostConn (eg_threads st v)"
  "eg_display (switched_from t st ctx) = eg_display st" "eg_calls (switched_from t st ctx) = eg_calls st"
  "eg_contexts (switched_from t st ctx) h = (if h = current_of st t
     then map_option (\<lambda>p. p\<lparr>cx_flags := cx_flags p AND NOT IS_CURRENT\<rparr>) (eg_contexts st h) else eg_contexts st h)"
  by (auto simp: switched_from_def Let_def put_thread_def put_ctx_def split: option.split)

lemma init_encoder_returns:
  assumes "current_of st t \<noteq> 0" and "eg_contexts st (current_of st t) = Some c"
    and "encoder_bound False (ti_hostConn (eg_threads st t)) c"
    and "if cx_version c = 2 then ds_gles2_iface (eg_display st) else ds_gles_iface (eg_display st)"
  obtains st' where "init_encoder E t st = Returned st'" "eg_contexts st' = eg_contexts st"
    "encoder_bound True (ti_hostConn (eg_threads st' t)) c" "\<And>v. current_of st' v = current_of st v"
    "set (drop (length (eg_calls st)) (eg_calls st')) \<subseteq> {Gles_init 1, Gles_init 2}"
    "take (length (eg_calls st)) (eg_calls st') = eg_calls st"
proof -
  obtain con b where con: "ti_hostConn (eg_threads st t) = Some con"
    "(if cx_version c = 2 then hc_gl2 con else hc_gl con) = Some b"
    "eb_state b = cx_clientState c" "eb_group b = cx_sharedGroup c"
    using assms(3) by (auto simp: encoder_bound_def)
  have same: "(if cx_version c = 2 then gl2Encoder else glEncoder) con = con"
    using con(2) by (auto simp: gl2Encoder_def glEncoder_def split: if_split_asm)
  let ?v2 = "cx_version c = 2"
  let ?st1 = "upd_conn t st (if ?v2 then gl2Encoder else glEncoder)"
  let ?st2 = "initClientFuncs E (upd_conn t (ecall ?st1 (Gles_init (if ?v2 then 2 else 1))) (set_encoder_init (cx_version c)))
                (if ?v2 then 1 else 0)"
  have r: "init_encoder E t st = Returned (if eb_init b then ?st1 else ?st2)"
    using con same assms by (auto simp: init_encoder_def deref_def Let_def split: if_split_asm)
  have h: "ti_hostConn (eg_threads ?st1 t) = Some con" using con(1) same by simp
  show ?thesis
  proof (cases "eb_init b")
    case True
    show ?thesis
      by (rule that [of ?st1]) (use True r h con in \<open>simp_all add: encoder_bound_def upd_conn_def put_thread_def split: if_split_asm\<close>)
  next
    case False
    show ?thesis
      by (rule that [of ?st2])
        (use False r h con in \<open>auto simp: encoder_bound_def initClientFuncs_def upd_conn_def put_thread_def set_encoder_init_def ecall_def split: if_split_asm\<close>)
  qed
qed

text \<open>The calls that have been added to the trace of a state.\<close>

definition calls_since :: "egl_state \<Rightarrow> egl_state \<Rightarrow> egl_call list" where
  "calls_since st st' = drop (length (eg_calls st)) (eg_calls st')"

lemma init_encoder_frame:
  assumes "init_encoder E t st = Returned st'"
  shows "v \<noteq> t \<Longrightarrow> eg_threads st' v = eg_threads st v" and "eg_windows st' = eg_windows st"
    and "eg_buffers st' = eg_buffers st" and "eg_cbs st' = eg_cbs st"
  using assms
  by (auto simp: init_encoder_def initClientFuncs_def obind_Returned_iff Let_def upd_conn_def put_thread_def ecall_def
      split: if_split_asm option.split_asm)

lemma switched_from_frame [simp]:
  "v \<noteq> t \<Longrightarrow> eg_threads (switched_from t st ctx) v = eg_threads st v"
  "eg_clients (switched_from t st ctx) = eg_clients st" "eg_surfaces (switched_from t st ctx) = eg_surfaces st"
  "eg_windows (switched_from t st ctx) = eg_windows st" "eg_buffers (switched_from t st ctx) = eg_buffers st"
  "eg_cbs (switched_from t st ctx) = eg_cbs st"
  "ti_eglError (eg_threads (switched_from t st ctx) v) = ti_eglError (eg_threads st v)"
  by (auto simp: switched_from_def Let_def put_thread_def put_ctx_def split: option.split)

text \<open>The parts of a state that a switch of the thread \<open>t\<close> leaves alone.\<close>

definition same_but_thread :: "nat \<Rightarrow> egl_state \<Rightarrow> egl_state \<Rightarrow> bool" where
  "same_but_thread t st st' \<longleftrightarrow> eg_display st' = eg_display st \<and> eg_surfaces st' = eg_surfaces st
     \<and> eg_clients st' = eg_clients st \<and> eg_windows st' = eg_windows st \<and> eg_buffers st' = eg_buffers st
     \<and> eg_cbs st' = eg_cbs st \<and> ti_eglError (eg_threads st' t) = ti_eglError (eg_threads st t)
     \<and> (\<forall>v. v \<noteq> t \<longrightarrow> eg_threads st' v = eg_threads st v)"


lemma demo_env_simps [simp]:
  "ee_display demo_env = 1" "ee_int demo_env (cs @ [rcMakeCurrent a b d]) = 1" "\<not> ee_circular demo_env"
  by (simp_all add: demo_env_def)

lemma demo_surfaced_facts:
  obtains con c s where "ds_initialized (eg_display demo_surfaced)" "ti_hostConn (eg_threads demo_surfaced 1) = Some con"
    "eg_contexts demo_surfaced 108 = Some c" "cx_flags c = 0" "cx_version c = 2" "cx_rcContext c \<noteq> 0"
    "eg_surfaces demo_surfaced 111 = Some s" "ds_gles2_iface (eg_display demo_surfaced)" "eg_contexts demo_surfaced 0 = None"
proof -
  have "ds_initialized (eg_display demo_surfaced)" "ti_hostConn (eg_threads demo_surfaced 1) \<noteq> None"
    "case eg_contexts demo_surfaced 108 of Some c \<Rightarrow> cx_flags c = 0 \<and> cx_version c = 2 \<and> cx_rcContext c \<noteq> 0 | None \<Rightarrow> False"
    "eg_surfaces demo_surfaced 111 \<noteq> None" "ds_gles2_iface (eg_display demo_surfaced)" "eg_contexts demo_surfaced 0 = None"
    by code_simp+
  then show ?thesis using that by (auto split: option.split_asm)
qed

lemma init_encoder_keeps:
  assumes "init_encoder E t st = Returned st'"
  shows "eg_contexts st' = eg_contexts st" and "current_of st' v = current_of st v"
  using assms by (auto simp: init_encoder_def initClientFuncs_def Let_def elim!: obind_E split: if_split_asm option.split_asm)


text \<open>C35. Binding the thread's own current context again, with other surfaces, clears the mark that
  it has just set: the context stays the thread's current one but is no longer marked, so that
  another thread's \<open>eglMakeCurrent\<close> on it is not refused with \<open>EGL_BAD_ACCESS\<close>, and two threads
  then share it.\<close>

theorem rebind_loses_mark:
  assumes "current_of st t = ctx" and "ctx \<noteq> 0" and "eg_contexts st ctx = Some c" and "cx_flags c AND TO_DELETE = 0"
    and "cx_draw c \<noteq> draw \<or> cx_read c \<noteq> read"
    and "eglMakeCurrent E t st dpy draw read ctx = Returned (st', True)"
  shows "current_of st' t = ctx \<and> (\<exists>c'. eg_contexts st' ctx = Some c' \<and> cx_draw c' = draw \<and> cx_read c' = read
    \<and> cx_flags c' AND IS_CURRENT = 0)"
  using assms(6)
proof (cases rule: eglMakeCurrent_cases)
  case (switched st1 st2 st3 con rc dh rh)
  let ?a = "ecall st1 (rcMakeCurrent rc dh rh)"
  let ?c = "c\<lparr>cx_draw := draw, cx_read := read, cx_flags := cx_flags c OR IS_CURRENT\<rparr>"
  have cur: "current_of ?a t = ctx" using switched(2) assms(1) by (simp add: egl_frame_def)
  have b: "eg_contexts st2 ctx = Some ?c" "current_of st2 t = ctx"
    using switched(3,9) assms(2,3) cur by (auto simp: bind_local_def elim!: obind_E)
  have s: "st3 = switched_from t st2 ctx"
    using switched(10) switch_current_returns [of st2 t E ctx] b assms(2,4) by simp
  have "eg_contexts st' = eg_contexts st3" "current_of st' t = current_of st3 t"
    using switched(11) init_encoder_keeps by blast+
  then show ?thesis using b by (simp add: s)
qed (use assms in auto)

text \<open>On the run: thread 1 binds its context again with a second surface to read from, and thread 2 then
  makes the same context current.\<close>

definition demo_two :: egl_state where
  "demo_two = returned_state (eglCreatePbufferSurface demo_env 1 demo_bound 1 0 (Some [EGL_WIDTH, 4, EGL_HEIGHT, 4, 0]))"

definition demo_rebound :: egl_state where
  "demo_rebound = returned_state (eglMakeCurrent demo_env 1 demo_two 1 111 117 108)"

lemma demo_shared: "(case eglMakeCurrent demo_env 2 demo_rebound 1 111 117 108 of
     Returned (st, ok) \<Rightarrow> ok \<and> current_of st 1 = 108 \<and> current_of st 2 = 108 | _ \<Rightarrow> False)"
  by code_simp

theorem rebind_loses_mark_witness:
  "current_of demo_rebound 1 = 108 \<and> (\<exists>c'. eg_contexts demo_rebound 108 = Some c' \<and> cx_draw c' = 111 \<and> cx_read c' = 117
    \<and> cx_flags c' AND IS_CURRENT = 0)"
proof -
  have "case eglMakeCurrent demo_env 1 demo_two 1 111 117 108 of Returned (st, x) \<Rightarrow> x = True | _ \<Rightarrow> False" by code_simp
  from returned_stateI [OF this] have m: "eglMakeCurrent demo_env 1 demo_two 1 111 117 108 = Returned (demo_rebound, True)"
    by (auto simp: demo_rebound_def)
  have "current_of demo_two 1 = 108" "case eg_contexts demo_two 108 of Some c \<Rightarrow> cx_flags c AND TO_DELETE = 0 \<and> cx_read c \<noteq> 117 | None \<Rightarrow> False"
    by code_simp+
  then show ?thesis using rebind_loses_mark [OF _ _ _ _ _ m] by (auto split: option.split_asm)
qed

text \<open>\<open>eglDestroyContext\<close> marks a context only when it is current to the calling thread. One that is
  current to another thread is deleted at once: that thread keeps a dangling context, and its next
  call that looks at it is undefined.\<close>

theorem destroy_current_elsewhere:
  assumes "eglDestroyContext E t st dpy ctx = Returned (st', ok)" and "dpy = ee_display E"
    and "ds_initialized (eg_display st)" and "ti_hostConn (eg_threads st t) = Some con"
    and "ctx \<noteq> 0" and "current_of st t \<noteq> ctx" and "current_of st u = ctx"
  shows "eg_contexts st' ctx = None \<and> current_of st' u = ctx \<and> eglGetCurrentDisplay u st' = Undefined"
  using assms(1) unfolding eglDestroyContext_def
proof (cases rule: destroy_cases)
  case (deleted st1)
  have "eg_contexts st' ctx = None" "eg_threads st' = eg_threads st1"
    using deleted(3) by (auto simp: EGLContext_delete_def elim!: obind_E)
  then show ?thesis using deleted(1) assms(5,7) by (simp add: egl_frame_def eglGetCurrentDisplay_def deref_def)
qed (use assms in auto)

theorem destroy_current_elsewhere_witness:
  "\<exists>st'. eg_contexts st' 108 = None \<and> current_of st' 1 = 108 \<and> eglGetCurrentDisplay 1 st' = Undefined"
proof -
  define st' where "st' = returned_state (eglDestroyContext demo_env 2 demo_bound 1 108)"
  have "case eglDestroyContext demo_env 2 demo_bound 1 108 of Returned (st, x) \<Rightarrow> x = True | _ \<Rightarrow> False" by code_simp
  from returned_stateI [OF this] have d: "eglDestroyContext demo_env 2 demo_bound 1 108 = Returned (st', True)"
    by (auto simp: st'_def)
  have "ds_initialized (eg_display demo_bound)" "ti_hostConn (eg_threads demo_bound 2) \<noteq> None" "current_of demo_bound 2 = 0"
    by code_simp+
  then show ?thesis using destroy_current_elsewhere [OF d, of _ 1] demo_current(1) by auto
qed

lemma terminate_contexts_end: "length cs \<le> i \<Longrightarrow> terminate_contexts E t st cs i = Returned (st, cs)"
  by (simp add: terminate_contexts.simps)

text \<open>\<open>eglTerminate\<close> erases a context from the display's list and steps over the one behind it: of two
  contexts that no thread uses the second is neither destroyed nor marked, and stays in the list.\<close>

theorem terminate_skips_context:
  assumes "eglTerminate E t st dpy = Returned (st', True)"
    and "ds_contexts (eg_display st) = [a, b]" and "a \<noteq> b" and "ds_surfaces (eg_display st) = []"
    and "eg_contexts st a = Some ca" and "cx_flags ca AND IS_CURRENT = 0" and "current_of st t \<noteq> a"
    and "eg_contexts st b = Some cb"
  shows "ds_contexts (eg_display st') = [b] \<and> (\<exists>c. eg_contexts st' b = Some c \<and> ctx_key c = ctx_key cb)"
proof -
  define st0 where "st0 = put_display st ((eg_display st)\<lparr>ds_surfaces := []\<rparr>)"
  obtain st1 ok where d: "destroyContext E t st0 (ee_display E) a = Returned (st1, ok)"
    and st': "st' = put_display st1 ((eg_display st1)\<lparr>ds_contexts := [b]\<rparr>)"
    using assms by (auto simp: eglTerminate_def validate_display_init_def validate_display_def setErrorFunc_def
        eglDisplay_terminate_def terminate_contexts.simps [of _ _ _ "[a, b]"] terminate_contexts_end
        st0_def [symmetric] elim!: obind_E split: if_split_asm outcome.split_asm prod.split_asm) (simp_all add: st0_def terminate_contexts_end)
  have "\<exists>c. eg_contexts st1 b = Some c \<and> ctx_key c = ctx_key cb"
    using d unfolding destroyContext_def
  proof (cases rule: destroy_cases)
    case unchanged
    then show ?thesis using frame_ctx(2) [OF unchanged(1)] assms(8) by (simp add: st0_def)
  next
    case (marked c)
    then show ?thesis using assms(7) by (simp add: st0_def)
  next
    case (deleted st2)
    then have "eg_contexts st1 b = eg_contexts st2 b" using assms(3) by (auto simp: EGLContext_delete_def elim!: obind_E)
    then show ?thesis using frame_ctx(2) [OF deleted(1)] assms(8) by (simp add: st0_def)
  qed
  then show ?thesis by (simp add: st')
qed

definition demo_pair :: egl_state where
  "demo_pair = returned_state (eglCreateContext demo_env 1 demo_created 1 0 0 None)"

theorem terminate_skips_context_witness:
  "\<exists>(st' :: egl_state) c. ds_contexts (eg_display st') = [112] \<and> eg_contexts st' 112 = Some c \<and> cx_flags c = 0"
proof -
  define st' where "st' = returned_state (eglTerminate demo_env 1 demo_pair 1)"
  have "case eglTerminate demo_env 1 demo_pair 1 of Returned (st, x) \<Rightarrow> x = True | _ \<Rightarrow> False" by code_simp
  from returned_stateI [OF this] have t: "eglTerminate demo_env 1 demo_pair 1 = Returned (st', True)" by (auto simp: st'_def)
  have d: "ds_contexts (eg_display demo_pair) = [108, 112]" "ds_surfaces (eg_display demo_pair) = []"
    "current_of demo_pair 1 \<noteq> 108" "(108 :: addr) \<noteq> 112"
    "case eg_contexts demo_pair 108 of Some c \<Rightarrow> cx_flags c = 0 | None \<Rightarrow> False"
    "case eg_contexts demo_pair 112 of Some c \<Rightarrow> cx_flags c = 0 | None \<Rightarrow> False"
    by code_simp+
  obtain c1 where c1: "eg_contexts demo_pair 108 = Some c1" "cx_flags c1 AND IS_CURRENT = 0"
    using d(5) by (auto split: option.split_asm)
  obtain c2 where c2: "eg_contexts demo_pair 112 = Some c2" "cx_flags c2 = 0"
    using d(6) by (auto split: option.split_asm)
  show ?thesis
    by (rule exI [of _ st']) (use terminate_skips_context [OF t d(1,4,2) c1 d(3) c2(1)] c2(2) in \<open>auto simp: ctx_key_def\<close>)
qed

section \<open>Configurations\<close>

lemma config_slot_hit:
  assumes "ds_configs d = Some cs" and "config * ds_numConfigAttribs d + idx = int k" and "k < length cs"
  shows "config_slot d config idx = Returned (cs, k)"
  using assms by (simp add: config_slot_def)

lemma config_slot_miss:
  assumes "ds_configs d = Some cs" and "int (length cs) \<le> config * ds_numConfigAttribs d + idx"
  shows "config_slot d config idx = Undefined"
  using assms by (simp add: config_slot_def)

text \<open>C21. After the first initialisation of the display, \<open>eglGetConfigAttrib\<close> answers for every
  configuration and every attribute of the host's table. The answer is the value that the host has sent
  in the configuration's row, in the last of the columns that carry the attribute's name. Only for
  \<open>EGL_NATIVE_VISUAL_ID\<close> the library answers with the Android pixel format that belongs to the
  configuration's sizes of red, green, blue and alpha, if it knows one, and else with the host's value.\<close>

theorem config_attribute_of_host:
  assumes "eglInitialize E t st dpy = Returned (st', Some v)" and "\<not> ds_initialized (eg_display st)"
    and "ds_attribs (eg_display st) = Map.empty"
    and "c < nat (host_num_configs E st')" and "i < nat (host_num_attribs E st')"
    and "\<forall>j < nat (host_num_attribs E st'). i < j \<longrightarrow> host_attrib_name E st' j \<noteq> host_attrib_name E st' i"
  shows "eglGetConfigAttrib E t st' dpy (int c) (host_attrib_name E st' i)
    = Returned (st', Some (if host_attrib_name E st' i = EGL_NATIVE_VISUAL_ID
        then (case getConfigNativePixelFormat (eg_display st') (int c) of
                Returned (Some format) \<Rightarrow> format | _ \<Rightarrow> host_config_value E st' c i)
        else host_config_value E st' c i))"
proof -
  let ?d = "eg_display st'" and ?m = "host_num_attribs E st'" and ?n = "host_num_configs E st'"
  let ?v = "if host_attrib_name E st' i = EGL_NATIVE_VISUAL_ID then visual_of ?d c (host_config_value E st' c i)
    else host_config_value E st' c i"
  have init: "eglDisplay_initialize E t st = Returned (st', True)" and dpy: "dpy = ee_display E"
    using assms(1) by (auto simp: eglInitialize_def validate_display_def setErrorFunc_def elim!: obind_E split: if_split_asm)
  note T = initialized_table [OF init assms(2,3)]
  have val: "valueFor ?d (host_attrib_name E st' i) = int i" by (rule T(6) [OF assms(5,6)])
  obtain cs where cs: "ds_configs ?d = Some cs" "length cs = nat (?m * ?n)"
    "valueFor ?d EGL_NATIVE_VISUAL_ID \<noteq> int i \<Longrightarrow> cs ! (c * nat ?m + i) = host_config_value E st' c i"
    using T(7) assms(4,5) by blast
  have slot: "cs ! (c * nat ?m + i) = ?v"
  proof (cases "host_attrib_name E st' i = EGL_NATIVE_VISUAL_ID")
    case True
    then show ?thesis using initialized_visual [OF init assms(2-5) _ cs(1)] val by simp
  next
    case False
    have "valueFor ?d EGL_NATIVE_VISUAL_ID \<noteq> int i"
    proof
      assume "valueFor ?d EGL_NATIVE_VISUAL_ID = int i"
      then have "ds_attribs ?d EGL_NATIVE_VISUAL_ID = Some (int i)"
        by (auto simp: valueFor_def split: option.split_asm)
      then show False using False initialized_keys [OF init assms(2,3)] by fastforce
    qed
    then show ?thesis using cs(3) False by simp
  qed
  have mn: "nat (?m * ?n) = nat ?m * nat ?n" using T(2) by (simp add: nat_mult_distrib)
  have k: "c * nat ?m + i < nat ?m * nat ?n" by (rule table_index(1) [OF assms(4,5,5)])
  have pos: "int c * ?m + int i = int (c * nat ?m + i)" using T(2) by simp
  have "config_slot ?d (int c) (int i) = Returned (cs, c * nat ?m + i)"
    by (rule config_slot_hit [OF cs(1)]) (use pos k mn cs(2) T(5) in simp_all)
  then have g: "getConfigAttrib ?d (int c) (host_attrib_name E st' i) = Returned (Some ?v)"
    using slot by (simp add: getConfigAttrib_def val getAttribValue_def)
  have "int c \<le> ?n" using assms(4) by simp
  then show ?thesis
    using g by (simp add: eglGetConfigAttrib_def validate_display_init_def validate_display_def validate_config_def
        dpy T(3,4) visual_of_def)
qed

text \<open>\<open>VALIDATE_CONFIG\<close> lets the number of configurations pass as a configuration: a query of an
  attribute of it reads behind the table.\<close>

theorem config_behind_table:
  assumes "eglInitialize E t st dpy = Returned (st', Some v)" and "\<not> ds_initialized (eg_display st)"
    and "ds_attribs (eg_display st) = Map.empty" and "i < nat (host_num_attribs E st')"
    and "\<forall>j < nat (host_num_attribs E st'). i < j \<longrightarrow> host_attrib_name E st' j \<noteq> host_attrib_name E st' i"
  shows "eglGetConfigAttrib E t st' dpy (ds_numConfigs (eg_display st')) (host_attrib_name E st' i) = Undefined"
proof -
  let ?d = "eg_display st'" and ?m = "host_num_attribs E st'" and ?n = "host_num_configs E st'"
  have init: "eglDisplay_initialize E t st = Returned (st', True)" and dpy: "dpy = ee_display E"
    using assms(1) by (auto simp: eglInitialize_def validate_display_def setErrorFunc_def elim!: obind_E split: if_split_asm)
  note T = initialized_table [OF init assms(2,3)]
  have val: "valueFor ?d (host_attrib_name E st' i) = int i" by (rule T(6) [OF assms(4,5)])
  obtain cs where cs: "ds_configs ?d = Some cs" "length cs = nat (?m * ?n)" using T(7) by blast
  have "int (length cs) = ?n * ?m" using cs(2) T(1,2) by (simp add: mult.commute)
  then have "config_slot ?d ?n (int i) = Undefined" by (intro config_slot_miss [OF cs(1)]) (simp add: T(5))
  then show ?thesis using T(1)
    by (simp add: eglGetConfigAttrib_def validate_display_init_def validate_display_def validate_config_def dpy T(3,4)
        getConfigAttrib_def val getAttribValue_def)
qed

lemma demo_host_table:
  "host_num_configs demo_env demo_ready = 1" "host_num_attribs demo_env demo_ready = 6"
  "\<forall>j \<in> set [2..<6]. host_attrib_name demo_env demo_ready j \<noteq> host_attrib_name demo_env demo_ready 1"
  "host_attrib_name demo_env demo_ready 1 = EGL_RED_SIZE" "host_config_value demo_env demo_ready 0 1 = 8"
  "ds_numConfigs (eg_display demo_ready) = 1"
  by code_simp+

lemma demo_last_name:
  "\<forall>j < nat (host_num_attribs demo_env demo_ready). 1 < j
     \<longrightarrow> host_attrib_name demo_env demo_ready j \<noteq> host_attrib_name demo_env demo_ready 1"
proof (intro allI impI)
  fix j assume "j < nat (host_num_attribs demo_env demo_ready)" and "1 < j"
  then have "2 \<le> j" "j < 6" by (simp_all add: demo_host_table)
  then have "j \<in> set [2..<6]" by (simp only: set_upt atLeastLessThan_iff)
  then show "host_attrib_name demo_env demo_ready j \<noteq> host_attrib_name demo_env demo_ready 1"
    by (rule bspec [OF demo_host_table(3)])
qed

lemma demo_start_display: "\<not> ds_initialized (eg_display demo_start)" "ds_attribs (eg_display demo_start) = Map.empty"
  by (simp_all add: demo_start_def eglDisplay_new_def)

theorem config_attribute_of_host_witness:
  "eglGetConfigAttrib demo_env 1 demo_ready 1 0 EGL_RED_SIZE = Returned (demo_ready, Some 8)"
  using config_attribute_of_host [OF demo_ready demo_start_display _ _ demo_last_name, of 0] demo_host_table(1,2,4,5)
  by simp

theorem config_behind_table_witness: "eglGetConfigAttrib demo_env 1 demo_ready 1 1 EGL_RED_SIZE = Undefined"
  using config_behind_table [OF demo_ready demo_start_display _ demo_last_name] demo_host_table(2,4,6) by simp

section \<open>Strings and attribute lists\<close>

text \<open>C22. The extension string: the filtering in place of the host's text, a list of names that are
  each followed by a space, leaves the library's own names and those names of the host that the
  library knows how to support, in the host's order (with a \<open>memcpy\<close> that copies from the front, as
  the code needs).\<close>

theorem buildExtensionString_lists:
  assumes "queryHostEGLString E t st EGL_EXTENSIONS = Returned (st1, Some (host_list ts))"
    and "\<forall>t \<in> set ts. word_like t"
  shows "buildExtensionString E t st = Returned (st1, host_list (static_names @ filter (\<lambda>t. t \<in> set dynamic_names) ts))"
  using assms(1) extension_string_filters [OF assms(2)] by (simp add: buildExtensionString_def)

definition demo_text_env :: egl_env where
  "demo_text_env = demo_env\<lparr>
     ee_int := (\<lambda>calls. case last calls of rcQueryEGLString _ n \<Rightarrow> (if n = 0 then - 30 else n) | _ \<Rightarrow> 0),
     ee_str := (\<lambda>calls. ''EGL_x EGL_KHR_image_base'')\<rparr>"

theorem buildExtensionString_lists_witness:
  "\<exists>st1. buildExtensionString demo_text_env 1 demo_start
     = Returned (st1, ''EGL_ANDROID_image_native_buffer EGL_KHR_fence_sync EGL_KHR_image_base '')"
proof -
  define st1 where "st1 = returned_state (queryHostEGLString demo_text_env 1 demo_start EGL_EXTENSIONS)"
  have "case queryHostEGLString demo_text_env 1 demo_start EGL_EXTENSIONS of
      Returned (st, x) \<Rightarrow> x = Some (host_list [''EGL_x'', ''EGL_KHR_image_base'']) | _ \<Rightarrow> False" by code_simp
  from returned_stateI [OF this] have q: "queryHostEGLString demo_text_env 1 demo_start EGL_EXTENSIONS
      = Returned (st1, Some (host_list [''EGL_x'', ''EGL_KHR_image_base'']))" by (auto simp: st1_def)
  show ?thesis
    by (rule exI [of _ st1], subst buildExtensionString_lists [OF q]) (simp_all add: static_names_def dynamic_names_def)
qed

definition attrib_list_of :: "(int \<times> int) list \<Rightarrow> int list" where
  "attrib_list_of ps = concat (map (\<lambda>(a, v). [a, v]) ps) @ [EGL_NONE]"

lemma attribs_size_of: "\<forall>p \<in> set ps. fst p \<noteq> EGL_NONE \<Longrightarrow> attribs_size (attrib_list_of ps) = Returned (2 * length ps + 1)"
  by (induction ps) (auto simp: attrib_list_of_def)

lemma context_version_of: "\<forall>p \<in> set ps. fst p \<noteq> 0 \<Longrightarrow> context_version (attrib_list_of ps) v = Undefined"
  by (induction ps arbitrary: v) (auto simp: attrib_list_of_def)

text \<open>Attribute lists end in \<open>EGL_NONE\<close>, and \<open>eglChooseConfig\<close> measures them so. \<open>eglCreateContext\<close>
  stops at a zero only: it reads behind the end of every proper list.\<close>

theorem attribute_list_overrun:
  assumes "\<forall>p \<in> set ps. fst p \<noteq> EGL_NONE \<and> fst p \<noteq> 0" and "dpy = ee_display E" and "ds_initialized (eg_display st)"
    and "0 \<le> config" and "config \<le> ds_numConfigs (eg_display st)"
  shows "attribs_size (attrib_list_of ps) = Returned (length (attrib_list_of ps))
    \<and> eglCreateContext E t st dpy config share (Some (attrib_list_of ps)) = Undefined"
proof -
  have "length (attrib_list_of ps) = 2 * length ps + 1" by (induction ps) (auto simp: attrib_list_of_def)
  then show ?thesis
    using assms attribs_size_of [of ps] context_version_of [of ps]
    by (simp add: eglCreateContext_def validate_display_init_def validate_display_def validate_config_def)
qed

theorem attribute_list_overrun_witness:
  "eglCreateContext demo_env 1 demo_ready 1 0 0 (Some [EGL_CONTEXT_CLIENT_VERSION, 2, EGL_NONE]) = Undefined"
proof -
  have "ds_initialized (eg_display demo_ready)" by code_simp
  then show ?thesis
    using attribute_list_overrun [of "[(EGL_CONTEXT_CLIENT_VERSION, 2)]" 1 demo_env demo_ready 0 1 0] demo_host_table(6)
    by (simp add: attrib_list_of_def)
qed

section \<open>Swapping\<close>

text \<open>\<open>eglSwapBuffers\<close> drops the result of the surface: when the window has no next buffer the surface
  is left without one and the thread's error is \<open>EGL_BAD_ALLOC\<close>, but the call returns true.\<close>

theorem swap_failure_hidden:
  assumes "eglSwapBuffers E t st dpy surface = Returned (st', ok)" and "dpy = ee_display E"
    and "ds_initialized (eg_display st)" and "ti_hostConn (eg_threads st t) = Some con" and "surface \<noteq> 0"
    and "eg_surfaces st surface = Some s" and "su_dpy s = dpy" and "su_kind s = Window_surface win buffer"
    and "ee_int E (eg_calls st @ [rcFlushWindowColorBuffer (su_rcSurface s), Win_queue win buffer, Win_dequeue win]) \<noteq> 0"
  shows "ok \<and> ti_eglError (eg_threads st' t) = EGL_BAD_ALLOC
    \<and> eg_surfaces st' surface = Some (s\<lparr>su_kind := Window_surface win 0\<rparr>)"
  using assms
  by (auto simp: eglSwapBuffers_def validate_display_init_def validate_display_def with_rc_def egl_host_def deref_def
      surface_swapBuffers_def egl_flush_def put_surface_def put_thread_def ecall_def Let_def setErrorFunc_def set_error_def
      elim!: obind_E split: option.split_asm)

definition demo_window :: egl_state where
  "demo_window = put_surface demo_surfaced 200 (egl_surface_new 1 0 4 (Window_surface 3 4))"

definition demo_fail_env :: egl_env where
  "demo_fail_env = demo_env\<lparr>ee_int := (\<lambda>calls. case last calls of Win_dequeue _ \<Rightarrow> 1 | _ \<Rightarrow> 0)\<rparr>"

theorem swap_failure_hidden_witness:
  "\<exists>st'. eglSwapBuffers demo_fail_env 1 demo_window 1 200 = Returned (st', True)
     \<and> ti_eglError (eg_threads st' 1) = EGL_BAD_ALLOC"
proof -
  define st' where "st' = returned_state (eglSwapBuffers demo_fail_env 1 demo_window 1 200)"
  have "case eglSwapBuffers demo_fail_env 1 demo_window 1 200 of Returned (st, x) \<Rightarrow> x = True | _ \<Rightarrow> False" by code_simp
  from returned_stateI [OF this] have r: "eglSwapBuffers demo_fail_env 1 demo_window 1 200 = Returned (st', True)"
    by (auto simp: st'_def)
  obtain con where c: "ti_hostConn (eg_threads demo_window 1) = Some con" "ds_initialized (eg_display demo_window)"
    using demo_surfaced_facts by (simp add: demo_window_def put_surface_def) metis
  have s: "eg_surfaces demo_window 200 = Some (egl_surface_new 1 0 4 (Window_surface 3 4))"
    "ee_display demo_fail_env = 1" "ee_int demo_fail_env (cs @ [a, b, Win_dequeue 3]) \<noteq> 0" for cs a b
    by (simp_all add: demo_window_def put_surface_def demo_fail_env_def)
  show ?thesis
    using swap_failure_hidden [OF r _ c(2,1) _ s(1)] r s(2,3) by (simp add: egl_surface_new_def)
qed

end
