(* ===== verification/CameraConverters.thy ===== *)
theory CameraConverters
  imports Prelude
begin

text \<open>
  \<open>vbox86/camera/camera_vbox86/Converters.cpp\<close> and \<open>Converters.h\<close>: colours between RGB and YUV
  in fixed-point arithmetic, and the conversion of whole frames with subsampled chroma. The
  target is little endian. A frame is read through three running pointers into one buffer; they
  are positions in the list of its bytes, and a read outside of it is \<open>None\<close>. The pixels are
  written one after the other, so the result is the list of what has been written.
\<close>

section \<open>Colours\<close>

definition clamp :: "int \<Rightarrow> int" where
  "clamp x = (if x > 255 then 255 else if x < 0 then 0 else x)"

text \<open>The shifts of a signed number are arithmetic: \<open>x >> 8\<close> is \<open>x div 256\<close>.\<close>

definition RGB2Y :: "int \<Rightarrow> int \<Rightarrow> int \<Rightarrow> byte" where
  "RGB2Y r g b = word_of_int ((66 * r + 129 * g + 25 * b + 128) div 256 + 16)"

definition RGB2U :: "int \<Rightarrow> int \<Rightarrow> int \<Rightarrow> byte" where
  "RGB2U r g b = word_of_int ((- 38 * r - 74 * g + 112 * b + 128) div 256 + 128)"

definition RGB2V :: "int \<Rightarrow> int \<Rightarrow> int \<Rightarrow> byte" where
  "RGB2V r g b = word_of_int ((112 * r - 94 * g - 18 * b + 128) div 256 + 128)"

definition R8G8B8ToYUV :: "byte \<Rightarrow> byte \<Rightarrow> byte \<Rightarrow> byte \<times> byte \<times> byte" where
  "R8G8B8ToYUV r g b = (RGB2Y (uint r) (uint g) (uint b), RGB2U (uint r) (uint g) (uint b),
     RGB2V (uint r) (uint g) (uint b))"

definition YUV2RO :: "int \<Rightarrow> int \<Rightarrow> int \<Rightarrow> int" where
  "YUV2RO C D E = clamp ((298 * C + 409 * E + 128) div 256)"

definition YUV2GO :: "int \<Rightarrow> int \<Rightarrow> int \<Rightarrow> int" where
  "YUV2GO C D E = clamp ((298 * C - 100 * D - 208 * E + 128) div 256)"

definition YUV2BO :: "int \<Rightarrow> int \<Rightarrow> int \<Rightarrow> int" where
  "YUV2BO C D E = clamp ((298 * C + 516 * D + 128) div 256)"

definition YUV2R :: "int \<Rightarrow> int \<Rightarrow> int \<Rightarrow> int" where
  "YUV2R y u v = clamp ((298 * (y - 16) + 409 * (v - 128) + 128) div 256)"

definition YUV2G :: "int \<Rightarrow> int \<Rightarrow> int \<Rightarrow> int" where
  "YUV2G y u v = clamp ((298 * (y - 16) - 100 * (u - 128) - 208 * (v - 128) + 128) div 256)"

definition YUV2B :: "int \<Rightarrow> int \<Rightarrow> int \<Rightarrow> int" where
  "YUV2B y u v = clamp ((298 * (y - 16) + 516 * (u - 128) + 128) div 256)"

section \<open>Packed pixels\<close>

definition kRed5 :: u32 where "kRed5 = 0x001f"
definition kGreen6 :: u32 where "kGreen6 = 0x07e0"
definition kBlue5 :: u32 where "kBlue5 = 0xf800"

text \<open>The three 8-bit colours of a 16-bit pixel: the top bits are repeated at the bottom.\<close>

definition R16_32 :: "16 word \<Rightarrow> byte" where
  "R16_32 rgb = (let c = ucast rgb AND kRed5 in ucast (push_bit 3 c OR drop_bit 2 c))"

definition G16_32 :: "16 word \<Rightarrow> byte" where
  "G16_32 rgb = (let c = ucast rgb AND kGreen6 in ucast (drop_bit 3 c OR drop_bit 9 c))"

definition B16_32 :: "16 word \<Rightarrow> byte" where
  "B16_32 rgb = (let c = ucast rgb AND kBlue5 in ucast (drop_bit 8 c OR drop_bit 14 c))"

definition RGB565 :: "16 word \<Rightarrow> 16 word \<Rightarrow> 16 word \<Rightarrow> 16 word" where
  "RGB565 r g b = ucast (push_bit 5 (push_bit 6 (ucast b) OR ucast g) OR ucast r :: u32)"

text \<open>The union \<open>RGB32_t\<close>: a pixel from its four bytes, red first.\<close>

definition rgb32_pixel :: "byte \<Rightarrow> byte \<Rightarrow> byte \<Rightarrow> byte \<Rightarrow> u32" where
  "rgb32_pixel r g b a = rd32 [r, g, b, a]"

definition RGB565ToYUV :: "16 word \<Rightarrow> byte \<times> byte \<times> byte" where
  "RGB565ToYUV rgb = R8G8B8ToYUV (R16_32 rgb) (G16_32 rgb) (B16_32 rgb)"

definition RGB32ToYUV :: "u32 \<Rightarrow> byte \<times> byte \<times> byte" where
  "RGB32ToYUV rgb = R8G8B8ToYUV (ucast rgb) (ucast (drop_bit 8 rgb)) (ucast (drop_bit 16 rgb))"

definition YUVToRGB565 :: "int \<Rightarrow> int \<Rightarrow> int \<Rightarrow> 16 word" where
  "YUVToRGB565 y u v =
     (let y = y - 16; u = u - 128; v = v - 128;
          r = drop_bit 3 (word_of_int (YUV2RO y u v)) AND 0x1f;
          g = drop_bit 2 (word_of_int (YUV2GO y u v)) AND 0x3f;
          b = drop_bit 3 (word_of_int (YUV2BO y u v)) AND 0x1f
      in RGB565 r g b)"

text \<open>The fourth byte of \<open>rgb\<close> is not initialised: \<open>a\<close> is what it holds.\<close>

definition YUVToRGB32 :: "byte \<Rightarrow> int \<Rightarrow> int \<Rightarrow> int \<Rightarrow> u32" where
  "YUVToRGB32 a y u v =
     (let y = y - 16; u = u - 128; v = v - 128
      in rgb32_pixel (word_of_int (YUV2RO y u v)) (word_of_int (YUV2GO y u v))
           (word_of_int (YUV2BO y u v)) a)"

section \<open>Frames\<close>

definition rd_byte :: "byte list \<Rightarrow> int \<Rightarrow> int ub" where
  "rd_byte src i = (if 0 \<le> i \<and> i < int (length src) then Some (uint (src ! nat i)) else None)"

text \<open>
  The loops of \<open>_YUV420SToRGB565\<close> and \<open>_YUV420SToRGB32\<close>, which differ in the type of a pixel
  only: \<open>px k\<close> makes pixel number \<open>k\<close>. The inner loop has \<open>k\<close> rounds to go and writes two pixels
  in each; the outer one has \<open>h\<close> rows to go, and every other row starts again at the chroma
  samples of the row before. A width of \<open>2^31 - 1\<close>, whose counter overflows, is left out.
\<close>

fun yuv_row :: "(nat \<Rightarrow> int \<Rightarrow> int \<Rightarrow> int \<Rightarrow> 'p) \<Rightarrow> byte list \<Rightarrow> int \<Rightarrow> nat \<Rightarrow> int \<times> int \<times> int \<Rightarrow> 'p list
    \<Rightarrow> ((int \<times> int \<times> int) \<times> 'p list) ub"
where
  "yuv_row px src dUV 0 (Y, U, V) rgb = Some ((Y, U, V), rgb)"
| "yuv_row px src dUV (Suc k) (Y, U, V) rgb =
     (case rd_byte src U of None \<Rightarrow> None | Some nU \<Rightarrow>
      case rd_byte src V of None \<Rightarrow> None | Some nV \<Rightarrow>
      case rd_byte src Y of None \<Rightarrow> None | Some y0 \<Rightarrow>
      case rd_byte src (Y + 1) of None \<Rightarrow> None | Some y1 \<Rightarrow>
        let n = length rgb in
        yuv_row px src dUV k (Y + 2, U + dUV, V + dUV) (rgb @ [px n y0 nU nV, px (Suc n) y1 nU nV]))"

fun yuv_rows :: "(nat \<Rightarrow> int \<Rightarrow> int \<Rightarrow> int \<Rightarrow> 'p) \<Rightarrow> byte list \<Rightarrow> int \<Rightarrow> nat \<Rightarrow> nat \<Rightarrow> nat
    \<Rightarrow> int \<times> int \<times> int \<Rightarrow> int \<times> int \<Rightarrow> 'p list \<Rightarrow> 'p list ub"
where
  "yuv_rows px src dUV k 0 y (Y, U, V) (U_pos, V_pos) rgb = Some rgb"
| "yuv_rows px src dUV k (Suc h) y (Y, U, V) (U_pos, V_pos) rgb =
     (case yuv_row px src dUV k (Y, U, V) rgb of None \<Rightarrow> None
      | Some ((Y', U', V'), rgb') \<Rightarrow>
          if odd y then yuv_rows px src dUV k h (Suc y) (Y', U', V') (U', V') rgb'
          else yuv_rows px src dUV k h (Suc y) (Y', U_pos, V_pos) (U_pos, V_pos) rgb')"

definition yuv_frame :: "(nat \<Rightarrow> int \<Rightarrow> int \<Rightarrow> int \<Rightarrow> 'p) \<Rightarrow> byte list \<Rightarrow> int \<Rightarrow> int \<Rightarrow> int \<Rightarrow> int \<Rightarrow> int \<Rightarrow> int
    \<Rightarrow> 'p list ub"
where
  "yuv_frame px src Y U V dUV width height =
     yuv_rows px src dUV (nat ((width + 1) div 2)) (nat height) 0 (Y, U, V) (U, V) []"

definition YUV420SToRGB565 where
  "YUV420SToRGB565 src Y U V dUV width height =
     yuv_frame (\<lambda>n. YUVToRGB565) src Y U V dUV width height"

text \<open>\<open>a\<close> gives the uninitialised byte of each pixel.\<close>

definition YUV420SToRGB32 where
  "YUV420SToRGB32 a src Y U V dUV width height =
     yuv_frame (\<lambda>n. YUVToRGB32 (a n)) src Y U V dUV width height"

section \<open>The formats\<close>

definition YV12ToRGB565 :: "byte list \<Rightarrow> int \<Rightarrow> int \<Rightarrow> 16 word list ub" where
  "YV12ToRGB565 yv12 width height =
     (let pix_total = i32 (width * height); Y = 0; U = Y + pix_total; V = U + c_div pix_total 4
      in YUV420SToRGB565 yv12 Y U V 1 width height)"

definition YV12ToRGB32 :: "(nat \<Rightarrow> byte) \<Rightarrow> byte list \<Rightarrow> int \<Rightarrow> int \<Rightarrow> u32 list ub" where
  "YV12ToRGB32 a yv12 width height =
     (let pix_total = i32 (width * height); Y = 0; V = Y + pix_total; U = V + c_div pix_total 4
      in YUV420SToRGB32 a yv12 Y U V 1 width height)"

definition YU12ToRGB32 :: "(nat \<Rightarrow> byte) \<Rightarrow> byte list \<Rightarrow> int \<Rightarrow> int \<Rightarrow> u32 list ub" where
  "YU12ToRGB32 a yu12 width height =
     (let pix_total = i32 (width * height); Y = 0; U = Y + pix_total; V = U + c_div pix_total 4
      in YUV420SToRGB32 a yu12 Y U V 1 width height)"

definition NVXXToRGB565 :: "byte list \<Rightarrow> int \<Rightarrow> int \<Rightarrow> int \<Rightarrow> int \<Rightarrow> int \<Rightarrow> 16 word list ub" where
  "NVXXToRGB565 src Y U V width height = YUV420SToRGB565 src Y U V 2 width height"

definition NVXXToRGB32 :: "(nat \<Rightarrow> byte) \<Rightarrow> byte list \<Rightarrow> int \<Rightarrow> int \<Rightarrow> int \<Rightarrow> int \<Rightarrow> int \<Rightarrow> u32 list ub" where
  "NVXXToRGB32 a src Y U V width height = YUV420SToRGB32 a src Y U V 2 width height"

definition NV12ToRGB565 :: "byte list \<Rightarrow> int \<Rightarrow> int \<Rightarrow> 16 word list ub" where
  "NV12ToRGB565 nv12 width height =
     (let pix_total = i32 (width * height)
      in NVXXToRGB565 nv12 0 pix_total (pix_total + 1) width height)"

definition NV12ToRGB32 :: "(nat \<Rightarrow> byte) \<Rightarrow> byte list \<Rightarrow> int \<Rightarrow> int \<Rightarrow> u32 list ub" where
  "NV12ToRGB32 a nv12 width height =
     (let pix_total = i32 (width * height)
      in NVXXToRGB32 a nv12 0 pix_total (pix_total + 1) width height)"

definition NV21ToRGB565 :: "byte list \<Rightarrow> int \<Rightarrow> int \<Rightarrow> 16 word list ub" where
  "NV21ToRGB565 nv21 width height =
     (let pix_total = i32 (width * height)
      in NVXXToRGB565 nv21 0 (pix_total + 1) pix_total width height)"

definition NV21ToRGB32 :: "(nat \<Rightarrow> byte) \<Rightarrow> byte list \<Rightarrow> int \<Rightarrow> int \<Rightarrow> u32 list ub" where
  "NV21ToRGB32 a nv21 width height =
     (let pix_total = i32 (width * height)
      in NVXXToRGB32 a nv21 0 (pix_total + 1) pix_total width height)"

section \<open>What a frame becomes\<close>

text \<open>A run of the inner loop over samples that are there.\<close>

definition samples :: "byte list \<Rightarrow> int \<Rightarrow> int" where
  "samples src i = uint (src ! nat i)"

lemma rd_byte_in: "0 \<le> i \<Longrightarrow> i < int (length src) \<Longrightarrow> rd_byte src i = Some (samples src i)"
  by (simp add: rd_byte_def samples_def)

definition row_pixels :: "(nat \<Rightarrow> int \<Rightarrow> int \<Rightarrow> int \<Rightarrow> 'p) \<Rightarrow> byte list \<Rightarrow> int \<Rightarrow> nat \<Rightarrow> int \<times> int \<times> int \<Rightarrow> nat \<Rightarrow> 'p list"
where
  "row_pixels px src dUV k p n = (case p of (Y, U, V) \<Rightarrow>
     map (\<lambda>x. px (n + x) (samples src (Y + int x)) (samples src (U + dUV * int (x div 2)))
        (samples src (V + dUV * int (x div 2)))) [0..<2 * k])"

lemma upt_pairs: "[0..<2 * Suc k] = 0 # 1 # map (\<lambda>x. x + 2) [0..<2 * k]"
proof -
  have "[0..<2 * Suc k] = 0 # [Suc 0..<2 * Suc k]" by (rule upt_conv_Cons) simp
  also have "[Suc 0..<2 * Suc k] = Suc 0 # [Suc (Suc 0)..<2 * Suc k]" by (rule upt_conv_Cons) simp
  also have "[Suc (Suc 0)..<2 * Suc k] = map (\<lambda>x. x + 2) [0..<2 * k]"
    by (simp only: map_add_upt) (simp add: numeral_2_eq_2)
  finally show ?thesis by simp
qed

lemma row_pixels_Suc:
  "row_pixels px src dUV (Suc k) (Y, U, V) n =
     [px n (samples src Y) (samples src U) (samples src V),
      px (Suc n) (samples src (Y + 1)) (samples src U) (samples src V)]
     @ row_pixels px src dUV k (Y + 2, U + dUV, V + dUV) (n + 2)"
proof -
  have "px (n + (x + 2)) (samples src (Y + int (x + 2))) (samples src (U + dUV * int ((x + 2) div 2)))
          (samples src (V + dUV * int ((x + 2) div 2)))
      = px (n + 2 + x) (samples src (Y + 2 + int x)) (samples src (U + dUV + dUV * int (x div 2)))
          (samples src (V + dUV + dUV * int (x div 2)))" for x
    by (simp add: algebra_simps)
  then show ?thesis by (simp only: row_pixels_def upt_pairs prod.case list.map map_map comp_def) simp
qed

lemma yuv_row_pixels:
  assumes "0 \<le> dUV" and "0 \<le> Y" and "0 \<le> U" and "0 \<le> V"
    and "Y + 2 * int k \<le> int (length src)"
    and "\<And>j. j < k \<Longrightarrow> U + dUV * int j < int (length src) \<and> V + dUV * int j < int (length src)"
  shows "yuv_row px src dUV k (Y, U, V) rgb
    = Some ((Y + 2 * int k, U + dUV * int k, V + dUV * int k),
            rgb @ row_pixels px src dUV k (Y, U, V) (length rgb))"
  using assms
proof (induction k arbitrary: Y U V rgb)
  case 0
  then show ?case by (simp add: row_pixels_def)
next
  case (Suc k)
  have uv: "U < int (length src)" "V < int (length src)" using Suc.prems(6) [of 0] by simp_all
  have bound: "U + dUV + dUV * int j < int (length src) \<and> V + dUV + dUV * int j < int (length src)"
    if "j < k" for j
    using Suc.prems(6) [of "Suc j"] that by (simp add: algebra_simps)
  let ?n = "length rgb"
  let ?two = "[px ?n (samples src Y) (samples src U) (samples src V),
      px (Suc ?n) (samples src (Y + 1)) (samples src U) (samples src V)]"
  have "yuv_row px src dUV (Suc k) (Y, U, V) rgb
      = yuv_row px src dUV k (Y + 2, U + dUV, V + dUV) (rgb @ ?two)"
    using Suc.prems(1-5) uv by (simp add: rd_byte_in Let_def)
  also have "\<dots> = Some ((Y + 2 + 2 * int k, U + dUV + dUV * int k, V + dUV + dUV * int k),
      (rgb @ ?two) @ row_pixels px src dUV k (Y + 2, U + dUV, V + dUV) (length (rgb @ ?two)))"
    using Suc.prems(1-5) bound by (intro Suc.IH) auto
  finally show ?case by (simp add: row_pixels_Suc algebra_simps)
qed

text \<open>A frame of rows of \<open>2 * k\<close> pixels, two of which share their chroma samples.\<close>

definition frame_pixels :: "(nat \<Rightarrow> int \<Rightarrow> int \<Rightarrow> int \<Rightarrow> 'p) \<Rightarrow> byte list \<Rightarrow> int \<Rightarrow> nat \<Rightarrow> int \<times> int \<times> int \<Rightarrow> nat
    \<Rightarrow> nat \<Rightarrow> 'p list"
where
  "frame_pixels px src dUV k p n rows = (case p of (Y, U, V) \<Rightarrow>
     map (\<lambda>i. let c = int (k * (i div (2 * k) div 2) + i mod (2 * k) div 2) in
        px (n + i) (samples src (Y + int i)) (samples src (U + dUV * c)) (samples src (V + dUV * c)))
       [0..<2 * k * rows])"

lemma upt_split: "[0..<a + b] = [0..<a] @ map (\<lambda>x. x + a) [0..<b]"
  by (metis add_0 map_add_upt upt_add_eq_append zero_le add.commute)

lemma frame_pixels_pair:
  assumes "0 < k"
  shows "frame_pixels px src dUV k (Y, U, V) n (Suc (Suc r)) =
    row_pixels px src dUV k (Y, U, V) n @ row_pixels px src dUV k (Y + 2 * int k, U, V) (n + 2 * k)
    @ frame_pixels px src dUV k (Y + 4 * int k, U + dUV * int k, V + dUV * int k) (n + 4 * k) r"
proof -
  let ?f = "\<lambda>i. let c = int (k * (i div (2 * k) div 2) + i mod (2 * k) div 2) in
        px (n + i) (samples src (Y + int i)) (samples src (U + dUV * c)) (samples src (V + dUV * c))"
  have len: "2 * k * Suc (Suc r) = 2 * k + (2 * k + 2 * k * r)" by simp
  have first: "map ?f [0..<2 * k] = row_pixels px src dUV k (Y, U, V) n"
    by (simp add: row_pixels_def Let_def)
  have second: "map ?f (map (\<lambda>x. x + 2 * k) [0..<2 * k]) = row_pixels px src dUV k (Y + 2 * int k, U, V) (n + 2 * k)"
  proof -
    have "(x + k * 2) div (k * 2) div 2 = 0" if "x < k * 2" for x
      using that assms by (simp add: div_add_self2)
    then show ?thesis using assms by (simp add: row_pixels_def Let_def algebra_simps)
  qed
  have "(i + 4 * k) div (2 * k) div 2 = Suc (i div (2 * k) div 2)" and "(i + 4 * k) mod (2 * k) = i mod (2 * k)" for i
  proof -
    have "i + 4 * k = i + 2 * (2 * k)" by simp
    then show "(i + 4 * k) div (2 * k) div 2 = Suc (i div (2 * k) div 2)" and "(i + 4 * k) mod (2 * k) = i mod (2 * k)"
      using assms by (simp_all only: div_mult_self1 mod_mult_self1)
  qed
  then have third: "map ?f (map (\<lambda>x. x + 2 * k) (map (\<lambda>x. x + 2 * k) [0..<2 * k * r]))
      = frame_pixels px src dUV k (Y + 4 * int k, U + dUV * int k, V + dUV * int k) (n + 4 * k) r"
    by (simp add: frame_pixels_def algebra_simps Let_def comp_def)
  show ?thesis
    unfolding frame_pixels_def [of px src dUV k _ n] prod.case len upt_split map_append first second third ..
qed

lemma yuv_rows_pixels:
  assumes "0 < k" and "0 \<le> dUV" and "0 \<le> Y" and "0 \<le> U" and "0 \<le> V" and "even y"
    and "Y + 4 * int k * int m \<le> int (length src)"
    and "\<And>j. j < k * m \<Longrightarrow> U + dUV * int j < int (length src) \<and> V + dUV * int j < int (length src)"
  shows "yuv_rows px src dUV k (2 * m) y (Y, U, V) (U, V) rgb
    = Some (rgb @ frame_pixels px src dUV k (Y, U, V) (length rgb) (2 * m))"
  using assms(3-8)
proof (induction m arbitrary: y Y U V rgb)
  case 0
  then show ?case by (simp add: frame_pixels_def)
next
  case (Suc m)
  have km: "k \<le> k * Suc m" by simp
  have row: "yuv_row px src dUV k (Y', U, V) out
      = Some ((Y' + 2 * int k, U + dUV * int k, V + dUV * int k), out @ row_pixels px src dUV k (Y', U, V) (length out))"
    if "0 \<le> Y'" "Y' + 2 * int k \<le> int (length src)" for Y' out
    using that assms(2) Suc.prems(2,3,6) km by (intro yuv_row_pixels) (auto intro: less_le_trans)
  have y: "Y + 4 * int k \<le> int (length src)"
    using Suc.prems(5) by (simp add: algebra_simps) (smt (verit) mult_nonneg_nonneg of_nat_0_le_iff)
  let ?U = "U + dUV * int k" and ?V = "V + dUV * int k" and ?Y = "Y + 2 * int k + 2 * int k"
  let ?out = "rgb @ row_pixels px src dUV k (Y, U, V) (length rgb)"
  let ?out2 = "?out @ row_pixels px src dUV k (Y + 2 * int k, U, V) (length ?out)"
  have len: "length (row_pixels px src dUV k p n) = 2 * k" for p n
    by (simp add: row_pixels_def split: prod.split)
  have "yuv_rows px src dUV k (2 * Suc m) y (Y, U, V) (U, V) rgb
      = yuv_rows px src dUV k (2 * m) (y + 2) (?Y, ?U, ?V) (?U, ?V) ?out2"
    using Suc.prems(1,4) y by (simp add: row)
  also have "\<dots> = Some (?out2 @ frame_pixels px src dUV k (?Y, ?U, ?V) (length ?out2) (2 * m))"
  proof (rule Suc.IH)
    show "0 \<le> ?U" and "0 \<le> ?V" using Suc.prems(2,3) assms(2) by simp_all
    show "?U + dUV * int j < int (length src) \<and> ?V + dUV * int j < int (length src)" if "j < k * m" for j
      using Suc.prems(6) [of "k + j"] that by (simp add: algebra_simps)
    show "?Y + 4 * int k * int m \<le> int (length src)" using Suc.prems(5) by (simp add: algebra_simps)
  qed (use Suc.prems in auto)
  also have "?out2 @ frame_pixels px src dUV k (?Y, ?U, ?V) (length ?out2) (2 * m)
      = rgb @ frame_pixels px src dUV k (Y, U, V) (length rgb) (2 * Suc m)"
    using frame_pixels_pair [OF assms(1), of px src dUV Y U V "length rgb" "2 * m"] by (simp add: len add.assoc)
  finally show ?case .
qed

lemma frame_pixels_nth:
  assumes "x < 2 * k" and "y < rows"
  shows "frame_pixels px src dUV k (Y, U, V) n rows ! (2 * k * y + x) =
    px (n + (2 * k * y + x)) (samples src (Y + int (2 * k * y + x)))
      (samples src (U + dUV * int (k * (y div 2) + x div 2)))
      (samples src (V + dUV * int (k * (y div 2) + x div 2)))"
proof -
  have "2 * k * y + x < 2 * k * Suc y" using assms(1) by simp
  also have "\<dots> \<le> 2 * k * rows" using assms(2) by (intro mult_le_mono2) simp
  finally have "2 * k * y + x < 2 * k * rows" .
  moreover have "(2 * k * y + x) div (2 * k) = y" and "(2 * k * y + x) mod (2 * k) = x" using assms(1) by simp_all
  ultimately show ?thesis by (simp only: frame_pixels_def prod.case nth_map_upt Let_def) simp
qed

lemma length_frame_pixels [simp]: "length (frame_pixels px src dUV k p n rows) = 2 * k * rows"
  by (simp add: frame_pixels_def split: prod.split)

text \<open>Every converter of a frame of even size that is all there.\<close>

lemma yuv_frame_pixels:
  assumes "0 < k" and "4 * k * m + 2 * k * m \<le> length src" and "0 \<le> dUV" and "0 \<le> U" and "0 \<le> V"
    and "U + dUV * (int (k * m) - 1) < int (6 * k * m)" and "V + dUV * (int (k * m) - 1) < int (6 * k * m)"
  shows "yuv_frame px src 0 U V dUV (2 * int k) (2 * int m)
    = Some (frame_pixels px src dUV k (0, U, V) 0 (2 * m))"
proof -
  have n: "nat ((2 * int k + 1) div 2) = k" "nat (2 * int m) = 2 * m" by simp_all
  have "U + dUV * int j < int (length src) \<and> V + dUV * int j < int (length src)" if "j < k * m" for j
  proof -
    have "dUV * int j \<le> dUV * (int (k * m) - 1)" proof (rule mult_left_mono [OF _ assms(3)])
      have "int j < int (k * m)" using that by (simp only: of_nat_less_iff)
      then show "int j \<le> int (k * m) - 1" by simp
    qed
    moreover have "6 * k * m \<le> length src" using assms(2) by simp
    then have "int (6 * k * m) \<le> int (length src)" by (rule of_nat_mono)
    ultimately show ?thesis using assms(6,7) by linarith
  qed
  moreover have "0 + 4 * int k * int m \<le> int (length src)"
    using assms(2) by (metis (mono_tags) add_0 add_leD1 of_nat_mono of_nat_mult of_nat_numeral)
  ultimately show ?thesis
    unfolding yuv_frame_def n using yuv_rows_pixels [of k dUV 0 U V 0 m src px "[]"] assms by simp
qed

lemma yuv_frame_planes:
  assumes "0 < k" and "w = 2 * int k" and "h = 2 * int m" and "6 * k * m \<le> length src" and "N = int k * int m"
    and "0 \<le> dUV" and "0 \<le> U" and "0 \<le> V" and "U + dUV * (N - 1) < 6 * N" and "V + dUV * (N - 1) < 6 * N"
  shows "yuv_frame px src 0 U V dUV w h = Some (frame_pixels px src dUV k (0, U, V) 0 (2 * m))"
  unfolding assms(2,3) using assms(1,4-10) by (intro yuv_frame_pixels) simp_all

text \<open>\<open>N\<close> is the number of chroma samples of a plane: a quarter of the pixels.\<close>

lemma converted_frames:
  assumes "0 < k" and "w = 2 * int k" and "h = 2 * int m" and "w * h < 2147483648" and "6 * k * m \<le> length src"
    and N: "N = int k * int m"
  shows "YV12ToRGB32 a src w h = Some (frame_pixels (\<lambda>n. YUVToRGB32 (a n)) src 1 k (0, 5 * N, 4 * N) 0 (2 * m))"
    and "YU12ToRGB32 a src w h = Some (frame_pixels (\<lambda>n. YUVToRGB32 (a n)) src 1 k (0, 4 * N, 5 * N) 0 (2 * m))"
    and "NV12ToRGB32 a src w h = Some (frame_pixels (\<lambda>n. YUVToRGB32 (a n)) src 2 k (0, 4 * N, 4 * N + 1) 0 (2 * m))"
    and "NV21ToRGB32 a src w h = Some (frame_pixels (\<lambda>n. YUVToRGB32 (a n)) src 2 k (0, 4 * N + 1, 4 * N) 0 (2 * m))"
    and "YV12ToRGB565 src w h = Some (frame_pixels (\<lambda>n. YUVToRGB565) src 1 k (0, 4 * N, 5 * N) 0 (2 * m))"
    and "NV12ToRGB565 src w h = Some (frame_pixels (\<lambda>n. YUVToRGB565) src 2 k (0, 4 * N, 4 * N + 1) 0 (2 * m))"
    and "NV21ToRGB565 src w h = Some (frame_pixels (\<lambda>n. YUVToRGB565) src 2 k (0, 4 * N + 1, 4 * N) 0 (2 * m))"
proof -
  have N0: "0 \<le> N" unfolding N by simp
  have wh: "w * h = 4 * N" using assms(2,3) N by simp
  then have total: "i32 (w * h) = 4 * N" using assms(4) N0 unfolding wh by (intro i32_id int_rangeI) linarith+
  have quarter: "c_div (4 * N) 4 = N" using N0 by (simp add: c_div_nonneg)
  have five: "4 * N + N = 5 * N" by simp
  note frame = yuv_frame_planes [OF assms(1,2,3,5) N]
  note defs = YV12ToRGB32_def YU12ToRGB32_def NV12ToRGB32_def NV21ToRGB32_def YV12ToRGB565_def
    NV12ToRGB565_def NV21ToRGB565_def YUV420SToRGB32_def YUV420SToRGB565_def NVXXToRGB32_def NVXXToRGB565_def
    Let_def total quarter add_0
  show "YV12ToRGB32 a src w h = Some (frame_pixels (\<lambda>n. YUVToRGB32 (a n)) src 1 k (0, 5 * N, 4 * N) 0 (2 * m))"
    and "YU12ToRGB32 a src w h = Some (frame_pixels (\<lambda>n. YUVToRGB32 (a n)) src 1 k (0, 4 * N, 5 * N) 0 (2 * m))"
    and "NV12ToRGB32 a src w h = Some (frame_pixels (\<lambda>n. YUVToRGB32 (a n)) src 2 k (0, 4 * N, 4 * N + 1) 0 (2 * m))"
    and "NV21ToRGB32 a src w h = Some (frame_pixels (\<lambda>n. YUVToRGB32 (a n)) src 2 k (0, 4 * N + 1, 4 * N) 0 (2 * m))"
    and "YV12ToRGB565 src w h = Some (frame_pixels (\<lambda>n. YUVToRGB565) src 1 k (0, 4 * N, 5 * N) 0 (2 * m))"
    and "NV12ToRGB565 src w h = Some (frame_pixels (\<lambda>n. YUVToRGB565) src 2 k (0, 4 * N, 4 * N + 1) 0 (2 * m))"
    and "NV21ToRGB565 src w h = Some (frame_pixels (\<lambda>n. YUVToRGB565) src 2 k (0, 4 * N + 1, 4 * N) 0 (2 * m))"
    unfolding defs five by (rule frame; use N0 in simp)+
qed

end
