(* ===== verification/CameraClient.thy ===== *)
theory CameraClient
  imports Prelude
begin

text \<open>
  The client of the local camera service: \<open>vbox86/camera/camera_vbox86/GenyClient.cpp\<close> and the
  query object of \<open>QemuClient.cpp\<close>. A query is a line of text; the answer is eight hexadecimal
  digits, the size of the payload, and the payload, which starts with \<open>ok\<close> or \<open>ko\<close>.

  What the socket does is a script in the state: the answers of the next calls of \<open>send\<close> and the
  pieces in which the bytes of the service arrive. \<open>alloc n\<close> tells whether the C library gives a
  block of \<open>n\<close> bytes.
\<close>

section \<open>The C library\<close>

definition NO_ERROR :: int where "NO_ERROR = 0"
definition EIO :: int where "EIO = 5"
definition EAGAIN :: int where "EAGAIN = 11"
definition ENOMEM :: int where "ENOMEM = 12"
definition EINVAL :: int where "EINVAL = 22"
definition ERANGE :: int where "ERANGE = 34"

lemmas status_defs = NO_ERROR_def EIO_def EAGAIN_def ENOMEM_def EINVAL_def ERANGE_def

type_synonym allocation = "nat \<Rightarrow> bool"

definition bytes_of :: "string \<Rightarrow> byte list" where
  "bytes_of s = map of_char s"

text \<open>\<open>strtol\<close> in base 16 on a 32-bit \<open>long\<close>: the value, and whether it is out of range.\<close>

definition is_space :: "byte \<Rightarrow> bool" where
  "is_space c \<longleftrightarrow> c = 32 \<or> 9 \<le> c \<and> c \<le> 13"

definition hex_value :: "byte \<Rightarrow> nat option" where
  "hex_value c =
     (if 48 \<le> c \<and> c \<le> 57 then Some (unat c - 48)
      else if 65 \<le> c \<and> c \<le> 70 then Some (unat c - 55)
      else if 97 \<le> c \<and> c \<le> 102 then Some (unat c - 87) else None)"

fun hex_digits :: "nat \<Rightarrow> byte list \<Rightarrow> nat" where
  "hex_digits acc [] = acc"
| "hex_digits acc (c # cs) =
     (case hex_value c of None \<Rightarrow> acc | Some d \<Rightarrow> hex_digits (16 * acc + d) cs)"

fun skip_sign :: "byte list \<Rightarrow> bool \<times> byte list" where
  "skip_sign [] = (False, [])"
| "skip_sign (c # cs) = (if c = 45 then (True, cs) else if c = 43 then (False, cs) else (False, c # cs))"

fun skip_0x :: "byte list \<Rightarrow> byte list" where
  "skip_0x (a # b # cs) = (if a = 48 \<and> (b = 120 \<or> b = 88) then cs else a # b # cs)"
| "skip_0x cs = cs"

definition strtol16 :: "byte list \<Rightarrow> int \<times> bool" where
  "strtol16 s =
     (let (neg, t) = skip_sign (dropWhile is_space s);
          n = int (hex_digits 0 (skip_0x t)); v = (if neg then - n else n)
      in if v > 2147483647 then (2147483647, True)
         else if v < - 2147483648 then (- 2147483648, True) else (v, False))"

section \<open>The query (QemuQuery)\<close>

text \<open>\<open>mQuery\<close> points at the buffer in the object, at one on the heap, or nowhere.\<close>

datatype query_text = Prealloc | Heap string | Null

record QemuQuery =
  mQuery :: query_text
  mQueryPrealloc :: string
  mQueryDeliveryStatus :: int
  mReplyBuffer :: "byte list option"
  mReplyData :: "nat option"      \<comment> \<open>an offset in the reply buffer\<close>
  mReplySize :: nat
  mReplyDataSize :: nat
  mReplyStatus :: int

definition query_chars :: "QemuQuery \<Rightarrow> string" where
  "query_chars q = (case mQuery q of Prealloc \<Rightarrow> mQueryPrealloc q | Heap s \<Rightarrow> s | Null \<Rightarrow> [])"

definition new_QemuQuery :: QemuQuery where
  "new_QemuQuery = \<lparr>mQuery = Prealloc, mQueryPrealloc = [], mQueryDeliveryStatus = NO_ERROR,
     mReplyBuffer = None, mReplyData = None, mReplySize = 0, mReplyDataSize = 0, mReplyStatus = 0\<rparr>"

definition resetQuery :: "QemuQuery \<Rightarrow> QemuQuery" where
  "resetQuery q = q\<lparr>mQuery := Prealloc, mQueryDeliveryStatus := NO_ERROR, mReplyBuffer := None,
     mReplyData := None, mReplySize := 0, mReplyDataSize := 0, mReplyStatus := 0\<rparr>"

definition createQuery :: "allocation \<Rightarrow> QemuQuery \<Rightarrow> string option \<Rightarrow> string option \<Rightarrow> int \<times> QemuQuery" where
  "createQuery alloc q name param =
     (let q = resetQuery q in
      if name = None \<or> name = Some [] then (EINVAL, q\<lparr>mQueryDeliveryStatus := EINVAL\<rparr>)
      else
        let nm = the name;
            param_len = (case param of None \<Rightarrow> 0 | Some p \<Rightarrow> length p);
            required = length nm + (if param_len \<noteq> 0 then param_len + 2 else 1);
            text = (if param_len \<noteq> 0 then nm @ '' '' @ the param else nm)
        in if required > 256 then
             (if alloc required then (NO_ERROR, q\<lparr>mQuery := Heap text\<rparr>)
              else (ENOMEM, q\<lparr>mQuery := Null, mQueryDeliveryStatus := ENOMEM\<rparr>))
           else (NO_ERROR, q\<lparr>mQueryPrealloc := text\<rparr>))"

text \<open>The constructors with a text.\<close>

definition QemuQuery_of :: "allocation \<Rightarrow> string \<Rightarrow> QemuQuery" where
  "QemuQuery_of alloc query_string =
     (let (st, q) = createQuery alloc new_QemuQuery (Some query_string) None
      in q\<lparr>mQueryDeliveryStatus := st\<rparr>)"

definition completeQuery :: "QemuQuery \<Rightarrow> int \<Rightarrow> int \<times> QemuQuery" where
  "completeQuery q status =
     (let q = q\<lparr>mQueryDeliveryStatus := status\<rparr>; bad = (EINVAL, q\<lparr>mQueryDeliveryStatus := EINVAL\<rparr>) in
      if status \<noteq> NO_ERROR then (status, q)
      else case mReplyBuffer q of
        None \<Rightarrow> bad
      | Some buf \<Rightarrow>
          if mReplySize q < 3 then bad
          else if take 2 buf \<noteq> bytes_of ''ok'' \<and> take 2 buf \<noteq> bytes_of ''ko'' then bad
          else
            let q = q\<lparr>mReplyStatus := if take 2 buf = bytes_of ''ok'' then 1 else 0\<rparr>;
                bad = (EINVAL, q\<lparr>mQueryDeliveryStatus := EINVAL\<rparr>)
            in if mReplySize q > 3 then
                 (if buf ! 2 \<noteq> of_char (CHR '':'') then bad
                  else (NO_ERROR, q\<lparr>mReplyData := Some 3, mReplyDataSize := mReplySize q - 3\<rparr>))
               else if buf ! 2 \<noteq> 0 then bad else (NO_ERROR, q))"

definition isQuerySucceeded :: "QemuQuery \<Rightarrow> bool" where
  "isQuerySucceeded q \<longleftrightarrow> mQueryDeliveryStatus q = NO_ERROR \<and> mReplyStatus q \<noteq> 0"

definition getCompletionStatus :: "QemuQuery \<Rightarrow> int" where
  "getCompletionStatus q =
     (if mQueryDeliveryStatus q = NO_ERROR then (if mReplyStatus q \<noteq> 0 then NO_ERROR else EINVAL)
      else mQueryDeliveryStatus q)"

section \<open>The client (GenyClient)\<close>

text \<open>
  \<open>sends\<close>: the next calls of \<open>send\<close> fail with an errno or take at most so many bytes; after the
  script everything is taken. \<open>reads\<close>: an errno, or a piece of what the service sends (shorter
  than \<open>2^31\<close>); an empty piece is the end of the stream, and after the script a \<open>read\<close> runs into
  the time limit of ten seconds that the client sets.
\<close>

record geny_client =
  mSocketFD :: int
  errno :: int
  sends :: "(int + nat) list"
  sent :: "byte list"
  reads :: "(int + byte list) list"

definition sock_send :: "geny_client \<Rightarrow> byte list \<Rightarrow> int \<times> geny_client" where
  "sock_send c data =
     (case sends c of
        [] \<Rightarrow> (int (length data), c\<lparr>sent := sent c @ data\<rparr>)
      | Inl e # r \<Rightarrow> (- 1, c\<lparr>errno := e, sends := r\<rparr>)
      | Inr n # r \<Rightarrow> (int (min n (length data)), c\<lparr>sent := sent c @ take n data, sends := r\<rparr>))"

definition sock_read :: "geny_client \<Rightarrow> nat \<Rightarrow> int \<times> byte list \<times> geny_client" where
  "sock_read c n =
     (if n = 0 then (0, [], c)
      else case reads c of
        [] \<Rightarrow> (- 1, [], c\<lparr>errno := EAGAIN\<rparr>)
      | Inl e # r \<Rightarrow> (- 1, [], c\<lparr>errno := e, reads := r\<rparr>)
      | Inr bs # r \<Rightarrow>
          if bs = [] then (0, [], c)
          else (int (length (take n bs)), take n bs,
                c\<lparr>reads := if length bs \<le> n then r else Inr (drop n bs) # r\<rparr>))"

definition errno_or :: "geny_client \<Rightarrow> int \<Rightarrow> int" where
  "errno_or c d = (if errno c \<noteq> 0 then errno c else d)"

definition new_GenyClient :: geny_client where
  "new_GenyClient = \<lparr>mSocketFD = - 1, errno = 0, sends = [], sent = [], reads = []\<rparr>"

text \<open>
  \<open>sock\<close> and \<open>conn\<close> are what \<open>socket\<close> and \<open>connect\<close> answer: an errno, or the descriptor and the
  connection, whose script takes the place of the old one.
\<close>

definition connectClient ::
  "geny_client \<Rightarrow> int + int \<Rightarrow> int + (int + nat) list \<times> (int + byte list) list \<Rightarrow> int \<times> geny_client"
where
  "connectClient c sock conn =
     (if mSocketFD c \<ge> 0 then (EINVAL, c)
      else case sock of
        Inl e \<Rightarrow> let c = c\<lparr>mSocketFD := - 1, errno := e\<rparr> in (errno_or c EINVAL, c)
      | Inr fd \<Rightarrow>
          let c = c\<lparr>mSocketFD := fd\<rparr> in
          (case conn of
             Inl e \<Rightarrow> let c = c\<lparr>errno := e\<rparr> in (errno_or c EINVAL, c)
           | Inr (ss, rs) \<Rightarrow> (NO_ERROR, c\<lparr>sends := ss, reads := rs\<rparr>)))"

definition disconnectClient :: "geny_client \<Rightarrow> geny_client" where
  "disconnectClient c =
     (if mSocketFD c \<ge> 0 then c\<lparr>mSocketFD := - 1, sends := [], reads := []\<rparr> else c)"

definition sendMessage :: "geny_client \<Rightarrow> byte list \<Rightarrow> int \<times> geny_client" where
  "sendMessage c data =
     (if mSocketFD c < 0 then (EINVAL, c)
      else let (wr_res, c) = sock_send c data in
        if wr_res \<noteq> int (length data) then (errno_or c EIO, c) else (NO_ERROR, c))"

lemma sock_read_some:
  assumes "sock_read c n = (rd_res, bs, c')" and "0 < rd_res"
  shows "bs \<noteq> []" and "length bs \<le> n" and "rd_res = int (length bs)"
  using assms by (auto simp: sock_read_def split: if_splits list.splits sum.splits)

text \<open>
  The loop over the payload: \<open>got\<close> is what has been stored, \<open>payload_left\<close> is the rest of
  \<open>psize\<close>. The result tells whether the loop has returned.
\<close>

function payload_loop :: "geny_client \<Rightarrow> byte list \<Rightarrow> nat \<Rightarrow> bool \<times> byte list \<times> geny_client" where
  "payload_loop c got psize =
     (case sock_read c (psize - length got) of (rd_res, bs, c') \<Rightarrow>
        if rd_res > 0 then
          (if length (got @ bs) = psize then (True, got @ bs, c') else payload_loop c' (got @ bs) psize)
        else (False, got, c'))"
  by pat_completeness auto

termination
proof (relation "measure (\<lambda>(c, got, psize). psize - length got)")
  fix c c' :: geny_client and got bs :: "byte list" and psize :: nat and rd_res :: int and y
  assume "(rd_res, y) = sock_read c (psize - length got)" and "(bs, c') = y" and "0 < rd_res"
  then have "sock_read c (psize - length got) = (rd_res, bs, c')" and "0 < rd_res" by simp_all
  from sock_read_some(1,2) [OF this]
  show "((c', got @ bs, psize), c, got, psize) \<in> measure (\<lambda>(c, got, psize). psize - length got)"
    by (cases bs) auto
qed simp

declare payload_loop.simps [simp del]

text \<open>The status, \<open>*data\<close> with the bytes of the block, and \<open>*data_size\<close>.\<close>

definition receiveMessage :: "allocation \<Rightarrow> geny_client \<Rightarrow> (int \<times> byte list option \<times> nat) \<times> geny_client" where
  "receiveMessage alloc c =
     (if mSocketFD c < 0 then ((EINVAL, None, 0), c)
      else
        let (rd_res, payload_size_str, c) = sock_read c 8 in
        if rd_res \<noteq> 8 then ((errno_or c EIO, None, 0), c)
        else
          let (v, range) = strtol16 payload_size_str; payload_size = unat (word_of_int v :: u32) in
          if range then ((EIO, None, 0), c\<lparr>errno := ERANGE\<rparr>)
          else
            let c = c\<lparr>errno := 0\<rparr> in
            if \<not> alloc payload_size then ((ENOMEM, None, 0), c\<lparr>errno := ENOMEM\<rparr>)
            else
              let (returned, data, c) = payload_loop c [] payload_size in
              if returned then ((NO_ERROR, Some data, payload_size), c)
              else if length data \<noteq> payload_size then ((errno_or c EIO, None, 0), c)
              else ((NO_ERROR, Some data, 0), c))"

definition doQuery :: "allocation \<Rightarrow> geny_client \<Rightarrow> QemuQuery \<Rightarrow> int \<times> geny_client \<times> QemuQuery" where
  "doQuery alloc c q =
     (if mQueryDeliveryStatus q \<noteq> NO_ERROR then (mQueryDeliveryStatus q, c, q)
      else
        let (res, c) = sendMessage c (bytes_of (query_chars q) @ [0]);
            (res, c, q) =
              (if res = NO_ERROR then
                 (case receiveMessage alloc c of ((res, data, data_size), c) \<Rightarrow>
                    (res, c, q\<lparr>mReplyBuffer := data, mReplySize := data_size\<rparr>))
               else (res, c, q));
            (res1, q) = completeQuery q res
        in (res1, c, q))"

section \<open>The queries of the camera (CameraGenyClient)\<close>

definition mQueryConnect :: string where "mQueryConnect = ''connect''"
definition mQueryDisconnect :: string where "mQueryDisconnect = ''disconnect''"
definition mQueryInfo :: string where "mQueryInfo = ''infos''"
definition mQueryStart :: string where "mQueryStart = ''start''"
definition mQueryStop :: string where "mQueryStop = ''stop''"
definition mQueryFrame :: string where "mQueryFrame = ''frame''"

text \<open>A query of which only the completion status matters.\<close>

definition run_query :: "allocation \<Rightarrow> geny_client \<Rightarrow> string \<Rightarrow> int \<times> geny_client" where
  "run_query alloc c text =
     (case doQuery alloc c (QemuQuery_of alloc text) of (_, c, q) \<Rightarrow> (getCompletionStatus q, c))"

definition queryConnect :: "allocation \<Rightarrow> geny_client \<Rightarrow> int \<times> geny_client" where
  "queryConnect alloc c = run_query alloc c mQueryConnect"

definition queryDisconnect :: "allocation \<Rightarrow> geny_client \<Rightarrow> int \<times> geny_client" where
  "queryDisconnect alloc c = run_query alloc c mQueryDisconnect"

definition queryStop :: "allocation \<Rightarrow> geny_client \<Rightarrow> int \<times> geny_client" where
  "queryStop alloc c = run_query alloc c mQueryStop"

text \<open>\<open>snprintf\<close> into a buffer of 256 bytes keeps 255 characters.\<close>

definition start_text :: "u32 \<Rightarrow> int \<Rightarrow> int \<Rightarrow> string" where
  "start_text pixel_format width height =
     take 255 (mQueryStart @ '' dim='' @ print_int width @ ''x'' @ print_int height
       @ '' pix='' @ print_int (sint pixel_format))"

definition queryStart :: "allocation \<Rightarrow> geny_client \<Rightarrow> u32 \<Rightarrow> int \<Rightarrow> int \<Rightarrow> int \<times> geny_client" where
  "queryStart alloc c pixel_format width height =
     run_query alloc c (start_text pixel_format width height)"

text \<open>
  The text of \<open>queryInfo\<close> is copied with \<open>%s\<close>, which reads up to a zero: a reply without one is
  read beyond its end. \<open>p_info\<close> tells whether the pointer for the result is not NULL.
\<close>

definition queryInfo :: "allocation \<Rightarrow> geny_client \<Rightarrow> bool \<Rightarrow> ((int \<times> byte list option) \<times> geny_client) ub" where
  "queryInfo alloc c p_info =
     (case doQuery alloc c (QemuQuery_of alloc mQueryInfo) of (res, c, q) \<Rightarrow>
        if res \<noteq> 0 \<or> \<not> isQuerySucceeded q then Some ((getCompletionStatus q, None), c)
        else if mReplyDataSize q = 0 then Some ((EINVAL, None), c)
        else if \<not> p_info then None
        else if \<not> alloc (mReplyDataSize q + 1) then Some ((ENOMEM, None), c)
        else
          let data = drop (the (mReplyData q)) (the (mReplyBuffer q)) in
          if 0 \<in> set data then Some ((NO_ERROR, Some (takeWhile (\<lambda>b. b \<noteq> 0) data)), c) else None)"

text \<open>\<open>fmt_g\<close> is how the C library prints a float with \<open>%g\<close>.\<close>

definition frame_text :: "(GLfloat \<Rightarrow> string) \<Rightarrow> size_t \<Rightarrow> size_t \<Rightarrow> GLfloat \<Rightarrow> GLfloat \<Rightarrow> GLfloat \<Rightarrow> GLfloat \<Rightarrow> string"
where
  "frame_text fmt_g video preview r_scale g_scale b_scale exposure_comp =
     take 255 (mQueryFrame @ '' video='' @ print_int (sint video) @ '' preview='' @ print_int (sint preview)
       @ '' whiteb='' @ fmt_g r_scale @ '','' @ fmt_g g_scale @ '','' @ fmt_g b_scale
       @ '' expcomp='' @ fmt_g exposure_comp)"

text \<open>
  A step of the copy: the frame in \<open>buf\<close>, when one is wanted, takes the next bytes of the reply.
  The result is the status, the buffer and the offset behind what has been copied.
\<close>

definition copy_frame :: "byte list \<Rightarrow> nat \<Rightarrow> byte list option \<Rightarrow> size_t \<Rightarrow> (int \<times> byte list option \<times> nat) ub" where
  "copy_frame frame cur_offset buf frame_size =
     (if buf \<noteq> None \<and> frame_size \<noteq> 0 then
        (if length frame - cur_offset \<ge> unat frame_size then
           map_option (\<lambda>b. (NO_ERROR, Some b, cur_offset + unat frame_size))
             (blit (the buf) 0 (take (unat frame_size) (drop cur_offset frame)))
         else Some (EINVAL, buf, cur_offset))
      else Some (NO_ERROR, buf, cur_offset))"

definition queryFrame ::
  "allocation \<Rightarrow> (GLfloat \<Rightarrow> string) \<Rightarrow> geny_client \<Rightarrow> byte list option \<Rightarrow> byte list option \<Rightarrow> size_t \<Rightarrow> size_t
   \<Rightarrow> GLfloat \<Rightarrow> GLfloat \<Rightarrow> GLfloat \<Rightarrow> GLfloat \<Rightarrow> ((int \<times> byte list option \<times> byte list option) \<times> geny_client) ub"
where
  "queryFrame alloc fmt_g c vframe pframe vframe_size pframe_size r_scale g_scale b_scale exposure_comp =
     (let text = frame_text fmt_g (if vframe \<noteq> None \<and> vframe_size \<noteq> 0 then vframe_size else 0)
            (if pframe \<noteq> None \<and> pframe_size \<noteq> 0 then pframe_size else 0) r_scale g_scale b_scale exposure_comp
      in case doQuery alloc c (QemuQuery_of alloc text) of (_, c, q) \<Rightarrow>
        let res = getCompletionStatus q in
        if res \<noteq> NO_ERROR then Some ((res, vframe, pframe), c)
        else
          let frame = (case mReplyData q of None \<Rightarrow> [] | Some off \<Rightarrow> take (mReplyDataSize q) (drop off (the (mReplyBuffer q)))) in
          case copy_frame frame 0 vframe vframe_size of None \<Rightarrow> None
          | Some (res, vframe', off) \<Rightarrow>
              if res \<noteq> NO_ERROR then Some ((res, vframe', pframe), c)
              else case copy_frame frame off pframe pframe_size of None \<Rightarrow> None
              | Some (res, pframe', _) \<Rightarrow> Some ((res, vframe', pframe'), c))"

end
