(* ===== verification/CameraMessages.thy ===== *)
theory CameraMessages
  imports CameraClient
begin

text \<open>
  What the client of the camera service receives: the size in front of a message and its reading,
  the delivery of a message that arrives in pieces, and the queries on top of it.
\<close>

section \<open>The size of a message\<close>

text \<open>What the service writes: eight hexadecimal digits.\<close>

definition hex_digit :: "nat \<Rightarrow> byte" where
  "hex_digit d = (if d < 10 then word_of_nat (48 + d) else word_of_nat (87 + d))"

fun hex_text :: "nat \<Rightarrow> nat \<Rightarrow> byte list" where
  "hex_text 0 n = []"
| "hex_text (Suc k) n = hex_text k (n div 16) @ [hex_digit (n mod 16)]"

definition message :: "byte list \<Rightarrow> byte list" where
  "message payload = hex_text 8 (length payload) @ payload"

lemma length_hex_text [simp]: "length (hex_text k n) = k"
  by (induction k arbitrary: n) simp_all

lemma hex_digit_props:
  assumes "d < 16"
  shows "hex_value (hex_digit d) = Some d" and "\<not> is_space (hex_digit d)"
    and "hex_digit d \<noteq> 45" and "hex_digit d \<noteq> 43" and "hex_digit d \<noteq> 120" and "hex_digit d \<noteq> 88"
proof -
  have u: "unat (hex_digit d) = (if d < 10 then 48 + d else 87 + d)"
    using assms by (simp add: hex_digit_def unat_of_nat take_bit_nat_eq_self del: of_nat_add)
  show "hex_value (hex_digit d) = Some d" and "\<not> is_space (hex_digit d)"
    and "hex_digit d \<noteq> 45" and "hex_digit d \<noteq> 43" and "hex_digit d \<noteq> 120" and "hex_digit d \<noteq> 88"
    using assms by (simp_all add: hex_value_def is_space_def word_le_nat_alt word_unat_eq_iff u)
qed

lemma hex_digits_append:
  "list_all (\<lambda>c. hex_value c \<noteq> None) xs \<Longrightarrow> hex_digits acc (xs @ ys) = hex_digits (hex_digits acc xs) ys"
  by (induction xs arbitrary: acc) auto

lemma hex_text_digits: "list_all (\<lambda>c. \<exists>d < 16. c = hex_digit d) (hex_text k n)"
  by (induction k arbitrary: n) (auto intro!: exI [of _ "_ mod 16"])

lemma hex_text_values: "list_all (\<lambda>c. hex_value c \<noteq> None) (hex_text k n)"
  using hex_text_digits [of k n] by (rule list.pred_mono_strong) (auto simp: hex_digit_props)

lemma hex_digits_text: "hex_digits acc (hex_text k n) = acc * 16 ^ k + n mod 16 ^ k"
proof (induction k arbitrary: n)
  case (Suc k)
  have "hex_digits acc (hex_text (Suc k) n) = 16 * (acc * 16 ^ k + n div 16 mod 16 ^ k) + n mod 16"
    by (simp add: hex_digits_append [OF hex_text_values] Suc.IH hex_digit_props)
  also have "\<dots> = acc * 16 ^ Suc k + (16 * (n div 16 mod 16 ^ k) + n mod 16)" by simp
  also have "16 * (n div 16 mod 16 ^ k) + n mod 16 = n mod 16 ^ Suc k"
    by (simp add: mod_mult2_eq)
  finally show ?case .
qed simp

lemma strtol16_hex_text:
  assumes "n < 2147483648"
  shows "strtol16 (hex_text 8 n) = (int n, False)"
proof -
  have "length (hex_text 8 n) = Suc (Suc 6)" by simp
  then obtain a b cs where cons: "hex_text 8 n = a # b # cs" unfolding length_Suc_conv by blast
  have "list_all (\<lambda>c. \<exists>d < 16. c = hex_digit d) (a # b # cs)" using hex_text_digits [of 8 n] cons by simp
  then obtain d e where "d < 16" "e < 16" "a = hex_digit d" "b = hex_digit e" by auto
  then have ab: "\<not> is_space a" "a \<noteq> 45" "a \<noteq> 43" "b \<noteq> 120" "b \<noteq> 88" by (simp_all add: hex_digit_props)
  have "hex_digits 0 (a # b # cs) = n" using hex_digits_text [of 0 8 n] assms by (simp only: cons) simp
  then show ?thesis using assms ab unfolding strtol16_def cons
    by (simp del: hex_digits.simps)
qed

section \<open>Messages in pieces\<close>

text \<open>The service has sent these pieces, none of them empty, and after them \<open>rest\<close> comes.\<close>

definition arriving :: "geny_client \<Rightarrow> byte list list \<Rightarrow> (int + byte list) list \<Rightarrow> bool" where
  "arriving c pieces rest \<longleftrightarrow> reads c = map Inr pieces @ rest \<and> [] \<notin> set pieces"

lemma payload_arrives:
  assumes "arriving c pieces rest" and "concat pieces \<noteq> []" and "length got + length (concat pieces) = n"
  shows "payload_loop c got n = (True, got @ concat pieces, c\<lparr>reads := rest\<rparr>)"
  using assms
proof (induction pieces arbitrary: c got)
  case (Cons p ps)
  let ?c = "c\<lparr>reads := map Inr ps @ rest\<rparr>"
  have p: "p \<noteq> []" and ps: "[] \<notin> set ps" using Cons.prems(1) by (auto simp: arriving_def)
  have "sock_read c (n - length got) = (int (length p), p, ?c)"
    using Cons.prems p by (auto simp: sock_read_def arriving_def)
  then have step: "payload_loop c got n = (if length (got @ p) = n then (True, got @ p, ?c) else payload_loop ?c (got @ p) n)"
    using p by (simp add: payload_loop.simps [of c])
  show ?case
  proof (cases "concat ps = []")
    case True
    then have "ps = []" using ps by (cases ps) auto
    then show ?thesis using Cons.prems(3) by (simp add: step)
  next
    case False
    have "payload_loop ?c (got @ p) n = (True, (got @ p) @ concat ps, ?c\<lparr>reads := rest\<rparr>)"
      using Cons.prems ps False by (intro Cons.IH) (simp_all add: arriving_def)
    moreover have "length (got @ p) \<noteq> n" using Cons.prems(3) False by auto
    ultimately show ?thesis by (simp add: step)
  qed
qed simp

lemma receiveMessage_arrives:
  assumes "mSocketFD c \<ge> 0" and "arriving c pieces rest" and "concat pieces = message payload"
    and "8 \<le> length (hd pieces)" and "payload \<noteq> []" and "length payload < 2147483648" and "alloc (length payload)"
  shows "receiveMessage alloc c = ((NO_ERROR, Some payload, length payload), c\<lparr>errno := 0, reads := rest\<rparr>)"
proof -
  obtain p ps where pieces: "pieces = p # ps" and p: "8 \<le> length p"
    using assms(3,4) by (cases pieces) (auto simp: message_def dest: arg_cong [of _ _ length])
  let ?n = "length payload" and ?ps = "if length p = 8 then ps else drop 8 p # ps"
  have "take 8 (concat pieces) = hex_text 8 ?n" and "drop 8 (concat pieces) = payload"
    unfolding assms(3) message_def by simp_all
  then have head: "take 8 p = hex_text 8 ?n" and tail: "concat ?ps = payload"
    using p by (auto simp: pieces split: if_splits)
  define d where "d = c\<lparr>reads := map Inr ?ps @ rest\<rparr>"
  have read: "sock_read c 8 = (8, hex_text 8 ?n, d)"
    using assms(2) p head by (auto simp: sock_read_def arriving_def pieces d_def)
  have num: "unat (word_of_nat ?n :: u32) = ?n" using assms(6) by (simp add: unat_of_nat32)
  have "payload_loop (d\<lparr>errno := 0\<rparr>) [] ?n = (True, [] @ concat ?ps, d\<lparr>errno := 0, reads := rest\<rparr>)"
    using assms(2,5) p tail by (intro payload_arrives) (auto simp: arriving_def pieces d_def)
  then have loop: "payload_loop (d\<lparr>errno := 0\<rparr>) [] ?n = (True, payload, c\<lparr>errno := 0, reads := rest\<rparr>)"
    by (simp add: tail d_def)
  show ?thesis
    using assms(1,7) by (simp add: receiveMessage_def read strtol16_hex_text assms(6) num loop Let_def)
qed

section \<open>Queries\<close>

text \<open>
  The connection is up, takes what it is given, and the answer to the next query is \<open>payload\<close>,
  in pieces of which the first holds the whole size.
\<close>

definition answering :: "geny_client \<Rightarrow> byte list list \<Rightarrow> (int + byte list) list \<Rightarrow> byte list \<Rightarrow> bool" where
  "answering c pieces rest payload \<longleftrightarrow> mSocketFD c \<ge> 0 \<and> sends c = [] \<and> arriving c pieces rest
     \<and> concat pieces = message payload \<and> 8 \<le> length (hd pieces) \<and> payload \<noteq> []
     \<and> length payload < 2147483648"

definition asked :: "geny_client \<Rightarrow> string \<Rightarrow> (int + byte list) list \<Rightarrow> geny_client" where
  "asked c txt rest = c\<lparr>sent := sent c @ bytes_of txt @ [0], errno := 0, reads := rest\<rparr>"

lemma QemuQuery_of_short:
  assumes "txt \<noteq> []" and "length txt \<le> 255"
  shows "QemuQuery_of alloc txt = new_QemuQuery\<lparr>mQueryPrealloc := txt\<rparr>"
  using assms by (simp add: QemuQuery_of_def createQuery_def resetQuery_def new_QemuQuery_def Let_def)

lemma doQuery_answering:
  assumes "answering c pieces rest payload" and "alloc (length payload)" and "txt \<noteq> []" and "length txt \<le> 255"
  shows "doQuery alloc c (QemuQuery_of alloc txt) =
    (case completeQuery (new_QemuQuery\<lparr>mQueryPrealloc := txt, mReplyBuffer := Some payload,
        mReplySize := length payload\<rparr>) NO_ERROR of (res, q) \<Rightarrow> (res, asked c txt rest, q))"
proof -
  let ?d = "c\<lparr>sent := sent c @ bytes_of txt @ [0]\<rparr>"
  have send: "sendMessage c (bytes_of txt @ [0]) = (NO_ERROR, ?d)"
    using assms(1) by (simp add: answering_def sendMessage_def sock_send_def)
  have "receiveMessage alloc ?d = ((NO_ERROR, Some payload, length payload), ?d\<lparr>errno := 0, reads := rest\<rparr>)"
    using assms(1,2) by (intro receiveMessage_arrives) (auto simp: answering_def arriving_def)
  then show ?thesis
    by (simp add: doQuery_def QemuQuery_of_short [OF assms(3,4)] query_chars_def new_QemuQuery_def send
        asked_def split: prod.split)
qed

lemma completeQuery_ok_data:
  assumes "mReplyBuffer q = Some (bytes_of ''ok:'' @ data)" and "mReplySize q = length data + 3" and "data \<noteq> []"
  shows "completeQuery q NO_ERROR = (NO_ERROR, q\<lparr>mQueryDeliveryStatus := NO_ERROR, mReplyStatus := 1,
    mReplyData := Some 3, mReplyDataSize := length data\<rparr>)"
  using assms by (simp add: completeQuery_def bytes_of_def)

lemma completeQuery_ok:
  assumes "mReplyBuffer q = Some (bytes_of ''ok'' @ [0])" and "mReplySize q = 3"
  shows "completeQuery q NO_ERROR = (NO_ERROR, q\<lparr>mQueryDeliveryStatus := NO_ERROR, mReplyStatus := 1\<rparr>)"
  using assms by (simp add: completeQuery_def bytes_of_def)

lemma run_query_ok:
  assumes "answering c pieces rest (bytes_of ''ok'' @ [0])" and "alloc 3" and "txt \<noteq> []" and "length txt \<le> 255"
  shows "run_query alloc c txt = (NO_ERROR, asked c txt rest)"
  using doQuery_answering [OF assms(1) _ assms(3,4), of alloc] assms(2) [unfolded numeral_3_eq_3]
  by (simp add: run_query_def completeQuery_ok getCompletionStatus_def bytes_of_def completeQuery_def)

section \<open>What every query keeps\<close>

named_theorems same_fd

lemma sock_read_fd [same_fd]: "mSocketFD (snd (snd (sock_read c n))) = mSocketFD c"
  by (auto simp: sock_read_def split: list.split sum.split)

lemma sock_send_fd [same_fd]: "mSocketFD (snd (sock_send c data)) = mSocketFD c"
  by (auto simp: sock_send_def split: list.split sum.split)

lemma payload_loop_fd [same_fd]: "mSocketFD (snd (snd (payload_loop c got n))) = mSocketFD c"
proof (induction c got n rule: payload_loop.induct)
  case (1 c got n)
  obtain rd bs c' where r: "sock_read c (n - length got) = (rd, bs, c')" by (rule prod_cases3)
  then have "mSocketFD c' = mSocketFD c" using sock_read_fd [of c "n - length got"] by simp
  then show ?case using "1.IH" [OF r [symmetric]] by (simp add: payload_loop.simps [of c] r)
qed

lemma sendMessage_fd [same_fd]: "mSocketFD (snd (sendMessage c data)) = mSocketFD c"
  using sock_send_fd [of c data] by (auto simp: sendMessage_def split: prod.split)

lemma receiveMessage_fd [same_fd]: "mSocketFD (snd (receiveMessage alloc c)) = mSocketFD c"
proof -
  obtain rd str d where r: "sock_read c 8 = (rd, str, d)" by (rule prod_cases3)
  then have d: "mSocketFD d = mSocketFD c" using sock_read_fd [of c 8] by simp
  obtain v range where v: "strtol16 str = (v, range)" by (rule prod.exhaust)
  obtain ret data e where l: "payload_loop (d\<lparr>errno := 0\<rparr>) [] (unat (word_of_int v :: u32)) = (ret, data, e)"
    by (rule prod_cases3)
  then have "mSocketFD e = mSocketFD d" using payload_loop_fd [of "d\<lparr>errno := 0\<rparr>"] by (metis geny_client.select_convs(1) geny_client.surjective geny_client.update_convs(2) snd_conv)
  then show ?thesis using d by (simp add: receiveMessage_def r v l Let_def)
qed

lemma doQuery_fd [same_fd]: "mSocketFD (fst (snd (doQuery alloc c q))) = mSocketFD c"
proof -
  obtain res d where s: "sendMessage c (bytes_of (query_chars q) @ [0]) = (res, d)" by (rule prod.exhaust)
  obtain r data n e where m: "receiveMessage alloc d = ((r, data, n), e)" by (metis surj_pair)
  have "mSocketFD d = mSocketFD c" using sendMessage_fd [of c] s by (metis snd_conv)
  moreover have "mSocketFD e = mSocketFD d" using receiveMessage_fd [of alloc d] m by simp
  ultimately show ?thesis by (simp add: doQuery_def s m split: prod.split)
qed

lemma run_query_fd [same_fd]: "mSocketFD (snd (run_query alloc c txt)) = mSocketFD c"
  using doQuery_fd [of alloc c] by (simp add: run_query_def split: prod.split) (metis fst_conv snd_conv)

end
