(* ===== verification/CameraDevice.thy ===== *)
theory CameraDevice
  imports CameraConverters CameraMessages
begin

text \<open>
  The camera device: \<open>EmulatedCameraDevice.cpp\<close> and \<open>EmulatedGenyCameraDevice.cpp\<close> of
  \<open>vbox86/camera/camera_vbox86\<close>, with the worker thread that asks for the frames. What the
  operating system and the service answer is an argument of each operation or a script in the
  state of the client; the calls back into the camera are recorded in \<open>notified\<close>.
  \<open>frames_allocated\<close> counts the frame buffers that have been allocated and not freed.
\<close>

section \<open>State\<close>

datatype EmulatedCameraDeviceState = ECDS_CONSTRUCTED | ECDS_INITIALIZED | ECDS_CONNECTED | ECDS_STARTED

record WorkerThread =
  mThreadControl :: int
  mControlFD :: int
  mOneBurst :: bool

datatype notification = NextFrame "byte list option" int | DeviceError int

record camera_device =
  mCurFrameTimestamp :: int
  mCurrentFrame :: "byte list option"
  mFrameBufferSize :: size_t
  mPixelFormat :: u32
  mFrameWidth :: int
  mFrameHeight :: int
  mTotalPixels :: int
  mExposureCompensation :: GLfloat
  mWhiteBalanceScale :: "(GLfloat \<times> GLfloat \<times> GLfloat) option"
  mSupportedWhiteBalanceScale :: "string \<rightharpoonup> GLfloat \<times> GLfloat \<times> GLfloat"
  mState :: EmulatedCameraDeviceState
  mWorkerThread :: "WorkerThread option"
  mGenyClient :: geny_client
  mDeviceName :: string
  mLastFrame :: int
  notified :: "notification list"
  frames_allocated :: nat

definition V4L2_PIX_FMT_YVU420 :: u32 where "V4L2_PIX_FMT_YVU420 = 0x32315659"
definition V4L2_PIX_FMT_YUV420 :: u32 where "V4L2_PIX_FMT_YUV420 = 0x32315559"
definition V4L2_PIX_FMT_NV21 :: u32 where "V4L2_PIX_FMT_NV21 = 0x3132564e"
definition V4L2_PIX_FMT_NV12 :: u32 where "V4L2_PIX_FMT_NV12 = 0x3231564e"

lemmas pix_fmt_defs = V4L2_PIX_FMT_YVU420_def V4L2_PIX_FMT_YUV420_def V4L2_PIX_FMT_NV21_def V4L2_PIX_FMT_NV12_def

definition isInitialized :: "camera_device \<Rightarrow> bool" where
  "isInitialized d \<longleftrightarrow> mWorkerThread d \<noteq> None \<and> mState d \<noteq> ECDS_CONSTRUCTED"

definition isConnected :: "camera_device \<Rightarrow> bool" where
  "isConnected d \<longleftrightarrow> mState d = ECDS_CONNECTED \<or> mState d = ECDS_STARTED"

definition isStarted :: "camera_device \<Rightarrow> bool" where
  "isStarted d \<longleftrightarrow> mState d = ECDS_STARTED"

text \<open>The constructors leave the description of the frame as the memory has it.\<close>

definition new_device :: "size_t \<Rightarrow> u32 \<Rightarrow> int \<Rightarrow> int \<Rightarrow> int \<Rightarrow> camera_device" where
  "new_device fsize fmt w h total_pixels =
     \<lparr>mCurFrameTimestamp = 0, mCurrentFrame = None, mFrameBufferSize = fsize, mPixelFormat = fmt,
      mFrameWidth = w, mFrameHeight = h, mTotalPixels = total_pixels, mExposureCompensation = 0x3f800000,
      mWhiteBalanceScale = None, mSupportedWhiteBalanceScale = Map.empty, mState = ECDS_CONSTRUCTED,
      mWorkerThread = None, mGenyClient = new_GenyClient, mDeviceName = [], mLastFrame = 0,
      notified = [], frames_allocated = 0\<rparr>"

section \<open>The base class (EmulatedCameraDevice)\<close>

text \<open>\<open>thread_ok\<close>: \<open>new\<close> gives the object of the worker thread.\<close>

definition Initialize_base :: "bool \<Rightarrow> camera_device \<Rightarrow> int \<times> camera_device" where
  "Initialize_base thread_ok d =
     (if isInitialized d then (NO_ERROR, d)
      else if \<not> thread_ok then (ENOMEM, d\<lparr>mWorkerThread := None\<rparr>)
      else (NO_ERROR, d\<lparr>mWorkerThread := Some \<lparr>mThreadControl = - 1, mControlFD = - 1, mOneBurst = False\<rparr>,
              mState := ECDS_INITIALIZED\<rparr>))"

text \<open>\<open>pow_gamma ev\<close> is \<open>std::pow(2.0f, ev / GAMMA_CORRECTION)\<close>.\<close>

definition setExposureCompensation :: "(GLfloat \<Rightarrow> GLfloat) \<Rightarrow> camera_device \<Rightarrow> GLfloat \<Rightarrow> camera_device" where
  "setExposureCompensation pow_gamma d ev = d\<lparr>mExposureCompensation := pow_gamma ev\<rparr>"

definition initializeWhiteBalanceModes :: "camera_device \<Rightarrow> string \<Rightarrow> GLfloat \<Rightarrow> GLfloat \<Rightarrow> camera_device" where
  "initializeWhiteBalanceModes d mode r_scale b_scale =
     d\<lparr>mSupportedWhiteBalanceScale := (mSupportedWhiteBalanceScale d)(mode \<mapsto> (r_scale, 0x3f800000, b_scale))\<rparr>"

definition setWhiteBalanceMode :: "camera_device \<Rightarrow> string \<Rightarrow> camera_device" where
  "setWhiteBalanceMode d mode = d\<lparr>mWhiteBalanceScale := mSupportedWhiteBalanceScale d mode\<rparr>"

text \<open>The status and, when one is made, the preview of 32-bit pixels.\<close>

definition getCurrentPreviewFrame ::
  "(nat \<Rightarrow> byte) \<Rightarrow> camera_device \<Rightarrow> bool \<Rightarrow> (int \<times> u32 list option) ub"
where
  "getCurrentPreviewFrame a d buffer =
     (if \<not> isStarted d then Some (EINVAL, None)
      else case mCurrentFrame d of
        None \<Rightarrow> Some (EINVAL, None)
      | Some frame \<Rightarrow>
          if \<not> buffer then Some (EINVAL, None)
          else
            let w = mFrameWidth d; h = mFrameHeight d; fmt = mPixelFormat d; conv = map_option (\<lambda>px. (NO_ERROR, Some px)) in
            if fmt = V4L2_PIX_FMT_YVU420 then conv (YV12ToRGB32 a frame w h)
            else if fmt = V4L2_PIX_FMT_YUV420 then conv (YU12ToRGB32 a frame w h)
            else if fmt = V4L2_PIX_FMT_NV21 then conv (NV21ToRGB32 a frame w h)
            else if fmt = V4L2_PIX_FMT_NV12 then conv (NV12ToRGB32 a frame w h)
            else Some (EINVAL, None))"

text \<open>\<open>(width * height * 12) / 8\<close> in \<open>int\<close>, then as a \<open>size_t\<close>.\<close>

definition frame_bytes :: "int \<Rightarrow> int \<Rightarrow> size_t" where
  "frame_bytes width height = word_of_int (c_div (i32 (i32 (width * height) * 12)) 8)"

definition supported_format :: "u32 \<Rightarrow> bool" where
  "supported_format pix_fmt \<longleftrightarrow> pix_fmt = V4L2_PIX_FMT_YVU420 \<or> pix_fmt = V4L2_PIX_FMT_YUV420
     \<or> pix_fmt = V4L2_PIX_FMT_NV21 \<or> pix_fmt = V4L2_PIX_FMT_NV12"

text \<open>\<open>fresh n\<close> is what \<open>new uint8_t[n]\<close> gives: bytes that nobody has written, or NULL.\<close>

definition commonStartDevice ::
  "(nat \<Rightarrow> byte list option) \<Rightarrow> camera_device \<Rightarrow> int \<Rightarrow> int \<Rightarrow> u32 \<Rightarrow> int \<times> camera_device"
where
  "commonStartDevice fresh d width height pix_fmt =
     (if \<not> supported_format pix_fmt then (EINVAL, d)
      else
        let fsize = frame_bytes width height;
            d = d\<lparr>mFrameBufferSize := fsize, mFrameWidth := width, mFrameHeight := height, mPixelFormat := pix_fmt,
                  mTotalPixels := i32 (width * height)\<rparr>
        in case fresh (unat fsize) of
             None \<Rightarrow> (ENOMEM, d\<lparr>mCurrentFrame := None\<rparr>)
           | Some bs \<Rightarrow> (NO_ERROR, d\<lparr>mCurrentFrame := Some bs, frames_allocated := frames_allocated d + 1\<rparr>))"

definition commonStopDevice :: "camera_device \<Rightarrow> camera_device" where
  "commonStopDevice d =
     (let d = d\<lparr>mFrameWidth := 0, mFrameHeight := 0, mTotalPixels := 0, mPixelFormat := 0\<rparr> in
      if mCurrentFrame d \<noteq> None then d\<lparr>mCurrentFrame := None, frames_allocated := frames_allocated d - 1\<rparr>
      else d)"

section \<open>The worker thread\<close>

text \<open>\<open>run_res\<close> is what \<open>Thread::run\<close> answers.\<close>

definition startThread :: "WorkerThread \<Rightarrow> bool \<Rightarrow> int \<Rightarrow> int \<times> WorkerThread" where
  "startThread t one_burst run_res = (run_res, t\<lparr>mOneBurst := one_burst\<rparr>)"

text \<open>\<open>fds\<close>: an errno, or the reading and the writing end that \<open>pipe\<close> gives.\<close>

definition readyToRun :: "WorkerThread \<Rightarrow> int + int \<times> int \<Rightarrow> int \<times> WorkerThread" where
  "readyToRun t fds =
     (case fds of Inl e \<Rightarrow> (e, t)
      | Inr (rd, wr) \<Rightarrow> (NO_ERROR, t\<lparr>mThreadControl := wr, mControlFD := rd\<rparr>))"

text \<open>
  \<open>wres\<close> and \<open>errn\<close>: what the \<open>write\<close> of the message of 4 bytes answers, and its errno; \<open>join\<close>
  is the answer of \<open>requestExitAndWait\<close>. The second component is what has been written.
\<close>

definition stopThread :: "WorkerThread \<Rightarrow> int \<Rightarrow> int \<Rightarrow> int \<Rightarrow> int \<times> bool \<times> WorkerThread" where
  "stopThread t wres errn join =
     (if mThreadControl t \<ge> 0 then
        (if wres = 4 then
           (if join = NO_ERROR then
              (join, True, t\<lparr>mThreadControl := - 1, mControlFD := if mControlFD t \<ge> 0 then - 1 else mControlFD t\<rparr>)
            else (join, True, t))
         else (if errn \<noteq> 0 then errn else EINVAL, False, t))
      else (EINVAL, False, t))"

datatype SelectRes = TIMEOUT | READY | EXIT_THREAD | ERROR

text \<open>
  \<open>res\<close> and \<open>ctl\<close>: what \<open>select\<close> answers, and whether the control descriptor is in the set; \<open>rd\<close>
  and \<open>msg\<close>: what the \<open>read\<close> of the control message answers. \<open>THREAD_STOP\<close> is 0.
\<close>

definition Select :: "int \<Rightarrow> bool \<Rightarrow> int \<Rightarrow> int \<Rightarrow> SelectRes" where
  "Select res ctl rd msg =
     (if res < 0 then ERROR
      else if res = 0 then TIMEOUT
      else if ctl then (if rd \<noteq> 4 then ERROR else if msg = 0 then EXIT_THREAD else ERROR)
      else READY)"

definition startWorkerThread :: "camera_device \<Rightarrow> bool \<Rightarrow> int \<Rightarrow> int \<times> camera_device" where
  "startWorkerThread d one_burst run_res =
     (if \<not> isInitialized d then (EINVAL, d)
      else case startThread (the (mWorkerThread d)) one_burst run_res of
        (res, t) \<Rightarrow> (res, d\<lparr>mWorkerThread := Some t\<rparr>))"

definition stopWorkerThread :: "camera_device \<Rightarrow> int \<Rightarrow> int \<Rightarrow> int \<Rightarrow> int \<times> camera_device" where
  "stopWorkerThread d wres errn join =
     (if \<not> isInitialized d then (EINVAL, d)
      else case stopThread (the (mWorkerThread d)) wres errn join of
        (res, _, t) \<Rightarrow> (res, d\<lparr>mWorkerThread := Some t\<rparr>))"

definition startDeliveringFrames :: "camera_device \<Rightarrow> bool \<Rightarrow> int \<Rightarrow> int \<times> camera_device" where
  "startDeliveringFrames d one_burst run_res =
     (if \<not> isStarted d then (EINVAL, d) else startWorkerThread d one_burst run_res)"

definition stopDeliveringFrames :: "camera_device \<Rightarrow> int \<Rightarrow> int \<Rightarrow> int \<Rightarrow> int \<times> camera_device" where
  "stopDeliveringFrames d wres errn join =
     (if \<not> isStarted d then (NO_ERROR, d) else stopWorkerThread d wres errn join)"

section \<open>The device of the local camera service (EmulatedGenyCameraDevice)\<close>

type_synonym query = "geny_client \<Rightarrow> int \<times> geny_client"

text \<open>Runs a query of the client of the device.\<close>

definition with_client :: "query \<Rightarrow> camera_device \<Rightarrow> int \<times> camera_device" where
  "with_client qry d = (case qry (mGenyClient d) of (res, c) \<Rightarrow> (res, d\<lparr>mGenyClient := c\<rparr>))"

definition Initialize ::
  "allocation \<Rightarrow> bool \<Rightarrow> int + int \<Rightarrow> int + (int + nat) list \<times> (int + byte list) list
   \<Rightarrow> camera_device \<Rightarrow> string \<Rightarrow> int \<times> camera_device"
where
  "Initialize alloc thread_ok sock conn d device_name =
     (let (res, d) = with_client (\<lambda>c. connectClient c sock conn) d in
      if res \<noteq> NO_ERROR then (res, d)
      else
        let (res, d) = Initialize_base thread_ok d in
        if res = NO_ERROR then (res, d\<lparr>mDeviceName := device_name\<rparr>)
        else (res, snd (with_client (queryDisconnect alloc) d)))"

definition getDeviceInfo :: "allocation \<Rightarrow> camera_device \<Rightarrow> bool \<Rightarrow> ((int \<times> byte list option) \<times> camera_device) ub" where
  "getDeviceInfo alloc d p_info =
     (if \<not> isInitialized d then Some ((EINVAL, None), d)
      else map_option (\<lambda>(res, c). (res, d\<lparr>mGenyClient := c\<rparr>)) (queryInfo alloc (mGenyClient d) p_info))"

definition connectDevice :: "allocation \<Rightarrow> camera_device \<Rightarrow> int \<times> camera_device" where
  "connectDevice alloc d =
     (if \<not> isInitialized d then (EINVAL, d)
      else if isConnected d then (NO_ERROR, d)
      else
        let (res, d) = with_client (queryConnect alloc) d in
        if res = NO_ERROR then (res, d\<lparr>mState := ECDS_CONNECTED\<rparr>) else (res, d))"

definition disconnectDevice :: "allocation \<Rightarrow> camera_device \<Rightarrow> int \<times> camera_device" where
  "disconnectDevice alloc d =
     (if \<not> isConnected d then (NO_ERROR, d)
      else if isStarted d then (EINVAL, d)
      else
        let (res, d) = with_client (queryDisconnect alloc) d in
        if res = NO_ERROR then (res, d\<lparr>mState := ECDS_INITIALIZED\<rparr>) else (res, d))"

definition startDevice ::
  "allocation \<Rightarrow> (nat \<Rightarrow> byte list option) \<Rightarrow> camera_device \<Rightarrow> int \<Rightarrow> int \<Rightarrow> u32 \<Rightarrow> int \<times> camera_device"
where
  "startDevice alloc fresh d width height pix_fmt =
     (if \<not> isConnected d then (EINVAL, d)
      else if isStarted d then (NO_ERROR, d)
      else
        let (res, d) = commonStartDevice fresh d width height pix_fmt in
        if res \<noteq> NO_ERROR then (res, d)
        else
          let (res, d) = with_client (\<lambda>c. queryStart alloc c (mPixelFormat d) (mFrameWidth d) (mFrameHeight d)) d in
          if res = NO_ERROR then (res, d\<lparr>mState := ECDS_STARTED\<rparr>) else (res, d))"

definition stopDevice :: "allocation \<Rightarrow> camera_device \<Rightarrow> int \<times> camera_device" where
  "stopDevice alloc d =
     (if \<not> isStarted d then (NO_ERROR, d)
      else
        let (res, d) = with_client (queryStop alloc) d in
        if res = NO_ERROR then (res, (commonStopDevice d)\<lparr>mState := ECDS_CONNECTED\<rparr>) else (res, d))"

text \<open>The time to wait for the next frame, in microseconds, when 25 frames make a second.\<close>

definition mEmulatedFPS :: int where "mEmulatedFPS = 25"

definition wait_usec :: "int \<Rightarrow> int \<Rightarrow> int" where
  "wait_usec now_msec last_msec =
     (let since = i32 (i32 (now_msec - last_msec) * 1000) in
      if c_div 1000000 mEmulatedFPS \<le> since then 1 else i32 (c_div 1000000 mEmulatedFPS - since))"

text \<open>
  A round of the thread: \<open>sel\<close> is what \<open>Select\<close> answers when asked to wait for so long, \<open>now2\<close> and
  \<open>stamp\<close> the two clocks after it, in milliseconds and nanoseconds. \<open>CAMERA_ERROR_SERVER_DIED\<close> is 100.
\<close>

definition inWorkerThread ::
  "allocation \<Rightarrow> (GLfloat \<Rightarrow> string) \<Rightarrow> (int \<Rightarrow> SelectRes) \<Rightarrow> int \<Rightarrow> int \<Rightarrow> int \<Rightarrow> camera_device
   \<Rightarrow> (bool \<times> camera_device) ub"
where
  "inWorkerThread alloc fmt_g sel now1 now2 stamp d =
     (let now_msec = i32 now1 in
      if sel (wait_usec now_msec (mLastFrame d)) = EXIT_THREAD then Some (False, d)
      else
        let d = d\<lparr>mLastFrame := i32 now2\<rparr> in
        case mWhiteBalanceScale d of
          None \<Rightarrow> None
        | Some (r, g, b) \<Rightarrow>
            (case queryFrame alloc fmt_g (mGenyClient d) (mCurrentFrame d) None (mFrameBufferSize d) 0 r g b
                    (mExposureCompensation d) of
               None \<Rightarrow> None
             | Some ((query_res, vframe, _), c) \<Rightarrow>
                 let d = d\<lparr>mGenyClient := c, mCurrentFrame := vframe\<rparr> in
                 if query_res = NO_ERROR then
                   Some (True, d\<lparr>mCurFrameTimestamp := stamp, notified := notified d @ [NextFrame vframe stamp]\<rparr>)
                 else Some (False, d\<lparr>notified := notified d @ [DeviceError 100]\<rparr>)))"

definition threadLoop ::
  "allocation \<Rightarrow> (GLfloat \<Rightarrow> string) \<Rightarrow> (int \<Rightarrow> SelectRes) \<Rightarrow> int \<Rightarrow> int \<Rightarrow> int \<Rightarrow> camera_device
   \<Rightarrow> (bool \<times> camera_device) ub"
where
  "threadLoop alloc fmt_g sel now1 now2 stamp d =
     map_option (\<lambda>(again, d). (again \<and> \<not> mOneBurst (the (mWorkerThread d)), d))
       (inWorkerThread alloc fmt_g sel now1 now2 stamp d)"

end
