(* ===== verification/CameraSteps.thy ===== *)
theory CameraSteps
  imports CameraDevice
begin

text \<open>
  The camera device as a state machine: its operations in any order, with any answers of the
  system and of the service, and what holds of every device that they reach.
\<close>

section \<open>What the queries keep\<close>

lemma query_fds:
  "mSocketFD (snd (queryConnect alloc c)) = mSocketFD c" "mSocketFD (snd (queryDisconnect alloc c)) = mSocketFD c"
  "mSocketFD (snd (queryStop alloc c)) = mSocketFD c" "mSocketFD (snd (queryStart alloc c fmt w h)) = mSocketFD c"
  by (simp_all add: queryConnect_def queryDisconnect_def queryStop_def queryStart_def same_fd)

lemma queryInfo_fd:
  assumes "queryInfo alloc c p = Some (r, c')"
  shows "mSocketFD c' = mSocketFD c"
  using assms doQuery_fd [of alloc c "QemuQuery_of alloc mQueryInfo"]
  by (auto simp: queryInfo_def Let_def split: prod.splits if_splits)

lemma copy_frame_length:
  assumes "copy_frame frame off buf n = Some (r, buf', off')"
  shows "map_option length buf' = map_option length buf"
  using assms by (auto simp: copy_frame_def length_blit split: if_splits)

lemma queryFrame_keeps:
  assumes "queryFrame alloc fmt_g c vf pf vs ps r g b e = Some ((res, vf', pf'), c')"
  shows "mSocketFD c' = mSocketFD c" and "map_option length vf' = map_option length vf"
proof -
  define line where "line = frame_text fmt_g (if vf \<noteq> None \<and> vs \<noteq> 0 then vs else 0)
            (if pf \<noteq> None \<and> ps \<noteq> 0 then ps else 0) r g b e"
  obtain x d q where q: "doQuery alloc c (QemuQuery_of alloc line) = (x, d, q)" by (rule prod_cases3)
  have d: "mSocketFD d = mSocketFD c" using doQuery_fd [of alloc c "QemuQuery_of alloc line"] q by simp
  have "c' = d \<and> map_option length vf' = map_option length vf"
    using assms unfolding queryFrame_def line_def [symmetric] Let_def q prod.case
    by (auto split: if_splits option.splits prod.splits simp: copy_frame_length)
  then show "mSocketFD c' = mSocketFD c" and "map_option length vf' = map_option length vf" using d by simp_all
qed

section \<open>Steps\<close>

text \<open>
  A step is an operation with some arguments and answers. The memory that \<open>fresh\<close> gives has the
  size that was asked for. The service may send, and the peer may take, anything at any time.
\<close>

inductive device_step ::
  "allocation \<Rightarrow> (nat \<Rightarrow> byte list option) \<Rightarrow> (GLfloat \<Rightarrow> string) \<Rightarrow> camera_device \<Rightarrow> camera_device \<Rightarrow> bool"
  for alloc fresh fmt_g
where
  initialize: "(\<And>fd. sock = Inr fd \<Longrightarrow> 0 \<le> fd) \<Longrightarrow>
     device_step alloc fresh fmt_g d (snd (Initialize alloc thread_ok sock conn d device_name))"
| info: "getDeviceInfo alloc d p_info = Some (r, e) \<Longrightarrow> device_step alloc fresh fmt_g d e"
| connect: "device_step alloc fresh fmt_g d (snd (connectDevice alloc d))"
| disconnect: "device_step alloc fresh fmt_g d (snd (disconnectDevice alloc d))"
| start: "device_step alloc fresh fmt_g d (snd (startDevice alloc fresh d width height pix_fmt))"
| stop: "device_step alloc fresh fmt_g d (snd (stopDevice alloc d))"
| exposure: "device_step alloc fresh fmt_g d (setExposureCompensation pow_gamma d ev)"
| balance_mode: "device_step alloc fresh fmt_g d (initializeWhiteBalanceModes d mode r_scale b_scale)"
| balance: "device_step alloc fresh fmt_g d (setWhiteBalanceMode d mode)"
| deliver: "device_step alloc fresh fmt_g d (snd (startDeliveringFrames d one_burst run_res))"
| undeliver: "device_step alloc fresh fmt_g d (snd (stopDeliveringFrames d wres errn join))"
| ready: "mWorkerThread d = Some t \<Longrightarrow>
     device_step alloc fresh fmt_g d (d\<lparr>mWorkerThread := Some (snd (readyToRun t fds))\<rparr>)"
| frame: "threadLoop alloc fmt_g sel now1 now2 stamp d = Some (again, e) \<Longrightarrow> device_step alloc fresh fmt_g d e"
| service: "device_step alloc fresh fmt_g d
     (d\<lparr>mGenyClient := (mGenyClient d)\<lparr>sends := ss, reads := rs\<rparr>\<rparr>)"

inductive_cases device_stepE: "device_step alloc fresh fmt_g d e"

definition device_inv :: "camera_device \<Rightarrow> bool" where
  "device_inv d \<longleftrightarrow>
     (mState d \<noteq> ECDS_CONSTRUCTED \<longrightarrow> mWorkerThread d \<noteq> None \<and> mSocketFD (mGenyClient d) \<ge> 0)
   \<and> (mState d = ECDS_STARTED \<longrightarrow> mCurrentFrame d \<noteq> None \<and> supported_format (mPixelFormat d)
        \<and> mFrameBufferSize d = frame_bytes (mFrameWidth d) (mFrameHeight d))
   \<and> (\<forall>f. mCurrentFrame d = Some f \<longrightarrow> length f = unat (mFrameBufferSize d) \<and> 0 < frames_allocated d)"

lemma device_inv_client:
  assumes "device_inv d" and "mSocketFD c = mSocketFD (mGenyClient d)"
  shows "device_inv (d\<lparr>mGenyClient := c\<rparr>)"
  using assms by (simp add: device_inv_def)

lemma device_inv_thread:
  "device_inv d \<Longrightarrow> device_inv (d\<lparr>mWorkerThread := Some t\<rparr>)"
  by (simp add: device_inv_def)

text \<open>What the device relies on in a query of its client: the connection stays.\<close>

locale client_query =
  fixes qry :: query
  assumes keeps_fd: "mSocketFD (snd (qry c)) = mSocketFD c"
begin

lemma with_client_fd:
  assumes "with_client qry d = (res, e)"
  shows "\<exists>c. e = d\<lparr>mGenyClient := c\<rparr> \<and> mSocketFD c = mSocketFD (mGenyClient d)"
  using assms keeps_fd [of "mGenyClient d"] by (auto simp: with_client_def split: prod.splits)

lemma with_client_inv:
  assumes "device_inv d" and "with_client qry d = (res, e)"
  shows "device_inv e" and "\<exists>c. e = d\<lparr>mGenyClient := c\<rparr> \<and> mSocketFD c = mSocketFD (mGenyClient d)"
  using with_client_fd [OF assms(2)] device_inv_client [OF assms(1)] by auto

end

interpretation connect_query: client_query "queryConnect alloc" for alloc
  by unfold_locales (rule query_fds)

interpretation disconnect_query: client_query "queryDisconnect alloc" for alloc
  by unfold_locales (rule query_fds)

interpretation stop_query: client_query "queryStop alloc" for alloc
  by unfold_locales (rule query_fds)

interpretation start_query: client_query "\<lambda>c. queryStart alloc c fmt w h" for alloc fmt w h
  by unfold_locales (rule query_fds)

lemma Initialize_inv:
  assumes "device_inv d" and "\<And>fd. sock = Inr fd \<Longrightarrow> 0 \<le> fd"
  shows "device_inv (snd (Initialize alloc thread_ok sock conn d device_name))"
proof -
  obtain res c where con: "connectClient (mGenyClient d) sock conn = (res, c)" by (rule prod.exhaust)
  have c: "mSocketFD c \<ge> 0 \<or> mSocketFD (mGenyClient d) < 0" "res = NO_ERROR \<Longrightarrow> mSocketFD c \<ge> 0"
    using con assms(2) by (auto simp: connectClient_def errno_or_def status_defs Let_def split: if_splits sum.splits prod.splits)
  let ?e = "d\<lparr>mGenyClient := c\<rparr>"
  have e: "device_inv ?e" using assms(1) c(1) by (auto simp: device_inv_def)
  show ?thesis
  proof (cases "res = NO_ERROR")
    case False
    then show ?thesis using e by (simp add: Initialize_def with_client_def con)
  next
    case True
    obtain r2 f where base: "Initialize_base thread_ok ?e = (r2, f)" by (rule prod.exhaust)
    have f: "device_inv f" "r2 = NO_ERROR \<Longrightarrow> device_inv (f\<lparr>mDeviceName := n\<rparr>)" for n
      using base e c(2) True by (auto simp: Initialize_base_def device_inv_def isInitialized_def status_defs split: if_splits)
    obtain r3 g where disc: "with_client (queryDisconnect alloc) f = (r3, g)" by (rule prod.exhaust)
    have "device_inv g" using disconnect_query.with_client_inv(1) [OF f(1) disc] .
    then show ?thesis using f True by (simp add: Initialize_def with_client_def con base) (simp add: with_client_def [symmetric] disc)
  qed
qed

lemma connectDevice_inv:
  assumes "device_inv d"
  shows "device_inv (snd (connectDevice alloc d))"
proof -
  obtain r e where w: "with_client (queryConnect alloc) d = (r, e)" by (rule prod.exhaust)
  have "device_inv e" and "mWorkerThread e = mWorkerThread d" and "mState e = mState d"
    using connect_query.with_client_inv [OF assms w] by auto
  then show ?thesis using assms by (auto simp: connectDevice_def w isInitialized_def isConnected_def device_inv_def)
qed

lemma disconnectDevice_inv:
  assumes "device_inv d"
  shows "device_inv (snd (disconnectDevice alloc d))"
proof -
  obtain r e where w: "with_client (queryDisconnect alloc) d = (r, e)" by (rule prod.exhaust)
  have "device_inv e" and "mState e = mState d"
    using disconnect_query.with_client_inv [OF assms w] by auto
  then show ?thesis using assms by (auto simp: disconnectDevice_def w isConnected_def device_inv_def)
qed

text \<open>After \<open>commonStartDevice\<close> has succeeded the frame has the size of the format.\<close>

lemma commonStartDevice_cases:
  assumes "commonStartDevice fresh d width height pix_fmt = (res, e)" and "\<And>n bs. fresh n = Some bs \<Longrightarrow> length bs = n"
  shows "res \<noteq> NO_ERROR \<and> (e = d \<or> mCurrentFrame e = None \<and> mState e = mState d \<and> mWorkerThread e = mWorkerThread d
           \<and> mGenyClient e = mGenyClient d)
    \<or> res = NO_ERROR \<and> supported_format pix_fmt \<and> (\<exists>bs. length bs = unat (frame_bytes width height) \<and>
        e = d\<lparr>mFrameBufferSize := frame_bytes width height, mFrameWidth := width, mFrameHeight := height,
              mPixelFormat := pix_fmt, mTotalPixels := i32 (width * height), mCurrentFrame := Some bs,
              frames_allocated := frames_allocated d + 1\<rparr>)"
  using assms by (auto simp: commonStartDevice_def Let_def status_defs split: if_splits option.splits)

lemma startDevice_inv:
  assumes "device_inv d" and "\<And>n bs. fresh n = Some bs \<Longrightarrow> length bs = n"
  shows "device_inv (snd (startDevice alloc fresh d width height pix_fmt))"
proof (cases "mState d = ECDS_CONNECTED")
  case False
  then show ?thesis using assms(1) by (auto simp: startDevice_def isConnected_def isStarted_def)
next
  case True
  obtain r e where c: "commonStartDevice fresh d width height pix_fmt = (r, e)" by (rule prod.exhaust)
  note cases = commonStartDevice_cases [OF c assms(2)]
  have e: "device_inv e" "mState e = ECDS_CONNECTED" using assms(1) cases True by (auto simp: device_inv_def)
  obtain r2 f where w: "with_client (\<lambda>c. queryStart alloc c (mPixelFormat e) (mFrameWidth e) (mFrameHeight e)) e = (r2, f)"
    by (rule prod.exhaust)
  have f: "device_inv f" and "\<exists>c. f = e\<lparr>mGenyClient := c\<rparr> \<and> mSocketFD c = mSocketFD (mGenyClient e)"
    using start_query.with_client_inv [OF e(1) w] by blast+
  then have "device_inv (f\<lparr>mState := ECDS_STARTED\<rparr>)" if "r = NO_ERROR"
    using cases that e by (auto simp: device_inv_def)
  then show ?thesis using True e f by (auto simp: startDevice_def isConnected_def isStarted_def c w)
qed

lemma stopDevice_inv:
  assumes "device_inv d"
  shows "device_inv (snd (stopDevice alloc d))"
proof -
  obtain r e where w: "with_client (queryStop alloc) d = (r, e)" by (rule prod.exhaust)
  have "device_inv e" and "mState e = mState d"
    using stop_query.with_client_inv [OF assms w] by auto
  then show ?thesis using assms
    by (auto simp: stopDevice_def w isStarted_def commonStopDevice_def device_inv_def Let_def)
qed

lemma inWorkerThread_inv:
  assumes "device_inv d" and "inWorkerThread alloc fmt_g sel now1 now2 stamp d = Some (b, e)"
  shows "device_inv e"
proof (cases "sel (wait_usec (i32 now1) (mLastFrame d)) = EXIT_THREAD")
  case True
  then show ?thesis using assms by (simp add: inWorkerThread_def)
next
  case False
  then obtain r g bl where w: "mWhiteBalanceScale d = Some (r, g, bl)"
    using assms(2) by (auto simp: inWorkerThread_def Let_def split: option.splits)
  obtain res vf pf c where q: "queryFrame alloc fmt_g (mGenyClient d) (mCurrentFrame d) None (mFrameBufferSize d) 0 r g bl
      (mExposureCompensation d) = Some ((res, vf, pf), c)"
    using assms(2) False w by (auto simp: inWorkerThread_def Let_def split: option.splits prod.splits)
  have "mSocketFD c = mSocketFD (mGenyClient d)" and "map_option length vf = map_option length (mCurrentFrame d)"
    using queryFrame_keeps [OF q] by blast+
  moreover have "\<exists>ts ns. e = d\<lparr>mLastFrame := i32 now2, mGenyClient := c, mCurrentFrame := vf, mCurFrameTimestamp := ts, notified := ns\<rparr>"
  proof (cases "res = NO_ERROR")
    case True
    then have "e = d\<lparr>mLastFrame := i32 now2, mGenyClient := c, mCurrentFrame := vf, mCurFrameTimestamp := stamp,
        notified := notified d @ [NextFrame vf stamp]\<rparr>"
      using assms(2) False w q by (simp add: inWorkerThread_def Let_def)
    then show ?thesis by blast
  next
    case res: False
    then have "e = d\<lparr>mLastFrame := i32 now2, mGenyClient := c, mCurrentFrame := vf, mCurFrameTimestamp := mCurFrameTimestamp d,
        notified := notified d @ [DeviceError 100]\<rparr>"
      using assms(2) False w q by (simp add: inWorkerThread_def Let_def)
    then show ?thesis by blast
  qed
  ultimately show ?thesis using assms(1) by (cases vf; cases "mCurrentFrame d") (auto simp: device_inv_def)
qed

lemma thread_ops_inv:
  assumes "device_inv d"
  shows "device_inv (snd (startDeliveringFrames d one_burst run_res))"
    and "device_inv (snd (stopDeliveringFrames d wres errn join))"
  using assms device_inv_thread [OF assms]
  by (auto simp: startDeliveringFrames_def startWorkerThread_def stopDeliveringFrames_def stopWorkerThread_def
      split: prod.split)

lemma settings_inv:
  assumes "device_inv d"
  shows "device_inv (setExposureCompensation pow_gamma d ev)" and "device_inv (setWhiteBalanceMode d mode)"
    and "device_inv (initializeWhiteBalanceModes d mode r_scale b_scale)"
  using assms
  by (simp_all add: device_inv_def setExposureCompensation_def setWhiteBalanceMode_def initializeWhiteBalanceModes_def)

lemma device_step_inv:
  assumes "device_step alloc fresh fmt_g d e" and "device_inv d" and "\<And>n bs. fresh n = Some bs \<Longrightarrow> length bs = n"
  shows "device_inv e"
  using assms(1)
proof cases
  case (info p_info r)
  then show ?thesis using device_inv_client [OF assms(2)] assms(2)
    by (auto simp: getDeviceInfo_def queryInfo_fd split: if_splits)
next
  case (frame sel now1 now2 stamp again)
  then obtain b where "inWorkerThread alloc fmt_g sel now1 now2 stamp d = Some (b, e)"
    by (auto simp: threadLoop_def)
  then show ?thesis by (rule inWorkerThread_inv [OF assms(2)])
qed (use assms(2,3) in \<open>auto intro: Initialize_inv connectDevice_inv disconnectDevice_inv startDevice_inv stopDevice_inv
  thread_ops_inv device_inv_thread device_inv_client settings_inv\<close>)

inductive device_reach ::
  "allocation \<Rightarrow> (nat \<Rightarrow> byte list option) \<Rightarrow> (GLfloat \<Rightarrow> string) \<Rightarrow> camera_device \<Rightarrow> bool"
  for alloc fresh fmt_g
where
  new: "device_reach alloc fresh fmt_g (new_device fsize fmt w h tp)"
| step: "device_reach alloc fresh fmt_g d \<Longrightarrow> device_step alloc fresh fmt_g d e \<Longrightarrow> device_reach alloc fresh fmt_g e"

lemma device_reach_inv:
  assumes "device_reach alloc fresh fmt_g d" and "\<And>n bs. fresh n = Some bs \<Longrightarrow> length bs = n"
  shows "device_inv d"
  using assms(1)
proof induction
  case (new fsize fmt w h tp)
  then show ?case by (simp add: new_device_def device_inv_def)
qed (rule device_step_inv [OF _ _ assms(2)])

end
