(* ===== verification/CameraProperties.thy ===== *)
theory CameraProperties
  imports CameraSteps
begin

text \<open>
  The properties of the camera: colours and frames, the messages of the service, and the device
  that turns the one into the other.
\<close>

section \<open>Colours\<close>

lemma uint_byte: "0 \<le> x \<Longrightarrow> x < 256 \<Longrightarrow> uint (word_of_int x :: byte) = x"
  by (simp add: uint_word_of_int_eq take_bit_int_eq_self)

lemma byte_range: "0 \<le> uint (b :: byte)" "uint (b :: byte) < 256"
  using unsigned_less [of b, where 'a = int] by simp_all

lemma div256: "256 * (x div 256) \<le> (x :: int)" "x < 256 * (x div 256) + 256"
  by simp_all

lemma clamp_near:
  assumes "\<bar>x - c\<bar> \<le> d" and "0 \<le> c" and "c < 256"
  shows "\<bar>clamp x - c\<bar> \<le> d"
  using assms by (auto simp: clamp_def)

lemma yuv_of_rgb:
  assumes "0 \<le> r" "r < 256" "0 \<le> g" "g < 256" "0 \<le> b" "b < 256"
  defines "y \<equiv> (66 * r + 129 * g + 25 * b + 128) div 256 + 16"
    and "u \<equiv> (- 38 * r - 74 * g + 112 * b + 128) div 256 + 128"
    and "v \<equiv> (112 * r - 94 * g - 18 * b + 128) div 256 + 128"
  shows "16 \<le> y" "y \<le> 235" "16 \<le> u" "u \<le> 240" "16 \<le> v" "v \<le> 240"
    and "\<bar>YUV2R y u v - r\<bar> \<le> 2" "\<bar>YUV2G y u v - g\<bar> \<le> 2" "\<bar>YUV2B y u v - b\<bar> \<le> 3"
proof -
  define p q s where "p = (66 * r + 129 * g + 25 * b + 128) div 256"
    and "q = (- 38 * r - 74 * g + 112 * b + 128) div 256"
    and "s = (112 * r - 94 * g - 18 * b + 128) div 256"
  note pqs = div256 [of "66 * r + 129 * g + 25 * b + 128", folded p_def]
    div256 [of "- 38 * r - 74 * g + 112 * b + 128", folded q_def]
    div256 [of "112 * r - 94 * g - 18 * b + 128", folded s_def]
  note yuv = y_def [folded p_def] u_def [folded q_def] v_def [folded s_def]
  show "16 \<le> y" "y \<le> 235" "16 \<le> u" "u \<le> 240" "16 \<le> v" "v \<le> 240"
    unfolding yuv using pqs assms(1-6) by linarith+
  have "\<bar>(298 * p + 409 * s + 128) div 256 - r\<bar> \<le> 2"
    using pqs assms(1-6) div256 [of "298 * p + 409 * s + 128"] by linarith
  then show "\<bar>YUV2R y u v - r\<bar> \<le> 2" unfolding YUV2R_def yuv by (intro clamp_near) (use assms in simp_all)
  have "\<bar>(298 * p - 100 * q - 208 * s + 128) div 256 - g\<bar> \<le> 2"
    using pqs assms(1-6) div256 [of "298 * p - 100 * q - 208 * s + 128"] by linarith
  then show "\<bar>YUV2G y u v - g\<bar> \<le> 2" unfolding YUV2G_def yuv by (intro clamp_near) (use assms in simp_all)
  have "\<bar>(298 * p + 516 * q + 128) div 256 - b\<bar> \<le> 3"
    using pqs assms(1-6) div256 [of "298 * p + 516 * q + 128"] by linarith
  then show "\<bar>YUV2B y u v - b\<bar> \<le> 3" unfolding YUV2B_def yuv by (intro clamp_near) (use assms in simp_all)
qed

text \<open>
  C24. Converting a colour to YUV and back changes red and green by at most 2 and blue by at most
  3, and the YUV values stay in the range of video (16 to 235, and 16 to 240).
\<close>

theorem rgb_yuv_roundtrip:
  assumes "R8G8B8ToYUV r g b = (y, u, v)"
  shows "\<bar>YUV2R (uint y) (uint u) (uint v) - uint r\<bar> \<le> 2
    \<and> \<bar>YUV2G (uint y) (uint u) (uint v) - uint g\<bar> \<le> 2
    \<and> \<bar>YUV2B (uint y) (uint u) (uint v) - uint b\<bar> \<le> 3
    \<and> 16 \<le> uint y \<and> uint y \<le> 235 \<and> 16 \<le> uint u \<and> uint u \<le> 240 \<and> 16 \<le> uint v \<and> uint v \<le> 240"
proof -
  note yuv = yuv_of_rgb [OF byte_range(1) [of r] byte_range(2) [of r] byte_range(1) [of g] byte_range(2) [of g]
      byte_range(1) [of b] byte_range(2) [of b]]
  have e: "uint y = (66 * uint r + 129 * uint g + 25 * uint b + 128) div 256 + 16"
    and e2: "uint u = (- 38 * uint r - 74 * uint g + 112 * uint b + 128) div 256 + 128"
    and e3: "uint v = (112 * uint r - 94 * uint g - 18 * uint b + 128) div 256 + 128"
    using assms yuv(1-6)
    by (auto simp: R8G8B8ToYUV_def RGB2Y_def RGB2U_def RGB2V_def simp del: of_int_add intro!: uint_byte)
  show ?thesis unfolding e e2 e3 by (intro conjI yuv)
qed

theorem rgb_yuv_roundtrip_witness:
  "R8G8B8ToYUV 255 128 0 = (146, 53, 193) \<and> \<bar>YUV2B 146 53 193 - 0\<bar> \<le> 3"
proof -
  have e: "R8G8B8ToYUV 255 128 0 = (146, 53, 193)" by (simp add: R8G8B8ToYUV_def RGB2Y_def RGB2U_def RGB2V_def)
  then show ?thesis using rgb_yuv_roundtrip [OF e] by simp
qed

section \<open>Frames\<close>

lemma yuv_row_length:
  "yuv_row px src dUV k p rgb = Some (q, out) \<Longrightarrow> length out = length rgb + 2 * k"
proof (induction k arbitrary: p rgb)
  case (Suc k)
  then show ?case by (cases p) (auto simp: Let_def split: option.splits)
next
  case 0
  then show ?case by (cases p) simp
qed

lemma yuv_rows_length:
  "yuv_rows px src dUV k h y p uv rgb = Some out \<Longrightarrow> length out = length rgb + 2 * k * h"
proof (induction h arbitrary: y p uv rgb)
  case (Suc h)
  obtain Y U V U_pos V_pos where p: "p = (Y, U, V)" "uv = (U_pos, V_pos)" by (metis prod_cases3 surj_pair)
  obtain Y' U' V' mid where row: "yuv_row px src dUV k (Y, U, V) rgb = Some ((Y', U', V'), mid)"
    using Suc.prems unfolding p by (auto split: option.splits)
  have "length out = length mid + 2 * k * h"
    using Suc.prems Suc.IH unfolding p by (auto simp: row split: if_splits)
  then show ?case using yuv_row_length [OF row] by simp
next
  case 0
  then show ?case by (cases p; cases uv) simp
qed

lemma preview_cases:
  assumes "getCurrentPreviewFrame a d True = Some (NO_ERROR, Some px)"
  obtains src Y U V dUV where
    "yuv_frame (\<lambda>n. YUVToRGB32 (a n)) src Y U V dUV (mFrameWidth d) (mFrameHeight d) = Some px"
  using assms
  by (auto simp: getCurrentPreviewFrame_def YV12ToRGB32_def YU12ToRGB32_def NV21ToRGB32_def NV12ToRGB32_def
      NVXXToRGB32_def YUV420SToRGB32_def Let_def split: if_splits option.splits)

text \<open>
  A frame of odd width overruns the preview: the converters write a pixel more in every row
  than the frame has, behind the end of a buffer of \<open>width * height\<close> pixels.
\<close>

theorem odd_width_overruns:
  assumes "odd (mFrameWidth d)" and "0 < mFrameWidth d" and "0 \<le> mFrameHeight d"
    and "getCurrentPreviewFrame a d True = Some (NO_ERROR, Some px)"
  shows "int (length px) = mFrameWidth d * mFrameHeight d + mFrameHeight d"
proof -
  obtain src Y U V dUV where
    "yuv_frame (\<lambda>n. YUVToRGB32 (a n)) src Y U V dUV (mFrameWidth d) (mFrameHeight d) = Some px"
    using assms(4) by (rule preview_cases)
  then have len: "length px = 2 * nat ((mFrameWidth d + 1) div 2) * nat (mFrameHeight d)"
    by (simp add: yuv_frame_def yuv_rows_length [where rgb = "[]", simplified])
  obtain j where w: "mFrameWidth d = 2 * j + 1" using assms(1) by (rule oddE)
  have "int (length px) = 2 * (j + 1) * mFrameHeight d" unfolding len w using assms(2,3) w by simp
  then show ?thesis by (simp add: w algebra_simps)
qed

definition odd_device :: camera_device where
  "odd_device = (new_device 9 V4L2_PIX_FMT_YUV420 3 2 6)\<lparr>mState := ECDS_STARTED, mCurrentFrame := Some (replicate 9 16),
     mWorkerThread := Some \<lparr>mThreadControl = - 1, mControlFD = - 1, mOneBurst = False\<rparr>, frames_allocated := 1\<rparr>"

theorem odd_width_overruns_witness:
  "\<exists>px. getCurrentPreviewFrame (\<lambda>_. 0) odd_device True = Some (NO_ERROR, Some px) \<and> int (length px) = 8"
proof -
  have n: "nat ((3 + 1) div 2 :: int) = Suc (Suc 0)" "nat (2 :: int) = Suc (Suc 0)" by simp_all
  have "\<exists>px. yuv_frame f (replicate 9 16) 0 6 (6 + 1) 1 3 2 = Some px" for f :: "nat \<Rightarrow> int \<Rightarrow> int \<Rightarrow> int \<Rightarrow> u32"
    unfolding yuv_frame_def n by (simp add: rd_byte_def Let_def)
  moreover have "i32 (3 * 2) = 6" "c_div 6 4 = 1" by (simp_all add: c_div_def i32_def)
  ultimately have "\<exists>px. YU12ToRGB32 (\<lambda>_. 0) (replicate 9 16) 3 2 = Some px"
    unfolding YU12ToRGB32_def YUV420SToRGB32_def Let_def by simp
  then have "\<exists>px. getCurrentPreviewFrame (\<lambda>_. 0) odd_device True = Some (NO_ERROR, Some px)"
    by (auto simp: odd_device_def new_device_def getCurrentPreviewFrame_def isStarted_def pix_fmt_defs Let_def)
  then obtain px where px: "getCurrentPreviewFrame (\<lambda>_. 0) odd_device True = Some (NO_ERROR, Some px)" ..
  have "int (length px) = 8"
    using odd_width_overruns [OF _ _ _ px] by (simp add: odd_device_def new_device_def)
  with px show ?thesis by blast
qed

text \<open>The places of the chroma samples in the four formats: their distance, and the first of each.\<close>

definition chroma_of :: "u32 \<Rightarrow> int \<Rightarrow> int \<times> int \<times> int" where
  "chroma_of fmt N =
     (if fmt = V4L2_PIX_FMT_YVU420 then (1, 5 * N, 4 * N) else if fmt = V4L2_PIX_FMT_YUV420 then (1, 4 * N, 5 * N)
      else if fmt = V4L2_PIX_FMT_NV21 then (2, 4 * N + 1, 4 * N) else (2, 4 * N, 4 * N + 1))"

text \<open>Pixel \<open>(x, y)\<close> of a frame of \<open>2 * k\<close> by \<open>2 * m\<close> pixels.\<close>

definition shown_pixel :: "(nat \<Rightarrow> byte) \<Rightarrow> u32 \<Rightarrow> byte list \<Rightarrow> nat \<Rightarrow> nat \<Rightarrow> nat \<Rightarrow> nat \<Rightarrow> u32" where
  "shown_pixel a fmt src k m x y =
     (case chroma_of fmt (int k * int m) of (dUV, U, V) \<Rightarrow>
        let i = 2 * k * y + x; c = int (k * (y div 2) + x div 2) in
        YUVToRGB32 (a i) (samples src (int i)) (samples src (U + dUV * c)) (samples src (V + dUV * c)))"

lemma frame_bytes_even:
  assumes "48 * k * m < 2147483648"
  shows "unat (frame_bytes (2 * int k) (2 * int m)) = 6 * k * m"
proof -
  define N where "N = k * m"
  have N: "int k * int m = int N" "6 * k * m = 6 * N" by (simp_all add: N_def)
  have small: "48 * N < 2147483648" unfolding N_def using assms by (simp only: mult.assoc)
  have "int (48 * N) < int 2147483648" unfolding of_nat_less_iff by (rule small)
  then have bound: "0 \<le> int N" "48 * int N < 2147483648" by simp_all
  have "2 * int k * (2 * int m) = 4 * int N" using N(1) by simp
  moreover have "i32 (4 * int N) = 4 * int N" by (intro i32_id int_rangeI) (use bound in linarith)+
  moreover have "i32 (4 * int N * 12) = 4 * int N * 12" by (intro i32_id int_rangeI) (use bound in linarith)+
  moreover have "4 * int N * 12 = int (6 * N) * 8" by simp
  ultimately have "frame_bytes (2 * int k) (2 * int m) = word_of_int (int (6 * N))"
    by (simp only: frame_bytes_def c_div_exact of_nat_0_le_iff zero_less_numeral)
  moreover have "6 * N < 4294967296" using small by linarith
  ultimately show ?thesis by (simp only: of_int_of_nat_eq unat_of_nat32 N(2))
qed

lemma preview_shows:
  assumes "device_inv d" and "isStarted d" and "mCurrentFrame d = Some src"
    and "mFrameWidth d = 2 * int k" and "mFrameHeight d = 2 * int m" and "0 < k" and "48 * k * m < 2147483648"
  shows "\<exists>px. getCurrentPreviewFrame a d True = Some (NO_ERROR, Some px) \<and> length px = 4 * k * m
    \<and> (\<forall>x < 2 * k. \<forall>y < 2 * m. px ! (2 * k * y + x) = shown_pixel a (mPixelFormat d) src k m x y)"
proof -
  define N where "N = int k * int m"
  have size: "6 * k * m \<le> length src" and fmt: "supported_format (mPixelFormat d)"
    using assms(1-3) frame_bytes_even [OF assms(7)] by (auto simp: device_inv_def isStarted_def assms(4,5))
  have wh: "mFrameWidth d * mFrameHeight d < 2147483648"
    using assms(7) by (simp add: assms(4,5) flip: of_nat_mult)
  note conv = converted_frames [OF assms(6,4,5) wh size N_def]
  define dUV U V where "dUV = fst (chroma_of (mPixelFormat d) N)" and "U = fst (snd (chroma_of (mPixelFormat d) N))"
    and "V = snd (snd (chroma_of (mPixelFormat d) N))"
  have ch: "chroma_of (mPixelFormat d) N = (dUV, U, V)" by (simp add: dUV_def U_def V_def)
  let ?px = "frame_pixels (\<lambda>n. YUVToRGB32 (a n)) src dUV k (0, U, V) 0 (2 * m)"
  have "getCurrentPreviewFrame a d True = Some (NO_ERROR, Some ?px)"
    using assms(2,3) fmt
    by (auto simp: getCurrentPreviewFrame_def supported_format_def dUV_def U_def V_def chroma_of_def conv Let_def pix_fmt_defs)
  moreover have "?px ! (2 * k * y + x) = shown_pixel a (mPixelFormat d) src k m x y" if "x < 2 * k" "y < 2 * m" for x y
    using that by (simp add: frame_pixels_nth shown_pixel_def N_def [symmetric] ch Let_def del: of_nat_add of_nat_mult)
  ultimately show ?thesis by (intro exI [of _ ?px]) simp
qed

text \<open>
  C37. \<open>YV12ToRGB565\<close> takes the V plane of a YV12 frame for its U plane: every pixel it makes has the
  two chroma samples exchanged that \<open>YV12ToRGB32\<close> makes of the same frame.
\<close>

theorem yv12_rgb565_swaps_chroma:
  assumes "0 < k" and "6 * k * m \<le> length src" and "2 * int k * (2 * int m) < 2147483648"
  shows "\<exists>px32 px16. YV12ToRGB32 a src (2 * int k) (2 * int m) = Some px32
    \<and> YV12ToRGB565 src (2 * int k) (2 * int m) = Some px16
    \<and> (\<forall>x < 2 * k. \<forall>y < 2 * m.
         let i = 2 * k * y + x; c = int (k * (y div 2) + x div 2); N = int k * int m;
             first = samples src (4 * N + c); second = samples src (5 * N + c)
         in px32 ! i = YUVToRGB32 (a i) (samples src (int i)) second first
          \<and> px16 ! i = YUVToRGB565 (samples src (int i)) first second)"
proof -
  note conv = converted_frames(1,5) [OF assms(1) refl refl assms(3,2) refl]
  show ?thesis unfolding conv Let_def option.inject
    by (simp add: frame_pixels_nth del: of_nat_add of_nat_mult)
qed

theorem yv12_rgb565_swaps_chroma_witness:
  "\<exists>px32 px16. YV12ToRGB32 (\<lambda>_. 0) [16, 16, 16, 16, 240, 128] 2 2 = Some px32
    \<and> YV12ToRGB565 [16, 16, 16, 16, 240, 128] 2 2 = Some px16
    \<and> px32 ! 0 = YUVToRGB32 0 16 128 240 \<and> px16 ! 0 = YUVToRGB565 16 240 128"
proof -
  have "samples [16, 16, 16, 16, 240, 128] 0 = 16" "samples [16, 16, 16, 16, 240, 128] 4 = 240"
    "samples [16, 16, 16, 16, 240, 128] 5 = 128"
    by (simp_all add: samples_def)
  with yv12_rgb565_swaps_chroma [of 1 1 "[16, 16, 16, 16, 240, 128]" "\<lambda>_. 0"] show ?thesis
    by (auto simp: Let_def dest!: spec [of _ 0])
qed

section \<open>Messages\<close>

text \<open>The frame in the answer to a \<open>frame\<close> query reaches the buffer, in however many pieces it comes.\<close>

lemma frame_text_bounds [simp]:
  "frame_text fmt_g v p r g b e \<noteq> []" "length (frame_text fmt_g v p r g b e) \<le> 255"
  by (simp_all add: frame_text_def mQueryFrame_def)

lemma copy_frame_all:
  assumes "0 < unat n" and "length buf = unat n" and "unat n \<le> length frame"
  shows "copy_frame frame 0 (Some buf) n = Some (NO_ERROR, Some (take (unat n) frame), unat n)"
proof -
  have "n \<noteq> 0" using assms(1) by auto
  then show ?thesis using assms by (simp add: copy_frame_def blit_def)
qed

lemma frame_arrives:
  assumes "answering c pieces rest (bytes_of ''ok:'' @ frame)" and "alloc (length frame + 3)"
    and "0 < unat n" and "length buf = unat n" and "unat n \<le> length frame"
  shows "queryFrame alloc fmt_g c (Some buf) None n 0 r g b e =
    Some ((NO_ERROR, Some (take (unat n) frame), None), asked c (frame_text fmt_g n 0 r g b e) rest)"
proof -
  have ok: "length (bytes_of ''ok:'') = 3" by (simp add: bytes_of_def)
  have n: "n \<noteq> 0" "frame \<noteq> []" using assms(3,5) by auto
  let ?q = "new_QemuQuery\<lparr>mQueryPrealloc := frame_text fmt_g n 0 r g b e, mReplyBuffer := Some (bytes_of ''ok:'' @ frame),
      mReplySize := length frame + 3, mQueryDeliveryStatus := NO_ERROR, mReplyStatus := 1, mReplyData := Some 3,
      mReplyDataSize := length frame\<rparr>"
  have "doQuery alloc c (QemuQuery_of alloc (frame_text fmt_g n 0 r g b e))
      = (NO_ERROR, asked c (frame_text fmt_g n 0 r g b e) rest, ?q)"
    using assms(2) n by (subst doQuery_answering [OF assms(1)]) (simp_all add: completeQuery_ok_data ok add.commute)
  moreover have "drop 3 (bytes_of ''ok:'' @ frame) = frame" by (simp add: bytes_of_def)
  ultimately show ?thesis using n copy_frame_all [OF assms(3-5)]
    by (simp add: queryFrame_def getCompletionStatus_def Let_def copy_frame_def [of _ _ None])
qed

text \<open>
  C39. The size in front of an answer has to come in one piece, although the payload has not: when
  the first \<open>read\<close> gives fewer than eight bytes the query fails, the frame stays as it was, and
  the rest of the answer is left in the stream, where the next query takes it for its own.
\<close>

theorem fragmented_size_fails:
  assumes "mSocketFD c \<ge> 0" and "sends c = []" and "reads c = Inr piece # rest" and "piece \<noteq> []" and "length piece < 8"
  shows "\<exists>st. st \<noteq> NO_ERROR \<and> queryFrame alloc fmt_g c (Some buf) None n 0 r g b e =
    Some ((st, Some buf, None),
      c\<lparr>sent := sent c @ bytes_of (frame_text fmt_g n 0 r g b e) @ [0], reads := rest\<rparr>)"
proof -
  have n: "(if Some buf \<noteq> None \<and> n \<noteq> 0 then n else 0) = n" "(if None \<noteq> None \<and> 0 \<noteq> 0 then 0 else 0) = (0 :: size_t)"
    by simp_all
  let ?t = "frame_text fmt_g n 0 r g b e"
  let ?d = "c\<lparr>sent := sent c @ bytes_of ?t @ [0]\<rparr>"
  have send: "sendMessage c (bytes_of ?t @ [0]) = (NO_ERROR, ?d)"
    using assms(1,2) by (simp add: sendMessage_def sock_send_def)
  have recv: "receiveMessage alloc ?d = ((errno_or c EIO, None, 0), ?d\<lparr>reads := rest\<rparr>)"
    using assms by (simp add: receiveMessage_def sock_read_def errno_or_def)
  have st: "errno_or c EIO \<noteq> NO_ERROR" by (simp add: errno_or_def status_defs)
  have "\<exists>q. doQuery alloc c (QemuQuery_of alloc ?t) = (errno_or c EIO, ?d\<lparr>reads := rest\<rparr>, q) \<and> getCompletionStatus q = errno_or c EIO"
    using st by (simp add: doQuery_def QemuQuery_of_short query_chars_def new_QemuQuery_def send recv completeQuery_def
        getCompletionStatus_def)
  then obtain q where q: "doQuery alloc c (QemuQuery_of alloc ?t) = (errno_or c EIO, ?d\<lparr>reads := rest\<rparr>, q)"
      "getCompletionStatus q = errno_or c EIO" by blast
  have "queryFrame alloc fmt_g c (Some buf) None n 0 r g b e = Some ((errno_or c EIO, Some buf, None), ?d\<lparr>reads := rest\<rparr>)"
    unfolding queryFrame_def n Let_def q(1) prod.case q(2) using st by simp
  then show ?thesis using st by (intro exI [of _ "errno_or c EIO"]) simp
qed

theorem fragmented_size_fails_witness:
  "\<exists>st c. st \<noteq> NO_ERROR \<and> queryFrame (\<lambda>_. True) (\<lambda>_. []) (new_GenyClient\<lparr>mSocketFD := 5, reads := [Inr [48, 48], Inr [48, 57]]\<rparr>)
     (Some [0]) None 1 0 1 2 3 4 = Some ((st, Some [0], None), c) \<and> reads c = [Inr [48, 57]]"
proof -
  let ?c = "new_GenyClient\<lparr>mSocketFD := 5, reads := [Inr [48, 48], Inr [48, 57]]\<rparr>"
  have "mSocketFD ?c \<ge> 0" "sends ?c = []" "reads ?c = Inr [48, 48] # [Inr [48, 57]]" by (simp_all add: new_GenyClient_def)
  from fragmented_size_fails [OF this, where buf = "[0]" and n = 1]
  show ?thesis by force
qed

section \<open>The device\<close>

text \<open>
  C14. Every device that the operations reach, in any order and with any answers of the system and of
  the service, is sound: one that is initialized has its thread and its connection, one that is
  started has a frame, in a supported format, of the size that the format and the dimensions ask for.
\<close>

theorem camera_sound:
  assumes "device_reach alloc fresh fmt_g d" and "\<And>n bs. fresh n = Some bs \<Longrightarrow> length bs = n"
  shows "device_inv d"
  using assms by (rule device_reach_inv)

definition initialized_example :: camera_device where
  "initialized_example = snd (Initialize (\<lambda>_. True) True (Inr 5) (Inr ([], [])) (new_device 0 0 0 0 0) ''front'')"

theorem camera_sound_witness:
  "device_inv initialized_example \<and> mState initialized_example = ECDS_INITIALIZED"
proof -
  have "device_step (\<lambda>_. True) (\<lambda>n. Some (replicate n 0)) (\<lambda>_. []) (new_device 0 0 0 0 0) initialized_example"
    unfolding initialized_example_def by (rule device_step.initialize) simp
  with device_reach.new have "device_reach (\<lambda>_. True) (\<lambda>n. Some (replicate n 0)) (\<lambda>_. []) initialized_example"
    by (rule device_reach.step)
  then have "device_inv initialized_example" by (rule camera_sound) auto
  moreover have "mState initialized_example = ECDS_INITIALIZED"
    by (simp add: initialized_example_def Initialize_def with_client_def connectClient_def new_device_def
        new_GenyClient_def Initialize_base_def isInitialized_def status_defs)
  ultimately show ?thesis ..
qed

text \<open>
  C38. When the local service refuses the connection, the client keeps the socket it has created: the
  initialization fails, and so does every later one of this device, whatever the service does.
\<close>

theorem failed_connect_sticks:
  assumes "mSocketFD (mGenyClient d) < 0" and "0 \<le> fd"
    and "Initialize alloc thread_ok (Inr fd) (Inl e) d name = (st, d')"
  shows "st \<noteq> NO_ERROR \<and> mSocketFD (mGenyClient d') = fd
    \<and> (\<forall>alloc thread_ok sock conn name. Initialize alloc thread_ok sock conn d' name = (EINVAL, d'))"
proof -
  define c where "c = (mGenyClient d)\<lparr>mSocketFD := fd, errno := e\<rparr>"
  have "connectClient (mGenyClient d) (Inr fd) (Inl e) = (errno_or c EINVAL, c)"
    using assms(1) by (simp add: connectClient_def c_def Let_def)
  moreover have st: "errno_or c EINVAL \<noteq> NO_ERROR" by (simp add: errno_or_def status_defs)
  ultimately have "st = errno_or c EINVAL" and d': "d' = d\<lparr>mGenyClient := c\<rparr>"
    using assms(3) by (simp_all add: Initialize_def with_client_def)
  moreover have "Initialize alloc thread_ok sock conn d' name = (EINVAL, d')" for alloc thread_ok sock conn name
    using assms(2) unfolding d' by (simp add: Initialize_def with_client_def connectClient_def c_def status_defs)
  ultimately show ?thesis using st by (simp add: c_def)
qed

theorem failed_connect_sticks_witness:
  "Initialize (\<lambda>_. True) True (Inr 6) (Inr ([], []))
     (snd (Initialize (\<lambda>_. True) True (Inr 5) (Inl 111) (new_device 0 0 0 0 0) ''front'')) ''front''
   = (EINVAL, snd (Initialize (\<lambda>_. True) True (Inr 5) (Inl 111) (new_device 0 0 0 0 0) ''front''))"
proof -
  obtain st d' where i: "Initialize (\<lambda>_. True) True (Inr 5) (Inl 111) (new_device 0 0 0 0 0) ''front'' = (st, d')"
    by (rule prod.exhaust)
  then show ?thesis using failed_connect_sticks [OF _ _ i] by (simp add: new_device_def new_GenyClient_def)
qed

text \<open>
  A start that the service refuses leaves the device connected, with a frame buffer that nothing
  frees: the next start allocates another one and forgets it.
\<close>

theorem failed_start_leaks:
  assumes "mState d = ECDS_CONNECTED" and "supported_format pix_fmt" and "\<And>n. fresh n = Some (mem n)"
    and "startDevice alloc fresh d width height pix_fmt = (st, e)" and "st \<noteq> NO_ERROR"
  shows "mState e = ECDS_CONNECTED \<and> mCurrentFrame e = Some (mem (unat (frame_bytes width height)))
    \<and> frames_allocated e = frames_allocated d + 1"
  using assms
  by (auto simp: startDevice_def isConnected_def isStarted_def commonStartDevice_def with_client_def status_defs Let_def
      split: prod.splits if_splits)

definition connected_example :: camera_device where
  "connected_example = initialized_example\<lparr>mState := ECDS_CONNECTED\<rparr>"

theorem failed_start_leaks_witness:
  "frames_allocated (snd (startDevice (\<lambda>_. True) (\<lambda>n. Some (replicate n 0)) connected_example 2 2 V4L2_PIX_FMT_NV21)) = 1"
proof -
  obtain st e where s: "startDevice (\<lambda>_. True) (\<lambda>n. Some (replicate n 0)) connected_example 2 2 V4L2_PIX_FMT_NV21 = (st, e)"
    by (rule prod.exhaust)
  have d: "mState connected_example = ECDS_CONNECTED" "frames_allocated connected_example = 0"
    "mGenyClient connected_example = new_GenyClient\<lparr>mSocketFD := 5\<rparr>"
    by (simp_all add: connected_example_def initialized_example_def Initialize_def with_client_def connectClient_def
        new_device_def new_GenyClient_def Initialize_base_def isInitialized_def status_defs)
  have "start_text fmt w h \<noteq> []" "length (start_text fmt w h) \<le> 255" for fmt w h
    by (simp_all add: start_text_def mQueryStart_def)
  then have refused: "fst (queryStart (\<lambda>_. True) (new_GenyClient\<lparr>mSocketFD := 5\<rparr>) fmt w h) = EAGAIN" for fmt w h
    by (simp add: queryStart_def run_query_def doQuery_def QemuQuery_of_short new_QemuQuery_def new_GenyClient_def
        sendMessage_def sock_send_def receiveMessage_def sock_read_def errno_or_def completeQuery_def
        getCompletionStatus_def status_defs)
  obtain res c where q: "queryStart (\<lambda>_. True) (new_GenyClient\<lparr>mSocketFD := 5\<rparr>) V4L2_PIX_FMT_NV21 2 2 = (res, c)"
    by (rule prod.exhaust)
  then have "res = EAGAIN" using refused [of V4L2_PIX_FMT_NV21 2 2] by simp
  then have "st \<noteq> NO_ERROR"
    using s d q by (simp add: startDevice_def isConnected_def isStarted_def commonStartDevice_def with_client_def
        supported_format_def status_defs Let_def)
  then show ?thesis using failed_start_leaks [OF d(1) _ _ s] d(2) by (simp add: s supported_format_def)
qed

section \<open>The worker thread\<close>

text \<open>
  As long as the clock and the last frame are at most 2147483 milliseconds apart (35 minutes), the
  thread waits for the rest of the 40 milliseconds of a frame, and never longer.
\<close>

theorem wait_usec_bounds:
  assumes "0 \<le> now_msec - last_msec" and "now_msec - last_msec \<le> 2147483"
  shows "1 \<le> wait_usec now_msec last_msec \<and> wait_usec now_msec last_msec \<le> 40000
    \<and> wait_usec now_msec last_msec = max 1 (40000 - 1000 * (now_msec - last_msec))"
proof -
  define x where "x = now_msec - last_msec"
  have x: "0 \<le> x" "x \<le> 2147483" using assms by (simp_all add: x_def)
  have "i32 x = x" using x by (intro i32_id int_rangeI) linarith+
  moreover have "i32 (x * 1000) = x * 1000" using x by (intro i32_id int_rangeI) linarith+
  moreover have "i32 (40000 - x * 1000) = 40000 - x * 1000" using x by (intro i32_id int_rangeI) linarith+
  ultimately show ?thesis using x unfolding wait_usec_def x_def [symmetric]
    by (simp add: mEmulatedFPS_def c_div_def Let_def)
qed

theorem wait_usec_bounds_witness: "wait_usec 1010 1000 = 30000"
  using wait_usec_bounds [of 1010 1000] by simp

text \<open>
  C40. Beyond that the product overflows. A device whose first frame (its last frame is 0) is asked
  for when the system has been up between 35.8 and 71.5 minutes waits for up to 35.8 minutes.
\<close>

theorem wait_usec_overflow:
  assumes "2147524 \<le> now_msec - last_msec" and "now_msec - last_msec \<le> 4294967"
  shows "wait_usec now_msec last_msec = 4295007296 - 1000 * (now_msec - last_msec)"
proof -
  define x where "x = now_msec - last_msec"
  have x: "2147524 \<le> x" "x \<le> 4294967" using assms by (simp_all add: x_def)
  have "i32 x = x" using x by (intro i32_id int_rangeI) linarith+
  moreover have "i32 (x * 1000) = x * 1000 - 4294967296"
  proof -
    have "(x * 1000 + 2147483648) mod 4294967296 = (x * 1000 + 2147483648 - 4294967296) mod 4294967296"
      by (rule minus_mod_self2 [symmetric])
    also have "\<dots> = x * 1000 + 2147483648 - 4294967296" using x by (intro mod_pos_pos_trivial) linarith+
    finally show ?thesis by (simp add: i32_def)
  qed
  moreover have "i32 (4295007296 - x * 1000) = 4295007296 - x * 1000" using x by (intro i32_id int_rangeI) linarith+
  ultimately show ?thesis using x unfolding wait_usec_def x_def [symmetric]
    by (simp add: mEmulatedFPS_def c_div_def Let_def)
qed

theorem wait_usec_overflow_witness: "wait_usec 3000000 0 = 1295007296"
  using wait_usec_overflow [of 3000000 0] by simp

text \<open>
  Frames that are stopped before the thread has run its \<open>readyToRun\<close> are not stopped: there is no
  descriptor to send the message through, so that the call fails and the thread goes on.
\<close>

theorem stop_before_ready:
  assumes "isStarted d" and "mWorkerThread d = Some t" and "mThreadControl t < 0"
    and "startDeliveringFrames d one_burst run_res = (st, e)"
  shows "stopDeliveringFrames e wres errn join = (EINVAL, e)"
proof -
  have "e = d\<lparr>mWorkerThread := Some (t\<lparr>mOneBurst := one_burst\<rparr>)\<rparr>"
    using assms by (simp add: startDeliveringFrames_def startWorkerThread_def isInitialized_def isStarted_def startThread_def)
  then show ?thesis using assms(1,3)
    by (simp add: stopDeliveringFrames_def stopWorkerThread_def isInitialized_def isStarted_def stopThread_def)
qed

theorem stop_before_ready_witness:
  "stopDeliveringFrames (snd (startDeliveringFrames odd_device False 0)) 4 0 0
   = (EINVAL, snd (startDeliveringFrames odd_device False 0))"
proof -
  obtain st e where s: "startDeliveringFrames odd_device False 0 = (st, e)" by (rule prod.exhaust)
  show ?thesis unfolding s snd_conv
    by (rule stop_before_ready [OF _ _ _ s]) (auto simp: odd_device_def new_device_def isStarted_def)
qed

text \<open>
  C6. From the service to the preview, for a started device of positive and even width and height
  whose frame size stays below the bound of the \<open>int\<close> arithmetic, and with memory for the answer:
  when the answer to the query holds a frame of just that size, and its first piece contains the eight
  characters of the size (a shorter one fails the query, see below), the round of the thread
  delivers just these bytes to the camera and goes on, in however many pieces the rest of the
  answer has come, unless it is told to exit; and the preview then shows in each place the luma sample of the pixel and the two
  chroma samples of its square, in all four formats.
\<close>

theorem worker_shows_frame:
  assumes "device_inv d" and "isStarted d" and "mWhiteBalanceScale d = Some (r, g, b)"
    and "mFrameWidth d = 2 * int k" and "mFrameHeight d = 2 * int m" and "0 < k" and "0 < m" and "48 * k * m < 2147483648"
    and "length frame = 6 * k * m" and "alloc (6 * k * m + 3)"
    and "answering (mGenyClient d) pieces rest (bytes_of ''ok:'' @ frame)"
    and "sel (wait_usec (i32 now1) (mLastFrame d)) \<noteq> EXIT_THREAD"
  shows "\<exists>e px. inWorkerThread alloc fmt_g sel now1 now2 stamp d = Some (True, e)
    \<and> notified e = notified d @ [NextFrame (Some frame) stamp] \<and> reads (mGenyClient e) = rest
    \<and> getCurrentPreviewFrame a e True = Some (NO_ERROR, Some px) \<and> length px = 4 * k * m
    \<and> (\<forall>x < 2 * k. \<forall>y < 2 * m. px ! (2 * k * y + x) = shown_pixel a (mPixelFormat d) frame k m x y)"
proof -
  let ?n = "mFrameBufferSize d"
  obtain old where old: "mCurrentFrame d = Some old" "length old = unat ?n" and n: "unat ?n = 6 * k * m"
    using assms(1,2) frame_bytes_even [OF assms(8)] by (auto simp: device_inv_def isStarted_def assms(4,5))
  have "alloc (length frame + 3)" "0 < unat ?n" "unat ?n \<le> length frame" using assms(6,7,9,10) n by simp_all
  then have q: "queryFrame alloc fmt_g (mGenyClient d) (Some old) None ?n 0 r g b (mExposureCompensation d) =
      Some ((NO_ERROR, Some frame, None), asked (mGenyClient d) (frame_text fmt_g ?n 0 r g b (mExposureCompensation d)) rest)"
    using frame_arrives [OF assms(11) _ _ old(2)] assms(9) n by simp
  let ?c = "asked (mGenyClient d) (frame_text fmt_g ?n 0 r g b (mExposureCompensation d)) rest"
  let ?e = "d\<lparr>mLastFrame := i32 now2, mGenyClient := ?c, mCurrentFrame := Some frame, mCurFrameTimestamp := stamp,
      notified := notified d @ [NextFrame (Some frame) stamp]\<rparr>"
  have run: "inWorkerThread alloc fmt_g sel now1 now2 stamp d = Some (True, ?e)"
    using assms(3,12) by (simp add: inWorkerThread_def Let_def old q)
  have "device_inv ?e" using assms(1) by (rule inWorkerThread_inv) (rule run)
  then have "\<exists>px. getCurrentPreviewFrame a ?e True = Some (NO_ERROR, Some px) \<and> length px = 4 * k * m
    \<and> (\<forall>x < 2 * k. \<forall>y < 2 * m. px ! (2 * k * y + x) = shown_pixel a (mPixelFormat ?e) frame k m x y)"
    by (rule preview_shows) (use assms in \<open>simp_all add: isStarted_def\<close>)
  with run show ?thesis by (auto simp: asked_def)
qed

definition answered_example :: camera_device where
  "answered_example = (new_device 6 V4L2_PIX_FMT_NV21 2 2 4)\<lparr>mState := ECDS_STARTED,
     mCurrentFrame := Some (replicate 6 0), mWorkerThread := Some \<lparr>mThreadControl = 3, mControlFD = 4, mOneBurst = False\<rparr>,
     mWhiteBalanceScale := Some (1, 2, 3), frames_allocated := 1,
     mGenyClient := \<lparr>mSocketFD = 5, errno = 0, sends = [], sent = [],
       reads = [Inr (hex_text 8 9), Inr (bytes_of ''ok:'' @ [10, 20]), Inr [30, 40, 50, 60]]\<rparr>\<rparr>"

theorem worker_shows_frame_witness:
  "\<exists>e px. inWorkerThread (\<lambda>_. True) (\<lambda>_. ''1'') (\<lambda>_. TIMEOUT) 100 140 0 answered_example = Some (True, e)
    \<and> notified e = [NextFrame (Some [10, 20, 30, 40, 50, 60]) 0] \<and> reads (mGenyClient e) = []
    \<and> getCurrentPreviewFrame (\<lambda>_. 0) e True = Some (NO_ERROR, Some px) \<and> length px = 4
    \<and> (\<forall>x < 2. \<forall>y < 2. px ! (2 * y + x) = shown_pixel (\<lambda>_. 0) V4L2_PIX_FMT_NV21 [10, 20, 30, 40, 50, 60] 1 1 x y)"
proof -
  have inv: "device_inv answered_example"
    by (simp add: device_inv_def answered_example_def new_device_def supported_format_def frame_bytes_def c_div_def i32_def)
  have "length (bytes_of ''ok:'' @ [10, 20, 30, 40, 50, 60]) = 9" by (simp add: bytes_of_def)
  then have msg: "message (bytes_of ''ok:'' @ [10, 20, 30, 40, 50, 60]) = hex_text 8 9 @ bytes_of ''ok:'' @ [10, 20, 30, 40, 50, 60]"
    by (simp only: message_def)
  have ans: "answering (mGenyClient answered_example) [hex_text 8 9, bytes_of ''ok:'' @ [10, 20], [30, 40, 50, 60]] []
      (bytes_of ''ok:'' @ [10, 20, 30, 40, 50, 60])"
    unfolding answering_def msg
    by (auto simp: answered_example_def arriving_def bytes_of_def dest: arg_cong [of _ _ length])
  show ?thesis
    using worker_shows_frame [OF inv _ _ _ _ _ _ _ _ _ ans, of 1 2 3 1 1 "\<lambda>_. True" "\<lambda>_. TIMEOUT" 100 "\<lambda>_. ''1''" 140 0 "\<lambda>_. 0"]
    by (simp add: answered_example_def new_device_def isStarted_def)
qed

end
