(* ===== verification/CameraCallbacks.thy ===== *)
theory CameraCallbacks
  imports CameraSteps
begin

text \<open>
  What a frame of the device becomes: \<open>PreviewWindow.cpp\<close> shows it in the window of the preview,
  \<open>CallbackNotifier.cpp\<close> hands copies of it to the application, and \<open>EmulatedCamera.cpp\<close> calls
  the one after the other. The calls of the window and of the application are recorded in a trace;
  what they answer is an argument.
\<close>

section \<open>The preview window (PreviewWindow)\<close>

record PreviewWindow =
  mPreviewWindow :: "nat option"
  mLastPreviewed :: "64 word"
  mPreviewAfter :: u32
  mPreviewFrameWidth :: int
  mPreviewFrameHeight :: int
  mPreviewEnabled :: bool

text \<open>\<open>mPreviewAfter\<close> is not initialised: \<open>after\<close> is what it holds.\<close>

definition new_PreviewWindow :: "u32 \<Rightarrow> PreviewWindow" where
  "new_PreviewWindow after = \<lparr>mPreviewWindow = None, mLastPreviewed = 0, mPreviewAfter = after,
     mPreviewFrameWidth = 0, mPreviewFrameHeight = 0, mPreviewEnabled = False\<rparr>"

text \<open>\<open>usage\<close> is what \<open>set_usage\<close> answers. No frames per second is a division by zero.\<close>

definition setPreviewWindow :: "PreviewWindow \<Rightarrow> nat option \<Rightarrow> int \<Rightarrow> int \<Rightarrow> (int \<times> PreviewWindow) ub" where
  "setPreviewWindow w window preview_fps usage =
     (let w = w\<lparr>mPreviewFrameWidth := 0, mPreviewFrameHeight := 0, mPreviewAfter := 0, mLastPreviewed := 0\<rparr> in
      if window = None then Some (NO_ERROR, w\<lparr>mPreviewWindow := None\<rparr>)
      else if usage \<noteq> NO_ERROR then Some (- usage, w\<lparr>mPreviewWindow := None\<rparr>)
      else if preview_fps = 0 then None
      else Some (NO_ERROR, w\<lparr>mPreviewAfter := word_of_int (c_div 1000000 preview_fps), mPreviewWindow := window\<rparr>))"

definition startPreview :: "PreviewWindow \<Rightarrow> int \<times> PreviewWindow" where
  "startPreview w = (NO_ERROR, w\<lparr>mPreviewEnabled := True\<rparr>)"

definition stopPreview :: "PreviewWindow \<Rightarrow> PreviewWindow" where
  "stopPreview w = w\<lparr>mPreviewEnabled := False\<rparr>"

definition adjustPreviewDimensions :: "camera_device \<Rightarrow> PreviewWindow \<Rightarrow> bool \<times> PreviewWindow" where
  "adjustPreviewDimensions d w =
     (if mPreviewFrameWidth w = mFrameWidth d \<and> mPreviewFrameHeight w = mFrameHeight d then (False, w)
      else (True, w\<lparr>mPreviewFrameWidth := mFrameWidth d, mPreviewFrameHeight := mFrameHeight d\<rparr>))"

definition isPreviewTime :: "64 word \<Rightarrow> PreviewWindow \<Rightarrow> bool \<times> PreviewWindow" where
  "isPreviewTime cur_mks w =
     (if cur_mks - mLastPreviewed w \<ge> ucast (mPreviewAfter w) then (True, w\<lparr>mLastPreviewed := cur_mks\<rparr>)
      else (False, w))"

text \<open>The calls of the window and of the buffer mapper; \<open>Drawn\<close> are the pixels stored in the
  buffer. \<open>LockBuffer\<close> and \<open>Map_buffer\<close> have the success of the call.\<close>

datatype window_op = SetGeometry int int | Dequeue "nat option" | LockBuffer nat bool | Map_buffer nat int int bool
  | Drawn nat "u32 list" | SetTimestamp int | Enqueue nat | Cancel nat | Unmap_buffer nat

text \<open>What they answer for one frame. A buffer only comes with a good status.\<close>

record window_answers =
  wa_geometry :: int
  wa_dequeue :: "int + nat option"
  wa_lock :: int
  wa_map :: int

definition show_frame ::
  "window_answers \<Rightarrow> (nat \<Rightarrow> byte) \<Rightarrow> int \<Rightarrow> camera_device \<Rightarrow> PreviewWindow \<Rightarrow> nat \<Rightarrow> window_op list ub"
where
  "show_frame ans a timestamp d w buffer =
     (if wa_lock ans \<noteq> NO_ERROR then Some [LockBuffer buffer False, Cancel buffer]
      else if wa_map ans \<noteq> NO_ERROR then
        Some [LockBuffer buffer True, Map_buffer buffer (mPreviewFrameWidth w) (mPreviewFrameHeight w) False, Cancel buffer]
      else case getCurrentPreviewFrame a d True of
        None \<Rightarrow> None
      | Some (res, px) \<Rightarrow>
          Some ([LockBuffer buffer True, Map_buffer buffer (mPreviewFrameWidth w) (mPreviewFrameHeight w) True]
            @ (if res = NO_ERROR then [Drawn buffer (the px), SetTimestamp timestamp, Enqueue buffer] else [Cancel buffer])
            @ [Unmap_buffer buffer]))"

definition PreviewWindow_onNextFrameAvailable ::
  "window_answers \<Rightarrow> (nat \<Rightarrow> byte) \<Rightarrow> 64 word \<Rightarrow> int \<Rightarrow> camera_device \<Rightarrow> PreviewWindow
   \<Rightarrow> (window_op list \<times> PreviewWindow) ub"
where
  "PreviewWindow_onNextFrameAvailable ans a cur_mks timestamp d w =
     (if \<not> mPreviewEnabled w \<or> mPreviewWindow w = None then Some ([], w)
      else
        let (time, w) = isPreviewTime cur_mks w in
        if \<not> time then Some ([], w)
        else
          let (adjusted, w) = adjustPreviewDimensions d w;
              geo = (if adjusted then [SetGeometry (mPreviewFrameWidth w) (mPreviewFrameHeight w)] else [])
          in if adjusted \<and> wa_geometry ans \<noteq> NO_ERROR then Some (geo, w)
             else case wa_dequeue ans of
               Inl e \<Rightarrow> Some (geo @ [Dequeue None], w)
             | Inr None \<Rightarrow> Some (geo @ [Dequeue None], w)
             | Inr (Some buffer) \<Rightarrow>
                 map_option (\<lambda>ops. (geo @ Dequeue (Some buffer) # ops, w)) (show_frame ans a timestamp d w buffer))"

section \<open>The callbacks of the application (CallbackNotifier)\<close>

definition CAMERA_MSG_ERROR :: u32 where "CAMERA_MSG_ERROR = 0x1"
definition CAMERA_MSG_SHUTTER :: u32 where "CAMERA_MSG_SHUTTER = 0x2"
definition CAMERA_MSG_PREVIEW_FRAME :: u32 where "CAMERA_MSG_PREVIEW_FRAME = 0x10"
definition CAMERA_MSG_VIDEO_FRAME :: u32 where "CAMERA_MSG_VIDEO_FRAME = 0x20"
definition CAMERA_MSG_COMPRESSED_IMAGE :: u32 where "CAMERA_MSG_COMPRESSED_IMAGE = 0x100"
definition CAMERA_MSG_RAW_IMAGE_NOTIFY :: u32 where "CAMERA_MSG_RAW_IMAGE_NOTIFY = 0x200"
definition INVALID_OPERATION :: int where "INVALID_OPERATION = - 38"

lemmas camera_msg_defs = CAMERA_MSG_ERROR_def CAMERA_MSG_SHUTTER_def CAMERA_MSG_PREVIEW_FRAME_def
  CAMERA_MSG_VIDEO_FRAME_def CAMERA_MSG_COMPRESSED_IMAGE_def CAMERA_MSG_RAW_IMAGE_NOTIFY_def

text \<open>Of a callback it matters whether it is set. \<open>mCameraMemoryTs\<close> has the buffers of the recorder.\<close>

record CallbackNotifier =
  mNotifyCB :: bool
  mDataCB :: bool
  mDataCBTimestamp :: bool
  mGetMemoryCB :: bool
  mCameraMemoryTs :: "nat list"
  mLastFrameTimestamp :: int
  mFrameRefreshFreq :: int
  mMessageEnabler :: u32
  mJpegQuality :: int
  mVideoRecEnabled :: bool
  mTakingPicture :: bool

datatype callback = Notify u32 int | Data u32 nat "byte list" | DataTimestamp int nat "byte list" | Release nat

definition new_CallbackNotifier :: CallbackNotifier where
  "new_CallbackNotifier = \<lparr>mNotifyCB = False, mDataCB = False, mDataCBTimestamp = False, mGetMemoryCB = False,
     mCameraMemoryTs = [], mLastFrameTimestamp = 0, mFrameRefreshFreq = 0, mMessageEnabler = 0,
     mJpegQuality = 90, mVideoRecEnabled = False, mTakingPicture = False\<rparr>"

definition setCallbacks :: "CallbackNotifier \<Rightarrow> bool \<Rightarrow> bool \<Rightarrow> bool \<Rightarrow> bool \<Rightarrow> CallbackNotifier" where
  "setCallbacks n notify_cb data_cb data_cb_timestamp get_memory =
     n\<lparr>mNotifyCB := notify_cb, mDataCB := data_cb, mDataCBTimestamp := data_cb_timestamp, mGetMemoryCB := get_memory\<rparr>"

definition enableMessage :: "CallbackNotifier \<Rightarrow> u32 \<Rightarrow> CallbackNotifier" where
  "enableMessage n msg_type = n\<lparr>mMessageEnabler := mMessageEnabler n OR msg_type\<rparr>"

definition disableMessage :: "CallbackNotifier \<Rightarrow> u32 \<Rightarrow> CallbackNotifier" where
  "disableMessage n msg_type = n\<lparr>mMessageEnabler := mMessageEnabler n AND NOT msg_type\<rparr>"

definition isMessageEnabled :: "CallbackNotifier \<Rightarrow> u32 \<Rightarrow> bool" where
  "isMessageEnabled n msg_type \<longleftrightarrow> mMessageEnabler n AND msg_type \<noteq> 0"

definition enableVideoRecording :: "CallbackNotifier \<Rightarrow> int \<Rightarrow> (int \<times> CallbackNotifier) ub" where
  "enableVideoRecording n fps =
     (if fps = 0 then None
      else Some (NO_ERROR, n\<lparr>mVideoRecEnabled := True, mLastFrameTimestamp := 0, mFrameRefreshFreq := c_div 1000000000 fps\<rparr>))"

definition disableVideoRecording :: "CallbackNotifier \<Rightarrow> CallbackNotifier" where
  "disableVideoRecording n = n\<lparr>mVideoRecEnabled := False, mLastFrameTimestamp := 0, mFrameRefreshFreq := 0\<rparr>"

definition releaseRecordingFrame :: "CallbackNotifier \<Rightarrow> nat \<Rightarrow> callback list \<times> CallbackNotifier" where
  "releaseRecordingFrame n opaque =
     (if opaque \<in> set (mCameraMemoryTs n)
      then ([Release opaque], n\<lparr>mCameraMemoryTs := remove1 opaque (mCameraMemoryTs n)\<rparr>)
      else ([], n))"

definition storeMetaDataInBuffers :: "CallbackNotifier \<Rightarrow> bool \<Rightarrow> int \<times> CallbackNotifier" where
  "storeMetaDataInBuffers n enable = (INVALID_OPERATION, n)"

definition setTakingPicture :: "CallbackNotifier \<Rightarrow> bool \<Rightarrow> CallbackNotifier" where
  "setTakingPicture n taking = n\<lparr>mTakingPicture := taking\<rparr>"

definition setJpegQuality :: "CallbackNotifier \<Rightarrow> int \<Rightarrow> CallbackNotifier" where
  "setJpegQuality n jpeg_quality = n\<lparr>mJpegQuality := jpeg_quality\<rparr>"

definition cleanupCBNotifier :: "CallbackNotifier \<Rightarrow> CallbackNotifier" where
  "cleanupCBNotifier n = n\<lparr>mMessageEnabler := 0, mNotifyCB := False, mDataCB := False, mDataCBTimestamp := False,
     mGetMemoryCB := False, mLastFrameTimestamp := 0, mFrameRefreshFreq := 0, mJpegQuality := 90,
     mVideoRecEnabled := False, mTakingPicture := False\<rparr>"

definition isNewVideoFrameTime :: "CallbackNotifier \<Rightarrow> int \<Rightarrow> bool \<times> CallbackNotifier" where
  "isNewVideoFrameTime n timestamp =
     (if timestamp - mLastFrameTimestamp n \<ge> mFrameRefreshFreq n then (True, n\<lparr>mLastFrameTimestamp := timestamp\<rparr>)
      else (False, n))"

text \<open>
  The answers for one frame: the buffers that \<open>mGetMemoryCB\<close> gives for the video, the preview and
  the picture, the buffers that the recorder gives back while it is in its callback, and the
  compressed picture, or nothing when the compressor fails.
\<close>

record callback_answers =
  ca_video :: "nat option"
  ca_preview :: "nat option"
  ca_picture :: "nat option"
  ca_early :: "nat list"
  ca_jpeg :: "byte list option"

text \<open>\<open>memcpy\<close> of the frame: NULL, or a frame that is shorter than the size, is undefined.\<close>

definition frame_copy :: "byte list option \<Rightarrow> size_t \<Rightarrow> byte list ub" where
  "frame_copy frame frame_size =
     (case frame of None \<Rightarrow> None
      | Some bs \<Rightarrow> if unat frame_size \<le> length bs then Some (take (unat frame_size) bs) else None)"

fun release_all :: "CallbackNotifier \<Rightarrow> nat list \<Rightarrow> callback list \<times> CallbackNotifier" where
  "release_all n [] = ([], n)"
| "release_all n (b # bs) =
     (let (t1, n1) = releaseRecordingFrame n b; (t2, n2) = release_all n1 bs in (t1 @ t2, n2))"

definition video_part ::
  "callback_answers \<Rightarrow> byte list option \<Rightarrow> int \<Rightarrow> size_t \<Rightarrow> CallbackNotifier \<Rightarrow> (callback list \<times> CallbackNotifier) ub"
where
  "video_part ans frame timestamp frame_size n =
     (if \<not> (isMessageEnabled n CAMERA_MSG_VIDEO_FRAME \<and> mVideoRecEnabled n) then Some ([], n)
      else
        let (time, n) = isNewVideoFrameTime n timestamp in
        if \<not> time then Some ([], n)
        else if \<not> mGetMemoryCB n then None
        else case ca_video ans of
          None \<Rightarrow> Some ([], n)
        | Some buff \<Rightarrow>
            (case frame_copy frame frame_size of
               None \<Rightarrow> None
             | Some bs \<Rightarrow>
                 if \<not> mDataCBTimestamp n then None
                 else
                   let (early, n) = release_all n (ca_early ans)
                   in Some (DataTimestamp timestamp buff bs # early, n\<lparr>mCameraMemoryTs := mCameraMemoryTs n @ [buff]\<rparr>)))"

definition preview_part ::
  "callback_answers \<Rightarrow> byte list option \<Rightarrow> size_t \<Rightarrow> CallbackNotifier \<Rightarrow> callback list ub"
where
  "preview_part ans frame frame_size n =
     (if \<not> isMessageEnabled n CAMERA_MSG_PREVIEW_FRAME then Some []
      else if \<not> mGetMemoryCB n then None
      else case ca_preview ans of
        None \<Rightarrow> Some []
      | Some buff \<Rightarrow>
          (case frame_copy frame frame_size of
             None \<Rightarrow> None
           | Some bs \<Rightarrow> if \<not> mDataCB n then None else Some [Data CAMERA_MSG_PREVIEW_FRAME buff bs, Release buff]))"

definition picture_part :: "callback_answers \<Rightarrow> CallbackNotifier \<Rightarrow> (callback list \<times> CallbackNotifier) ub" where
  "picture_part ans n =
     (if \<not> mTakingPicture n then Some ([], n)
      else
        let n = n\<lparr>mTakingPicture := False\<rparr>;
            notifies = filter (isMessageEnabled n) [CAMERA_MSG_SHUTTER, CAMERA_MSG_RAW_IMAGE_NOTIFY];
            t = map (\<lambda>m. Notify m 0) notifies
        in if notifies \<noteq> [] \<and> \<not> mNotifyCB n then None
           else if \<not> isMessageEnabled n CAMERA_MSG_COMPRESSED_IMAGE then Some (t, n)
           else case ca_jpeg ans of
             None \<Rightarrow> Some (t, n)
           | Some jpeg \<Rightarrow>
               if \<not> mGetMemoryCB n then None
               else case ca_picture ans of
                 None \<Rightarrow> Some (t, n)
               | Some buff \<Rightarrow>
                   if \<not> mDataCB n then None
                   else Some (t @ [Data CAMERA_MSG_COMPRESSED_IMAGE buff jpeg, Release buff], n))"

definition CallbackNotifier_onNextFrameAvailable ::
  "callback_answers \<Rightarrow> byte list option \<Rightarrow> int \<Rightarrow> camera_device \<Rightarrow> CallbackNotifier
   \<Rightarrow> (callback list \<times> CallbackNotifier) ub"
where
  "CallbackNotifier_onNextFrameAvailable ans frame timestamp d n =
     (case video_part ans frame timestamp (mFrameBufferSize d) n of None \<Rightarrow> None
      | Some (t1, n) \<Rightarrow>
      case preview_part ans frame (mFrameBufferSize d) n of None \<Rightarrow> None
      | Some t2 \<Rightarrow>
      case picture_part ans n of None \<Rightarrow> None
      | Some (t3, n) \<Rightarrow> Some (t1 @ t2 @ t3, n))"

definition CallbackNotifier_onCameraDeviceError :: "CallbackNotifier \<Rightarrow> int \<Rightarrow> callback list" where
  "CallbackNotifier_onCameraDeviceError n err =
     (if isMessageEnabled n CAMERA_MSG_ERROR \<and> mNotifyCB n then [Notify CAMERA_MSG_ERROR err] else [])"

section \<open>The camera (EmulatedCamera)\<close>

definition EmulatedCamera_onNextFrameAvailable ::
  "window_answers \<Rightarrow> callback_answers \<Rightarrow> (nat \<Rightarrow> byte) \<Rightarrow> 64 word \<Rightarrow> byte list option \<Rightarrow> int \<Rightarrow> camera_device
   \<Rightarrow> PreviewWindow \<times> CallbackNotifier \<Rightarrow> ((window_op list \<times> callback list) \<times> PreviewWindow \<times> CallbackNotifier) ub"
where
  "EmulatedCamera_onNextFrameAvailable wans cans a cur_mks frame timestamp d wn =
     (case PreviewWindow_onNextFrameAvailable wans a cur_mks timestamp d (fst wn) of None \<Rightarrow> None
      | Some (ops, w) \<Rightarrow>
      case CallbackNotifier_onNextFrameAvailable cans frame timestamp d (snd wn) of None \<Rightarrow> None
      | Some (cbs, n) \<Rightarrow> Some ((ops, cbs), w, n))"

definition EmulatedCamera_onCameraDeviceError :: "CallbackNotifier \<Rightarrow> int \<Rightarrow> callback list" where
  "EmulatedCamera_onCameraDeviceError n err = CallbackNotifier_onCameraDeviceError n err"

end
