(* ===== verification/CameraShow.thy ===== *)
theory CameraShow
  imports CameraCallbacks CameraProperties "HOL-Library.Multiset"
begin

text \<open>
  Properties of what a frame becomes: the buffers of the preview window, the buffers of the
  recorder, and pictures.
\<close>

section \<open>The protocol of the preview window\<close>

text \<open>Where the buffer of the window is; a call that the phase does not allow has no next phase.\<close>

datatype buffer_phase = Idle | Dequeued nat | Locked nat | Mapped nat | Given nat

fun window_step :: "buffer_phase \<Rightarrow> window_op \<Rightarrow> buffer_phase option" where
  "window_step Idle (SetGeometry w h) = Some Idle"
| "window_step Idle (Dequeue None) = Some Idle"
| "window_step Idle (Dequeue (Some b)) = Some (Dequeued b)"
| "window_step (Dequeued b) (LockBuffer c ok) = (if b = c then Some (if ok then Locked b else Dequeued b) else None)"
| "window_step (Dequeued b) (Cancel c) = (if b = c then Some Idle else None)"
| "window_step (Locked b) (Map_buffer c w h ok) = (if b = c then Some (if ok then Mapped b else Locked b) else None)"
| "window_step (Locked b) (Cancel c) = (if b = c then Some Idle else None)"
| "window_step (Mapped b) (Drawn c px) = (if b = c then Some (Mapped b) else None)"
| "window_step (Mapped b) (SetTimestamp ts) = Some (Mapped b)"
| "window_step (Mapped b) (Enqueue c) = (if b = c then Some (Given b) else None)"
| "window_step (Mapped b) (Cancel c) = (if b = c then Some (Given b) else None)"
| "window_step (Given b) (Unmap_buffer c) = (if b = c then Some Idle else None)"
| "window_step p oper = None"

fun window_run :: "buffer_phase \<Rightarrow> window_op list \<Rightarrow> buffer_phase option" where
  "window_run p [] = Some p"
| "window_run p (x # xs) = (case window_step p x of None \<Rightarrow> None | Some q \<Rightarrow> window_run q xs)"

lemma window_run_append:
  "window_run p xs = Some q \<Longrightarrow> window_run p (xs @ ys) = window_run q ys"
  by (induction xs arbitrary: p) (auto split: option.splits)

lemma show_frame_run:
  "show_frame ans a ts d w b = Some ops \<Longrightarrow> window_run (Dequeued b) ops = Some Idle"
  by (auto simp: show_frame_def split: if_splits option.splits)

lemma onNextFrame_run:
  assumes "PreviewWindow_onNextFrameAvailable ans a cur ts d w = Some (ops, w')"
  shows "window_run Idle ops = Some Idle"
proof -
  have geo: "window_run Idle ((if b then [SetGeometry x y] else []) @ ys) = window_run Idle ys" for b x y ys
    by simp
  show ?thesis using assms
    by (auto simp: PreviewWindow_onNextFrameAvailable_def geo show_frame_run Let_def
        split: if_splits sum.splits option.splits prod.splits)
qed

text \<open>A run of the preview: frames, and calls of the application in between.\<close>

datatype preview_event =
    Frame window_answers "nat \<Rightarrow> byte" "64 word" int camera_device
  | Set_window "nat option" int int
  | Start_preview
  | Stop_preview

fun preview_do :: "PreviewWindow \<Rightarrow> preview_event \<Rightarrow> (window_op list \<times> PreviewWindow) ub" where
  "preview_do w (Frame ans a cur ts d) = PreviewWindow_onNextFrameAvailable ans a cur ts d w"
| "preview_do w (Set_window window fps usage) = map_option (\<lambda>(_, w). ([], w)) (setPreviewWindow w window fps usage)"
| "preview_do w Start_preview = Some ([], snd (startPreview w))"
| "preview_do w Stop_preview = Some ([], stopPreview w)"

fun preview_run :: "PreviewWindow \<Rightarrow> preview_event list \<Rightarrow> (window_op list \<times> PreviewWindow) ub" where
  "preview_run w [] = Some ([], w)"
| "preview_run w (e # es) =
     (case preview_do w e of None \<Rightarrow> None
      | Some (ops, w) \<Rightarrow> map_option (\<lambda>(more_ops, w). (ops @ more_ops, w)) (preview_run w es))"

lemma preview_do_run:
  "preview_do w e = Some (ops, w') \<Longrightarrow> window_run Idle ops = Some Idle"
  by (cases e) (auto simp: onNextFrame_run)

text \<open>
  C15. Over any run of frames, whatever the window answers, every buffer is used in the order of the
  protocol and goes back: it is locked and mapped before it is drawn, enqueued or cancelled
  exactly once, and unmapped when it has been mapped.
\<close>

theorem preview_buffers_return:
  assumes "preview_run w es = Some (ops, w')"
  shows "window_run Idle ops = Some Idle"
  using assms
proof (induction es arbitrary: w ops)
  case (Cons e es)
  then obtain ops1 w1 ops2 where e: "preview_do w e = Some (ops1, w1)"
    and es: "preview_run w1 es = Some (ops2, w')" and ops: "ops = ops1 @ ops2"
    by (auto split: option.splits)
  have "window_run Idle ops1 = Some Idle" using e by (rule preview_do_run)
  then show ?case using Cons.IH [OF es] by (simp add: ops window_run_append)
qed simp

definition stopped_example :: "preview_event list" where
  "stopped_example = [Set_window (Some 1) 24 0, Start_preview,
     Frame \<lparr>wa_geometry = 0, wa_dequeue = Inr (Some 7), wa_lock = 0, wa_map = 0\<rparr> (\<lambda>_. 0) 100000 0 (new_device 0 0 2 2 4)]"

theorem preview_buffers_return_witness:
  "\<exists>w. preview_run (new_PreviewWindow 0) stopped_example =
     Some ([SetGeometry 2 2, Dequeue (Some 7), LockBuffer 7 True, Map_buffer 7 2 2 True, Cancel 7, Unmap_buffer 7], w)
   \<and> window_run Idle [SetGeometry 2 2, Dequeue (Some 7), LockBuffer 7 True, Map_buffer 7 2 2 True, Cancel 7, Unmap_buffer 7] = Some Idle"
proof -
  have "ucast (word_of_int (c_div 1000000 24) :: u32) \<le> (100000 :: 64 word)" by (simp add: c_div_def)
  then have "\<exists>w. preview_run (new_PreviewWindow 0) stopped_example =
     Some ([SetGeometry 2 2, Dequeue (Some 7), LockBuffer 7 True, Map_buffer 7 2 2 True, Cancel 7, Unmap_buffer 7], w)"
    by (simp add: stopped_example_def new_PreviewWindow_def setPreviewWindow_def startPreview_def
        PreviewWindow_onNextFrameAvailable_def isPreviewTime_def adjustPreviewDimensions_def show_frame_def
        getCurrentPreviewFrame_def new_device_def isStarted_def status_defs Let_def)
  then obtain w where w: "preview_run (new_PreviewWindow 0) stopped_example =
     Some ([SetGeometry 2 2, Dequeue (Some 7), LockBuffer 7 True, Map_buffer 7 2 2 True, Cancel 7, Unmap_buffer 7], w)" ..
  show ?thesis using w preview_buffers_return [OF w] by blast
qed

text \<open>
  A window whose geometry could not be set is drawn into all the same: the dimensions are
  remembered before the call that sets them, so that the next frame takes them for set and stores
  its pixels in a buffer of another size.
\<close>

theorem geometry_not_retried:
  assumes "mPreviewEnabled w" and "mPreviewWindow w = Some win"
    and "PreviewWindow_onNextFrameAvailable ans a cur ts d w = Some ([SetGeometry x y], w1)"
    and "cur2 - cur \<ge> ucast (mPreviewAfter w)"
    and "wa_dequeue ans2 = Inr (Some b)" and "wa_lock ans2 = NO_ERROR" and "wa_map ans2 = NO_ERROR"
    and "getCurrentPreviewFrame a2 d True = Some (NO_ERROR, Some px)"
  shows "\<exists>w2. PreviewWindow_onNextFrameAvailable ans2 a2 cur2 ts2 d w1 =
    Some ([Dequeue (Some b), LockBuffer b True, Map_buffer b (mFrameWidth d) (mFrameHeight d) True, Drawn b px,
           SetTimestamp ts2, Enqueue b, Unmap_buffer b], w2)"
proof -
  have "w1 = w\<lparr>mLastPreviewed := cur, mPreviewFrameWidth := mFrameWidth d, mPreviewFrameHeight := mFrameHeight d\<rparr>"
    using assms(1-3)
    by (auto simp: PreviewWindow_onNextFrameAvailable_def isPreviewTime_def adjustPreviewDimensions_def Let_def
        split: if_splits sum.splits option.splits)
  then show ?thesis using assms(1,2,4-8)
    by (simp add: PreviewWindow_onNextFrameAvailable_def isPreviewTime_def adjustPreviewDimensions_def show_frame_def)
qed

definition shown_window :: PreviewWindow where
  "shown_window = \<lparr>mPreviewWindow = Some 1, mLastPreviewed = 0, mPreviewAfter = 41666, mPreviewFrameWidth = 0,
     mPreviewFrameHeight = 0, mPreviewEnabled = True\<rparr>"

definition flat_device :: camera_device where
  "flat_device = (new_device 6 V4L2_PIX_FMT_NV12 2 2 4)\<lparr>mState := ECDS_STARTED, mCurrentFrame := Some (replicate 6 16),
     mWorkerThread := Some \<lparr>mThreadControl = 3, mControlFD = 4, mOneBurst = False\<rparr>, frames_allocated := 1,
     mGenyClient := new_GenyClient\<lparr>mSocketFD := 5\<rparr>\<rparr>"

lemma flat_device_facts:
  "device_inv flat_device" "isStarted flat_device" "mCurrentFrame flat_device = Some (replicate 6 16)"
  "mFrameWidth flat_device = 2 * int 1" "mFrameHeight flat_device = 2 * int 1"
  by (simp_all add: flat_device_def new_device_def device_inv_def isStarted_def supported_format_def frame_bytes_def
      c_div_def i32_def)

theorem geometry_not_retried_witness:
  "\<exists>ops w1 w2 px. PreviewWindow_onNextFrameAvailable \<lparr>wa_geometry = - 22, wa_dequeue = Inr None, wa_lock = 0, wa_map = 0\<rparr>
       (\<lambda>_. 0) 100000 0 flat_device shown_window = Some ([SetGeometry 2 2], w1)
   \<and> PreviewWindow_onNextFrameAvailable \<lparr>wa_geometry = 0, wa_dequeue = Inr (Some 7), wa_lock = 0, wa_map = 0\<rparr>
       (\<lambda>_. 0) 200000 1 flat_device w1 = Some (ops, w2) \<and> Drawn 7 px \<in> set ops \<and> length px = 4"
proof -
  let ?fail = "\<lparr>wa_geometry = - 22, wa_dequeue = Inr None, wa_lock = 0, wa_map = 0\<rparr>"
  let ?good = "\<lparr>wa_geometry = 0, wa_dequeue = Inr (Some 7), wa_lock = 0, wa_map = 0\<rparr>"
  obtain px where px: "getCurrentPreviewFrame (\<lambda>_. 0) flat_device True = Some (NO_ERROR, Some px)" "length px = 4"
    using preview_shows [OF flat_device_facts, of "\<lambda>_. 0"] by auto
  have "\<exists>w1. PreviewWindow_onNextFrameAvailable ?fail (\<lambda>_. 0) 100000 0 flat_device shown_window = Some ([SetGeometry 2 2], w1)"
    by (simp add: PreviewWindow_onNextFrameAvailable_def shown_window_def isPreviewTime_def adjustPreviewDimensions_def
        flat_device_facts status_defs)
  then obtain w1 where first: "PreviewWindow_onNextFrameAvailable ?fail (\<lambda>_. 0) 100000 0 flat_device shown_window
    = Some ([SetGeometry 2 2], w1)" ..
  have "\<exists>w2. PreviewWindow_onNextFrameAvailable ?good (\<lambda>_. 0) 200000 1 flat_device w1 =
    Some ([Dequeue (Some 7), LockBuffer 7 True, Map_buffer 7 (mFrameWidth flat_device) (mFrameHeight flat_device) True, Drawn 7 px,
           SetTimestamp 1, Enqueue 7, Unmap_buffer 7], w2)"
    by (rule geometry_not_retried [OF _ _ first _ _ _ _ px(1)]) (simp_all add: shown_window_def status_defs)
  then show ?thesis using first px(2) by fastforce
qed

section \<open>The buffers of the recorder\<close>

text \<open>The buffers that the application has been given, and those that have been released.\<close>

fun given :: "callback list \<Rightarrow> nat multiset" where
  "given [] = {#}"
| "given (DataTimestamp ts b bs # t) = add_mset b (given t)"
| "given (Data m b bs # t) = add_mset b (given t)"
| "given (Notify m e # t) = given t"
| "given (Release b # t) = given t"

fun released :: "callback list \<Rightarrow> nat multiset" where
  "released [] = {#}"
| "released (Release b # t) = add_mset b (released t)"
| "released (Notify m e # t) = released t"
| "released (Data m b bs # t) = released t"
| "released (DataTimestamp ts b bs # t) = released t"

lemma given_append [simp]: "given (s @ t) = given s + given t"
  by (induction s rule: given.induct) simp_all

lemma released_append [simp]: "released (s @ t) = released s + released t"
  by (induction s rule: released.induct) simp_all

lemma notifies_given [simp]: "given (map (\<lambda>m. Notify m e) ms) = {#}" "released (map (\<lambda>m. Notify m e) ms) = {#}"
  by (induction ms) simp_all

text \<open>A part of a step is balanced when what it gives is what it releases and what it keeps.\<close>

definition balanced :: "CallbackNotifier \<Rightarrow> callback list \<Rightarrow> CallbackNotifier \<Rightarrow> bool" where
  "balanced n t n' \<longleftrightarrow> given t + mset (mCameraMemoryTs n) = released t + mset (mCameraMemoryTs n')"

lemma balanced_append: "balanced n s m \<Longrightarrow> balanced m t n' \<Longrightarrow> balanced n (s @ t) n'"
  by (auto simp: balanced_def) (metis add.assoc add.commute)

lemma release_balanced: "releaseRecordingFrame n b = (t, n') \<Longrightarrow> balanced n t n'"
  by (auto simp: releaseRecordingFrame_def balanced_def split: if_splits)

lemma release_all_balanced: "release_all n bs = (t, n') \<Longrightarrow> balanced n t n'"
proof (induction bs arbitrary: n t)
  case (Cons b bs)
  obtain t1 n1 t2 where "releaseRecordingFrame n b = (t1, n1)" and "release_all n1 bs = (t2, n')" and "t = t1 @ t2"
    using Cons.prems by (auto split: prod.splits)
  then show ?case using release_balanced Cons.IH balanced_append by blast
qed (simp add: balanced_def)

lemma video_part_balanced: "video_part ans frame ts k n = Some (t, n') \<Longrightarrow> balanced n t n'"
proof -
  assume v: "video_part ans frame ts k n = Some (t, n')"
  have time: "mCameraMemoryTs m = mCameraMemoryTs n" if "isNewVideoFrameTime n ts = (b, m)" for b m
    using that by (auto simp: isNewVideoFrameTime_def split: if_splits)
  show ?thesis
  proof (cases "t = [] \<and> mCameraMemoryTs n' = mCameraMemoryTs n")
    case True
    then show ?thesis by (simp add: balanced_def)
  next
    case False
    then obtain buff bs m b early n2 where i: "isNewVideoFrameTime n ts = (b, m)"
      and r: "release_all m (ca_early ans) = (early, n2)" and t: "t = DataTimestamp ts buff bs # early"
      and n': "n' = n2\<lparr>mCameraMemoryTs := mCameraMemoryTs n2 @ [buff]\<rparr>"
      using v time by (auto simp: video_part_def Let_def split: if_splits option.splits prod.splits)
    show ?thesis using release_all_balanced [OF r] time [OF i] by (simp add: balanced_def t n')
  qed
qed

lemma preview_part_balanced: "preview_part ans frame k n = Some t \<Longrightarrow> balanced n t n"
  by (auto simp: preview_part_def balanced_def split: if_splits option.splits)

lemma picture_part_balanced: "picture_part ans n = Some (t, n') \<Longrightarrow> balanced n t n'"
  by (auto simp: picture_part_def balanced_def Let_def split: if_splits option.splits simp del: filter.simps)

lemma notifier_frame_balanced:
  "CallbackNotifier_onNextFrameAvailable ans frame ts d n = Some (t, n') \<Longrightarrow> balanced n t n'"
  by (auto simp: CallbackNotifier_onNextFrameAvailable_def split: option.splits
      intro!: balanced_append dest: video_part_balanced preview_part_balanced picture_part_balanced)

text \<open>A run of the notifier; \<open>notifier_step\<close> collects the calls and passes over an undefined step.\<close>

datatype notifier_event =
    N_frame callback_answers "byte list option" int camera_device
  | N_callbacks bool bool bool bool
  | N_enable u32
  | N_disable u32
  | N_record int
  | N_stop_recording
  | N_release nat
  | N_metadata bool
  | N_cleanup
  | N_taking bool
  | N_quality int
  | N_error int

fun notifier_do :: "CallbackNotifier \<Rightarrow> notifier_event \<Rightarrow> (callback list \<times> CallbackNotifier) ub" where
  "notifier_do n (N_frame ans frame ts d) = CallbackNotifier_onNextFrameAvailable ans frame ts d n"
| "notifier_do n (N_callbacks a b c d) = Some ([], setCallbacks n a b c d)"
| "notifier_do n (N_enable m) = Some ([], enableMessage n m)"
| "notifier_do n (N_disable m) = Some ([], disableMessage n m)"
| "notifier_do n (N_record fps) = map_option (\<lambda>(_, m). ([], m)) (enableVideoRecording n fps)"
| "notifier_do n N_stop_recording = Some ([], disableVideoRecording n)"
| "notifier_do n (N_release b) = Some (releaseRecordingFrame n b)"
| "notifier_do n (N_metadata b) = Some ([], snd (storeMetaDataInBuffers n b))"
| "notifier_do n N_cleanup = Some ([], cleanupCBNotifier n)"
| "notifier_do n (N_taking b) = Some ([], setTakingPicture n b)"
| "notifier_do n (N_quality q) = Some ([], setJpegQuality n q)"
| "notifier_do n (N_error e) = Some (CallbackNotifier_onCameraDeviceError n e, n)"

fun notifier_step :: "CallbackNotifier \<times> callback list \<Rightarrow> notifier_event \<Rightarrow> CallbackNotifier \<times> callback list" where
  "notifier_step (n, t) e = (case notifier_do n e of None \<Rightarrow> (n, t) | Some (t', n') \<Rightarrow> (n', t @ t'))"

fun accounted :: "CallbackNotifier \<times> callback list \<Rightarrow> bool" where
  "accounted (n, t) \<longleftrightarrow> given t = released t + mset (mCameraMemoryTs n)"

lemma balanced_Nil: "mCameraMemoryTs n' = mCameraMemoryTs n \<Longrightarrow> balanced n [] n'"
  by (simp add: balanced_def)

lemma error_balanced: "balanced n (CallbackNotifier_onCameraDeviceError n e) n"
  by (simp add: CallbackNotifier_onCameraDeviceError_def balanced_def)

lemma notifier_do_balanced: "notifier_do n e = Some (t, n') \<Longrightarrow> balanced n t n'"
  by (cases e) (auto intro: balanced_Nil error_balanced dest: notifier_frame_balanced release_balanced
    simp: setCallbacks_def enableMessage_def disableMessage_def enableVideoRecording_def disableVideoRecording_def
      storeMetaDataInBuffers_def cleanupCBNotifier_def setTakingPicture_def setJpegQuality_def split: if_splits)

interpretation notifier: step_system notifier_step accounted "\<lambda>_. True"
proof
  fix s e
  assume "accounted s"
  moreover obtain n t where "s = (n, t)" by (rule prod.exhaust)
  ultimately show "accounted (notifier_step s e)"
    using notifier_do_balanced [of n e] by (fastforce simp: balanced_def ac_simps split: option.split)
qed

text \<open>
  C16. Whatever happens, in any order: every buffer that the application has been given is either
  released, exactly once, or waits in the list of the recorder, and nothing else is released.
\<close>

theorem recorded_buffers_accounted:
  "given (snd (foldl notifier_step (new_CallbackNotifier, []) es))
   = released (snd (foldl notifier_step (new_CallbackNotifier, []) es))
     + mset (mCameraMemoryTs (fst (foldl notifier_step (new_CallbackNotifier, []) es)))"
proof -
  have "accounted (new_CallbackNotifier, [])" by (simp add: new_CallbackNotifier_def)
  then have "accounted (foldl notifier_step (new_CallbackNotifier, []) es)"
    by (rule notifier.run_inv) (simp add: list_all_iff)
  then show ?thesis by (cases "foldl notifier_step (new_CallbackNotifier, []) es") simp
qed

text \<open>
  A recorder that gives the buffer back before its callback returns gives it back in vain: the
  list has it only after the callback, and nothing releases it then.
\<close>

lemma early_release_lost:
  assumes "isMessageEnabled n CAMERA_MSG_VIDEO_FRAME" and "mVideoRecEnabled n"
    and "timestamp - mLastFrameTimestamp n \<ge> mFrameRefreshFreq n" and "mGetMemoryCB n" and "mDataCBTimestamp n"
    and "ca_video ans = Some b" and "ca_early ans = [b]" and "b \<notin> set (mCameraMemoryTs n)"
    and "unat k \<le> length bs"
  shows "\<exists>n'. video_part ans (Some bs) timestamp k n = Some ([DataTimestamp timestamp b (take (unat k) bs)], n')
    \<and> b \<in> set (mCameraMemoryTs n')"
  using assms by (simp add: video_part_def isNewVideoFrameTime_def frame_copy_def releaseRecordingFrame_def)

text \<open>Two frames that are recorded one after the other are as far apart as the rate asks for.\<close>

lemma recording_rate:
  assumes "isNewVideoFrameTime n ts1 = (True, n1)" and "isNewVideoFrameTime n1 ts2 = (True, n2)"
  shows "ts2 - ts1 \<ge> mFrameRefreshFreq n"
  using assms by (auto simp: isNewVideoFrameTime_def split: if_splits)

text \<open>A picture is taken once: the flag is gone after the frame, and the next frame makes none.\<close>

lemma picture_once:
  assumes "picture_part ans n = Some (t, n')"
  shows "\<not> mTakingPicture n' \<and> picture_part ans2 n' = Some ([], n')"
  using assms by (auto simp: picture_part_def Let_def split: if_splits option.splits)

end
