(* ===== verification/Spec2Isabelle.thy ===== *)
theory Spec2Isabelle
  imports GL2Uniforms GL1Properties GrallocSteps EGLProperties CameraProperties CameraShow
begin

text \<open>
  The guest side of the androVM virtual device: its graphics stack and its camera.

  \<^bold>\<open>The program.\<close> An Android guest in a virtual machine has no GPU. Its OpenGL ES and EGL libraries
  turn every call into packets of a byte stream, which a renderer on the host executes. The parts
  and their way through the code:

  \<^item> an application calls EGL (\<open>common/opengl/system/egl\<close>), which creates contexts and surfaces,
    and makes one context current per thread;
  \<^item> the thread's connection to the host (\<open>OpenglSystemCommon/HostConnection.cpp\<close>) owns a stream
    (\<open>SocketStream.cpp\<close>, \<open>QemuPipeStream.cpp\<close> over \<open>IOStream.h\<close>) and the two GL encoders, which
    \<open>eglMakeCurrent\<close> points at the client state and the shared group of the current context;
  \<^item> the encoders (\<open>GLESv1_enc/GLEncoder.cpp\<close>, \<open>GLESv2_enc/GL2Encoder.cpp\<close>) answer what the guest
    knows itself from the client state (\<open>GLClientState.cpp\<close>) and the objects shared by contexts
    (\<open>GLSharedGroup.cpp\<close>), and send the rest on; \<open>glUtils.cpp\<close> has the sizes and packing they use;
  \<^item> gralloc (\<open>gralloc/gralloc.cpp\<close>) allocates the buffers that windows consist of, shares them
    between processes and carries what the CPU has drawn to the host.

  Apart from these, the camera device (\<open>vbox86/camera/camera_vbox86\<close>: \<open>EmulatedCameraDevice.cpp\<close>,
  \<open>EmulatedGenyCameraDevice.cpp\<close>) asks a local service for frames (\<open>GenyClient.cpp\<close>, with the
  query object of \<open>QemuClient.cpp\<close>) from a worker thread, and converts them for the preview
  (\<open>Converters.cpp\<close>); \<open>PreviewWindow.cpp\<close> shows them and \<open>CallbackNotifier.cpp\<close> hands them to the
  application.

  \<^bold>\<open>Theories and sources.\<close> Definitions have the names of the functions they translate; \<open>map\<close> in
  the manifest gives the lines. Every theory opens with what it holds.

  \<^item> \<open>Prelude\<close>: the 32-bit machine types, C arithmetic, memory, binary search; the locale
    \<open>step_system\<close> that lifts an invariant from steps to runs. \<open>GL_Enums\<close>: enumerants.
  \<^item> \<open>GLUtils\<close>, \<open>GLClientState\<close>, \<open>FixedBuffer\<close>, \<open>GLSharedGroup\<close>: the files of these names in
    \<open>common/opengl/shared/OpenglCodecCommon\<close>. A class is a record with its fields, a method a
    function from record to record; \<open>KeyedVector\<close> is a map from names to objects.
  \<^item> \<open>IOStream\<close>: \<open>IOStream.h\<close>, \<open>SocketStream.cpp\<close>, \<open>QemuPipeStream.cpp\<close>; the kernel's answers
    to the system calls are a script in the state. \<open>HostConnection\<close>: \<open>HostConnection.cpp\<close>,
    \<open>ThreadInfo.cpp\<close> and the connecting half of \<open>TcpStream.cpp\<close>.
  \<^item> \<open>GLHost\<close>: the calls that cross the wire as a datatype, the host's answers as a record of
    functions of the calls so far, and the part of the host's GL state that the guest mirrors.
  \<^item> \<open>GL2Encoder\<close>: \<open>GL2Encoder.cpp\<close>, every entry point a function on the record \<open>encoder\<close> that
    appends to the trace of calls. \<open>GL2Coherence\<close>, \<open>GL2Steps\<close>: the relation between guest and
    host and its invariance over all entry points; \<open>GL2Properties\<close>, \<open>GL2Uniforms\<close>: what follows.
  \<^item> \<open>GL1Encoder\<close>, \<open>GL1Coherence\<close>, \<open>GL1Steps\<close>, \<open>GL1Properties\<close>: the same for \<open>GLEncoder.cpp\<close>.
    The rounds of the loops that send vertex arrays meet one contract, the locale \<open>array_sender\<close>,
    which is interpreted on the loops of both encoders.
  \<^item> \<open>GrallocList\<close>: the doubly linked list of buffers in an explicit store; \<open>Gralloc\<close>: the module;
    \<open>GrallocProperties\<close>, \<open>GrallocSteps\<close>: its guarantees, and runs over several processes.
  \<^item> \<open>EGLState\<close>, \<open>EGLSurface\<close>, \<open>EGLDisplay\<close>, \<open>EGL\<close>: objects at addresses in one map per class,
    threads, the display, and the entry points of \<open>egl.cpp\<close>, \<open>eglDisplay.cpp\<close> and
    \<open>ClientAPIExts.cpp\<close>. \<open>EGLFrame\<close>: what each entry point leaves alone; \<open>EGLSteps\<close>: the
    invariant over all threads and all calls (\<open>egl_does\<close>, \<open>egl_run\<close>); \<open>EGLStrings\<close>, \<open>EGLConfigs\<close>: the extension filter and the table of
    configurations; \<open>EGLProperties\<close>: the properties.
  \<^item> \<open>CameraConverters\<close>: \<open>Converters.h\<close> and \<open>Converters.cpp\<close>, with what each format becomes pixel
    by pixel. \<open>CameraClient\<close>: the query object and the client over a script of what the socket
    does; \<open>CameraMessages\<close>: messages in pieces, and the queries on top. \<open>CameraDevice\<close>: the device
    and its thread; \<open>CameraSteps\<close>: its operations as a step relation, with the locale
    \<open>client_query\<close> for what a query keeps; \<open>CameraCallbacks\<close>: the preview window and the
    callbacks, with traces of the calls they make; \<open>CameraProperties\<close>, \<open>CameraShow\<close>: the properties.

  \<^bold>\<open>What the lemmas show.\<close> Well-formedness invariants of the client state, the shared group, the
  streams, the buffers of a process, the objects of EGL and the camera, each kept by every operation and so
  true of every reachable state. Where the code gives up an invariant on a legal call, the call
  is part of the runs all the same: a run of EGL carries the contexts that a call has spoiled
  (\<open>spoils\<close>), a run of gralloc the ranges (\<open>spoils_ranges\<close>), a run of the shared group the
  history of its shaders (\<open>shader_history\<close>), and the invariant speaks of everything else. Coherence of guest and host: texture bindings, target enables,
  vertex arrays, buffer bindings. Refinements: the sorted texture table is a map, the stream is a
  queue, the linked list is a list. Round trips: uniform locations to the host and back, values to
  the locations that the host gave, colours to YUV and back. Delivery: a frame of the camera
  service reaches the preview however it is cut into pieces. Protocols: the buffers of the preview
  window and of the recorder go back once. Equivalences: packing on both branches, the in-place filter of
  extension names. Exact results and their bounds: reference counts, buffer updates, index windows, shader sources,
  regions large enough for images, rectangles sent to the host. Termination of the loops over
  system calls and of closing a device. And the cases in which the code breaks its contract, each
  with a run that shows it.

  \<^bold>\<open>Parameters.\<close> Code outside the repository is an argument: what the host answers (\<open>host\<close>,
  \<open>egl_env\<close>, \<open>gr_env\<close>, functions of the trace of calls), what the kernel does, what \<open>new\<close>,
  \<open>malloc\<close> and \<open>realloc\<close> return, what uninitialised memory holds, the floating-point operations.
  Hypotheses about them are documented behaviour (a kernel that maps what it is asked to map, a
  host that reports the uniforms of a program) and have witnesses with concrete functions.
  Undefined behaviour (a NULL or wild dereference, an access outside of an object) is \<open>None\<close> or
  \<open>Undefined\<close>, never an arbitrary value; calls that wait for the kernel for ever are \<open>Blocked\<close>.

  \<^bold>\<open>Bounds.\<close> \<open>GLuint\<close>, \<open>size_t\<close> and pointers are 32-bit words, \<open>int\<close> is an integer with \<open>i32\<close>
  where it wraps. No definition has fuel. Loops that may not end (packing with element size 0, the
  search of the buffer list, closing a gralloc device) are \<open>partial_function (option)\<close>, and that
  they return is proved where they do; loops over system calls consume a script of answers and are
  \<open>Blocked\<close> at its end (the camera client, whose socket has a time limit, fails there). Texture names are below \<open>2^31\<close> in
  the coherence invariants, because the table's comparison wraps beyond (a finding). Locks make
  one operation one step; the interleaving of threads is the interleaving of steps.

  \<^bold>\<open>Not modelled.\<close> The generated encoders and dispatch tables (\<open>gl_enc.cpp\<close>, \<open>gl2_enc.cpp\<close>,
  \<open>renderControl_enc.cpp\<close>, \<open>*_entry.cpp\<close>, \<open>*_client_context\<close>), whose functions are the calls of
  the model; the vendored VirtualBox runtime (\<open>vbox86/virtualbox\<close>), nine tenths of the lines of
  the repository; the C programs and modules (audio, GPS, input, mode setting, sockets); daemons,
  sensor and the camera HAL front ends, which consist of calls into the Android framework; transports that
  are not built for the guest; logging. The manifest lists each with its reason.
\<close>

end
